(* ===== verification/Prelude.thy ===== *)
theory Prelude
  imports Complex_Main
begin

text \<open>
  Shared material of the development: the result type of the use cases (a thrown exception or
  a value) with its sequencing operator, JavaScript's truthiness and coercion of optional
  numbers, and database tables as lists of rows behind the repository interface that the
  services program against.
\<close>

section \<open>Results\<close>

text \<open>
  A use case either throws (\<open>Inl\<close>) or returns (\<open>Inr\<close>). \<open>bindR m f\<close> is the sequencing of an
  \<open>await\<close>: an exception of \<open>m\<close> ends the use case, a value is passed on.
\<close>

named_theorems result_simps \<open>unfolding and inversion of result sequencing\<close>

definition bindR :: "'e + 'a \<Rightarrow> ('a \<Rightarrow> 'e + 'b) \<Rightarrow> 'e + 'b" where
  "bindR m f = (case m of Inl e \<Rightarrow> Inl e | Inr x \<Rightarrow> f x)"

lemma bindR_Inl [simp]: "bindR (Inl e) f = Inl e"
  by (simp add: bindR_def)

lemma bindR_Inr [simp]: "bindR (Inr x) f = f x"
  by (simp add: bindR_def)

lemma bindR_eq_Inr [result_simps]: "bindR m f = Inr y \<longleftrightarrow> (\<exists>x. m = Inr x \<and> f x = Inr y)"
  by (cases m) auto

lemma bindR_eq_Inl [result_simps]:
  "bindR m f = Inl e \<longleftrightarrow> m = Inl e \<or> (\<exists>x. m = Inr x \<and> f x = Inl e)"
  by (cases m) auto

lemma bindR_assoc: "bindR (bindR m f) g = bindR m (\<lambda>x. bindR (f x) g)"
  by (cases m) auto

lemma bindR_InrE [elim!]:
  assumes "bindR m f = Inr y"
  obtains x where "m = Inr x" and "f x = Inr y"
  using assms by (auto simp: result_simps)

definition throw_if :: "bool \<Rightarrow> 'e \<Rightarrow> 'e + unit" where
  "throw_if c e = (if c then Inl e else Inr ())"

lemma throw_if_Inr [result_simps]: "throw_if c e = Inr u \<longleftrightarrow> \<not> c"
  by (simp add: throw_if_def)

lemma throw_if_Inl [result_simps]: "throw_if c e = Inl e' \<longleftrightarrow> c \<and> e = e'"
  by (simp add: throw_if_def)

lemma throw_if_simps [simp]: "throw_if True e = Inl e" "throw_if False e = Inr ()"
  by (simp_all add: throw_if_def)

lemma if_Inl_eq_Inr [result_simps]:
  "(if c then Inl e else m) = Inr x \<longleftrightarrow> \<not> c \<and> m = Inr x"
  by simp

definition isInr :: "'e + 'a \<Rightarrow> bool" where
  "isInr m = (case m of Inl _ \<Rightarrow> False | Inr _ \<Rightarrow> True)"

lemma isInr_simps [simp]: "isInr (Inr x)" "\<not> isInr (Inl e)"
  by (simp_all add: isInr_def)

text \<open>The value of an optional lookup, or the exception thrown when it is missing.\<close>

definition orThrow :: "'a option \<Rightarrow> 'e \<Rightarrow> 'e + 'a" where
  "orThrow m e = (case m of None \<Rightarrow> Inl e | Some x \<Rightarrow> Inr x)"

lemma orThrow_simps [simp]: "orThrow None e = Inl e" "orThrow (Some x) e = Inr x"
  by (simp_all add: orThrow_def)

lemma orThrow_Inr [result_simps]: "orThrow m e = Inr x \<longleftrightarrow> m = Some x"
  by (cases m) auto

lemma orThrow_Inl [result_simps]: "orThrow m e = Inl e' \<longleftrightarrow> m = None \<and> e = e'"
  by (cases m) auto

text \<open>A \<open>for ... of\<close> loop whose body updates a state and may throw.\<close>

fun foldR :: "('x \<Rightarrow> 's \<Rightarrow> 'e + 's) \<Rightarrow> 'x list \<Rightarrow> 's \<Rightarrow> 'e + 's" where
  "foldR f [] s = Inr s"
| "foldR f (x # xs) s = bindR (f x s) (foldR f xs)"

lemma foldR_invariant:
  assumes "foldR f xs s = Inr s'" and "P s"
    and "\<And>x s s'. x \<in> set xs \<Longrightarrow> P s \<Longrightarrow> f x s = Inr s' \<Longrightarrow> P s'"
  shows "P s'"
  using assms
proof (induction xs arbitrary: s)
  case Nil
  then show ?case by simp
next
  case (Cons x xs)
  from Cons.prems(1) obtain s1 where s1: "f x s = Inr s1" and rest: "foldR f xs s1 = Inr s'"
    by auto
  from Cons.prems(2) s1 have "P s1" by (rule Cons.prems(3) [rotated]) simp
  with rest show ?case
    using Cons.IH Cons.prems(3) by (meson list.set_intros(2))
qed

lemma foldR_append: "foldR f (xs @ ys) s = bindR (foldR f xs s) (foldR f ys)"
  by (induction xs arbitrary: s) (auto simp: bindR_def split: sum.splits)

section \<open>Use cases with state\<close>

text \<open>
  A use case that changes state outside its database transaction too (redis, the fields of its
  instance) takes and returns the whole state, also when it throws: what was done before the
  exception stays done.
\<close>

type_synonym ('s, 'e, 'a) step = "'s \<Rightarrow> ('e + 'a) \<times> 's"

definition returnS :: "'a \<Rightarrow> ('s, 'e, 'a) step" where
  "returnS x s = (Inr x, s)"

definition throwS :: "'e \<Rightarrow> ('s, 'e, 'a) step" where
  "throwS e s = (Inl e, s)"

definition bindS :: "('s, 'e, 'a) step \<Rightarrow> ('a \<Rightarrow> ('s, 'e, 'b) step) \<Rightarrow> ('s, 'e, 'b) step" where
  "bindS m f s = (case m s of (Inl e, s') \<Rightarrow> (Inl e, s') | (Inr x, s') \<Rightarrow> f x s')"

definition modifyS :: "('s \<Rightarrow> 's) \<Rightarrow> ('s, 'e, unit) step" where
  "modifyS f s = (Inr (), f s)"

definition readS :: "('s \<Rightarrow> 'e + 'a) \<Rightarrow> ('s, 'e, 'a) step" where
  "readS f s = (f s, s)"

text \<open>\<open>try { m } catch (error) { h; throw error }\<close>\<close>

definition catchS :: "('s, 'e, 'a) step \<Rightarrow> ('s \<Rightarrow> 's) \<Rightarrow> ('s, 'e, 'a) step" where
  "catchS m h s = (case m s of (Inl e, s') \<Rightarrow> (Inl e, h s') | (Inr x, s') \<Rightarrow> (Inr x, s'))"

lemma bindS_Inr [result_simps]:
  "bindS m f s = (Inr y, s'') \<longleftrightarrow> (\<exists>x s'. m s = (Inr x, s') \<and> f x s' = (Inr y, s''))"
  by (auto simp: bindS_def split: prod.splits sum.splits)

lemma bindS_Inl [result_simps]:
  "bindS m f s = (Inl e, s'') \<longleftrightarrow>
     m s = (Inl e, s'') \<or> (\<exists>x s'. m s = (Inr x, s') \<and> f x s' = (Inl e, s''))"
  by (auto simp: bindS_def split: prod.splits sum.splits)

lemma returnS_eq [result_simps]: "returnS x s = (r, s') \<longleftrightarrow> r = Inr x \<and> s' = s"
  by (auto simp: returnS_def)

lemma throwS_eq [result_simps]: "throwS e s = (r, s') \<longleftrightarrow> r = Inl e \<and> s' = s"
  by (auto simp: throwS_def)

lemma modifyS_eq [result_simps]: "modifyS f s = (r, s') \<longleftrightarrow> r = Inr () \<and> s' = f s"
  by (auto simp: modifyS_def)

lemma readS_eq [result_simps]: "readS f s = (r, s') \<longleftrightarrow> f s = r \<and> s' = s"
  by (auto simp: readS_def)

lemma catchS_Inr [result_simps]: "catchS m h s = (Inr x, s') \<longleftrightarrow> m s = (Inr x, s')"
  by (auto simp: catchS_def split: prod.splits sum.splits)

lemma catchS_Inl [result_simps]:
  "catchS m h s = (Inl e, s') \<longleftrightarrow> (\<exists>s1. m s = (Inl e, s1) \<and> s' = h s1)"
  by (auto simp: catchS_def split: prod.splits sum.splits)

text \<open>A \<open>for ... of\<close> loop over a list.\<close>

fun foldS :: "('x \<Rightarrow> ('s, 'e, unit) step) \<Rightarrow> 'x list \<Rightarrow> ('s, 'e, unit) step" where
  "foldS f [] = returnS ()"
| "foldS f (x # xs) = bindS (f x) (\<lambda>_. foldS f xs)"

lemma foldS_append: "foldS f (xs @ ys) s = bindS (foldS f xs) (\<lambda>_. foldS f ys) s"
  by (induction xs arbitrary: s)
    (auto simp: bindS_def returnS_def split: prod.splits sum.splits)

lemma foldS_keeps:
  assumes "foldS f xs s = (r, s')" and "P s"
    and "\<And>x s r s'. x \<in> set xs \<Longrightarrow> P s \<Longrightarrow> f x s = (r, s') \<Longrightarrow> P s'"
  shows "P s'"
  using assms
proof (induction xs arbitrary: s)
  case Nil
  then show ?case by (simp add: returnS_def)
next
  case (Cons x xs)
  obtain r1 s1 where 1: "f x s = (r1, s1)" by fastforce
  with Cons.prems have "P s1" by (meson list.set_intros(1))
  show ?case
  proof (cases r1)
    case (Inl e)
    with 1 Cons.prems(1) \<open>P s1\<close> show ?thesis by (simp add: bindS_def)
  next
    case (Inr u)
    with 1 Cons.prems(1) have "foldS f xs s1 = (r, s')" by (simp add: bindS_def)
    from Cons.IH [OF this \<open>P s1\<close>] Cons.prems(3) show ?thesis by (meson list.set_intros(2))
  qed
qed

text \<open>Running a step on a known outcome, for evaluation.\<close>

lemma bindS_run: "m s = (Inr x, s') \<Longrightarrow> bindS m f s = f x s'"
  by (simp add: bindS_def)

lemma bindS_assoc: "bindS (bindS m k) f = bindS m (\<lambda>x. bindS (k x) f)"
  by (rule ext) (auto simp: bindS_def split: prod.splits sum.splits)

lemma step_run [simp]:
  "bindS (returnS x) f s = f x s" "bindS (throwS e) f s = (Inl e, s)"
  "bindS (modifyS g) f s = f () (g s)"
  "bindS (bindS m k) f s = bindS m (\<lambda>x. bindS (k x) f) s"
  by (auto simp: bindS_def returnS_def throwS_def modifyS_def split: prod.splits sum.splits)

text \<open>
  Partial-exception specifications of steps: from a state with \<open>P\<close>, a return establishes \<open>Q\<close> of the
  value and the state, an exception establishes \<open>E\<close> of the state.
\<close>

definition valid :: "('s \<Rightarrow> bool) \<Rightarrow> ('s, 'e, 'a) step \<Rightarrow> ('a \<Rightarrow> 's \<Rightarrow> bool) \<Rightarrow> ('s \<Rightarrow> bool) \<Rightarrow> bool" where
  "valid P f Q E \<longleftrightarrow>
     (\<forall>s. P s \<longrightarrow> (case f s of (Inl e, s') \<Rightarrow> E s' | (Inr x, s') \<Rightarrow> Q x s'))"

lemma valid_use:
  assumes "valid P f (\<lambda>_. I) I" and "P s" and "f s = (r, s')"
  shows "I s'"
  using assms by (auto simp: valid_def split: sum.splits dest!: spec [of _ s])

lemma valid_bindS:
  assumes "valid P m R E" and "\<And>x. valid (R x) (f x) Q E"
  shows "valid P (bindS m f) Q E"
  using assms unfolding valid_def bindS_def
  by (fastforce split: prod.splits sum.splits)

lemma valid_returnS: "valid (Q x) (returnS x) Q E"
  by (simp add: valid_def returnS_def)

lemma valid_throwS: "valid E (throwS e) Q E"
  by (simp add: valid_def throwS_def)

lemma valid_readS:
  assumes "\<And>s x. P s \<Longrightarrow> Q x s" "\<And>s. P s \<Longrightarrow> E s"
  shows "valid P (readS f) Q E"
  using assms by (auto simp: valid_def readS_def split: sum.splits)

lemma valid_modifyS: "(\<And>s. P s \<Longrightarrow> Q () (g s)) \<Longrightarrow> valid P (modifyS g) Q E"
  by (simp add: valid_def modifyS_def)

lemma valid_catchS:
  assumes "valid P m Q (\<lambda>s. E (h s))"
  shows "valid P (catchS m h) Q E"
  using assms by (fastforce simp: valid_def catchS_def split: prod.splits sum.splits)

lemma valid_weaken:
  assumes "valid P f Q E" and "\<And>s. P' s \<Longrightarrow> P s" and "\<And>x s. Q x s \<Longrightarrow> Q' x s"
    and "\<And>s. E s \<Longrightarrow> E' s"
  shows "valid P' f Q' E'"
  using assms by (fastforce simp: valid_def split: prod.splits sum.splits)

text \<open>A predicate on the state that a step keeps, whether it returns or throws.\<close>

abbreviation keeps :: "('s, 'e, 'a) step \<Rightarrow> ('s \<Rightarrow> bool) \<Rightarrow> bool" where
  "keeps f I \<equiv> valid I f (\<lambda>_. I) I"

lemma keeps_bindS: "keeps m I \<Longrightarrow> (\<And>x. keeps (f x) I) \<Longrightarrow> keeps (bindS m f) I"
  by (rule valid_bindS)

lemma keeps_basic [simp, intro]:
  "keeps (returnS x) I" "keeps (throwS e) I" "keeps (readS g) I"
  by (auto intro: valid_returnS valid_throwS valid_readS)

section \<open>Optional numbers of JavaScript\<close>

text \<open>
  \<open>x && ...\<close> tests truthiness: \<open>null\<close> and \<open>0\<close> are false. A comparison coerces \<open>null\<close> to 0.
\<close>

definition truthy :: "int option \<Rightarrow> bool" where
  "truthy x = (case x of None \<Rightarrow> False | Some v \<Rightarrow> v \<noteq> 0)"

definition toNum :: "int option \<Rightarrow> int" where
  "toNum x = (case x of None \<Rightarrow> 0 | Some v \<Rightarrow> v)"

lemma truthy_simps [simp]: "truthy (Some v) = (v \<noteq> 0)" "\<not> truthy None"
  by (simp_all add: truthy_def)

lemma toNum_simps [simp]: "toNum (Some v) = v" "toNum None = 0"
  by (simp_all add: toNum_def)

lemma truthy_toNum: "truthy x \<longleftrightarrow> toNum x \<noteq> 0"
  by (cases x) auto

text \<open>A missing name for an input field check: the field is listed when it is falsy.\<close>

definition missing :: "bool \<Rightarrow> string \<Rightarrow> string list" where
  "missing c name = (if c then [name] else [])"

lemma missing_simps [simp]: "missing True n = [n]" "missing False n = []"
  by (simp_all add: missing_def)

section \<open>Tables and the repository interface\<close>

text \<open>
  A table is the list of its rows. \<open>tbl_find\<close> is \<open>findOne\<close> by primary key, \<open>tbl_update\<close> is
  \<open>update(row, { where: { id } })\<close>, \<open>tbl_create\<close> is an insert, which the primary key makes fail
  when the key is taken.
\<close>

definition tbl_find :: "('r \<Rightarrow> 'k) \<Rightarrow> 'k \<Rightarrow> 'r list \<Rightarrow> 'r option" where
  "tbl_find key k t = find (\<lambda>r. key r = k) t"

definition tbl_update :: "('r \<Rightarrow> 'k) \<Rightarrow> 'r \<Rightarrow> 'r list \<Rightarrow> 'r list" where
  "tbl_update key r t = map (\<lambda>x. if key x = key r then r else x) t"

definition tbl_insert :: "'r \<Rightarrow> 'r list \<Rightarrow> 'r list" where
  "tbl_insert r t = t @ [r]"

definition tbl_create :: "('r \<Rightarrow> 'k) \<Rightarrow> 'e \<Rightarrow> 'r \<Rightarrow> 'r list \<Rightarrow> 'e + 'r list" where
  "tbl_create key e r t =
     (if tbl_find key (key r) t = None then Inr (tbl_insert r t) else Inl e)"

definition tbl_wf :: "('r \<Rightarrow> 'k) \<Rightarrow> 'r list \<Rightarrow> bool" where
  "tbl_wf key t = distinct (map key t)"

definition tbl_total :: "('r \<Rightarrow> int) \<Rightarrow> 'r list \<Rightarrow> int" where
  "tbl_total f t = sum_list (map f t)"

lemma tbl_find_Nil [simp]: "tbl_find key k [] = None"
  by (simp add: tbl_find_def)

lemma tbl_find_Cons [simp]:
  "tbl_find key k (r # t) = (if key r = k then Some r else tbl_find key k t)"
  by (simp add: tbl_find_def)

lemma tbl_find_SomeD: "tbl_find key k t = Some r \<Longrightarrow> key r = k \<and> r \<in> set t"
  by (auto simp: tbl_find_def find_Some_iff)

lemma tbl_find_None_iff: "tbl_find key k t = None \<longleftrightarrow> k \<notin> key ` set t"
  by (auto simp: tbl_find_def find_None_iff)

lemma tbl_find_member: "tbl_wf key t \<Longrightarrow> r \<in> set t \<Longrightarrow> tbl_find key (key r) t = Some r"
  by (induction t) (auto simp: tbl_wf_def)

lemma tbl_find_update:
  "tbl_find key k (tbl_update key r t) =
     (if k = key r then (if tbl_find key k t = None then None else Some r)
      else tbl_find key k t)"
  by (induction t) (auto simp: tbl_update_def)

lemma tbl_find_insert:
  "tbl_find key k (tbl_insert r t) =
     (case tbl_find key k t of Some x \<Rightarrow> Some x | None \<Rightarrow> if key r = k then Some r else None)"
  by (induction t) (auto simp: tbl_insert_def)

lemma map_key_update: "map key (tbl_update key r t) = map key t"
  by (induction t) (auto simp: tbl_update_def)

lemma tbl_wf_update: "tbl_wf key t \<Longrightarrow> tbl_wf key (tbl_update key r t)"
  by (simp add: tbl_wf_def map_key_update)

lemma tbl_wf_insert:
  "tbl_wf key t \<Longrightarrow> tbl_find key (key r) t = None \<Longrightarrow> tbl_wf key (tbl_insert r t)"
  by (auto simp: tbl_wf_def tbl_insert_def tbl_find_None_iff)

lemma tbl_total_insert [simp]: "tbl_total f (tbl_insert r t) = tbl_total f t + f r"
  by (simp add: tbl_total_def tbl_insert_def)

lemma tbl_total_Nil [simp]: "tbl_total f [] = 0"
  by (simp add: tbl_total_def)

lemma tbl_total_Cons [simp]: "tbl_total f (r # t) = f r + tbl_total f t"
  by (simp add: tbl_total_def)

lemma tbl_update_absent: "tbl_find key (key r) t = None \<Longrightarrow> tbl_update key r t = t"
  by (induction t) (auto simp: tbl_update_def split: if_splits)

lemma tbl_total_update:
  assumes "tbl_wf key t" and "tbl_find key (key r) t = Some old"
  shows "tbl_total f (tbl_update key r t) = tbl_total f t - f old + f r"
  using assms
proof (induction t)
  case Nil
  then show ?case by simp
next
  case (Cons x t)
  show ?case
  proof (cases "key x = key r")
    case True
    with Cons.prems have "tbl_find key (key r) t = None" and "x = old"
      by (auto simp: tbl_wf_def tbl_find_None_iff)
    then have "tbl_update key r t = t" by (simp add: tbl_update_absent)
    with True \<open>x = old\<close> show ?thesis by (simp add: tbl_update_def)
  next
    case False
    with Cons have "tbl_total f (tbl_update key r t) = tbl_total f t - f old + f r"
      by (simp add: tbl_wf_def)
    with False show ?thesis by (simp add: tbl_update_def)
  qed
qed

text \<open>Two states of a table, related row by row, stay related when one row is written.\<close>

lemma list_all2_tbl_update:
  assumes wf: "tbl_wf key t0" and rel: "list_all2 R t0 t"
    and key: "\<And>x y. R x y \<Longrightarrow> key y = key x"
    and x0: "x0 \<in> set t0" "key r = key x0" "R x0 r"
  shows "list_all2 R t0 (tbl_update key r t)"
  using rel unfolding tbl_update_def list_all2_map2
proof (rule list.rel_mono_strong)
  fix x y
  assume "x \<in> set t0" and "R x y"
  moreover have "x = x0" if "key x = key x0"
    using that \<open>x \<in> set t0\<close> x0(1) wf by (auto simp: tbl_wf_def distinct_map dest: inj_onD)
  ultimately show "R x (if key y = key r then r else y)"
    using key x0(2,3) by auto
qed

text \<open>
  The interface of a repository class (\<open>getById\<close>, \<open>update\<close>, \<open>create\<close>) as the use cases rely on
  it. \<open>wf\<close> is the primary key constraint and \<open>total\<close> an aggregate over the rows.
\<close>

locale repository =
  fixes key :: "'r \<Rightarrow> 'k"
    and getById :: "'k \<Rightarrow> 't \<Rightarrow> 'r option"
    and update :: "'r \<Rightarrow> 't \<Rightarrow> 't"
    and insert :: "'r \<Rightarrow> 't \<Rightarrow> 't"
    and total :: "('r \<Rightarrow> int) \<Rightarrow> 't \<Rightarrow> int"
    and wf :: "'t \<Rightarrow> bool"
  assumes key_get: "getById k t = Some r \<Longrightarrow> key r = k"
    and get_update: "getById k (update r t) =
      (if k = key r then (if getById k t = None then None else Some r) else getById k t)"
    and get_insert: "getById (key r) t = None \<Longrightarrow>
      getById k (insert r t) = (if k = key r then Some r else getById k t)"
    and wf_update: "wf t \<Longrightarrow> wf (update r t)"
    and wf_insert: "wf t \<Longrightarrow> getById (key r) t = None \<Longrightarrow> wf (insert r t)"
    and total_update: "wf t \<Longrightarrow> getById (key r) t = Some old \<Longrightarrow>
      total f (update r t) = total f t - f old + f r"
    and total_insert: "total f (insert r t) = total f t + f r"
begin

lemma get_update_same: "getById (key r) t = Some old \<Longrightarrow> getById (key r) (update r t) = Some r"
  by (simp add: get_update)

lemma get_update_other: "k \<noteq> key r \<Longrightarrow> getById k (update r t) = getById k t"
  by (simp add: get_update)

lemma get_update_exists: "getById k (update r t) = None \<longleftrightarrow> getById k t = None"
  by (simp add: get_update)

lemma update_key: "getById k t = Some old \<Longrightarrow> key r = key old \<Longrightarrow> getById k (update r t) = Some r"
  using key_get [of k t old] by (simp add: get_update)

lemma total_update_at:
  "wf t \<Longrightarrow> getById k t = Some old \<Longrightarrow> key r = key old \<Longrightarrow>
    total f (update r t) = total f t - f old + f r"
  using key_get [of k t old] by (simp add: total_update)

text \<open>A row rewritten without changing the aggregated quantity leaves the aggregate alone.\<close>

lemma total_update_neutral:
  "wf t \<Longrightarrow> getById k t = Some old \<Longrightarrow> key r = key old \<Longrightarrow> f r = f old \<Longrightarrow>
    total f (update r t) = total f t"
  by (simp add: total_update_at)

text \<open>Moving an amount from one row to another keeps the aggregate.\<close>

lemma total_transfer:
  assumes "wf t" and "getById k t = Some a" and "key a' = key a" and "f a' = f a - v"
    and "getById k' (update a' t) = Some b" and "key b' = key b" and "f b' = f b + v"
  shows "total f (update b' (update a' t)) = total f t"
proof -
  have "total f (update a' t) = total f t - v"
    using total_update_at [OF assms(1,2,3)] assms(4) by simp
  moreover have "total f (update b' (update a' t)) = total f (update a' t) + v"
    using total_update_at [OF wf_update [OF assms(1)] assms(5,6)] assms(7) by simp
  ultimately show ?thesis by simp
qed

end

text \<open>Every list table is a repository.\<close>

lemma list_table_repository:
  "repository key (tbl_find key) (tbl_update key) tbl_insert tbl_total (tbl_wf key)"
proof
qed (auto simp: tbl_find_update tbl_find_insert tbl_wf_update tbl_wf_insert tbl_total_update
    dest: tbl_find_SomeD split: option.splits)

text \<open>
  A system whose requests move the rows of a table: whatever relates a row before and after one
  request, reflexively and transitively, relates it before and after every sequence of requests.
\<close>

locale lifecycle =
  fixes request :: "'w \<Rightarrow> 'w \<Rightarrow> bool"
    and lookup :: "'k \<Rightarrow> 'w \<Rightarrow> 'r option"
    and wf :: "'w \<Rightarrow> bool"
    and rel :: "'r \<Rightarrow> 'r \<Rightarrow> bool"
  assumes wf_request: "wf w \<Longrightarrow> request w w' \<Longrightarrow> wf w'"
    and rel_request: "wf w \<Longrightarrow> request w w' \<Longrightarrow> lookup k w = Some r \<Longrightarrow>
      \<exists>r'. lookup k w' = Some r' \<and> rel r r'"
    and rel_refl: "rel r r"
    and rel_trans: "rel r r' \<Longrightarrow> rel r' r'' \<Longrightarrow> rel r r''"
begin

lemma run_wf: "request\<^sup>*\<^sup>* w w' \<Longrightarrow> wf w \<Longrightarrow> wf w'"
  by (induction rule: rtranclp_induct) (auto intro: wf_request)

lemma run_rel:
  assumes "request\<^sup>*\<^sup>* w w'" and "wf w" and "lookup k w = Some r"
  shows "\<exists>r'. lookup k w' = Some r' \<and> rel r r'"
  using assms(1)
proof (induction rule: rtranclp_induct)
  case base
  with assms(3) rel_refl show ?case by blast
next
  case (step y z)
  with run_wf [OF step(1) assms(2)] show ?case by (blast dest: rel_request rel_trans)
qed

end

end
