(* ===== verification/Operations_Domain.thy ===== *)
theory Operations_Domain
  imports Prelude
begin

text \<open>
  The domain of the operations service (apps/operations/src/domain): its enums as datatypes, its
  entities as records, the exceptions its use cases throw, the tables of its database and the
  queries of its repositories. Money is an integer number of cents, as in the code; identifiers
  are strings (uuids) or naturals (serial ids); times are integers, milliseconds since the epoch.
  Associations (an operation's wallet account, a user limit's limit type) are kept by id, as the
  models store them.
\<close>

section \<open>Enums\<close>

datatype operation_state = ACCEPTED | DECLINED | UNDONE | PENDING | REVERTED

datatype operation_analysis_tag =
    DATE_LIMIT_INCLUDED
  | DAILY_INTERVAL_LIMIT_INCLUDED
  | MONTHLY_INTERVAL_LIMIT_INCLUDED
  | ANNUAL_INTERVAL_LIMIT_INCLUDED

definition getOperationLimitCheckStates :: "operation_state list" where
  "getOperationLimitCheckStates = [ACCEPTED, PENDING]"

datatype wallet_account_state = WA_PENDING | WA_ACTIVE | WA_DEACTIVATE

datatype wallet_state = W_PENDING | W_ACTIVE | W_DEACTIVATE

datatype wallet_account_transaction_type = CREDIT | DEBIT

datatype transaction_type_participants = P_BOTH | P_OWNER | P_BENEFICIARY

datatype limit_type_period_start = PS_DATE | PS_INTERVAL

datatype limit_type_check = CHECK_OWNER | CHECK_BENEFICIARY | CHECK_BOTH

datatype currency_state = C_ACTIVE | C_DEACTIVATE

datatype currency_type = FIAT | CRYPTO | FAN_TOKEN | DIGITAL_ASSET | UTILITY_TOKEN | DEFI

section \<open>Entities\<close>

record user =
  user_id :: nat
  user_uuid :: string

record currency =
  cur_id :: nat
  cur_symbol :: string
  cur_tag :: string
  cur_decimal :: nat
  cur_state :: currency_state
  cur_type :: currency_type

definition currency_isActive :: "currency \<Rightarrow> bool" where
  "currency_isActive c \<longleftrightarrow> cur_state c = C_ACTIVE"

record wallet =
  w_id :: nat
  w_uuid :: string
  w_user :: user
  w_name :: string
  w_state :: wallet_state
  w_default :: bool

definition wallet_isActive :: "wallet \<Rightarrow> bool" where
  "wallet_isActive w \<longleftrightarrow> w_state w = W_ACTIVE"

record wallet_account =
  wa_id :: nat
  wa_uuid :: string
  wa_wallet :: string
  wa_currency :: nat
  balance :: int
  pendingAmount :: int
  averagePrice :: int
  wa_state :: wallet_account_state

definition wallet_account_isActive :: "wallet_account \<Rightarrow> bool" where
  "wallet_account_isActive a \<longleftrightarrow> wa_state a = WA_ACTIVE"

text \<open>The state column of a transaction type is free text that the code checks against the enum.\<close>

record transaction_type =
  tt_id :: nat
  tt_tag :: string
  tt_participants :: transaction_type_participants
  tt_state :: string
  tt_limitType :: "nat option"

definition transactionTypeStates :: "string list" where
  "transactionTypeStates = [''active'', ''deactivate'']"

definition transaction_type_isActive :: "transaction_type \<Rightarrow> bool" where
  "transaction_type_isActive t \<longleftrightarrow> tt_state t = ''active''"

definition isBothParticipantsRequired :: "transaction_type \<Rightarrow> bool" where
  "isBothParticipantsRequired t \<longleftrightarrow> tt_participants t = P_BOTH"

definition isOwnerParticipantsRequired :: "transaction_type \<Rightarrow> bool" where
  "isOwnerParticipantsRequired t \<longleftrightarrow> tt_participants t = P_OWNER"

definition isBeneficiaryParticipantsRequired :: "transaction_type \<Rightarrow> bool" where
  "isBeneficiaryParticipantsRequired t \<longleftrightarrow> tt_participants t = P_BENEFICIARY"

record limit_type =
  lt_id :: nat
  lt_tag :: string
  lt_currency :: "nat option"
  lt_transactionTypes :: "nat list"
  lt_periodStart :: limit_type_period_start
  lt_check :: limit_type_check

text \<open>
  The limit fields shared by a user's limit and the global default it is copied from. A nullable
  column is an option.
\<close>

record limit_values =
  nightlyLimit :: "int option"
  dailyLimit :: int
  monthlyLimit :: int
  yearlyLimit :: int
  maxAmount :: "int option"
  minAmount :: "int option"
  maxAmountNightly :: "int option"
  minAmountNightly :: "int option"
  userMaxAmount :: "int option"
  userMinAmount :: "int option"
  userMaxAmountNightly :: "int option"
  userMinAmountNightly :: "int option"
  userNightlyLimit :: "int option"
  userDailyLimit :: "int option"
  userMonthlyLimit :: "int option"
  userYearlyLimit :: "int option"
  nighttimeStart :: "string option"
  nighttimeEnd :: "string option"

record user_limit = limit_values +
  ul_id :: string
  ul_user :: nat
  ul_limitType :: nat
  creditBalance :: int

record global_limit = limit_values +
  gl_limitType :: nat

record user_limit_tracker =
  ult_id :: string
  ult_userLimit :: string
  ult_periodStart :: limit_type_period_start
  usedDailyLimit :: int
  usedMonthlyLimit :: int
  usedAnnualLimit :: int
  usedNightlyLimit :: int
  ult_updatedAt :: int

record used_limit =
  used_nightly :: int
  used_daily :: int
  used_monthly :: int
  used_yearly :: int

record operation =
  op_id :: string
  op_owner :: "nat option"
  ownerWalletAccount :: "nat option"
  op_beneficiary :: "nat option"
  beneficiaryWalletAccount :: "nat option"
  op_transactionType :: nat
  op_currency :: nat
  rawValue :: int
  fee :: int
  op_value :: int
  op_description :: string
  operationRef :: "string option"
  op_state :: operation_state
  createdAt :: int
  revertedAt :: "int option"
  ownerRequestedRawValue :: "int option"
  ownerRequestedFee :: "int option"
  analysisTags :: "operation_analysis_tag list"
  op_userLimitTracker :: "string option"

definition isPending :: "operation \<Rightarrow> bool" where
  "isPending p \<longleftrightarrow> op_state p = PENDING"

definition isAccepted :: "operation \<Rightarrow> bool" where
  "isAccepted p \<longleftrightarrow> op_state p = ACCEPTED"

definition isReverted :: "operation \<Rightarrow> bool" where
  "isReverted p \<longleftrightarrow> op_state p = REVERTED"

record wallet_account_transaction =
  wat_walletAccount :: nat
  wat_operation :: string
  wat_type :: wallet_account_transaction_type
  wat_value :: int
  previousBalance :: int
  updatedBalance :: int

text \<open>A movement of a wallet account announced in redis before its transaction commits.\<close>

record pending_transaction =
  ptx_operation :: string
  ptx_walletAccount :: nat
  ptx_value :: int
  ptx_ttl :: "int option"

record stream_quotation =
  sq_base :: string
  sq_quote :: string
  sq_priority :: int
  sq_price :: rat

section \<open>Exceptions\<close>

text \<open>The exceptions of the updates of user limits carry the rejected and the conflicting amount.\<close>

datatype user_limit_exn =
    DailyLimitExceededException int int
  | MonthlyLimitExceededException int int
  | YearlyLimitExceededException int int
  | NightlyLimitExceededException int int
  | MaxAmountLimitExceededException int int
  | MaxAmountNightlyLimitExceededException int int
  | MinAmountLimitBelowException int int
  | MinAmountNightlyLimitBelowException int int
  | NighttimeIntervalInvalidException "string option" "string option"
  | YearlyLimitUnderMonthlyException int int
  | MonthlyLimitAboveYearlyException int int
  | MonthlyLimitUnderDailyException int int
  | DailyLimitAboveMonthlyException int int
  | DailyLimitUnderMaxAmountException int int
  | NightlyLimitAboveDailyException int int
  | NightlyLimitUnderMaxAmountNightlyException int int
  | MaxAmountLimitAboveDailyException int int
  | MaxAmountLimitUnderMinAmountException int int
  | MinAmountLimitAboveMaxAmountException int int
  | MinAmountLimitUnderZeroException int
  | MaxAmountNightlyLimitAboveNightlyException int int
  | MaxAmountNightlyLimitUnderMinAmountNightlyException int int
  | MinAmountNightlyLimitAboveMaxAmountException int int
  | MinAmountNightlyLimitUnderZeroException int

datatype exn =
    MissingDataException "string list"
  | InvalidDataFormatException "string list"
  | DataException "string list"
  | ForbiddenException
  | TransactionTypeTagNotFoundException string
  | TransactionTypeNotActiveException string
  | CurrencyNotFoundException string
  | CurrencyNotActiveException string
  | WalletNotFoundException string
  | WalletNotActiveException string
  | WalletAccountNotFoundException
  | WalletAccountNotActiveException nat
  | NotEnoughFundsException nat int
  | NotEnoughLimitException int
  | NotEnoughAvailableLimitException used_limit int
  | ValueAboveMaxAmountLimitException int
  | ValueUnderMinAmountLimitException int
  | ValueAboveMaxAmountNightlyLimitException int
  | ValueUnderMinAmountNightlyLimitException int
  | StreamQuotationNotFoundException string
  | OperationNotFoundException string
  | OperationInvalidStateException operation_state
  | UserLimitNotFoundException string
  | UserLimitTrackerNotFoundException string
  | UserLimitException user_limit_exn
  | UniqueConstraintError
  | TypeError

section \<open>The database and the repositories\<close>

text \<open>Events fired by a use case wait in the outbox until its transaction commits.\<close>

datatype event =
    PendingOperation "operation option" "operation option"
  | AcceptedOperation "operation option" "operation option"
  | RevertedOperation "operation option" "operation option"
  | CreatedUserLimit string
  | UpdatedUserLimit string

record db =
  currencies :: "currency list"
  wallets :: "wallet list"
  walletAccounts :: "wallet_account list"
  transactionTypes :: "transaction_type list"
  operations :: "operation list"
  walletAccountTransactions :: "wallet_account_transaction list"
  limitTypes :: "limit_type list"
  userLimits :: "user_limit list"
  globalLimits :: "global_limit list"
  userLimitTrackers :: "user_limit_tracker list"
  outbox :: "event list"

text \<open>Redis: the announced movements and the last quotations.\<close>

record redis =
  pendingTransactions :: "pending_transaction list"
  streamQuotations :: "stream_quotation list"

type_synonym 'a uc = "exn + 'a"

definition emit :: "event \<Rightarrow> db \<Rightarrow> db" where
  "emit e d = d\<lparr>outbox := outbox d @ [e]\<rparr>"

text \<open>
  \<open>OperationEventEmitterController\<close> (apps/operations/src/interface/events/operation.emitter.ts)
  builds the event from the operations; the item's validator throws when an amount is negative or
  the description too long. The shape of identifiers is validated with the requests already and is
  not tested again here. The exception names the offending fields.
\<close>

definition OperationItemControllerEvent :: "operation option \<Rightarrow> unit uc" where
  "OperationItemControllerEvent x = (case x of
     None \<Rightarrow> Inr ()
   | Some p \<Rightarrow>
       (let bad = missing (rawValue p < 0) ''rawValue'' @ missing (fee p < 0) ''fee''
              @ missing (op_value p < 0) ''value''
              @ missing (toNum (ownerRequestedRawValue p) < 0) ''ownerRequestedRawValue''
              @ missing (toNum (ownerRequestedFee p) < 0) ''ownerRequestedFee''
              @ missing (255 < length (op_description p)) ''description''
        in if bad = [] then Inr () else Inl (InvalidDataFormatException bad)))"

definition emitOperationEvent ::
    "(operation option \<Rightarrow> operation option \<Rightarrow> event) \<Rightarrow> operation option \<Rightarrow> operation option
     \<Rightarrow> db \<Rightarrow> db uc" where
  "emitOperationEvent ev ownerOp beneficiaryOp d =
     bindR (OperationItemControllerEvent ownerOp) (\<lambda>_.
     bindR (OperationItemControllerEvent beneficiaryOp) (\<lambda>_.
     Inr (emit (ev ownerOp beneficiaryOp) d)))"

definition event_ok :: "operation \<Rightarrow> bool" where
  "event_ok p \<longleftrightarrow> 0 \<le> rawValue p \<and> 0 \<le> fee p \<and> 0 \<le> op_value p
     \<and> 0 \<le> toNum (ownerRequestedRawValue p) \<and> 0 \<le> toNum (ownerRequestedFee p)
     \<and> length (op_description p) \<le> 255"

lemma missing_Nil [simp]: "missing c n = [] \<longleftrightarrow> \<not> c"
  by (simp add: missing_def)

lemma OperationItemControllerEvent_Inr [result_simps]:
  "OperationItemControllerEvent x = Inr u \<longleftrightarrow> (\<forall>p. x = Some p \<longrightarrow> event_ok p)"
  by (auto simp: OperationItemControllerEvent_def event_ok_def Let_def not_less split: option.splits)

lemma emitOperationEvent_Inr [result_simps]:
  "emitOperationEvent ev x y d = Inr d' \<longleftrightarrow>
     (\<forall>p. x = Some p \<longrightarrow> event_ok p) \<and> (\<forall>p. y = Some p \<longrightarrow> event_ok p) \<and> d' = emit (ev x y) d"
  by (auto simp: emitOperationEvent_def result_simps)

lemma emitOperationEvent_ok:
  assumes "case x of None \<Rightarrow> True | Some p \<Rightarrow> event_ok p"
    and "case y of None \<Rightarrow> True | Some p \<Rightarrow> event_ok p"
  shows "emitOperationEvent ev x y d = Inr (emit (ev x y) d)"
  using assms by (auto simp: emitOperationEvent_Inr)

subsection \<open>Currencies, wallets, transaction types\<close>

definition CurrencyRepository_getByTag :: "string \<Rightarrow> db \<Rightarrow> currency option" where
  "CurrencyRepository_getByTag t d = find (\<lambda>c. cur_tag c = t) (currencies d)"

definition CurrencyRepository_getBySymbol :: "string \<Rightarrow> db \<Rightarrow> currency option" where
  "CurrencyRepository_getBySymbol s d = find (\<lambda>c. cur_symbol c = s) (currencies d)"

definition WalletRepository_getByUuid :: "string \<Rightarrow> db \<Rightarrow> wallet option" where
  "WalletRepository_getByUuid u d = find (\<lambda>w. w_uuid w = u) (wallets d)"

definition TransactionTypeRepository_getByTag :: "string \<Rightarrow> db \<Rightarrow> transaction_type option" where
  "TransactionTypeRepository_getByTag t d = find (\<lambda>x. tt_tag x = t) (transactionTypes d)"

subsection \<open>Wallet accounts\<close>

definition WalletAccountRepository_getById :: "nat \<Rightarrow> db \<Rightarrow> wallet_account option" where
  "WalletAccountRepository_getById i d = tbl_find wa_id i (walletAccounts d)"

definition WalletAccountRepository_update :: "wallet_account \<Rightarrow> db \<Rightarrow> db" where
  "WalletAccountRepository_update a d = d\<lparr>walletAccounts := tbl_update wa_id a (walletAccounts d)\<rparr>"

definition WalletAccountRepository_getByWalletAndCurrency ::
    "wallet \<Rightarrow> currency \<Rightarrow> db \<Rightarrow> wallet_account option" where
  "WalletAccountRepository_getByWalletAndCurrency w c d =
     find (\<lambda>a. wa_currency a = cur_id c \<and> wa_wallet a = w_uuid w) (walletAccounts d)"

text \<open>
  The table wallet_account_caches mirrors Wallet_accounts through a trigger, so its reads are
  reads of the accounts, here joined with their wallet and currency.
\<close>

definition WalletAccountCacheRepository_getAllByUser ::
    "user \<Rightarrow> db \<Rightarrow> (wallet_account \<times> currency) list" where
  "WalletAccountCacheRepository_getAllByUser u d =
     [(a, c). a \<leftarrow> walletAccounts d, w \<leftarrow> wallets d, c \<leftarrow> currencies d,
        w_uuid w = wa_wallet a \<and> user_uuid (w_user w) = user_uuid u \<and> cur_id c = wa_currency a]"

definition WalletAccountTransactionRepository_create ::
    "wallet_account_transaction \<Rightarrow> db \<Rightarrow> db" where
  "WalletAccountTransactionRepository_create x d =
     d\<lparr>walletAccountTransactions := tbl_insert x (walletAccountTransactions d)\<rparr>"

subsection \<open>Operations\<close>

definition OperationRepository_getById :: "string \<Rightarrow> db \<Rightarrow> operation option" where
  "OperationRepository_getById i d = tbl_find op_id i (operations d)"

definition OperationRepository_create :: "int \<Rightarrow> operation \<Rightarrow> db \<Rightarrow> (operation \<times> db) uc" where
  "OperationRepository_create now p d =
     (let p' = p\<lparr>createdAt := now\<rparr> in
      bindR (tbl_create op_id UniqueConstraintError p' (operations d))
        (\<lambda>t. Inr (p', d\<lparr>operations := t\<rparr>)))"

definition OperationRepository_update :: "operation \<Rightarrow> db \<Rightarrow> db" where
  "OperationRepository_update p d = d\<lparr>operations := tbl_update op_id p (operations d)\<rparr>"

definition OperationRepository_updateAnalysisTags ::
    "string \<Rightarrow> operation_analysis_tag list \<Rightarrow> db \<Rightarrow> db" where
  "OperationRepository_updateAnalysisTags i tags d =
     d\<lparr>operations := map (\<lambda>p. if op_id p = i then p\<lparr>analysisTags := tags\<rparr> else p) (operations d)\<rparr>"

definition OperationRepository_getByOwnerWalletAccount ::
    "wallet_account \<Rightarrow> int \<Rightarrow> nat list \<Rightarrow> operation_state list \<Rightarrow> db \<Rightarrow> operation list" where
  "OperationRepository_getByOwnerWalletAccount a date tts states d =
     filter (\<lambda>p. ownerWalletAccount p = Some (wa_id a) \<and> date \<le> createdAt p
        \<and> List.member tts (op_transactionType p) \<and> List.member states (op_state p)) (operations d)"

definition OperationRepository_getByBeneficiaryWalletAccount ::
    "wallet_account \<Rightarrow> int \<Rightarrow> nat list \<Rightarrow> operation_state list \<Rightarrow> db \<Rightarrow> operation list" where
  "OperationRepository_getByBeneficiaryWalletAccount a date tts states d =
     filter (\<lambda>p. beneficiaryWalletAccount p = Some (wa_id a) \<and> date \<le> createdAt p
        \<and> List.member tts (op_transactionType p) \<and> List.member states (op_state p)) (operations d)"

subsection \<open>Limits\<close>

definition LimitTypeRepository_getById :: "nat \<Rightarrow> db \<Rightarrow> limit_type option" where
  "LimitTypeRepository_getById i d = find (\<lambda>l. lt_id l = i) (limitTypes d)"

definition LimitTypeRepository_getByTransactionType ::
    "transaction_type \<Rightarrow> db \<Rightarrow> limit_type option" where
  "LimitTypeRepository_getByTransactionType t d =
     find (\<lambda>l. List.member (lt_transactionTypes l) (tt_id t)) (limitTypes d)"

definition GlobalLimitRepository_getByLimitType :: "limit_type \<Rightarrow> db \<Rightarrow> global_limit option" where
  "GlobalLimitRepository_getByLimitType l d = find (\<lambda>g. gl_limitType g = lt_id l) (globalLimits d)"

definition UserLimitRepository_getByUserAndLimitType ::
    "user \<Rightarrow> limit_type \<Rightarrow> db \<Rightarrow> user_limit option" where
  "UserLimitRepository_getByUserAndLimitType u l d =
     find (\<lambda>x. ul_user x = user_id u \<and> ul_limitType x = lt_id l) (userLimits d)"

definition UserLimitRepository_getById :: "string \<Rightarrow> db \<Rightarrow> user_limit option" where
  "UserLimitRepository_getById i d = tbl_find ul_id i (userLimits d)"

definition UserLimitRepository_create :: "user_limit \<Rightarrow> db \<Rightarrow> db uc" where
  "UserLimitRepository_create x d =
     bindR (tbl_create ul_id UniqueConstraintError x (userLimits d))
       (\<lambda>t. Inr (d\<lparr>userLimits := t\<rparr>))"

definition UserLimitRepository_update :: "user_limit \<Rightarrow> db \<Rightarrow> db" where
  "UserLimitRepository_update x d = d\<lparr>userLimits := tbl_update ul_id x (userLimits d)\<rparr>"

definition UserLimitTrackerRepository_getById :: "string \<Rightarrow> db \<Rightarrow> user_limit_tracker option" where
  "UserLimitTrackerRepository_getById i d = tbl_find ult_id i (userLimitTrackers d)"

definition UserLimitTrackerRepository_getByUserLimit ::
    "user_limit \<Rightarrow> db \<Rightarrow> user_limit_tracker option" where
  "UserLimitTrackerRepository_getByUserLimit x d =
     find (\<lambda>t. ult_userLimit t = ul_id x) (userLimitTrackers d)"

text \<open>Sequelize stamps \<open>updatedAt\<close> with the current time on every write.\<close>

definition UserLimitTrackerRepository_update :: "int \<Rightarrow> user_limit_tracker \<Rightarrow> db \<Rightarrow> db" where
  "UserLimitTrackerRepository_update now t d =
     d\<lparr>userLimitTrackers := tbl_update ult_id (t\<lparr>ult_updatedAt := now\<rparr>) (userLimitTrackers d)\<rparr>"

definition UserLimitTrackerRepository_createOrUpdate ::
    "int \<Rightarrow> user_limit_tracker \<Rightarrow> db \<Rightarrow> db" where
  "UserLimitTrackerRepository_createOrUpdate now t d =
     (case tbl_find ult_id (ult_id t) (userLimitTrackers d) of
        Some _ \<Rightarrow> UserLimitTrackerRepository_update now t d
      | None \<Rightarrow> d\<lparr>userLimitTrackers :=
                   tbl_insert (t\<lparr>ult_updatedAt := now\<rparr>) (userLimitTrackers d)\<rparr>)"

subsection \<open>Redis\<close>

definition ptx_key :: "pending_transaction \<Rightarrow> nat \<times> string" where
  "ptx_key p = (ptx_walletAccount p, ptx_operation p)"

text \<open>Both \<open>create\<close> and \<open>update\<close> set the key of the wallet account and the operation.\<close>

definition PendingTransactionRepository_createOrUpdate ::
    "pending_transaction \<Rightarrow> redis \<Rightarrow> redis" where
  "PendingTransactionRepository_createOrUpdate p r =
     r\<lparr>pendingTransactions :=
        (if tbl_find ptx_key (ptx_key p) (pendingTransactions r) = None
         then tbl_insert p (pendingTransactions r)
         else tbl_update ptx_key p (pendingTransactions r))\<rparr>"

definition PendingTransactionRepository_getByWalletAccount ::
    "wallet_account \<Rightarrow> redis \<Rightarrow> pending_transaction list" where
  "PendingTransactionRepository_getByWalletAccount a r =
     filter (\<lambda>p. ptx_walletAccount p = wa_id a) (pendingTransactions r)"

definition StreamQuotationRepository_getByBaseAndQuote ::
    "string \<Rightarrow> string \<Rightarrow> redis \<Rightarrow> stream_quotation list" where
  "StreamQuotationRepository_getByBaseAndQuote b q r =
     filter (\<lambda>s. sq_base s = b \<and> sq_quote s = q) (streamQuotations r)"

section \<open>The repositories implement their interface\<close>

definition walletAccount_insert :: "wallet_account \<Rightarrow> db \<Rightarrow> db" where
  "walletAccount_insert a d = d\<lparr>walletAccounts := tbl_insert a (walletAccounts d)\<rparr>"

definition operation_insert :: "operation \<Rightarrow> db \<Rightarrow> db" where
  "operation_insert p d = d\<lparr>operations := tbl_insert p (operations d)\<rparr>"

definition walletAccounts_total :: "(wallet_account \<Rightarrow> int) \<Rightarrow> db \<Rightarrow> int" where
  "walletAccounts_total f d = tbl_total f (walletAccounts d)"

definition operations_total :: "(operation \<Rightarrow> int) \<Rightarrow> db \<Rightarrow> int" where
  "operations_total f d = tbl_total f (operations d)"

definition walletAccounts_wf :: "db \<Rightarrow> bool" where
  "walletAccounts_wf d = tbl_wf wa_id (walletAccounts d)"

definition operations_wf :: "db \<Rightarrow> bool" where
  "operations_wf d = tbl_wf op_id (operations d)"

interpretation accounts: repository wa_id WalletAccountRepository_getById
  WalletAccountRepository_update walletAccount_insert walletAccounts_total walletAccounts_wf
  by unfold_locales (auto simp: WalletAccountRepository_getById_def
      WalletAccountRepository_update_def walletAccount_insert_def walletAccounts_total_def
      walletAccounts_wf_def tbl_find_update tbl_find_insert tbl_wf_update tbl_wf_insert
      tbl_total_update dest: tbl_find_SomeD split: option.splits)

interpretation ops: repository op_id OperationRepository_getById
  OperationRepository_update operation_insert operations_total operations_wf
  by unfold_locales (auto simp: OperationRepository_getById_def OperationRepository_update_def
      operation_insert_def operations_total_def operations_wf_def tbl_find_update tbl_find_insert
      tbl_wf_update tbl_wf_insert tbl_total_update dest: tbl_find_SomeD split: option.splits)

text \<open>The tables an update does not touch.\<close>

lemma WalletAccountRepository_update_frame [simp]:
  "operations (WalletAccountRepository_update a d) = operations d"
  "walletAccountTransactions (WalletAccountRepository_update a d) = walletAccountTransactions d"
  "wallets (WalletAccountRepository_update a d) = wallets d"
  "outbox (WalletAccountRepository_update a d) = outbox d"
  "userLimitTrackers (WalletAccountRepository_update a d) = userLimitTrackers d"
  "userLimits (WalletAccountRepository_update a d) = userLimits d"
  by (simp_all add: WalletAccountRepository_update_def)

lemma OperationRepository_update_frame [simp]:
  "walletAccounts (OperationRepository_update p d) = walletAccounts d"
  "walletAccountTransactions (OperationRepository_update p d) = walletAccountTransactions d"
  "wallets (OperationRepository_update p d) = wallets d"
  "outbox (OperationRepository_update p d) = outbox d"
  "userLimitTrackers (OperationRepository_update p d) = userLimitTrackers d"
  "userLimits (OperationRepository_update p d) = userLimits d"
  by (simp_all add: OperationRepository_update_def)

lemma operation_insert_frame [simp]:
  "walletAccounts (operation_insert p d) = walletAccounts d"
  "walletAccountTransactions (operation_insert p d) = walletAccountTransactions d"
  "userLimitTrackers (operation_insert p d) = userLimitTrackers d"
  "userLimits (operation_insert p d) = userLimits d"
  by (simp_all add: operation_insert_def)

lemma OperationRepository_create_Inr [result_simps]:
  "OperationRepository_create now p d = Inr (p', d') \<longleftrightarrow>
     p' = p\<lparr>createdAt := now\<rparr> \<and> OperationRepository_getById (op_id p) d = None
     \<and> d' = operation_insert p' d"
  by (auto simp: OperationRepository_create_def tbl_create_def OperationRepository_getById_def
      operation_insert_def Let_def)

end
