(* ===== verification/Nighttime.thy ===== *)
theory Nighttime
  imports Operations_Domain
begin

text \<open>
  Time: the moment library as a parameter, the \<open>HH:mm\<close> format check
  (libs/common/src/utils/validate_hour_time_format.util.ts) and the night interval of a user limit
  (\<open>UserLimitEntity\<close> in apps/operations/src/domain/entities/user_limit.entity.ts).
\<close>

section \<open>The moment library\<close>

text \<open>
  What the code calls of moment, as a record of functions: \<open>m_now\<close> is \<open>getMoment()\<close> (one instant
  for the whole request), \<open>m_time s\<close> is \<open>getMoment(s, 'HH:mm')\<close>, \<open>m_startOfDay\<close> and its siblings
  are \<open>startOf(unit)\<close>, and \<open>m_addDays n\<close> and its siblings are \<open>add(n, unit)\<close>, with a negative \<open>n\<close>
  for \<open>subtract\<close>. \<open>m_today\<close> is the midnight of the day a bare time of day is parsed into.
\<close>

record moment =
  m_now :: int
  m_today :: int
  m_time :: "string \<Rightarrow> int"
  m_startOfDay :: "int \<Rightarrow> int"
  m_startOfMonth :: "int \<Rightarrow> int"
  m_startOfYear :: "int \<Rightarrow> int"
  m_addDays :: "int \<Rightarrow> int \<Rightarrow> int"
  m_addMonths :: "int \<Rightarrow> int \<Rightarrow> int"
  m_addYears :: "int \<Rightarrow> int \<Rightarrow> int"

abbreviation minute_ms :: int where "minute_ms \<equiv> 60000"
abbreviation day_ms :: int where "day_ms \<equiv> 86400000"

section \<open>The HH:mm format\<close>

definition is_digit :: "char \<Rightarrow> bool" where
  "is_digit c \<longleftrightarrow> List.member ''0123456789'' c"

definition digit_val :: "char \<Rightarrow> int" where
  "digit_val c = int (of_char c) - 48"

text \<open>The regular expression \<open>([0-1]?[0-9]|2[0-3]):[0-5][0-9]\<close>, anchored at both ends.\<close>

fun hhmm_regex :: "string \<Rightarrow> bool" where
  "hhmm_regex [h, c, m1, m2] \<longleftrightarrow>
     is_digit h \<and> c = CHR '':'' \<and> List.member ''012345'' m1 \<and> is_digit m2"
| "hhmm_regex [h1, h2, c, m1, m2] \<longleftrightarrow>
     (List.member ''01'' h1 \<and> is_digit h2 \<or> h1 = CHR ''2'' \<and> List.member ''0123'' h2)
     \<and> c = CHR '':'' \<and> List.member ''012345'' m1 \<and> is_digit m2"
| "hhmm_regex _ \<longleftrightarrow> False"

definition truthy_str :: "string option \<Rightarrow> bool" where
  "truthy_str s = (case s of None \<Rightarrow> False | Some x \<Rightarrow> x \<noteq> [])"

definition validateHourTimeFormat :: "string option \<Rightarrow> bool" where
  "validateHourTimeFormat s =
     (case s of None \<Rightarrow> True | Some x \<Rightarrow> if x = [] then True else hhmm_regex x)"

text \<open>The minute of the day a well-formed time names.\<close>

fun hhmm_minutes :: "string \<Rightarrow> int" where
  "hhmm_minutes [h, c, m1, m2] = digit_val h * 60 + digit_val m1 * 10 + digit_val m2"
| "hhmm_minutes [h1, h2, c, m1, m2] =
     (digit_val h1 * 10 + digit_val h2) * 60 + digit_val m1 * 10 + digit_val m2"
| "hhmm_minutes _ = 0"

lemma is_digit_val: "is_digit c \<Longrightarrow> 0 \<le> digit_val c \<and> digit_val c \<le> 9"
  by (auto simp: is_digit_def digit_val_def)

lemma digit_val_lt6: "List.member ''012345'' c \<Longrightarrow> 0 \<le> digit_val c \<and> digit_val c \<le> 5"
  by (auto simp: digit_val_def)

lemma hhmm_minutes_bounds:
  assumes "hhmm_regex s"
  shows "0 \<le> hhmm_minutes s \<and> hhmm_minutes s < 1440"
  using assms
proof (cases s rule: hhmm_regex.cases)
  case (1 h c m1 m2)
  with assms have "0 \<le> digit_val h \<and> digit_val h \<le> 9" "0 \<le> digit_val m1 \<and> digit_val m1 \<le> 5"
    "0 \<le> digit_val m2 \<and> digit_val m2 \<le> 9"
    using is_digit_val digit_val_lt6 by auto
  with 1 show ?thesis by simp
next
  case (2 h1 h2 c m1 m2)
  with assms have m: "0 \<le> digit_val m1 \<and> digit_val m1 \<le> 5" "0 \<le> digit_val m2 \<and> digit_val m2 \<le> 9"
    using is_digit_val digit_val_lt6 by auto
  have h: "0 \<le> digit_val h1 * 10 + digit_val h2 \<and> digit_val h1 * 10 + digit_val h2 \<le> 23"
  proof (cases "h1 = CHR ''2''")
    case True
    with 2 assms have "List.member ''0123'' h2" by auto
    with True show ?thesis by (auto simp: digit_val_def)
  next
    case False
    with 2 assms have "List.member ''01'' h1" "is_digit h2" by auto
    then show ?thesis using is_digit_val [of h2] by (auto simp: digit_val_def)
  qed
  with m 2 show ?thesis by simp
qed simp_all

section \<open>The night interval\<close>

definition hasNighttime :: "'a limit_values_scheme \<Rightarrow> bool" where
  "hasNighttime x \<longleftrightarrow>
     truthy_str (nighttimeStart x) \<and> truthy_str (nighttimeEnd x)
     \<and> validateHourTimeFormat (nighttimeStart x) \<and> validateHourTimeFormat (nighttimeEnd x)"

definition strOf :: "string option \<Rightarrow> string" where
  "strOf s = (case s of None \<Rightarrow> [] | Some x \<Rightarrow> x)"

definition isInNighttimeInterval :: "moment \<Rightarrow> 'a limit_values_scheme \<Rightarrow> int \<Rightarrow> bool" where
  "isInNighttimeInterval m x base =
     (if \<not> hasNighttime x then False
      else
        let start = m_time m (strOf (nighttimeStart x));
            end0 = m_time m (strOf (nighttimeEnd x));
            end1 = (if start > end0 then m_addDays m 1 end0 else end0);
            (start', end') =
              (if base < start then (m_addDays m (-1) start, m_addDays m (-1) end1)
               else (start, end1))
        in start' \<le> base \<and> base < end')"

text \<open>
  The documented behaviour of moment that the night interval relies on: a bare time is parsed into
  the current day, and at a fixed UTC offset a day is 24 hours.
\<close>

definition moment_ok :: "moment \<Rightarrow> bool" where
  "moment_ok m \<longleftrightarrow>
     (\<forall>s. hhmm_regex s \<longrightarrow> m_time m s = m_today m + minute_ms * hhmm_minutes s)
     \<and> (\<forall>n t. m_addDays m n t = t + n * day_ms)"

lemma moment_okD:
  "moment_ok m \<Longrightarrow> hhmm_regex s \<Longrightarrow> m_time m s = m_today m + minute_ms * hhmm_minutes s"
  "moment_ok m \<Longrightarrow> m_addDays m n t = t + n * day_ms"
  by (auto simp: moment_ok_def)

lemma hasNighttimeE:
  assumes "hasNighttime x"
  obtains s e where "nighttimeStart x = Some s" "nighttimeEnd x = Some e"
    "hhmm_regex s" "hhmm_regex e"
  using assms by (auto simp: hasNighttime_def truthy_str_def validateHourTimeFormat_def
      split: option.splits)

text \<open>
  C29: at any instant of the current day the night test is membership of the time of day in the
  circular interval from the start (included) to the end (excluded): an interval whose end comes
  before its start runs over midnight, and equal ends make it empty.
\<close>

theorem isInNighttimeInterval_circular:
  assumes "moment_ok m" and "hasNighttime x"
    and "m_today m \<le> base" and "base < m_today m + day_ms"
  shows "isInNighttimeInterval m x base \<longleftrightarrow>
    (let s = minute_ms * hhmm_minutes (strOf (nighttimeStart x));
         e = minute_ms * hhmm_minutes (strOf (nighttimeEnd x));
         t = base - m_today m
     in if s \<le> e then s \<le> t \<and> t < e else s \<le> t \<or> t < e)"
proof -
  obtain s e where se: "nighttimeStart x = Some s" "nighttimeEnd x = Some e"
    "hhmm_regex s" "hhmm_regex e"
    using assms(2) by (rule hasNighttimeE)
  have "0 \<le> hhmm_minutes s \<and> hhmm_minutes s < 1440" "0 \<le> hhmm_minutes e \<and> hhmm_minutes e < 1440"
    using se hhmm_minutes_bounds by auto
  then show ?thesis
    using assms se moment_okD [OF assms(1)]
    by (auto simp: isInNighttimeInterval_def strOf_def Let_def)
qed

text \<open>A concrete clock: Brasilia time, 2024-03-15 at 23:30, with the calendar of that year.\<close>

definition brt_offset :: int where "brt_offset = 10800000"

definition brt_startOfDay :: "int \<Rightarrow> int" where
  "brt_startOfDay t = ((t - brt_offset) div day_ms) * day_ms + brt_offset"

text \<open>The Gregorian calendar: days since the epoch to the first day of their month and year.\<close>

definition civil_doy :: "int \<Rightarrow> int \<times> int" where
  "civil_doy z0 =
     (let z = z0 + 719468;
          doe = z mod 146097;
          yoe = (doe - doe div 1460 + doe div 36524 - doe div 146096) div 365;
          doy = doe - (365 * yoe + yoe div 4 - yoe div 100);
          mp = (5 * doy + 2) div 153
      in (mp, doy - (153 * mp + 2) div 5))"

definition brt_days :: "int \<Rightarrow> int" where
  "brt_days t = (t - brt_offset) div day_ms"

definition brt_startOfMonth :: "int \<Rightarrow> int" where
  "brt_startOfMonth t = (brt_days t - snd (civil_doy (brt_days t))) * day_ms + brt_offset"

fun first_of_year :: "nat \<Rightarrow> int \<Rightarrow> int" where
  "first_of_year 0 d = d"
| "first_of_year (Suc n) d =
     (if civil_doy d = (10, 0) then d else first_of_year n (d - 1))"

definition brt_startOfYear :: "int \<Rightarrow> int" where
  "brt_startOfYear t = first_of_year 366 (brt_days t) * day_ms + brt_offset"

definition brt_time :: "int \<Rightarrow> string \<Rightarrow> int" where
  "brt_time now s = brt_startOfDay now + minute_ms * hhmm_minutes s"

definition brt_moment :: "int \<Rightarrow> moment" where
  "brt_moment now = \<lparr> m_now = now, m_today = brt_startOfDay now, m_time = brt_time now,
     m_startOfDay = brt_startOfDay, m_startOfMonth = brt_startOfMonth,
     m_startOfYear = brt_startOfYear, m_addDays = (\<lambda>n t. t + n * day_ms),
     m_addMonths = (\<lambda>n t. t + n * 30 * day_ms), m_addYears = (\<lambda>n t. t + n * 365 * day_ms) \<rparr>"

lemma brt_moment_ok: "moment_ok (brt_moment now)"
  by (simp add: moment_ok_def brt_moment_def brt_time_def)

definition night_values :: limit_values where
  "night_values = \<lparr> nightlyLimit = Some 100000, dailyLimit = 500000, monthlyLimit = 2000000,
     yearlyLimit = 10000000, maxAmount = Some 300000, minAmount = Some 1,
     maxAmountNightly = Some 100000, minAmountNightly = None, userMaxAmount = None,
     userMinAmount = None, userMaxAmountNightly = None, userMinAmountNightly = None,
     userNightlyLimit = None, userDailyLimit = None, userMonthlyLimit = None,
     userYearlyLimit = None, nighttimeStart = Some ''20:00'', nighttimeEnd = Some ''06:00'' \<rparr>"

definition t_2330 :: int where "t_2330 = 1710556200000"

theorem isInNighttimeInterval_circular_witness:
  "isInNighttimeInterval (brt_moment t_2330) night_values t_2330
   \<and> \<not> isInNighttimeInterval (brt_moment t_2330) night_values (t_2330 - 6 * 3600000)"
proof -
  have n: "hasNighttime night_values"
    by (simp add: hasNighttime_def night_values_def truthy_str_def validateHourTimeFormat_def
        is_digit_def)
  have d: "m_today (brt_moment t_2330) = 1710471600000"
    by (simp add: brt_moment_def brt_startOfDay_def brt_offset_def t_2330_def)
  show ?thesis
    using isInNighttimeInterval_circular [OF brt_moment_ok n, of t_2330 t_2330]
      isInNighttimeInterval_circular [OF brt_moment_ok n, of t_2330 "t_2330 - 6 * 3600000"]
    unfolding d by (simp add: t_2330_def night_values_def strOf_def digit_val_def)
qed

end
