(* ===== verification/Sample_Data.thy ===== *)
theory Sample_Data
  imports Nighttime
begin

text \<open>
  A small concrete database on which the theorems are instantiated: two users with a wallet and an
  account in Brazilian reais each, one limited transaction type that both participants take part
  in, one for the owner only and one for the beneficiary only, a night from 20:00 to 06:00, and
  the instant 2024-03-15 23:30 of Brasilia.
\<close>

definition ann :: user where "ann = \<lparr> user_id = 1, user_uuid = ''ann'' \<rparr>"
definition bob :: user where "bob = \<lparr> user_id = 2, user_uuid = ''bob'' \<rparr>"

definition brl :: currency where
  "brl = \<lparr> cur_id = 1, cur_symbol = ''BRL'', cur_tag = ''REAL'', cur_decimal = 2,
     cur_state = C_ACTIVE, cur_type = FIAT \<rparr>"

definition wallet_a :: wallet where
  "wallet_a = \<lparr> w_id = 1, w_uuid = ''wa'', w_user = ann, w_name = ''main'',
     w_state = W_ACTIVE, w_default = True \<rparr>"

definition wallet_b :: wallet where
  "wallet_b = \<lparr> w_id = 2, w_uuid = ''wb'', w_user = bob, w_name = ''main'',
     w_state = W_ACTIVE, w_default = True \<rparr>"

definition account_a :: wallet_account where
  "account_a = \<lparr> wa_id = 10, wa_uuid = ''aa'', wa_wallet = ''wa'', wa_currency = 1,
     balance = 90000, pendingAmount = 0, averagePrice = 0, wa_state = WA_ACTIVE \<rparr>"

definition account_b :: wallet_account where
  "account_b = \<lparr> wa_id = 20, wa_uuid = ''ab'', wa_wallet = ''wb'', wa_currency = 1,
     balance = 500, pendingAmount = 0, averagePrice = 0, wa_state = WA_ACTIVE \<rparr>"

definition tt_both :: transaction_type where
  "tt_both = \<lparr> tt_id = 1, tt_tag = ''P2PBT'', tt_participants = P_BOTH,
     tt_state = ''active'', tt_limitType = Some 1 \<rparr>"

definition tt_owner :: transaction_type where
  "tt_owner = \<lparr> tt_id = 2, tt_tag = ''WITHDRAW'', tt_participants = P_OWNER,
     tt_state = ''active'', tt_limitType = None \<rparr>"

definition tt_beneficiary :: transaction_type where
  "tt_beneficiary = \<lparr> tt_id = 3, tt_tag = ''PIXREC'', tt_participants = P_BENEFICIARY,
     tt_state = ''active'', tt_limitType = None \<rparr>"

definition lt_p2p :: limit_type where
  "lt_p2p = \<lparr> lt_id = 1, lt_tag = ''P2P'', lt_currency = Some 1, lt_transactionTypes = [1],
     lt_periodStart = PS_DATE, lt_check = CHECK_OWNER \<rparr>"

definition ul_ann :: user_limit where
  "ul_ann = limit_values.extend night_values (user_limit.fields ''ul1'' 1 1 0)"

definition gl_p2p :: global_limit where
  "gl_p2p = limit_values.extend night_values (global_limit.fields 1)"

definition tracker_ann :: user_limit_tracker where
  "tracker_ann = \<lparr> ult_id = ''t1'', ult_userLimit = ''ul1'', ult_periodStart = PS_DATE,
     usedDailyLimit = 1000, usedMonthlyLimit = 5000, usedAnnualLimit = 9000,
     usedNightlyLimit = 0, ult_updatedAt = t_2330 - 60000 \<rparr>"

definition sample_db :: db where
  "sample_db = \<lparr> currencies = [brl], wallets = [wallet_a, wallet_b],
     walletAccounts = [account_a, account_b],
     transactionTypes = [tt_both, tt_owner, tt_beneficiary], operations = [],
     walletAccountTransactions = [], limitTypes = [lt_p2p], userLimits = [ul_ann],
     globalLimits = [gl_p2p], userLimitTrackers = [tracker_ann], outbox = [] \<rparr>"

definition sample_redis :: redis where
  "sample_redis = \<lparr> pendingTransactions = [], streamQuotations = [] \<rparr>"

definition sample_operation :: operation where
  "sample_operation = \<lparr> op_id = ''op1'', op_owner = Some 1, ownerWalletAccount = Some 10,
     op_beneficiary = Some 2, beneficiaryWalletAccount = Some 20, op_transactionType = 1,
     op_currency = 1, rawValue = 3000, fee = 0, op_value = 3000, op_description = ''lunch'',
     operationRef = None, op_state = PENDING, createdAt = t_2330, revertedAt = None,
     ownerRequestedRawValue = None, ownerRequestedFee = None, analysisTags = [],
     op_userLimitTracker = None \<rparr>"

lemmas sample_defs = ann_def bob_def brl_def wallet_a_def wallet_b_def account_a_def account_b_def
  tt_both_def tt_owner_def tt_beneficiary_def lt_p2p_def ul_ann_def gl_p2p_def tracker_ann_def sample_db_def
  sample_redis_def sample_operation_def

abbreviation sample_moment :: moment where "sample_moment \<equiv> brt_moment t_2330"

lemma ul_ann_values [simp]:
  "limit_values.truncate ul_ann = night_values"
  "ul_id ul_ann = ''ul1''" "ul_user ul_ann = 1" "ul_limitType ul_ann = 1" "creditBalance ul_ann = 0"
  "dailyLimit ul_ann = 500000" "monthlyLimit ul_ann = 2000000" "yearlyLimit ul_ann = 10000000"
  "nightlyLimit ul_ann = Some 100000" "maxAmount ul_ann = Some 300000" "minAmount ul_ann = Some 1"
  "maxAmountNightly ul_ann = Some 100000" "minAmountNightly ul_ann = None"
  "userMaxAmount ul_ann = None" "userMinAmount ul_ann = None" "userMaxAmountNightly ul_ann = None"
  "userMinAmountNightly ul_ann = None" "userNightlyLimit ul_ann = None"
  "userDailyLimit ul_ann = None" "userMonthlyLimit ul_ann = None" "userYearlyLimit ul_ann = None"
  "nighttimeStart ul_ann = Some ''20:00''" "nighttimeEnd ul_ann = Some ''06:00''"
  by (simp_all add: ul_ann_def night_values_def limit_values.defs user_limit.defs)

lemma sample_night: "isInNighttimeInterval sample_moment ul_ann t_2330"
  by (simp add: isInNighttimeInterval_def hasNighttime_def truthy_str_def
      validateHourTimeFormat_def is_digit_def strOf_def brt_moment_def brt_time_def
      brt_startOfDay_def brt_offset_def t_2330_def digit_val_def)

lemma sample_moment_simps [simp]:
  "m_now sample_moment = t_2330" "m_startOfDay sample_moment = brt_startOfDay"
  "m_startOfMonth sample_moment = brt_startOfMonth" "m_startOfYear sample_moment = brt_startOfYear"
  by (simp_all add: brt_moment_def)

lemma sample_calendar [simp]:
  "brt_startOfDay t_2330 = 1710471600000"
  "brt_startOfDay (t_2330 - day_ms) = 1710385200000"
  "brt_startOfDay (t_2330 - minute_ms) = 1710471600000"
  by (simp_all add: brt_startOfDay_def brt_offset_def t_2330_def)

lemma sample_months [simp]:
  "brt_startOfMonth 1710471600000 = 1709262000000"
  "brt_startOfMonth 1710385200000 = 1709262000000"
  by code_simp+

lemma tracker_ann_simps [simp]:
  "ult_id tracker_ann = ''t1''" "ult_userLimit tracker_ann = ''ul1''"
  "ult_periodStart tracker_ann = PS_DATE" "usedDailyLimit tracker_ann = 1000"
  "usedMonthlyLimit tracker_ann = 5000" "usedAnnualLimit tracker_ann = 9000"
  "usedNightlyLimit tracker_ann = 0" "ult_updatedAt tracker_ann = t_2330 - minute_ms"
  by (simp_all add: tracker_ann_def)

end
