(* ===== verification/Limit_Check.thy ===== *)
theory Limit_Check
  imports Sample_Data
begin

text \<open>
  The limit check of an operation: the limit half of \<open>CreateOperationUseCase\<close>
  (apps/operations/src/application/usecases/operation/create.usecase.ts, lines 795 to 1207 and
  1314 to 1565): which limit applies, its tracker, the tests on the value and on what is already
  used, and the update of the tracker.
\<close>

section \<open>The tests on a value\<close>

text \<open>An optional limit counts only when it is set to a value other than zero.\<close>

definition over :: "int option \<Rightarrow> int \<Rightarrow> bool" where
  "over l v \<longleftrightarrow> truthy l \<and> toNum l < v"

definition under :: "int option \<Rightarrow> int \<Rightarrow> bool" where
  "under l v \<longleftrightarrow> truthy l \<and> v < toNum l"

definition check_value_limits :: "bool \<Rightarrow> user_limit \<Rightarrow> int \<Rightarrow> unit uc" where
  "check_value_limits night ul v =
    (if dailyLimit ul < v \<or> monthlyLimit ul < v \<or> yearlyLimit ul < v
     then Inl (NotEnoughLimitException v)
     else if over (userDailyLimit ul) v \<or> over (userMonthlyLimit ul) v \<or> over (userYearlyLimit ul) v
     then Inl (NotEnoughLimitException v)
     else if night \<and> over (nightlyLimit ul) v
     then Inl (NotEnoughLimitException v)
     else if night \<and> over (userNightlyLimit ul) v
     then Inl (NotEnoughLimitException v)
     else if night \<and> over (maxAmountNightly ul) v
     then Inl (ValueAboveMaxAmountNightlyLimitException v)
     else if night \<and> over (userMaxAmountNightly ul) v
     then Inl (ValueAboveMaxAmountNightlyLimitException v)
     else if night \<and> under (minAmountNightly ul) v
     then Inl (ValueUnderMinAmountNightlyLimitException v)
     else if night \<and> under (userMinAmountNightly ul) v
     then Inl (ValueUnderMinAmountNightlyLimitException v)
     else if over (maxAmount ul) v
     then Inl (ValueAboveMaxAmountLimitException v)
     else if over (userMaxAmount ul) v
     then Inl (ValueAboveMaxAmountLimitException v)
     else if under (minAmount ul) v
     then Inl (ValueUnderMinAmountLimitException v)
     else if under (userMinAmount ul) v
     then Inl (ValueUnderMinAmountLimitException v)
     else Inr ())"

definition over_available :: "int option \<Rightarrow> int \<Rightarrow> int \<Rightarrow> bool" where
  "over_available l used v \<longleftrightarrow> truthy l \<and> toNum l - used < v"

definition check_used_limits :: "bool \<Rightarrow> user_limit \<Rightarrow> used_limit \<Rightarrow> int \<Rightarrow> unit uc" where
  "check_used_limits night ul used v =
    (if dailyLimit ul - used_daily used < v \<or> monthlyLimit ul - used_monthly used < v
        \<or> yearlyLimit ul - used_yearly used < v
     then Inl (NotEnoughAvailableLimitException used v)
     else if over_available (userDailyLimit ul) (used_daily used) v
        \<or> over_available (userMonthlyLimit ul) (used_monthly used) v
        \<or> over_available (userYearlyLimit ul) (used_yearly used) v
     then Inl (NotEnoughAvailableLimitException used v)
     else if night \<and> over_available (nightlyLimit ul) (used_nightly used) v
     then Inl (NotEnoughAvailableLimitException used v)
     else if night \<and> over_available (userNightlyLimit ul) (used_nightly used) v
     then Inl (NotEnoughAvailableLimitException used v)
     else Inr ())"

text \<open>What it means for a value to respect the limits, stated without order or branches.\<close>

definition value_allowed :: "bool \<Rightarrow> user_limit \<Rightarrow> int \<Rightarrow> bool" where
  "value_allowed night ul v \<longleftrightarrow>
     v \<le> dailyLimit ul \<and> v \<le> monthlyLimit ul \<and> v \<le> yearlyLimit ul
     \<and> (\<forall>l \<in> {userDailyLimit ul, userMonthlyLimit ul, userYearlyLimit ul, maxAmount ul,
            userMaxAmount ul}. \<not> over l v)
     \<and> (\<forall>l \<in> {minAmount ul, userMinAmount ul}. \<not> under l v)
     \<and> (night \<longrightarrow>
          (\<forall>l \<in> {nightlyLimit ul, userNightlyLimit ul, maxAmountNightly ul,
             userMaxAmountNightly ul}. \<not> over l v)
          \<and> (\<forall>l \<in> {minAmountNightly ul, userMinAmountNightly ul}. \<not> under l v))"

lemma check_value_limits_Inr [result_simps]:
  "check_value_limits night ul v = Inr u \<longleftrightarrow> value_allowed night ul v"
  by (auto simp: check_value_limits_def value_allowed_def not_less)

definition available_allowed :: "bool \<Rightarrow> user_limit \<Rightarrow> used_limit \<Rightarrow> int \<Rightarrow> bool" where
  "available_allowed night ul used v \<longleftrightarrow>
     used_daily used + v \<le> dailyLimit ul \<and> used_monthly used + v \<le> monthlyLimit ul
     \<and> used_yearly used + v \<le> yearlyLimit ul
     \<and> \<not> over_available (userDailyLimit ul) (used_daily used) v
     \<and> \<not> over_available (userMonthlyLimit ul) (used_monthly used) v
     \<and> \<not> over_available (userYearlyLimit ul) (used_yearly used) v
     \<and> (night \<longrightarrow> \<not> over_available (nightlyLimit ul) (used_nightly used) v
                \<and> \<not> over_available (userNightlyLimit ul) (used_nightly used) v)"

lemma check_used_limits_Inr [result_simps]:
  "check_used_limits night ul used v = Inr u \<longleftrightarrow> available_allowed night ul used v"
  by (auto simp: check_used_limits_def available_allowed_def)

section \<open>The tracker\<close>

text \<open>
  A tracker travels with its user limit, the domain object \<open>userLimitTracker.userLimit\<close>.
  \<open>startOf\<close> changes the moment it is called on, so the month is taken from the day's start and the
  year from the month's.
\<close>

definition restartUserLimitTrackerByDatePeriodStart ::
    "moment \<Rightarrow> user_limit_tracker \<Rightarrow> user_limit_tracker" where
  "restartUserLimitTrackerByDatePeriodStart m t =
     (let todayDay = m_startOfDay m (m_now m);
          updatedAtDay = m_startOfDay m (ult_updatedAt t);
          t1 = (if usedDailyLimit t > 0 \<and> todayDay \<noteq> updatedAtDay
                then t\<lparr>usedDailyLimit := 0\<rparr> else t);
          todayMonth = m_startOfMonth m todayDay;
          updatedAtMonth = m_startOfMonth m updatedAtDay;
          t2 = (if usedMonthlyLimit t1 > 0 \<and> todayMonth \<noteq> updatedAtMonth
                then t1\<lparr>usedMonthlyLimit := 0\<rparr> else t1);
          todayYear = m_startOfYear m todayMonth;
          updatedAtYear = m_startOfYear m updatedAtMonth
      in if usedAnnualLimit t2 > 0 \<and> todayYear \<noteq> updatedAtYear
         then t2\<lparr>usedAnnualLimit := 0\<rparr> else t2)"

definition restartNightlyUserLimitTracker ::
    "moment \<Rightarrow> user_limit \<Rightarrow> user_limit_tracker \<Rightarrow> user_limit_tracker" where
  "restartNightlyUserLimitTracker m ul t =
     (if \<not> isInNighttimeInterval m ul (m_now m) then t\<lparr>usedNightlyLimit := 0\<rparr> else t)"

definition restartUserLimitTracker ::
    "moment \<Rightarrow> user_limit \<Rightarrow> user_limit_tracker \<Rightarrow> user_limit_tracker" where
  "restartUserLimitTracker m ul t =
     (let t1 = (if ult_periodStart t = PS_DATE
                   \<and> (usedDailyLimit t > 0 \<or> usedMonthlyLimit t > 0 \<or> usedAnnualLimit t > 0)
                then restartUserLimitTrackerByDatePeriodStart m t else t)
      in if usedNightlyLimit t1 > 0 then restartNightlyUserLimitTracker m ul t1 else t1)"

definition updateUserLimitTrackerAndOperation ::
    "moment \<Rightarrow> user_limit_tracker \<times> user_limit \<Rightarrow> operation \<Rightarrow> user_limit_tracker \<times> operation" where
  "updateUserLimitTrackerAndOperation m tu p =
     (let (t, ul) = tu;
          t1 = t\<lparr>usedDailyLimit := usedDailyLimit t + op_value p,
                 usedMonthlyLimit := usedMonthlyLimit t + op_value p,
                 usedAnnualLimit := usedAnnualLimit t + op_value p\<rparr>;
          t2 = (if isInNighttimeInterval m ul (m_now m)
                then t1\<lparr>usedNightlyLimit := usedNightlyLimit t1 + op_value p\<rparr> else t1);
          tags = (if ult_periodStart t2 = PS_DATE then [DATE_LIMIT_INCLUDED] else [])
               @ (if ult_periodStart t2 = PS_INTERVAL
                  then [DAILY_INTERVAL_LIMIT_INCLUDED, MONTHLY_INTERVAL_LIMIT_INCLUDED,
                        ANNUAL_INTERVAL_LIMIT_INCLUDED]
                  else [])
      in (t2, p\<lparr>analysisTags := tags, op_userLimitTracker := Some (ult_id t2)\<rparr>))"

definition user_limit_of_global :: "string \<Rightarrow> user \<Rightarrow> limit_type \<Rightarrow> global_limit \<Rightarrow> user_limit" where
  "user_limit_of_global uuid u lt g =
     limit_values.extend (limit_values.truncate g)
       (user_limit.fields uuid (user_id u) (lt_id lt) 0)"

definition new_tracker :: "string \<Rightarrow> user_limit \<Rightarrow> limit_type \<Rightarrow> user_limit_tracker" where
  "new_tracker uuid ul lt = \<lparr> ult_id = uuid, ult_userLimit = ul_id ul,
     ult_periodStart = lt_periodStart lt, usedDailyLimit = 0, usedMonthlyLimit = 0,
     usedAnnualLimit = 0, usedNightlyLimit = 0, ult_updatedAt = 0 \<rparr>"

text \<open>
  \<open>uuids\<close> are the two identifiers that \<open>uuidV4()\<close> returns for a new limit and a new tracker. The
  flag of the result asks for the used amounts to be summed from the operations.
\<close>

definition getLimit ::
    "moment \<Rightarrow> string \<times> string \<Rightarrow> user \<Rightarrow> limit_type \<Rightarrow> db
     \<Rightarrow> (user_limit \<times> user_limit_tracker \<times> bool \<times> db) uc" where
  "getLimit m uuids u lt d =
     (case UserLimitRepository_getByUserAndLimitType u lt d of
        Some ul \<Rightarrow>
          (case UserLimitTrackerRepository_getByUserLimit ul d of
             Some t \<Rightarrow> Inr (ul, restartUserLimitTracker m ul t, False, d)
           | None \<Rightarrow> Inr (ul, new_tracker (snd uuids) ul lt, True, d))
      | None \<Rightarrow>
          bindR (orThrow (GlobalLimitRepository_getByLimitType lt d)
                   (DataException [''Missing global limit for '' @ lt_tag lt]))
            (\<lambda>g. let ul = user_limit_of_global (fst uuids) u lt g in
               bindR (UserLimitRepository_create ul d)
                 (\<lambda>d1. Inr (ul, new_tracker (snd uuids) ul lt, True,
                            emit (CreatedUserLimit (ul_id ul)) d1))))"

text \<open>
  The amounts used so far, summed from the operations when there is no tracker. The start of the
  year is formatted as a date, which drops its time of day.
\<close>

definition add_used :: "moment \<Rightarrow> user_limit \<Rightarrow> int \<Rightarrow> int \<Rightarrow> operation \<Rightarrow> used_limit \<Rightarrow> used_limit" where
  "add_used m ul startDay startMonth p s =
     (let s1 = (if isInNighttimeInterval m ul (createdAt p)
                then s\<lparr>used_nightly := used_nightly s + op_value p\<rparr> else s);
          s2 = (if startDay < createdAt p
                then s1\<lparr>used_daily := used_daily s1 + op_value p\<rparr> else s1);
          s3 = (if startMonth < createdAt p
                then s2\<lparr>used_monthly := used_monthly s2 + op_value p\<rparr> else s2)
      in s3\<lparr>used_yearly := used_yearly s3 + op_value p\<rparr>)"

definition getUsedLimit ::
    "moment \<Rightarrow> wallet_account \<Rightarrow> user_limit \<Rightarrow> limit_type \<Rightarrow> db \<Rightarrow> used_limit" where
  "getUsedLimit m a ul lt d =
     (let interval = (lt_periodStart lt = PS_INTERVAL);
          startDay = (if interval then m_addDays m (-1) (m_now m) else m_startOfDay m (m_now m));
          startMonth = (if interval then m_addMonths m (-1) (m_now m)
                        else m_startOfMonth m (m_now m));
          startYear = (if interval then m_addYears m (-1) (m_now m)
                       else m_startOfYear m (m_now m));
          date = m_startOfDay m startYear;
          ownerOps = (if List.member [CHECK_BOTH, CHECK_OWNER] (lt_check lt)
                      then OperationRepository_getByOwnerWalletAccount a date
                             (lt_transactionTypes lt) getOperationLimitCheckStates d
                      else []);
          beneficiaryOps = (if List.member [CHECK_BOTH, CHECK_BENEFICIARY] (lt_check lt)
                      then OperationRepository_getByBeneficiaryWalletAccount a date
                             (lt_transactionTypes lt) getOperationLimitCheckStates d
                      else [])
      in fold (add_used m ul startDay startMonth) (ownerOps @ beneficiaryOps)
           \<lparr> used_nightly = 0, used_daily = 0, used_monthly = 0, used_yearly = 0 \<rparr>)"

definition used_of_tracker :: "user_limit_tracker \<Rightarrow> used_limit" where
  "used_of_tracker t = \<lparr> used_nightly = usedNightlyLimit t, used_daily = usedDailyLimit t,
     used_monthly = usedMonthlyLimit t, used_yearly = usedAnnualLimit t \<rparr>"

definition find_limit_type :: "transaction_type \<Rightarrow> db \<Rightarrow> limit_type option" where
  "find_limit_type tt d =
     (case tt_limitType tt of None \<Rightarrow> None | Some i \<Rightarrow> LimitTypeRepository_getById i d)"

definition checkUserLimits ::
    "moment \<Rightarrow> string \<times> string \<Rightarrow> user \<Rightarrow> wallet_account \<Rightarrow> transaction_type \<Rightarrow> int \<Rightarrow> db
     \<Rightarrow> ((user_limit_tracker \<times> user_limit) option \<times> db) uc" where
  "checkUserLimits m uuids u a tt v d =
     (case find_limit_type tt d of
        None \<Rightarrow> Inr (None, d)
      | Some lt \<Rightarrow>
          if lt_currency lt \<noteq> Some (wa_currency a) then Inr (None, d)
          else
            bindR (getLimit m uuids u lt d) (\<lambda>(ul, t, checkUsedLimitFlag, d1).
              let night = isInNighttimeInterval m ul (m_now m) in
              bindR (check_value_limits night ul v) (\<lambda>_.
                let used = (if checkUsedLimitFlag then getUsedLimit m a ul lt d1
                            else used_of_tracker t) in
                bindR (check_used_limits night ul used v) (\<lambda>_. Inr (Some (t, ul), d1)))))"

section \<open>What the check leaves alone\<close>

text \<open>The check may create a user limit and announce it; nothing else changes.\<close>

definition same_ledger :: "db \<Rightarrow> db \<Rightarrow> bool" where
  "same_ledger d d' \<longleftrightarrow>
     walletAccounts d' = walletAccounts d \<and> operations d' = operations d
     \<and> walletAccountTransactions d' = walletAccountTransactions d"

lemma same_ledger_refl [simp, intro]: "same_ledger d d"
  by (simp add: same_ledger_def)

lemma same_ledger_trans: "same_ledger a b \<Longrightarrow> same_ledger b c \<Longrightarrow> same_ledger a c"
  by (simp add: same_ledger_def)

lemma UserLimitRepository_create_frame:
  "UserLimitRepository_create x d = Inr d' \<Longrightarrow>
     same_ledger d d' \<and> userLimitTrackers d' = userLimitTrackers d"
  by (auto simp: UserLimitRepository_create_def same_ledger_def)

lemma emit_frame [simp]:
  "walletAccounts (emit e d) = walletAccounts d" "operations (emit e d) = operations d"
  "walletAccountTransactions (emit e d) = walletAccountTransactions d"
  "userLimitTrackers (emit e d) = userLimitTrackers d" "userLimits (emit e d) = userLimits d"
  by (simp_all add: emit_def)

lemma getLimit_frame:
  "getLimit m uuids u lt d = Inr (ul, t, flag, d') \<Longrightarrow>
     same_ledger d d' \<and> userLimitTrackers d' = userLimitTrackers d"
  by (auto simp: getLimit_def Let_def same_ledger_def dest!: UserLimitRepository_create_frame
      split: option.splits)

lemma checkUserLimits_frame:
  "checkUserLimits m uuids u a tt v d = Inr (r, d') \<Longrightarrow>
     same_ledger d d' \<and> userLimitTrackers d' = userLimitTrackers d"
  by (auto simp: checkUserLimits_def Let_def dest!: getLimit_frame split: option.splits if_splits)

section \<open>Correctness of the check\<close>

lemma over_available_iff: "over_available l used v \<longleftrightarrow> over l (used + v)"
  by (auto simp: over_available_def over_def)

lemma value_allowed_periods:
  assumes "value_allowed night ul v"
  shows "v \<le> dailyLimit ul" "v \<le> monthlyLimit ul" "v \<le> yearlyLimit ul"
    "\<not> over (userDailyLimit ul) v" "\<not> over (userMonthlyLimit ul) v" "\<not> over (userYearlyLimit ul) v"
  using assms by (simp_all add: value_allowed_def)

definition tracker_within :: "user_limit \<Rightarrow> user_limit_tracker \<Rightarrow> bool" where
  "tracker_within ul t \<longleftrightarrow>
     usedDailyLimit t \<le> dailyLimit ul \<and> usedMonthlyLimit t \<le> monthlyLimit ul
     \<and> usedAnnualLimit t \<le> yearlyLimit ul
     \<and> \<not> over (userDailyLimit ul) (usedDailyLimit t)
     \<and> \<not> over (userMonthlyLimit ul) (usedMonthlyLimit t)
     \<and> \<not> over (userYearlyLimit ul) (usedAnnualLimit t)"

lemma new_tracker_used [simp]:
  "usedDailyLimit (new_tracker i ul lt) = 0" "usedMonthlyLimit (new_tracker i ul lt) = 0"
  "usedAnnualLimit (new_tracker i ul lt) = 0" "usedNightlyLimit (new_tracker i ul lt) = 0"
  by (simp_all add: new_tracker_def)

lemma getLimit_flag:
  "getLimit m uuids u lt d = Inr (ul, t, True, d') \<Longrightarrow> t = new_tracker (snd uuids) ul lt"
  by (auto simp: getLimit_def Let_def split: option.splits)

lemma update_tracker_used:
  assumes "updateUserLimitTrackerAndOperation m (t, ul) p = (t', p')"
  shows "usedDailyLimit t' = usedDailyLimit t + op_value p"
    and "usedMonthlyLimit t' = usedMonthlyLimit t + op_value p"
    and "usedAnnualLimit t' = usedAnnualLimit t + op_value p"
    and "usedNightlyLimit t' = (if isInNighttimeInterval m ul (m_now m)
           then usedNightlyLimit t + op_value p else usedNightlyLimit t)"
    and "ult_id t' = ult_id t" and "op_userLimitTracker p' = Some (ult_id t)"
  using assms by (auto simp: updateUserLimitTrackerAndOperation_def Let_def split: if_splits)

lemma update_tracker_operation:
  assumes "updateUserLimitTrackerAndOperation m tu p = (t', p')"
  obtains tags where "p' = p\<lparr>analysisTags := tags, op_userLimitTracker := Some (ult_id t')\<rparr>"
  using assms by (auto simp: updateUserLimitTrackerAndOperation_def Let_def split: prod.splits)


lemma sample_restart [simp]: "restartUserLimitTracker sample_moment ul_ann tracker_ann = tracker_ann"
  by (simp add: restartUserLimitTracker_def restartUserLimitTrackerByDatePeriodStart_def Let_def)

lemma sample_check:
  "checkUserLimits sample_moment ids ann account_a tt_both 3000 sample_db =
     Inr (Some (tracker_ann, ul_ann), sample_db)"
proof -
  have "getLimit sample_moment ids ann lt_p2p sample_db =
      Inr (ul_ann, tracker_ann, False, sample_db)"
    by (simp add: getLimit_def UserLimitRepository_getByUserAndLimitType_def
        UserLimitTrackerRepository_getByUserLimit_def sample_db_def ann_def lt_p2p_def)
  moreover have "value_allowed True ul_ann 3000"
    by (simp add: value_allowed_def over_def under_def)
  moreover have "available_allowed True ul_ann (used_of_tracker tracker_ann) 3000"
    by (simp add: available_allowed_def over_available_def used_of_tracker_def)
  moreover have "find_limit_type tt_both sample_db = Some lt_p2p"
    by (simp add: find_limit_type_def LimitTypeRepository_getById_def sample_db_def tt_both_def
        lt_p2p_def)
  ultimately show ?thesis
    by (simp add: checkUserLimits_def sample_night result_simps lt_p2p_def account_a_def
        check_value_limits_Inr [THEN iffD2] check_used_limits_Inr [THEN iffD2])
qed


text \<open>
  C28: restarting a calendar tracker on a later day clears exactly the amounts of the periods that
  have ended: the day's when the day differs, the month's when the month differs, the year's when
  the year differs. Amounts of a running period are kept.
\<close>

theorem restart_by_date_spec:
  assumes "0 \<le> usedDailyLimit t" "0 \<le> usedMonthlyLimit t" "0 \<le> usedAnnualLimit t"
    and "ult_periodStart t = PS_DATE"
  shows "let r = restartUserLimitTracker m ul t;
             d0 = m_startOfDay m (m_now m); d1 = m_startOfDay m (ult_updatedAt t);
             m0 = m_startOfMonth m d0; m1 = m_startOfMonth m d1
         in usedDailyLimit r = (if d0 = d1 then usedDailyLimit t else 0)
          \<and> usedMonthlyLimit r = (if m0 = m1 then usedMonthlyLimit t else 0)
          \<and> usedAnnualLimit r =
              (if m_startOfYear m m0 = m_startOfYear m m1 then usedAnnualLimit t else 0)"
proof (cases "usedDailyLimit t > 0 \<or> usedMonthlyLimit t > 0 \<or> usedAnnualLimit t > 0")
  case True
  with assms show ?thesis
    by (auto simp: restartUserLimitTracker_def restartUserLimitTrackerByDatePeriodStart_def
        restartNightlyUserLimitTracker_def Let_def)
next
  case False
  with assms(1,2,3) have "usedDailyLimit t = 0" "usedMonthlyLimit t = 0" "usedAnnualLimit t = 0"
    by auto
  then show ?thesis
    by (simp add: restartUserLimitTracker_def restartNightlyUserLimitTracker_def Let_def)
qed

theorem restart_by_date_spec_witness:
  "usedDailyLimit (restartUserLimitTracker sample_moment ul_ann
      (tracker_ann\<lparr>ult_updatedAt := t_2330 - day_ms\<rparr>)) = 0
   \<and> usedMonthlyLimit (restartUserLimitTracker sample_moment ul_ann
      (tracker_ann\<lparr>ult_updatedAt := t_2330 - day_ms\<rparr>)) = 5000"
proof -
  let ?t = "tracker_ann\<lparr>ult_updatedAt := t_2330 - day_ms\<rparr>"
  have "0 \<le> usedDailyLimit ?t" "0 \<le> usedMonthlyLimit ?t" "0 \<le> usedAnnualLimit ?t"
    "ult_periodStart ?t = PS_DATE"
    by simp_all
  from restart_by_date_spec [OF this, of sample_moment ul_ann] show ?thesis
    by (simp add: Let_def)
qed

text \<open>
  The night's amount is cleared only by an operation outside the night. At any instant of the
  night the stored amount is kept, however long ago the tracker was last written, so the nights of
  a user who moves money at night only add up.
\<close>

theorem nightly_used_carries_over:
  assumes "isInNighttimeInterval m ul (m_now m)"
  shows "usedNightlyLimit (restartUserLimitTracker m ul t) = usedNightlyLimit t"
  using assms
  by (simp add: restartUserLimitTracker_def restartUserLimitTrackerByDatePeriodStart_def
      restartNightlyUserLimitTracker_def Let_def)

theorem nightly_used_carries_over_witness:
  "usedNightlyLimit (restartUserLimitTracker sample_moment ul_ann
      (tracker_ann\<lparr>usedNightlyLimit := 70000, ult_updatedAt := t_2330 - day_ms\<rparr>)) = 70000"
  using nightly_used_carries_over [of sample_moment ul_ann] sample_night by simp

end
