(* ===== verification/Create_Operation.thy ===== *)
theory Create_Operation
  imports Limit_Check
begin

text \<open>
  \<open>CreateOperationUseCase\<close>
  (apps/operations/src/application/usecases/operation/create.usecase.ts): a pending operation is
  created for an owner, a beneficiary or both, after checks on the input, the transaction type,
  the wallets, the funds and the limits; the owner's balance is blocked.
\<close>

section \<open>Inputs, configuration and state\<close>

text \<open>
  \<open>CreateOperationParticipant\<close>. A missing string is empty and a missing raw value is 0, which the
  code treats alike; the fee is tested for being defined.
\<close>

record participant =
  p_operation :: string
  p_wallet :: string
  p_currency :: string
  p_rawValue :: int
  p_fee :: "int option"
  p_description :: string
  p_ownerAllowAvailableRawValue :: bool
  p_ownerRequestedRawValue :: "int option"
  p_ownerRequestedFee :: "int option"

abbreviation fee_of :: "participant \<Rightarrow> int" where
  "fee_of p \<equiv> toNum (p_fee p)"

record config =
  operationSymbolCurrencyReal :: string
  pendingWalletAccountTransactionTTL :: int

text \<open>The private fields of the use case's instance.\<close>

record create_fields =
  pendingOwnerTransaction :: "pending_transaction option"
  pendingBeneficiaryTransaction :: "pending_transaction option"
  ownerUserLimitTracker :: "(user_limit_tracker \<times> user_limit) option"
  beneficiaryUserLimitTracker :: "(user_limit_tracker \<times> user_limit) option"

definition init_fields :: create_fields where
  "init_fields = \<lparr> pendingOwnerTransaction = None, pendingBeneficiaryTransaction = None,
     ownerUserLimitTracker = None, beneficiaryUserLimitTracker = None \<rparr>"

record world =
  the_db :: db
  the_redis :: redis
  the_fields :: create_fields

type_synonym 'a create_step = "(world, exn, 'a) step"

definition dbS :: "(db \<Rightarrow> ('a \<times> db) uc) \<Rightarrow> 'a create_step" where
  "dbS f w = (case f (the_db w) of Inl e \<Rightarrow> (Inl e, w) | Inr (x, d) \<Rightarrow> (Inr x, w\<lparr>the_db := d\<rparr>))"

lemma dbS_Inr [result_simps]:
  "dbS f w = (Inr x, w') \<longleftrightarrow> (\<exists>d. f (the_db w) = Inr (x, d) \<and> w' = w\<lparr>the_db := d\<rparr>)"
  by (auto simp: dbS_def split: sum.splits)

text \<open>A database update that may throw.\<close>

definition updateS :: "(db \<Rightarrow> db uc) \<Rightarrow> unit create_step" where
  "updateS f = dbS (\<lambda>d. bindR (f d) (\<lambda>d'. Inr ((), d')))"

lemma updateS_Inr [result_simps]:
  "updateS f w = (Inr u, w') \<longleftrightarrow> (\<exists>d. f (the_db w) = Inr d \<and> w' = w\<lparr>the_db := d\<rparr>)"
  by (auto simp: updateS_def result_simps)

section \<open>Input checks\<close>

definition checkInputData :: "participant \<Rightarrow> unit uc" where
  "checkInputData p =
    (if p_operation p = [] \<or> p_wallet p = [] \<or> p_currency p = [] \<or> p_description p = []
        \<or> p_rawValue p = 0 \<or> p_fee p = None
     then Inl (MissingDataException
       (missing (p_operation p = []) ''Operation'' @ missing (p_wallet p = []) ''Wallet''
        @ missing (p_currency p = []) ''Currency'' @ missing (p_description p = []) ''Description''
        @ missing (p_rawValue p = 0) ''rawValue'' @ missing (p_fee p = None) ''fee''))
     else if p_rawValue p \<le> 0 then Inl (InvalidDataFormatException [''rawValue''])
     else if fee_of p < 0 then Inl (InvalidDataFormatException [''Fee''])
     else Inr ())"

definition checkInputOption :: "participant option \<Rightarrow> unit uc" where
  "checkInputOption i = (case i of None \<Rightarrow> Inr () | Some p \<Rightarrow> checkInputData p)"

definition checkPreconditions ::
    "string \<Rightarrow> participant option \<Rightarrow> participant option \<Rightarrow> db \<Rightarrow> transaction_type uc" where
  "checkPreconditions tag ownerInfo beneficiaryInfo d =
    (if ownerInfo = None \<and> beneficiaryInfo = None
     then Inl (MissingDataException [''Owner Info'', ''Beneficiary Info''])
     else if tag = [] then Inl (MissingDataException [''Transaction Type Tag''])
     else
       bindR (checkInputOption ownerInfo) (\<lambda>_.
       bindR (checkInputOption beneficiaryInfo) (\<lambda>_.
       bindR (orThrow (TransactionTypeRepository_getByTag tag d)
                (TransactionTypeTagNotFoundException tag)) (\<lambda>tt.
       if \<not> List.member transactionTypeStates (tt_state tt)
       then Inl (DataException
              [''Transaction type state '' @ tt_state tt @ '' is not supported.''])
       else if \<not> transaction_type_isActive tt
       then Inl (TransactionTypeNotActiveException (tt_tag tt))
       else if isBothParticipantsRequired tt \<and> (ownerInfo = None \<or> beneficiaryInfo = None)
       then Inl (MissingDataException
              (missing (ownerInfo = None) ''Owner Info''
               @ missing (beneficiaryInfo = None) ''Beneficiary Info''))
       else if isOwnerParticipantsRequired tt \<and> ownerInfo = None
       then Inl (MissingDataException [''Owner Info''])
       else if isBeneficiaryParticipantsRequired tt \<and> beneficiaryInfo = None
       then Inl (MissingDataException [''Beneficiary Info''])
       else Inr tt))))"

section \<open>Loading the participants\<close>

definition load_participant :: "participant \<Rightarrow> db \<Rightarrow> (wallet \<times> wallet_account) uc" where
  "load_participant p d =
     bindR (orThrow (CurrencyRepository_getByTag (p_currency p) d)
              (CurrencyNotFoundException (p_currency p))) (\<lambda>c.
     if \<not> currency_isActive c then Inl (CurrencyNotActiveException (p_currency p))
     else
     bindR (orThrow (WalletRepository_getByUuid (p_wallet p) d)
              (WalletNotFoundException (p_wallet p))) (\<lambda>w.
     if \<not> wallet_isActive w then Inl (WalletNotActiveException (w_uuid w))
     else
     bindR (orThrow (WalletAccountRepository_getByWalletAndCurrency w c d)
              WalletAccountNotFoundException) (\<lambda>a.
     if \<not> wallet_account_isActive a then Inl (WalletAccountNotActiveException (wa_id a))
     else Inr (w, a))))"

definition announce_owner :: "pending_transaction \<Rightarrow> world \<Rightarrow> world" where
  "announce_owner x w = w\<lparr>the_redis := PendingTransactionRepository_createOrUpdate x (the_redis w),
     the_fields := (the_fields w)\<lparr>pendingOwnerTransaction := Some x\<rparr>\<rparr>"

definition announce_beneficiary :: "pending_transaction \<Rightarrow> world \<Rightarrow> world" where
  "announce_beneficiary x w =
     w\<lparr>the_redis := PendingTransactionRepository_createOrUpdate x (the_redis w),
       the_fields := (the_fields w)\<lparr>pendingBeneficiaryTransaction := Some x\<rparr>\<rparr>"

definition load_owner :: "participant option \<Rightarrow> (wallet \<times> wallet_account) option create_step" where
  "load_owner i =
    (case i of
       None \<Rightarrow> returnS None
     | Some p \<Rightarrow>
         bindS (readS (\<lambda>w. load_participant p (the_db w))) (\<lambda>(w, a).
         bindS (modifyS (announce_owner \<lparr> ptx_operation = p_operation p,
                  ptx_walletAccount = wa_id a,
                  ptx_value = \<bar>fee_of p + p_rawValue p\<bar> * -1, ptx_ttl = None \<rparr>)) (\<lambda>_.
         returnS (Some (w, a)))))"

definition load_beneficiary ::
    "participant option \<Rightarrow> (wallet \<times> wallet_account) option create_step" where
  "load_beneficiary i =
    (case i of
       None \<Rightarrow> returnS None
     | Some p \<Rightarrow>
         bindS (readS (\<lambda>w. load_participant p (the_db w))) (\<lambda>(w, a).
         bindS (modifyS (announce_beneficiary \<lparr> ptx_operation = p_operation p,
                  ptx_walletAccount = wa_id a,
                  ptx_value = \<bar>p_rawValue p\<bar>, ptx_ttl = None \<rparr>)) (\<lambda>_.
         returnS (Some (w, a)))))"

section \<open>Credit\<close>

text \<open>Prices are rational numbers; the rounding of binary floating point is not modelled.\<close>

definition formatValueFromIntToFloat :: "int \<Rightarrow> nat \<Rightarrow> rat" where
  "formatValueFromIntToFloat v decimals = of_int v / 10 ^ decimals"

definition formatValueFromFloatToInt :: "rat \<Rightarrow> nat \<Rightarrow> int" where
  "formatValueFromFloatToInt v decimals = \<lfloor>1 / 2 + v * 10 ^ decimals\<rfloor>"

definition getUserCreditBalance :: "transaction_type \<Rightarrow> user \<Rightarrow> db \<Rightarrow> int" where
  "getUserCreditBalance tt u d =
    (case LimitTypeRepository_getByTransactionType tt d of
       None \<Rightarrow> 0
     | Some lt \<Rightarrow>
         (case UserLimitRepository_getByUserAndLimitType u lt d of
            None \<Rightarrow> 0
          | Some ul \<Rightarrow> creditBalance ul))"

definition add_liability ::
    "config \<Rightarrow> redis \<Rightarrow> wallet_account \<times> currency \<Rightarrow> int \<Rightarrow> int uc" where
  "add_liability cfg r ac liability =
    (let (a, c) = ac;
         bal = balance a
           + sum_list (map ptx_value (PendingTransactionRepository_getByWalletAccount a r))
     in if bal < 0 then
          (if cur_symbol c = operationSymbolCurrencyReal cfg then Inr (liability + \<bar>bal\<bar>)
           else
             (case sort_key sq_priority (StreamQuotationRepository_getByBaseAndQuote
                     (cur_symbol c) (operationSymbolCurrencyReal cfg) r) of
                [] \<Rightarrow> Inl (StreamQuotationNotFoundException (cur_symbol c))
              | q # _ \<Rightarrow>
                  (let formattedBalance = formatValueFromIntToFloat \<bar>bal\<bar> (cur_decimal c);
                       priceAmount = sq_price q * formattedBalance
                   in Inr (liability + formatValueFromFloatToInt priceAmount 2))))
        else Inr liability)"

definition checkCreditBalance :: "config \<Rightarrow> wallet \<Rightarrow> int \<Rightarrow> db \<Rightarrow> redis \<Rightarrow> bool uc" where
  "checkCreditBalance cfg ownerWallet creditBalanceAvailable d r =
    (let accounts = WalletAccountCacheRepository_getAllByUser (w_user ownerWallet) d
     in if accounts = [] then Inl WalletAccountNotFoundException
        else bindR (foldR (add_liability cfg r) accounts 0)
               (\<lambda>liability. Inr (\<not> liability > creditBalanceAvailable)))"

section \<open>Checking the participants\<close>

text \<open>
  When the owner allows it, an amount above the balance is cut down to what the balance covers,
  and the requested amounts are remembered.
\<close>

definition use_available_balance :: "wallet_account \<Rightarrow> participant \<Rightarrow> participant" where
  "use_available_balance a p =
    (if p_ownerAllowAvailableRawValue p \<and> balance a < p_rawValue p + fee_of p then
       let p1 = p\<lparr>p_ownerRequestedFee := p_fee p, p_ownerRequestedRawValue := Some (p_rawValue p)\<rparr>
       in if balance a < fee_of p then p1\<lparr>p_rawValue := 0, p_fee := Some (balance a)\<rparr>
          else p1\<lparr>p_rawValue := balance a - fee_of p\<rparr>
     else p)"

definition check_owner ::
    "moment \<Rightarrow> config \<Rightarrow> string \<times> string \<Rightarrow> transaction_type \<Rightarrow> participant
     \<Rightarrow> wallet \<times> wallet_account \<Rightarrow> participant create_step" where
  "check_owner m cfg uuids tt ownerInfo wa =
    (let (ownerWallet, a) = wa in
     bindS (readS (\<lambda>w. let credit = getUserCreditBalance tt (w_user ownerWallet) (the_db w) in
              if credit > 0 then checkCreditBalance cfg ownerWallet credit (the_db w) (the_redis w)
              else Inr False)) (\<lambda>ownerHasCreditBalanceAvailable.
     let info = use_available_balance a ownerInfo;
         ownerValue = fee_of info + p_rawValue info
     in if balance a < ownerValue \<and> \<not> ownerHasCreditBalanceAvailable
        then throwS (NotEnoughFundsException (wa_id a) ownerValue)
        else
          bindS (dbS (checkUserLimits m uuids (w_user ownerWallet) a tt ownerValue)) (\<lambda>t.
          bindS (modifyS (\<lambda>w. w\<lparr>the_fields := (the_fields w)\<lparr>ownerUserLimitTracker := t\<rparr>\<rparr>)) (\<lambda>_.
          returnS info))))"

definition check_beneficiary ::
    "moment \<Rightarrow> string \<times> string \<Rightarrow> transaction_type \<Rightarrow> participant
     \<Rightarrow> wallet \<times> wallet_account \<Rightarrow> unit create_step" where
  "check_beneficiary m uuids tt beneficiaryInfo wa =
    (let (beneficiaryWallet, a) = wa; beneficiaryValue = p_rawValue beneficiaryInfo in
     bindS (dbS (checkUserLimits m uuids (w_user beneficiaryWallet) a tt beneficiaryValue)) (\<lambda>t.
     modifyS (\<lambda>w. w\<lparr>the_fields := (the_fields w)\<lparr>beneficiaryUserLimitTracker := t\<rparr>\<rparr>)))"

section \<open>Creating an operation\<close>

text \<open>An announced movement that is settled or failed is given its time to live, once.\<close>

definition expire :: "config \<Rightarrow> pending_transaction \<Rightarrow> pending_transaction" where
  "expire cfg x = x\<lparr>ptx_ttl := Some (pendingWalletAccountTransactionTTL cfg)\<rparr>"

definition removePendingWalletAccountTransaction :: "config \<Rightarrow> world \<Rightarrow> world" where
  "removePendingWalletAccountTransaction cfg w =
    (let w1 = (case pendingOwnerTransaction (the_fields w) of
                 None \<Rightarrow> w
               | Some x \<Rightarrow> if truthy (ptx_ttl x) then w else announce_owner (expire cfg x) w)
     in case pendingBeneficiaryTransaction (the_fields w1) of
          None \<Rightarrow> w1
        | Some x \<Rightarrow> if truthy (ptx_ttl x) then w1 else announce_beneficiary (expire cfg x) w1)"

text \<open>
  The operation to store. The beneficiary's fee is debited from the value; the stored fee is
  positive. With neither participant the code fails on reading the missing information.
\<close>

definition new_operation ::
    "participant option \<Rightarrow> (wallet \<times> wallet_account) option \<Rightarrow> participant option
     \<Rightarrow> (wallet \<times> wallet_account) option \<Rightarrow> transaction_type \<Rightarrow> operation option" where
  "new_operation ownerInfo owner beneficiaryInfo beneficiary tt =
    (let build = (\<lambda>info account signedFee. Some
           \<lparr> op_id = p_operation info,
             op_owner = map_option (\<lambda>(w, a). user_id (w_user w)) owner,
             ownerWalletAccount = map_option (\<lambda>(w, a). wa_id a) owner,
             op_beneficiary = map_option (\<lambda>(w, a). user_id (w_user w)) beneficiary,
             beneficiaryWalletAccount = map_option (\<lambda>(w, a). wa_id a) beneficiary,
             op_transactionType = tt_id tt,
             op_currency = wa_currency account,
             rawValue = p_rawValue info,
             fee = \<bar>signedFee\<bar>,
             op_value = signedFee + p_rawValue info,
             op_description = p_description info,
             operationRef = None,
             op_state = PENDING,
             createdAt = 0,
             revertedAt = None,
             ownerRequestedRawValue = (if ownerInfo = None then None
                                       else p_ownerRequestedRawValue info),
             ownerRequestedFee = (if ownerInfo = None then None else p_ownerRequestedFee info),
             analysisTags = [],
             op_userLimitTracker = None \<rparr>)
     in case ownerInfo of
          Some info \<Rightarrow> (case owner of None \<Rightarrow> None | Some (_, a) \<Rightarrow> build info a (fee_of info))
        | None \<Rightarrow>
            (case beneficiaryInfo of
               None \<Rightarrow> None
             | Some info \<Rightarrow>
                 (case beneficiary of
                    None \<Rightarrow> None
                  | Some (_, a) \<Rightarrow> build info a (- fee_of info))))"

definition store_tracker ::
    "moment \<Rightarrow> user_limit_tracker \<times> user_limit \<Rightarrow> operation \<Rightarrow> operation create_step" where
  "store_tracker m tu p =
    (let (t', p') = updateUserLimitTrackerAndOperation m tu p in
     bindS (modifyS (\<lambda>w. w\<lparr>the_db := UserLimitTrackerRepository_createOrUpdate (m_now m) t' (the_db w)\<rparr>))
       (\<lambda>_. returnS p'))"

definition use_limit ::
    "moment \<Rightarrow> participant option \<Rightarrow> (create_fields \<Rightarrow> (user_limit_tracker \<times> user_limit) option)
     \<Rightarrow> operation \<Rightarrow> operation create_step" where
  "use_limit m info tracker p w =
    (case tracker (the_fields w) of
       Some tu \<Rightarrow> if info \<noteq> None then store_tracker m tu p w else (Inr p, w)
     | None \<Rightarrow> (Inr p, w))"

definition blockWalletAccountBalance :: "wallet_account \<Rightarrow> int \<Rightarrow> db \<Rightarrow> db" where
  "blockWalletAccountBalance a v d =
     WalletAccountRepository_update
       (a\<lparr>balance := balance a - v, pendingAmount := pendingAmount a + v\<rparr>) d"

definition createOperation ::
    "moment \<Rightarrow> config \<Rightarrow> transaction_type \<Rightarrow> participant option
     \<Rightarrow> (wallet \<times> wallet_account) option \<Rightarrow> participant option
     \<Rightarrow> (wallet \<times> wallet_account) option \<Rightarrow> operation create_step" where
  "createOperation m cfg tt ownerInfo owner beneficiaryInfo beneficiary =
    (case new_operation ownerInfo owner beneficiaryInfo beneficiary tt of
       None \<Rightarrow> throwS TypeError
     | Some p \<Rightarrow>
         bindS (use_limit m ownerInfo ownerUserLimitTracker p) (\<lambda>p1.
         bindS (use_limit m beneficiaryInfo beneficiaryUserLimitTracker p1) (\<lambda>p2.
         bindS (dbS (OperationRepository_create (m_now m) p2)) (\<lambda>created.
         bindS (modifyS (removePendingWalletAccountTransaction cfg)) (\<lambda>_.
         bindS (case owner of
                  None \<Rightarrow> returnS ()
                | Some (_, a) \<Rightarrow>
                    modifyS (\<lambda>w. w\<lparr>the_db := blockWalletAccountBalance a (op_value p) (the_db w)\<rparr>)) (\<lambda>_.
         returnS created))))))"

definition createOwnerOperation ::
    "moment \<Rightarrow> config \<Rightarrow> transaction_type \<Rightarrow> participant option
     \<Rightarrow> (wallet \<times> wallet_account) option \<Rightarrow> operation create_step" where
  "createOwnerOperation m cfg tt ownerInfo owner = createOperation m cfg tt ownerInfo owner None None"

definition createBeneficiaryOperation ::
    "moment \<Rightarrow> config \<Rightarrow> transaction_type \<Rightarrow> participant option
     \<Rightarrow> (wallet \<times> wallet_account) option \<Rightarrow> operation create_step" where
  "createBeneficiaryOperation m cfg tt beneficiaryInfo beneficiary =
     createOperation m cfg tt None None beneficiaryInfo beneficiary"

text \<open>A shared operation is built from the owner's information only.\<close>

definition createSharedOperation ::
    "moment \<Rightarrow> config \<Rightarrow> transaction_type \<Rightarrow> participant option
     \<Rightarrow> (wallet \<times> wallet_account) option \<Rightarrow> (wallet \<times> wallet_account) option
     \<Rightarrow> operation create_step" where
  "createSharedOperation m cfg tt ownerInfo owner beneficiary =
     createOperation m cfg tt ownerInfo owner None beneficiary"

definition createIndependentOperations ::
    "moment \<Rightarrow> config \<Rightarrow> transaction_type \<Rightarrow> participant option
     \<Rightarrow> (wallet \<times> wallet_account) option \<Rightarrow> participant option
     \<Rightarrow> (wallet \<times> wallet_account) option \<Rightarrow> (operation \<times> operation) create_step" where
  "createIndependentOperations m cfg tt ownerInfo owner beneficiaryInfo beneficiary =
     bindS (createOperation m cfg tt ownerInfo owner None None) (\<lambda>p.
     bindS (createOperation m cfg tt None None beneficiaryInfo beneficiary) (\<lambda>q.
     let p' = p\<lparr>operationRef := Some (op_id q)\<rparr>; q' = q\<lparr>operationRef := Some (op_id p)\<rparr> in
     bindS (modifyS (\<lambda>w. w\<lparr>the_db := OperationRepository_update p' (the_db w)\<rparr>)) (\<lambda>_.
     bindS (modifyS (\<lambda>w. w\<lparr>the_db := OperationRepository_update q' (the_db w)\<rparr>)) (\<lambda>_.
     returnS (p', q')))))"

section \<open>The use case\<close>

record created_operation =
  ownerOperation :: "operation option"
  beneficiaryOperation :: "operation option"

text \<open>Which operations are created, by the participants and their currencies.\<close>

definition create_by_participants ::
    "moment \<Rightarrow> config \<Rightarrow> transaction_type \<Rightarrow> participant option
     \<Rightarrow> (wallet \<times> wallet_account) option \<Rightarrow> participant option
     \<Rightarrow> (wallet \<times> wallet_account) option \<Rightarrow> created_operation create_step" where
  "create_by_participants m cfg tt ownerInfo owner beneficiaryInfo beneficiary =
    (case owner of
       Some (_, a) \<Rightarrow>
         (case beneficiary of
            Some (_, b) \<Rightarrow>
              if wa_currency a \<noteq> wa_currency b
              then bindS (createIndependentOperations m cfg tt ownerInfo owner
                            beneficiaryInfo beneficiary) (\<lambda>(p, q).
                   returnS \<lparr> ownerOperation = Some p, beneficiaryOperation = Some q \<rparr>)
              else bindS (createSharedOperation m cfg tt ownerInfo owner beneficiary) (\<lambda>p.
                   returnS \<lparr> ownerOperation = Some p, beneficiaryOperation = Some p \<rparr>)
          | None \<Rightarrow> bindS (createOwnerOperation m cfg tt ownerInfo owner) (\<lambda>p.
                    returnS \<lparr> ownerOperation = Some p, beneficiaryOperation = None \<rparr>))
     | None \<Rightarrow> bindS (createBeneficiaryOperation m cfg tt beneficiaryInfo beneficiary) (\<lambda>q.
               returnS \<lparr> ownerOperation = None, beneficiaryOperation = Some q \<rparr>))"

text \<open>
  \<open>ids\<close> are the identifiers \<open>uuidV4()\<close> returns, a limit and a tracker for each of the two checks.
\<close>

definition CreateOperationUseCase_execute ::
    "moment \<Rightarrow> config \<Rightarrow> (string \<times> string) \<times> (string \<times> string) \<Rightarrow> string
     \<Rightarrow> participant option \<Rightarrow> participant option \<Rightarrow> created_operation create_step" where
  "CreateOperationUseCase_execute m cfg ids tag ownerInfo beneficiaryInfo =
     bindS (readS (\<lambda>w. checkPreconditions tag ownerInfo beneficiaryInfo (the_db w))) (\<lambda>tt.
     catchS
       (bindS (load_owner ownerInfo) (\<lambda>owner.
        bindS (load_beneficiary beneficiaryInfo) (\<lambda>beneficiary.
        bindS (case (ownerInfo, owner) of
                 (Some p, Some wa) \<Rightarrow> bindS (check_owner m cfg (fst ids) tt p wa) (\<lambda>p'. returnS (Some p'))
               | _ \<Rightarrow> returnS ownerInfo) (\<lambda>ownerInfo'.
        bindS (case (beneficiaryInfo, beneficiary) of
                 (Some p, Some wa) \<Rightarrow> check_beneficiary m (snd ids) tt p wa
               | _ \<Rightarrow> returnS ()) (\<lambda>_.
        bindS (create_by_participants m cfg tt ownerInfo' owner beneficiaryInfo beneficiary) (\<lambda>r.
        bindS (updateS (emitOperationEvent PendingOperation (ownerOperation r)
                 (beneficiaryOperation r))) (\<lambda>_.
        returnS r)))))))
       (removePendingWalletAccountTransaction cfg))"

text \<open>
  \<open>TransactionInterceptor\<close> (libs/common/src/interceptors/transaction.interceptor.ts): a request
  that throws is rolled back in the database. What the use case wrote to redis stays.
\<close>

definition transactional :: "'a create_step \<Rightarrow> 'a create_step" where
  "transactional f w =
    (case f w of
       (Inl e, w') \<Rightarrow> (Inl e, w'\<lparr>the_db := the_db w\<rparr>)
     | (Inr x, w') \<Rightarrow> (Inr x, w'))"

end
