(* ===== verification/Accept_Revert.thy ===== *)
theory Accept_Revert
  imports Create_Operation
begin

text \<open>
  \<open>AcceptOperationUseCase\<close>, \<open>RevertOperationUseCase\<close>
  (apps/operations/src/application/usecases/operation/accept.usecase.ts and revert.usecase.ts) and
  the controller that creates and accepts in one request
  (apps/operations/src/interface/controllers/operation/create_and_accept.controller.ts). Both use
  cases touch only the database, so an exception discards the state: that is the rollback of the
  request's transaction.
\<close>

section \<open>Accepting an operation\<close>

record accepted_operation =
  ao_operation :: operation
  debitWalletAccountTransaction :: "wallet_account_transaction option"
  debitWalletAccount :: "wallet_account option"
  creditWalletAccountTransaction :: "wallet_account_transaction option"
  creditWalletAccount :: "wallet_account option"

text \<open>The account of a pending operation, which must exist and be active.\<close>

definition load_account :: "nat \<Rightarrow> db \<Rightarrow> wallet_account uc" where
  "load_account i d =
     bindR (orThrow (WalletAccountRepository_getById i d) WalletAccountNotFoundException) (\<lambda>a.
     if \<not> wallet_account_isActive a then Inl (WalletAccountNotActiveException (wa_id a)) else Inr a)"

definition debit_owner ::
    "operation \<Rightarrow> db \<Rightarrow> ((wallet_account_transaction \<times> wallet_account) option \<times> db) uc" where
  "debit_owner p d =
    (case ownerWalletAccount p of
       None \<Rightarrow> Inr (None, d)
     | Some i \<Rightarrow>
         bindR (load_account i d) (\<lambda>a.
         let previous = balance a + pendingAmount a;
             updated = previous - op_value p;
             t = \<lparr> wat_walletAccount = wa_id a, wat_operation = op_id p, wat_type = DEBIT,
                   wat_value = op_value p, previousBalance = previous, updatedBalance = updated \<rparr>;
             a' = a\<lparr>pendingAmount := pendingAmount a - op_value p\<rparr>
         in Inr (Some (t, a'),
              WalletAccountRepository_update a' (WalletAccountTransactionRepository_create t d))))"

definition credit_beneficiary ::
    "operation \<Rightarrow> db \<Rightarrow> ((wallet_account_transaction \<times> wallet_account) option \<times> db) uc" where
  "credit_beneficiary p d =
    (case beneficiaryWalletAccount p of
       None \<Rightarrow> Inr (None, d)
     | Some i \<Rightarrow>
         bindR (load_account i d) (\<lambda>a.
         let previous = balance a + pendingAmount a;
             updated = previous + op_value p;
             t = \<lparr> wat_walletAccount = wa_id a, wat_operation = op_id p, wat_type = CREDIT,
                   wat_value = op_value p, previousBalance = previous, updatedBalance = updated \<rparr>;
             a' = a\<lparr>balance := balance a + op_value p\<rparr>
         in Inr (Some (t, a'),
              WalletAccountRepository_update a' (WalletAccountTransactionRepository_create t d))))"

definition only_if :: "'a option \<Rightarrow> 'b \<Rightarrow> 'b option" where
  "only_if c x = (if c = None then None else Some x)"

definition AcceptOperationUseCase_execute :: "string \<Rightarrow> db \<Rightarrow> (accepted_operation \<times> db) uc" where
  "AcceptOperationUseCase_execute i d =
    (if i = [] then Inl (MissingDataException [''Operation ID''])
     else
       bindR (orThrow (OperationRepository_getById i d) (OperationNotFoundException i)) (\<lambda>p0.
       if \<not> isPending p0 then Inl (OperationInvalidStateException (op_state p0))
       else
         let p = p0\<lparr>op_state := ACCEPTED\<rparr>; d1 = OperationRepository_update p d in
         bindR (debit_owner p d1) (\<lambda>(debit, d2).
         bindR (credit_beneficiary p d2) (\<lambda>(credit, d3).
         bindR (if ownerWalletAccount p \<noteq> None \<or> beneficiaryWalletAccount p \<noteq> None
                then emitOperationEvent AcceptedOperation (only_if (ownerWalletAccount p) p)
                       (only_if (beneficiaryWalletAccount p) p) d3
                else Inr d3) (\<lambda>d4.
         Inr (\<lparr> ao_operation = p,
                debitWalletAccountTransaction = map_option fst debit,
                debitWalletAccount = map_option snd debit,
                creditWalletAccountTransaction = map_option fst credit,
                creditWalletAccount = map_option snd credit \<rparr>, d4))))))"

section \<open>Reverting an operation\<close>

definition release_owner :: "operation \<Rightarrow> db \<Rightarrow> db uc" where
  "release_owner p d =
    (case ownerWalletAccount p of
       None \<Rightarrow> Inr d
     | Some i \<Rightarrow>
         bindR (load_account i d) (\<lambda>a.
         Inr (WalletAccountRepository_update
                (a\<lparr>pendingAmount := pendingAmount a - op_value p,
                   balance := balance a + op_value p\<rparr>) d)))"

text \<open>\<open>now\<close> is the value of \<open>new Date()\<close>.\<close>

definition RevertOperationUseCase_execute :: "int \<Rightarrow> string \<Rightarrow> db \<Rightarrow> (operation \<times> db) uc" where
  "RevertOperationUseCase_execute now i d =
    (if i = [] then Inl (MissingDataException [''Operation ID''])
     else
       bindR (orThrow (OperationRepository_getById i d) (OperationNotFoundException i)) (\<lambda>p0.
       if isReverted p0 then Inr (p0, d)
       else if \<not> isPending p0 then Inl (OperationInvalidStateException (op_state p0))
       else
         bindR (release_owner p0 d) (\<lambda>d1.
         let p = p0\<lparr>op_state := REVERTED, revertedAt := Some now\<rparr>;
             d2 = OperationRepository_update p d1
         in bindR (emitOperationEvent RevertedOperation (only_if (ownerWalletAccount p) p)
                     (only_if (beneficiaryWalletAccount p) p) d2) (\<lambda>d3.
            Inr (p, d3)))))"

section \<open>Creating and accepting\<close>

definition accept_step :: "operation \<Rightarrow> accepted_operation create_step" where
  "accept_step p = dbS (AcceptOperationUseCase_execute (op_id p))"

definition CreateAndAcceptOperationController_execute ::
    "moment \<Rightarrow> config \<Rightarrow> (string \<times> string) \<times> (string \<times> string) \<Rightarrow> string
     \<Rightarrow> participant option \<Rightarrow> participant option
     \<Rightarrow> (accepted_operation option \<times> accepted_operation option) create_step" where
  "CreateAndAcceptOperationController_execute m cfg ids tag ownerInfo beneficiaryInfo =
     bindS (CreateOperationUseCase_execute m cfg ids tag ownerInfo beneficiaryInfo) (\<lambda>r.
     case (ownerOperation r, beneficiaryOperation r) of
       (Some p, Some q) \<Rightarrow>
         if op_id p = op_id q
         then bindS (accept_step p) (\<lambda>x. returnS (Some x, Some x))
         else bindS (accept_step p) (\<lambda>x. bindS (accept_step q) (\<lambda>y. returnS (Some x, Some y)))
     | (Some p, None) \<Rightarrow> bindS (accept_step p) (\<lambda>x. returnS (Some x, None))
     | (None, Some q) \<Rightarrow> bindS (accept_step q) (\<lambda>y. returnS (None, Some y))
     | (None, None) \<Rightarrow> returnS (None, None))"

end
