(* ===== verification/Sample_Requests.thy ===== *)
theory Sample_Requests
  imports Accept_Revert
begin

text \<open>
  A concrete run of the operation use cases on the sample database: Ann opens an operation of 30.00
  in favour of Bob at night, which is then accepted, or reverted. The outcomes are evaluated in the
  logic; theorems about the use cases are instantiated on them.
\<close>

definition sample_config :: config where
  "sample_config = \<lparr> operationSymbolCurrencyReal = ''BRL'', pendingWalletAccountTransactionTTL = 60 \<rparr>"

definition payer :: participant where
  "payer = \<lparr> p_operation = ''op1'', p_wallet = ''wa'', p_currency = ''REAL'', p_rawValue = 3000,
     p_fee = Some 0, p_description = ''lunch'', p_ownerAllowAvailableRawValue = False,
     p_ownerRequestedRawValue = None, p_ownerRequestedFee = None \<rparr>"

definition payee :: participant where
  "payee = payer\<lparr>p_wallet := ''wb''\<rparr>"

definition sample_world :: world where
  "sample_world = \<lparr> the_db = sample_db, the_redis = sample_redis, the_fields = init_fields \<rparr>"

definition sample_ids :: "(string \<times> string) \<times> (string \<times> string)" where
  "sample_ids = ((''u1'', ''t9''), (''u2'', ''t8''))"

definition opened_operation :: operation where
  "opened_operation = sample_operation\<lparr>analysisTags := [DATE_LIMIT_INCLUDED],
     op_userLimitTracker := Some ''t1''\<rparr>"

definition sample_result :: created_operation where
  "sample_result = \<lparr> ownerOperation = Some opened_operation,
     beneficiaryOperation = Some opened_operation \<rparr>"

definition tracker_after :: user_limit_tracker where
  "tracker_after = tracker_ann\<lparr>usedDailyLimit := 4000, usedMonthlyLimit := 8000,
     usedAnnualLimit := 12000, usedNightlyLimit := 3000, ult_updatedAt := t_2330\<rparr>"

definition ul_bob :: user_limit where
  "ul_bob = limit_values.extend night_values (user_limit.fields ''u2'' 2 1 0)"

definition opened_db :: db where
  "opened_db = sample_db\<lparr>operations := [opened_operation],
     walletAccounts := [account_a\<lparr>balance := 87000, pendingAmount := 3000\<rparr>, account_b],
     userLimits := [ul_ann, ul_bob], userLimitTrackers := [tracker_after],
     outbox := [CreatedUserLimit ''u2'',
       PendingOperation (Some opened_operation) (Some opened_operation)]\<rparr>"

definition announced :: "nat \<Rightarrow> int \<Rightarrow> pending_transaction" where
  "announced i v = \<lparr> ptx_operation = ''op1'', ptx_walletAccount = i, ptx_value = v,
     ptx_ttl = Some 60 \<rparr>"

definition opened_redis :: redis where
  "opened_redis = sample_redis\<lparr>pendingTransactions := [announced 10 (-3000), announced 20 3000]\<rparr>"

definition opened_fields :: create_fields where
  "opened_fields = \<lparr> pendingOwnerTransaction = Some (announced 10 (-3000)),
     pendingBeneficiaryTransaction = Some (announced 20 3000),
     ownerUserLimitTracker = Some (tracker_ann, ul_ann),
     beneficiaryUserLimitTracker = Some (new_tracker ''t8'' ul_bob lt_p2p, ul_bob) \<rparr>"

definition opened_world :: world where
  "opened_world = \<lparr> the_db = opened_db, the_redis = opened_redis, the_fields = opened_fields \<rparr>"

lemma sample_create:
  "CreateOperationUseCase_execute sample_moment sample_config sample_ids ''P2PBT''
     (Some payer) (Some payee) sample_world = (Inr sample_result, opened_world)"
  by code_simp

definition accepted_db :: db where
  "accepted_db = opened_db\<lparr>operations := [opened_operation\<lparr>op_state := ACCEPTED\<rparr>],
     walletAccounts := [account_a\<lparr>balance := 87000\<rparr>, account_b\<lparr>balance := 3500\<rparr>],
     walletAccountTransactions :=
       [\<lparr> wat_walletAccount = 10, wat_operation = ''op1'', wat_type = DEBIT, wat_value = 3000,
          previousBalance = 90000, updatedBalance = 87000 \<rparr>,
        \<lparr> wat_walletAccount = 20, wat_operation = ''op1'', wat_type = CREDIT, wat_value = 3000,
          previousBalance = 500, updatedBalance = 3500 \<rparr>],
     outbox := outbox opened_db @
       [AcceptedOperation (Some (opened_operation\<lparr>op_state := ACCEPTED\<rparr>))
          (Some (opened_operation\<lparr>op_state := ACCEPTED\<rparr>))]\<rparr>"

definition sample_accepted :: accepted_operation where
  "sample_accepted = \<lparr> ao_operation = opened_operation\<lparr>op_state := ACCEPTED\<rparr>,
     debitWalletAccountTransaction = Some (walletAccountTransactions accepted_db ! 0),
     debitWalletAccount = Some (account_a\<lparr>balance := 87000\<rparr>),
     creditWalletAccountTransaction = Some (walletAccountTransactions accepted_db ! 1),
     creditWalletAccount = Some (account_b\<lparr>balance := 3500\<rparr>) \<rparr>"

lemma sample_accept:
  "AcceptOperationUseCase_execute ''op1'' opened_db = Inr (sample_accepted, accepted_db)"
  by code_simp

definition reverted_operation :: operation where
  "reverted_operation = opened_operation\<lparr>op_state := REVERTED, revertedAt := Some t_2330\<rparr>"

definition reverted_db :: db where
  "reverted_db = opened_db\<lparr>operations := [reverted_operation],
     walletAccounts := [account_a, account_b],
     outbox := outbox opened_db @ [RevertedOperation (Some reverted_operation) (Some reverted_operation)]\<rparr>"

lemma sample_revert:
  "RevertOperationUseCase_execute t_2330 ''op1'' opened_db = Inr (reverted_operation, reverted_db)"
  by code_simp

lemma sample_keys:
  "walletAccounts_wf sample_db" "operations_wf sample_db"
  "walletAccounts_wf opened_db" "operations_wf opened_db"
  by code_simp+

end
