(* ===== verification/Books.thy ===== *)
theory Books
  imports Accept_Revert Sample_Requests
begin

text \<open>
  What the use cases of an operation do to the books: the wallet accounts, the operations and the
  wallet account transactions. \<open>books\<close> lists the atomic changes: opening an operation, linking
  two operations, accepting one, reverting one. Creating an operation is shown to be a sequence of
  them, so an invariant of the books has to be checked on the atomic changes only.
\<close>

section \<open>Atomic changes of the books\<close>

definition open_operation :: "operation \<Rightarrow> db \<Rightarrow> db" where
  "open_operation p d =
    (case ownerWalletAccount p of
       None \<Rightarrow> operation_insert p d
     | Some i \<Rightarrow>
         (case WalletAccountRepository_getById i d of
            None \<Rightarrow> operation_insert p d
          | Some a \<Rightarrow> blockWalletAccountBalance a (op_value p) (operation_insert p d)))"

inductive books :: "db \<Rightarrow> db \<Rightarrow> bool" where
  books_same: "same_ledger d d' \<Longrightarrow> books d d'"
| books_open: "OperationRepository_getById (op_id p) d = None \<Longrightarrow> isPending p \<Longrightarrow>
    books d (open_operation p d)"
| books_link: "OperationRepository_getById (op_id p) d = Some p \<Longrightarrow> isPending p \<Longrightarrow>
    books d (OperationRepository_update (p\<lparr>operationRef := r\<rparr>) d)"
| books_accept: "AcceptOperationUseCase_execute i d = Inr (r, d') \<Longrightarrow> books d d'"
| books_revert: "RevertOperationUseCase_execute now i d = Inr (p, d') \<Longrightarrow> books d d'"

lemma same_ledger_reads:
  assumes "same_ledger d d'"
  shows "WalletAccountRepository_getById i d' = WalletAccountRepository_getById i d"
    and "OperationRepository_getById j d' = OperationRepository_getById j d"
  using assms
  by (simp_all add: same_ledger_def WalletAccountRepository_getById_def
      OperationRepository_getById_def)

lemma operation_insert_reads [simp]:
  "WalletAccountRepository_getById i (operation_insert p d) = WalletAccountRepository_getById i d"
  by (simp add: WalletAccountRepository_getById_def)

lemma update_reads [simp]:
  "OperationRepository_getById j (WalletAccountRepository_update a d) =
     OperationRepository_getById j d"
  "WalletAccountRepository_getById i (OperationRepository_update p d) =
     WalletAccountRepository_getById i d"
  by (simp_all add: WalletAccountRepository_getById_def OperationRepository_getById_def)

lemma transaction_create_frame [simp]:
  "walletAccounts (WalletAccountTransactionRepository_create t d) = walletAccounts d"
  "operations (WalletAccountTransactionRepository_create t d) = operations d"
  "outbox (WalletAccountTransactionRepository_create t d) = outbox d"
  "walletAccountTransactions (WalletAccountTransactionRepository_create t d) =
     walletAccountTransactions d @ [t]"
  "WalletAccountRepository_getById i (WalletAccountTransactionRepository_create t d) =
     WalletAccountRepository_getById i d"
  "OperationRepository_getById j (WalletAccountTransactionRepository_create t d) =
     OperationRepository_getById j d"
  by (simp_all add: WalletAccountTransactionRepository_create_def tbl_insert_def
      WalletAccountRepository_getById_def OperationRepository_getById_def)

lemma emit_reads [simp]:
  "WalletAccountRepository_getById i (emit e d) = WalletAccountRepository_getById i d"
  "OperationRepository_getById j (emit e d) = OperationRepository_getById j d"
  by (simp_all add: WalletAccountRepository_getById_def OperationRepository_getById_def)

lemma load_account_Inr [result_simps]:
  "load_account i d = Inr a \<longleftrightarrow>
     WalletAccountRepository_getById i d = Some a \<and> wallet_account_isActive a"
  by (auto simp: load_account_def result_simps)

section \<open>Creating an operation, seen in the books\<close>

text \<open>The fields of an operation that the books depend on.\<close>

definition same_order :: "operation \<Rightarrow> operation \<Rightarrow> bool" where
  "same_order p q \<longleftrightarrow> op_id p = op_id q \<and> ownerWalletAccount p = ownerWalletAccount q
     \<and> beneficiaryWalletAccount p = beneficiaryWalletAccount q \<and> op_value p = op_value q
     \<and> op_state p = op_state q \<and> op_currency p = op_currency q \<and> rawValue p = rawValue q
     \<and> fee p = fee q \<and> op_transactionType p = op_transactionType q"

lemma same_order_refl [simp]: "same_order p p"
  by (simp add: same_order_def)

lemma same_order_trans: "same_order p q \<Longrightarrow> same_order q r \<Longrightarrow> same_order p r"
  by (simp add: same_order_def)

lemma createOrUpdate_tracker_same [simp]:
  "same_ledger d (UserLimitTrackerRepository_createOrUpdate now t d)"
  by (simp add: same_ledger_def UserLimitTrackerRepository_createOrUpdate_def
      UserLimitTrackerRepository_update_def split: option.splits)

lemma announce_db [simp]:
  "the_db (announce_owner x w) = the_db w" "the_db (announce_beneficiary x w) = the_db w"
  by (simp_all add: announce_owner_def announce_beneficiary_def)

lemma removePending_db [simp]:
  "the_db (removePendingWalletAccountTransaction cfg w) = the_db w"
  by (simp add: removePendingWalletAccountTransaction_def Let_def split: option.splits)

lemma store_tracker_effect:
  assumes "store_tracker m tu p w = (Inr p', w')"
  shows "same_order p' p" and "same_ledger (the_db w) (the_db w')"
proof -
  obtain t' q where q: "updateUserLimitTrackerAndOperation m tu p = (t', q)" by fastforce
  with assms have "p' = q"
    and w': "w' = w\<lparr>the_db := UserLimitTrackerRepository_createOrUpdate (m_now m) t' (the_db w)\<rparr>"
    by (auto simp: store_tracker_def result_simps)
  with q show "same_order p' p"
    by (auto simp: same_order_def elim: update_tracker_operation)
  from w' show "same_ledger (the_db w) (the_db w')" by simp
qed

lemma use_limit_effect:
  assumes "use_limit m info tr p w = (Inr p', w')"
  shows "same_order p' p \<and> same_ledger (the_db w) (the_db w')"
  using assms by (auto simp: use_limit_def dest: store_tracker_effect split: option.splits if_splits)

lemma new_operation_fields:
  assumes "new_operation oi ow bi bw tt = Some p"
  shows "isPending p" and "ownerWalletAccount p = map_option (\<lambda>(w, a). wa_id a) ow"
    and "beneficiaryWalletAccount p = map_option (\<lambda>(w, a). wa_id a) bw"
  using assms by (auto simp: new_operation_def Let_def isPending_def split: option.splits)

text \<open>The account handed over by the loading step is the stored row.\<close>

definition current_account :: "(wallet \<times> wallet_account) option \<Rightarrow> db \<Rightarrow> bool" where
  "current_account ow d \<longleftrightarrow>
     (case ow of None \<Rightarrow> True | Some (x, a) \<Rightarrow> WalletAccountRepository_getById (wa_id a) d = Some a)"

lemma same_ledger_open:
  assumes "same_ledger d d1" "same_ledger d2 d'"
    and "d2 = (case ownerWalletAccount p of None \<Rightarrow> operation_insert p d1
       | Some i \<Rightarrow> (case WalletAccountRepository_getById i d of None \<Rightarrow> operation_insert p d1
          | Some a \<Rightarrow> blockWalletAccountBalance a (op_value p) (operation_insert p d1)))"
  shows "same_ledger (open_operation p d) d'"
  using assms
  by (auto simp: same_ledger_def open_operation_def operation_insert_def
      blockWalletAccountBalance_def WalletAccountRepository_update_def split: option.splits)

lemma createOperation_effect:
  assumes "createOperation m cfg tt oi ow bi bw w = (Inr p, w')"
    and "current_account ow (the_db w)"
  obtains p0 where "new_operation oi ow bi bw tt = Some p0" and "same_order p p0"
    and "OperationRepository_getById (op_id p) (the_db w) = None"
    and "same_ledger (open_operation p (the_db w)) (the_db w')"
proof -
  from assms(1) obtain p0 where p0: "new_operation oi ow bi bw tt = Some p0"
    by (auto simp: createOperation_def result_simps split: option.splits)
  from assms(1) obtain p1 p2 w1 w2 d3 where
      p1: "use_limit m oi ownerUserLimitTracker p0 w = (Inr p1, w1)"
    and p2: "use_limit m bi beneficiaryUserLimitTracker p1 w1 = (Inr p2, w2)"
    and p3: "OperationRepository_create (m_now m) p2 (the_db w2) = Inr (p, d3)"
    and w': "the_db w' = (case ow of None \<Rightarrow> d3
               | Some (_, a) \<Rightarrow> blockWalletAccountBalance a (op_value p0) d3)"
    by (auto simp: createOperation_def p0 result_simps split: option.splits)
  from use_limit_effect [OF p1] use_limit_effect [OF p2]
  have s: "same_order p2 p0" and led: "same_ledger (the_db w) (the_db w2)"
    by (auto intro: same_order_trans same_ledger_trans)
  from p3 have p: "p = p2\<lparr>createdAt := m_now m\<rparr>"
    and fresh: "OperationRepository_getById (op_id p2) (the_db w2) = None"
    and d3: "d3 = operation_insert p (the_db w2)"
    by (auto simp: result_simps)
  from p s have sp: "same_order p p0" by (simp add: same_order_def)
  have ow: "ownerWalletAccount p = map_option (\<lambda>(w, a). wa_id a) ow" "op_value p = op_value p0"
    using sp new_operation_fields(2) [OF p0] by (simp_all add: same_order_def)
  have "same_ledger (open_operation p (the_db w)) (the_db w')"
    by (rule same_ledger_open [OF led same_ledger_refl])
      (use ow w' d3 assms(2) in \<open>auto simp: current_account_def split: option.splits\<close>)
  moreover have "OperationRepository_getById (op_id p) (the_db w) = None"
    using fresh led p by (simp add: same_ledger_reads)
  ultimately show ?thesis using p0 sp by (intro that)
qed

lemma load_participant_current:
  assumes "load_participant p d = Inr (x, a)" and "walletAccounts_wf d"
  shows "WalletAccountRepository_getById (wa_id a) d = Some a"
proof -
  obtain c where a: "WalletAccountRepository_getByWalletAndCurrency x c d = Some a"
    using assms(1) by (auto simp: load_participant_def result_simps)
  then have "a \<in> set (walletAccounts d)"
    by (auto simp: WalletAccountRepository_getByWalletAndCurrency_def find_Some_iff)
  with assms(2) show "WalletAccountRepository_getById (wa_id a) d = Some a"
    by (simp add: WalletAccountRepository_getById_def walletAccounts_wf_def tbl_find_member)
qed

lemma load_owner_effect:
  assumes "load_owner oi w = (Inr ow, w')" and "walletAccounts_wf (the_db w)"
  shows "the_db w' = the_db w \<and> current_account ow (the_db w) \<and> (ow = None \<longleftrightarrow> oi = None)"
  using assms
  by (auto simp: load_owner_def result_simps current_account_def dest: load_participant_current
      split: option.splits)

lemma load_beneficiary_effect:
  assumes "load_beneficiary bi w = (Inr bw, w')" and "walletAccounts_wf (the_db w)"
  shows "the_db w' = the_db w \<and> current_account bw (the_db w) \<and> (bw = None \<longleftrightarrow> bi = None)"
  using assms
  by (auto simp: load_beneficiary_def result_simps current_account_def
      dest: load_participant_current split: option.splits)

lemma check_owner_effect:
  assumes "check_owner m cfg uuids tt p wa w = (Inr p', w')"
  shows "same_ledger (the_db w) (the_db w') \<and> p' = use_available_balance (snd wa) p"
  using assms
  by (auto simp: check_owner_def Let_def result_simps dest!: checkUserLimits_frame
      split: prod.splits if_splits)

lemma check_beneficiary_effect:
  assumes "check_beneficiary m uuids tt p wa w = (Inr u, w')"
  shows "same_ledger (the_db w) (the_db w')"
  using assms
  by (auto simp: check_beneficiary_def Let_def result_simps dest!: checkUserLimits_frame
      split: prod.splits)

lemma current_account_same: "same_ledger d d' \<Longrightarrow> current_account ow d' = current_account ow d"
  by (simp add: current_account_def same_ledger_reads split: option.splits)

text \<open>Two operations opened one after the other and then linked to each other.\<close>

definition opened_two ::
    "operation \<Rightarrow> operation \<Rightarrow> operation \<Rightarrow> operation \<Rightarrow> db \<Rightarrow> db \<Rightarrow> bool" where
  "opened_two p0 q0 p q d d' \<longleftrightarrow>
     p = p0\<lparr>operationRef := Some (op_id q0)\<rparr> \<and> q = q0\<lparr>operationRef := Some (op_id p0)\<rparr>
     \<and> OperationRepository_getById (op_id p) d = None
     \<and> OperationRepository_getById (op_id q) d = None \<and> isPending p \<and> isPending q
     \<and> ownerWalletAccount p \<noteq> None \<and> beneficiaryWalletAccount p = None
     \<and> ownerWalletAccount q = None \<and> beneficiaryWalletAccount q \<noteq> None
     \<and> same_ledger (OperationRepository_update q (OperationRepository_update p
          (open_operation q0 (open_operation p0 d)))) d'"

text \<open>The outcome of a creation, by the operations it returns.\<close>

definition opened :: "created_operation \<Rightarrow> db \<Rightarrow> db \<Rightarrow> bool" where
  "opened r d d' \<longleftrightarrow>
    (case (ownerOperation r, beneficiaryOperation r) of
       (Some p, Some q) \<Rightarrow>
         if op_id p = op_id q
         then p = q \<and> OperationRepository_getById (op_id p) d = None \<and> isPending p
            \<and> ownerWalletAccount p \<noteq> None \<and> beneficiaryWalletAccount p \<noteq> None
            \<and> same_ledger (open_operation p d) d'
         else (\<exists>p0 q0. opened_two p0 q0 p q d d')
     | (Some p, None) \<Rightarrow> OperationRepository_getById (op_id p) d = None \<and> isPending p
         \<and> ownerWalletAccount p \<noteq> None \<and> beneficiaryWalletAccount p = None
         \<and> same_ledger (open_operation p d) d'
     | (None, Some q) \<Rightarrow> OperationRepository_getById (op_id q) d = None \<and> isPending q
         \<and> ownerWalletAccount q = None \<and> beneficiaryWalletAccount q \<noteq> None
         \<and> same_ledger (open_operation q d) d'
     | (None, None) \<Rightarrow> False)"

lemma open_operation_reads:
  assumes "OperationRepository_getById (op_id p) d = None"
  shows "OperationRepository_getById j (open_operation p d) =
     (if j = op_id p then Some p else OperationRepository_getById j d)"
  using ops.get_insert [OF assms, of j]
  by (auto simp: open_operation_def blockWalletAccountBalance_def split: option.splits)

lemma open_operation_cong:
  assumes "same_ledger d d'"
  shows "same_ledger (open_operation p d) (open_operation p d')"
  by (rule same_ledger_open [OF assms same_ledger_refl])
    (use assms in \<open>auto simp: open_operation_def same_ledger_reads [OF assms] split: option.splits\<close>)

lemma OperationRepository_update_cong:
  "same_ledger d d' \<Longrightarrow> same_ledger (OperationRepository_update p d) (OperationRepository_update p d')"
  by (simp add: same_ledger_def OperationRepository_update_def)

lemma createIndependentOperations_effect:
  assumes "createIndependentOperations m cfg tt oi ow bi bw w = (Inr (p, q), w')"
    and "current_account ow (the_db w)" and "ow \<noteq> None" and "bw \<noteq> None"
  shows "opened \<lparr>ownerOperation = Some p, beneficiaryOperation = Some q\<rparr> (the_db w) (the_db w')"
proof -
  from assms(1) obtain p0 q0 w1 w2 where
      c1: "createOperation m cfg tt oi ow None None w = (Inr p0, w1)"
    and c2: "createOperation m cfg tt None None bi bw w1 = (Inr q0, w2)"
    and pq: "p = p0\<lparr>operationRef := Some (op_id q0)\<rparr>" "q = q0\<lparr>operationRef := Some (op_id p0)\<rparr>"
    and w': "the_db w' = OperationRepository_update q (OperationRepository_update p (the_db w2))"
    by (auto simp: createIndependentOperations_def result_simps Let_def)
  from createOperation_effect [OF c1 assms(2)] obtain pp where
      pp: "new_operation oi ow None None tt = Some pp" "same_order p0 pp"
    and fresh1: "OperationRepository_getById (op_id p0) (the_db w) = None"
    and led1: "same_ledger (open_operation p0 (the_db w)) (the_db w1)" .
  have "current_account None (the_db w1)" by (simp add: current_account_def)
  from createOperation_effect [OF c2 this] obtain qq where
      qq: "new_operation None None bi bw tt = Some qq" "same_order q0 qq"
    and fresh2: "OperationRepository_getById (op_id q0) (the_db w1) = None"
    and led2: "same_ledger (open_operation q0 (the_db w1)) (the_db w2)" .
  have two: "same_ledger (open_operation q0 (open_operation p0 (the_db w))) (the_db w2)"
    using open_operation_cong [OF led1] led2 by (rule same_ledger_trans)
  have fresh2': "op_id q0 \<noteq> op_id p0" "OperationRepository_getById (op_id q0) (the_db w) = None"
    using fresh2 open_operation_reads [OF fresh1, of "op_id q0"] same_ledger_reads(2) [OF led1]
    by (auto split: if_splits)
  have "same_ledger (OperationRepository_update q (OperationRepository_update p
      (open_operation q0 (open_operation p0 (the_db w))))) (the_db w')"
    unfolding w' by (intro OperationRepository_update_cong two)
  with fresh1 fresh2' pp qq assms(3,4) have "opened_two p0 q0 p q (the_db w) (the_db w')"
    using new_operation_fields [OF pp(1)] new_operation_fields [OF qq(1)]
    by (auto simp: opened_two_def pq same_order_def isPending_def)
  moreover have "op_id p \<noteq> op_id q" using fresh2'(1) pq by simp
  ultimately show ?thesis by (auto simp: opened_def)
qed

lemma create_by_participants_effect:
  assumes "create_by_participants m cfg tt oi ow bi bw w = (Inr r, w')"
    and "current_account ow (the_db w)"
  shows "opened r (the_db w) (the_db w')"
proof (cases ow)
  case None
  then obtain q where c: "createOperation m cfg tt None None bi bw w = (Inr q, w')"
    and r: "r = \<lparr>ownerOperation = None, beneficiaryOperation = Some q\<rparr>"
    using assms(1)
    by (auto simp: create_by_participants_def createBeneficiaryOperation_def result_simps)
  have "current_account None (the_db w)" by (simp add: current_account_def)
  from createOperation_effect [OF c this] obtain q0 where
      q0: "new_operation None None bi bw tt = Some q0" "same_order q q0"
    and "OperationRepository_getById (op_id q) (the_db w) = None"
    and "same_ledger (open_operation q (the_db w)) (the_db w')" .
  moreover from q0(1) have "bw \<noteq> None" by (auto simp: new_operation_def split: option.splits)
  ultimately show ?thesis
    using new_operation_fields [OF q0(1)] by (auto simp: opened_def r same_order_def isPending_def)
next
  case (Some xa)
  then obtain x a where ow: "ow = Some (x, a)" by (cases xa) auto
  show ?thesis
  proof (cases "\<exists>y b. bw = Some (y, b) \<and> wa_currency a \<noteq> wa_currency b")
    case True
    with assms ow obtain p q where
        "createIndependentOperations m cfg tt oi ow bi bw w = (Inr (p, q), w')"
      and "r = \<lparr>ownerOperation = Some p, beneficiaryOperation = Some q\<rparr>"
      by (auto simp: create_by_participants_def result_simps)
    with createIndependentOperations_effect [OF this(1) assms(2)] True ow show ?thesis by auto
  next
    case False
    with assms(1) ow obtain p where c: "createOperation m cfg tt oi ow None bw w = (Inr p, w')"
      and r: "r = \<lparr>ownerOperation = Some p, beneficiaryOperation = map_option (\<lambda>_. p) bw\<rparr>"
      by (auto simp: create_by_participants_def createSharedOperation_def
          createOwnerOperation_def result_simps split: option.splits if_splits)
    from createOperation_effect [OF c assms(2)] obtain p0 where
        p0: "new_operation oi ow None bw tt = Some p0" "same_order p p0"
      and "OperationRepository_getById (op_id p) (the_db w) = None"
      and "same_ledger (open_operation p (the_db w)) (the_db w')" .
    with new_operation_fields [OF p0(1)] ow show ?thesis
      by (cases bw) (auto simp: opened_def r same_order_def isPending_def)
  qed
qed

lemma opened_cong:
  assumes "opened r d1 d2" "same_ledger d d1" "same_ledger d2 d'"
  shows "opened r d d'"
proof -
  have 1: "\<And>p. same_ledger (open_operation p d1) d2 \<Longrightarrow> same_ledger (open_operation p d) d'"
    using open_operation_cong [OF assms(2)] assms(3) by (blast intro: same_ledger_trans)
  have two: "same_ledger (OperationRepository_update q (OperationRepository_update p
         (open_operation q0 (open_operation p0 d)))) d'"
    if "same_ledger (OperationRepository_update q (OperationRepository_update p
         (open_operation q0 (open_operation p0 d1)))) d2" for p q p0 q0
    by (rule same_ledger_trans [OF _ same_ledger_trans [OF that assms(3)]])
      (intro OperationRepository_update_cong open_operation_cong assms(2))
  have 2: "\<And>p q p0 q0. opened_two p0 q0 p q d1 d2 \<Longrightarrow> opened_two p0 q0 p q d d'"
    unfolding opened_two_def same_ledger_reads [OF assms(2)] by (auto simp: two)
  show ?thesis
    using assms(1)
    by (auto simp: opened_def same_ledger_reads [OF assms(2)] intro: 1 2 split: option.splits if_splits)
qed

text \<open>The stages of a successful creation.\<close>

definition active_account :: "(wallet \<times> wallet_account) option \<Rightarrow> bool" where
  "active_account ow \<longleftrightarrow>
     (case ow of None \<Rightarrow> True | Some (x, a) \<Rightarrow> wallet_isActive x \<and> wallet_account_isActive a)"

lemma load_participant_active:
  "load_participant p d = Inr (x, a) \<Longrightarrow> wallet_isActive x \<and> wallet_account_isActive a"
  by (auto simp: load_participant_def result_simps)

lemma load_owner_active: "load_owner oi w = (Inr ow, w') \<Longrightarrow> active_account ow"
  by (auto simp: load_owner_def active_account_def result_simps
      dest!: load_participant_active split: option.splits)

lemma load_beneficiary_active: "load_beneficiary bi w = (Inr bw, w') \<Longrightarrow> active_account bw"
  by (auto simp: load_beneficiary_def active_account_def result_simps
      dest!: load_participant_active split: option.splits)

text \<open>The account of a participant belongs to the wallet that the participant names.\<close>

definition own_account :: "participant option \<Rightarrow> (wallet \<times> wallet_account) option \<Rightarrow> bool" where
  "own_account oi ow \<longleftrightarrow> (\<forall>p x a. oi = Some p \<longrightarrow> ow = Some (x, a) \<longrightarrow> wa_wallet a = p_wallet p)"

lemma load_participant_own: "load_participant p d = Inr (x, a) \<Longrightarrow> wa_wallet a = p_wallet p"
  by (auto simp: load_participant_def WalletRepository_getByUuid_def
      WalletAccountRepository_getByWalletAndCurrency_def find_Some_iff result_simps)

lemma load_owner_own: "load_owner oi w = (Inr ow, w') \<Longrightarrow> own_account oi ow"
  by (auto simp: load_owner_def own_account_def result_simps
      dest!: load_participant_own split: option.splits)

text \<open>The funds test of the owner, with the balance cut down where the owner allows it.\<close>

definition funded :: "transaction_type \<Rightarrow> db \<Rightarrow> participant option
    \<Rightarrow> (wallet \<times> wallet_account) option \<Rightarrow> participant option \<Rightarrow> bool" where
  "funded tt d oi ow oi' \<longleftrightarrow>
    (case (oi, ow) of
       (Some p, Some (x, a)) \<Rightarrow>
         (let p' = use_available_balance a p
          in oi' = Some p'
             \<and> (fee_of p' + p_rawValue p' \<le> balance a \<or> 0 < getUserCreditBalance tt (w_user x) d))
     | _ \<Rightarrow> oi' = oi)"

lemma check_owner_funded:
  assumes "check_owner m cfg uuids tt p (x, a) w = (Inr p', w')"
  shows "funded tt (the_db w) (Some p) (Some (x, a)) (Some p')"
  using assms
  by (auto simp: check_owner_def Let_def result_simps funded_def split: if_splits)

lemma CreateOperationUseCase_run:
  assumes "CreateOperationUseCase_execute m cfg ids tag oi bi w = (Inr r, w')"
    and "walletAccounts_wf (the_db w)"
  obtains tt ow bw oi' w4 w5 where
      "checkPreconditions tag oi bi (the_db w) = Inr tt"
    and "current_account ow (the_db w)" and "active_account ow" and "ow = None \<longleftrightarrow> oi = None"
    and "current_account bw (the_db w)" and "active_account bw" and "bw = None \<longleftrightarrow> bi = None"
    and "funded tt (the_db w) oi ow oi'"
    and "same_ledger (the_db w) (the_db w4)"
    and "create_by_participants m cfg tt oi' ow bi bw w4 = (Inr r, w5)"
    and "same_ledger (the_db w5) (the_db w')"
    and "\<forall>p. ownerOperation r = Some p \<or> beneficiaryOperation r = Some p \<longrightarrow> event_ok p"
    and "own_account oi ow"
proof -
  obtain tt ow bw oi' w1 w2 w3 w4 w5 where
      pre: "checkPreconditions tag oi bi (the_db w) = Inr tt"
    and l1: "load_owner oi w = (Inr ow, w1)" and l2: "load_beneficiary bi w1 = (Inr bw, w2)"
    and c1: "(case (oi, ow) of
                 (Some p, Some wa) \<Rightarrow> bindS (check_owner m cfg (fst ids) tt p wa) (\<lambda>p'. returnS (Some p'))
               | _ \<Rightarrow> returnS oi) w2 = (Inr oi', w3)"
    and c2: "(case (bi, bw) of
                 (Some p, Some wa) \<Rightarrow> check_beneficiary m (snd ids) tt p wa
               | _ \<Rightarrow> returnS ()) w3 = (Inr (), w4)"
    and c3: "create_by_participants m cfg tt oi' ow bi bw w4 = (Inr r, w5)"
    and w': "the_db w' = emit (PendingOperation (ownerOperation r) (beneficiaryOperation r)) (the_db w5)"
    and ok: "\<forall>p. ownerOperation r = Some p \<or> beneficiaryOperation r = Some p \<longrightarrow> event_ok p"
    using assms(1) by (auto simp: CreateOperationUseCase_execute_def result_simps)
  note own = load_owner_effect [OF l1 assms(2)]
  with assms(2) have "walletAccounts_wf (the_db w1)" by simp
  note ben = load_beneficiary_effect [OF l2 this]
  from c1 own ben have 1: "same_ledger (the_db w2) (the_db w3)"
    and fund: "funded tt (the_db w) oi ow oi'"
    by (auto simp: result_simps funded_def [of _ _ None] funded_def [of _ _ _ None]
        dest: check_owner_effect check_owner_funded split: option.splits)
  from c2 have 2: "same_ledger (the_db w3) (the_db w4)"
    by (auto simp: result_simps dest: check_beneficiary_effect split: option.splits)
  from own ben 1 2 have 3: "same_ledger (the_db w) (the_db w4)"
    by (auto intro: same_ledger_trans)
  have 4: "same_ledger (the_db w5) (the_db w')" by (simp add: w' same_ledger_def)
  from own ben show ?thesis
    by (intro that [OF pre _ load_owner_active [OF l1] _ _ load_beneficiary_active [OF l2] _
          fund 3 c3 4 ok load_owner_own [OF l1]]) simp_all
qed

lemma CreateOperationUseCase_effect:
  assumes "CreateOperationUseCase_execute m cfg ids tag oi bi w = (Inr r, w')"
    and "walletAccounts_wf (the_db w)"
  shows "opened r (the_db w) (the_db w')"
  using assms
proof (rule CreateOperationUseCase_run)
  fix tt ow bw oi' w4 w5
  assume "current_account ow (the_db w)" and 1: "same_ledger (the_db w) (the_db w4)"
    and c: "create_by_participants m cfg tt oi' ow bi bw w4 = (Inr r, w5)"
    and 2: "same_ledger (the_db w5) (the_db w')"
  then have "current_account ow (the_db w4)" by (simp add: current_account_same)
  from create_by_participants_effect [OF c this] 1 2 show ?thesis by (rule opened_cong)
qed

end
