(* ===== verification/Ledger.thy ===== *)
theory Ledger
  imports Books
begin

text \<open>
  The contract of the operations service: a ledger of available and blocked amounts per account
  and of orders. Opening an operation holds an amount, accepting it settles the order, reverting it
  releases the hold. The use cases refine these three abstract operations.
\<close>

section \<open>The abstract ledger\<close>

record order =
  debtor :: "nat option"
  creditor :: "nat option"
  amount :: int
  status :: operation_state

record ledger =
  available :: "nat \<Rightarrow> int option"
  blocked :: "nat \<Rightarrow> int option"
  orders :: "string \<Rightarrow> order option"

definition add_to :: "nat option \<Rightarrow> int \<Rightarrow> (nat \<Rightarrow> int option) \<Rightarrow> nat \<Rightarrow> int option" where
  "add_to i v m k = (if i = Some k then map_option (\<lambda>x. x + v) (m k) else m k)"

definition hold :: "string \<Rightarrow> order \<Rightarrow> ledger \<Rightarrow> ledger" where
  "hold i ord l = l\<lparr>available := add_to (debtor ord) (- amount ord) (available l),
     blocked := add_to (debtor ord) (amount ord) (blocked l),
     orders := (orders l)(i := Some (ord\<lparr>status := PENDING\<rparr>))\<rparr>"

definition settle :: "string \<Rightarrow> order \<Rightarrow> ledger \<Rightarrow> ledger" where
  "settle i ord l = l\<lparr>available := add_to (creditor ord) (amount ord) (available l),
     blocked := add_to (debtor ord) (- amount ord) (blocked l),
     orders := (orders l)(i := Some (ord\<lparr>status := ACCEPTED\<rparr>))\<rparr>"

definition release :: "string \<Rightarrow> order \<Rightarrow> ledger \<Rightarrow> ledger" where
  "release i ord l = l\<lparr>available := add_to (debtor ord) (amount ord) (available l),
     blocked := add_to (debtor ord) (- amount ord) (blocked l),
     orders := (orders l)(i := Some (ord\<lparr>status := REVERTED\<rparr>))\<rparr>"

lemma add_to_None [simp]: "add_to None v m = m"
  by (rule ext) (simp add: add_to_def)

section \<open>The abstraction of a database\<close>

definition order_of :: "operation \<Rightarrow> order" where
  "order_of p = \<lparr> debtor = ownerWalletAccount p, creditor = beneficiaryWalletAccount p,
     amount = op_value p, status = op_state p \<rparr>"

definition ledger_of :: "db \<Rightarrow> ledger" where
  "ledger_of d = \<lparr> available = (\<lambda>i. map_option balance (WalletAccountRepository_getById i d)),
     blocked = (\<lambda>i. map_option pendingAmount (WalletAccountRepository_getById i d)),
     orders = (\<lambda>j. map_option order_of (OperationRepository_getById j d)) \<rparr>"

lemma ledger_of_sel [simp]:
  "available (ledger_of d) i = map_option balance (WalletAccountRepository_getById i d)"
  "blocked (ledger_of d) i = map_option pendingAmount (WalletAccountRepository_getById i d)"
  "orders (ledger_of d) j = map_option order_of (OperationRepository_getById j d)"
  by (simp_all add: ledger_of_def)

lemma ledger_eqI:
  assumes "\<And>i. available (l::ledger) i = available l' i" "\<And>i. blocked l i = blocked l' i"
    and "\<And>j. orders l j = orders l' j"
  shows "l = l'"
  using assms by (intro ledger.equality) auto

lemma order_of_sel [simp]:
  "debtor (order_of p) = ownerWalletAccount p" "creditor (order_of p) = beneficiaryWalletAccount p"
  "amount (order_of p) = op_value p" "status (order_of p) = op_state p"
  by (simp_all add: order_of_def)

lemma order_of_state [simp]: "order_of (p\<lparr>op_state := s\<rparr>) = (order_of p)\<lparr>status := s\<rparr>"
  "order_of (p\<lparr>op_state := s, revertedAt := t\<rparr>) = (order_of p)\<lparr>status := s\<rparr>"
  "order_of (p\<lparr>operationRef := r\<rparr>) = order_of p"
  by (simp_all add: order_of_def)

lemma ledger_of_same: "same_ledger d d' \<Longrightarrow> ledger_of d' = ledger_of d"
  by (rule ledger_eqI) (simp_all add: same_ledger_reads)

text \<open>What changing one account or one operation does to the ledger.\<close>

lemma ledger_of_account:
  assumes "WalletAccountRepository_getById i d = Some a" and "wa_id a' = wa_id a"
  shows "ledger_of (WalletAccountRepository_update a' d) = (ledger_of d)
     \<lparr>available := add_to (Some i) (balance a' - balance a) (available (ledger_of d)),
      blocked := add_to (Some i) (pendingAmount a' - pendingAmount a) (blocked (ledger_of d))\<rparr>"
  using assms accounts.key_get [OF assms(1)]
  by (intro ledger_eqI) (auto simp: accounts.get_update add_to_def)

lemma ledger_of_operation:
  assumes "OperationRepository_getById j d = Some p" and "op_id p' = op_id p"
  shows "ledger_of (OperationRepository_update p' d) =
     (ledger_of d)\<lparr>orders := (orders (ledger_of d))(j := Some (order_of p'))\<rparr>"
  using assms ops.key_get [OF assms(1)]
  by (intro ledger_eqI) (auto simp: ops.get_update)

lemma ledger_of_insert:
  assumes "OperationRepository_getById (op_id p) d = None"
  shows "ledger_of (operation_insert p d) =
     (ledger_of d)\<lparr>orders := (orders (ledger_of d))(op_id p := Some (order_of p))\<rparr>"
  using ops.get_insert [OF assms] by (intro ledger_eqI) auto

lemma ledger_of_transaction [simp]:
  "ledger_of (WalletAccountTransactionRepository_create t d) = ledger_of d"
  "ledger_of (emit e d) = ledger_of d"
  by (rule ledger_eqI; simp)+

lemma add_to_0 [simp]: "add_to i 0 m = m"
  by (rule ext) (simp add: add_to_def option.map_ident)

lemma add_to_missing: "m k = None \<Longrightarrow> add_to (Some k) v m = m"
  by (rule ext) (auto simp: add_to_def)

lemma ledger_of_open:
  assumes "OperationRepository_getById (op_id p) d = None" and "isPending p"
  shows "ledger_of (open_operation p d) = hold (op_id p) (order_of p) (ledger_of d)"
proof -
  have st: "(order_of p)\<lparr>status := PENDING\<rparr> = order_of p"
    using assms(2) by (simp add: order_of_def isPending_def)
  note ins = ledger_of_insert [OF assms(1)]
  show ?thesis
  proof (cases "\<exists>i a. ownerWalletAccount p = Some i \<and> WalletAccountRepository_getById i d = Some a")
    case True
    then obtain i a where i: "ownerWalletAccount p = Some i"
      and a: "WalletAccountRepository_getById i d = Some a" by auto
    then have "WalletAccountRepository_getById i (operation_insert p d) = Some a" by simp
    from ledger_of_account [OF this] i a st ins show ?thesis
      by (simp add: open_operation_def blockWalletAccountBalance_def hold_def)
  next
    case False
    then have "open_operation p d = operation_insert p d"
      by (auto simp: open_operation_def split: option.splits)
    moreover have "add_to (ownerWalletAccount p) v m = m"
      if "\<And>i. WalletAccountRepository_getById i d = None \<Longrightarrow> m i = None" for v m
      using False that by (cases "ownerWalletAccount p") (auto intro: add_to_missing)
    ultimately show ?thesis
      using ins st by (simp add: hold_def)
  qed
qed

section \<open>Accepting settles\<close>

lemma debit_owner_ledger:
  assumes "debit_owner p d = Inr (x, d')"
  shows "ledger_of d' = (ledger_of d)
     \<lparr>blocked := add_to (ownerWalletAccount p) (- op_value p) (blocked (ledger_of d))\<rparr>"
proof (cases "ownerWalletAccount p")
  case None
  with assms show ?thesis by (simp add: debit_owner_def)
next
  case (Some i)
  with assms obtain a t where a: "WalletAccountRepository_getById i d = Some a"
    and d': "d' = WalletAccountRepository_update (a\<lparr>pendingAmount := pendingAmount a - op_value p\<rparr>)
       (WalletAccountTransactionRepository_create t d)"
    by (auto simp: debit_owner_def Let_def result_simps)
  from a have "WalletAccountRepository_getById i (WalletAccountTransactionRepository_create t d) = Some a"
    by simp
  from ledger_of_account [OF this] Some show ?thesis by (simp add: d')
qed

lemma credit_beneficiary_ledger:
  assumes "credit_beneficiary p d = Inr (x, d')"
  shows "ledger_of d' = (ledger_of d)
     \<lparr>available := add_to (beneficiaryWalletAccount p) (op_value p) (available (ledger_of d))\<rparr>"
proof (cases "beneficiaryWalletAccount p")
  case None
  with assms show ?thesis by (simp add: credit_beneficiary_def)
next
  case (Some i)
  with assms obtain a t where a: "WalletAccountRepository_getById i d = Some a"
    and d': "d' = WalletAccountRepository_update (a\<lparr>balance := balance a + op_value p\<rparr>)
       (WalletAccountTransactionRepository_create t d)"
    by (auto simp: credit_beneficiary_def Let_def result_simps)
  from a have "WalletAccountRepository_getById i (WalletAccountTransactionRepository_create t d) = Some a"
    by simp
  from ledger_of_account [OF this] Some show ?thesis by (simp add: d')
qed

lemma accept_cases:
  assumes "AcceptOperationUseCase_execute i d = Inr (r, d')"
  obtains p0 p x y d2 d3 where "OperationRepository_getById i d = Some p0" and "isPending p0"
    and "p = p0\<lparr>op_state := ACCEPTED\<rparr>" and "op_id p = i"
    and "debit_owner p (OperationRepository_update p d) = Inr (x, d2)"
    and "credit_beneficiary p d2 = Inr (y, d3)" and "same_ledger d3 d'"
    and "ao_operation r = p"
proof -
  from assms obtain p0 x y d2 d3 where
      p0: "OperationRepository_getById i d = Some p0" "isPending p0"
    and x: "debit_owner (p0\<lparr>op_state := ACCEPTED\<rparr>)
             (OperationRepository_update (p0\<lparr>op_state := ACCEPTED\<rparr>) d) = Inr (x, d2)"
    and y: "credit_beneficiary (p0\<lparr>op_state := ACCEPTED\<rparr>) d2 = Inr (y, d3)"
    and d': "same_ledger d3 d'" and r: "ao_operation r = p0\<lparr>op_state := ACCEPTED\<rparr>"
    by (auto simp: AcceptOperationUseCase_execute_def Let_def result_simps same_ledger_def
        split: if_splits)
  from that [OF p0 refl _ x y d' r] ops.key_get [OF p0(1)] show ?thesis by simp
qed

lemma accept_ledger:
  assumes "AcceptOperationUseCase_execute i d = Inr (r, d')"
  shows "\<exists>ord. orders (ledger_of d) i = Some ord \<and> status ord = PENDING
     \<and> ledger_of d' = settle i ord (ledger_of d)"
proof -
  from assms obtain p0 p x y d2 d3 where p0: "OperationRepository_getById i d = Some p0" "isPending p0"
    and p: "p = p0\<lparr>op_state := ACCEPTED\<rparr>" "op_id p = i"
    and debit: "debit_owner p (OperationRepository_update p d) = Inr (x, d2)"
    and credit: "credit_beneficiary p d2 = Inr (y, d3)" and d': "same_ledger d3 d'"
    by (rule accept_cases)
  have "ledger_of (OperationRepository_update p d) =
      (ledger_of d)\<lparr>orders := (orders (ledger_of d))(i := Some (order_of p))\<rparr>"
    using ledger_of_operation [OF p0(1)] p by simp
  with debit_owner_ledger [OF debit] credit_beneficiary_ledger [OF credit] ledger_of_same [OF d'] p
  have "ledger_of d' = settle i (order_of p0) (ledger_of d)"
    by (simp add: settle_def)
  moreover from p0 have "status (order_of p0) = PENDING" by (simp add: isPending_def)
  ultimately show ?thesis using p0(1) by auto
qed

text \<open>
  C19: accepting a pending operation settles its order on the ledger: the held amount leaves the
  owner's blocked amount, the beneficiary's available amount grows by it, the order is accepted,
  and no other account or order changes.
\<close>

theorem accept_settles:
  assumes "AcceptOperationUseCase_execute i d = Inr (r, d')"
  shows "\<exists>ord. orders (ledger_of d) i = Some ord \<and> status ord = PENDING
     \<and> ledger_of d' = settle i ord (ledger_of d)"
  by (rule accept_ledger [OF assms])

theorem accept_settles_witness:
  "ledger_of accepted_db = settle ''op1'' (order_of opened_operation) (ledger_of opened_db)"
proof -
  have "orders (ledger_of opened_db) ''op1'' = Some (order_of opened_operation)" by code_simp
  with accept_settles [OF sample_accept] show ?thesis by auto
qed

section \<open>Reverting releases\<close>

lemma release_owner_ledger:
  assumes "release_owner p d = Inr d'"
  shows "ledger_of d' = (ledger_of d)
     \<lparr>available := add_to (ownerWalletAccount p) (op_value p) (available (ledger_of d)),
      blocked := add_to (ownerWalletAccount p) (- op_value p) (blocked (ledger_of d))\<rparr>"
proof (cases "ownerWalletAccount p")
  case None
  with assms show ?thesis by (simp add: release_owner_def)
next
  case (Some i)
  with assms obtain a where a: "WalletAccountRepository_getById i d = Some a"
    and d': "d' = WalletAccountRepository_update (a\<lparr>pendingAmount := pendingAmount a - op_value p,
       balance := balance a + op_value p\<rparr>) d"
    by (auto simp: release_owner_def result_simps)
  from ledger_of_account [OF a] Some show ?thesis by (simp add: d')
qed

lemma release_owner_frame:
  assumes "release_owner p d = Inr d'"
  shows "OperationRepository_getById j d' = OperationRepository_getById j d"
    and "walletAccountTransactions d' = walletAccountTransactions d"
    and "operations d' = operations d"
  using assms by (auto simp: release_owner_def result_simps split: option.splits)

lemma revert_cases:
  assumes "RevertOperationUseCase_execute now i d = Inr (q, d')"
  obtains (again) p0 where "OperationRepository_getById i d = Some p0" and "isReverted p0"
      and "q = p0" and "d' = d"
  | (pending) p0 d1 where "OperationRepository_getById i d = Some p0" and "isPending p0"
      and "release_owner p0 d = Inr d1" and "q = p0\<lparr>op_state := REVERTED, revertedAt := Some now\<rparr>"
      and "same_ledger (OperationRepository_update q d1) d'" and "op_id q = i"
proof -
  from assms obtain p0 where p0: "OperationRepository_getById i d = Some p0"
    by (auto simp: RevertOperationUseCase_execute_def result_simps)
  show ?thesis
  proof (cases "isReverted p0")
    case True
    with assms p0 show ?thesis
      by (intro again [OF p0]) (auto simp: RevertOperationUseCase_execute_def result_simps)
  next
    case False
    with assms p0 obtain d1 where "isPending p0" "release_owner p0 d = Inr d1"
      "q = p0\<lparr>op_state := REVERTED, revertedAt := Some now\<rparr>"
      "same_ledger (OperationRepository_update q d1) d'"
      by (auto simp: RevertOperationUseCase_execute_def Let_def result_simps same_ledger_def)
    with pending [OF p0] ops.key_get [OF p0] show ?thesis by simp
  qed
qed

lemma revert_ledger:
  assumes "RevertOperationUseCase_execute now i d = Inr (q, d')"
  shows "\<exists>ord. orders (ledger_of d) i = Some ord
     \<and> (status ord = REVERTED \<and> d' = d
        \<or> status ord = PENDING \<and> ledger_of d' = release i ord (ledger_of d))"
  using assms
proof (cases rule: revert_cases)
  case (again p0)
  then show ?thesis by (auto simp: isReverted_def)
next
  case (pending p0 d1)
  have "OperationRepository_getById i d1 = Some p0"
    using pending(1) release_owner_frame(1) [OF pending(3)] by simp
  from ledger_of_operation [OF this, of q] release_owner_ledger [OF pending(3)]
    ledger_of_same [OF pending(5)] pending(4,6) ops.key_get [OF pending(1)]
  have "ledger_of d' = release i (order_of p0) (ledger_of d)"
    by (simp add: release_def)
  with pending(1,2) show ?thesis by (auto simp: isPending_def)
qed

text \<open>
  C20: reverting an operation either finds it reverted and changes nothing, or releases its hold on
  the ledger: the blocked amount of the owner becomes available again and the order is reverted.
\<close>

theorem revert_releases:
  assumes "RevertOperationUseCase_execute now i d = Inr (q, d')"
  shows "\<exists>ord. orders (ledger_of d) i = Some ord
     \<and> (status ord = REVERTED \<and> d' = d
        \<or> status ord = PENDING \<and> ledger_of d' = release i ord (ledger_of d))"
  by (rule revert_ledger [OF assms])

theorem revert_releases_witness:
  "ledger_of reverted_db = release ''op1'' (order_of opened_operation) (ledger_of opened_db)"
proof -
  have "orders (ledger_of opened_db) ''op1'' = Some (order_of opened_operation)" by code_simp
  moreover have "status (order_of opened_operation) = PENDING" by code_simp
  ultimately show ?thesis using revert_releases [OF sample_revert] by auto
qed

section \<open>Creating holds\<close>

definition created_list :: "created_operation \<Rightarrow> operation list" where
  "created_list r = (case (ownerOperation r, beneficiaryOperation r) of
       (Some p, Some q) \<Rightarrow> if op_id p = op_id q then [p] else [p, q]
     | (Some p, None) \<Rightarrow> [p]
     | (None, Some q) \<Rightarrow> [q]
     | (None, None) \<Rightarrow> [])"

definition hold_operation :: "operation \<Rightarrow> ledger \<Rightarrow> ledger" where
  "hold_operation p = hold (op_id p) (order_of p)"

lemma ledger_of_link:
  assumes "OperationRepository_getById (op_id p) d = Some p"
  shows "ledger_of (OperationRepository_update (p\<lparr>operationRef := r\<rparr>) d) = ledger_of d"
  using ledger_of_operation [OF assms, of "p\<lparr>operationRef := r\<rparr>"] assms
  by (intro ledger_eqI) auto

lemma opened_two_ledger:
  assumes "opened_two p0 q0 p q d d'"
  shows "op_id q \<noteq> op_id p \<Longrightarrow>
    ledger_of d' = hold_operation q (hold_operation p (ledger_of d))"
proof -
  assume ne: "op_id q \<noteq> op_id p"
  from assms have p: "p = p0\<lparr>operationRef := Some (op_id q0)\<rparr>" and q: "q = q0\<lparr>operationRef := Some (op_id p0)\<rparr>"
    and f: "OperationRepository_getById (op_id p0) d = None"
      "OperationRepository_getById (op_id q0) d = None"
    and pend: "isPending p0" "isPending q0"
    and led: "same_ledger (OperationRepository_update q (OperationRepository_update p
          (open_operation q0 (open_operation p0 d)))) d'"
    by (auto simp: opened_two_def isPending_def)
  let ?d1 = "open_operation p0 d"
  let ?d2 = "open_operation q0 ?d1"
  have f2: "OperationRepository_getById (op_id q0) ?d1 = None"
    using f(2) ne by (simp add: open_operation_reads [OF f(1)] p q)
  have g: "OperationRepository_getById (op_id p0) ?d2 = Some p0"
    "OperationRepository_getById (op_id q0) ?d2 = Some q0"
    using ne by (simp_all add: open_operation_reads [OF f2] open_operation_reads [OF f(1)] p q)
  then have g2: "OperationRepository_getById (op_id q0) (OperationRepository_update p ?d2) = Some q0"
    using ne by (simp add: ops.get_update p q)
  have "ledger_of d' = ledger_of ?d2"
    using ledger_of_same [OF led] ledger_of_link [OF g2] ledger_of_link [OF g(1)] by (simp add: p q)
  also have "\<dots> = hold_operation q0 (hold_operation p0 (ledger_of d))"
    by (simp add: ledger_of_open [OF f2 pend(2)] ledger_of_open [OF f(1) pend(1)] hold_operation_def)
  finally show ?thesis by (simp add: hold_operation_def p q)
qed

lemma opened_ledger:
  assumes "opened r d d'"
  shows "ledger_of d' = fold hold_operation (created_list r) (ledger_of d)
    \<and> created_list r \<noteq> []
    \<and> (\<forall>p \<in> set (created_list r). isPending p \<and> orders (ledger_of d) (op_id p) = None)"
proof (cases "\<exists>p q. ownerOperation r = Some p \<and> beneficiaryOperation r = Some q \<and> op_id p \<noteq> op_id q")
  case True
  with assms obtain p q p0 q0 where pq: "ownerOperation r = Some p" "beneficiaryOperation r = Some q"
      "op_id p \<noteq> op_id q" "opened_two p0 q0 p q d d'"
    by (auto simp: opened_def)
  with opened_two_ledger [OF pq(4)] show ?thesis
    by (auto simp: created_list_def opened_two_def)
next
  case False
  with assms obtain p where p: "created_list r = [p]" "isPending p"
      "OperationRepository_getById (op_id p) d = None" "same_ledger (open_operation p d) d'"
    by (cases "ownerOperation r"; cases "beneficiaryOperation r")
      (auto simp: opened_def created_list_def)
  with ledger_of_same [OF p(4)] show ?thesis
    by (simp add: hold_operation_def ledger_of_open)
qed

text \<open>
  C18: a successful creation refines the ledger's hold: the operations it returns are new and
  pending, and the ledger afterwards is the ledger before with exactly their amounts moved from
  available to blocked in the owners' accounts.
\<close>

theorem create_holds:
  assumes "CreateOperationUseCase_execute m cfg ids tag oi bi w = (Inr r, w')"
    and "walletAccounts_wf (the_db w)"
  shows "ledger_of (the_db w') = fold hold_operation (created_list r) (ledger_of (the_db w))
    \<and> created_list r \<noteq> []
    \<and> (\<forall>p \<in> set (created_list r). isPending p \<and> orders (ledger_of (the_db w)) (op_id p) = None)"
  by (rule opened_ledger [OF CreateOperationUseCase_effect [OF assms]])

theorem create_holds_witness:
  "ledger_of opened_db = hold_operation opened_operation (ledger_of sample_db)"
proof -
  have "walletAccounts_wf (the_db sample_world)" using sample_keys by (simp add: sample_world_def)
  from create_holds [OF sample_create this] show ?thesis
    by (simp add: created_list_def sample_result_def opened_world_def sample_world_def)
qed

end
