(* ===== verification/Invariants.thy ===== *)
theory Invariants
  imports Ledger
begin

text \<open>
  Invariants of the books over every sequence of requests that create, accept and revert
  operations: blocked amounts are the pending operations, statements follow the balance, entries
  match the accepted operations, settled operations never change.
\<close>

section \<open>Requests\<close>

text \<open>
  One request served in its own transaction, whatever its inputs and whether it succeeds or throws.
  A request works on a fresh instance of its use case.
\<close>

inductive serves :: "world \<Rightarrow> world \<Rightarrow> bool" where
  serve_create: "transactional (CreateOperationUseCase_execute m cfg ids tag oi bi)
     (w\<lparr>the_fields := init_fields\<rparr>) = (r, w') \<Longrightarrow> serves w w'"
| serve_create_and_accept: "transactional (CreateAndAcceptOperationController_execute m cfg ids tag oi bi)
     (w\<lparr>the_fields := init_fields\<rparr>) = (r, w') \<Longrightarrow> serves w w'"
| serve_accept: "transactional (dbS (AcceptOperationUseCase_execute i)) w = (r, w') \<Longrightarrow> serves w w'"
| serve_revert: "transactional (dbS (RevertOperationUseCase_execute now i)) w = (r, w') \<Longrightarrow> serves w w'"

inductive_cases servesE: "serves w w'"

abbreviation requests :: "world \<Rightarrow> world \<Rightarrow> bool" where
  "requests \<equiv> serves\<^sup>*\<^sup>*"

definition keys_ok :: "db \<Rightarrow> bool" where
  "keys_ok d \<longleftrightarrow> walletAccounts_wf d \<and> operations_wf d"

lemma keys_ok_same: "same_ledger d d' \<Longrightarrow> keys_ok d' = keys_ok d"
  by (simp add: keys_ok_def same_ledger_def walletAccounts_wf_def operations_wf_def)

lemma wf_frames [simp]:
  "operations_wf (WalletAccountRepository_update a d) = operations_wf d"
  "walletAccounts_wf (OperationRepository_update p d) = walletAccounts_wf d"
  "walletAccounts_wf (operation_insert p d) = walletAccounts_wf d"
  "walletAccounts_wf (WalletAccountTransactionRepository_create t d) = walletAccounts_wf d"
  "operations_wf (WalletAccountTransactionRepository_create t d) = operations_wf d"
  by (simp_all add: operations_wf_def walletAccounts_wf_def)

lemma keys_ok_update [simp]:
  "keys_ok d \<Longrightarrow> keys_ok (WalletAccountRepository_update a d)"
  "keys_ok d \<Longrightarrow> keys_ok (OperationRepository_update p d)"
  "keys_ok (WalletAccountTransactionRepository_create t d) = keys_ok d"
  by (simp_all add: keys_ok_def accounts.wf_update ops.wf_update)

lemma keys_ok_open:
  "keys_ok d \<Longrightarrow> OperationRepository_getById (op_id p) d = None \<Longrightarrow> keys_ok (open_operation p d)"
  by (auto simp: keys_ok_def open_operation_def blockWalletAccountBalance_def accounts.wf_update
      ops.wf_insert split: option.splits)

lemma debit_owner_keys: "debit_owner p d = Inr (x, d') \<Longrightarrow> keys_ok d \<Longrightarrow> keys_ok d'"
  by (auto simp: debit_owner_def Let_def result_simps split: option.splits)

lemma credit_beneficiary_keys: "credit_beneficiary p d = Inr (x, d') \<Longrightarrow> keys_ok d \<Longrightarrow> keys_ok d'"
  by (auto simp: credit_beneficiary_def Let_def result_simps split: option.splits)

lemma release_owner_keys: "release_owner p d = Inr d' \<Longrightarrow> keys_ok d \<Longrightarrow> keys_ok d'"
  by (auto simp: release_owner_def result_simps split: option.splits)

lemma books_keys: "books d d' \<Longrightarrow> keys_ok d \<Longrightarrow> keys_ok d'"
proof (induction rule: books.induct)
  case (books_accept i d r d')
  then show ?case
    by (elim accept_cases) (metis credit_beneficiary_keys debit_owner_keys keys_ok_same keys_ok_update(2))
next
  case (books_revert now i d p d')
  from books_revert.hyps show ?case
    by (cases rule: revert_cases)
      (use books_revert.prems in \<open>auto dest: release_owner_keys simp: keys_ok_same\<close>)
qed (auto simp: keys_ok_same keys_ok_open)

lemma books_one: "books d d' \<Longrightarrow> books\<^sup>*\<^sup>* d d'"
  by (rule r_into_rtranclp)

lemma books_then: "books d d1 \<Longrightarrow> books\<^sup>*\<^sup>* d1 d' \<Longrightarrow> books\<^sup>*\<^sup>* d d'"
  by (rule converse_rtranclp_into_rtranclp)

lemma opened_books:
  assumes "opened r d d'"
  shows "books\<^sup>*\<^sup>* d d'"
proof (cases "\<exists>p q. ownerOperation r = Some p \<and> beneficiaryOperation r = Some q \<and> op_id p \<noteq> op_id q")
  case True
  with assms obtain p q p0 q0 where ne: "op_id p \<noteq> op_id q" and two: "opened_two p0 q0 p q d d'"
    by (auto simp: opened_def)
  from two have p: "p = p0\<lparr>operationRef := Some (op_id q0)\<rparr>" and q: "q = q0\<lparr>operationRef := Some (op_id p0)\<rparr>"
    and f: "OperationRepository_getById (op_id p0) d = None"
      "OperationRepository_getById (op_id q0) d = None"
    and pend: "isPending p0" "isPending q0"
    and led: "same_ledger (OperationRepository_update q (OperationRepository_update p
          (open_operation q0 (open_operation p0 d)))) d'"
    by (auto simp: opened_two_def isPending_def)
  let ?d1 = "open_operation p0 d"
  let ?d2 = "open_operation q0 ?d1"
  let ?d3 = "OperationRepository_update p ?d2"
  have f2: "OperationRepository_getById (op_id q0) ?d1 = None"
    using f(2) ne by (simp add: open_operation_reads [OF f(1)] p q)
  have g: "OperationRepository_getById (op_id p0) ?d2 = Some p0"
    "OperationRepository_getById (op_id q0) ?d2 = Some q0"
    using ne by (simp_all add: open_operation_reads [OF f2] open_operation_reads [OF f(1)] p q)
  then have g2: "OperationRepository_getById (op_id q0) ?d3 = Some q0"
    using ne by (simp add: ops.get_update p q)
  have b1: "books d ?d1" using f(1) pend(1) by (rule books_open)
  have b2: "books ?d1 ?d2" using f2 pend(2) by (rule books_open)
  have b3: "books ?d2 ?d3" unfolding p using g(1) pend(1) by (rule books_link)
  have b4: "books ?d3 (OperationRepository_update q ?d3)"
    unfolding q using g2 pend(2) by (rule books_link)
  have b5: "books (OperationRepository_update q ?d3) d'" using led by (rule books_same)
  show ?thesis
    by (rule books_then [OF b1 books_then [OF b2 books_then [OF b3 books_then [OF b4
      books_one [OF b5]]]]])
next
  case False
  with assms obtain p where "isPending p"
      "OperationRepository_getById (op_id p) d = None" "same_ledger (open_operation p d) d'"
    by (cases "ownerOperation r"; cases "beneficiaryOperation r") (auto simp: opened_def)
  then show ?thesis
    by (intro books_then [OF books_open books_one [OF books_same]])
qed

lemma books_rtrancl_keys: "books\<^sup>*\<^sup>* d d' \<Longrightarrow> keys_ok d \<Longrightarrow> keys_ok d'"
  by (induction rule: rtranclp_induct) (auto intro: books_keys)

lemma create_books:
  assumes "CreateOperationUseCase_execute m cfg ids tag oi bi w = (Inr r, w')" "keys_ok (the_db w)"
  shows "books\<^sup>*\<^sup>* (the_db w) (the_db w')"
  using CreateOperationUseCase_effect [OF assms(1)] assms(2) by (auto simp: keys_ok_def intro: opened_books)

lemma accept_step_books:
  "accept_step p w = (Inr x, w') \<Longrightarrow> books (the_db w) (the_db w')"
  by (auto simp: accept_step_def result_simps intro: books_accept)

lemma create_and_accept_books:
  assumes "CreateAndAcceptOperationController_execute m cfg ids tag oi bi w = (Inr r, w')"
    and "keys_ok (the_db w)"
  shows "books\<^sup>*\<^sup>* (the_db w) (the_db w')"
proof -
  from assms(1) obtain c w1 where
      c: "CreateOperationUseCase_execute m cfg ids tag oi bi w = (Inr c, w1)"
    and rest: "(case (ownerOperation c, beneficiaryOperation c) of
       (Some p, Some q) \<Rightarrow>
         if op_id p = op_id q
         then bindS (accept_step p) (\<lambda>x. returnS (Some x, Some x))
         else bindS (accept_step p) (\<lambda>x. bindS (accept_step q) (\<lambda>y. returnS (Some x, Some y)))
     | (Some p, None) \<Rightarrow> bindS (accept_step p) (\<lambda>x. returnS (Some x, None))
     | (None, Some q) \<Rightarrow> bindS (accept_step q) (\<lambda>y. returnS (None, Some y))
     | (None, None) \<Rightarrow> returnS (None, None)) w1 = (Inr r, w')"
    by (auto simp: CreateAndAcceptOperationController_execute_def result_simps)
  have "books\<^sup>*\<^sup>* (the_db w1) (the_db w')"
    using rest
    by (auto simp: result_simps dest!: accept_step_books split: option.splits if_splits
        intro: books_then books_one)
  with create_books [OF c assms(2)] show ?thesis by (rule rtranclp_trans)
qed

lemma transactional_cases:
  assumes "transactional f w = (r, w')"
  obtains x where "f w = (Inr x, w')" | "the_db w' = the_db w"
  using assms by (auto simp: transactional_def split: prod.splits sum.splits)

lemma serves_books:
  assumes "serves w w'" and "keys_ok (the_db w)"
  shows "books\<^sup>*\<^sup>* (the_db w) (the_db w')"
  using assms(1)
proof (cases rule: serves.cases)
  case (serve_create m cfg ids tag oi bi r)
  then show ?thesis
    by (rule transactional_cases) (use assms(2) in \<open>auto dest: create_books\<close>)
next
  case (serve_create_and_accept m cfg ids tag oi bi r)
  then show ?thesis
    by (rule transactional_cases) (use assms(2) in \<open>auto dest: create_and_accept_books\<close>)
next
  case (serve_accept i r)
  then show ?thesis
    by (rule transactional_cases) (auto simp: result_simps intro!: books_one books_accept)
next
  case (serve_revert now i r)
  then show ?thesis
    by (rule transactional_cases) (auto simp: result_simps intro!: books_one books_revert)
qed

text \<open>An invariant of the atomic changes holds after any number of requests.\<close>

lemma books_invariant:
  assumes "books\<^sup>*\<^sup>* d d'" and "keys_ok d" and "P d"
    and "\<And>a b. books a b \<Longrightarrow> keys_ok a \<Longrightarrow> P a \<Longrightarrow> P b"
  shows "P d'"
proof -
  from assms(1,2,3) have "P d' \<and> keys_ok d'"
    by (induction rule: rtranclp_induct) (auto intro: books_keys assms(4))
  then show ?thesis ..
qed

lemma requests_invariant:
  assumes "requests w w'" and "keys_ok (the_db w)" and "P (the_db w)"
    and "\<And>a b. books a b \<Longrightarrow> keys_ok a \<Longrightarrow> P a \<Longrightarrow> P b"
  shows "P (the_db w')"
proof -
  from assms(1,2,3) have "P (the_db w') \<and> keys_ok (the_db w')"
  proof (induction rule: rtranclp_induct)
    case base
    then show ?case by simp
  next
    case (step x y)
    then have "books\<^sup>*\<^sup>* (the_db x) (the_db y)" by (auto intro: serves_books)
    with step show ?case by (auto intro: books_rtrancl_keys books_invariant assms(4))
  qed
  then show ?thesis ..
qed

section \<open>Blocked amounts are the pending operations\<close>

definition held_by :: "nat \<Rightarrow> operation \<Rightarrow> int" where
  "held_by i p = (if isPending p \<and> ownerWalletAccount p = Some i then op_value p else 0)"

definition pending_matches :: "db \<Rightarrow> bool" where
  "pending_matches d \<longleftrightarrow>
     (\<forall>i v. blocked (ledger_of d) i = Some v \<longrightarrow> v = operations_total (held_by i) d)"

lemma operations_total_frame [simp]:
  "operations_total f (WalletAccountRepository_update a d) = operations_total f d"
  "operations_total f (WalletAccountTransactionRepository_create t d) = operations_total f d"
  by (simp_all add: operations_total_def)

lemma operations_total_same: "same_ledger d d' \<Longrightarrow> operations_total f d' = operations_total f d"
  by (simp add: operations_total_def same_ledger_def)

lemma operations_total_open: "operations_total f (open_operation p d) = operations_total f d + f p"
  by (simp add: open_operation_def blockWalletAccountBalance_def ops.total_insert split: option.splits)

lemma debit_owner_frame:
  assumes "debit_owner p d = Inr (x, d')"
  shows "operations d' = operations d"
  using assms by (auto simp: debit_owner_def Let_def result_simps split: option.splits)

lemma credit_beneficiary_frame:
  assumes "credit_beneficiary p d = Inr (x, d')"
  shows "operations d' = operations d"
  using assms by (auto simp: credit_beneficiary_def Let_def result_simps split: option.splits)

text \<open>The operations after accepting and after reverting.\<close>

lemma accept_operations:
  assumes "AcceptOperationUseCase_execute i d = Inr (r, d')"
  obtains p0 where "OperationRepository_getById i d = Some p0" and "isPending p0"
    and "operations d' = operations (OperationRepository_update (p0\<lparr>op_state := ACCEPTED\<rparr>) d)"
    and "ledger_of d' = settle i (order_of p0) (ledger_of d)"
proof -
  from accept_ledger [OF assms] obtain p1 where "OperationRepository_getById i d = Some p1"
    "ledger_of d' = settle i (order_of p1) (ledger_of d)" by auto
  with assms that show ?thesis
    by (elim accept_cases) (auto simp: same_ledger_def dest!: debit_owner_frame credit_beneficiary_frame)
qed

lemma revert_operations:
  assumes "RevertOperationUseCase_execute now i d = Inr (q, d')"
  obtains "d' = d"
  | p0 where "OperationRepository_getById i d = Some p0" and "isPending p0"
    and "operations d' = operations (OperationRepository_update
           (p0\<lparr>op_state := REVERTED, revertedAt := Some now\<rparr>) d)"
    and "walletAccountTransactions d' = walletAccountTransactions d"
    and "ledger_of d' = release i (order_of p0) (ledger_of d)"
  using assms
proof (cases rule: revert_cases)
  case (again p0)
  then show ?thesis by (intro that(1))
next
  case (pending p0 d1)
  have "ledger_of d' = release i (order_of p0) (ledger_of d)"
    using revert_ledger [OF assms] pending(1,2) by (auto simp: isPending_def isReverted_def)
  with pending release_owner_frame [OF pending(3)] show ?thesis
    by (intro that(2) [of p0]) (auto simp: same_ledger_def OperationRepository_update_def)
qed

lemma operations_total_replaced:
  assumes "operations d' = operations (OperationRepository_update p d)"
    and "keys_ok d" and "OperationRepository_getById i d = Some p0" and "op_id p = op_id p0"
  shows "operations_total f d' = operations_total f d - f p0 + f p"
proof -
  have "operations_total f d' = operations_total f (OperationRepository_update p d)"
    using assms(1) by (simp add: operations_total_def)
  with assms(2,3,4) show ?thesis by (simp add: keys_ok_def ops.total_update_at)
qed

lemma books_pending:
  assumes "books d d'" and "keys_ok d" and "pending_matches d"
  shows "pending_matches d'"
  using assms(1)
proof (cases rule: books.cases)
  case books_same
  then show ?thesis
    using assms(3) by (simp add: pending_matches_def ledger_of_same operations_total_same)
next
  case (books_open p)
  then show ?thesis
    using assms(3) by (auto simp: pending_matches_def ledger_of_open operations_total_open hold_def
        add_to_def held_by_def simp del: ledger_of_sel)
next
  case (books_link p r)
  then have "operations_total (held_by i) d' = operations_total (held_by i) d" for i
    using assms(2) by (auto simp: keys_ok_def held_by_def isPending_def ops.total_update_neutral)
  with books_link assms(3) show ?thesis
    by (simp add: pending_matches_def ledger_of_link del: ledger_of_sel)
next
  case (books_accept i r)
  from books_accept(1) obtain p0 where p0: "OperationRepository_getById i d = Some p0" "isPending p0"
    and ops: "operations d' = operations (OperationRepository_update (p0\<lparr>op_state := ACCEPTED\<rparr>) d)"
    and led: "ledger_of d' = settle i (order_of p0) (ledger_of d)"
    by (rule accept_operations)
  from operations_total_replaced [OF ops assms(2) p0(1)] p0(2) assms(3) show ?thesis
    by (auto simp: pending_matches_def led settle_def add_to_def held_by_def isPending_def
        simp del: ledger_of_sel)
next
  case (books_revert now i p)
  from books_revert(1) show ?thesis
  proof (cases rule: revert_operations)
    case 1
    with assms(3) show ?thesis by simp
  next
    case (2 p0)
    from operations_total_replaced [OF 2(3) assms(2) 2(1)] 2(2) assms(3) show ?thesis
      by (auto simp: pending_matches_def 2(5) release_def add_to_def held_by_def isPending_def
          simp del: ledger_of_sel)
  qed
qed

end
