(* ===== verification/Statements.thy ===== *)
theory Statements
  imports Invariants
begin

text \<open>
  The wallet account transactions: the entries of each account form a statement whose running
  balance is the account's balance with its blocked amount, and each accepted operation has exactly
  its entries.
\<close>

section \<open>Statements of accounts\<close>

definition signed_value :: "wallet_account_transaction \<Rightarrow> int" where
  "signed_value t = (case wat_type t of CREDIT \<Rightarrow> wat_value t | DEBIT \<Rightarrow> - wat_value t)"

text \<open>Following a statement from an opening balance; a break of the chain has no balance.\<close>

fun follow :: "int \<Rightarrow> wallet_account_transaction list \<Rightarrow> int option" where
  "follow b [] = Some b"
| "follow b (t # ts) =
     (if previousBalance t = b \<and> updatedBalance t = b + signed_value t
      then follow (updatedBalance t) ts else None)"

lemma follow_append: "follow b (xs @ ys) = Option.bind (follow b xs) (\<lambda>b'. follow b' ys)"
  by (induction xs arbitrary: b) auto

lemma follow_sum: "follow b ts = Some b' \<Longrightarrow> b' = b + sum_list (map signed_value ts)"
proof (induction ts arbitrary: b)
  case (Cons t ts)
  then have "follow (updatedBalance t) ts = Some b'" and "updatedBalance t = b + signed_value t"
    by (auto split: if_splits)
  with Cons.IH [OF this(1)] show ?case by simp
qed simp

definition entries_of_account :: "nat \<Rightarrow> db \<Rightarrow> wallet_account_transaction list" where
  "entries_of_account i d = filter (\<lambda>t. wat_walletAccount t = i) (walletAccountTransactions d)"

text \<open>The funds of an account: what is available and what is blocked.\<close>

definition funds :: "db \<Rightarrow> nat \<Rightarrow> int option" where
  "funds d i = map_option (\<lambda>a. balance a + pendingAmount a) (WalletAccountRepository_getById i d)"

definition statements_match :: "(nat \<Rightarrow> int) \<Rightarrow> db \<Rightarrow> bool" where
  "statements_match opening d \<longleftrightarrow>
     (\<forall>i v. funds d i = Some v \<longrightarrow> follow (opening i) (entries_of_account i d) = Some v)"

lemma statements_match_same:
  "same_ledger d d' \<Longrightarrow> statements_match opening d' = statements_match opening d"
  by (simp add: statements_match_def funds_def entries_of_account_def same_ledger_reads)
    (simp add: same_ledger_def)

text \<open>One entry: the account's funds change by the entry's signed value and nothing else does.\<close>

definition posted :: "wallet_account_transaction \<Rightarrow> db \<Rightarrow> db \<Rightarrow> bool" where
  "posted t d d' \<longleftrightarrow> walletAccountTransactions d' = walletAccountTransactions d @ [t]
     \<and> funds d (wat_walletAccount t) = Some (previousBalance t)
     \<and> updatedBalance t = previousBalance t + signed_value t
     \<and> (\<forall>i. funds d' i = (if i = wat_walletAccount t then Some (updatedBalance t) else funds d i))"

lemma statements_match_posted:
  assumes "posted t d d'" and "statements_match opening d"
  shows "statements_match opening d'"
  using assms
  by (auto simp: statements_match_def posted_def entries_of_account_def follow_append)

lemma debit_owner_posted:
  assumes "debit_owner p d = Inr (x, d')"
  shows "ownerWalletAccount p = None \<and> x = None \<and> d' = d
    \<or> (\<exists>t a. x = Some (t, a) \<and> posted t d d' \<and> ownerWalletAccount p = Some (wat_walletAccount t)
         \<and> wat_type t = DEBIT \<and> wat_value t = op_value p \<and> wat_operation t = op_id p)"
proof (cases "ownerWalletAccount p")
  case None
  with assms show ?thesis by (simp add: debit_owner_def)
next
  case (Some i)
  with assms obtain a where "WalletAccountRepository_getById i d = Some a"
    by (auto simp: debit_owner_def Let_def result_simps)
  with assms Some accounts.key_get [OF this] show ?thesis
    by (auto simp: debit_owner_def Let_def result_simps posted_def funds_def signed_value_def
        accounts.get_update)
qed

lemma credit_beneficiary_posted:
  assumes "credit_beneficiary p d = Inr (x, d')"
  shows "beneficiaryWalletAccount p = None \<and> x = None \<and> d' = d
    \<or> (\<exists>t a. x = Some (t, a) \<and> posted t d d' \<and> beneficiaryWalletAccount p = Some (wat_walletAccount t)
         \<and> wat_type t = CREDIT \<and> wat_value t = op_value p \<and> wat_operation t = op_id p)"
proof (cases "beneficiaryWalletAccount p")
  case None
  with assms show ?thesis by (simp add: credit_beneficiary_def)
next
  case (Some i)
  with assms obtain a where "WalletAccountRepository_getById i d = Some a"
    by (auto simp: credit_beneficiary_def Let_def result_simps)
  with assms Some accounts.key_get [OF this] show ?thesis
    by (auto simp: credit_beneficiary_def Let_def result_simps posted_def funds_def
        signed_value_def accounts.get_update)
qed

text \<open>Changes without entries keep every account's funds.\<close>

lemma statements_match_unposted:
  assumes "walletAccountTransactions d' = walletAccountTransactions d" and "funds d' = funds d"
    and "statements_match opening d"
  shows "statements_match opening d'"
  using assms by (simp add: statements_match_def entries_of_account_def)

lemma funds_ledger: "funds d i = (case available (ledger_of d) i of None \<Rightarrow> None
    | Some b \<Rightarrow> map_option (\<lambda>v. b + v) (blocked (ledger_of d) i))"
  by (simp add: funds_def split: option.splits)

lemma funds_hold: "ledger_of d' = hold j ord (ledger_of d) \<Longrightarrow> funds d' = funds d"
  by (rule ext) (auto simp: funds_ledger hold_def add_to_def option.map_comp comp_def add.assoc
      simp del: ledger_of_sel split: option.splits)

lemma funds_release: "ledger_of d' = release j ord (ledger_of d) \<Longrightarrow> funds d' = funds d"
  by (rule ext)
    (auto simp: funds_ledger release_def add_to_def option.map_comp comp_def algebra_simps
      simp del: ledger_of_sel split: option.splits)

lemma open_operation_transactions [simp]:
  "walletAccountTransactions (open_operation p d) = walletAccountTransactions d"
  by (simp add: open_operation_def blockWalletAccountBalance_def split: option.splits)

lemma funds_operation [simp]: "funds (OperationRepository_update p d) = funds d"
  by (rule ext) (simp add: funds_def)

lemma books_statements:
  assumes "books d d'" and "statements_match opening d"
  shows "statements_match opening d'"
  using assms(1)
proof (cases rule: books.cases)
  case books_same
  with assms(2) show ?thesis by (simp add: statements_match_same)
next
  case (books_open p)
  with funds_hold [OF ledger_of_open] show ?thesis
    by (intro statements_match_unposted [OF _ _ assms(2)]) simp_all
next
  case (books_link p r)
  then show ?thesis by (intro statements_match_unposted [OF _ _ assms(2)]) simp_all
next
  case (books_accept i r)
  from books_accept obtain p x y d2 d3 where
      debit: "debit_owner p (OperationRepository_update p d) = Inr (x, d2)"
    and credit: "credit_beneficiary p d2 = Inr (y, d3)" and d': "same_ledger d3 d'"
    by (rule accept_cases)
  have "statements_match opening (OperationRepository_update p d)"
    by (intro statements_match_unposted [OF _ _ assms(2)]) simp_all
  then have "statements_match opening d2"
    using debit_owner_posted [OF debit] by (auto intro: statements_match_posted)
  then have "statements_match opening d3"
    using credit_beneficiary_posted [OF credit] by (auto intro: statements_match_posted)
  with d' show ?thesis by (simp add: statements_match_same)
next
  case (books_revert now i p)
  from books_revert(1) show ?thesis
  proof (cases rule: revert_operations)
    case 1
    with assms(2) show ?thesis by simp
  next
    case (2 p0)
    from funds_release [OF 2(5)] 2(4) show ?thesis
      by (intro statements_match_unposted [OF _ _ assms(2)])
  qed
qed

section \<open>Entries of operations\<close>

definition entries_of_operation ::
    "string \<Rightarrow> db \<Rightarrow> (nat \<times> wallet_account_transaction_type \<times> int) list" where
  "entries_of_operation j d = map (\<lambda>t. (wat_walletAccount t, wat_type t, wat_value t))
     (filter (\<lambda>t. wat_operation t = j) (walletAccountTransactions d))"

text \<open>An accepted operation debits its owner and credits its beneficiary, others have no entry.\<close>

definition expected_entries ::
    "operation option \<Rightarrow> (nat \<times> wallet_account_transaction_type \<times> int) list" where
  "expected_entries m = (case m of
       None \<Rightarrow> []
     | Some p \<Rightarrow>
         if isAccepted p
         then (case ownerWalletAccount p of None \<Rightarrow> [] | Some i \<Rightarrow> [(i, DEBIT, op_value p)])
            @ (case beneficiaryWalletAccount p of None \<Rightarrow> [] | Some i \<Rightarrow> [(i, CREDIT, op_value p)])
         else [])"

definition entries_match :: "db \<Rightarrow> bool" where
  "entries_match d \<longleftrightarrow>
     (\<forall>j. entries_of_operation j d = expected_entries (OperationRepository_getById j d))"

lemma entries_posted:
  "posted t d d' \<Longrightarrow> entries_of_operation j d' = entries_of_operation j d
     @ (if wat_operation t = j then [(wat_walletAccount t, wat_type t, wat_value t)] else [])"
  by (simp add: posted_def entries_of_operation_def)

lemma same_ledger_entries:
  "same_ledger d d' \<Longrightarrow> entries_of_operation j d' = entries_of_operation j d"
  by (simp add: entries_of_operation_def same_ledger_def)

lemma operation_entries: "entries_of_operation j (OperationRepository_update p d) = entries_of_operation j d"
  by (simp add: entries_of_operation_def)

lemma debit_owner_entries:
  assumes "debit_owner p d = Inr (x, d')"
  shows "entries_of_operation j d' = entries_of_operation j d
    @ (case ownerWalletAccount p of None \<Rightarrow> []
       | Some i \<Rightarrow> if op_id p = j then [(i, DEBIT, op_value p)] else [])"
  using debit_owner_posted [OF assms] by (auto simp: entries_posted)

lemma credit_beneficiary_entries:
  assumes "credit_beneficiary p d = Inr (x, d')"
  shows "entries_of_operation j d' = entries_of_operation j d
    @ (case beneficiaryWalletAccount p of None \<Rightarrow> []
       | Some i \<Rightarrow> if op_id p = j then [(i, CREDIT, op_value p)] else [])"
  using credit_beneficiary_posted [OF assms] by (auto simp: entries_posted)

lemma expected_entries_pending: "isPending p \<Longrightarrow> expected_entries (Some p) = []"
  by (simp add: expected_entries_def isPending_def isAccepted_def)

lemma getById_operations:
  "operations d' = operations d \<Longrightarrow> OperationRepository_getById j d' = OperationRepository_getById j d"
  by (simp add: OperationRepository_getById_def)

lemma accept_entries:
  assumes "AcceptOperationUseCase_execute i d = Inr (r, d')"
  obtains p0 where "OperationRepository_getById i d = Some p0" and "isPending p0"
    and "\<And>j. entries_of_operation j d' = entries_of_operation j d
       @ (if j = i then expected_entries (Some (p0\<lparr>op_state := ACCEPTED\<rparr>)) else [])"
    and "\<And>j. OperationRepository_getById j d' =
       (if j = i then Some (p0\<lparr>op_state := ACCEPTED\<rparr>) else OperationRepository_getById j d)"
proof -
  from assms obtain p0 p x y d2 d3 where p0: "OperationRepository_getById i d = Some p0" "isPending p0"
    and p: "p = p0\<lparr>op_state := ACCEPTED\<rparr>" "op_id p = i"
    and debit: "debit_owner p (OperationRepository_update p d) = Inr (x, d2)"
    and credit: "credit_beneficiary p d2 = Inr (y, d3)" and d': "same_ledger d3 d'"
    by (rule accept_cases)
  have "entries_of_operation j d' = entries_of_operation j d
       @ (if j = i then expected_entries (Some (p0\<lparr>op_state := ACCEPTED\<rparr>)) else [])" for j
    using debit_owner_entries [OF debit, of j] credit_beneficiary_entries [OF credit, of j] p
      same_ledger_entries [OF d', of j] operation_entries [of j p d]
    by (auto simp: expected_entries_def isAccepted_def split: option.splits)
  moreover have "operations d' = operations (OperationRepository_update p d)"
    using debit_owner_frame [OF debit] credit_beneficiary_frame [OF credit] d'
    by (simp add: same_ledger_def)
  then have "OperationRepository_getById j d' =
       (if j = i then Some (p0\<lparr>op_state := ACCEPTED\<rparr>) else OperationRepository_getById j d)" for j
    using p p0(1) by (simp add: getById_operations [OF \<open>operations d' = _\<close>] ops.get_update)
  ultimately show ?thesis using that [OF p0] by blast
qed

lemma revert_reads:
  assumes "RevertOperationUseCase_execute now i d = Inr (q, d')"
  obtains "d' = d"
  | p0 where "OperationRepository_getById i d = Some p0" and "isPending p0"
    and "\<And>j. entries_of_operation j d' = entries_of_operation j d"
    and "\<And>j. OperationRepository_getById j d' =
       (if j = i then Some (p0\<lparr>op_state := REVERTED, revertedAt := Some now\<rparr>)
        else OperationRepository_getById j d)"
  using assms
proof (cases rule: revert_operations)
  case 1
  then show ?thesis by (rule that(1))
next
  case (2 p0)
  with ops.key_get [OF 2(1)] show ?thesis
    by (intro that(2) [OF 2(1,2)])
      (simp_all add: entries_of_operation_def getById_operations [OF 2(3)] ops.get_update)
qed

lemma books_entries:
  assumes "books d d'" and "entries_match d"
  shows "entries_match d'"
  using assms(1)
proof (cases rule: books.cases)
  case books_same
  with assms(2) show ?thesis
    by (simp add: entries_match_def same_ledger_reads same_ledger_entries)
next
  case (books_open p)
  have "entries_of_operation j d' = entries_of_operation j d" for j
    using books_open(1) by (simp add: entries_of_operation_def)
  with books_open assms(2) show ?thesis
    by (auto simp: entries_match_def open_operation_reads expected_entries_pending)
      (simp add: expected_entries_def)
next
  case (books_link p r)
  have "expected_entries (Some (p\<lparr>operationRef := r\<rparr>)) = expected_entries (Some p)"
    by (simp add: expected_entries_def isAccepted_def split: option.splits)
  moreover have "entries_of_operation j d' = entries_of_operation j d" for j
    using books_link(1) by (simp add: entries_of_operation_def)
  ultimately show ?thesis
    using books_link assms(2) by (auto simp: entries_match_def ops.get_update)
next
  case (books_accept i r)
  then show ?thesis
    by (rule accept_entries) (use assms(2) in \<open>auto simp: entries_match_def expected_entries_pending\<close>)
next
  case (books_revert now i p)
  from books_revert(1) show ?thesis
  proof (cases rule: revert_reads)
    case 1
    with assms(2) show ?thesis by simp
  next
    case (2 p0)
    moreover have "expected_entries (Some (p0\<lparr>op_state := REVERTED, revertedAt := Some now\<rparr>)) = []"
      by (simp add: expected_entries_def isAccepted_def)
    ultimately show ?thesis
      using assms(2) by (auto simp: entries_match_def expected_entries_pending)
  qed
qed

section \<open>Settled operations are final\<close>

lemma books_final:
  assumes "books d d'" and "OperationRepository_getById j d = Some p" and "\<not> isPending p"
  shows "OperationRepository_getById j d' = Some p"
  using assms(1)
proof (cases rule: books.cases)
  case (books_revert now i q)
  from books_revert(1) show ?thesis
    by (cases rule: revert_reads) (use assms(2,3) in auto)
next
  case (books_accept i r)
  then show ?thesis
    by (rule accept_entries) (use assms(2,3) in auto)
qed (use assms(2,3) in \<open>auto simp: same_ledger_reads open_operation_reads ops.get_update\<close>)

end
