(* ===== verification/Announcements.thy ===== *)
theory Announcements
  imports Books
begin

text \<open>
  The movements announced in redis: whatever happens to a creation, what it announced ends with a
  time to live, so a failed or finished operation does not keep counting in the liability of its
  accounts.
\<close>

definition expiring :: "pending_transaction \<Rightarrow> bool" where
  "expiring x \<longleftrightarrow> truthy (ptx_ttl x)"

text \<open>Entries of redis are old, expiring or remembered by the use case's fields.\<close>

definition remembered :: "pending_transaction list \<Rightarrow> world \<Rightarrow> bool" where
  "remembered old w \<longleftrightarrow> (\<forall>x \<in> set (pendingTransactions (the_redis w)).
     expiring x \<or> x \<in> set old \<or> Some x = pendingOwnerTransaction (the_fields w)
     \<or> Some x = pendingBeneficiaryTransaction (the_fields w))"

definition all_expiring :: "pending_transaction list \<Rightarrow> world \<Rightarrow> bool" where
  "all_expiring old w \<longleftrightarrow>
     (\<forall>x \<in> set (pendingTransactions (the_redis w)). expiring x \<or> x \<in> set old)"

lemma createOrUpdate_member:
  assumes "y \<in> set (pendingTransactions (PendingTransactionRepository_createOrUpdate p r))"
  shows "y = p \<or> y \<in> set (pendingTransactions r) \<and> ptx_key y \<noteq> ptx_key p"
proof (cases "tbl_find ptx_key (ptx_key p) (pendingTransactions r) = None")
  case True
  then have "ptx_key p \<notin> ptx_key ` set (pendingTransactions r)" by (simp add: tbl_find_None_iff)
  with True assms show ?thesis
    by (auto simp: PendingTransactionRepository_createOrUpdate_def tbl_insert_def image_iff)
next
  case False
  with assms show ?thesis
    by (auto simp: PendingTransactionRepository_createOrUpdate_def tbl_update_def split: if_splits)
qed

lemma expire_key [simp]: "ptx_key (expire cfg x) = ptx_key x"
  by (simp add: expire_def ptx_key_def)

lemma expire_expiring: "pendingWalletAccountTransactionTTL cfg \<noteq> 0 \<Longrightarrow> expiring (expire cfg x)"
  by (simp add: expire_def expiring_def)

lemma all_expiring_remembered: "all_expiring old w \<Longrightarrow> remembered old w"
  by (auto simp: all_expiring_def remembered_def)

text \<open>Expiring the owner's entry, then the beneficiary's.\<close>

lemma announce_redis [simp]:
  "the_redis (announce_owner x w) = PendingTransactionRepository_createOrUpdate x (the_redis w)"
  "the_redis (announce_beneficiary x w) = PendingTransactionRepository_createOrUpdate x (the_redis w)"
  "pendingOwnerTransaction (the_fields (announce_owner x w)) = Some x"
  "pendingBeneficiaryTransaction (the_fields (announce_owner x w)) =
     pendingBeneficiaryTransaction (the_fields w)"
  "pendingOwnerTransaction (the_fields (announce_beneficiary x w)) =
     pendingOwnerTransaction (the_fields w)"
  "pendingBeneficiaryTransaction (the_fields (announce_beneficiary x w)) = Some x"
  by (simp_all add: announce_owner_def announce_beneficiary_def)

definition expire_owner :: "config \<Rightarrow> world \<Rightarrow> world" where
  "expire_owner cfg w = (case pendingOwnerTransaction (the_fields w) of
     None \<Rightarrow> w
   | Some x \<Rightarrow> if truthy (ptx_ttl x) then w else announce_owner (expire cfg x) w)"

definition expire_beneficiary :: "config \<Rightarrow> world \<Rightarrow> world" where
  "expire_beneficiary cfg w = (case pendingBeneficiaryTransaction (the_fields w) of
     None \<Rightarrow> w
   | Some x \<Rightarrow> if truthy (ptx_ttl x) then w else announce_beneficiary (expire cfg x) w)"

lemma removePending_split:
  "removePendingWalletAccountTransaction cfg w = expire_beneficiary cfg (expire_owner cfg w)"
  by (simp add: removePendingWalletAccountTransaction_def expire_owner_def expire_beneficiary_def
      Let_def)

lemma expire_owner_remembered:
  assumes "remembered old w" and "pendingWalletAccountTransactionTTL cfg \<noteq> 0"
    and "x \<in> set (pendingTransactions (the_redis (expire_owner cfg w)))"
  shows "expiring x \<or> x \<in> set old \<or> Some x = pendingBeneficiaryTransaction (the_fields (expire_owner cfg w))"
proof (cases "pendingOwnerTransaction (the_fields w)")
  case None
  with assms show ?thesis by (auto simp: expire_owner_def remembered_def)
next
  case (Some y)
  with assms show ?thesis
    by (cases "truthy (ptx_ttl y)")
      (auto simp: expire_owner_def remembered_def expiring_def [symmetric] expire_expiring
        dest!: createOrUpdate_member)
qed

lemma removePending_expiring:
  assumes "remembered old w" and "pendingWalletAccountTransactionTTL cfg \<noteq> 0"
  shows "all_expiring old (removePendingWalletAccountTransaction cfg w)"
proof -
  note own = expire_owner_remembered [OF assms]
  show ?thesis
  proof (cases "pendingBeneficiaryTransaction (the_fields (expire_owner cfg w))")
    case None
    with own show ?thesis
      by (auto simp: all_expiring_def removePending_split expire_beneficiary_def)
  next
    case (Some y)
    with assms(2) show ?thesis
      by (cases "truthy (ptx_ttl y)")
        (auto simp: all_expiring_def removePending_split expire_beneficiary_def
          expiring_def [symmetric] expire_expiring dest!: createOrUpdate_member dest: own)
  qed
qed

text \<open>A step that touches neither redis nor the remembered movements.\<close>

definition same_announced :: "world \<Rightarrow> world \<Rightarrow> bool" where
  "same_announced w w' \<longleftrightarrow> the_redis w' = the_redis w
     \<and> pendingOwnerTransaction (the_fields w') = pendingOwnerTransaction (the_fields w)
     \<and> pendingBeneficiaryTransaction (the_fields w') = pendingBeneficiaryTransaction (the_fields w)"

definition announcement_only :: "(world \<Rightarrow> bool) \<Rightarrow> bool" where
  "announcement_only I \<longleftrightarrow> (\<forall>w w'. same_announced w w' \<longrightarrow> I w \<longrightarrow> I w')"

lemma announcement_only_simps [simp]:
  "announcement_only (remembered old)" "announcement_only (all_expiring old)"
  by (auto simp: announcement_only_def same_announced_def remembered_def all_expiring_def)

lemma keeps_db [simp, intro]: "announcement_only I \<Longrightarrow> keeps (dbS f) I"
  by (auto simp: valid_def dbS_def announcement_only_def same_announced_def split: sum.splits)

lemma keeps_modify:
  "announcement_only I \<Longrightarrow> (\<And>w. same_announced w (g w)) \<Longrightarrow> keeps (modifyS g) I"
  by (auto simp: announcement_only_def intro!: valid_modifyS)

lemma keeps_check_owner: "announcement_only I \<Longrightarrow> keeps (check_owner m cfg u tt p wa) I"
  unfolding check_owner_def Let_def
  by (cases wa) (auto intro!: keeps_bindS keeps_modify simp: same_announced_def)

lemma keeps_check_beneficiary: "announcement_only I \<Longrightarrow> keeps (check_beneficiary m u tt p wa) I"
  unfolding check_beneficiary_def Let_def
  by (cases wa) (auto intro!: keeps_bindS keeps_modify simp: same_announced_def)

lemma keeps_use_limit: "announcement_only I \<Longrightarrow> keeps (use_limit m info tr p) I"
  by (auto simp: valid_def use_limit_def store_tracker_def announcement_only_def
      same_announced_def bindS_def modifyS_def returnS_def split: option.splits prod.splits)

lemma createOperation_expires:
  assumes "pendingWalletAccountTransactionTTL cfg \<noteq> 0"
  shows "valid (remembered old) (createOperation m cfg tt oi ow bi bw)
     (\<lambda>_. all_expiring old) (remembered old)"
proof (cases "new_operation oi ow bi bw tt")
  case None
  then show ?thesis by (auto simp: createOperation_def intro: valid_throwS)
next
  case (Some p)
  have fin: "valid (all_expiring old)
      (bindS (case ow of None \<Rightarrow> returnS ()
              | Some (_, a) \<Rightarrow> modifyS (\<lambda>w. w\<lparr>the_db := blockWalletAccountBalance a (op_value p) (the_db w)\<rparr>))
        (\<lambda>_. returnS q)) (\<lambda>_. all_expiring old) (remembered old)" for q :: operation
    by (rule valid_weaken [where P = "all_expiring old" and E = "all_expiring old"
          and Q = "\<lambda>_. all_expiring old"])
      (auto intro!: keeps_bindS keeps_modify all_expiring_remembered simp: same_announced_def
        split: option.splits)
  have rem: "valid (remembered old) (modifyS (removePendingWalletAccountTransaction cfg))
      (\<lambda>_. all_expiring old) (remembered old)"
    using assms by (intro valid_modifyS removePending_expiring)
  show ?thesis
    unfolding createOperation_def Some option.case
    by (rule valid_bindS [OF keeps_use_limit valid_bindS [OF keeps_use_limit
          valid_bindS [OF keeps_db valid_bindS [OF rem fin]]]]) simp_all
qed

lemma valid_then_return:
  "valid P f (\<lambda>_. Q) E \<Longrightarrow> valid P (bindS f (\<lambda>x. returnS (g x))) (\<lambda>_. Q) E"
  by (rule valid_bindS [OF _ valid_returnS])

lemma createIndependentOperations_expires:
  assumes "pendingWalletAccountTransactionTTL cfg \<noteq> 0"
  shows "valid (remembered old) (createIndependentOperations m cfg tt oi ow bi bw)
     (\<lambda>_. all_expiring old) (remembered old)"
proof -
  note one = createOperation_expires [OF assms]
  have two: "valid (all_expiring old) (createOperation m cfg tt None None bi bw)
      (\<lambda>_. all_expiring old) (remembered old)"
    by (rule valid_weaken [OF one]) (auto intro: all_expiring_remembered)
  have upd: "valid (all_expiring old) (modifyS (\<lambda>w. w\<lparr>the_db := OperationRepository_update q (the_db w)\<rparr>))
      (\<lambda>_. all_expiring old) (remembered old)" for q
    by (rule valid_modifyS) (simp add: all_expiring_def)
  show ?thesis
    unfolding createIndependentOperations_def Let_def
    by (rule valid_bindS [OF one valid_bindS [OF two valid_bindS [OF upd valid_then_return [OF upd]]]])
qed

lemma create_by_participants_expires:
  assumes "pendingWalletAccountTransactionTTL cfg \<noteq> 0"
  shows "valid (remembered old) (create_by_participants m cfg tt oi ow bi bw)
     (\<lambda>_. all_expiring old) (remembered old)"
  unfolding create_by_participants_def createBeneficiaryOperation_def createOwnerOperation_def
    createSharedOperation_def
  by (auto split: option.splits prod.splits
      intro!: valid_then_return createOperation_expires [OF assms]
        createIndependentOperations_expires [OF assms] valid_bindS [OF _ valid_returnS]
      simp: case_prod_unfold)

definition remembered_owner_only :: "pending_transaction list \<Rightarrow> world \<Rightarrow> bool" where
  "remembered_owner_only old w \<longleftrightarrow>
     remembered old w \<and> pendingBeneficiaryTransaction (the_fields w) = None"

lemma load_owner_remembers:
  "valid (\<lambda>w. remembered_owner_only old w \<and> pendingOwnerTransaction (the_fields w) = None)
     (load_owner oi) (\<lambda>_. remembered_owner_only old) (remembered_owner_only old)"
proof (cases oi)
  case None
  then show ?thesis by (auto simp: load_owner_def valid_def returnS_def)
next
  case (Some p)
  show ?thesis
    by (auto simp: load_owner_def Some valid_def bindS_def readS_def modifyS_def returnS_def
        remembered_def remembered_owner_only_def dest!: createOrUpdate_member split: sum.splits)
qed

lemma load_beneficiary_remembers:
  "valid (remembered_owner_only old) (load_beneficiary bi) (\<lambda>_. remembered old) (remembered old)"
proof (cases bi)
  case None
  then show ?thesis by (auto simp: load_beneficiary_def valid_def returnS_def remembered_owner_only_def)
next
  case (Some p)
  show ?thesis
    by (auto simp: load_beneficiary_def Some valid_def bindS_def readS_def modifyS_def returnS_def
        remembered_def remembered_owner_only_def dest!: createOrUpdate_member split: sum.splits)
qed

text \<open>The body of the use case: what it announced is remembered if it throws, expiring if not.\<close>

lemma CreateOperationUseCase_expires:
  assumes "pendingWalletAccountTransactionTTL cfg \<noteq> 0"
  shows "valid (\<lambda>w. the_fields w = init_fields \<and> pendingTransactions (the_redis w) = old)
     (CreateOperationUseCase_execute m cfg ids tag oi bi) (\<lambda>_. all_expiring old) (all_expiring old)"
proof -
  let ?start = "\<lambda>w. the_fields w = init_fields \<and> pendingTransactions (the_redis w) = old"
  have start: "remembered_owner_only old w \<and> pendingOwnerTransaction (the_fields w) = None"
    if "?start w" for w
    using that by (simp add: init_fields_def remembered_def remembered_owner_only_def)
  have owner: "valid ?start (load_owner oi) (\<lambda>_. remembered_owner_only old) (remembered old)"
    by (rule valid_weaken [OF load_owner_remembers start]) (auto simp: remembered_owner_only_def)
  have c1: "keeps (case (oi, ow) of
                 (Some p, Some wa) \<Rightarrow> bindS (check_owner m cfg (fst ids) tt p wa) (\<lambda>p'. returnS (Some p'))
               | _ \<Rightarrow> returnS oi) (remembered old)" for ow tt
    by (auto intro!: keeps_bindS keeps_check_owner split: option.splits)
  have c2: "keeps (case (bi, bw) of
                 (Some p, Some wa) \<Rightarrow> check_beneficiary m (snd ids) tt p wa
               | _ \<Rightarrow> returnS ()) (remembered old)" for bw tt
    by (auto intro!: keeps_check_beneficiary split: option.splits)
  have e: "valid (all_expiring old) (updateS g) (\<lambda>_. all_expiring old) (remembered old)" for g
    unfolding updateS_def
    by (rule valid_weaken [OF keeps_db [where I = "all_expiring old"]])
      (auto intro: all_expiring_remembered)
  have h: "remembered old w \<Longrightarrow> all_expiring old (removePendingWalletAccountTransaction cfg w)" for w
    using assms by (rule removePending_expiring [rotated])
  have pre: "valid ?start (readS g) (\<lambda>_. ?start) (all_expiring old)" for g :: "world \<Rightarrow> exn + 'x"
    by (rule valid_readS) (auto simp: all_expiring_def)
  show ?thesis
    unfolding CreateOperationUseCase_execute_def
    by (intro valid_bindS [OF pre] valid_catchS valid_weaken [OF valid_bindS [OF owner
          valid_bindS [OF load_beneficiary_remembers valid_bindS [OF c1 valid_bindS [OF c2
          valid_bindS [OF create_by_participants_expires [OF assms] valid_then_return [OF e]]]]]]])
      (simp_all add: h)
qed

end
