(* ===== verification/Operation_Safety.thy ===== *)
theory Operation_Safety
  imports Statements Announcements
begin

text \<open>
  The properties of the operation use cases: the invariants of the books over every sequence of
  requests, what a creation guarantees about funds and about the following acceptance, how often an
  operation can be settled, and what happens to the money.
\<close>

section \<open>Over every sequence of requests\<close>

lemma sample_requests: "requests sample_world (opened_world\<lparr>the_db := accepted_db\<rparr>)"
proof -
  have "serves sample_world opened_world"
    using sample_create
    by (intro serve_create [of sample_moment sample_config sample_ids "''P2PBT''" "Some payer"
          "Some payee" _ "Inr sample_result"])
      (simp add: transactional_def sample_world_def)
  moreover have "serves opened_world (opened_world\<lparr>the_db := accepted_db\<rparr>)"
    using sample_accept
    by (intro serve_accept [of "''op1''" _ "Inr sample_accepted"])
      (simp add: transactional_def dbS_def opened_world_def)
  ultimately show ?thesis by (meson rtranclp.rtrancl_into_rtrancl rtranclp.rtrancl_refl)
qed

lemma sample_keys_ok: "keys_ok (the_db sample_world)"
  using sample_keys by (simp add: keys_ok_def sample_world_def)

lemma sample_db_empty [simp]:
  "operations (the_db sample_world) = []" "walletAccountTransactions (the_db sample_world) = []"
  "the_db sample_world = sample_db"
  by (simp_all add: sample_world_def sample_db_def)

lemma accepted_accounts:
  "walletAccounts accepted_db = [account_a\<lparr>balance := 87000\<rparr>, account_b\<lparr>balance := 3500\<rparr>]"
  "operations accepted_db = [opened_operation\<lparr>op_state := ACCEPTED\<rparr>]"
  by (simp_all add: accepted_db_def)

lemma sample_pending: "pending_matches sample_db"
  by (auto simp: pending_matches_def operations_total_def sample_db_def account_a_def account_b_def
      WalletAccountRepository_getById_def split: if_splits)

lemma account_member:
  "walletAccounts_wf d \<Longrightarrow> a \<in> set (walletAccounts d) \<Longrightarrow>
     WalletAccountRepository_getById (wa_id a) d = Some a"
  by (simp add: WalletAccountRepository_getById_def walletAccounts_wf_def tbl_find_member)

lemma requests_keys: "requests w w' \<Longrightarrow> keys_ok (the_db w) \<Longrightarrow> keys_ok (the_db w')"
  by (rule requests_invariant [where P = keys_ok]) (auto intro: books_keys)

text \<open>
  C16: whatever sequence of creations, acceptances and reversions is served, successfully or not, the
  blocked amount of each wallet account is the sum of the values of its pending operations.
\<close>

theorem blocked_is_pending:
  assumes "requests w w'" and "keys_ok (the_db w)" and "pending_matches (the_db w)"
  shows "\<forall>a \<in> set (walletAccounts (the_db w')).
     pendingAmount a = operations_total (held_by (wa_id a)) (the_db w')"
proof -
  have "pending_matches (the_db w')"
    using assms by (rule requests_invariant) (rule books_pending)
  moreover have "walletAccounts_wf (the_db w')"
    using requests_keys [OF assms(1,2)] by (simp add: keys_ok_def)
  ultimately show ?thesis by (auto simp: pending_matches_def account_member)
qed

theorem blocked_is_pending_witness:
  "operations_total (held_by 10) accepted_db = 0 \<and> operations_total (held_by 20) accepted_db = 0"
  using blocked_is_pending [OF sample_requests sample_keys_ok] sample_pending
  by (simp add: accepted_accounts account_a_def account_b_def)

text \<open>
  C15: over every sequence of requests the entries of an account form an unbroken statement: from the
  account's opening balance each entry starts where the one before ended, moves by its signed
  value, and the last one ends at the account's balance with its blocked amount.
\<close>

theorem statements_follow_balances:
  assumes "requests w w'" and "keys_ok (the_db w)" and "statements_match opening (the_db w)"
  shows "\<forall>i v. funds (the_db w') i = Some v \<longrightarrow>
     follow (opening i) (entries_of_account i (the_db w')) = Some v"
proof -
  have "statements_match opening (the_db w')"
    using assms by (rule requests_invariant) (rule books_statements)
  then show ?thesis by (simp add: statements_match_def)
qed

theorem statements_follow_balances_witness:
  "follow 90000 (entries_of_account 10 accepted_db) = Some 87000
   \<and> follow 500 (entries_of_account 20 accepted_db) = Some 3500"
proof -
  have "statements_match (\<lambda>i. if i = 10 then 90000 else 500) (the_db sample_world)"
    by (auto simp: statements_match_def funds_def entries_of_account_def sample_db_def account_a_def
        account_b_def WalletAccountRepository_getById_def split: if_splits)
  note all = statements_follow_balances [OF sample_requests sample_keys_ok this]
  have "funds accepted_db 10 = Some 87000" "funds accepted_db 20 = Some 3500" by code_simp+
  with all [THEN spec, of 10] all [THEN spec, of 20] show ?thesis by simp
qed





section \<open>Settling once\<close>

lemma accept_reads_state:
  assumes "OperationRepository_getById i d = Some p" and "\<not> isPending p" and "i \<noteq> []"
  shows "AcceptOperationUseCase_execute i d = Inl (OperationInvalidStateException (op_state p))"
  using assms by (simp add: AcceptOperationUseCase_execute_def)

lemma revert_reads_state:
  assumes "OperationRepository_getById i d = Some p" and "\<not> isPending p" and "i \<noteq> []"
  shows "RevertOperationUseCase_execute now i d =
     (if isReverted p then Inr (p, d) else Inl (OperationInvalidStateException (op_state p)))"
  using assms by (simp add: RevertOperationUseCase_execute_def)

lemma accept_id: "AcceptOperationUseCase_execute i d = Inr r \<Longrightarrow> i \<noteq> []"
  by (auto simp: AcceptOperationUseCase_execute_def)

lemma revert_id: "RevertOperationUseCase_execute now i d = Inr r \<Longrightarrow> i \<noteq> []"
  by (auto simp: RevertOperationUseCase_execute_def)

text \<open>
  C25: an operation is accepted at most once, and never both accepted and reverted. After an
  acceptance every later acceptance or reversion of the same operation fails with the invalid state
  ACCEPTED, so it writes nothing.
\<close>

theorem accepted_once:
  assumes "AcceptOperationUseCase_execute i d = Inr (r, d')"
  shows "AcceptOperationUseCase_execute i d' = Inl (OperationInvalidStateException ACCEPTED)
     \<and> RevertOperationUseCase_execute now i d' = Inl (OperationInvalidStateException ACCEPTED)"
  using assms
proof (rule accept_entries)
  fix p0 assume "\<And>j. OperationRepository_getById j d' =
       (if j = i then Some (p0\<lparr>op_state := ACCEPTED\<rparr>) else OperationRepository_getById j d)"
  then have "OperationRepository_getById i d' = Some (p0\<lparr>op_state := ACCEPTED\<rparr>)" by simp
  with accept_reads_state [OF this] revert_reads_state [OF this] accept_id [OF assms] show ?thesis
    by (simp add: isPending_def isReverted_def)
qed

theorem accepted_once_witness:
  "AcceptOperationUseCase_execute ''op1'' accepted_db = Inl (OperationInvalidStateException ACCEPTED)"
  using accepted_once [OF sample_accept] by blast

text \<open>
  A reverted operation stays reverted. Reverting it again succeeds, returns the stored operation
  and writes nothing; accepting it fails with the invalid state REVERTED.
\<close>

theorem reverted_once:
  assumes "RevertOperationUseCase_execute now i d = Inr (q, d')"
  shows "RevertOperationUseCase_execute later i d' = Inr (q, d')
     \<and> AcceptOperationUseCase_execute i d' = Inl (OperationInvalidStateException REVERTED)"
proof -
  have q: "OperationRepository_getById i d' = Some q \<and> isReverted q"
    using assms
  proof (cases rule: revert_cases)
    case (again p0)
    then show ?thesis by simp
  next
    case (pending p0 d1)
    have "OperationRepository_getById i d1 = Some p0"
      using pending(1) release_owner_frame(1) [OF pending(3)] by simp
    with pending(4,6) ops.key_get [OF this] have "OperationRepository_getById i (OperationRepository_update q d1) = Some q"
      by (simp add: ops.get_update)
    with pending(4,5) show ?thesis by (simp add: same_ledger_reads isReverted_def)
  qed
  then have "\<not> isPending q" by (simp add: isReverted_def isPending_def)
  with q accept_reads_state [of i d' q] revert_reads_state [of i d' q later] revert_id [OF assms]
  show ?thesis by (simp add: isReverted_def)
qed

theorem reverted_once_witness:
  "RevertOperationUseCase_execute (t_2330 + 5) ''op1'' reverted_db = Inr (reverted_operation, reverted_db)"
  using reverted_once [OF sample_revert, of "t_2330 + 5"] by blast

section \<open>Money\<close>

definition account_funds :: "wallet_account \<Rightarrow> int" where
  "account_funds a = balance a + pendingAmount a"

text \<open>The funds of all accounts together.\<close>

definition total_funds :: "db \<Rightarrow> int" where
  "total_funds d = walletAccounts_total account_funds d"

lemma total_funds_frame [simp]:
  "total_funds (OperationRepository_update p d) = total_funds d"
  "total_funds (WalletAccountTransactionRepository_create t d) = total_funds d"
  "total_funds (operation_insert p d) = total_funds d"
  by (simp_all add: total_funds_def walletAccounts_total_def)

lemma total_funds_same: "same_ledger d d' \<Longrightarrow> total_funds d' = total_funds d"
  by (simp add: total_funds_def walletAccounts_total_def same_ledger_def)

lemma total_funds_update:
  assumes "keys_ok d" and "WalletAccountRepository_getById i d = Some a" and "wa_id a' = wa_id a"
  shows "total_funds (WalletAccountRepository_update a' d) =
     total_funds d - account_funds a + account_funds a'"
  using assms by (simp add: total_funds_def keys_ok_def accounts.total_update_at)

lemma debit_owner_total:
  assumes "debit_owner p d = Inr (x, d')" and "keys_ok d"
  shows "total_funds d' = total_funds d - (if ownerWalletAccount p = None then 0 else op_value p)"
proof (cases "ownerWalletAccount p")
  case None
  with assms show ?thesis by (simp add: debit_owner_def)
next
  case (Some i)
  with assms(1) obtain a t where a: "WalletAccountRepository_getById i d = Some a"
    and d': "d' = WalletAccountRepository_update (a\<lparr>pendingAmount := pendingAmount a - op_value p\<rparr>)
       (WalletAccountTransactionRepository_create t d)"
    by (auto simp: debit_owner_def Let_def result_simps)
  from total_funds_update [of "WalletAccountTransactionRepository_create t d" i a] a assms(2) Some
  show ?thesis by (simp add: d' account_funds_def)
qed

lemma credit_beneficiary_total:
  assumes "credit_beneficiary p d = Inr (x, d')" and "keys_ok d"
  shows "total_funds d' = total_funds d + (if beneficiaryWalletAccount p = None then 0 else op_value p)"
proof (cases "beneficiaryWalletAccount p")
  case None
  with assms show ?thesis by (simp add: credit_beneficiary_def)
next
  case (Some i)
  with assms(1) obtain a t where a: "WalletAccountRepository_getById i d = Some a"
    and d': "d' = WalletAccountRepository_update (a\<lparr>balance := balance a + op_value p\<rparr>)
       (WalletAccountTransactionRepository_create t d)"
    by (auto simp: credit_beneficiary_def Let_def result_simps)
  from total_funds_update [of "WalletAccountTransactionRepository_create t d" i a] a assms(2) Some
  show ?thesis by (simp add: d' account_funds_def)
qed

text \<open>
  C21: acceptance moves money, it does not make it. Accepting an operation with an owner and a
  beneficiary keeps the total funds of all accounts; with an owner only they shrink by exactly its
  value, with a beneficiary only they grow by exactly its value.
\<close>

theorem acceptance_conserves_money:
  assumes "AcceptOperationUseCase_execute i d = Inr (r, d')" and "keys_ok d"
  shows "total_funds d' = total_funds d
     - (if ownerWalletAccount (ao_operation r) = None then 0 else op_value (ao_operation r))
     + (if beneficiaryWalletAccount (ao_operation r) = None then 0 else op_value (ao_operation r))"
  using assms(1)
proof (rule accept_cases)
  fix p x y d2 d3
  assume debit: "debit_owner p (OperationRepository_update p d) = Inr (x, d2)"
    and credit: "credit_beneficiary p d2 = Inr (y, d3)" and "same_ledger d3 d'"
    and "ao_operation r = p"
  moreover have "keys_ok (OperationRepository_update p d)" using assms(2) by simp
  ultimately show ?thesis
    using debit_owner_total [OF debit] credit_beneficiary_total [OF credit] debit_owner_keys [OF debit]
    by (simp add: total_funds_same)
qed

theorem acceptance_conserves_money_witness:
  "total_funds accepted_db = total_funds opened_db"
  using acceptance_conserves_money [OF sample_accept] sample_keys
  by (simp add: keys_ok_def sample_accepted_def opened_operation_def sample_operation_def)

section \<open>What a creation guarantees\<close>

lemma createOperation_origin:
  assumes "createOperation m cfg tt oi ow bi bw w = (Inr p, w')"
  obtains p0 where "new_operation oi ow bi bw tt = Some p0" and "same_order p p0"
proof -
  from assms obtain p0 p1 p2 w1 w2 where "new_operation oi ow bi bw tt = Some p0"
    and p1: "use_limit m oi ownerUserLimitTracker p0 w = (Inr p1, w1)"
    and p2: "use_limit m bi beneficiaryUserLimitTracker p1 w1 = (Inr p2, w2)"
    and "p = p2\<lparr>createdAt := m_now m\<rparr>"
    by (auto simp: createOperation_def result_simps split: option.splits)
  moreover from use_limit_effect [OF p1] use_limit_effect [OF p2] have "same_order p2 p0"
    by (auto intro: same_order_trans)
  ultimately show ?thesis by (intro that) (simp_all add: same_order_def)
qed

text \<open>Each created operation comes from the information of its participants.\<close>

lemma created_origin:
  assumes "create_by_participants m cfg tt oi ow bi bw w = (Inr r, w')"
    and "p \<in> set (created_list r)"
  obtains oi2 ow2 bi2 bw2 p0 where "new_operation oi2 ow2 bi2 bw2 tt = Some p0" and "same_order p p0"
    and "oi2 = oi \<and> ow2 = ow \<or> oi2 = None \<and> ow2 = None"
    and "bi2 = bi \<or> bi2 = None" and "bw2 = bw \<or> bw2 = None"
proof (cases "\<exists>x a y b. ow = Some (x, a) \<and> bw = Some (y, b) \<and> wa_currency a \<noteq> wa_currency b")
  case True
  then obtain x a y b where ow: "ow = Some (x, a)" "bw = Some (y, b)" "wa_currency a \<noteq> wa_currency b"
    by auto
  with assms(1) obtain p0 q0 w1 w2 where
      c1: "createOperation m cfg tt oi ow None None w = (Inr p0, w1)"
    and c2: "createOperation m cfg tt None None bi bw w1 = (Inr q0, w2)"
    and r: "ownerOperation r = Some (p0\<lparr>operationRef := Some (op_id q0)\<rparr>)"
      "beneficiaryOperation r = Some (q0\<lparr>operationRef := Some (op_id p0)\<rparr>)"
    by (auto simp: create_by_participants_def createIndependentOperations_def result_simps Let_def)
  from r assms(2) consider "same_order p p0" | "same_order p q0"
    by (auto simp: created_list_def same_order_def split: if_splits)
  then show ?thesis
  proof cases
    case 1
    with c1 that show ?thesis by (elim createOperation_origin) (blast intro: same_order_trans)
  next
    case 2
    with c2 that show ?thesis by (elim createOperation_origin) (blast intro: same_order_trans)
  qed
next
  case False
  show ?thesis
  proof (cases ow)
    case None
    with assms obtain q where "createOperation m cfg tt None None bi bw w = (Inr q, w')" "p = q"
      by (auto simp: create_by_participants_def createBeneficiaryOperation_def created_list_def
          result_simps)
    then show ?thesis by (elim createOperation_origin) (rule that [of None None bi bw], auto)
  next
    case (Some xa)
    then obtain x a where ow: "ow = Some (x, a)" by (cases xa) auto
    with assms False obtain q where "createOperation m cfg tt oi ow None bw w = (Inr q, w')" "p = q"
      by (auto simp: create_by_participants_def createSharedOperation_def createOwnerOperation_def
          created_list_def result_simps split: option.splits if_splits)
    then show ?thesis by (elim createOperation_origin) (rule that [of oi ow None bw], auto)
  qed
qed

text \<open>A created operation as its participants' information gives it.\<close>

lemma new_operation_owner:
  assumes "new_operation oi ow bi bw tt = Some p" and "ownerWalletAccount p = Some i"
    and "oi = None \<Longrightarrow> ow = None"
  obtains info x a where "oi = Some info" and "ow = Some (x, a)" and "i = wa_id a"
    and "op_value p = fee_of info + p_rawValue info" and "op_id p = p_operation info"
  using assms by (cases oi; cases ow) (auto simp: new_operation_def Let_def split: option.splits)

lemma getUserCreditBalance_none:
  assumes "\<forall>ul \<in> set (userLimits d). creditBalance ul \<le> 0"
  shows "getUserCreditBalance tt u d \<le> 0"
  using assms
  by (auto simp: getUserCreditBalance_def UserLimitRepository_getByUserAndLimitType_def find_Some_iff
      split: option.splits)

lemma funded_owner:
  assumes "funded tt d (Some p0) (Some (x, a)) (Some info)"
    and "\<forall>ul \<in> set (userLimits d). creditBalance ul \<le> 0"
  shows "fee_of info + p_rawValue info \<le> balance a"
  using assms getUserCreditBalance_none [OF assms(2), of tt "w_user x"]
  by (auto simp: funded_def Let_def)

lemma created_values:
  assumes run: "create_by_participants m cfg tt oi' ow bi bw w4 = (Inr r, w5)"
    and fund: "funded tt d oi ow oi'" and none: "ow = None \<longleftrightarrow> oi = None"
    and credit: "\<forall>ul \<in> set (userLimits d). creditBalance ul \<le> 0"
    and cur: "current_account ow d"
    and p: "p \<in> set (created_list r)" "ownerWalletAccount p = Some i"
  obtains a where "WalletAccountRepository_getById i d = Some a" and "op_value p \<le> balance a"
proof -
  from created_origin [OF run p(1)] obtain oi2 ow2 bi2 bw2 p0 where
      p0: "new_operation oi2 ow2 bi2 bw2 tt = Some p0" "same_order p p0"
    and o2: "oi2 = oi' \<and> ow2 = ow \<or> oi2 = None \<and> ow2 = None" .
  have "oi' = None \<longleftrightarrow> oi = None"
    using fund none by (auto simp: funded_def Let_def split: option.splits)
  with o2 none have "oi2 = None \<Longrightarrow> ow2 = None" by auto
  moreover have "ownerWalletAccount p0 = Some i" using p(2) p0(2) by (simp add: same_order_def)
  ultimately obtain info x a where oi2: "oi2 = Some info" and ow2: "ow2 = Some (x, a)" "i = wa_id a"
    and v: "op_value p0 = fee_of info + p_rawValue info"
    using new_operation_owner [OF p0(1)] by metis
  from oi2 ow2 o2 none obtain q where "oi = Some q" "oi' = Some info" "ow = Some (x, a)"
    using none by (cases oi) auto
  with fund credit have "fee_of info + p_rawValue info \<le> balance a" by (auto intro: funded_owner)
  moreover have "WalletAccountRepository_getById i d = Some a"
    using cur \<open>ow = Some (x, a)\<close> ow2(2) by (simp add: current_account_def)
  ultimately show ?thesis using that v p0(2) by (simp add: same_order_def)
qed

text \<open>At most one created operation has an owner, so the hold is on one account.\<close>

lemma opened_owner_hold:
  assumes "opened r d d'" and "available (ledger_of d') i = Some b'"
  shows "available (ledger_of d) i = Some b' \<or>
    (\<exists>p b. p \<in> set (created_list r) \<and> ownerWalletAccount p = Some i
       \<and> available (ledger_of d) i = Some b \<and> b' = b - op_value p)"
proof -
  have led: "ledger_of d' = fold hold_operation (created_list r) (ledger_of d)"
    using opened_ledger [OF assms(1)] by blast
  have "\<exists>p qs. created_list r = p # qs \<and> (\<forall>q \<in> set qs. ownerWalletAccount q = None)"
    using assms(1)
    by (auto simp: opened_def opened_two_def created_list_def split: option.splits if_splits)
  then obtain p qs where pqs: "created_list r = p # qs" "\<forall>q \<in> set qs. ownerWalletAccount q = None"
    by blast
  have "available (fold hold_operation qs l) = available l" for l
    using pqs(2) by (induction qs arbitrary: l) (simp_all add: hold_operation_def hold_def)
  then have "available (ledger_of d') = add_to (ownerWalletAccount p) (- op_value p) (available (ledger_of d))"
    by (simp add: led pqs(1)) (simp add: hold_operation_def hold_def)
  with assms(2) pqs(1) show ?thesis
    by (auto simp: add_to_def simp del: ledger_of_sel split: if_splits)
qed

text \<open>
  C22: without a credit line nobody overdraws. When no user has a credit balance, a successful
  creation leaves every account it blocks money on with a balance that is not negative, and leaves
  all other balances as they were. The owner's clause that cuts the amount down to what the balance
  covers is included.
\<close>

theorem creation_never_overdraws:
  assumes "CreateOperationUseCase_execute m cfg ids tag oi bi w = (Inr r, w')"
    and "walletAccounts_wf (the_db w)"
    and "\<forall>ul \<in> set (userLimits (the_db w)). creditBalance ul \<le> 0"
    and "available (ledger_of (the_db w')) i = Some b'"
  shows "0 \<le> b' \<or> available (ledger_of (the_db w)) i = Some b'"
  using opened_owner_hold [OF CreateOperationUseCase_effect [OF assms(1,2)] assms(4)]
proof (elim disjE exE conjE)
  fix p b
  assume p: "p \<in> set (created_list r)" "ownerWalletAccount p = Some i"
    and b: "available (ledger_of (the_db w)) i = Some b" "b' = b - op_value p"
  from assms(1,2) obtain a where "WalletAccountRepository_getById i (the_db w) = Some a"
    and "op_value p \<le> balance a"
    by (rule CreateOperationUseCase_run) (erule created_values [OF _ _ _ assms(3) _ p])
  with b show ?thesis by simp
qed simp

theorem creation_never_overdraws_witness:
  "0 \<le> (87000::int) \<or> available (ledger_of (the_db sample_world)) 10 = Some 87000"
proof -
  have "walletAccounts_wf (the_db sample_world)" using sample_keys by simp
  moreover have "\<forall>ul \<in> set (userLimits (the_db sample_world)). creditBalance ul \<le> 0"
    by code_simp
  moreover have "available (ledger_of (the_db opened_world)) 10 = Some 87000"
    by code_simp
  ultimately show ?thesis by (rule creation_never_overdraws [OF sample_create])
qed

lemma new_operation_accounts:
  assumes "new_operation oi ow bi bw tt = Some p"
  shows "ownerWalletAccount p = Some i \<Longrightarrow> \<exists>x a. ow = Some (x, a) \<and> i = wa_id a"
    and "beneficiaryWalletAccount p = Some i \<Longrightarrow> \<exists>x a. bw = Some (x, a) \<and> i = wa_id a"
    and "oi = Some q \<Longrightarrow> op_id p = p_operation q"
    and "oi = None \<Longrightarrow> \<exists>q. bi = Some q \<and> op_id p = p_operation q"
  using new_operation_fields(2,3) [OF assms] assms
  by (auto simp: new_operation_def Let_def split: option.splits)

lemma checkInputData_id: "checkInputData p = Inr u \<Longrightarrow> p_operation p \<noteq> []"
  by (auto simp: checkInputData_def split: if_splits)

lemma checkPreconditions_ids:
  assumes "checkPreconditions tag oi bi d = Inr tt"
  shows "\<And>p. oi = Some p \<Longrightarrow> p_operation p \<noteq> []" "\<And>p. bi = Some p \<Longrightarrow> p_operation p \<noteq> []"
  using assms
  by (auto simp: checkPreconditions_def checkInputOption_def dest: checkInputData_id split: if_splits)

lemma use_available_balance_id [simp]: "p_operation (use_available_balance a p) = p_operation p"
  by (simp add: use_available_balance_def Let_def)

lemma funded_id:
  "funded tt d oi ow oi' \<Longrightarrow> oi' = Some q' \<Longrightarrow> \<exists>q. oi = Some q \<and> p_operation q' = p_operation q"
  by (auto simp: funded_def Let_def split: option.splits)

lemma created_accounts:
  assumes run: "CreateOperationUseCase_execute m cfg ids tag oi bi w = (Inr r, w')"
    and wf: "walletAccounts_wf (the_db w)" and p: "p \<in> set (created_list r)"
  shows "op_id p \<noteq> [] \<and> event_ok p
    \<and> (\<forall>i. ownerWalletAccount p = Some i \<or> beneficiaryWalletAccount p = Some i \<longrightarrow>
         (\<exists>a. WalletAccountRepository_getById i (the_db w) = Some a \<and> wallet_account_isActive a))"
  using run wf
proof (rule CreateOperationUseCase_run)
  fix tt ow bw oi' w4 w5
  assume pre: "checkPreconditions tag oi bi (the_db w) = Inr tt"
    and ow: "current_account ow (the_db w)" "active_account ow"
    and bw: "current_account bw (the_db w)" "active_account bw"
    and fund: "funded tt (the_db w) oi ow oi'"
    and run: "create_by_participants m cfg tt oi' ow bi bw w4 = (Inr r, w5)"
    and ok: "\<forall>p. ownerOperation r = Some p \<or> beneficiaryOperation r = Some p \<longrightarrow> event_ok p"
  from created_origin [OF run p] obtain oi2 ow2 bi2 bw2 p0 where
      p0: "new_operation oi2 ow2 bi2 bw2 tt = Some p0" "same_order p p0"
    and o2: "oi2 = oi' \<and> ow2 = ow \<or> oi2 = None \<and> ow2 = None"
    and b2: "bi2 = bi \<or> bi2 = None" "bw2 = bw \<or> bw2 = None" .
  have "op_id p0 \<noteq> []"
  proof (cases oi2)
    case (Some q)
    with o2 fund new_operation_accounts(3) [OF p0(1)] checkPreconditions_ids(1) [OF pre] show ?thesis
      by (auto dest: funded_id)
  next
    case None
    with b2 new_operation_accounts(4) [OF p0(1)] checkPreconditions_ids(2) [OF pre] show ?thesis
      by auto
  qed
  moreover have "\<exists>a. WalletAccountRepository_getById i (the_db w) = Some a \<and> wallet_account_isActive a"
    if "ownerWalletAccount p0 = Some i \<or> beneficiaryWalletAccount p0 = Some i" for i
    using that new_operation_accounts(1,2) [OF p0(1)] o2 b2 ow bw
    by (fastforce simp: current_account_def active_account_def)
  moreover have "event_ok p"
    using ok p by (auto simp: created_list_def split: option.splits if_splits)
  ultimately show ?thesis using p0(2) by (simp add: same_order_def)
qed

lemma accept_enabled:
  assumes "i \<noteq> []" and "OperationRepository_getById i d = Some p" and "isPending p"
    and "event_ok p"
    and "\<And>k. ownerWalletAccount p = Some k \<or> beneficiaryWalletAccount p = Some k \<Longrightarrow>
          \<exists>a. WalletAccountRepository_getById k d = Some a \<and> wallet_account_isActive a"
  shows "\<exists>x. AcceptOperationUseCase_execute i d = Inr x"
proof -
  let ?p = "p\<lparr>op_state := ACCEPTED\<rparr>"
  let ?d = "OperationRepository_update ?p d"
  have "\<exists>x d2. debit_owner ?p ?d = Inr (x, d2) \<and> (\<forall>k a. WalletAccountRepository_getById k d = Some a
      \<and> wallet_account_isActive a \<longrightarrow>
      (\<exists>a'. WalletAccountRepository_getById k d2 = Some a' \<and> wallet_account_isActive a'))"
  proof (cases "ownerWalletAccount p")
    case None
    then show ?thesis by (simp add: debit_owner_def)
  next
    case (Some k)
    with assms(5) obtain a where "WalletAccountRepository_getById k d = Some a"
      "wallet_account_isActive a" by blast
    with Some accounts.key_get [OF this(1)] show ?thesis
      by (auto simp: debit_owner_def load_account_def Let_def accounts.get_update
          wallet_account_isActive_def)
  qed
  then obtain x d2 where d2: "debit_owner ?p ?d = Inr (x, d2)"
    and act: "\<And>k a. WalletAccountRepository_getById k d = Some a \<Longrightarrow> wallet_account_isActive a \<Longrightarrow>
      \<exists>a'. WalletAccountRepository_getById k d2 = Some a' \<and> wallet_account_isActive a'"
    by blast
  have "\<exists>y. credit_beneficiary ?p d2 = Inr y"
  proof (cases "beneficiaryWalletAccount p")
    case None
    then show ?thesis by (simp add: credit_beneficiary_def)
  next
    case (Some k)
    with assms(5) act obtain a' where "WalletAccountRepository_getById k d2 = Some a'"
      "wallet_account_isActive a'" by blast
    with Some show ?thesis by (simp add: credit_beneficiary_def load_account_def Let_def)
  qed
  then obtain y d3 where "credit_beneficiary ?p d2 = Inr (y, d3)" by auto
  moreover have "event_ok ?p" using assms(4) by (simp add: event_ok_def)
  ultimately show ?thesis
    using assms(1,2,3) d2
    by (simp add: AcceptOperationUseCase_execute_def Let_def emitOperationEvent_ok only_if_def)
qed

lemma open_operation_active:
  assumes "WalletAccountRepository_getById k d = Some a" and "wallet_account_isActive a"
  shows "\<exists>a'. WalletAccountRepository_getById k (open_operation p d) = Some a' \<and> wallet_account_isActive a'"
proof (cases "\<exists>i b. ownerWalletAccount p = Some i \<and> WalletAccountRepository_getById i d = Some b")
  case True
  then obtain i b where i: "ownerWalletAccount p = Some i" "WalletAccountRepository_getById i d = Some b"
    by auto
  with assms accounts.key_get [OF i(2)] show ?thesis
    by (auto simp: open_operation_def blockWalletAccountBalance_def accounts.get_update
        wallet_account_isActive_def)
next
  case False
  then have "open_operation p d = operation_insert p d"
    by (auto simp: open_operation_def split: option.splits)
  with assms show ?thesis by simp
qed

lemma opened_active:
  assumes "opened r d d'" and "WalletAccountRepository_getById k d = Some a"
    and "wallet_account_isActive a"
  shows "\<exists>a'. WalletAccountRepository_getById k d' = Some a' \<and> wallet_account_isActive a'"
proof (cases "\<exists>p q. ownerOperation r = Some p \<and> beneficiaryOperation r = Some q \<and> op_id p \<noteq> op_id q")
  case True
  with assms(1) obtain p q p0 q0 where "opened_two p0 q0 p q d d'" by (auto simp: opened_def)
  then have led: "same_ledger (OperationRepository_update q (OperationRepository_update p
          (open_operation q0 (open_operation p0 d)))) d'"
    unfolding opened_two_def by blast
  from open_operation_active [OF assms(2,3)] open_operation_active show ?thesis
    unfolding same_ledger_reads [OF led] by (metis update_reads(2))
next
  case False
  with assms(1) obtain p where "same_ledger (open_operation p d) d'"
    by (cases "ownerOperation r"; cases "beneficiaryOperation r") (auto simp: opened_def)
  with open_operation_active [OF assms(2,3)] show ?thesis by (simp add: same_ledger_reads)
qed

lemma opened_stored:
  assumes "opened r d d'" and "p \<in> set (created_list r)"
  shows "OperationRepository_getById (op_id p) d' = Some p \<and> isPending p"
proof (cases "\<exists>p q. ownerOperation r = Some p \<and> beneficiaryOperation r = Some q \<and> op_id p \<noteq> op_id q")
  case True
  with assms(1) obtain p1 q1 p0 q0 where ne: "op_id p1 \<noteq> op_id q1"
    and r: "ownerOperation r = Some p1" "beneficiaryOperation r = Some q1"
    and two: "opened_two p0 q0 p1 q1 d d'" by (auto simp: opened_def)
  from two have p1: "p1 = p0\<lparr>operationRef := Some (op_id q0)\<rparr>"
    and q1: "q1 = q0\<lparr>operationRef := Some (op_id p0)\<rparr>"
    and f: "OperationRepository_getById (op_id p0) d = None" "OperationRepository_getById (op_id q0) d = None"
    and pend: "isPending p1" "isPending q1"
    and led: "same_ledger (OperationRepository_update q1 (OperationRepository_update p1
          (open_operation q0 (open_operation p0 d)))) d'"
    by (auto simp: opened_two_def)
  have f2: "OperationRepository_getById (op_id q0) (open_operation p0 d) = None"
    using f(2) ne by (simp add: open_operation_reads [OF f(1)] p1 q1)
  show ?thesis
    using assms(2) r ne pend
    by (auto simp: created_list_def same_ledger_reads [OF led] ops.get_update
        open_operation_reads [OF f2] open_operation_reads [OF f(1)] p1 q1)
next
  case False
  with assms obtain q where "p = q" "isPending q" "OperationRepository_getById (op_id q) d = None"
    "same_ledger (open_operation q d) d'"
    by (cases "ownerOperation r"; cases "beneficiaryOperation r") (auto simp: opened_def created_list_def)
  then show ?thesis by (simp add: same_ledger_reads open_operation_reads)
qed

text \<open>
  C23: what is created can be accepted. Right after a successful creation each created operation is
  stored as it was returned, pending, and accepting it succeeds.
\<close>

theorem created_operations_can_be_accepted:
  assumes "CreateOperationUseCase_execute m cfg ids tag oi bi w = (Inr r, w')"
    and "walletAccounts_wf (the_db w)"
  shows "\<forall>p \<in> set (created_list r). OperationRepository_getById (op_id p) (the_db w') = Some p
    \<and> (\<exists>x. AcceptOperationUseCase_execute (op_id p) (the_db w') = Inr x)"
proof
  fix p assume p: "p \<in> set (created_list r)"
  note eff = CreateOperationUseCase_effect [OF assms]
  from opened_stored [OF eff p] created_accounts [OF assms p] opened_active [OF eff]
  show "OperationRepository_getById (op_id p) (the_db w') = Some p
    \<and> (\<exists>x. AcceptOperationUseCase_execute (op_id p) (the_db w') = Inr x)"
    by (blast intro: accept_enabled)
qed

theorem created_operations_can_be_accepted_witness:
  "\<exists>x. AcceptOperationUseCase_execute ''op1'' opened_db = Inr x"
proof -
  have "walletAccounts_wf (the_db sample_world)" using sample_keys by simp
  from created_operations_can_be_accepted [OF sample_create this] show ?thesis
    by (simp add: created_list_def sample_result_def opened_operation_def sample_operation_def
        opened_world_def)
qed

section \<open>Announced movements\<close>

text \<open>
  C26: whether a creation returns or throws, at whatever point, every movement it announced in redis
  has been given its time to live: afterwards each announced movement either expires or was there
  before.
\<close>

theorem announcements_expire:
  assumes "pendingWalletAccountTransactionTTL cfg \<noteq> 0" and "the_fields w = init_fields"
    and "CreateOperationUseCase_execute m cfg ids tag oi bi w = (res, w')"
  shows "\<forall>x \<in> set (pendingTransactions (the_redis w')).
     expiring x \<or> x \<in> set (pendingTransactions (the_redis w))"
proof -
  have "all_expiring (pendingTransactions (the_redis w)) w'"
    by (rule valid_use [OF CreateOperationUseCase_expires [OF assms(1)] _ assms(3)])
      (simp add: assms(2))
  then show ?thesis by (simp add: all_expiring_def)
qed

text \<open>An owner without the funds: the creation throws after announcing its movement.\<close>

lemma sample_unfunded:
  "CreateOperationUseCase_execute sample_moment sample_config sample_ids ''WITHDRAW''
     (Some (payer\<lparr>p_rawValue := 95000\<rparr>)) None sample_world =
   (Inl (NotEnoughFundsException 10 95000),
    sample_world\<lparr>the_redis := sample_redis\<lparr>pendingTransactions := [announced 10 (-95000)]\<rparr>,
      the_fields := init_fields\<lparr>pendingOwnerTransaction := Some (announced 10 (-95000))\<rparr>\<rparr>)"
  by code_simp

theorem announcements_expire_witness: "expiring (announced 10 (-95000))"
proof -
  have "pendingWalletAccountTransactionTTL sample_config \<noteq> 0" by (simp add: sample_config_def)
  moreover have "the_fields sample_world = init_fields" by (simp add: sample_world_def)
  ultimately show ?thesis
    using announcements_expire [OF _ _ sample_unfunded]
    by (simp add: sample_world_def sample_redis_def)
qed

end
