(* ===== verification/Limit_Tracker.thy ===== *)
theory Limit_Tracker
  imports Accept_Revert Sample_Requests
begin

text \<open>
  What gives used limits back: \<open>HandleRevertedOperationEventUseCase\<close> with its controller and
  observer (apps/operations/src/.../user_limit_tracker/handle_reverted_operation_event.*), which
  reacts to a reverted operation, and \<open>SyncUpdateUserLimitTrackerByIntervalUseCase\<close>
  (apps/operations/src/application/usecases/user_limit_tracker/
  sync_update_user_limit_tracker_by_interval.usecase.ts), the cron that ages interval limits. The
  observer swallows exceptions and the cron runs outside a transaction, so what was written before
  an exception stays written: both are steps on the database.
\<close>

type_synonym 'a db_step = "(db, exn, 'a) step"

section \<open>The reverted event\<close>

text \<open>
  The part of an operation the handler works on, as its controller builds it from the event. The
  tracker is an object (\<open>Some\<close>) that may lack its id.
\<close>

record reverted_item =
  ri_id :: string
  ri_value :: int
  ri_createdAt :: "int option"
  ri_tags :: "operation_analysis_tag list option"
  ri_tracker :: "string option option"

text \<open>Looking up \<open>undefined\<close> makes Sequelize throw.\<close>

definition getUserLimitTrackerWithUserLimit ::
    "reverted_item \<Rightarrow> (user_limit_tracker \<times> user_limit) db_step" where
  "getUserLimitTrackerWithUserLimit p =
    (case ri_tracker p of
       Some (Some i) \<Rightarrow>
         bindS (readS (\<lambda>d. orThrow (UserLimitTrackerRepository_getById i d)
                  (UserLimitTrackerNotFoundException i))) (\<lambda>t.
         bindS (readS (\<lambda>d. orThrow (UserLimitRepository_getById (ult_userLimit t) d)
                  (UserLimitNotFoundException (ult_userLimit t)))) (\<lambda>ul.
         returnS (t, ul)))
     | _ \<Rightarrow> throwS TypeError)"

text \<open>\<open>used -= value; if (used < 0) used = 0\<close>\<close>

definition give_back :: "int \<Rightarrow> int \<Rightarrow> int" where
  "give_back v used = (if used - v < 0 then 0 else used - v)"

definition tags_of :: "reverted_item \<Rightarrow> operation_analysis_tag list" where
  "tags_of p = (case ri_tags p of None \<Rightarrow> [] | Some ts \<Rightarrow> ts)"

definition analysisTagExistsInOperation :: "operation_analysis_tag \<Rightarrow> reverted_item \<Rightarrow> bool" where
  "analysisTagExistsInOperation tag p = List.member (tags_of p) tag"

definition revertUserLimitTrackerByIntervalPeriod ::
    "reverted_item \<Rightarrow> user_limit_tracker \<Rightarrow> user_limit_tracker" where
  "revertUserLimitTrackerByIntervalPeriod p t =
    (let v = ri_value p;
         t1 = (if analysisTagExistsInOperation DAILY_INTERVAL_LIMIT_INCLUDED p
               then t\<lparr>usedDailyLimit := give_back v (usedDailyLimit t)\<rparr> else t);
         t2 = (if analysisTagExistsInOperation MONTHLY_INTERVAL_LIMIT_INCLUDED p
               then t1\<lparr>usedMonthlyLimit := give_back v (usedMonthlyLimit t1)\<rparr> else t1)
     in if analysisTagExistsInOperation ANNUAL_INTERVAL_LIMIT_INCLUDED p
        then t2\<lparr>usedAnnualLimit := give_back v (usedAnnualLimit t2)\<rparr> else t2)"

text \<open>A missing creation time is read as the current time.\<close>

definition created_of :: "moment \<Rightarrow> reverted_item \<Rightarrow> int" where
  "created_of m p = (case ri_createdAt p of None \<Rightarrow> m_now m | Some c \<Rightarrow> c)"

definition revertUserLimitTrackerByDatePeriod ::
    "moment \<Rightarrow> reverted_item \<Rightarrow> user_limit_tracker \<Rightarrow> user_limit_tracker" where
  "revertUserLimitTrackerByDatePeriod m p t =
    (let v = ri_value p; c = created_of m p;
         t1 = (if usedDailyLimit t > 0 \<and> m_startOfDay m (m_now m) \<le> c
               then t\<lparr>usedDailyLimit := give_back v (usedDailyLimit t)\<rparr> else t);
         t2 = (if usedMonthlyLimit t1 > 0 \<and> m_startOfMonth m (m_now m) \<le> c
               then t1\<lparr>usedMonthlyLimit := give_back v (usedMonthlyLimit t1)\<rparr> else t1)
     in if usedAnnualLimit t2 > 0 \<and> m_startOfYear m (m_now m) \<le> c
        then t2\<lparr>usedAnnualLimit := give_back v (usedAnnualLimit t2)\<rparr> else t2)"

definition released_tracker ::
    "moment \<Rightarrow> reverted_item \<Rightarrow> user_limit_tracker \<times> user_limit \<Rightarrow> user_limit_tracker" where
  "released_tracker m p tu =
    (let (t, ul) = tu;
         t1 = (if analysisTagExistsInOperation DAILY_INTERVAL_LIMIT_INCLUDED p
                \<or> analysisTagExistsInOperation MONTHLY_INTERVAL_LIMIT_INCLUDED p
                \<or> analysisTagExistsInOperation ANNUAL_INTERVAL_LIMIT_INCLUDED p
               then revertUserLimitTrackerByIntervalPeriod p t else t);
         t2 = (if analysisTagExistsInOperation DATE_LIMIT_INCLUDED p
               then revertUserLimitTrackerByDatePeriod m p t1 else t1)
     in if isInNighttimeInterval m ul (created_of m p) \<and> isInNighttimeInterval m ul (m_now m)
        then t2\<lparr>usedNightlyLimit := give_back (ri_value p) (usedNightlyLimit t2)\<rparr> else t2)"

definition updateOperationAndUserLimitTracker ::
    "moment \<Rightarrow> reverted_item \<Rightarrow> user_limit_tracker \<times> user_limit \<Rightarrow> unit db_step" where
  "updateOperationAndUserLimitTracker m p tu =
     bindS (modifyS (OperationRepository_updateAnalysisTags (ri_id p) [])) (\<lambda>_.
     modifyS (UserLimitTrackerRepository_update (m_now m) (released_tracker m p tu)))"

definition release_item :: "moment \<Rightarrow> reverted_item \<Rightarrow> unit db_step" where
  "release_item m p =
     bindS (getUserLimitTrackerWithUserLimit p) (updateOperationAndUserLimitTracker m p)"

text \<open>
  Every early return ends the use case: an owner without a tracker or tags keeps the beneficiary
  from being handled.
\<close>

definition handle_beneficiary :: "moment \<Rightarrow> reverted_item option \<Rightarrow> unit db_step" where
  "handle_beneficiary m beneficiaryOp =
    (case beneficiaryOp of
       None \<Rightarrow> returnS ()
     | Some q \<Rightarrow>
         if ri_tracker q = None then returnS ()
         else (case ri_tags q of
                 None \<Rightarrow> throwS TypeError
               | Some ts \<Rightarrow> if ts = [] then returnS () else release_item m q))"

definition HandleRevertedOperationEventUseCase_execute ::
    "moment \<Rightarrow> reverted_item option \<Rightarrow> reverted_item option \<Rightarrow> unit db_step" where
  "HandleRevertedOperationEventUseCase_execute m ownerOp beneficiaryOp =
    (if ownerOp = None \<and> beneficiaryOp = None
     then throwS (MissingDataException [''At least one operation''])
     else case ownerOp of
            None \<Rightarrow> handle_beneficiary m beneficiaryOp
          | Some p \<Rightarrow>
              if ri_tracker p = None then returnS ()
              else if tags_of p = [] then returnS ()
              else bindS (release_item m p) (\<lambda>_. handle_beneficiary m beneficiaryOp))"

text \<open>
  The controller reads the event. It means to give each operation its tracker, but writes the
  beneficiary's tracker to the owner's operation.
\<close>

definition item_of :: "operation \<Rightarrow> reverted_item" where
  "item_of p = \<lparr> ri_id = op_id p, ri_value = op_value p, ri_createdAt = Some (createdAt p),
     ri_tags = Some (analysisTags p), ri_tracker = None \<rparr>"

definition HandleRevertedOperationEventController_execute ::
    "moment \<Rightarrow> operation option \<Rightarrow> operation option \<Rightarrow> unit db_step" where
  "HandleRevertedOperationEventController_execute m ownerOp beneficiaryOp =
    (let ownerItem = map_option (\<lambda>p. (item_of p)\<lparr>ri_tracker := Some (op_userLimitTracker p)\<rparr>) ownerOp
     in case beneficiaryOp of
          None \<Rightarrow> HandleRevertedOperationEventUseCase_execute m ownerItem None
        | Some q \<Rightarrow>
            (case ownerItem of
               None \<Rightarrow> throwS TypeError
             | Some p \<Rightarrow> HandleRevertedOperationEventUseCase_execute m
                           (Some (p\<lparr>ri_tracker := Some (op_userLimitTracker q)\<rparr>)) (Some (item_of q))))"

text \<open>The observer logs an exception and goes on.\<close>

definition executeRevertedOperation :: "moment \<Rightarrow> event \<Rightarrow> db \<Rightarrow> db" where
  "executeRevertedOperation m e d =
    (case e of
       RevertedOperation ownerOp beneficiaryOp \<Rightarrow>
         snd (HandleRevertedOperationEventController_execute m ownerOp beneficiaryOp d)
     | _ \<Rightarrow> d)"

section \<open>Ageing interval limits\<close>

definition paginationWhere :: "nat \<Rightarrow> nat \<Rightarrow> 'a list \<Rightarrow> 'a list" where
  "paginationWhere page pageSize rows = take pageSize (drop ((page - 1) * pageSize) rows)"

text \<open>\<open>total && Math.ceil(total / pageSize)\<close>\<close>

definition paginationTotal :: "nat \<Rightarrow> nat \<Rightarrow> nat" where
  "paginationTotal pageSize count = (count + pageSize - 1) div pageSize"

definition due :: "operation_analysis_tag \<Rightarrow> int \<Rightarrow> operation \<Rightarrow> bool" where
  "due tag date p \<longleftrightarrow> List.member (analysisTags p) tag \<and> createdAt p < date"

definition due_operations :: "operation_analysis_tag \<Rightarrow> int \<Rightarrow> db \<Rightarrow> operation list" where
  "due_operations tag date d = sort_key createdAt (filter (due tag date) (operations d))"

definition OperationRepository_getAllByPaginationAndAnalysisTagBeforeDate ::
    "nat \<Rightarrow> nat \<Rightarrow> operation_analysis_tag \<Rightarrow> int \<Rightarrow> db \<Rightarrow> operation list \<times> nat" where
  "OperationRepository_getAllByPaginationAndAnalysisTagBeforeDate page pageSize tag date d =
    (let rows = due_operations tag date d
     in (paginationWhere page pageSize rows, paginationTotal pageSize (length rows)))"

definition removeAnalysisTagFromOperation :: "operation_analysis_tag \<Rightarrow> operation \<Rightarrow> operation" where
  "removeAnalysisTagFromOperation tag p = p\<lparr>analysisTags := remove1 tag (analysisTags p)\<rparr>"

definition age_tracker ::
    "operation_analysis_tag \<Rightarrow> operation \<Rightarrow> user_limit_tracker \<Rightarrow> user_limit_tracker" where
  "age_tracker tag p t =
    (case tag of
       DAILY_INTERVAL_LIMIT_INCLUDED \<Rightarrow> t\<lparr>usedDailyLimit := give_back (op_value p) (usedDailyLimit t)\<rparr>
     | MONTHLY_INTERVAL_LIMIT_INCLUDED \<Rightarrow>
         t\<lparr>usedMonthlyLimit := give_back (op_value p) (usedMonthlyLimit t)\<rparr>
     | ANNUAL_INTERVAL_LIMIT_INCLUDED \<Rightarrow>
         t\<lparr>usedAnnualLimit := give_back (op_value p) (usedAnnualLimit t)\<rparr>
     | DATE_LIMIT_INCLUDED \<Rightarrow> t)"

text \<open>An operation without a tracker id stops the run, a tracker that is gone skips the operation.\<close>

definition sync_operation :: "int \<Rightarrow> operation_analysis_tag \<Rightarrow> operation \<Rightarrow> unit db_step" where
  "sync_operation now tag p =
    (case op_userLimitTracker p of
       None \<Rightarrow> throwS (UserLimitTrackerNotFoundException [])
     | Some i \<Rightarrow>
         bindS (readS (\<lambda>d. Inr (UserLimitTrackerRepository_getById i d))) (\<lambda>found.
         case found of
           None \<Rightarrow> returnS ()
         | Some t \<Rightarrow>
             bindS (modifyS (UserLimitTrackerRepository_update now (age_tracker tag p t))) (\<lambda>_.
             modifyS (OperationRepository_update (removeAnalysisTagFromOperation tag p)))))"

lemma sync_operation_length:
  "sync_operation now tag p d = (r, d') \<Longrightarrow> length (operations d') = length (operations d)"
  by (auto simp: sync_operation_def bindS_def readS_def returnS_def throwS_def modifyS_def
      OperationRepository_update_def tbl_update_def UserLimitTrackerRepository_update_def
      split: option.splits)

lemma sync_page_length:
  assumes "foldS (sync_operation now tag) ps d = (r, d')"
  shows "length (operations d') = length (operations d)"
  by (rule foldS_keeps [OF assms, where P = "\<lambda>x. length (operations x) = length (operations d)"])
    (auto dest: sync_operation_length)

lemma paginationTotal_le: "paginationTotal n k \<le> k"
proof (cases n)
  case (Suc m)
  have "(k + m) div Suc m < Suc k"
    by (simp add: div_less_iff_less_mult)
  with Suc show ?thesis by (simp add: paginationTotal_def)
qed (simp add: paginationTotal_def)

lemma sync_page_decreases:
  assumes "foldS (sync_operation now tag) ps d = (r, d')"
    and "page < paginationTotal pageSize (length (due_operations tag date d))"
  shows "length (operations d') - Suc page < length (operations d) - page"
proof -
  have "length (due_operations tag date d) \<le> length (operations d)"
    by (simp add: due_operations_def)
  with assms(2) paginationTotal_le [of pageSize "length (due_operations tag date d)"]
    sync_page_length [OF assms(1)] show ?thesis by linarith
qed

function sync_pages ::
    "nat \<Rightarrow> int \<Rightarrow> operation_analysis_tag \<Rightarrow> int \<Rightarrow> nat \<Rightarrow> unit db_step" where
  "sync_pages pageSize now tag date page d =
    (case OperationRepository_getAllByPaginationAndAnalysisTagBeforeDate page pageSize tag date d of
       (ps, pageTotal) \<Rightarrow>
         if ps = [] then (Inr (), d)
         else (case foldS (sync_operation now tag) ps d of
                 (Inl e, d') \<Rightarrow> (Inl e, d')
               | (Inr _, d') \<Rightarrow>
                   if page < pageTotal then sync_pages pageSize now tag date (page + 1) d'
                   else (Inr (), d')))"
  by pat_completeness auto

termination
  by (relation "measure (\<lambda>(pageSize, now, tag, date, page, d). length (operations d) - page)")
    (auto simp: OperationRepository_getAllByPaginationAndAnalysisTagBeforeDate_def Let_def
      intro: sync_page_decreases [OF sym])

declare sync_pages.simps [simp del]

text \<open>The three rules of the use case, each from page one with pages of 100.\<close>

definition OPERATION_ANALYSIS_TAGS_RULES :: "moment \<Rightarrow> (operation_analysis_tag \<times> int) list" where
  "OPERATION_ANALYSIS_TAGS_RULES m =
    [(DAILY_INTERVAL_LIMIT_INCLUDED, m_addDays m (-1) (m_now m)),
     (MONTHLY_INTERVAL_LIMIT_INCLUDED, m_addMonths m (-1) (m_now m)),
     (ANNUAL_INTERVAL_LIMIT_INCLUDED, m_addYears m (-1) (m_now m))]"

definition SyncUpdateUserLimitTrackerByIntervalUseCase_execute :: "moment \<Rightarrow> unit db_step" where
  "SyncUpdateUserLimitTrackerByIntervalUseCase_execute m =
     foldS (\<lambda>(tag, date). sync_pages 100 (m_now m) tag date 1) (OPERATION_ANALYSIS_TAGS_RULES m)"

section \<open>Releasing is the inverse of using\<close>

lemma give_back_nonneg: "0 \<le> give_back v u"
  by (simp add: give_back_def)

lemma give_back_used: "0 \<le> u \<Longrightarrow> give_back v (u + v) = u"
  by (simp add: give_back_def)

definition tracker_nonneg :: "user_limit_tracker \<Rightarrow> bool" where
  "tracker_nonneg t \<longleftrightarrow> 0 \<le> usedDailyLimit t \<and> 0 \<le> usedMonthlyLimit t
     \<and> 0 \<le> usedAnnualLimit t \<and> 0 \<le> usedNightlyLimit t"

definition same_used :: "user_limit_tracker \<Rightarrow> user_limit_tracker \<Rightarrow> bool" where
  "same_used t t' \<longleftrightarrow> usedDailyLimit t' = usedDailyLimit t \<and> usedMonthlyLimit t' = usedMonthlyLimit t
     \<and> usedAnnualLimit t' = usedAnnualLimit t \<and> usedNightlyLimit t' = usedNightlyLimit t"

lemma date_period_used:
  "usedDailyLimit (revertUserLimitTrackerByDatePeriod m p t) =
     (if usedDailyLimit t > 0 \<and> m_startOfDay m (m_now m) \<le> created_of m p
      then give_back (ri_value p) (usedDailyLimit t) else usedDailyLimit t)"
  "usedMonthlyLimit (revertUserLimitTrackerByDatePeriod m p t) =
     (if usedMonthlyLimit t > 0 \<and> m_startOfMonth m (m_now m) \<le> created_of m p
      then give_back (ri_value p) (usedMonthlyLimit t) else usedMonthlyLimit t)"
  "usedAnnualLimit (revertUserLimitTrackerByDatePeriod m p t) =
     (if usedAnnualLimit t > 0 \<and> m_startOfYear m (m_now m) \<le> created_of m p
      then give_back (ri_value p) (usedAnnualLimit t) else usedAnnualLimit t)"
  "usedNightlyLimit (revertUserLimitTrackerByDatePeriod m p t) = usedNightlyLimit t"
  by (simp_all add: revertUserLimitTrackerByDatePeriod_def Let_def if_distrib [of usedDailyLimit]
      if_distrib [of usedMonthlyLimit] if_distrib [of usedAnnualLimit]
      if_distrib [of usedNightlyLimit] cong: if_cong)

lemma interval_period_used:
  "usedDailyLimit (revertUserLimitTrackerByIntervalPeriod p t) =
     (if analysisTagExistsInOperation DAILY_INTERVAL_LIMIT_INCLUDED p
      then give_back (ri_value p) (usedDailyLimit t) else usedDailyLimit t)"
  "usedMonthlyLimit (revertUserLimitTrackerByIntervalPeriod p t) =
     (if analysisTagExistsInOperation MONTHLY_INTERVAL_LIMIT_INCLUDED p
      then give_back (ri_value p) (usedMonthlyLimit t) else usedMonthlyLimit t)"
  "usedAnnualLimit (revertUserLimitTrackerByIntervalPeriod p t) =
     (if analysisTagExistsInOperation ANNUAL_INTERVAL_LIMIT_INCLUDED p
      then give_back (ri_value p) (usedAnnualLimit t) else usedAnnualLimit t)"
  "usedNightlyLimit (revertUserLimitTrackerByIntervalPeriod p t) = usedNightlyLimit t"
  by (simp_all add: revertUserLimitTrackerByIntervalPeriod_def Let_def if_distrib [of usedDailyLimit]
      if_distrib [of usedMonthlyLimit] if_distrib [of usedAnnualLimit]
      if_distrib [of usedNightlyLimit] cong: if_cong)

definition nightly_released :: "moment \<Rightarrow> user_limit \<Rightarrow> reverted_item \<Rightarrow> int \<Rightarrow> int" where
  "nightly_released m ul p used =
     (if isInNighttimeInterval m ul (created_of m p) \<and> isInNighttimeInterval m ul (m_now m)
      then give_back (ri_value p) used else used)"

lemma released_used:
  fixes m p t ul
  defines "t1 \<equiv> (if analysisTagExistsInOperation DAILY_INTERVAL_LIMIT_INCLUDED p
                \<or> analysisTagExistsInOperation MONTHLY_INTERVAL_LIMIT_INCLUDED p
                \<or> analysisTagExistsInOperation ANNUAL_INTERVAL_LIMIT_INCLUDED p
               then revertUserLimitTrackerByIntervalPeriod p t else t)"
  defines "t2 \<equiv> (if analysisTagExistsInOperation DATE_LIMIT_INCLUDED p
               then revertUserLimitTrackerByDatePeriod m p t1 else t1)"
  shows "usedDailyLimit (released_tracker m p (t, ul)) = usedDailyLimit t2"
    and "usedMonthlyLimit (released_tracker m p (t, ul)) = usedMonthlyLimit t2"
    and "usedAnnualLimit (released_tracker m p (t, ul)) = usedAnnualLimit t2"
    and "usedNightlyLimit (released_tracker m p (t, ul)) = nightly_released m ul p (usedNightlyLimit t)"
  unfolding t2_def t1_def
  by (simp_all add: released_tracker_def Let_def nightly_released_def date_period_used(4)
      interval_period_used(4))

lemma tags_after_use:
  assumes "updateUserLimitTrackerAndOperation m (t, ul) p = (t', p')"
  shows "analysisTags p' = (if ult_periodStart t = PS_DATE then [DATE_LIMIT_INCLUDED]
      else [DAILY_INTERVAL_LIMIT_INCLUDED, MONTHLY_INTERVAL_LIMIT_INCLUDED, ANNUAL_INTERVAL_LIMIT_INCLUDED])"
    and "op_value p' = op_value p" and "createdAt p' = createdAt p"
proof -
  let ?tags = "if ult_periodStart t = PS_DATE then [DATE_LIMIT_INCLUDED]
      else [DAILY_INTERVAL_LIMIT_INCLUDED, MONTHLY_INTERVAL_LIMIT_INCLUDED, ANNUAL_INTERVAL_LIMIT_INCLUDED]"
  have "p' = p\<lparr>analysisTags := ?tags, op_userLimitTracker := Some (ult_id t)\<rparr>"
    using assms
    by (cases "ult_periodStart t")
      (simp_all add: updateUserLimitTrackerAndOperation_def Let_def if_distrib [of ult_periodStart]
        if_distrib [of ult_id] cong: if_cong)
  then show "analysisTags p' = ?tags" "op_value p' = op_value p" "createdAt p' = createdAt p"
    by simp_all
qed

text \<open>
  C38: reverting gives back what the operation used. An operation of positive value recorded in a
  tracker and released later, in the same day, month and year and in the same part of the day, leaves
  the used amounts as they were, for calendar and for interval trackers alike.
\<close>

theorem release_undoes_use:
  assumes "updateUserLimitTrackerAndOperation m (t, ul) p = (t', p')"
    and "tracker_nonneg t" and "0 < op_value p" and "createdAt p = m_now m"
    and "m_startOfDay later (m_now later) \<le> m_now m"
    and "m_startOfMonth later (m_now later) \<le> m_now m"
    and "m_startOfYear later (m_now later) \<le> m_now m"
    and "isInNighttimeInterval later ul (m_now m) \<and> isInNighttimeInterval later ul (m_now later)
       \<longleftrightarrow> isInNighttimeInterval m ul (m_now m)"
  shows "same_used t (released_tracker later (item_of p') (t', ul))"
proof -
  note used = update_tracker_used(1,2,3,4) [OF assms(1)]
  note tags = tags_after_use [OF assms(1)]
  have item: "ri_value (item_of p') = op_value p" "created_of later (item_of p') = m_now m"
    "tags_of (item_of p') = analysisTags p'"
    by (simp_all add: item_of_def tags_of_def created_of_def tags assms(4))
  have nn: "0 \<le> usedDailyLimit t" "0 \<le> usedMonthlyLimit t" "0 \<le> usedAnnualLimit t"
    "0 \<le> usedNightlyLimit t"
    using assms(2) by (simp_all add: tracker_nonneg_def)
  have "usedNightlyLimit (released_tracker later (item_of p') (t', ul)) = usedNightlyLimit t"
    using assms(8) nn(4) by (auto simp: released_used(4) nightly_released_def item used give_back_used)
  moreover have "usedDailyLimit (released_tracker later (item_of p') (t', ul)) = usedDailyLimit t
    \<and> usedMonthlyLimit (released_tracker later (item_of p') (t', ul)) = usedMonthlyLimit t
    \<and> usedAnnualLimit (released_tracker later (item_of p') (t', ul)) = usedAnnualLimit t"
    using assms(3,5,6,7) nn
    by (cases "ult_periodStart t")
      (simp_all add: released_used(1,2,3) date_period_used interval_period_used
        analysisTagExistsInOperation_def item tags used give_back_used)
  ultimately show ?thesis by (simp add: same_used_def)
qed

theorem release_undoes_use_witness:
  "same_used tracker_ann (released_tracker (brt_moment (t_2330 + 600000)) (item_of opened_operation)
     (tracker_ann\<lparr>usedDailyLimit := 4000, usedMonthlyLimit := 8000, usedAnnualLimit := 12000,
        usedNightlyLimit := 3000\<rparr>, ul_ann))"
proof -
  have 1: "updateUserLimitTrackerAndOperation sample_moment (tracker_ann, ul_ann) sample_operation =
      (tracker_ann\<lparr>usedDailyLimit := 4000, usedMonthlyLimit := 8000, usedAnnualLimit := 12000,
        usedNightlyLimit := 3000\<rparr>, opened_operation)"
    by code_simp
  have 2: "tracker_nonneg tracker_ann" "0 < op_value sample_operation"
    "createdAt sample_operation = m_now sample_moment"
    by code_simp+
  have 3: "m_startOfDay (brt_moment (t_2330 + 600000)) (m_now (brt_moment (t_2330 + 600000))) \<le> m_now sample_moment"
    "m_startOfMonth (brt_moment (t_2330 + 600000)) (m_now (brt_moment (t_2330 + 600000))) \<le> m_now sample_moment"
    "m_startOfYear (brt_moment (t_2330 + 600000)) (m_now (brt_moment (t_2330 + 600000))) \<le> m_now sample_moment"
    by code_simp+
  have 4: "isInNighttimeInterval (brt_moment (t_2330 + 600000)) ul_ann (m_now sample_moment)
      \<and> isInNighttimeInterval (brt_moment (t_2330 + 600000)) ul_ann (m_now (brt_moment (t_2330 + 600000)))
      \<longleftrightarrow> isInNighttimeInterval sample_moment ul_ann (m_now sample_moment)"
    by code_simp
  show ?thesis by (rule release_undoes_use [OF 1 2 3 4])
qed

section \<open>What the handler does with an event\<close>

lemma release_item_run:
  assumes "ri_tracker p = Some (Some i)" and "UserLimitTrackerRepository_getById i d = Some t"
    and "UserLimitRepository_getById (ult_userLimit t) d = Some ul"
  shows "release_item m p d = (Inr (), UserLimitTrackerRepository_update (m_now m)
     (released_tracker m p (t, ul)) (OperationRepository_updateAnalysisTags (ri_id p) [] d))"
  using assms
  by (simp add: release_item_def getUserLimitTrackerWithUserLimit_def bindS_def readS_def
      returnS_def updateOperationAndUserLimitTracker_def modifyS_def)

text \<open>The tracker named by the item has no part in the amounts.\<close>

lemma item_tracker [simp]:
  "tags_of (p\<lparr>ri_tracker := x\<rparr>) = tags_of p" "created_of m (p\<lparr>ri_tracker := x\<rparr>) = created_of m p"
  by (simp_all add: tags_of_def created_of_def)

lemma item_tracker_tags [simp]:
  "analysisTagExistsInOperation tag (p\<lparr>ri_tracker := x\<rparr>) = analysisTagExistsInOperation tag p"
  by (simp add: analysisTagExistsInOperation_def)

lemma item_tracker_value: "ri_value (p\<lparr>ri_tracker := x\<rparr>) = ri_value p"
  by simp

lemma item_tracker_interval [simp]:
  "revertUserLimitTrackerByIntervalPeriod (p\<lparr>ri_tracker := x\<rparr>) t =
     revertUserLimitTrackerByIntervalPeriod p t"
  by (simp only: revertUserLimitTrackerByIntervalPeriod_def item_tracker_tags item_tracker_value)

lemma item_tracker_date [simp]:
  "revertUserLimitTrackerByDatePeriod m (p\<lparr>ri_tracker := x\<rparr>) t = revertUserLimitTrackerByDatePeriod m p t"
  by (simp only: revertUserLimitTrackerByDatePeriod_def item_tracker item_tracker_value)

lemma item_tracker_release [simp]:
  "released_tracker m (p\<lparr>ri_tracker := x\<rparr>) tu = released_tracker m p tu"
  by (simp only: released_tracker_def item_tracker_tags item_tracker item_tracker_value
      item_tracker_interval item_tracker_date)

text \<open>
  The event of a reverted operation that has only a beneficiary (a deposit) is never handled:
  the controller assigns the tracker to the owner's operation, which is missing, and fails. The
  amount the operation used of the beneficiary's limit is not given back.
\<close>

theorem beneficiary_only_reversal_is_lost:
  "executeRevertedOperation m (RevertedOperation None (Some q)) d = d"
  by (simp add: executeRevertedOperation_def HandleRevertedOperationEventController_execute_def
      Let_def throwS_def)

text \<open>
  C39: the event of a reverted operation with an owner and a beneficiary is handled for the owner:
  its tags are cleared and the tracker it names, when that and its limit exist, is released by the
  operation's value exactly once; the beneficiary's copy of the operation, left without a tracker,
  is ignored.
\<close>

theorem shared_reversal_releases_once:
  assumes "op_userLimitTracker p = Some i" and "analysisTags p \<noteq> []"
    and "UserLimitTrackerRepository_getById i d = Some t"
    and "UserLimitRepository_getById (ult_userLimit t) d = Some ul"
  shows "executeRevertedOperation m (RevertedOperation (Some p) (Some p)) d =
     UserLimitTrackerRepository_update (m_now m) (released_tracker m (item_of p) (t, ul))
       (OperationRepository_updateAnalysisTags (op_id p) [] d)"
proof -
  let ?p = "(item_of p)\<lparr>ri_tracker := Some (Some i)\<rparr>"
  have "release_item m ?p d = (Inr (), UserLimitTrackerRepository_update (m_now m)
     (released_tracker m (item_of p) (t, ul)) (OperationRepository_updateAnalysisTags (op_id p) [] d))"
    using release_item_run [of ?p i d t ul m] assms by (simp, simp add: item_of_def)
  with assms show ?thesis
    by (simp add: executeRevertedOperation_def HandleRevertedOperationEventController_execute_def
        HandleRevertedOperationEventUseCase_execute_def Let_def bindS_def handle_beneficiary_def
        item_of_def tags_of_def returnS_def)
qed

theorem shared_reversal_releases_once_witness:
  "userLimitTrackers (executeRevertedOperation sample_moment
      (RevertedOperation (Some reverted_operation) (Some reverted_operation)) reverted_db) =
    [tracker_ann\<lparr>ult_updatedAt := t_2330\<rparr>]"
proof -
  have 1: "op_userLimitTracker reverted_operation = Some ''t1''" "analysisTags reverted_operation \<noteq> []"
    "UserLimitTrackerRepository_getById ''t1'' reverted_db = Some tracker_after"
    "UserLimitRepository_getById (ult_userLimit tracker_after) reverted_db = Some ul_ann"
    by code_simp+
  have "userLimitTrackers (UserLimitTrackerRepository_update (m_now sample_moment)
      (released_tracker sample_moment (item_of reverted_operation) (tracker_after, ul_ann))
      (OperationRepository_updateAnalysisTags (op_id reverted_operation) [] reverted_db)) =
    [tracker_ann\<lparr>ult_updatedAt := t_2330\<rparr>]"
    by code_simp
  with shared_reversal_releases_once [OF 1, of sample_moment] show ?thesis by simp
qed

end
