(* ===== verification/Limit_Ageing.thy ===== *)
theory Limit_Ageing
  imports Limit_Tracker
begin

text \<open>
  What a run of \<open>SyncUpdateUserLimitTrackerByIntervalUseCase\<close> does to the operations that are due:
  with one page of them it ages them all; with two pages it skips the second, because removing the
  tag moves the later operations onto the page that was just read.
\<close>

section \<open>One page\<close>

definition trackers_exist :: "db \<Rightarrow> operation list \<Rightarrow> bool" where
  "trackers_exist d ps \<longleftrightarrow> (\<forall>p \<in> set ps. \<exists>i t. op_userLimitTracker p = Some i
     \<and> UserLimitTrackerRepository_getById i d = Some t)"

lemma sync_operation_run:
  assumes "op_userLimitTracker p = Some i" and "UserLimitTrackerRepository_getById i d = Some t"
  shows "sync_operation now tag p d = (Inr (), OperationRepository_update
     (removeAnalysisTagFromOperation tag p) (UserLimitTrackerRepository_update now (age_tracker tag p t) d))"
  using assms by (simp add: sync_operation_def bindS_def readS_def modifyS_def)

lemma tracker_update_exists:
  "UserLimitTrackerRepository_getById i d = Some t \<Longrightarrow>
     \<exists>t'. UserLimitTrackerRepository_getById i (UserLimitTrackerRepository_update now u d) = Some t'"
  by (auto simp: UserLimitTrackerRepository_getById_def UserLimitTrackerRepository_update_def
      tbl_find_update)

lemma tracker_operation_frame [simp]:
  "UserLimitTrackerRepository_getById i (OperationRepository_update p d) =
     UserLimitTrackerRepository_getById i d"
  "operations (UserLimitTrackerRepository_update now u d) = operations d"
  by (simp_all add: UserLimitTrackerRepository_getById_def UserLimitTrackerRepository_update_def)

lemma trackers_exist_step:
  "trackers_exist d ps \<Longrightarrow> trackers_exist (OperationRepository_update q
     (UserLimitTrackerRepository_update now u d)) ps"
  unfolding trackers_exist_def tracker_operation_frame by (meson tracker_update_exists)

text \<open>The operations of the page lose the tag, all others stay.\<close>

definition untag :: "operation_analysis_tag \<Rightarrow> string set \<Rightarrow> operation \<Rightarrow> operation" where
  "untag tag ids p = (if op_id p \<in> ids then removeAnalysisTagFromOperation tag p else p)"

lemma untag_id [simp]: "op_id (untag tag ids p) = op_id p"
  by (simp add: untag_def removeAnalysisTagFromOperation_def)

lemma update_untag:
  assumes "operations_wf d" and "p \<in> set (operations d)"
  shows "operations (OperationRepository_update (removeAnalysisTagFromOperation tag p) d) =
     map (untag tag {op_id p}) (operations d)"
proof -
  have "x = p" if "x \<in> set (operations d)" "op_id x = op_id p" for x
    using that assms tbl_find_member [of op_id "operations d"]
    by (metis operations_wf_def option.inject)
  then show ?thesis
    by (auto simp: OperationRepository_update_def tbl_update_def untag_def
        removeAnalysisTagFromOperation_def)
qed

lemma sync_page:
  assumes "operations_wf d" and "set ps \<subseteq> set (operations d)" and "distinct (map op_id ps)"
    and "trackers_exist d ps"
  shows "\<exists>d'. foldS (sync_operation now tag) ps d = (Inr (), d')
     \<and> operations d' = map (untag tag (op_id ` set ps)) (operations d)"
  using assms
proof (induction ps arbitrary: d)
  case Nil
  then show ?case by (simp add: returnS_def untag_def)
next
  case (Cons p ps)
  from Cons.prems(4) obtain i t where t: "op_userLimitTracker p = Some i"
    "UserLimitTrackerRepository_getById i d = Some t"
    by (auto simp: trackers_exist_def)
  let ?upd = "UserLimitTrackerRepository_update now (age_tracker tag p t) d"
  let ?d = "OperationRepository_update (removeAnalysisTagFromOperation tag p) ?upd"
  have wf0: "operations_wf ?upd" using Cons.prems(1) unfolding operations_wf_def by simp
  have opsd: "operations ?d = map (untag tag {op_id p}) (operations d)"
    using update_untag [OF wf0, of p tag] Cons.prems(2) by simp
  have "set ps \<subseteq> set (operations ?d)"
  proof
    fix q assume q: "q \<in> set ps"
    then have "op_id q \<noteq> op_id p" using Cons.prems(3) by (metis distinct.simps(2) image_eqI list.simps(9) set_map)
    then have "q = untag tag {op_id p} q" by (simp add: untag_def)
    moreover have "q \<in> set (operations d)" using q Cons.prems(2) by auto
    ultimately show "q \<in> set (operations ?d)" unfolding opsd by (metis image_eqI set_map)
  qed
  moreover have "operations_wf ?d" using wf0 by (rule ops.wf_update)
  moreover have "trackers_exist ?d ps"
    using Cons.prems(4) by (intro trackers_exist_step) (simp add: trackers_exist_def)
  ultimately obtain d' where d': "foldS (sync_operation now tag) ps ?d = (Inr (), d')"
    "operations d' = map (untag tag (op_id ` set ps)) (operations ?d)"
    using Cons.IH [of ?d] Cons.prems(3) by auto
  have "foldS (sync_operation now tag) (p # ps) d = (Inr (), d')"
    using d'(1) sync_operation_run [OF t] by (simp add: bindS_def)
  moreover have "operations d' = map (untag tag (op_id ` set (p # ps))) (operations d)"
  proof -
    have "op_id p \<notin> op_id ` set ps" using Cons.prems(3) by auto
    then show ?thesis
      unfolding d'(2) opsd
      by (auto simp: untag_def removeAnalysisTagFromOperation_def)
  qed
  ultimately show ?case by blast
qed

section \<open>What is still due\<close>

definition tags_distinct :: "db \<Rightarrow> bool" where
  "tags_distinct d \<longleftrightarrow> (\<forall>p \<in> set (operations d). distinct (analysisTags p))"

lemma due_untag:
  assumes "distinct (analysisTags p)"
  shows "due tag date (untag tag ids p) \<longleftrightarrow> due tag date p \<and> op_id p \<notin> ids"
  using assms by (auto simp: due_def untag_def removeAnalysisTagFromOperation_def)

lemma filter_untag:
  assumes "\<forall>p \<in> set ps. distinct (analysisTags p)"
  shows "filter (due tag date) (map (untag tag ids) ps) =
     filter (\<lambda>p. op_id p \<notin> ids) (filter (due tag date) ps)"
  using assms by (induction ps) (auto simp: due_untag, auto simp: untag_def)

lemma due_after_page:
  assumes "tags_distinct d" and "operations d' = map (untag tag ids) (operations d)"
  shows "due_operations tag date d' = filter (\<lambda>p. op_id p \<notin> ids) (due_operations tag date d)"
proof -
  have "filter (due tag date) (operations d') =
      filter (\<lambda>p. op_id p \<notin> ids) (filter (due tag date) (operations d))"
    using assms(1) unfolding assms(2) tags_distinct_def by (rule filter_untag)
  then show ?thesis by (simp add: due_operations_def filter_sort)
qed

lemma due_members: "set (due_operations tag date d) \<subseteq> set (operations d)"
  by (auto simp: due_operations_def)

lemma due_distinct: "operations_wf d \<Longrightarrow> distinct (map op_id (due_operations tag date d))"
proof -
  assume "operations_wf d"
  then have "distinct (map op_id (filter (due tag date) (operations d)))"
    by (simp add: operations_wf_def tbl_wf_def distinct_map_filter)
  then show ?thesis
    by (simp add: due_operations_def distinct_map inj_on_def)
qed

lemma filter_rest:
  assumes "distinct (map op_id rows)"
  shows "filter (\<lambda>p. op_id p \<notin> op_id ` set (take n rows)) rows = drop n rows"
proof -
  have "distinct (map op_id (take n rows @ drop n rows))" using assms by simp
  then have "filter (\<lambda>p. op_id p \<notin> op_id ` set (take n rows)) (take n rows @ drop n rows) = drop n rows"
    by (auto simp: filter_empty_conv filter_id_conv simp del: append_take_drop_id)
  then show ?thesis by simp
qed

text \<open>The state after the first page.\<close>

lemma first_page:
  assumes "operations_wf d" and "tags_distinct d" and "trackers_exist d (due_operations tag date d)"
  obtains d' where "foldS (sync_operation now tag) (take n (due_operations tag date d)) d = (Inr (), d')"
    and "due_operations tag date d' = drop n (due_operations tag date d)"
proof -
  let ?rows = "due_operations tag date d"
  have "set (take n ?rows) \<subseteq> set (operations d)"
    using due_members [of tag date d] by (meson order_trans set_take_subset)
  moreover have "distinct (map op_id (take n ?rows))"
    using due_distinct [OF assms(1)] by (simp add: take_map [symmetric] distinct_take)
  moreover have "trackers_exist d (take n ?rows)"
    using assms(3) by (meson in_set_takeD trackers_exist_def)
  ultimately obtain d' where d': "foldS (sync_operation now tag) (take n ?rows) d = (Inr (), d')"
    "operations d' = map (untag tag (op_id ` set (take n ?rows))) (operations d)"
    using sync_page [OF assms(1)] by blast
  from due_after_page [OF assms(2) d'(2)] filter_rest [OF due_distinct [OF assms(1)]]
  have "due_operations tag date d' = drop n ?rows" by simp
  with d'(1) that show ?thesis by blast
qed

lemma sync_pages_run:
  "sync_pages n now tag date page d =
    (let rows = due_operations tag date d; ps = paginationWhere page n rows
     in if ps = [] then (Inr (), d)
        else (case foldS (sync_operation now tag) ps d of
                (Inl e, d') \<Rightarrow> (Inl e, d')
              | (Inr _, d') \<Rightarrow>
                  if page < paginationTotal n (length rows) then sync_pages n now tag date (page + 1) d'
                  else (Inr (), d')))"
  by (subst sync_pages.simps)
    (simp add: OperationRepository_getAllByPaginationAndAnalysisTagBeforeDate_def Let_def)

text \<open>
  C40: a run ages everything that fits on one page. When the operations due for a tag are at most
  one page, have their trackers and distinct tags, the run for that tag succeeds and leaves nothing
  due.
\<close>

theorem sync_clears_one_page:
  assumes "operations_wf d" and "tags_distinct d" and "trackers_exist d (due_operations tag date d)"
    and "length (due_operations tag date d) \<le> n" and "0 < n"
  shows "\<exists>d'. sync_pages n now tag date 1 d = (Inr (), d') \<and> due_operations tag date d' = []"
proof (cases "due_operations tag date d = []")
  case True
  then show ?thesis by (subst sync_pages_run) (simp add: paginationWhere_def)
next
  case False
  let ?k = "length (due_operations tag date d)"
  have "?k + n - 1 < 2 * n" using assms(4,5) by linarith
  then have "paginationTotal n ?k < 2" unfolding paginationTotal_def by (simp add: less_mult_imp_div_less)
  then have one: "\<not> 1 < paginationTotal n ?k" by simp
  from assms(1,2,3) obtain d' where
      "foldS (sync_operation now tag) (take n (due_operations tag date d)) d = (Inr (), d')"
    and "due_operations tag date d' = drop n (due_operations tag date d)"
    by (rule first_page)
  with False one assms(4,5) show ?thesis
    by (subst sync_pages_run) (simp add: paginationWhere_def Let_def)
qed

text \<open>Two operations of an interval limit from two days ago.\<close>

definition old_operation :: "string \<Rightarrow> operation" where
  "old_operation i = sample_operation\<lparr>op_id := i, createdAt := t_2330 - 172800000,
     analysisTags := [DAILY_INTERVAL_LIMIT_INCLUDED, MONTHLY_INTERVAL_LIMIT_INCLUDED,
       ANNUAL_INTERVAL_LIMIT_INCLUDED], op_userLimitTracker := Some ''t1''\<rparr>"

definition ageing_db :: db where
  "ageing_db = sample_db\<lparr>operations := [old_operation ''a'', old_operation ''b'']\<rparr>"

lemma ageing_db_ok: "operations_wf ageing_db" "tags_distinct ageing_db"
  by code_simp+

lemma ageing_due:
  "due_operations DAILY_INTERVAL_LIMIT_INCLUDED (t_2330 - day_ms) ageing_db =
     [old_operation ''a'', old_operation ''b'']"
  by code_simp

lemma ageing_trackers:
  "trackers_exist ageing_db (due_operations DAILY_INTERVAL_LIMIT_INCLUDED (t_2330 - day_ms) ageing_db)"
proof -
  have "UserLimitTrackerRepository_getById ''t1'' ageing_db = Some tracker_ann" by code_simp
  then show ?thesis by (simp add: trackers_exist_def ageing_due old_operation_def)
qed

theorem sync_clears_one_page_witness:
  "\<exists>d'. sync_pages 2 t_2330 DAILY_INTERVAL_LIMIT_INCLUDED (t_2330 - day_ms) 1 ageing_db = (Inr (), d')
     \<and> due_operations DAILY_INTERVAL_LIMIT_INCLUDED (t_2330 - day_ms) d' = []"
  by (rule sync_clears_one_page [OF ageing_db_ok ageing_trackers]) (simp_all add: ageing_due)

text \<open>
  With more than one page and at most two, the second page is skipped. The run succeeds, but
  exactly the operations after the first page are still due: their amounts stay counted against the
  limits until a later run.
\<close>

theorem sync_skips_second_page:
  assumes "operations_wf d" and "tags_distinct d" and "trackers_exist d (due_operations tag date d)"
    and "n < length (due_operations tag date d)" and "length (due_operations tag date d) \<le> 2 * n"
  shows "\<exists>d'. sync_pages n now tag date 1 d = (Inr (), d')
     \<and> due_operations tag date d' = drop n (due_operations tag date d)
     \<and> due_operations tag date d' \<noteq> []"
proof -
  let ?rows = "due_operations tag date d"
  have n: "0 < n" using assms(4,5) by linarith
  have "2 * n \<le> length ?rows + n - 1" using assms(4) by linarith
  then have "2 \<le> paginationTotal n (length ?rows)"
    unfolding paginationTotal_def using n by (simp add: less_eq_div_iff_mult_less_eq)
  then have two: "1 < paginationTotal n (length ?rows)" by simp
  from assms(1,2,3) obtain d' where
      fold: "foldS (sync_operation now tag) (take n ?rows) d = (Inr (), d')"
    and rest: "due_operations tag date d' = drop n ?rows"
    by (rule first_page)
  have "paginationWhere 2 n (drop n ?rows) = []"
    using assms(5) by (simp add: paginationWhere_def)
  then have "sync_pages n now tag date 2 d' = (Inr (), d')"
    by (subst sync_pages_run) (simp add: rest)
  moreover have "take n ?rows \<noteq> []" using assms(4) n by auto
  ultimately have "sync_pages n now tag date 1 d = (Inr (), d')"
    using fold two by (subst sync_pages_run) (simp add: paginationWhere_def Let_def numeral_2_eq_2)
  with rest assms(4) show ?thesis by auto
qed

theorem sync_skips_second_page_witness:
  "\<exists>d'. sync_pages 1 t_2330 DAILY_INTERVAL_LIMIT_INCLUDED (t_2330 - day_ms) 1 ageing_db = (Inr (), d')
     \<and> due_operations DAILY_INTERVAL_LIMIT_INCLUDED (t_2330 - day_ms) d' = [old_operation ''b'']"
  using sync_skips_second_page [OF ageing_db_ok ageing_trackers, of 1 t_2330] by (auto simp: ageing_due)

end
