(* ===== verification/User_Limit_Invariants.thy ===== *)
theory User_Limit_Invariants
  imports User_Limit_Update Sample_Data
begin

text \<open>
  What holds of the stored user limits over every sequence of updates by users and administrators:
  the user's own limits stay within those of compliance, and the compliance limits stay ordered.
  What an administrator's update does not keep: the order of the user's own minimum and maximum,
  the nightly limit below the daily one, and the credit line.
\<close>

section \<open>The invariants\<close>

definition within_compliance :: "'a limit_values_scheme \<Rightarrow> bool" where
  "within_compliance ul \<longleftrightarrow>
     toNum (userDailyLimit ul) \<le> dailyLimit ul \<and> toNum (userMonthlyLimit ul) \<le> monthlyLimit ul
     \<and> toNum (userYearlyLimit ul) \<le> yearlyLimit ul
     \<and> toNum (userNightlyLimit ul) \<le> toNum (nightlyLimit ul)
     \<and> (truthy (maxAmount ul) \<longrightarrow> toNum (userMaxAmount ul) \<le> toNum (maxAmount ul))
     \<and> (truthy (maxAmountNightly ul) \<longrightarrow>
          toNum (userMaxAmountNightly ul) \<le> toNum (maxAmountNightly ul))
     \<and> (truthy (minAmount ul) \<and> truthy (userMinAmount ul) \<longrightarrow>
          toNum (minAmount ul) \<le> toNum (userMinAmount ul))
     \<and> (truthy (minAmountNightly ul) \<and> truthy (userMinAmountNightly ul) \<longrightarrow>
          toNum (minAmountNightly ul) \<le> toNum (userMinAmountNightly ul))"

definition ordered_limits :: "'a limit_values_scheme \<Rightarrow> bool" where
  "ordered_limits ul \<longleftrightarrow>
     toNum (maxAmount ul) \<le> dailyLimit ul \<and> dailyLimit ul \<le> monthlyLimit ul
     \<and> monthlyLimit ul \<le> yearlyLimit ul
     \<and> toNum (minAmount ul) \<le> toNum (maxAmount ul)
     \<and> toNum (minAmountNightly ul) \<le> toNum (maxAmountNightly ul)
     \<and> toNum (maxAmountNightly ul) \<le> toNum (nightlyLimit ul)
     \<and> 0 \<le> toNum (minAmount ul) \<and> 0 \<le> toNum (minAmountNightly ul)"

definition sound_limits :: "'a limit_values_scheme \<Rightarrow> bool" where
  "sound_limits ul \<longleftrightarrow> within_compliance ul \<and> ordered_limits ul"

section \<open>The user's update keeps them\<close>

lemma set_accumulated_Inr:
  "set_accumulated new allowed exceeded put ul = Inr ul' \<Longrightarrow>
     ul' = ul \<and> \<not> truthy new \<or> ul' = put ul \<and> truthy new \<and> toNum new \<le> allowed"
  by (auto simp: set_accumulated_def split: if_splits)

lemma set_amount_Inr:
  "set_amount new verify put ul = Inr ul' \<Longrightarrow>
     ul' = ul \<and> \<not> truthy new \<or> ul' = put ul \<and> truthy new \<and> verify (toNum new) ul = Inr ()"
  by (auto simp: set_amount_def split: if_splits)

lemma verify_user_amounts:
  "verifyUserMaxAmount v ul = Inr () \<Longrightarrow> truthy (maxAmount ul) \<Longrightarrow> v \<le> toNum (maxAmount ul)"
  "verifyUserMaxAmountNightly v ul = Inr () \<Longrightarrow> truthy (maxAmountNightly ul) \<Longrightarrow>
     v \<le> toNum (maxAmountNightly ul)"
  "verifyUserMinAmount v ul = Inr () \<Longrightarrow> truthy (minAmount ul) \<Longrightarrow> toNum (minAmount ul) \<le> v"
  "verifyUserMinAmountNightly v ul = Inr () \<Longrightarrow> truthy (minAmountNightly ul) \<Longrightarrow>
     toNum (minAmountNightly ul) \<le> v"
  by (auto simp: verifyUserMaxAmount_def verifyUserMaxAmountNightly_def verifyUserMinAmount_def
      verifyUserMinAmountNightly_def split: if_splits)

text \<open>Each assignment of the update keeps the limits within those of compliance.\<close>

lemma accumulated_keeps_within:
  assumes "within_compliance (ul :: user_limit)"
  shows "toNum n \<le> dailyLimit ul \<Longrightarrow> within_compliance (ul\<lparr>userDailyLimit := n\<rparr>)"
    and "toNum n \<le> monthlyLimit ul \<Longrightarrow> within_compliance (ul\<lparr>userMonthlyLimit := n\<rparr>)"
    and "toNum n \<le> yearlyLimit ul \<Longrightarrow> within_compliance (ul\<lparr>userYearlyLimit := n\<rparr>)"
    and "toNum n \<le> toNum (nightlyLimit ul) \<Longrightarrow> within_compliance (ul\<lparr>userNightlyLimit := n\<rparr>)"
  using assms by (simp_all add: within_compliance_def)

lemma amount_keeps_within:
  assumes "within_compliance (ul :: user_limit)"
  shows "verifyUserMaxAmount (toNum n) ul = Inr () \<Longrightarrow> within_compliance (ul\<lparr>userMaxAmount := n\<rparr>)"
    and "verifyUserMaxAmountNightly (toNum n) ul = Inr () \<Longrightarrow>
      within_compliance (ul\<lparr>userMaxAmountNightly := n\<rparr>)"
    and "verifyUserMinAmount (toNum n) ul = Inr () \<Longrightarrow> within_compliance (ul\<lparr>userMinAmount := n\<rparr>)"
    and "verifyUserMinAmountNightly (toNum n) ul = Inr () \<Longrightarrow>
      within_compliance (ul\<lparr>userMinAmountNightly := n\<rparr>)"
  using assms by (auto simp: within_compliance_def dest: verify_user_amounts)

lemma set_nighttime_Inr:
  assumes "set_nighttime s new ul = Inr ul'"
  shows "ul' = ul \<or> ul' = ul\<lparr>nighttimeStart := nighttimeStart new, nighttimeEnd := nighttimeEnd new\<rparr>"
  using assms by (auto simp: set_nighttime_def split: if_splits)

text \<open>A predicate that every assignment of the update keeps, under its guard, is kept by the update.\<close>

lemma apply_user_limits_keeps:
  assumes run: "apply_user_limits s new ul = Inr ul'" and start: "P ul"
    and keep: "\<And>ul n. P ul \<Longrightarrow> toNum n \<le> dailyLimit ul \<Longrightarrow> P (ul\<lparr>userDailyLimit := n\<rparr>)"
      "\<And>ul n. P ul \<Longrightarrow> toNum n \<le> monthlyLimit ul \<Longrightarrow> P (ul\<lparr>userMonthlyLimit := n\<rparr>)"
      "\<And>ul n. P ul \<Longrightarrow> toNum n \<le> yearlyLimit ul \<Longrightarrow> P (ul\<lparr>userYearlyLimit := n\<rparr>)"
      "\<And>ul n. P ul \<Longrightarrow> toNum n \<le> toNum (nightlyLimit ul) \<Longrightarrow> P (ul\<lparr>userNightlyLimit := n\<rparr>)"
      "\<And>ul n. P ul \<Longrightarrow> verifyUserMaxAmount (toNum n) ul = Inr () \<Longrightarrow> P (ul\<lparr>userMaxAmount := n\<rparr>)"
      "\<And>ul n. P ul \<Longrightarrow> verifyUserMaxAmountNightly (toNum n) ul = Inr () \<Longrightarrow>
         P (ul\<lparr>userMaxAmountNightly := n\<rparr>)"
      "\<And>ul n. P ul \<Longrightarrow> verifyUserMinAmount (toNum n) ul = Inr () \<Longrightarrow> P (ul\<lparr>userMinAmount := n\<rparr>)"
      "\<And>ul n. P ul \<Longrightarrow> verifyUserMinAmountNightly (toNum n) ul = Inr () \<Longrightarrow>
         P (ul\<lparr>userMinAmountNightly := n\<rparr>)"
      "\<And>ul x y. P ul \<Longrightarrow> P (ul\<lparr>nighttimeStart := x, nighttimeEnd := y\<rparr>)"
  shows "P ul'"
proof -
  from run show ?thesis unfolding apply_user_limits_def
  proof (elim bindR_InrE)
    fix a b c e f g h i
    assume "set_accumulated (userDailyLimit new) (dailyLimit ul) DailyLimitExceededException
        (userDailyLimit_update (\<lambda>_. userDailyLimit new)) ul = Inr a"
    with start have a: "P a" by (auto dest!: set_accumulated_Inr intro: keep)
    assume "set_accumulated (userMonthlyLimit new) (monthlyLimit a) MonthlyLimitExceededException
        (userMonthlyLimit_update (\<lambda>_. userMonthlyLimit new)) a = Inr b"
    with a have b: "P b" by (auto dest!: set_accumulated_Inr intro: keep)
    assume "set_accumulated (userYearlyLimit new) (yearlyLimit b) YearlyLimitExceededException
        (userYearlyLimit_update (\<lambda>_. userYearlyLimit new)) b = Inr c"
    with b have c: "P c" by (auto dest!: set_accumulated_Inr intro: keep)
    assume "set_accumulated (userNightlyLimit new) (toNum (nightlyLimit c))
        NightlyLimitExceededException (userNightlyLimit_update (\<lambda>_. userNightlyLimit new)) c = Inr e"
    with c have e: "P e" by (auto dest!: set_accumulated_Inr intro: keep)
    assume "set_amount (userMaxAmount new) verifyUserMaxAmount
        (userMaxAmount_update (\<lambda>_. userMaxAmount new)) e = Inr f"
    with e have f: "P f" by (auto dest!: set_amount_Inr intro: keep)
    assume "set_amount (userMaxAmountNightly new) verifyUserMaxAmountNightly
        (userMaxAmountNightly_update (\<lambda>_. userMaxAmountNightly new)) f = Inr g"
    with f have g: "P g" by (auto dest!: set_amount_Inr intro: keep)
    assume "set_amount (userMinAmount new) verifyUserMinAmount
        (userMinAmount_update (\<lambda>_. userMinAmount new)) g = Inr h"
    with g have h: "P h" by (auto dest!: set_amount_Inr intro: keep)
    assume "set_amount (userMinAmountNightly new) verifyUserMinAmountNightly
        (userMinAmountNightly_update (\<lambda>_. userMinAmountNightly new)) h = Inr i"
    with h have i: "P i" by (auto dest!: set_amount_Inr intro: keep)
    assume "set_nighttime s new i = Inr ul'"
    with i show ?thesis by (auto dest!: set_nighttime_Inr intro: keep)
  qed
qed

lemma apply_user_limits_within:
  assumes "apply_user_limits s new ul = Inr ul'" and "within_compliance ul"
  shows "within_compliance ul'"
  using assms
  by (rule apply_user_limits_keeps)
    (simp_all add: accumulated_keeps_within amount_keeps_within, simp add: within_compliance_def)

text \<open>The compliance limits are not written.\<close>

definition same_compliance :: "user_limit \<Rightarrow> user_limit \<Rightarrow> bool" where
  "same_compliance a b \<longleftrightarrow> ul_id b = ul_id a \<and> dailyLimit b = dailyLimit a
     \<and> monthlyLimit b = monthlyLimit a \<and> yearlyLimit b = yearlyLimit a \<and> nightlyLimit b = nightlyLimit a
     \<and> maxAmount b = maxAmount a \<and> minAmount b = minAmount a
     \<and> maxAmountNightly b = maxAmountNightly a \<and> minAmountNightly b = minAmountNightly a
     \<and> creditBalance b = creditBalance a"

lemma apply_user_limits_same:
  assumes "apply_user_limits s new ul = Inr ul'"
  shows "same_compliance ul ul'"
  using assms by (rule apply_user_limits_keeps) (simp_all add: same_compliance_def)

lemma same_compliance_ordered: "same_compliance a b \<Longrightarrow> ordered_limits a \<Longrightarrow> ordered_limits b"
  by (simp add: same_compliance_def ordered_limits_def)

lemma apply_user_limits_sound:
  "apply_user_limits s new ul = Inr ul' \<Longrightarrow> sound_limits ul \<Longrightarrow> sound_limits ul'"
  using apply_user_limits_within apply_user_limits_same same_compliance_ordered
  by (metis sound_limits_def)

section \<open>The administrator's update keeps them\<close>

lemma admin_step_Inr:
  "admin_step new verify clamp ul = Inr ul' \<Longrightarrow>
     (\<not> truthy new \<and> ul' = ul) \<or> (truthy new \<and> verify (toNum new) ul = Inr () \<and> ul' = clamp ul)"
  by (auto simp: admin_step_def split: if_splits)

lemma verify_admin_iff:
  "verifyYearlyLimit v ul = Inr u \<longleftrightarrow> monthlyLimit ul \<le> v"
  "verifyMonthlyLimit v ul = Inr u \<longleftrightarrow> v \<le> yearlyLimit ul \<and> dailyLimit ul \<le> v"
  "verifyDailyLimit v ul = Inr u \<longleftrightarrow> v \<le> monthlyLimit ul \<and> toNum (maxAmount ul) \<le> v"
  "verifyNightlyLimit v ul = Inr u \<longleftrightarrow> v \<le> dailyLimit ul \<and> toNum (maxAmountNightly ul) \<le> v"
  "verifyMaxAmount v ul = Inr u \<longleftrightarrow> v \<le> dailyLimit ul \<and> toNum (minAmount ul) \<le> v"
  "verifyMinAmount w v ul = Inr u \<longleftrightarrow> v \<le> toNum (maxAmount ul) \<and> 0 \<le> v"
  "verifyMaxAmountNightly v ul = Inr u \<longleftrightarrow>
     v \<le> toNum (nightlyLimit ul) \<and> toNum (minAmountNightly ul) \<le> v"
  "verifyMinAmountNightly w v ul = Inr u \<longleftrightarrow> v \<le> toNum (maxAmountNightly ul) \<and> 0 \<le> v"
  by (auto simp: verifyYearlyLimit_def verifyMonthlyLimit_def verifyDailyLimit_def
      verifyNightlyLimit_def verifyMaxAmount_def verifyMinAmount_def verifyMaxAmountNightly_def
      verifyMinAmountNightly_def)

lemma cap_le: "toNum (cap l u) \<le> toNum l"
  by (simp add: cap_def)

lemma cap_mono: "toNum (cap l u) \<le> toNum u"
  by (simp add: cap_def)

lemma lift_to_ge: "toNum l \<le> toNum (lift_to l u)"
  by (simp add: lift_to_def)

text \<open>Each step writes one field of the user and leaves a verified fact.\<close>

lemma admin_step_field:
  assumes "admin_step new verify (\<lambda>ul. put (\<lambda>_. g ul) ul) ul = Inr ul'"
    and "put (\<lambda>_. get ul) ul = ul"
  shows "ul' = put (\<lambda>_. if truthy new then g ul else get ul) ul
    \<and> (truthy new \<longrightarrow> verify (toNum new) ul = Inr ())"
  using assms by (auto dest!: admin_step_Inr)

lemmas admin_fields =
  admin_step_field [where put = userYearlyLimit_update and get = userYearlyLimit]
  admin_step_field [where put = userMonthlyLimit_update and get = userMonthlyLimit]
  admin_step_field [where put = userDailyLimit_update and get = userDailyLimit]
  admin_step_field [where put = userNightlyLimit_update and get = userNightlyLimit]
  admin_step_field [where put = userMaxAmount_update and get = userMaxAmount]
  admin_step_field [where put = userMinAmount_update and get = userMinAmount]
  admin_step_field [where put = userMaxAmountNightly_update and get = userMaxAmountNightly]
  admin_step_field [where put = userMinAmountNightly_update and get = userMinAmountNightly]

definition admin_result :: "admin_limits \<Rightarrow> user_limit \<Rightarrow> user_limit" where
  "admin_result new ul = ul\<lparr>
     userYearlyLimit := (if truthy (new_yearlyLimit new)
       then cap (Some (yearlyLimit ul)) (userYearlyLimit ul) else userYearlyLimit ul),
     userMonthlyLimit := (if truthy (new_monthlyLimit new)
       then cap (Some (monthlyLimit ul)) (userMonthlyLimit ul) else userMonthlyLimit ul),
     userDailyLimit := (if truthy (new_dailyLimit new)
       then cap (Some (dailyLimit ul)) (userDailyLimit ul) else userDailyLimit ul),
     userNightlyLimit := (if truthy (new_nightlyLimit new)
       then cap (nightlyLimit ul) (userNightlyLimit ul) else userNightlyLimit ul),
     userMaxAmount := (if truthy (new_maxAmount new)
       then cap (maxAmount ul) (userMaxAmount ul) else userMaxAmount ul),
     userMinAmount := (if truthy (new_minAmount new)
       then lift_to (minAmount ul) (userMinAmount ul) else userMinAmount ul),
     userMaxAmountNightly := (if truthy (new_maxAmountNightly new)
       then cap (maxAmountNightly ul) (userMaxAmountNightly ul) else userMaxAmountNightly ul),
     userMinAmountNightly := (if truthy (new_minAmountNightly new)
       then lift_to (minAmountNightly ul) (userMinAmountNightly ul) else userMinAmountNightly ul)\<rparr>"

definition admin_verified :: "admin_limits \<Rightarrow> user_limit \<Rightarrow> bool" where
  "admin_verified new ul \<longleftrightarrow>
     (truthy (new_yearlyLimit new) \<longrightarrow> monthlyLimit ul \<le> toNum (new_yearlyLimit new))
     \<and> (truthy (new_monthlyLimit new) \<longrightarrow> toNum (new_monthlyLimit new) \<le> yearlyLimit ul
          \<and> dailyLimit ul \<le> toNum (new_monthlyLimit new))
     \<and> (truthy (new_dailyLimit new) \<longrightarrow> toNum (new_dailyLimit new) \<le> monthlyLimit ul
          \<and> toNum (maxAmount ul) \<le> toNum (new_dailyLimit new))
     \<and> (truthy (new_nightlyLimit new) \<longrightarrow> toNum (new_nightlyLimit new) \<le> dailyLimit ul
          \<and> toNum (maxAmountNightly ul) \<le> toNum (new_nightlyLimit new))
     \<and> (truthy (new_maxAmount new) \<longrightarrow> toNum (new_maxAmount new) \<le> dailyLimit ul
          \<and> toNum (minAmount ul) \<le> toNum (new_maxAmount new))
     \<and> (truthy (new_minAmount new) \<longrightarrow> toNum (new_minAmount new) \<le> toNum (maxAmount ul)
          \<and> 0 \<le> toNum (new_minAmount new))
     \<and> (truthy (new_maxAmountNightly new) \<longrightarrow>
          toNum (new_maxAmountNightly new) \<le> toNum (nightlyLimit ul)
          \<and> toNum (minAmountNightly ul) \<le> toNum (new_maxAmountNightly new))
     \<and> (truthy (new_minAmountNightly new) \<longrightarrow>
          toNum (new_minAmountNightly new) \<le> toNum (maxAmountNightly ul)
          \<and> 0 \<le> toNum (new_minAmountNightly new))"

lemma apply_admin_limits_result:
  assumes "apply_admin_limits new ul = Inr ul'"
  shows "ul' = admin_result new ul \<and> admin_verified new ul"
proof -
  from assms show ?thesis unfolding apply_admin_limits_def
  proof (elim bindR_InrE)
    fix a b c e f g h
    assume steps: "admin_step (new_yearlyLimit new) verifyYearlyLimit
        (\<lambda>ul. ul\<lparr>userYearlyLimit := cap (Some (yearlyLimit ul)) (userYearlyLimit ul)\<rparr>) ul = Inr a"
      "admin_step (new_monthlyLimit new) verifyMonthlyLimit
        (\<lambda>ul. ul\<lparr>userMonthlyLimit := cap (Some (monthlyLimit ul)) (userMonthlyLimit ul)\<rparr>) a = Inr b"
      "admin_step (new_dailyLimit new) verifyDailyLimit
        (\<lambda>ul. ul\<lparr>userDailyLimit := cap (Some (dailyLimit ul)) (userDailyLimit ul)\<rparr>) b = Inr c"
      "admin_step (new_nightlyLimit new) verifyNightlyLimit
        (\<lambda>ul. ul\<lparr>userNightlyLimit := cap (nightlyLimit ul) (userNightlyLimit ul)\<rparr>) c = Inr e"
      "admin_step (new_maxAmount new) verifyMaxAmount
        (\<lambda>ul. ul\<lparr>userMaxAmount := cap (maxAmount ul) (userMaxAmount ul)\<rparr>) e = Inr f"
      "admin_step (new_minAmount new) (verifyMinAmount (new_maxAmount new))
        (\<lambda>ul. ul\<lparr>userMinAmount := lift_to (minAmount ul) (userMinAmount ul)\<rparr>) f = Inr g"
      "admin_step (new_maxAmountNightly new) verifyMaxAmountNightly
        (\<lambda>ul. ul\<lparr>userMaxAmountNightly := cap (maxAmountNightly ul) (userMaxAmountNightly ul)\<rparr>) g = Inr h"
      "admin_step (new_minAmountNightly new) (verifyMinAmountNightly (new_maxAmount new))
        (\<lambda>ul. ul\<lparr>userMinAmountNightly := lift_to (minAmountNightly ul) (userMinAmountNightly ul)\<rparr>) h = Inr ul'"
    note fields = admin_fields(1) [OF steps(1)] admin_fields(2) [OF steps(2)]
      admin_fields(3) [OF steps(3)] admin_fields(4) [OF steps(4)] admin_fields(5) [OF steps(5)]
      admin_fields(6) [OF steps(6)] admin_fields(7) [OF steps(7)] admin_fields(8) [OF steps(8)]
    show ?thesis
      using fields [simplified, THEN conjunct2]
      by (simp add: admin_result_def admin_verified_def verify_admin_iff fields [simplified, THEN conjunct1])
  qed
qed

text \<open>The merged limits, for a request as the controller builds it.\<close>

lemma given_simps [simp]: "truthy (given x) = truthy x" "toNum (given x) = toNum x"
  by (auto simp: given_def truthy_toNum)

lemma override_given:
  "truthy x \<Longrightarrow> override (given x) y = x" "\<not> truthy x \<Longrightarrow> override (given x) y = y"
  by (auto simp: override_def given_def)

lemma admin_new_limits_simps [simp]:
  "new_nightlyLimit (admin_new_limits r) = given (new_nightlyLimit r)"
  "new_dailyLimit (admin_new_limits r) = given (new_dailyLimit r)"
  "new_monthlyLimit (admin_new_limits r) = given (new_monthlyLimit r)"
  "new_yearlyLimit (admin_new_limits r) = given (new_yearlyLimit r)"
  "new_maxAmount (admin_new_limits r) = given (new_maxAmount r)"
  "new_minAmount (admin_new_limits r) = given (new_minAmount r)"
  "new_maxAmountNightly (admin_new_limits r) = given (new_maxAmountNightly r)"
  "new_minAmountNightly (admin_new_limits r) = given (new_minAmountNightly r)"
  by (simp_all add: admin_new_limits_def)

text \<open>A lower and an upper limit stay in order when each new one is checked against the other.\<close>

lemma override_le:
  assumes "toNum x \<le> toNum y"
    and "truthy a \<longrightarrow> toNum a \<le> toNum (override (given b) y)"
    and "truthy b \<longrightarrow> toNum (override (given a) x) \<le> toNum b"
  shows "toNum (override (given a) x) \<le> toNum (override (given b) y)"
  using assms by (cases "truthy a"; cases "truthy b") (simp_all add: override_given)

lemma override_nonneg:
  assumes "0 \<le> toNum x" and "truthy a \<longrightarrow> 0 \<le> toNum a"
  shows "0 \<le> toNum (override (given a) x)"
  using assms by (cases "truthy a") (simp_all add: override_given)

lemma merged_ordered:
  assumes "ordered_limits found" and "admin_verified (admin_new_limits r) (merge_limits (admin_new_limits r) found)"
  shows "ordered_limits (merge_limits (admin_new_limits r) found)"
proof -
  note old = assms(1) [unfolded ordered_limits_def]
  note new = assms(2) [unfolded admin_verified_def merge_limits_def, simplified]
  show ?thesis unfolding ordered_limits_def merge_limits_def
    by (intro conjI) (insert old new, simp_all add: override_le override_nonneg)
qed

text \<open>Pulling the user's limits along keeps them within the merged ones.\<close>

lemma admin_result_within:
  assumes "within_compliance found"
  shows "within_compliance (admin_result (admin_new_limits r) (merge_limits (admin_new_limits r) found))"
proof -
  note old = assms [unfolded within_compliance_def]
  show ?thesis unfolding within_compliance_def admin_result_def merge_limits_def
    by (intro conjI)
      (insert old, simp_all add: cap_le lift_to_ge override_given split: if_split,
       use cap_le [of "Some _"] in \<open>simp_all add: override_given\<close>)
qed

section \<open>The stored limits\<close>

definition limits_sound :: "db \<Rightarrow> bool" where
  "limits_sound d \<longleftrightarrow> (\<forall>ul \<in> set (userLimits d). sound_limits ul)
     \<and> (\<forall>g \<in> set (globalLimits d). sound_limits g)"

text \<open>The requests that write user limits: a user's, an administrator's and a limit check's.\<close>

inductive limit_request :: "db \<Rightarrow> db \<Rightarrow> bool" where
  by_user: "UpdateUserLimitUseCase_execute s u lts new d = Inr d' \<Longrightarrow> limit_request d d'"
| by_admin: "UpdateUserLimitByAdminController_execute i r d = Inr (ul, d') \<Longrightarrow> limit_request d d'"
| by_check: "getLimit m uuids u lt d = Inr (ul, t, b, d') \<Longrightarrow> limit_request d d'"

lemma user_limit_of_global_sound:
  "sound_limits g \<Longrightarrow> sound_limits (user_limit_of_global uuid u lt g)"
  by (simp add: sound_limits_def within_compliance_def ordered_limits_def user_limit_of_global_def
      limit_values.defs)

lemma GlobalLimit_member:
  "GlobalLimitRepository_getByLimitType lt d = Some g \<Longrightarrow> g \<in> set (globalLimits d)"
  by (auto simp: GlobalLimitRepository_getByLimitType_def find_Some_iff)

lemma UserLimit_member:
  "UserLimitRepository_getByUserAndLimitType u lt d = Some ul \<Longrightarrow> ul \<in> set (userLimits d)"
  "UserLimitRepository_getById i d = Some ul \<Longrightarrow> ul \<in> set (userLimits d)"
  by (auto simp: UserLimitRepository_getByUserAndLimitType_def find_Some_iff
      UserLimitRepository_getById_def dest: tbl_find_SomeD)

lemma global_limit_sound:
  "limits_sound d \<Longrightarrow> GlobalLimitRepository_getByLimitType lt d = Some g \<Longrightarrow>
     sound_limits (user_limit_of_global uuid u lt g)"
  by (auto simp: limits_sound_def dest: GlobalLimit_member intro: user_limit_of_global_sound)

lemma limits_sound_create:
  assumes "limits_sound d" and "sound_limits ul" and "UserLimitRepository_create ul d = Inr d'"
  shows "limits_sound d'"
  using assms by (auto simp: limits_sound_def UserLimitRepository_create_def tbl_create_def
      tbl_insert_def split: if_splits)

lemma limits_sound_create_global:
  assumes "limits_sound d" and "GlobalLimitRepository_getByLimitType lt d = Some g"
    and "UserLimitRepository_create (user_limit_of_global uuid u lt g) d = Inr d'"
  shows "limits_sound d'"
  using assms(1) global_limit_sound [OF assms(1,2)] assms(3) by (rule limits_sound_create)

lemma limits_sound_update:
  assumes "limits_sound d" and "sound_limits ul"
  shows "limits_sound (UserLimitRepository_update ul d)"
  using assms by (auto simp: limits_sound_def UserLimitRepository_update_def tbl_update_def)

lemma limits_sound_emit [simp]: "limits_sound (emit e d) = limits_sound d"
  by (simp add: limits_sound_def emit_def)

lemma UpdateUserLimit_getLimit_sound:
  assumes "UpdateUserLimit_getLimit uuid u lt d = Inr (ul, d')" and "limits_sound d"
  shows "sound_limits ul \<and> limits_sound d'"
proof (cases "UserLimitRepository_getByUserAndLimitType u lt d")
  case None
  with assms(1) obtain g d1 where g: "GlobalLimitRepository_getByLimitType lt d = Some g"
    and ul: "ul = user_limit_of_global uuid u lt g"
    and d1: "UserLimitRepository_create ul d = Inr d1" "d' = emit (CreatedUserLimit (ul_id ul)) d1"
    by (auto simp: UpdateUserLimit_getLimit_def Let_def result_simps)
  have "sound_limits ul"
    using assms(2) GlobalLimit_member [OF g] by (simp add: ul user_limit_of_global_sound limits_sound_def)
  with d1 limits_sound_create [OF assms(2)] show ?thesis by simp
next
  case (Some x)
  with assms UserLimit_member(1) [OF Some] show ?thesis
    by (simp add: UpdateUserLimit_getLimit_def limits_sound_def)
qed

lemma updateUserLimit_sound:
  assumes "updateUserLimit s u new req d = Inr d'" and "limits_sound d"
  shows "limits_sound d'"
  using assms
  by (auto simp: updateUserLimit_def result_simps split: prod.splits
      dest!: UpdateUserLimit_getLimit_sound intro!: limits_sound_update apply_user_limits_sound)

lemma apply_admin_limits_sound:
  assumes "apply_admin_limits (admin_new_limits r) (merge_limits (admin_new_limits r) found) = Inr ul"
    and "sound_limits found"
  shows "sound_limits ul"
proof -
  let ?M = "merge_limits (admin_new_limits r) found"
  from apply_admin_limits_result [OF assms(1)] have ul: "ul = admin_result (admin_new_limits r) ?M"
    and ok: "admin_verified (admin_new_limits r) ?M" by simp_all
  have "ordered_limits ?M"
    using assms(2) ok by (intro merged_ordered) (simp_all add: sound_limits_def)
  then have "ordered_limits ul" by (simp add: ul admin_result_def ordered_limits_def)
  moreover have "within_compliance ul"
    unfolding ul using assms(2) by (intro admin_result_within) (simp add: sound_limits_def)
  ultimately show ?thesis by (simp add: sound_limits_def)
qed

lemmas admin_execute_defs =
  UpdateUserLimitByAdminController_execute_def UpdateUserLimitByAdminUseCase_execute_def

lemma limit_request_sound:
  assumes "limit_request d d'" and "limits_sound d"
  shows "limits_sound d'"
  using assms
proof cases
  case (by_user s u lts new)
  then show ?thesis
    using foldR_invariant [where P = limits_sound] updateUserLimit_sound assms(2)
    by (metis UpdateUserLimitUseCase_execute_def)
next
  case (by_admin i r ul)
  then obtain found where found: "UserLimitRepository_getById i d = Some found"
    and run: "apply_admin_limits (admin_new_limits r) (merge_limits (admin_new_limits r) found) = Inr ul"
    and d': "d' = emit (UpdatedUserLimit (ul_id ul)) (UserLimitRepository_update ul d)"
    by (auto simp: admin_execute_defs result_simps)
  have "sound_limits found"
    using assms(2) UserLimit_member(2) [OF found] by (simp add: limits_sound_def)
  with run have "sound_limits ul" by (rule apply_admin_limits_sound)
  with assms(2) show ?thesis by (simp add: d' limits_sound_update)
next
  case (by_check m uuids u lt ul t b)
  then show ?thesis
    using assms(2)
    by (auto simp: getLimit_def Let_def result_simps split: option.splits
        intro: limits_sound_create_global)
qed

text \<open>
  C37: the stored limits stay sound. Over every sequence of updates by users and administrators and
  of limits created by limit checks, every user limit stays within its compliance limit, and the
  compliance limits stay ordered: amounts below the daily limit, daily below monthly below yearly.
\<close>

theorem limits_stay_sound:
  assumes "limit_request\<^sup>*\<^sup>* d d'" and "limits_sound d"
  shows "limits_sound d'"
  using assms by (induction rule: rtranclp_induct) (auto intro: limit_request_sound)

text \<open>A limit with a minimum of the user and a credit line, and an administrator lowering the maximum.\<close>

definition credit_limit :: user_limit where
  "credit_limit = ul_ann\<lparr>userMinAmount := Some 5000, creditBalance := 70000\<rparr>"

definition limit_db :: db where
  "limit_db = sample_db\<lparr>userLimits := [credit_limit]\<rparr>"

definition no_new_limits :: admin_limits where
  "no_new_limits = \<lparr> new_nightlyLimit = None, new_dailyLimit = None, new_monthlyLimit = None,
     new_yearlyLimit = None, new_maxAmount = None, new_minAmount = None,
     new_maxAmountNightly = None, new_minAmountNightly = None \<rparr>"

definition lower_maximum :: admin_limits where
  "lower_maximum = no_new_limits\<lparr>new_maxAmount := Some 4000\<rparr>"

definition lowered_limit :: user_limit where
  "lowered_limit = credit_limit\<lparr>maxAmount := Some 4000, creditBalance := 0\<rparr>"

definition lowered_db :: db where
  "lowered_db = limit_db\<lparr>userLimits := [lowered_limit], outbox := [UpdatedUserLimit ''ul1'']\<rparr>"

lemma limit_db_facts:
  "limits_sound limit_db"
  "UserLimitRepository_getById ''ul1'' limit_db = Some credit_limit"
  "UpdateUserLimitByAdminController_execute ''ul1'' lower_maximum limit_db =
     Inr (lowered_limit, lowered_db)"
  "truthy (new_maxAmount lower_maximum)" "\<not> truthy (new_minAmount lower_maximum)"
  "truthy (userMinAmount credit_limit)"
  "toNum (new_maxAmount lower_maximum) < toNum (userMinAmount credit_limit)"
  by code_simp+

theorem limits_stay_sound_witness: "limits_sound lowered_db"
proof (rule limits_stay_sound)
  show "limit_request\<^sup>*\<^sup>* limit_db lowered_db"
    using limit_request.by_admin [OF limit_db_facts(3)] by (rule r_into_rtranclp)
qed (rule limit_db_facts)

text \<open>
  An administrator's update, whatever it changes, sets the user's credit line to zero: the
  controller builds the new limits as an entity, whose initialised \<open>creditBalance\<close> overrides the
  stored one.
\<close>

theorem admin_update_wipes_credit:
  assumes "UpdateUserLimitByAdminController_execute i r d = Inr (ul, d')"
  shows "creditBalance ul = 0 \<and> UserLimitRepository_getById i d' = Some ul"
proof -
  from assms obtain found where found: "UserLimitRepository_getById i d = Some found"
    and run: "apply_admin_limits (admin_new_limits r) (merge_limits (admin_new_limits r) found) = Inr ul"
    and d': "d' = emit (UpdatedUserLimit (ul_id ul)) (UserLimitRepository_update ul d)"
    by (auto simp: admin_execute_defs result_simps)
  from apply_admin_limits_result [OF run] have "creditBalance ul = 0" "ul_id ul = ul_id found"
    by (simp_all add: admin_result_def merge_limits_def)
  moreover from found have "ul_id found = i"
    by (auto simp: UserLimitRepository_getById_def dest: tbl_find_SomeD)
  ultimately show ?thesis
    using found by (simp add: d' UserLimitRepository_getById_def UserLimitRepository_update_def
        emit_def tbl_find_update)
qed

theorem admin_update_wipes_credit_witness:
  "creditBalance credit_limit = 70000 \<and> creditBalance lowered_limit = 0
     \<and> UserLimitRepository_getById ''ul1'' lowered_db = Some lowered_limit"
  using admin_update_wipes_credit [OF limit_db_facts(3)] by (simp add: credit_limit_def)

section \<open>What an administrator's update does not keep\<close>

text \<open>
  An administrator who lowers the maximum of an operation below the user's own minimum locks the
  user out: the user's maximum is pulled down, the user's minimum is not, and no value passes the
  limit check any more.
\<close>

theorem lowered_maximum_locks_user_out:
  assumes "UpdateUserLimitByAdminController_execute i r d = Inr (ul, d')"
    and "UserLimitRepository_getById i d = Some found"
    and "truthy (new_maxAmount r)" and "\<not> truthy (new_minAmount r)"
    and "truthy (userMinAmount found)" and "toNum (new_maxAmount r) < toNum (userMinAmount found)"
  shows "check_value_limits night ul v \<noteq> Inr ()"
proof -
  from assms(1,2) have
    "apply_admin_limits (admin_new_limits r) (merge_limits (admin_new_limits r) found) = Inr ul"
    by (auto simp: admin_execute_defs result_simps)
  from apply_admin_limits_result [OF this]
  have "maxAmount ul = new_maxAmount r" "userMinAmount ul = userMinAmount found"
    using assms(3,4) by (simp_all add: admin_result_def merge_limits_def override_given)
  then have limits: "truthy (maxAmount ul)" "truthy (userMinAmount ul)"
    "toNum (maxAmount ul) < toNum (userMinAmount ul)"
    using assms(3,5,6) by simp_all
  show ?thesis
  proof
    assume "check_value_limits night ul v = Inr ()"
    then have "\<not> over (maxAmount ul) v" "\<not> under (userMinAmount ul) v"
      unfolding check_value_limits_Inr value_allowed_def by blast+
    with limits show False by (simp add: over_def under_def)
  qed
qed

theorem lowered_maximum_locks_user_out_witness:
  "check_value_limits False lowered_limit 4000 \<noteq> Inr () \<and> check_value_limits False lowered_limit 5000 \<noteq> Inr ()
     \<and> check_value_limits False credit_limit 5000 = Inr ()"
proof -
  have "check_value_limits False credit_limit 5000 = Inr ()" by code_simp
  with lowered_maximum_locks_user_out [OF limit_db_facts(3,2,4,5,6,7)] show ?thesis by blast
qed

text \<open>
  The daily limit can be lowered below the nightly one. A nightly limit above the daily limit is
  refused, but a new daily limit is compared with the monthly limit and the maximum amount only; any
  positive value between these is accepted and the nightly limit stays.
\<close>

theorem daily_limit_ignores_nightly:
  assumes "UserLimitRepository_getById i d = Some found" and "i \<noteq> []"
    and "0 < v" and "toNum (maxAmount found) \<le> v" and "v \<le> monthlyLimit found"
  shows "\<exists>ul d'. UpdateUserLimitByAdminController_execute i (no_new_limits\<lparr>new_dailyLimit := Some v\<rparr>) d
      = Inr (ul, d') \<and> dailyLimit ul = v \<and> nightlyLimit ul = nightlyLimit found"
  using assms
  by (simp add: admin_execute_defs no_new_limits_def apply_admin_limits_def admin_step_def
      merge_limits_def override_given verifyDailyLimit_def)

definition open_limit :: user_limit where
  "open_limit = ul_ann\<lparr>maxAmount := None, minAmount := None\<rparr>"

theorem daily_limit_ignores_nightly_witness:
  "(\<exists>ul d'. UpdateUserLimitByAdminController_execute ''ul1'' (no_new_limits\<lparr>new_dailyLimit := Some 50000\<rparr>)
      (sample_db\<lparr>userLimits := [open_limit]\<rparr>) = Inr (ul, d')
      \<and> dailyLimit ul = 50000 \<and> nightlyLimit ul = nightlyLimit open_limit)
   \<and> nightlyLimit open_limit = Some 100000"
proof -
  have facts: "UserLimitRepository_getById ''ul1'' (sample_db\<lparr>userLimits := [open_limit]\<rparr>) = Some open_limit"
    "toNum (maxAmount open_limit) \<le> 50000" "50000 \<le> monthlyLimit open_limit"
    "nightlyLimit open_limit = Some 100000"
    by code_simp+
  show ?thesis
    using daily_limit_ignores_nightly [OF facts(1) _ _ facts(2,3)] facts(4) by simp
qed

section \<open>Which nights a user may choose\<close>

lemma str_includes_iff: "str_includes s t \<longleftrightarrow> (\<exists>a b. s = a @ t @ b)"
proof (induction s)
  case Nil
  then show ?case by simp
next
  case (Cons c s)
  have "take (length t) (c # s) = t \<longleftrightarrow> (\<exists>b. c # s = t @ b)"
    by (metis append_eq_conv_conj)
  with Cons show ?case by (auto simp: Cons_eq_append_conv)
qed

definition night_wish :: "string \<Rightarrow> string \<Rightarrow> limit_values" where
  "night_wish start end = \<lparr> nightlyLimit = None, dailyLimit = 0, monthlyLimit = 0, yearlyLimit = 0,
     maxAmount = None, minAmount = None, maxAmountNightly = None, minAmountNightly = None,
     userMaxAmount = None, userMinAmount = None, userMaxAmountNightly = None,
     userMinAmountNightly = None, userNightlyLimit = None, userDailyLimit = None,
     userMonthlyLimit = None, userYearlyLimit = None, nighttimeStart = Some start,
     nighttimeEnd = Some end \<rparr>"

text \<open>
  The allowed nights are searched as one text, so a part of an allowed start passes as well, and
  hours of one digit are valid times. With the nights 22:00 to 06:00 and 20:00 to 06:00 configured a
  user may choose 2:00 to 06:00, and 23:30 is then no longer at night.
\<close>

theorem part_of_a_night_accepted:
  "case apply_user_limits ''22:00;06:00 20:00;06:00'' (night_wish ''2:00'' ''06:00'') ul_ann of
     Inr ul \<Rightarrow> isInNighttimeInterval sample_moment ul_ann t_2330
       \<and> \<not> isInNighttimeInterval sample_moment ul t_2330
   | Inl e \<Rightarrow> False"
  by code_simp

end
