(* ===== verification/Pix_Key_Domain.thy ===== *)
theory Pix_Key_Domain
  imports Prelude
begin

text \<open>
  The data of the pix keys service (apps/pix-keys/src/domain/entities), its repositories
  (infrastructure/sequelize/repositories) as list tables, its exceptions and events, and the steps
  its use cases are made of. A pix key is an alias of an account (a document, a phone, an e-mail or
  a random key) in the national directory, which only the payment service provider (PSP) behind
  the gateway can change. Calls of the gateway are logged, since no rollback undoes them.
\<close>

section \<open>Entities\<close>

datatype (plugins only: code size) key_type = CNPJ | CPF | PHONE | EMAIL | EVP

datatype (plugins only: code size) key_state =
    K_PENDING | K_CONFIRMED | K_NOT_CONFIRMED | K_ADD_KEY_READY | K_READY | K_CANCELED | K_ERROR
  | K_DELETING | K_DELETED
  | K_PORTABILITY_PENDING | K_PORTABILITY_OPENED | K_PORTABILITY_STARTED | K_PORTABILITY_READY
  | K_PORTABILITY_CONFIRMED | K_PORTABILITY_CANCELING | K_PORTABILITY_CANCELED
  | K_PORTABILITY_REQUEST_PENDING | K_PORTABILITY_REQUEST_CANCEL_OPENED
  | K_PORTABILITY_REQUEST_CANCEL_STARTED | K_PORTABILITY_REQUEST_CONFIRM_OPENED
  | K_PORTABILITY_REQUEST_CONFIRM_STARTED | K_PORTABILITY_REQUEST_AUTO_CONFIRMED
  | K_OWNERSHIP_PENDING | K_OWNERSHIP_OPENED | K_OWNERSHIP_STARTED | K_OWNERSHIP_CONFIRMED
  | K_OWNERSHIP_READY | K_OWNERSHIP_CANCELING | K_OWNERSHIP_CANCELED | K_OWNERSHIP_WAITING
  | K_OWNERSHIP_CONFLICT
  | K_CLAIM_NOT_CONFIRMED | K_CLAIM_PENDING | K_CLAIM_CLOSING | K_CLAIM_DENIED | K_CLAIM_CLOSED

datatype pix_key_reason = KR_USER_REQUESTED | KR_ACCOUNT_CLOSURE | KR_BRANCH_TRANSFER
  | KR_ENTRY_INACTIVITY | KR_RECONCILIATION

datatype claim_reason = CR_FRAUD | CR_USER_REQUESTED | CR_ACCOUNT_CLOSURE | CR_DEFAULT_OPERATION

datatype claim_status = CS_OPEN | CS_WAITING_RESOLUTION | CS_CONFIRMED | CS_CANCELLED | CS_COMPLETED

datatype claim_type = CT_OWNERSHIP | CT_PORTABILITY

datatype person_type = NATURAL_PERSON | LEGAL_PERSON

definition PixKeyReadyStates :: "key_state list" where
  "PixKeyReadyStates = [K_READY, K_ADD_KEY_READY, K_PORTABILITY_READY, K_OWNERSHIP_READY]"

definition PixKeyCanceledStates :: "key_state list" where
  "PixKeyCanceledStates = [K_NOT_CONFIRMED, K_PORTABILITY_REQUEST_AUTO_CONFIRMED,
     K_PORTABILITY_REQUEST_CONFIRM_STARTED, K_PORTABILITY_CANCELED, K_OWNERSHIP_CANCELED,
     K_OWNERSHIP_CONFLICT, K_CLAIM_CLOSED]"

record pix_key =
  pk_id :: string
  pk_type :: key_type
  pk_key :: "string option"
  pk_personType :: person_type
  pk_document :: string
  pk_name :: string
  pk_tradeName :: "string option"
  pk_user :: string
  pk_accountNumber :: string
  pk_branch :: string
  pk_state :: key_state
  pk_accountOpeningDate :: int
  pk_code :: "string option"
  pk_failed :: "(string \<times> string) option"
  pk_deletedByReason :: "pix_key_reason option"
  pk_claim :: "string option"
  pk_createdAt :: int
  pk_updatedAt :: int
  pk_canceledAt :: "int option"
  pk_deletedAt :: "int option"

definition isSendCodeState :: "pix_key \<Rightarrow> bool" where
  "isSendCodeState p \<longleftrightarrow> List.member [K_PENDING, K_CLAIM_PENDING] (pk_state p)"

definition isSendCodeType :: "pix_key \<Rightarrow> bool" where
  "isSendCodeType p \<longleftrightarrow> List.member [EMAIL, PHONE] (pk_type p)"

definition isVerifiedCodeState :: "pix_key \<Rightarrow> bool" where
  "isVerifiedCodeState p \<longleftrightarrow> List.member [K_PENDING, K_CLAIM_PENDING] (pk_state p)"

definition isVerifiedCodeValue :: "pix_key \<Rightarrow> string \<Rightarrow> bool" where
  "isVerifiedCodeValue p code \<longleftrightarrow> Some code = pk_code p"

definition isCancelValidationState :: "pix_key \<Rightarrow> bool" where
  "isCancelValidationState p \<longleftrightarrow> List.member [K_PENDING, K_CLAIM_PENDING] (pk_state p)"

definition isCancelValidationType :: "pix_key \<Rightarrow> bool" where
  "isCancelValidationType p \<longleftrightarrow> List.member [EMAIL, PHONE] (pk_type p)"

definition isReadyState :: "pix_key \<Rightarrow> bool" where
  "isReadyState p \<longleftrightarrow> List.member PixKeyReadyStates (pk_state p)"

definition isCanceledState :: "pix_key \<Rightarrow> bool" where
  "isCanceledState p \<longleftrightarrow> List.member PixKeyCanceledStates (pk_state p)"

text \<open>A claim as stored; an update writes the fields that are given and leaves the others.\<close>

record pix_key_claim =
  pc_id :: string
  pc_keyType :: "key_type option"
  pc_key :: "string option"
  pc_type :: "claim_type option"
  pc_status :: "claim_status option"
  pc_ispb :: "string option"
  pc_document :: "string option"
  pc_branch :: "string option"
  pc_accountNumber :: "string option"
  pc_personType :: "person_type option"
  pc_finalResolutionDate :: "int option"
  pc_finalCompleteDate :: "int option"
  pc_lastChangeDate :: "int option"
  pc_claimOpeningDate :: "int option"
  pc_claimClosingDate :: "int option"

datatype verification_state = V_OK | V_FAILED

record pix_key_verification =
  pv_pixKey :: string
  pv_code :: string
  pv_state :: verification_state

section \<open>Exceptions and events\<close>

datatype psp_error = PixKeyOwnedByThirdPersonPsp | PixKeyOwnedBySamePersonPsp | OtherPspError string

datatype (plugins only: code size) pix_exn =
    PixMissingData "string list"
  | PixForbidden
  | PixInvalidDataFormat "string list"
  | PixNullPointer string
  | PixTypeError
  | PixUserNotFound string
  | PixOnboardingNotFound string
  | PixKeyUnsupportedCnpjType
  | InvalidEmailFormat "string option"
  | InvalidPhoneNumberFormat "string option"
  | InvalidDocumentFormat "string option"
  | MaxNumberOfPixKeysReached nat
  | PixKeyAlreadyCreated string
  | PixKeyNotFound string
  | PixKeyInvalidState string key_state
  | PixKeyInvalidType string key_type
  | PixKeyVerificationOverflow string nat
  | PixKeyClaimNotFound string
  | InvalidPixKeyClaimFlow string
  | PspFailure psp_error
  | PixUniqueConstraint

datatype (plugins only: code size) pix_event_type =
    E_ERROR | E_READY | E_ADD_READY | E_DELETED | E_DELETING | E_PENDING | E_PENDING_EXPIRED
  | E_CANCELED | E_CONFIRMED | E_NOT_CONFIRMED | E_CLAIM_PENDING | E_CLAIM_PENDING_EXPIRED
  | E_CLAIM_DENIED | E_CLAIM_CLOSING | E_CLAIM_CLOSED | E_CLAIM_NOT_CONFIRMED
  | E_PORTABILITY_PENDING | E_PORTABILITY_OPENED | E_PORTABILITY_STARTED | E_PORTABILITY_CONFIRMED
  | E_PORTABILITY_CANCELING | E_PORTABILITY_CANCELED | E_PORTABILITY_READY
  | E_PORTABILITY_REQUEST_CANCEL_OPENED | E_PORTABILITY_REQUEST_CANCEL_STARTED
  | E_PORTABILITY_REQUEST_CONFIRM_OPENED | E_PORTABILITY_REQUEST_CONFIRM_STARTED
  | E_PORTABILITY_REQUEST_PENDING | E_PORTABILITY_REQUEST_AUTO_CONFIRMED
  | E_PORTABILITY_PENDING_EXPIRED
  | E_OWNERSHIP_PENDING | E_OWNERSHIP_PENDING_EXPIRED | E_OWNERSHIP_OPENED | E_OWNERSHIP_STARTED
  | E_OWNERSHIP_WAITING | E_OWNERSHIP_CONFIRMED | E_OWNERSHIP_CANCELING | E_OWNERSHIP_CANCELED
  | E_OWNERSHIP_READY | E_OWNERSHIP_CONFLICT

text \<open>An event names the key and the state it was in when the event was emitted.\<close>

record pix_key_event =
  pe_type :: pix_event_type
  pe_id :: string
  pe_state :: key_state
  pe_user :: string
  pe_reason :: "claim_reason option"

section \<open>State and repositories\<close>

text \<open>The body of a request that registers a key or opens a claim for it, and the gateway's calls.\<close>

record create_request =
  cr_key :: "string option"
  cr_keyType :: key_type
  cr_personType :: person_type
  cr_document :: string
  cr_name :: string
  cr_tradeName :: "string option"
  cr_branch :: string
  cr_accountNumber :: string
  cr_accountOpeningDate :: int
  cr_pixKeyId :: string

datatype (plugins only: code size) psp_call =
    CreatePixKey create_request
  | DeletePixKey "string option" string
  | CreateOwnershipClaim create_request
  | CreatePortabilityClaim create_request
  | CancelPortabilityClaim "string option" string string bool claim_reason
  | ConfirmPortabilityClaim "string option" string string claim_reason
  | ClosingClaim "string option" string string claim_reason
  | DeniedClaim "string option" string string bool claim_reason
  | FinishClaim "string option" string

text \<open>What the PSP answers to a call: an error, or the key or claim id it gives out, if any.\<close>

type_synonym psp = "psp_call \<Rightarrow> psp_error + string option"

record pix_world =
  pixKeys :: "pix_key list"
  pixKeyClaims :: "pix_key_claim list"
  pixKeyVerifications :: "pix_key_verification list"
  pixOutbox :: "pix_key_event list"
  pixClaimOutbox :: "pix_key_claim list"
  pspCalls :: "psp_call list"
  notifications :: "(string \<times> string option) list"

type_synonym 'a pix_step = "(pix_world, pix_exn, 'a) step"

definition notCanceled :: "pix_key \<Rightarrow> bool" where
  "notCanceled p \<longleftrightarrow> pk_state p \<noteq> K_CANCELED"

definition PixKeyRepository_getById :: "string \<Rightarrow> pix_world \<Rightarrow> pix_key option" where
  "PixKeyRepository_getById i w = tbl_find pk_id i (pixKeys w)"

definition getByIdAndStateIsNotCanceled :: "string \<Rightarrow> pix_world \<Rightarrow> pix_key option" where
  "getByIdAndStateIsNotCanceled i w = find (\<lambda>p. pk_id p = i \<and> notCanceled p) (pixKeys w)"

definition getByUserAndIdAndStateIsNotCanceled ::
    "string \<Rightarrow> string \<Rightarrow> pix_world \<Rightarrow> pix_key option" where
  "getByUserAndIdAndStateIsNotCanceled u i w =
     find (\<lambda>p. pk_id p = i \<and> pk_user p = u \<and> notCanceled p) (pixKeys w)"

definition getByKeyAndStateIsNotCanceled :: "string option \<Rightarrow> pix_world \<Rightarrow> pix_key list" where
  "getByKeyAndStateIsNotCanceled k w = filter (\<lambda>p. pk_key p = k \<and> notCanceled p) (pixKeys w)"

definition getByUserAndKeyAndStateIsNotCanceled ::
    "string \<Rightarrow> string option \<Rightarrow> pix_world \<Rightarrow> pix_key option" where
  "getByUserAndKeyAndStateIsNotCanceled u k w =
     find (\<lambda>p. pk_user p = u \<and> pk_key p = k \<and> notCanceled p) (pixKeys w)"

definition countByUserAndStateIsNotCanceled :: "string \<Rightarrow> pix_world \<Rightarrow> nat" where
  "countByUserAndStateIsNotCanceled u w =
     length (filter (\<lambda>p. pk_user p = u \<and> notCanceled p) (pixKeys w))"

definition getByLessUpdatedAtAndStateIn :: "int \<Rightarrow> key_state list \<Rightarrow> pix_world \<Rightarrow> pix_key list" where
  "getByLessUpdatedAtAndStateIn t states w =
     filter (\<lambda>p. pk_updatedAt p < t \<and> List.member states (pk_state p)) (pixKeys w)"

definition PixKeyRepository_getByState :: "key_state \<Rightarrow> pix_world \<Rightarrow> pix_key list" where
  "PixKeyRepository_getByState s w = filter (\<lambda>p. pk_state p = s) (pixKeys w)"

definition PixKeyRepository_create :: "int \<Rightarrow> pix_key \<Rightarrow> pix_key pix_step" where
  "PixKeyRepository_create now p w =
     (let q = p\<lparr>pk_createdAt := now, pk_updatedAt := now\<rparr>
      in case tbl_create pk_id PixUniqueConstraint q (pixKeys w) of
           Inl e \<Rightarrow> (Inl e, w)
         | Inr t \<Rightarrow> (Inr q, w\<lparr>pixKeys := t\<rparr>))"

text \<open>Sequelize stamps \<open>updatedAt\<close> in the row.\<close>

definition put_key :: "int \<Rightarrow> pix_key \<Rightarrow> pix_world \<Rightarrow> pix_world" where
  "put_key now p w = w\<lparr>pixKeys := tbl_update pk_id (p\<lparr>pk_updatedAt := now\<rparr>) (pixKeys w)\<rparr>"

definition PixKeyRepository_update :: "int \<Rightarrow> pix_key \<Rightarrow> unit pix_step" where
  "PixKeyRepository_update now p = modifyS (put_key now p)"

definition PixKeyClaimRepository_getById :: "string \<Rightarrow> pix_world \<Rightarrow> pix_key_claim option" where
  "PixKeyClaimRepository_getById i w = tbl_find pc_id i (pixKeyClaims w)"

definition getByIdAndLessOpeningDate :: "string \<Rightarrow> int \<Rightarrow> pix_world \<Rightarrow> pix_key_claim option" where
  "getByIdAndLessOpeningDate i t w =
     find (\<lambda>c. pc_id c = i \<and> (case pc_claimOpeningDate c of None \<Rightarrow> False | Some d \<Rightarrow> d < t))
       (pixKeyClaims w)"

definition given_or :: "'a option \<Rightarrow> 'a option \<Rightarrow> 'a option" where
  "given_or new old = (if new = None then old else new)"

definition merge_claim :: "pix_key_claim \<Rightarrow> pix_key_claim \<Rightarrow> pix_key_claim" where
  "merge_claim new old = \<lparr> pc_id = pc_id old,
     pc_keyType = given_or (pc_keyType new) (pc_keyType old),
     pc_key = given_or (pc_key new) (pc_key old),
     pc_type = given_or (pc_type new) (pc_type old),
     pc_status = given_or (pc_status new) (pc_status old),
     pc_ispb = given_or (pc_ispb new) (pc_ispb old),
     pc_document = given_or (pc_document new) (pc_document old),
     pc_branch = given_or (pc_branch new) (pc_branch old),
     pc_accountNumber = given_or (pc_accountNumber new) (pc_accountNumber old),
     pc_personType = given_or (pc_personType new) (pc_personType old),
     pc_finalResolutionDate = given_or (pc_finalResolutionDate new) (pc_finalResolutionDate old),
     pc_finalCompleteDate = given_or (pc_finalCompleteDate new) (pc_finalCompleteDate old),
     pc_lastChangeDate = given_or (pc_lastChangeDate new) (pc_lastChangeDate old),
     pc_claimOpeningDate = given_or (pc_claimOpeningDate new) (pc_claimOpeningDate old),
     pc_claimClosingDate = given_or (pc_claimClosingDate new) (pc_claimClosingDate old) \<rparr>"

definition PixKeyClaimRepository_update :: "pix_key_claim \<Rightarrow> unit pix_step" where
  "PixKeyClaimRepository_update c = modifyS (\<lambda>w. w\<lparr>pixKeyClaims :=
     map (\<lambda>x. if pc_id x = pc_id c then merge_claim c x else x) (pixKeyClaims w)\<rparr>)"

definition PixKeyClaimRepository_create :: "pix_key_claim \<Rightarrow> unit pix_step" where
  "PixKeyClaimRepository_create c w =
     (case tbl_create pc_id PixUniqueConstraint c (pixKeyClaims w) of
        Inl e \<Rightarrow> (Inl e, w)
      | Inr t \<Rightarrow> (Inr (), w\<lparr>pixKeyClaims := t\<rparr>))"

text \<open>A claim entity that carries an id only.\<close>

definition claim_of :: "string \<Rightarrow> pix_key_claim" where
  "claim_of i = \<lparr> pc_id = i, pc_keyType = None, pc_key = None, pc_type = None, pc_status = None,
     pc_ispb = None, pc_document = None, pc_branch = None, pc_accountNumber = None, pc_personType = None,
     pc_finalResolutionDate = None, pc_finalCompleteDate = None, pc_lastChangeDate = None,
     pc_claimOpeningDate = None, pc_claimClosingDate = None \<rparr>"

definition PixKeyVerificationRepository_create :: "pix_key_verification \<Rightarrow> unit pix_step" where
  "PixKeyVerificationRepository_create v =
     modifyS (\<lambda>w. w\<lparr>pixKeyVerifications := pixKeyVerifications w @ [v]\<rparr>)"

definition countByPixKey :: "string \<Rightarrow> pix_world \<Rightarrow> nat" where
  "countByPixKey i w = length (filter (\<lambda>v. pv_pixKey v = i) (pixKeyVerifications w))"

definition deleteByPixKey :: "string \<Rightarrow> unit pix_step" where
  "deleteByPixKey i = modifyS (\<lambda>w. w\<lparr>pixKeyVerifications :=
     filter (\<lambda>v. pv_pixKey v \<noteq> i) (pixKeyVerifications w)\<rparr>)"

section \<open>The steps of the use cases\<close>

definition emitKey :: "pix_event_type \<Rightarrow> pix_key \<Rightarrow> claim_reason option \<Rightarrow> unit pix_step" where
  "emitKey e p reason = modifyS (\<lambda>w. w\<lparr>pixOutbox := pixOutbox w @
     [\<lparr> pe_type = e, pe_id = pk_id p, pe_state = pk_state p, pe_user = pk_user p,
        pe_reason = reason \<rparr>]\<rparr>)"

text \<open>A call of the gateway is logged, whatever the PSP answers.\<close>

definition callPsp :: "psp \<Rightarrow> psp_call \<Rightarrow> (psp_error + string option) pix_step" where
  "callPsp psp c w = (Inr (psp c), w\<lparr>pspCalls := pspCalls w @ [c]\<rparr>)"

definition gateway :: "psp \<Rightarrow> psp_call \<Rightarrow> string option pix_step" where
  "gateway psp c = bindS (callPsp psp c) (\<lambda>r.
     case r of Inl e \<Rightarrow> throwS (PspFailure e) | Inr x \<Rightarrow> returnS x)"

definition request_of :: "pix_key \<Rightarrow> create_request" where
  "request_of p = \<lparr> cr_key = pk_key p, cr_keyType = pk_type p, cr_personType = pk_personType p,
     cr_document = pk_document p, cr_name = pk_name p, cr_tradeName = pk_tradeName p,
     cr_branch = pk_branch p, cr_accountNumber = pk_accountNumber p,
     cr_accountOpeningDate = pk_accountOpeningDate p, cr_pixKeyId = pk_id p \<rparr>"

text \<open>\<open>if (...) throw new MissingDataException([...])\<close>\<close>

definition requireData :: "string list \<Rightarrow> unit pix_step" where
  "requireData names = (if names = [] then returnS () else throwS (PixMissingData names))"

definition loadById :: "string \<Rightarrow> pix_key pix_step" where
  "loadById i = readS (\<lambda>w. orThrow (getByIdAndStateIsNotCanceled i w) (PixKeyNotFound i))"

definition loadByUserAndId :: "string \<Rightarrow> string \<Rightarrow> pix_key pix_step" where
  "loadByUserAndId u i =
     readS (\<lambda>w. orThrow (getByUserAndIdAndStateIsNotCanceled u i w) (PixKeyNotFound i))"

text \<open>\<open>const [pixKey] = await ...getByKeyAndStateIsNotCanceled(key)\<close>: the first of the keys found.\<close>

definition loadByKey :: "string \<Rightarrow> pix_key pix_step" where
  "loadByKey k = readS (\<lambda>w. case getByKeyAndStateIsNotCanceled (Some k) w of
     [] \<Rightarrow> Inl (PixKeyNotFound k) | p # _ \<Rightarrow> Inr p)"

text \<open>
  The shape most use cases share: a key already in a state that counts as done is returned, a key in
  another state than expected is refused, else the key is changed, stored and announced.
\<close>

definition storeAndEmit ::
    "int \<Rightarrow> pix_key \<Rightarrow> pix_event_type \<Rightarrow> claim_reason option \<Rightarrow> pix_key pix_step" where
  "storeAndEmit now q e reason =
     bindS (PixKeyRepository_update now q) (\<lambda>_. bindS (emitKey e q reason) (\<lambda>_. returnS q))"

definition invalidState :: "pix_key \<Rightarrow> 'a pix_step" where
  "invalidState p = throwS (PixKeyInvalidState (pk_id p) (pk_state p))"

definition whenState ::
    "key_state list \<Rightarrow> key_state list \<Rightarrow> pix_key pix_step \<Rightarrow> pix_key \<Rightarrow> pix_key pix_step" where
  "whenState finished expected act p =
     (if List.member finished (pk_state p) then returnS p
      else if \<not> List.member expected (pk_state p) then invalidState p
      else act)"

text \<open>The claim of a key, \<open>pixKey.claim.id\<close>: a \<open>TypeError\<close> when there is none.\<close>

definition claimId :: "pix_key \<Rightarrow> string pix_step" where
  "claimId p = readS (\<lambda>_. orThrow (pk_claim p) PixTypeError)"

definition requireClaimId :: "pix_key \<Rightarrow> string pix_step" where
  "requireClaimId p = readS (\<lambda>_. orThrow (pk_claim p) (PixMissingData [''Pix Key Claim ID'']))"

definition needs :: "string \<Rightarrow> string \<Rightarrow> string list" where
  "needs value name = missing (value = []) name"

end
