(* ===== verification/Pix_Key_Registration.thy ===== *)
theory Pix_Key_Registration
  imports Pix_Key_Domain
begin

text \<open>
  Registering a pix key (apps/pix-keys/src/application/usecases): creating it, verifying the code of
  a phone or an e-mail, adding it to the directory, deleting and dismissing it, and the handlers of
  the events in between.
\<close>

section \<open>Formats and the users service\<close>

definition is_digit_char :: "char \<Rightarrow> bool" where
  "is_digit_char c \<longleftrightarrow> List.member ''0123456789'' c"

text \<open>\<open>/^\+([0-9]{13})$/\<close>\<close>

definition isMobilePhone :: "string option \<Rightarrow> bool" where
  "isMobilePhone x = (case x of
     Some (c # ds) \<Rightarrow> c = CHR ''+'' \<and> length ds = 13 \<and> list_all is_digit_char ds
   | _ \<Rightarrow> False)"

text \<open>\<open>value.replace(/\D/g, '')\<close>\<close>

definition only_digits :: "string \<Rightarrow> string" where
  "only_digits = filter is_digit_char"

definition formatPhone :: "string \<Rightarrow> string" where
  "formatPhone s = CHR ''+'' # only_digits s"

text \<open>The validators of class-validator and cpf-cnpj-validator.\<close>

record validators =
  v_isEmail :: "string \<Rightarrow> bool"
  v_isCpf :: "string \<Rightarrow> bool"
  v_isCnpj :: "string \<Rightarrow> bool"
  v_isUUID :: "string \<Rightarrow> bool"

definition holds :: "(string \<Rightarrow> bool) \<Rightarrow> string option \<Rightarrow> bool" where
  "holds f x = (case x of None \<Rightarrow> False | Some s \<Rightarrow> f s)"

text \<open>What the users service tells of a user.\<close>

record user_info =
  ui_type :: person_type
  ui_document :: string
  ui_fullName :: string
  ui_active :: bool

record onboarding =
  ob_accountNumber :: string
  ob_branch :: string
  ob_updatedAt :: int

record users_service =
  us_getUserByUuid :: "string \<Rightarrow> user_info option"
  us_getOnboarding :: "string \<Rightarrow> onboarding option"

record pix_config =
  naturalPersonMaxNumberOfKeys :: nat
  legalPersonMaxNumberOfKeys :: nat
  numberOfRetries :: nat

section \<open>Creating a key\<close>

definition max_keys_reached :: "pix_config \<Rightarrow> person_type \<Rightarrow> nat \<Rightarrow> nat option" where
  "max_keys_reached cfg t n =
    (if t = NATURAL_PERSON \<and> naturalPersonMaxNumberOfKeys cfg \<le> n
     then Some (naturalPersonMaxNumberOfKeys cfg)
     else if legalPersonMaxNumberOfKeys cfg \<le> n then Some (legalPersonMaxNumberOfKeys cfg)
     else None)"

definition new_pix_key ::
    "string \<Rightarrow> string \<Rightarrow> key_type \<Rightarrow> string option \<Rightarrow> user_info \<Rightarrow> onboarding \<Rightarrow> string \<Rightarrow> pix_key" where
  "new_pix_key i user t key u ob code =
    (let document = only_digits (ui_document u);
         confirm = List.member [PHONE, EMAIL] t
     in \<lparr> pk_id = i, pk_type = t,
          pk_key = (if confirm then key else if t = CPF then Some document else None),
          pk_personType = ui_type u, pk_document = document, pk_name = ui_fullName u,
          pk_tradeName = None, pk_user = user, pk_accountNumber = ob_accountNumber ob,
          pk_branch = ob_branch ob, pk_state = (if confirm then K_PENDING else K_CONFIRMED),
          pk_accountOpeningDate = ob_updatedAt ob, pk_code = (if confirm then Some code else None),
          pk_failed = None, pk_deletedByReason = None, pk_claim = None, pk_createdAt = 0,
          pk_updatedAt = 0, pk_canceledAt = None, pk_deletedAt = None \<rparr>)"

definition addNewPixKey ::
    "pix_config \<Rightarrow> validators \<Rightarrow> users_service \<Rightarrow> int \<Rightarrow> string \<Rightarrow> string \<Rightarrow> string \<Rightarrow> key_type
     \<Rightarrow> string option \<Rightarrow> pix_key pix_step" where
  "addNewPixKey cfg v us now code i user t key =
     bindS (readS (\<lambda>_. orThrow (us_getUserByUuid us user) (PixUserNotFound user))) (\<lambda>u.
     bindS (requireData (needs (ui_document u) ''Document'' @ needs (ui_fullName u) ''FullName'')) (\<lambda>_.
     bindS (readS (\<lambda>_. orThrow (us_getOnboarding us user) (PixOnboardingNotFound user))) (\<lambda>ob.
     bindS (requireData (needs (ob_accountNumber ob) ''AccountNumber'' @ needs (ob_branch ob) ''Branch'')) (\<lambda>_.
     if t = CPF \<and> \<not> holds (v_isCpf v) key then throwS (InvalidDocumentFormat key)
     else
     bindS (readS (\<lambda>w. case max_keys_reached cfg (ui_type u) (countByUserAndStateIsNotCanceled user w) of
              Some n \<Rightarrow> Inl (MaxNumberOfPixKeysReached n) | None \<Rightarrow> Inr ())) (\<lambda>_.
     let p = new_pix_key i user t key u ob code in
     bindS (readS (\<lambda>w. if t = EVP then Inr ()
              else case getByUserAndKeyAndStateIsNotCanceled user (pk_key p) w of
                     Some q \<Rightarrow> Inl (PixKeyAlreadyCreated (pk_id q)) | None \<Rightarrow> Inr ())) (\<lambda>_.
     bindS (PixKeyRepository_create now p) (\<lambda>q.
     bindS (emitKey (if pk_state q = K_CONFIRMED then E_CONFIRMED else E_PENDING) q None) (\<lambda>_.
     returnS q))))))))"

text \<open>\<open>code\<close> is what \<open>createRandomCode\<close> returns.\<close>

definition CreatePixKeyUseCase_execute ::
    "pix_config \<Rightarrow> validators \<Rightarrow> users_service \<Rightarrow> int \<Rightarrow> string \<Rightarrow> string \<Rightarrow> string option \<Rightarrow> key_type
     \<Rightarrow> string option \<Rightarrow> pix_key pix_step" where
  "CreatePixKeyUseCase_execute cfg v us now code i user t key =
    (case user of
       None \<Rightarrow> throwS (PixMissingData (needs i ''ID'' @ [''User'']))
     | Some u \<Rightarrow>
         if i = [] then throwS (PixMissingData [''ID''])
         else if t = CNPJ then throwS PixKeyUnsupportedCnpjType
         else if t = EMAIL \<and> \<not> holds (v_isEmail v) key then throwS (InvalidEmailFormat key)
         else if t = PHONE \<and> \<not> isMobilePhone key then throwS (InvalidPhoneNumberFormat key)
         else
           bindS (readS (\<lambda>w. Inr (getByIdAndStateIsNotCanceled i w))) (\<lambda>found.
           case found of
             Some p \<Rightarrow> if pk_user p \<noteq> u then throwS PixForbidden else returnS p
           | None \<Rightarrow> addNewPixKey cfg v us now code i u t key))"

section \<open>Verifying the code\<close>

text \<open>The user and the id of a request, and further names that are missing.\<close>

definition loadForUser :: "string option \<Rightarrow> string \<Rightarrow> string list \<Rightarrow> pix_key pix_step" where
  "loadForUser user i names =
    (case user of
       None \<Rightarrow> throwS (PixMissingData ([''User''] @ needs i ''ID'' @ names))
     | Some u \<Rightarrow> bindS (requireData (needs i ''ID'' @ names)) (\<lambda>_. loadByUserAndId u i))"

definition SendCodePixKeyUseCase_execute :: "int \<Rightarrow> string \<Rightarrow> string option \<Rightarrow> string \<Rightarrow> unit pix_step" where
  "SendCodePixKeyUseCase_execute now code user i =
     bindS (loadForUser user i []) (\<lambda>p.
     if \<not> isSendCodeState p then invalidState p
     else if \<not> isSendCodeType p then throwS (PixKeyInvalidType (pk_id p) (pk_type p))
     else if pk_key p = None \<or> pk_code p = None then throwS (PixNullPointer (pk_id p))
     else
       bindS (deleteByPixKey (pk_id p)) (\<lambda>_.
       bindS (PixKeyRepository_update now (p\<lparr>pk_code := Some code\<rparr>)) (\<lambda>_.
       modifyS (\<lambda>w. w\<lparr>notifications := notifications w @ [(pk_id p, Some code)]\<rparr>))))"

definition verified_state :: "bool \<Rightarrow> bool \<Rightarrow> key_state \<Rightarrow> key_state" where
  "verified_state ok final s =
    (if ok then (case s of K_PENDING \<Rightarrow> K_CONFIRMED | K_CLAIM_PENDING \<Rightarrow> K_CLAIM_DENIED | _ \<Rightarrow> s)
     else if final then
       (case s of K_PENDING \<Rightarrow> K_NOT_CONFIRMED | K_CLAIM_PENDING \<Rightarrow> K_CLAIM_NOT_CONFIRMED | _ \<Rightarrow> s)
     else s)"

definition emitVerified :: "pix_key \<Rightarrow> claim_reason option \<Rightarrow> unit pix_step" where
  "emitVerified p reason =
    (case pk_state p of
       K_NOT_CONFIRMED \<Rightarrow> emitKey E_NOT_CONFIRMED p None
     | K_CLAIM_DENIED \<Rightarrow> emitKey E_CLAIM_DENIED p reason
     | K_CONFIRMED \<Rightarrow> emitKey E_CONFIRMED p None
     | K_CLAIM_NOT_CONFIRMED \<Rightarrow> emitKey E_CLAIM_NOT_CONFIRMED p None
     | _ \<Rightarrow> returnS ())"

definition VerifyCodePixKeyUseCase_execute ::
    "pix_config \<Rightarrow> int \<Rightarrow> string option \<Rightarrow> string \<Rightarrow> string \<Rightarrow> claim_reason option \<Rightarrow> pix_key pix_step" where
  "VerifyCodePixKeyUseCase_execute cfg now user i code reason =
    (case user of
       None \<Rightarrow> throwS (PixMissingData ([''User''] @ needs i ''id'' @ needs code ''code''
                 @ missing (reason = None) ''reason''))
     | Some u \<Rightarrow>
         if i = [] \<or> code = [] then
           throwS (PixMissingData (needs i ''id'' @ needs code ''code'' @ missing (reason = None) ''reason''))
         else
           bindS (loadByUserAndId u i) (\<lambda>p.
           if \<not> isVerifiedCodeState p then invalidState p
           else
             bindS (readS (\<lambda>w. Inr (countByPixKey (pk_id p) w))) (\<lambda>pastRetries.
             if numberOfRetries cfg \<le> pastRetries
             then throwS (PixKeyVerificationOverflow (pk_id p) pastRetries)
             else
               let ok = isVerifiedCodeValue p code;
                   q = p\<lparr>pk_state := verified_state ok (pastRetries + 1 = numberOfRetries cfg) (pk_state p)\<rparr>
               in bindS (PixKeyVerificationRepository_create \<lparr> pv_pixKey = pk_id p, pv_code = code,
                           pv_state = (if ok then V_OK else V_FAILED) \<rparr>) (\<lambda>_.
                  bindS (PixKeyRepository_update now q) (\<lambda>_.
                  bindS (emitVerified q reason) (\<lambda>_. returnS q))))))"

definition CancelCodePixKeyUseCase_execute ::
    "int \<Rightarrow> string option \<Rightarrow> string \<Rightarrow> claim_reason option \<Rightarrow> pix_key pix_step" where
  "CancelCodePixKeyUseCase_execute now user i reason =
    (if user = None \<or> i = [] then
       throwS (PixMissingData (missing (user = None) ''User'' @ needs i ''ID'' @ missing (reason = None) ''Reason''))
     else
       bindS (loadForUser user i []) (\<lambda>p.
       if pk_state p = K_CLAIM_CLOSING then returnS p
       else if \<not> isCancelValidationType p then throwS (PixKeyInvalidType (pk_id p) (pk_type p))
       else if \<not> isCancelValidationState p then invalidState p
       else
         let q = (case pk_state p of
                    K_PENDING \<Rightarrow> p\<lparr>pk_state := K_CANCELED, pk_canceledAt := Some now\<rparr>
                  | K_CLAIM_PENDING \<Rightarrow> p\<lparr>pk_state := K_CLAIM_CLOSING\<rparr>
                  | _ \<Rightarrow> p)
         in bindS (PixKeyRepository_update now q) (\<lambda>_.
            bindS (case pk_state q of
                     K_CANCELED \<Rightarrow> emitKey E_CANCELED q None
                   | K_CLAIM_CLOSING \<Rightarrow> emitKey E_CLAIM_CLOSING q reason
                   | _ \<Rightarrow> returnS ()) (\<lambda>_. returnS q))))"

section \<open>Dismissing and deleting\<close>

definition dismissed :: "int \<Rightarrow> pix_key \<Rightarrow> pix_key option" where
  "dismissed now p =
    (case pk_state p of
       K_CLAIM_NOT_CONFIRMED \<Rightarrow> Some (p\<lparr>pk_state := K_CLAIM_PENDING\<rparr>)
     | s \<Rightarrow>
         if List.member [K_NOT_CONFIRMED, K_PORTABILITY_REQUEST_AUTO_CONFIRMED, K_PORTABILITY_CANCELED,
              K_OWNERSHIP_CANCELED, K_CLAIM_CLOSED, K_DELETED, K_OWNERSHIP_CONFLICT] s
         then Some (p\<lparr>pk_state := K_CANCELED, pk_canceledAt := Some now\<rparr>)
         else if List.member [K_PORTABILITY_READY, K_OWNERSHIP_READY, K_ADD_KEY_READY] s
         then Some (p\<lparr>pk_state := K_READY\<rparr>)
         else None)"

definition emitDismissed :: "pix_key \<Rightarrow> unit pix_step" where
  "emitDismissed p =
    (case pk_state p of
       K_CLAIM_PENDING \<Rightarrow> emitKey E_CLAIM_PENDING p None
     | K_READY \<Rightarrow> emitKey E_READY p None
     | K_CANCELED \<Rightarrow> emitKey E_CANCELED p None
     | _ \<Rightarrow> returnS ())"

definition DismissByIdPixKeyUseCase_execute :: "int \<Rightarrow> string option \<Rightarrow> string \<Rightarrow> pix_key pix_step" where
  "DismissByIdPixKeyUseCase_execute now user i =
     bindS (loadForUser user i []) (\<lambda>p.
     case dismissed now p of
       None \<Rightarrow> invalidState p
     | Some q \<Rightarrow>
         bindS (PixKeyRepository_update now q) (\<lambda>_.
         bindS (emitDismissed q) (\<lambda>_. returnS q)))"

definition DeleteByIdPixKeyUseCase_execute ::
    "int \<Rightarrow> string option \<Rightarrow> string \<Rightarrow> pix_key_reason option \<Rightarrow> pix_key pix_step" where
  "DeleteByIdPixKeyUseCase_execute now user i reason =
     bindS (loadForUser user i (missing (reason = None) ''Reason'')) (\<lambda>p.
     if pk_state p = K_DELETING then returnS p
     else if \<not> isReadyState p \<and> pk_state p \<noteq> K_ERROR then invalidState p
     else storeAndEmit now (p\<lparr>pk_state := K_DELETING, pk_deletedByReason := reason\<rparr>) E_DELETING None)"

section \<open>Handlers of the events\<close>

definition loadEvent :: "string \<Rightarrow> string list \<Rightarrow> pix_key pix_step" where
  "loadEvent i names = bindS (requireData (needs i ''ID'' @ names)) (\<lambda>_. loadById i)"

definition set_state :: "key_state \<Rightarrow> pix_key \<Rightarrow> pix_key" where
  "set_state s p = p\<lparr>pk_state := s\<rparr>"

definition addPortabilityPendingPixKey :: "int \<Rightarrow> pix_key \<Rightarrow> pix_key pix_step" where
  "addPortabilityPendingPixKey now p =
     storeAndEmit now (set_state K_PORTABILITY_PENDING p) E_PORTABILITY_PENDING None"

definition addOwnershipPendingPixKey :: "int \<Rightarrow> pix_key \<Rightarrow> pix_key pix_step" where
  "addOwnershipPendingPixKey now p =
     storeAndEmit now (set_state K_OWNERSHIP_PENDING p) E_OWNERSHIP_PENDING None"

text \<open>The other keys with the same value, without those canceled or still pending.\<close>

definition foundOtherKeys :: "pix_key \<Rightarrow> pix_world \<Rightarrow> pix_key list" where
  "foundOtherKeys p w =
     filter (\<lambda>q. pk_state q \<noteq> K_PENDING)
       (filter (\<lambda>q. \<not> isCanceledState q)
         (filter (\<lambda>q. pk_id q \<noteq> pk_id p) (getByKeyAndStateIsNotCanceled (pk_key p) w)))"

definition addAtPsp :: "validators \<Rightarrow> psp \<Rightarrow> int \<Rightarrow> pix_key \<Rightarrow> pix_key pix_step" where
  "addAtPsp v psp now p =
     bindS (callPsp psp (CreatePixKey (request_of p))) (\<lambda>answer.
     case answer of
       Inl PixKeyOwnedByThirdPersonPsp \<Rightarrow> addOwnershipPendingPixKey now p
     | Inl PixKeyOwnedBySamePersonPsp \<Rightarrow> addPortabilityPendingPixKey now p
     | Inl (OtherPspError e) \<Rightarrow> throwS (PspFailure (OtherPspError e))
     | Inr key \<Rightarrow>
         if pk_type p = EVP \<and> (key = None \<or> key = Some []) then throwS (PixMissingData [''Pix key''])
         else if pk_type p = EVP \<and> \<not> holds (v_isUUID v) key then throwS (PixInvalidDataFormat [''Pix key''])
         else storeAndEmit now
                (p\<lparr>pk_key := (if pk_type p = EVP then key else pk_key p), pk_state := K_ADD_KEY_READY\<rparr>)
                E_ADD_READY None)"

definition addConfirmedPixKey :: "validators \<Rightarrow> psp \<Rightarrow> int \<Rightarrow> pix_key \<Rightarrow> pix_key pix_step" where
  "addConfirmedPixKey v psp now p =
    (if isSendCodeType p then
       bindS (readS (\<lambda>w. Inr (foundOtherKeys p w))) (\<lambda>found.
       let readyKeys = filter isReadyState found;
           notReadyKeys = filter (\<lambda>q. \<not> isReadyState q) found
       in if notReadyKeys \<noteq> [] \<or> length readyKeys > 1
          then storeAndEmit now (set_state K_OWNERSHIP_CONFLICT p) E_OWNERSHIP_CONFLICT None
          else if readyKeys \<noteq> [] then addOwnershipPendingPixKey now p
          else addAtPsp v psp now p)
     else addAtPsp v psp now p)"

definition HandleConfirmedPixKeyEventUseCase_execute ::
    "validators \<Rightarrow> psp \<Rightarrow> int \<Rightarrow> string \<Rightarrow> pix_key pix_step" where
  "HandleConfirmedPixKeyEventUseCase_execute v psp now i =
     bindS (loadEvent i []) (\<lambda>p.
     whenState [K_ADD_KEY_READY] [K_CONFIRMED] (addConfirmedPixKey v psp now p) p)"

definition HandleConfirmedFailedPixKeyEventUseCase_execute ::
    "int \<Rightarrow> string \<Rightarrow> (string \<times> string) option \<Rightarrow> pix_key pix_step" where
  "HandleConfirmedFailedPixKeyEventUseCase_execute now i failed =
     bindS (loadEvent i []) (\<lambda>p.
     whenState [K_ERROR] [K_CONFIRMED]
       (storeAndEmit now (p\<lparr>pk_state := K_ERROR, pk_failed := failed\<rparr>) E_ERROR None) p)"

definition HandleDeletingPixKeyEventUseCase_execute :: "psp \<Rightarrow> int \<Rightarrow> string \<Rightarrow> pix_key pix_step" where
  "HandleDeletingPixKeyEventUseCase_execute psp now i =
     bindS (loadEvent i []) (\<lambda>p.
     whenState [K_DELETED] [K_DELETING]
       (bindS (gateway psp (DeletePixKey (pk_key p) (pk_id p))) (\<lambda>_.
        storeAndEmit now (p\<lparr>pk_state := K_DELETED, pk_deletedAt := Some now\<rparr>) E_DELETED None)) p)"

definition HandleDeletingFailedPixKeyEventUseCase_execute :: "int \<Rightarrow> string \<Rightarrow> pix_key pix_step" where
  "HandleDeletingFailedPixKeyEventUseCase_execute now i =
     bindS (loadEvent i []) (\<lambda>p.
     whenState [K_DELETED] [K_DELETING]
       (storeAndEmit now (p\<lparr>pk_state := K_DELETED, pk_deletedAt := Some now\<rparr>) E_DELETED None) p)"

text \<open>A key that is gone or has moved on is left alone.\<close>

definition expireWhen ::
    "(pix_key \<Rightarrow> bool) \<Rightarrow> (pix_key \<Rightarrow> pix_key pix_step) \<Rightarrow> string \<Rightarrow> pix_key option pix_step" where
  "expireWhen c act i =
     bindS (requireData (needs i ''ID'')) (\<lambda>_.
     bindS (readS (\<lambda>w. Inr (getByIdAndStateIsNotCanceled i w))) (\<lambda>found.
     case found of
       None \<Rightarrow> returnS None
     | Some p \<Rightarrow> if c p then bindS (act p) (\<lambda>q. returnS (Some q)) else returnS (Some p)))"

definition cancelExpired :: "int \<Rightarrow> pix_key \<Rightarrow> pix_key pix_step" where
  "cancelExpired now p =
     storeAndEmit now (p\<lparr>pk_state := K_CANCELED, pk_canceledAt := Some now\<rparr>) E_CANCELED None"

definition HandlePendingExpiredPixKeyUseCase_execute :: "int \<Rightarrow> string \<Rightarrow> pix_key option pix_step" where
  "HandlePendingExpiredPixKeyUseCase_execute now =
     expireWhen (\<lambda>p. pk_state p = K_PENDING \<and> isCancelValidationType p) (cancelExpired now)"

text \<open>The crons that announce keys left pending for longer than \<open>timestamp\<close> seconds.\<close>

definition announceExpired :: "key_state \<Rightarrow> pix_event_type \<Rightarrow> int \<Rightarrow> int \<Rightarrow> pix_key list pix_step" where
  "announceExpired s e timestamp now =
     bindS (readS (\<lambda>w. Inr (getByLessUpdatedAtAndStateIn (now - 1000 * timestamp) [s] w))) (\<lambda>ps.
     bindS (foldS (\<lambda>p. emitKey e p None) ps) (\<lambda>_. returnS ps))"

definition SyncPendingExpiredPixKeyUseCase_execute :: "int \<Rightarrow> int \<Rightarrow> pix_key list pix_step" where
  "SyncPendingExpiredPixKeyUseCase_execute = announceExpired K_PENDING E_PENDING_EXPIRED"

end
