(* ===== verification/Pix_Key_Claims.thy ===== *)
theory Pix_Key_Claims
  imports Pix_Key_Registration
begin

text \<open>
  Claims of pix keys (apps/pix-keys/src/application/usecases): a user who moves a key here from
  another institution (portability), a user who claims a key of somebody else (ownership), and the
  two sides of giving a key away; then the controller that dispatches the claims the PSP reports
  and the crons.
\<close>

section \<open>Claiming the ownership of a key\<close>

definition ApproveOwnershipClaimStartProcessUseCase_execute ::
    "int \<Rightarrow> string option \<Rightarrow> string \<Rightarrow> pix_key pix_step" where
  "ApproveOwnershipClaimStartProcessUseCase_execute now user i =
     bindS (loadForUser user i []) (\<lambda>p.
     whenState [K_OWNERSHIP_OPENED] [K_OWNERSHIP_PENDING]
       (storeAndEmit now (set_state K_OWNERSHIP_OPENED p) E_OWNERSHIP_OPENED None) p)"

text \<open>
  When another key of the same value is known here, its owner is asked and no claim is opened at
  the PSP. The other key is the first one that is not being claimed itself.
\<close>

definition startOwnership :: "psp \<Rightarrow> int \<Rightarrow> pix_key \<Rightarrow> pix_key pix_step" where
  "startOwnership psp now p =
     bindS (readS (\<lambda>w. Inr (find (\<lambda>q. pk_state q \<noteq> K_OWNERSHIP_OPENED)
              (getByKeyAndStateIsNotCanceled (pk_key p) w)))) (\<lambda>third.
     case third of
       Some q \<Rightarrow>
         if \<not> isReadyState q \<and> \<not> isCanceledState q then invalidState q
         else
           bindS (storeAndEmit now (set_state K_CLAIM_PENDING q) E_CLAIM_PENDING None) (\<lambda>_.
           let r = set_state K_OWNERSHIP_WAITING p in
           bindS (emitKey E_OWNERSHIP_WAITING r None) (\<lambda>_.
           bindS (PixKeyRepository_update now r) (\<lambda>_. returnS r)))
     | None \<Rightarrow>
         bindS (gateway psp (CreateOwnershipClaim (request_of p))) (\<lambda>claim.
         let r = p\<lparr>pk_claim := claim, pk_state := K_OWNERSHIP_STARTED\<rparr> in
         bindS (emitKey E_OWNERSHIP_STARTED r None) (\<lambda>_.
         bindS (PixKeyRepository_update now r) (\<lambda>_. returnS r))))"

definition HandleOwnershipOpenedPixKeyEventUseCase_execute :: "psp \<Rightarrow> int \<Rightarrow> string \<Rightarrow> pix_key pix_step" where
  "HandleOwnershipOpenedPixKeyEventUseCase_execute psp now i =
     bindS (loadEvent i []) (\<lambda>p.
     whenState [K_OWNERSHIP_STARTED] [K_OWNERSHIP_OPENED] (startOwnership psp now p) p)"

definition HandleOwnershipOpenedFailedPixKeyEventUseCase_execute :: "int \<Rightarrow> string \<Rightarrow> pix_key pix_step" where
  "HandleOwnershipOpenedFailedPixKeyEventUseCase_execute now i =
     bindS (loadEvent i []) (\<lambda>p.
     whenState [K_OWNERSHIP_STARTED] [K_OWNERSHIP_OPENED]
       (storeAndEmit now (set_state K_ERROR p) E_ERROR None) p)"

definition CancelingOwnershipClaimProcessUseCase_execute ::
    "int \<Rightarrow> string option \<Rightarrow> string \<Rightarrow> claim_reason option \<Rightarrow> pix_key pix_step" where
  "CancelingOwnershipClaimProcessUseCase_execute now user i reason =
     bindS (loadForUser user i (missing (reason = None) ''Reason'')) (\<lambda>p.
     whenState [K_OWNERSHIP_CANCELING] [K_OWNERSHIP_WAITING]
       (storeAndEmit now (set_state K_OWNERSHIP_CANCELING p) E_OWNERSHIP_CANCELING reason) p)"

text \<open>Another key of the same value, whatever its state.\<close>

definition findOtherKey :: "pix_key \<Rightarrow> pix_world \<Rightarrow> pix_key option" where
  "findOtherKey p w = find (\<lambda>q. pk_id q \<noteq> pk_id p) (getByKeyAndStateIsNotCanceled (pk_key p) w)"

definition loadEventReason ::
    "string \<Rightarrow> claim_reason option \<Rightarrow> (pix_key \<Rightarrow> claim_reason \<Rightarrow> pix_key pix_step) \<Rightarrow> pix_key pix_step" where
  "loadEventReason i reason act =
    (case reason of
       None \<Rightarrow> throwS (PixMissingData (needs i ''ID'' @ [''Reason'']))
     | Some r \<Rightarrow> bindS (loadEvent i []) (\<lambda>p. act p r))"

definition cancelOwnership :: "psp \<Rightarrow> int \<Rightarrow> claim_reason \<Rightarrow> pix_key \<Rightarrow> pix_key pix_step" where
  "cancelOwnership psp now reason p =
     bindS (readS (\<lambda>w. Inr (findOtherKey p w))) (\<lambda>third.
     bindS (case third of
              Some q \<Rightarrow>
                if pk_state q \<noteq> K_CLAIM_PENDING then invalidState q
                else bindS (storeAndEmit now (set_state K_READY q) E_READY None) (\<lambda>_. returnS ())
            | None \<Rightarrow>
                bindS (requireClaimId p) (\<lambda>c.
                bindS (gateway psp (DeniedClaim (pk_key p) (pk_document p) c True reason)) (\<lambda>_.
                returnS ()))) (\<lambda>_.
     storeAndEmit now (set_state K_OWNERSHIP_CANCELED p) E_OWNERSHIP_CANCELED None))"

definition HandleOwnershipCancelingPixKeyEventUseCase_execute ::
    "psp \<Rightarrow> int \<Rightarrow> string \<Rightarrow> claim_reason option \<Rightarrow> pix_key pix_step" where
  "HandleOwnershipCancelingPixKeyEventUseCase_execute psp now i reason =
     loadEventReason i reason (\<lambda>p r.
     whenState [K_OWNERSHIP_CANCELED] [K_OWNERSHIP_CANCELING] (cancelOwnership psp now r p) p)"

definition HandleOwnershipCancelingFailedPixKeyEventUseCase_execute :: "int \<Rightarrow> string \<Rightarrow> pix_key pix_step" where
  "HandleOwnershipCancelingFailedPixKeyEventUseCase_execute now i =
     bindS (loadEvent i []) (\<lambda>p.
     whenState [K_ERROR] [K_OWNERSHIP_CANCELING] (storeAndEmit now (set_state K_ERROR p) E_ERROR None) p)"

definition HandleOwnershipPendingExpiredPixKeyUseCase_execute :: "int \<Rightarrow> string \<Rightarrow> pix_key option pix_step" where
  "HandleOwnershipPendingExpiredPixKeyUseCase_execute now =
     expireWhen (\<lambda>p. pk_state p = K_OWNERSHIP_PENDING) (cancelExpired now)"

text \<open>Unlike the expiry this cancellation is not announced.\<close>

definition cancelStart :: "key_state \<Rightarrow> int \<Rightarrow> string option \<Rightarrow> string \<Rightarrow> pix_key pix_step" where
  "cancelStart s now user i =
     bindS (loadForUser user i []) (\<lambda>p.
     if pk_state p \<noteq> s then invalidState p
     else
       let q = p\<lparr>pk_state := K_CANCELED, pk_canceledAt := Some now\<rparr>
       in bindS (PixKeyRepository_update now q) (\<lambda>_. returnS q))"

definition CancelStartClaimProcessByIdPixKeyUseCase_execute ::
    "int \<Rightarrow> string option \<Rightarrow> string \<Rightarrow> pix_key pix_step" where
  "CancelStartClaimProcessByIdPixKeyUseCase_execute = cancelStart K_OWNERSHIP_PENDING"

text \<open>The claims that the PSP reports are handled by the key's value.\<close>

definition loadClaimed :: "string \<Rightarrow> pix_key pix_step" where
  "loadClaimed k = bindS (requireData (needs k ''Key'')) (\<lambda>_. loadByKey k)"

text \<open>Store the key, then its claim with a date, then announce: a key without a claim makes it fail
  after it was stored.\<close>

definition storeWithClaim ::
    "(string \<Rightarrow> pix_key_claim) \<Rightarrow> int \<Rightarrow> pix_key \<Rightarrow> pix_event_type \<Rightarrow> pix_key pix_step" where
  "storeWithClaim claim now q e =
     bindS (PixKeyRepository_update now q) (\<lambda>_.
     bindS (claimId q) (\<lambda>c.
     bindS (PixKeyClaimRepository_update (claim c)) (\<lambda>_.
     bindS (emitKey e q None) (\<lambda>_. returnS q))))"

definition opened_claim :: "int \<Rightarrow> string \<Rightarrow> pix_key_claim" where
  "opened_claim now c = (claim_of c)\<lparr>pc_claimOpeningDate := Some now\<rparr>"

definition closed_claim :: "int \<Rightarrow> string \<Rightarrow> pix_key_claim" where
  "closed_claim now c = (claim_of c)\<lparr>pc_claimClosingDate := Some now\<rparr>"

definition WaitOwnershipClaimProcessUseCase_execute :: "int \<Rightarrow> string \<Rightarrow> pix_key pix_step" where
  "WaitOwnershipClaimProcessUseCase_execute now k =
     bindS (loadClaimed k) (\<lambda>p.
     whenState [K_OWNERSHIP_WAITING] [K_OWNERSHIP_STARTED]
       (storeWithClaim (opened_claim now) now (set_state K_OWNERSHIP_WAITING p) E_OWNERSHIP_WAITING) p)"

definition ConfirmOwnershipClaimProcessUseCase_execute :: "psp \<Rightarrow> int \<Rightarrow> string \<Rightarrow> pix_key pix_step" where
  "ConfirmOwnershipClaimProcessUseCase_execute psp now k =
     bindS (loadClaimed k) (\<lambda>p.
     whenState [K_OWNERSHIP_CONFIRMED] [K_OWNERSHIP_STARTED, K_OWNERSHIP_WAITING]
       (bindS (requireClaimId p) (\<lambda>c.
        bindS (gateway psp (FinishClaim (pk_key p) c)) (\<lambda>_.
        storeAndEmit now (set_state K_OWNERSHIP_CONFIRMED p) E_OWNERSHIP_CONFIRMED None))) p)"

definition CompleteOwnershipClaimProcessUseCase_execute :: "int \<Rightarrow> string \<Rightarrow> pix_key pix_step" where
  "CompleteOwnershipClaimProcessUseCase_execute now k =
     bindS (loadClaimed k) (\<lambda>p.
     whenState [K_OWNERSHIP_READY] [K_OWNERSHIP_STARTED, K_OWNERSHIP_WAITING, K_OWNERSHIP_CONFIRMED]
       (storeWithClaim (closed_claim now) now (set_state K_OWNERSHIP_READY p) E_OWNERSHIP_READY) p)"

definition CancelOwnershipClaimProcessUseCase_execute :: "int \<Rightarrow> string \<Rightarrow> pix_key pix_step" where
  "CancelOwnershipClaimProcessUseCase_execute now k =
     bindS (loadClaimed k) (\<lambda>p.
     whenState [K_OWNERSHIP_CANCELED] [K_OWNERSHIP_STARTED, K_OWNERSHIP_WAITING, K_OWNERSHIP_CONFIRMED]
       (storeWithClaim (closed_claim now) now (set_state K_OWNERSHIP_CANCELED p) E_OWNERSHIP_CANCELED) p)"

section \<open>Portability\<close>

definition ApprovePortabilityClaimStartProcessUseCase_execute ::
    "int \<Rightarrow> string option \<Rightarrow> string \<Rightarrow> pix_key pix_step" where
  "ApprovePortabilityClaimStartProcessUseCase_execute now user i =
     bindS (loadForUser user i []) (\<lambda>p.
     whenState [K_PORTABILITY_OPENED] [K_PORTABILITY_PENDING]
       (storeAndEmit now (set_state K_PORTABILITY_OPENED p) E_PORTABILITY_OPENED None) p)"

definition HandlePortabilityOpenedPixKeyEventUseCase_execute :: "psp \<Rightarrow> int \<Rightarrow> string \<Rightarrow> pix_key pix_step" where
  "HandlePortabilityOpenedPixKeyEventUseCase_execute psp now i =
     bindS (loadEvent i []) (\<lambda>p.
     whenState [K_PORTABILITY_STARTED] [K_PORTABILITY_OPENED]
       (bindS (gateway psp (CreatePortabilityClaim (request_of p))) (\<lambda>claim.
        storeAndEmit now (p\<lparr>pk_state := K_PORTABILITY_STARTED, pk_claim := claim\<rparr>)
          E_PORTABILITY_STARTED None)) p)"

definition HandlePortabilityOpenedFailedPixKeyEventUseCase_execute :: "int \<Rightarrow> string \<Rightarrow> pix_key pix_step" where
  "HandlePortabilityOpenedFailedPixKeyEventUseCase_execute now i =
     bindS (loadEvent i []) (\<lambda>p.
     whenState [K_PORTABILITY_STARTED, K_ERROR] [K_PORTABILITY_OPENED]
       (storeAndEmit now (set_state K_ERROR p) E_ERROR None) p)"

definition CancelingPortabilityClaimProcessUseCase_execute ::
    "int \<Rightarrow> string option \<Rightarrow> string \<Rightarrow> claim_reason option \<Rightarrow> pix_key pix_step" where
  "CancelingPortabilityClaimProcessUseCase_execute now user i reason =
     bindS (loadForUser user i (missing (reason = None) ''Reason'')) (\<lambda>p.
     whenState [K_PORTABILITY_CANCELING] [K_PORTABILITY_STARTED]
       (bindS (requireClaimId p) (\<lambda>c.
        bindS (readS (\<lambda>w. Inr (PixKeyClaimRepository_getById c w))) (\<lambda>claimFound.
        if (case claimFound of None \<Rightarrow> True | Some x \<Rightarrow> pc_status x \<noteq> Some CS_WAITING_RESOLUTION)
        then invalidState p
        else storeAndEmit now (set_state K_PORTABILITY_CANCELING p) E_PORTABILITY_CANCELING reason))) p)"

definition HandlePortabilityCancelingPixKeyEventUseCase_execute ::
    "psp \<Rightarrow> int \<Rightarrow> string \<Rightarrow> claim_reason option \<Rightarrow> pix_key pix_step" where
  "HandlePortabilityCancelingPixKeyEventUseCase_execute psp now i reason =
     loadEventReason i reason (\<lambda>p r.
     whenState [K_PORTABILITY_CANCELED] [K_PORTABILITY_CANCELING]
       (bindS (requireClaimId p) (\<lambda>c.
        bindS (gateway psp (CancelPortabilityClaim (pk_key p) (pk_document p) c True r)) (\<lambda>_.
        storeAndEmit now (set_state K_PORTABILITY_CANCELED p) E_PORTABILITY_CANCELED None))) p)"

definition HandlePortabilityCancelingFailedPixKeyEventUseCase_execute :: "int \<Rightarrow> string \<Rightarrow> pix_key pix_step" where
  "HandlePortabilityCancelingFailedPixKeyEventUseCase_execute now i =
     bindS (loadEvent i []) (\<lambda>p.
     whenState [K_ERROR] [K_PORTABILITY_CANCELING] (storeAndEmit now (set_state K_ERROR p) E_ERROR None) p)"

definition HandlePortabilityPendingExpiredPixKeyUseCase_execute :: "int \<Rightarrow> string \<Rightarrow> pix_key option pix_step" where
  "HandlePortabilityPendingExpiredPixKeyUseCase_execute now =
     expireWhen (\<lambda>p. pk_state p = K_PORTABILITY_PENDING) (cancelExpired now)"

definition CancelStartPortabilityProcessByIdPixKeyUseCase_execute ::
    "int \<Rightarrow> string option \<Rightarrow> string \<Rightarrow> pix_key pix_step" where
  "CancelStartPortabilityProcessByIdPixKeyUseCase_execute = cancelStart K_PORTABILITY_PENDING"

definition ConfirmPortabilityClaimProcessUseCase_execute :: "int \<Rightarrow> string \<Rightarrow> pix_key pix_step" where
  "ConfirmPortabilityClaimProcessUseCase_execute now k =
     bindS (loadClaimed k) (\<lambda>p.
     whenState [K_PORTABILITY_CONFIRMED] [K_PORTABILITY_STARTED]
       (storeAndEmit now (set_state K_PORTABILITY_CONFIRMED p) E_PORTABILITY_CONFIRMED None) p)"

definition CompletePortabilityClaimProcessUseCase_execute :: "int \<Rightarrow> string \<Rightarrow> pix_key pix_step" where
  "CompletePortabilityClaimProcessUseCase_execute now k =
     bindS (loadClaimed k) (\<lambda>p.
     whenState [K_PORTABILITY_READY] [K_PORTABILITY_STARTED, K_PORTABILITY_CONFIRMED]
       (storeWithClaim (closed_claim now) now (set_state K_PORTABILITY_READY p) E_PORTABILITY_READY) p)"

definition CancelPortabilityClaimProcessUseCase_execute :: "int \<Rightarrow> string \<Rightarrow> pix_key pix_step" where
  "CancelPortabilityClaimProcessUseCase_execute now k =
     bindS (loadClaimed k) (\<lambda>p.
     whenState [K_PORTABILITY_CANCELED] [K_PORTABILITY_STARTED, K_PORTABILITY_CONFIRMED]
       (storeWithClaim (closed_claim now) now (set_state K_PORTABILITY_CANCELED p) E_PORTABILITY_CANCELED) p)"

definition WaitPortabilityClaimProcessUseCase_execute :: "int \<Rightarrow> string \<Rightarrow> pix_key pix_step" where
  "WaitPortabilityClaimProcessUseCase_execute now k =
     bindS (loadClaimed k) (\<lambda>p.
     if pk_state p \<noteq> K_PORTABILITY_STARTED then invalidState p
     else
       bindS (claimId p) (\<lambda>c.
       bindS (PixKeyClaimRepository_update (opened_claim now c)) (\<lambda>_. returnS p)))"

section \<open>Giving a key to another institution\<close>

definition ReadyPortabilityClaimProcessUseCase_execute :: "bool \<Rightarrow> int \<Rightarrow> string \<Rightarrow> pix_key pix_step" where
  "ReadyPortabilityClaimProcessUseCase_execute autoApprovePortabilityRequest now k =
     bindS (loadClaimed k) (\<lambda>p.
     if List.member [K_PORTABILITY_REQUEST_PENDING, K_PORTABILITY_REQUEST_AUTO_CONFIRMED] (pk_state p)
     then returnS p
     else if \<not> isReadyState p then invalidState p
     else
       bindS (claimId p) (\<lambda>c.
       let q = set_state (if autoApprovePortabilityRequest then K_PORTABILITY_REQUEST_AUTO_CONFIRMED
                          else K_PORTABILITY_REQUEST_PENDING) p;
           claim = (if autoApprovePortabilityRequest
                    then (opened_claim now c)\<lparr>pc_claimClosingDate := Some now\<rparr>
                    else opened_claim now c)
       in bindS (emitKey (if autoApprovePortabilityRequest then E_PORTABILITY_REQUEST_AUTO_CONFIRMED
                          else E_PORTABILITY_REQUEST_PENDING) q None) (\<lambda>_.
          bindS (PixKeyClaimRepository_update claim) (\<lambda>_.
          bindS (PixKeyRepository_update now q) (\<lambda>_. returnS q)))))"

definition ApprovePortabilityClaimProcessUseCase_execute ::
    "int \<Rightarrow> string option \<Rightarrow> string \<Rightarrow> claim_reason option \<Rightarrow> pix_key pix_step" where
  "ApprovePortabilityClaimProcessUseCase_execute now user i reason =
     bindS (loadForUser user i (missing (reason = None) ''Reason'')) (\<lambda>p.
     whenState [K_PORTABILITY_REQUEST_CONFIRM_OPENED] [K_PORTABILITY_REQUEST_PENDING]
       (storeAndEmit now (set_state K_PORTABILITY_REQUEST_CONFIRM_OPENED p)
          E_PORTABILITY_REQUEST_CONFIRM_OPENED reason) p)"

definition CancelPortabilityRequestClaimProcessUseCase_execute ::
    "int \<Rightarrow> string option \<Rightarrow> string \<Rightarrow> claim_reason option \<Rightarrow> pix_key pix_step" where
  "CancelPortabilityRequestClaimProcessUseCase_execute now user i reason =
     bindS (loadForUser user i (missing (reason = None) ''Reason'')) (\<lambda>p.
     whenState [K_PORTABILITY_REQUEST_CANCEL_OPENED] [K_PORTABILITY_REQUEST_PENDING]
       (storeAndEmit now (set_state K_PORTABILITY_REQUEST_CANCEL_OPENED p)
          E_PORTABILITY_REQUEST_CANCEL_OPENED reason) p)"

text \<open>The claim of a key as the PSP reported it, with the document of the claimer.\<close>

definition reportedClaim :: "pix_key \<Rightarrow> (string \<times> string) pix_step" where
  "reportedClaim p =
     bindS (requireClaimId p) (\<lambda>c.
     readS (\<lambda>w. case PixKeyClaimRepository_getById c w of
       None \<Rightarrow> Inl (PixKeyClaimNotFound c)
     | Some x \<Rightarrow> (case pc_document x of
           None \<Rightarrow> Inl (PixKeyClaimNotFound c)
         | Some document \<Rightarrow> if document = [] then Inl (PixKeyClaimNotFound c) else Inr (pc_id x, document))))"

definition HandlePortabilityRequestCancelOpenedPixKeyEventUseCase_execute ::
    "psp \<Rightarrow> int \<Rightarrow> string \<Rightarrow> claim_reason option \<Rightarrow> pix_key pix_step" where
  "HandlePortabilityRequestCancelOpenedPixKeyEventUseCase_execute psp now i reason =
     loadEventReason i reason (\<lambda>p r.
     whenState [K_PORTABILITY_REQUEST_CANCEL_STARTED] [K_PORTABILITY_REQUEST_CANCEL_OPENED]
       (bindS (reportedClaim p) (\<lambda>(c, document).
        bindS (gateway psp (CancelPortabilityClaim (pk_key p) document c False r)) (\<lambda>_.
        storeAndEmit now (set_state K_PORTABILITY_REQUEST_CANCEL_STARTED p)
          E_PORTABILITY_REQUEST_CANCEL_STARTED None))) p)"

definition HandlePortabilityRequestCancelOpenedFailedPixKeyEventUseCase_execute ::
    "int \<Rightarrow> string \<Rightarrow> pix_key pix_step" where
  "HandlePortabilityRequestCancelOpenedFailedPixKeyEventUseCase_execute now i =
     bindS (loadEvent i []) (\<lambda>p.
     whenState [K_PORTABILITY_REQUEST_CANCEL_STARTED] [K_PORTABILITY_REQUEST_CANCEL_OPENED]
       (storeAndEmit now (set_state K_ERROR p) E_ERROR None) p)"

definition HandlePortabilityRequestCancelStartedPixKeyEventUseCase_execute ::
    "int \<Rightarrow> string \<Rightarrow> pix_key pix_step" where
  "HandlePortabilityRequestCancelStartedPixKeyEventUseCase_execute now i =
     bindS (loadEvent i []) (\<lambda>p.
     whenState [K_READY] [K_PORTABILITY_REQUEST_CANCEL_STARTED]
       (storeAndEmit now (set_state K_READY p) E_READY None) p)"

definition HandlePortabilityRequestConfirmOpenedPixKeyEventUseCase_execute ::
    "psp \<Rightarrow> int \<Rightarrow> string \<Rightarrow> claim_reason option \<Rightarrow> pix_key pix_step" where
  "HandlePortabilityRequestConfirmOpenedPixKeyEventUseCase_execute psp now i reason =
     loadEventReason i reason (\<lambda>p r.
     whenState [K_PORTABILITY_REQUEST_CONFIRM_STARTED] [K_PORTABILITY_REQUEST_CONFIRM_OPENED]
       (bindS (reportedClaim p) (\<lambda>(c, document).
        bindS (gateway psp (ConfirmPortabilityClaim (pk_key p) document c r)) (\<lambda>_.
        storeAndEmit now (set_state K_PORTABILITY_REQUEST_CONFIRM_STARTED p)
          E_PORTABILITY_REQUEST_CONFIRM_STARTED None))) p)"

definition HandlePortabilityRequestConfirmOpenedFailedPixKeyEventUseCase_execute ::
    "int \<Rightarrow> string \<Rightarrow> pix_key pix_step" where
  "HandlePortabilityRequestConfirmOpenedFailedPixKeyEventUseCase_execute now i =
     bindS (loadEvent i []) (\<lambda>p.
     whenState [K_PORTABILITY_REQUEST_CONFIRM_STARTED] [K_PORTABILITY_REQUEST_CONFIRM_OPENED]
       (storeAndEmit now (set_state K_ERROR p) E_ERROR None) p)"

text \<open>This handler reads canceled keys too. The claim is needed before anything is stored.\<close>

definition HandlePortabilityRequestConfirmStartedPixKeyEventUseCase_execute ::
    "int \<Rightarrow> string \<Rightarrow> pix_key pix_step" where
  "HandlePortabilityRequestConfirmStartedPixKeyEventUseCase_execute now i =
     bindS (requireData (needs i ''ID'')) (\<lambda>_.
     bindS (readS (\<lambda>w. orThrow (PixKeyRepository_getById i w) (PixKeyNotFound i))) (\<lambda>p.
     whenState [K_CANCELED] [K_PORTABILITY_REQUEST_CONFIRM_STARTED]
       (let q = p\<lparr>pk_state := K_CANCELED, pk_canceledAt := Some now\<rparr>
        in bindS (claimId p) (\<lambda>c.
           bindS (PixKeyRepository_update now q) (\<lambda>_.
           bindS (PixKeyClaimRepository_update (closed_claim now c)) (\<lambda>_.
           bindS (emitKey E_CANCELED q None) (\<lambda>_. returnS q))))) p))"

section \<open>Giving a key to another user\<close>

definition ReadyOwnershipClaimProcessUseCase_execute :: "int \<Rightarrow> string \<Rightarrow> pix_key pix_step" where
  "ReadyOwnershipClaimProcessUseCase_execute now k =
     bindS (loadClaimed k) (\<lambda>p.
     whenState [K_CLAIM_PENDING] PixKeyReadyStates
       (storeWithClaim (opened_claim now) now (set_state K_CLAIM_PENDING p) E_CLAIM_PENDING) p)"

definition HandleClaimPendingExpiredPixKeyEventUseCase_execute ::
    "int \<Rightarrow> string \<Rightarrow> claim_reason option \<Rightarrow> pix_key option pix_step" where
  "HandleClaimPendingExpiredPixKeyEventUseCase_execute now i reason =
    (if reason = None then throwS (PixMissingData (needs i ''ID'' @ [''Reason'']))
     else expireWhen (\<lambda>p. pk_state p = K_CLAIM_PENDING)
            (\<lambda>p. storeAndEmit now (set_state K_CLAIM_CLOSING p) E_CLAIM_CLOSING reason) i)"

text \<open>
  When the claimer is known here the key moves from one to the other at the PSP, by deleting and
  creating it; the trade name sent for the new owner is the old owner's. Else the claim is closed.
\<close>

definition closeClaim :: "psp \<Rightarrow> int \<Rightarrow> claim_reason \<Rightarrow> pix_key \<Rightarrow> pix_key pix_step" where
  "closeClaim psp now reason p =
     bindS (readS (\<lambda>w. Inr (findOtherKey p w))) (\<lambda>third.
     bindS (case third of
              Some q \<Rightarrow>
                if pk_state q \<noteq> K_OWNERSHIP_WAITING then invalidState q
                else
                  bindS (gateway psp (DeletePixKey (pk_key p) (pk_id p))) (\<lambda>_.
                  bindS (gateway psp (CreatePixKey ((request_of q)\<lparr>cr_tradeName := pk_tradeName p\<rparr>))) (\<lambda>_.
                  bindS (storeAndEmit now (set_state K_OWNERSHIP_READY q) E_OWNERSHIP_READY None) (\<lambda>_.
                  returnS ())))
            | None \<Rightarrow>
                bindS (reportedClaim p) (\<lambda>(c, document).
                bindS (gateway psp (ClosingClaim (pk_key p) document c reason)) (\<lambda>_. returnS ()))) (\<lambda>_.
     storeAndEmit now (set_state K_CLAIM_CLOSED p) E_CLAIM_CLOSED None))"

definition HandleClaimClosingPixKeyEventUseCase_execute ::
    "psp \<Rightarrow> int \<Rightarrow> string \<Rightarrow> claim_reason option \<Rightarrow> pix_key pix_step" where
  "HandleClaimClosingPixKeyEventUseCase_execute psp now i reason =
     loadEventReason i reason (\<lambda>p r.
     whenState [K_CLAIM_CLOSED] [K_CLAIM_CLOSING] (closeClaim psp now r p) p)"

definition HandleClaimClosingFailedPixKeyEventUseCase_execute :: "int \<Rightarrow> string \<Rightarrow> pix_key pix_step" where
  "HandleClaimClosingFailedPixKeyEventUseCase_execute now i =
     bindS (loadEvent i []) (\<lambda>p.
     whenState [K_ERROR] [K_CLAIM_CLOSING] (storeAndEmit now (set_state K_ERROR p) E_ERROR None) p)"

definition CompleteClosingClaimProcessUseCase_execute :: "int \<Rightarrow> string \<Rightarrow> pix_key pix_step" where
  "CompleteClosingClaimProcessUseCase_execute now k =
     bindS (loadClaimed k) (\<lambda>p.
     whenState [K_CLAIM_CLOSED] [K_CLAIM_CLOSING]
       (storeAndEmit now (set_state K_CLAIM_CLOSED p) E_CLAIM_CLOSED None) p)"

definition denyClaim :: "psp \<Rightarrow> int \<Rightarrow> claim_reason \<Rightarrow> pix_key \<Rightarrow> pix_key pix_step" where
  "denyClaim psp now reason p =
     bindS (readS (\<lambda>w. Inr (findOtherKey p w))) (\<lambda>third.
     bindS (case third of
              Some q \<Rightarrow>
                if pk_state q \<noteq> K_OWNERSHIP_WAITING then invalidState q
                else bindS (storeAndEmit now (set_state K_OWNERSHIP_CANCELED q) E_OWNERSHIP_CANCELED None)
                       (\<lambda>_. returnS ())
            | None \<Rightarrow>
                bindS (reportedClaim p) (\<lambda>(c, document).
                bindS (gateway psp (DeniedClaim (pk_key p) document c False reason)) (\<lambda>_. returnS ()))) (\<lambda>_.
     storeAndEmit now (set_state K_READY p) E_READY None))"

definition HandleClaimDeniedPixKeyEventUseCase_execute ::
    "psp \<Rightarrow> int \<Rightarrow> string \<Rightarrow> claim_reason option \<Rightarrow> pix_key pix_step" where
  "HandleClaimDeniedPixKeyEventUseCase_execute psp now i reason =
     loadEventReason i reason (\<lambda>p r.
     whenState [K_READY] [K_CLAIM_DENIED] (denyClaim psp now r p) p)"

definition HandleClaimDeniedFailedPixKeyEventUseCase_execute :: "int \<Rightarrow> string \<Rightarrow> pix_key pix_step" where
  "HandleClaimDeniedFailedPixKeyEventUseCase_execute now i =
     bindS (loadEvent i []) (\<lambda>p.
     whenState [K_ERROR] [K_CLAIM_DENIED] (storeAndEmit now (set_state K_ERROR p) E_ERROR None) p)"

end
