(* ===== verification/Pix_Key_Dispatch.thy ===== *)
theory Pix_Key_Dispatch
  imports Pix_Key_Claims
begin

text \<open>
  What drives the claims: the controller that receives a claim reported by the PSP and sends it to
  the use case for the state its key is in (interface/controllers/
  handle_receive_pix_key_claim_event.controller.ts), and the crons (sync_*.usecase.ts).
\<close>

section \<open>The claims the PSP reports\<close>

definition unit_step :: "'a pix_step \<Rightarrow> unit pix_step" where
  "unit_step m = bindS m (\<lambda>_. returnS ())"

text \<open>A reported claim: its id, the value of its key, its type and status.\<close>

record reported =
  rc_id :: string
  rc_key :: string
  rc_type :: claim_type
  rc_status :: claim_status

definition invalidFlow :: "reported \<Rightarrow> unit pix_step" where
  "invalidFlow c = throwS (InvalidPixKeyClaimFlow (rc_id c))"

definition handlePortabilityStarted :: "int \<Rightarrow> reported \<Rightarrow> unit pix_step" where
  "handlePortabilityStarted now c =
    (case rc_type c of
       CT_OWNERSHIP \<Rightarrow> invalidFlow c
     | CT_PORTABILITY \<Rightarrow>
         (case rc_status c of
            CS_CONFIRMED \<Rightarrow> unit_step (ConfirmPortabilityClaimProcessUseCase_execute now (rc_key c))
          | CS_CANCELLED \<Rightarrow> unit_step (CancelPortabilityClaimProcessUseCase_execute now (rc_key c))
          | CS_COMPLETED \<Rightarrow> unit_step (CompletePortabilityClaimProcessUseCase_execute now (rc_key c))
          | CS_WAITING_RESOLUTION \<Rightarrow> unit_step (WaitPortabilityClaimProcessUseCase_execute now (rc_key c))
          | CS_OPEN \<Rightarrow> returnS ()))"

definition handlePortabilityConfirmed :: "int \<Rightarrow> reported \<Rightarrow> unit pix_step" where
  "handlePortabilityConfirmed now c =
    (case rc_type c of
       CT_OWNERSHIP \<Rightarrow> invalidFlow c
     | CT_PORTABILITY \<Rightarrow>
         (case rc_status c of
            CS_CANCELLED \<Rightarrow> unit_step (CancelPortabilityClaimProcessUseCase_execute now (rc_key c))
          | CS_COMPLETED \<Rightarrow> unit_step (CompletePortabilityClaimProcessUseCase_execute now (rc_key c))
          | CS_WAITING_RESOLUTION \<Rightarrow> invalidFlow c
          | _ \<Rightarrow> returnS ()))"

definition handleOwnershipStarted :: "psp \<Rightarrow> int \<Rightarrow> reported \<Rightarrow> unit pix_step" where
  "handleOwnershipStarted psp now c =
    (case rc_type c of
       CT_PORTABILITY \<Rightarrow> invalidFlow c
     | CT_OWNERSHIP \<Rightarrow>
         (case rc_status c of
            CS_WAITING_RESOLUTION \<Rightarrow> unit_step (WaitOwnershipClaimProcessUseCase_execute now (rc_key c))
          | CS_CONFIRMED \<Rightarrow> unit_step (ConfirmOwnershipClaimProcessUseCase_execute psp now (rc_key c))
          | CS_CANCELLED \<Rightarrow> unit_step (CancelOwnershipClaimProcessUseCase_execute now (rc_key c))
          | CS_COMPLETED \<Rightarrow> unit_step (CompleteOwnershipClaimProcessUseCase_execute now (rc_key c))
          | CS_OPEN \<Rightarrow> returnS ()))"

definition handleOwnershipWaiting :: "psp \<Rightarrow> int \<Rightarrow> reported \<Rightarrow> unit pix_step" where
  "handleOwnershipWaiting psp now c =
    (case rc_type c of
       CT_PORTABILITY \<Rightarrow> invalidFlow c
     | CT_OWNERSHIP \<Rightarrow>
         (case rc_status c of
            CS_CONFIRMED \<Rightarrow> unit_step (ConfirmOwnershipClaimProcessUseCase_execute psp now (rc_key c))
          | CS_CANCELLED \<Rightarrow> unit_step (CancelOwnershipClaimProcessUseCase_execute now (rc_key c))
          | CS_COMPLETED \<Rightarrow> unit_step (CompleteOwnershipClaimProcessUseCase_execute now (rc_key c))
          | _ \<Rightarrow> returnS ()))"

definition handleOwnershipConfirmed :: "int \<Rightarrow> reported \<Rightarrow> unit pix_step" where
  "handleOwnershipConfirmed now c =
    (case rc_type c of
       CT_PORTABILITY \<Rightarrow> invalidFlow c
     | CT_OWNERSHIP \<Rightarrow>
         (case rc_status c of
            CS_COMPLETED \<Rightarrow> unit_step (CompleteOwnershipClaimProcessUseCase_execute now (rc_key c))
          | CS_CANCELLED \<Rightarrow> unit_step (CancelOwnershipClaimProcessUseCase_execute now (rc_key c))
          | _ \<Rightarrow> returnS ()))"

definition handleReady :: "int \<Rightarrow> reported \<Rightarrow> unit pix_step" where
  "handleReady now c =
    (if List.member [CS_COMPLETED, CS_CANCELLED] (rc_status c) then invalidFlow c
     else (case rc_type c of
             CT_OWNERSHIP \<Rightarrow> unit_step (ReadyOwnershipClaimProcessUseCase_execute now (rc_key c))
           | CT_PORTABILITY \<Rightarrow>
               unit_step (ReadyPortabilityClaimProcessUseCase_execute False now (rc_key c))))"

definition handleClaimClosing :: "int \<Rightarrow> reported \<Rightarrow> unit pix_step" where
  "handleClaimClosing now c =
    (if rc_status c = CS_CANCELLED \<or> rc_type c = CT_PORTABILITY then invalidFlow c
     else (case rc_status c of
             CS_COMPLETED \<Rightarrow> unit_step (CompleteClosingClaimProcessUseCase_execute now (rc_key c))
           | _ \<Rightarrow> returnS ()))"

definition dispatchClaim :: "psp \<Rightarrow> int \<Rightarrow> reported \<Rightarrow> key_state \<Rightarrow> unit pix_step" where
  "dispatchClaim psp now c s =
    (case s of
       K_PORTABILITY_STARTED \<Rightarrow> handlePortabilityStarted now c
     | K_PORTABILITY_CONFIRMED \<Rightarrow> handlePortabilityConfirmed now c
     | K_OWNERSHIP_STARTED \<Rightarrow> handleOwnershipStarted psp now c
     | K_OWNERSHIP_WAITING \<Rightarrow> handleOwnershipWaiting psp now c
     | K_OWNERSHIP_CONFIRMED \<Rightarrow> handleOwnershipConfirmed now c
     | K_READY \<Rightarrow> handleReady now c
     | K_ADD_KEY_READY \<Rightarrow> handleReady now c
     | K_PORTABILITY_READY \<Rightarrow> handleReady now c
     | K_OWNERSHIP_READY \<Rightarrow> handleReady now c
     | K_CLAIM_CLOSING \<Rightarrow> handleClaimClosing now c
     | _ \<Rightarrow> invalidFlow c)"

text \<open>The key is given the claim and stored before the claim is dispatched.\<close>

definition HandleReceiveReadyPixKeyClaimController_execute :: "psp \<Rightarrow> int \<Rightarrow> reported \<Rightarrow> unit pix_step" where
  "HandleReceiveReadyPixKeyClaimController_execute psp now c =
     bindS (loadByKey (rc_key c)) (\<lambda>p.
     bindS (PixKeyRepository_update now (p\<lparr>pk_claim := Some (rc_id c)\<rparr>)) (\<lambda>_.
     dispatchClaim psp now c (pk_state p)))"

section \<open>Crons\<close>

definition SyncOwnershipPendingExpiredPixKeyUseCase_execute :: "int \<Rightarrow> int \<Rightarrow> pix_key list pix_step" where
  "SyncOwnershipPendingExpiredPixKeyUseCase_execute =
     announceExpired K_OWNERSHIP_PENDING E_OWNERSHIP_PENDING_EXPIRED"

definition SyncPortabilityPendingExpiredPixKeyUseCase_execute :: "int \<Rightarrow> int \<Rightarrow> pix_key list pix_step" where
  "SyncPortabilityPendingExpiredPixKeyUseCase_execute =
     announceExpired K_PORTABILITY_PENDING E_PORTABILITY_PENDING_EXPIRED"

definition announceClaimExpired :: "claim_reason \<Rightarrow> int \<Rightarrow> pix_key \<Rightarrow> unit pix_step" where
  "announceClaimExpired reason filterDate p =
    (case pk_claim p of
       Some c \<Rightarrow>
         bindS (readS (\<lambda>w. Inr (getByIdAndLessOpeningDate c filterDate w))) (\<lambda>claim.
         if claim \<noteq> None then emitKey E_CLAIM_PENDING_EXPIRED p (Some reason) else returnS ())
     | None \<Rightarrow>
         if pk_updatedAt p \<le> filterDate then emitKey E_CLAIM_PENDING_EXPIRED p (Some reason)
         else returnS ())"

definition SyncClaimPendingExpiredPixKeyUseCase_execute ::
    "int \<Rightarrow> int \<Rightarrow> claim_reason option \<Rightarrow> pix_key list pix_step" where
  "SyncClaimPendingExpiredPixKeyUseCase_execute timestamp now reason =
    (case reason of
       None \<Rightarrow> throwS (PixMissingData [''Reason''])
     | Some r \<Rightarrow>
         bindS (readS (\<lambda>w. Inr (PixKeyRepository_getByState K_CLAIM_PENDING w))) (\<lambda>ps.
         bindS (foldS (announceClaimExpired r (now - 1000 * timestamp)) ps) (\<lambda>_. returnS ps)))"

definition confirmExpiredRequest :: "claim_reason \<Rightarrow> int \<Rightarrow> int \<Rightarrow> pix_key \<Rightarrow> unit pix_step" where
  "confirmExpiredRequest reason filterDate now p =
    (case pk_claim p of
       None \<Rightarrow> returnS ()
     | Some c \<Rightarrow>
         bindS (readS (\<lambda>w. Inr (getByIdAndLessOpeningDate c filterDate w))) (\<lambda>claim.
         if claim \<noteq> None
         then unit_step (storeAndEmit now (set_state K_PORTABILITY_REQUEST_CONFIRM_OPENED p)
                E_PORTABILITY_REQUEST_CONFIRM_OPENED (Some reason))
         else returnS ()))"

definition SyncPortabilityRequestPendingPixKeyUseCase_execute ::
    "int \<Rightarrow> int \<Rightarrow> claim_reason option \<Rightarrow> unit pix_step" where
  "SyncPortabilityRequestPendingPixKeyUseCase_execute timestamp now reason =
    (case reason of
       None \<Rightarrow> throwS (PixMissingData [''Reason''])
     | Some r \<Rightarrow>
         bindS (readS (\<lambda>w. Inr (PixKeyRepository_getByState K_PORTABILITY_REQUEST_PENDING w))) (\<lambda>ps.
         foldS (confirmExpiredRequest r (now - 1000 * timestamp) now) ps))"

section \<open>Fetching the claims of the PSP\<close>

text \<open>
  The loop asks the PSP for the claims changed in a window of days, always with the same body, until
  the answer says there are no more. It may run for ever, so its result is optional. \<open>getClaims\<close> is
  the PSP's answer to that body, at each turn of the loop.
\<close>

definition syncClaim :: "pix_key_claim \<Rightarrow> unit pix_step" where
  "syncClaim c =
     bindS (readS (\<lambda>w. Inr (PixKeyClaimRepository_getById (pc_id c) w))) (\<lambda>found.
     case found of
       None \<Rightarrow>
         bindS (PixKeyClaimRepository_create c) (\<lambda>_.
         modifyS (\<lambda>w. w\<lparr>pixClaimOutbox := pixClaimOutbox w @ [c]\<rparr>))
     | Some x \<Rightarrow>
         if pc_status x = pc_status c then returnS ()
         else
           bindS (PixKeyClaimRepository_update c) (\<lambda>_.
           modifyS (\<lambda>w. w\<lparr>pixClaimOutbox := pixClaimOutbox w @ [c]\<rparr>)))"

type_synonym claims_answer = "psp_error + bool \<times> pix_key_claim list"

partial_function (option) SyncGetAllPixKeyClaimUseCase_loop ::
    "(nat \<Rightarrow> claims_answer) \<Rightarrow> nat \<Rightarrow> pix_world \<Rightarrow> ((pix_exn + unit) \<times> pix_world) option" where
  "SyncGetAllPixKeyClaimUseCase_loop getClaims turn w =
    (case getClaims turn of
       Inl e \<Rightarrow> Some (Inl (PspFailure e), w)
     | Inr (hasMoreElements, claims) \<Rightarrow>
         (case foldS syncClaim claims w of
            (Inl e, w') \<Rightarrow> Some (Inl e, w')
          | (Inr _, w') \<Rightarrow>
              if hasMoreElements then SyncGetAllPixKeyClaimUseCase_loop getClaims (turn + 1) w'
              else Some (Inr (), w')))"

end
