(* ===== verification/Pix_Key_State.thy ===== *)
theory Pix_Key_State
  imports Pix_Key_Dispatch
begin

text \<open>
  The life of a pix key as a state machine: \<open>next_states\<close> is the specification, \<open>row_step\<close> what a
  request may do to a stored key and \<open>event_state\<close> the state that an event stands for. A use case
  \<open>moves\<close> when, from any database with the keys of \<open>w0\<close>, it leaves every key where it was or one step
  on, whether it returns or throws. The rules collected in \<open>moves_intros\<close> take a use case apart along
  its code.
\<close>

section \<open>The state machine\<close>

text \<open>Everything that is ready can be ported away, claimed or deleted.\<close>

definition after_ready :: "key_state list" where
  "after_ready = [K_DELETING, K_CLAIM_PENDING, K_PORTABILITY_REQUEST_PENDING,
     K_PORTABILITY_REQUEST_AUTO_CONFIRMED]"

text \<open>A canceled state can be dismissed; a claim by another user can still reach it.\<close>

definition after_canceled :: "key_state list" where
  "after_canceled = [K_CANCELED, K_CLAIM_PENDING]"

primrec next_states :: "key_state \<Rightarrow> key_state list" where
  "next_states K_PENDING = [K_CONFIRMED, K_NOT_CONFIRMED, K_CANCELED]"
| "next_states K_CONFIRMED = [K_ADD_KEY_READY, K_OWNERSHIP_CONFLICT, K_OWNERSHIP_PENDING,
     K_PORTABILITY_PENDING, K_ERROR]"
| "next_states K_NOT_CONFIRMED = after_canceled"
| "next_states K_ADD_KEY_READY = K_READY # after_ready"
| "next_states K_READY = after_ready"
| "next_states K_CANCELED = []"
| "next_states K_ERROR = [K_DELETING]"
| "next_states K_DELETING = [K_DELETED]"
| "next_states K_DELETED = [K_CANCELED]"
| "next_states K_PORTABILITY_PENDING = [K_PORTABILITY_OPENED, K_CANCELED]"
| "next_states K_PORTABILITY_OPENED = [K_PORTABILITY_STARTED, K_ERROR]"
| "next_states K_PORTABILITY_STARTED = [K_PORTABILITY_CONFIRMED, K_PORTABILITY_CANCELED,
     K_PORTABILITY_READY, K_PORTABILITY_CANCELING]"
| "next_states K_PORTABILITY_READY = K_READY # after_ready"
| "next_states K_PORTABILITY_CONFIRMED = [K_PORTABILITY_CANCELED, K_PORTABILITY_READY]"
| "next_states K_PORTABILITY_CANCELING = [K_PORTABILITY_CANCELED, K_ERROR]"
| "next_states K_PORTABILITY_CANCELED = after_canceled"
| "next_states K_PORTABILITY_REQUEST_PENDING = [K_PORTABILITY_REQUEST_CANCEL_OPENED,
     K_PORTABILITY_REQUEST_CONFIRM_OPENED]"
| "next_states K_PORTABILITY_REQUEST_CANCEL_OPENED = [K_PORTABILITY_REQUEST_CANCEL_STARTED, K_ERROR]"
| "next_states K_PORTABILITY_REQUEST_CANCEL_STARTED = [K_READY]"
| "next_states K_PORTABILITY_REQUEST_CONFIRM_OPENED = [K_PORTABILITY_REQUEST_CONFIRM_STARTED, K_ERROR]"
| "next_states K_PORTABILITY_REQUEST_CONFIRM_STARTED = after_canceled"
| "next_states K_PORTABILITY_REQUEST_AUTO_CONFIRMED = after_canceled"
| "next_states K_OWNERSHIP_PENDING = [K_OWNERSHIP_OPENED, K_CANCELED]"
| "next_states K_OWNERSHIP_OPENED = [K_OWNERSHIP_WAITING, K_OWNERSHIP_STARTED, K_ERROR]"
| "next_states K_OWNERSHIP_STARTED = [K_OWNERSHIP_WAITING, K_OWNERSHIP_CONFIRMED, K_OWNERSHIP_READY,
     K_OWNERSHIP_CANCELED]"
| "next_states K_OWNERSHIP_CONFIRMED = [K_OWNERSHIP_READY, K_OWNERSHIP_CANCELED]"
| "next_states K_OWNERSHIP_READY = K_READY # after_ready"
| "next_states K_OWNERSHIP_CANCELING = [K_OWNERSHIP_CANCELED, K_ERROR]"
| "next_states K_OWNERSHIP_CANCELED = after_canceled"
| "next_states K_OWNERSHIP_WAITING = [K_OWNERSHIP_CANCELING, K_OWNERSHIP_CONFIRMED, K_OWNERSHIP_READY,
     K_OWNERSHIP_CANCELED]"
| "next_states K_OWNERSHIP_CONFLICT = after_canceled"
| "next_states K_CLAIM_NOT_CONFIRMED = [K_CLAIM_PENDING]"
| "next_states K_CLAIM_PENDING = [K_CLAIM_NOT_CONFIRMED, K_CLAIM_DENIED, K_CLAIM_CLOSING, K_READY]"
| "next_states K_CLAIM_CLOSING = [K_CLAIM_CLOSED, K_ERROR]"
| "next_states K_CLAIM_DENIED = [K_READY, K_ERROR]"
| "next_states K_CLAIM_CLOSED = after_canceled"

definition may_become :: "key_state \<Rightarrow> key_state \<Rightarrow> bool" where
  "may_become s t \<longleftrightarrow> t = s \<or> List.member (next_states s) t"

definition initial_state :: "key_state \<Rightarrow> bool" where
  "initial_state s \<longleftrightarrow> s = K_PENDING \<or> s = K_CONFIRMED"

text \<open>Whose key it is and for which account. Only a random key gets its value later.\<close>

definition same_identity :: "pix_key \<Rightarrow> pix_key \<Rightarrow> bool" where
  "same_identity p q \<longleftrightarrow>
     pk_id q = pk_id p \<and> pk_type q = pk_type p \<and> pk_personType q = pk_personType p \<and>
     pk_document q = pk_document p \<and> pk_name q = pk_name p \<and> pk_user q = pk_user p \<and>
     pk_accountNumber q = pk_accountNumber p \<and> pk_branch q = pk_branch p \<and>
     pk_createdAt q = pk_createdAt p \<and>
     (pk_key q = pk_key p \<or>
      pk_type p = EVP \<and> pk_state p = K_CONFIRMED \<and> pk_state q = K_ADD_KEY_READY)"

definition row_step :: "pix_key \<Rightarrow> pix_key \<Rightarrow> bool" where
  "row_step p q \<longleftrightarrow> same_identity p q \<and> may_become (pk_state p) (pk_state q) \<and>
     (pk_state p = K_CANCELED \<longrightarrow> q = p)"

text \<open>The state an event tells of.\<close>

fun event_state :: "pix_event_type \<Rightarrow> key_state" where
  "event_state E_ERROR = K_ERROR"
| "event_state E_READY = K_READY"
| "event_state E_ADD_READY = K_ADD_KEY_READY"
| "event_state E_DELETED = K_DELETED"
| "event_state E_DELETING = K_DELETING"
| "event_state E_PENDING = K_PENDING"
| "event_state E_PENDING_EXPIRED = K_PENDING"
| "event_state E_CANCELED = K_CANCELED"
| "event_state E_CONFIRMED = K_CONFIRMED"
| "event_state E_NOT_CONFIRMED = K_NOT_CONFIRMED"
| "event_state E_CLAIM_PENDING = K_CLAIM_PENDING"
| "event_state E_CLAIM_PENDING_EXPIRED = K_CLAIM_PENDING"
| "event_state E_CLAIM_DENIED = K_CLAIM_DENIED"
| "event_state E_CLAIM_CLOSING = K_CLAIM_CLOSING"
| "event_state E_CLAIM_CLOSED = K_CLAIM_CLOSED"
| "event_state E_CLAIM_NOT_CONFIRMED = K_CLAIM_NOT_CONFIRMED"
| "event_state E_PORTABILITY_PENDING = K_PORTABILITY_PENDING"
| "event_state E_PORTABILITY_OPENED = K_PORTABILITY_OPENED"
| "event_state E_PORTABILITY_STARTED = K_PORTABILITY_STARTED"
| "event_state E_PORTABILITY_CONFIRMED = K_PORTABILITY_CONFIRMED"
| "event_state E_PORTABILITY_CANCELING = K_PORTABILITY_CANCELING"
| "event_state E_PORTABILITY_CANCELED = K_PORTABILITY_CANCELED"
| "event_state E_PORTABILITY_READY = K_PORTABILITY_READY"
| "event_state E_PORTABILITY_REQUEST_CANCEL_OPENED = K_PORTABILITY_REQUEST_CANCEL_OPENED"
| "event_state E_PORTABILITY_REQUEST_CANCEL_STARTED = K_PORTABILITY_REQUEST_CANCEL_STARTED"
| "event_state E_PORTABILITY_REQUEST_CONFIRM_OPENED = K_PORTABILITY_REQUEST_CONFIRM_OPENED"
| "event_state E_PORTABILITY_REQUEST_CONFIRM_STARTED = K_PORTABILITY_REQUEST_CONFIRM_STARTED"
| "event_state E_PORTABILITY_REQUEST_PENDING = K_PORTABILITY_REQUEST_PENDING"
| "event_state E_PORTABILITY_REQUEST_AUTO_CONFIRMED = K_PORTABILITY_REQUEST_AUTO_CONFIRMED"
| "event_state E_PORTABILITY_PENDING_EXPIRED = K_PORTABILITY_PENDING"
| "event_state E_OWNERSHIP_PENDING = K_OWNERSHIP_PENDING"
| "event_state E_OWNERSHIP_PENDING_EXPIRED = K_OWNERSHIP_PENDING"
| "event_state E_OWNERSHIP_OPENED = K_OWNERSHIP_OPENED"
| "event_state E_OWNERSHIP_STARTED = K_OWNERSHIP_STARTED"
| "event_state E_OWNERSHIP_WAITING = K_OWNERSHIP_WAITING"
| "event_state E_OWNERSHIP_CONFIRMED = K_OWNERSHIP_CONFIRMED"
| "event_state E_OWNERSHIP_CANCELING = K_OWNERSHIP_CANCELING"
| "event_state E_OWNERSHIP_CANCELED = K_OWNERSHIP_CANCELED"
| "event_state E_OWNERSHIP_READY = K_OWNERSHIP_READY"
| "event_state E_OWNERSHIP_CONFLICT = K_OWNERSHIP_CONFLICT"

definition truthful :: "pix_key_event \<Rightarrow> bool" where
  "truthful e \<longleftrightarrow> pe_state e = event_state (pe_type e)"

section \<open>The keys of a request\<close>

text \<open>The controller of claims may have given the key its claim, which changes no state.\<close>

definition untouched :: "pix_key \<Rightarrow> pix_key \<Rightarrow> bool" where
  "untouched p q \<longleftrightarrow> (\<exists>c t. q = p\<lparr>pk_claim := c, pk_updatedAt := t\<rparr>) \<and> (pk_state p = K_CANCELED \<longrightarrow> q = p)"

lemma untouched_refl [simp]: "untouched p p"
proof -
  have "p = p\<lparr>pk_claim := pk_claim p, pk_updatedAt := pk_updatedAt p\<rparr>" by (cases p) simp
  then show ?thesis unfolding untouched_def by blast
qed

lemma untouchedE:
  assumes "untouched p q"
  obtains c t where "q = p\<lparr>pk_claim := c, pk_updatedAt := t\<rparr>" and "pk_state p = K_CANCELED \<Longrightarrow> q = p"
  using assms unfolding untouched_def by blast

lemma untouched_fields:
  assumes "untouched p q"
  shows "pk_id q = pk_id p" "pk_state q = pk_state p"
    "row_step q r \<Longrightarrow> pk_state q \<noteq> K_CANCELED \<Longrightarrow> row_step p r"
  by (rule untouchedE [OF assms], simp add: row_step_def same_identity_def)+

lemma row_step_refl [simp]: "row_step p p"
  by (simp add: row_step_def same_identity_def may_become_def)

lemma row_step_id: "row_step p q \<Longrightarrow> pk_id q = pk_id p"
  by (simp add: row_step_def same_identity_def)

lemma untouched_row_step: "untouched p q \<Longrightarrow> row_step p q"
  by (erule untouchedE) (simp add: row_step_def same_identity_def may_become_def)

definition keysOk :: "(pix_key \<Rightarrow> pix_key \<Rightarrow> bool) \<Rightarrow> pix_world \<Rightarrow> pix_world \<Rightarrow> bool" where
  "keysOk R w0 w \<longleftrightarrow> tbl_wf pk_id (pixKeys w0) \<and> list_all2 R (pixKeys w0) (pixKeys w) \<and>
     (\<exists>es. pixOutbox w = pixOutbox w0 @ es \<and> list_all truthful es)"

definition known :: "pix_world \<Rightarrow> pix_key \<Rightarrow> bool" where
  "known w0 p \<longleftrightarrow> pk_state p \<noteq> K_CANCELED \<and> (\<exists>p0 \<in> set (pixKeys w0). untouched p0 p)"

definition weaker :: "(pix_key \<Rightarrow> pix_key \<Rightarrow> bool) \<Rightarrow> bool" where
  "weaker R \<longleftrightarrow> R \<le> row_step"

definition moves :: "pix_world \<Rightarrow> (pix_key \<Rightarrow> pix_key \<Rightarrow> bool) \<Rightarrow> 'a pix_step \<Rightarrow> bool" where
  "moves w0 R f \<longleftrightarrow> weaker R \<longrightarrow> valid (keysOk R w0) f (\<lambda>_. keysOk row_step w0) (keysOk row_step w0)"

definition neutral :: "'a pix_step \<Rightarrow> bool" where
  "neutral m \<longleftrightarrow> (\<forall>w. pixKeys (snd (m w)) = pixKeys w \<and> pixOutbox (snd (m w)) = pixOutbox w)"

named_theorems moves_intros \<open>rules that take a use case apart\<close>

lemma weaker_simps [simp]: "weaker row_step" "weaker untouched"
  by (auto simp: weaker_def untouched_row_step)

lemma keysOk_start: "tbl_wf pk_id (pixKeys w) \<Longrightarrow> keysOk untouched w w"
  by (simp add: keysOk_def list_all2_same)

lemma keysOk_mono: "keysOk R w0 w \<Longrightarrow> weaker R \<Longrightarrow> keysOk row_step w0 w"
  by (auto simp: keysOk_def weaker_def intro: list_all2_mono)

lemma knownI:
  assumes "keysOk untouched w0 w" and "q \<in> set (pixKeys w)" and "pk_state q \<noteq> K_CANCELED"
  shows "known w0 q"
proof -
  from assms(1) have rel: "list_all2 untouched (pixKeys w0) (pixKeys w)" by (simp add: keysOk_def)
  from assms(2) obtain n where "n < length (pixKeys w)" "q = pixKeys w ! n"
    by (auto simp: in_set_conv_nth)
  with rel have "pixKeys w0 ! n \<in> set (pixKeys w0)" "untouched (pixKeys w0 ! n) q"
    by (simp_all add: list_all2_conv_all_nth)
  with assms(3) show ?thesis unfolding known_def by blast
qed

text \<open>The write of a row that is one step from a row of the start.\<close>

lemma put_key_ok:
  assumes ok: "keysOk R w0 w" and "weaker R" and "known w0 p" and step: "row_step p q"
  shows "keysOk row_step w0 (put_key now q w)"
proof -
  from assms(3) obtain p0 where p0: "p0 \<in> set (pixKeys w0)" "untouched p0 p" "pk_state p \<noteq> K_CANCELED"
    unfolding known_def by blast
  have q: "row_step p (q\<lparr>pk_updatedAt := now\<rparr>)"
    using step p0(3) by (simp add: row_step_def same_identity_def)
  have id: "pk_id (q\<lparr>pk_updatedAt := now\<rparr>) = pk_id p0"
    using row_step_id [OF q] untouched_fields(1) [OF p0(2)] by simp
  have "list_all2 row_step (pixKeys w0) (pixKeys w)" "tbl_wf pk_id (pixKeys w0)"
    using keysOk_mono [OF ok assms(2)] by (simp_all add: keysOk_def)
  from list_all2_tbl_update [OF this(2,1) row_step_id p0(1) id untouched_fields(3) [OF p0(2) q p0(3)]]
  show ?thesis using ok by (simp add: keysOk_def put_key_def)
qed

lemma put_claim_ok:
  assumes ok: "keysOk untouched w0 w" and "known w0 p"
  shows "keysOk untouched w0 (put_key now (p\<lparr>pk_claim := c\<rparr>) w)"
proof -
  from assms(2) obtain p0 where p0: "p0 \<in> set (pixKeys w0)" "untouched p0 p" "pk_state p \<noteq> K_CANCELED"
    unfolding known_def by blast
  let ?q = "p\<lparr>pk_claim := c, pk_updatedAt := now\<rparr>"
  have q: "untouched p0 ?q"
  proof (rule untouchedE [OF p0(2)])
    fix d t
    assume "p = p0\<lparr>pk_claim := d, pk_updatedAt := t\<rparr>"
    then have "?q = p0\<lparr>pk_claim := c, pk_updatedAt := now\<rparr>" and "pk_state p0 \<noteq> K_CANCELED"
      using p0(3) by simp_all
    then show "untouched p0 ?q" unfolding untouched_def by blast
  qed
  have "list_all2 untouched (pixKeys w0) (pixKeys w)" "tbl_wf pk_id (pixKeys w0)"
    using ok by (simp_all add: keysOk_def)
  from list_all2_tbl_update [OF this(2,1) untouched_fields(1) p0(1) untouched_fields(1) [OF q] q]
  show ?thesis using ok by (simp add: keysOk_def put_key_def)
qed

section \<open>The rules\<close>

lemma moves_return [moves_intros]: "moves w0 R (returnS x)" "moves w0 R (throwS e)"
  by (auto simp: moves_def valid_def returnS_def throwS_def dest: keysOk_mono)

lemma moves_invalidState [moves_intros]: "moves w0 R (invalidState p)"
  by (simp add: invalidState_def moves_return)

lemma moves_bind:
  assumes "moves w0 R m" and "\<And>x. moves w0 row_step (f x)"
  shows "moves w0 R (bindS m f)"
  using assms by (auto simp: moves_def intro: valid_bindS)

lemma moves_read [moves_intros]:
  assumes "\<And>x w. keysOk R w0 w \<Longrightarrow> g w = Inr x \<Longrightarrow> moves w0 R (f x)"
  shows "moves w0 R (bindS (readS g) f)"
  using assms unfolding moves_def valid_def bindS_def readS_def
  by (fastforce split: sum.splits dest: keysOk_mono)

lemma moves_first:
  assumes "\<And>w. keysOk R w0 w \<Longrightarrow> weaker R \<Longrightarrow> keysOk S w0 (snd (m w))" and "weaker S"
    and "\<And>x. moves w0 S (f x)"
  shows "moves w0 R (bindS m f)"
  unfolding moves_def
proof (intro impI valid_bindS)
  assume "weaker R"
  show "valid (keysOk R w0) m (\<lambda>_. keysOk S w0) (keysOk row_step w0)"
    using assms(1) [OF _ \<open>weaker R\<close>] assms(2)
    by (auto simp: valid_def split: prod.splits sum.splits) (metis keysOk_mono snd_conv)+
next
  fix x
  show "valid (keysOk S w0) (f x) (\<lambda>_. keysOk row_step w0) (keysOk row_step w0)"
    using assms(2,3) by (simp add: moves_def)
qed

lemma moves_neutral:
  assumes "neutral m" and "\<And>x. moves w0 R (f x)"
  shows "moves w0 R (bindS m f)"
proof (cases "weaker R")
  case True
  show ?thesis
    by (rule moves_first [where S = R]) (use assms True in \<open>auto simp: neutral_def keysOk_def\<close>)
qed (simp add: moves_def)

lemma moves_store [moves_intros]:
  assumes "known w0 p" and "row_step p q" and "moves w0 row_step (f ())"
  shows "moves w0 R (bindS (PixKeyRepository_update now q) f)"
  by (rule moves_first [where S = row_step])
    (use assms in \<open>auto simp: PixKeyRepository_update_def modifyS_def intro: put_key_ok\<close>)

lemma moves_claim:
  assumes "known w0 p" and "moves w0 untouched (f ())"
  shows "moves w0 untouched (bindS (PixKeyRepository_update now (p\<lparr>pk_claim := c\<rparr>)) f)"
  by (rule moves_first [where S = untouched])
    (use assms in \<open>auto simp: PixKeyRepository_update_def modifyS_def intro: put_claim_ok\<close>)

lemma moves_emit [moves_intros]:
  assumes "pk_state p = event_state e" and "moves w0 R (f ())"
  shows "moves w0 R (bindS (emitKey e p r) f)"
proof (cases "weaker R")
  case True
  show ?thesis
    by (rule moves_first [where S = R])
      (use assms True in \<open>auto simp: emitKey_def modifyS_def keysOk_def truthful_def\<close>)
qed (simp add: moves_def)

lemma bindS_return [simp]: "bindS m returnS = m"
  by (rule ext) (auto simp: bindS_def returnS_def split: prod.splits sum.splits)

lemma bindS_throwS: "bindS (throwS e) f = throwS e"
  by (rule ext) (simp add: bindS_def throwS_def)

lemma bindS_returnS: "bindS (returnS x) f = f x"
  by (rule ext) (simp add: bindS_def returnS_def)

lemma moves_emit_last [moves_intros]:
  "pk_state p = event_state e \<Longrightarrow> moves w0 R (emitKey e p r)"
  using moves_emit [of p e w0 R returnS r] by (simp add: moves_return)

lemma moves_storeAndEmit [moves_intros]:
  assumes "known w0 p" and "row_step p q" and "pk_state q = event_state e"
  shows "moves w0 R (storeAndEmit now q e r)"
  unfolding storeAndEmit_def using assms by (intro moves_intros)

lemma moves_whenState [moves_intros]:
  assumes "List.member expected (pk_state p) \<Longrightarrow> moves w0 R act"
  shows "moves w0 R (whenState finished expected act p)"
  using assms by (simp add: whenState_def moves_intros)

lemma moves_if [moves_intros]:
  "(c \<Longrightarrow> moves w0 R f) \<Longrightarrow> (\<not> c \<Longrightarrow> moves w0 R g) \<Longrightarrow> moves w0 R (if c then f else g)"
  by simp

lemma moves_let [moves_intros]: "moves w0 R (f x) \<Longrightarrow> moves w0 R (let y = x in f y)"
  by simp

lemma moves_option [moves_intros]:
  "(x = None \<Longrightarrow> moves w0 R f) \<Longrightarrow> (\<And>y. x = Some y \<Longrightarrow> moves w0 R (g y)) \<Longrightarrow>
    moves w0 R (case x of None \<Rightarrow> f | Some y \<Rightarrow> g y)"
  by (cases x) auto

lemma moves_assoc [moves_intros]:
  "moves w0 R (bindS m (\<lambda>x. bindS (k x) f)) \<Longrightarrow> moves w0 R (bindS (bindS m k) f)"
  by (simp add: bindS_assoc)

lemma moves_pair [moves_intros]:
  "(\<And>a b. moves w0 R (f a b)) \<Longrightarrow> moves w0 R (case x of (a, b) \<Rightarrow> f a b)"
  "(\<And>a b. moves w0 R (bindS (f a b) g)) \<Longrightarrow> moves w0 R (bindS (case x of (a, b) \<Rightarrow> f a b) g)"
  by (cases x; simp)+

lemma moves_bind_option [moves_intros]:
  "(x = None \<Longrightarrow> moves w0 R (bindS m f)) \<Longrightarrow> (\<And>y. x = Some y \<Longrightarrow> moves w0 R (bindS (k y) f)) \<Longrightarrow>
    moves w0 R (bindS (case x of None \<Rightarrow> m | Some y \<Rightarrow> k y) f)"
  by (cases x) auto

lemma moves_bind_if [moves_intros]:
  "(c \<Longrightarrow> moves w0 R (bindS m f)) \<Longrightarrow> (\<not> c \<Longrightarrow> moves w0 R (bindS k f)) \<Longrightarrow>
    moves w0 R (bindS (if c then m else k) f)"
  by simp

lemma moves_bind_throw [moves_intros]:
  "moves w0 R (bindS (throwS e) f)" "moves w0 R (bindS (invalidState p) f)"
  by (simp_all add: moves_return bindS_throwS invalidState_def)

lemma moves_bind_return [moves_intros]: "moves w0 R (f x) \<Longrightarrow> moves w0 R (bindS (returnS x) f)"
  by (simp add: bindS_returnS)

lemma moves_bind_storeAndEmit [moves_intros]:
  assumes "known w0 p" and "row_step p q" and "pk_state q = event_state e" and "\<And>x. moves w0 row_step (f x)"
  shows "moves w0 R (bindS (storeAndEmit now q e r) f)"
  using assms by (blast intro: moves_bind moves_storeAndEmit)

lemma moves_foldS: "(\<And>x. x \<in> set xs \<Longrightarrow> moves w0 row_step (f x)) \<Longrightarrow> moves w0 row_step (foldS f xs)"
  by (induction xs) (auto intro: moves_intros moves_bind)

lemma moves_weaken: "moves w0 row_step f \<Longrightarrow> moves w0 R f"
  by (auto simp: moves_def valid_def dest: keysOk_mono)

text \<open>The steps that leave keys and events alone.\<close>

lemma neutral_requireData: "neutral (requireData ns)"
  by (simp add: neutral_def requireData_def returnS_def throwS_def)

lemma neutral_gateway: "neutral (gateway psp c)"
  by (simp add: neutral_def gateway_def callPsp_def bindS_def returnS_def throwS_def split: sum.split)

lemma neutral_callPsp: "neutral (callPsp psp c)"
  by (simp add: neutral_def callPsp_def)

lemma neutral_claim: "neutral (PixKeyClaimRepository_update c)"
  by (simp add: neutral_def PixKeyClaimRepository_update_def modifyS_def)

lemma neutral_verifications:
  "neutral (PixKeyVerificationRepository_create v)" "neutral (deleteByPixKey i)"
  by (simp_all add: neutral_def PixKeyVerificationRepository_create_def deleteByPixKey_def modifyS_def)

lemma neutral_read: "neutral (readS g)"
  by (simp add: neutral_def readS_def)

lemma neutral_claimIds: "neutral (claimId p)" "neutral (requireClaimId p)"
  by (simp_all add: claimId_def requireClaimId_def neutral_read)

lemma neutral_bind: "neutral m \<Longrightarrow> (\<And>x. neutral (f x)) \<Longrightarrow> neutral (bindS m f)"
  by (simp add: neutral_def bindS_def split_beta split: sum.split)

lemma neutral_reportedClaim: "neutral (reportedClaim p)"
  unfolding reportedClaim_def by (intro neutral_bind neutral_claimIds neutral_read)

lemma neutral_notify: "neutral (modifyS (\<lambda>w. w\<lparr>notifications := g w\<rparr>))"
  by (simp add: neutral_def modifyS_def)

lemma moves_last: "neutral m \<Longrightarrow> moves w0 R m"
  using moves_neutral [of m w0 R returnS] by (simp add: moves_return)

lemmas moves_neutrals [moves_intros] = neutral_notify [THEN moves_last]
  neutral_requireData [THEN moves_neutral] neutral_gateway [THEN moves_neutral]
  neutral_callPsp [THEN moves_neutral] neutral_claim [THEN moves_neutral]
  neutral_verifications [THEN moves_neutral] neutral_claimIds [THEN moves_neutral]
  neutral_reportedClaim [THEN moves_neutral]

end
