(* ===== verification/Pix_Key_Moves.thy ===== *)
theory Pix_Key_Moves
  imports Pix_Key_State
begin

text \<open>Every use case of the pix keys service moves keys along the state machine.\<close>

section \<open>Loading a key\<close>

lemma find_SomeD: "find P xs = Some x \<Longrightarrow> x \<in> set xs \<and> P x"
  by (auto simp: find_Some_iff)

lemma find_known:
  assumes "keysOk untouched w0 w" and "find P (pixKeys w) = Some p" and "\<And>x. P x \<Longrightarrow> notCanceled x"
  shows "known w0 p"
  using assms by (auto simp: find_Some_iff notCanceled_def intro!: knownI)

lemma byKey_known:
  "keysOk untouched w0 w \<Longrightarrow> q \<in> set (getByKeyAndStateIsNotCanceled k w) \<Longrightarrow> known w0 q"
  by (auto simp: getByKeyAndStateIsNotCanceled_def notCanceled_def intro: knownI)

lemma findOtherKey_known: "keysOk untouched w0 w \<Longrightarrow> findOtherKey p w = Some q \<Longrightarrow> known w0 q"
  by (auto simp: findOtherKey_def dest: find_SomeD intro: byKey_known)

lemma moves_loadById [moves_intros]:
  assumes "\<And>p. known w0 p \<Longrightarrow> moves w0 untouched (f p)"
  shows "moves w0 untouched (bindS (loadById i) f)"
  unfolding loadById_def
  by (rule moves_read)
    (auto simp: result_simps getByIdAndStateIsNotCanceled_def intro!: assms intro: find_known)

lemma moves_loadByUserAndId [moves_intros]:
  assumes "\<And>p. known w0 p \<Longrightarrow> moves w0 untouched (f p)"
  shows "moves w0 untouched (bindS (loadByUserAndId u i) f)"
  unfolding loadByUserAndId_def
  by (rule moves_read)
    (auto simp: result_simps getByUserAndIdAndStateIsNotCanceled_def intro!: assms intro: find_known)

lemma moves_loadByKey [moves_intros]:
  assumes "\<And>p. known w0 p \<Longrightarrow> moves w0 untouched (f p)"
  shows "moves w0 untouched (bindS (loadByKey k) f)"
  unfolding loadByKey_def
  by (rule moves_read)
    (auto split: list.splits intro!: assms intro: byKey_known [where k = "Some k"])

lemma moves_loadForUser [moves_intros]:
  assumes "\<And>p. known w0 p \<Longrightarrow> moves w0 untouched (f p)"
  shows "moves w0 untouched (bindS (loadForUser u i ns) f)"
  by (cases u) (simp_all add: loadForUser_def, (intro moves_intros assms, assumption?)+)

lemma moves_loadEvent [moves_intros]:
  assumes "\<And>p. known w0 p \<Longrightarrow> moves w0 untouched (f p)"
  shows "moves w0 untouched (bindS (loadEvent i ns) f)"
  unfolding loadEvent_def by (intro moves_intros assms)

lemma moves_loadClaimed [moves_intros]:
  assumes "\<And>p. known w0 p \<Longrightarrow> moves w0 untouched (f p)"
  shows "moves w0 untouched (bindS (loadClaimed k) f)"
  unfolding loadClaimed_def by (intro moves_intros assms)

lemma moves_loadEventReason [moves_intros]:
  assumes "\<And>p r. known w0 p \<Longrightarrow> moves w0 untouched (act p r)"
  shows "moves w0 untouched (loadEventReason i reason act)"
  unfolding loadEventReason_def by (auto split: option.splits intro!: moves_intros assms)

lemma moves_expireWhen [moves_intros]:
  assumes "\<And>p. known w0 p \<Longrightarrow> c p \<Longrightarrow> moves w0 untouched (act p)"
  shows "moves w0 untouched (expireWhen c act i)"
  unfolding expireWhen_def
  by (intro moves_intros)
    (auto simp: getByIdAndStateIsNotCanceled_def intro!: moves_bind assms intro: moves_intros find_known)

lemma moves_cancelExpired [moves_intros]:
  "known w0 p \<Longrightarrow> pk_state p \<in> {K_PENDING, K_OWNERSHIP_PENDING, K_PORTABILITY_PENDING} \<Longrightarrow>
    moves w0 R (cancelExpired now p)"
  unfolding cancelExpired_def
  by (rule moves_storeAndEmit) (auto simp: row_step_def same_identity_def may_become_def)

lemma moves_unit [moves_intros]: "moves w0 R f \<Longrightarrow> moves w0 R (unit_step f)"
  unfolding unit_step_def by (auto intro: moves_bind moves_intros)

text \<open>What the conditions of the code say about a state, for the obligations that the rules leave.\<close>

lemmas move_simps = may_become_def after_ready_def after_canceled_def row_step_def same_identity_def
  set_state_def

lemma known_live [simp]: "known w0 p \<Longrightarrow> pk_state p \<noteq> K_CANCELED"
  by (simp add: known_def)

lemma ready_may_become: "isReadyState p \<Longrightarrow> List.member after_ready t \<Longrightarrow> may_become (pk_state p) t"
  by (auto simp: isReadyState_def PixKeyReadyStates_def may_become_def)

lemma canceled_may_become:
  "isCanceledState p \<Longrightarrow> List.member after_canceled t \<Longrightarrow> may_become (pk_state p) t"
  by (auto simp: isCanceledState_def PixKeyCanceledStates_def may_become_def)

lemma verified_may_become: "may_become s (verified_state ok final s)"
  by (cases s) (simp_all add: verified_state_def may_become_def)

lemma dismissed_row_step: "known w0 p \<Longrightarrow> dismissed now p = Some q \<Longrightarrow> row_step p q"
  by (cases "pk_state p")
    (auto simp: dismissed_def move_simps dest: sym [of _ q] split: if_splits)

section \<open>Registration\<close>

lemma moves_SendCode [moves_intros]: "moves w0 untouched (SendCodePixKeyUseCase_execute now code u i)"
  unfolding SendCodePixKeyUseCase_execute_def
  by (intro moves_intros, assumption) (auto simp: move_simps)

lemma moves_emitVerified: "moves w0 R (emitVerified p reason)"
  by (cases "pk_state p") (simp_all add: emitVerified_def moves_intros)

lemma moves_emitDismissed: "moves w0 R (emitDismissed p)"
  by (cases "pk_state p") (simp_all add: emitDismissed_def moves_intros)

lemmas [moves_intros] = moves_emitVerified [THEN moves_bind] moves_emitDismissed [THEN moves_bind]

lemma moves_VerifyCode [moves_intros]:
  "moves w0 untouched (VerifyCodePixKeyUseCase_execute cfg now u i code reason)"
  unfolding VerifyCodePixKeyUseCase_execute_def
  by (intro moves_intros, assumption) (simp add: row_step_def same_identity_def verified_may_become)

lemma moves_CancelCode [moves_intros]:
  "moves w0 untouched (CancelCodePixKeyUseCase_execute now u i reason)"
  unfolding CancelCodePixKeyUseCase_execute_def Let_def
  by (intro moves_intros) (auto simp: isCancelValidationState_def move_simps intro!: moves_intros)

lemma moves_Dismiss [moves_intros]: "moves w0 untouched (DismissByIdPixKeyUseCase_execute now u i)"
  unfolding DismissByIdPixKeyUseCase_execute_def
  by (intro moves_intros, assumption) (rule dismissed_row_step)

lemma moves_Delete [moves_intros]: "moves w0 untouched (DeleteByIdPixKeyUseCase_execute now u i reason)"
  unfolding DeleteByIdPixKeyUseCase_execute_def
  by (intro moves_intros, assumption)
    (auto simp: row_step_def same_identity_def may_become_def after_ready_def
      dest: ready_may_become [where t = K_DELETING])

lemma moves_addAtPsp: "known w0 p \<Longrightarrow> pk_state p = K_CONFIRMED \<Longrightarrow> moves w0 R (addAtPsp v psp now p)"
  unfolding addAtPsp_def addOwnershipPendingPixKey_def addPortabilityPendingPixKey_def
  by (intro moves_intros) (auto simp: move_simps split: sum.split psp_error.split intro!: moves_intros)

lemma moves_HandleConfirmed [moves_intros]: "moves w0 untouched (HandleConfirmedPixKeyEventUseCase_execute v psp now i)"
  unfolding HandleConfirmedPixKeyEventUseCase_execute_def addConfirmedPixKey_def addOwnershipPendingPixKey_def
  by (intro moves_intros moves_addAtPsp, assumption) (auto simp: move_simps)

lemma moves_HandleConfirmedFailed [moves_intros]: "moves w0 untouched (HandleConfirmedFailedPixKeyEventUseCase_execute now i failed)"
  unfolding HandleConfirmedFailedPixKeyEventUseCase_execute_def
  by (intro moves_intros, assumption) (auto simp: move_simps)

lemma moves_HandleDeleting [moves_intros]: "moves w0 untouched (HandleDeletingPixKeyEventUseCase_execute psp now i)"
  unfolding HandleDeletingPixKeyEventUseCase_execute_def
  by (intro moves_intros, assumption) (auto simp: move_simps)

lemma moves_HandleDeletingFailed [moves_intros]: "moves w0 untouched (HandleDeletingFailedPixKeyEventUseCase_execute now i)"
  unfolding HandleDeletingFailedPixKeyEventUseCase_execute_def
  by (intro moves_intros, assumption) (auto simp: move_simps)

lemma moves_HandlePendingExpired [moves_intros]: "moves w0 untouched (HandlePendingExpiredPixKeyUseCase_execute now i)"
  unfolding HandlePendingExpiredPixKeyUseCase_execute_def
  by (intro moves_intros, assumption) simp

section \<open>Claims\<close>

lemma moves_set:
  assumes "known w0 p" and "may_become (pk_state p) s" and "s = event_state e"
  shows "moves w0 R (storeAndEmit now (set_state s p) e r)"
    and "(\<And>x. moves w0 row_step (f x)) \<Longrightarrow> moves w0 R (bindS (storeAndEmit now (set_state s p) e r) f)"
  using assms
  by (auto simp: set_state_def row_step_def same_identity_def
      intro!: moves_storeAndEmit [of w0 p] moves_bind_storeAndEmit [of w0 p])

lemma moves_startOwnership:
  assumes "known w0 p" and "pk_state p = K_OWNERSHIP_OPENED"
  shows "moves w0 untouched (startOwnership psp now p)"
proof -
  have "known w0 q \<and> may_become (pk_state q) K_CLAIM_PENDING"
    if "keysOk untouched w0 w" and "find P (getByKeyAndStateIsNotCanceled k w) = Some q"
      and "\<not> (\<not> isReadyState q \<and> \<not> isCanceledState q)" for w q k P
    using that ready_may_become [of q K_CLAIM_PENDING] canceled_may_become [of q K_CLAIM_PENDING]
    by (auto simp: after_ready_def after_canceled_def dest!: find_SomeD intro: byKey_known)
  then show ?thesis
    unfolding startOwnership_def Let_def
    by (intro moves_set moves_intros) (use assms in \<open>auto simp: move_simps\<close>)
qed

lemma moves_cancelOwnership:
  assumes "known w0 p" and "pk_state p = K_OWNERSHIP_CANCELING"
  shows "moves w0 untouched (cancelOwnership psp now reason p)"
  unfolding cancelOwnership_def
  by (intro moves_set moves_intros)
    (use assms in \<open>auto simp: may_become_def intro: findOtherKey_known\<close>)

lemma moves_closeClaim:
  assumes "known w0 p" and "pk_state p = K_CLAIM_CLOSING"
  shows "moves w0 untouched (closeClaim psp now reason p)"
  unfolding closeClaim_def
  by (intro moves_set moves_intros)
    (use assms in \<open>auto simp: may_become_def intro: findOtherKey_known\<close>)

lemma moves_denyClaim:
  assumes "known w0 p" and "pk_state p = K_CLAIM_DENIED"
  shows "moves w0 untouched (denyClaim psp now reason p)"
  unfolding denyClaim_def
  by (intro moves_set moves_intros)
    (use assms in \<open>auto simp: may_become_def intro: findOtherKey_known\<close>)

lemma moves_cancelStart:
  "s = K_OWNERSHIP_PENDING \<or> s = K_PORTABILITY_PENDING \<Longrightarrow> moves w0 untouched (cancelStart s now u i)"
  unfolding cancelStart_def Let_def
  by (intro moves_intros, assumption) (auto simp: move_simps)

lemma moves_storeWithClaim [moves_intros]:
  assumes "known w0 p" and "row_step p q" and "pk_state q = event_state e"
  shows "moves w0 R (storeWithClaim claim now q e)"
  unfolding storeWithClaim_def using assms by (intro moves_intros)

lemma moves_ApproveOwnershipClaimStart [moves_intros]:
  "moves w0 untouched (ApproveOwnershipClaimStartProcessUseCase_execute now user i)"
  unfolding ApproveOwnershipClaimStartProcessUseCase_execute_def
  by (intro moves_intros, assumption?) (auto simp: move_simps)?

lemma moves_HandleOwnershipOpened [moves_intros]:
  "moves w0 untouched (HandleOwnershipOpenedPixKeyEventUseCase_execute psp now i)"
  unfolding HandleOwnershipOpenedPixKeyEventUseCase_execute_def
  by (intro moves_intros moves_startOwnership, assumption?) (auto simp: move_simps)?

lemma moves_HandleOwnershipOpenedFailed [moves_intros]:
  "moves w0 untouched (HandleOwnershipOpenedFailedPixKeyEventUseCase_execute now i)"
  unfolding HandleOwnershipOpenedFailedPixKeyEventUseCase_execute_def
  by (intro moves_intros, assumption?) (auto simp: move_simps)?

lemma moves_CancelingOwnershipClaim [moves_intros]:
  "moves w0 untouched (CancelingOwnershipClaimProcessUseCase_execute now user i reason)"
  unfolding CancelingOwnershipClaimProcessUseCase_execute_def
  by (intro moves_intros, assumption?) (auto simp: move_simps)?

lemma moves_HandleOwnershipCanceling [moves_intros]:
  "moves w0 untouched (HandleOwnershipCancelingPixKeyEventUseCase_execute psp now i reason)"
  unfolding HandleOwnershipCancelingPixKeyEventUseCase_execute_def
  by (intro moves_intros moves_cancelOwnership, assumption?) (auto simp: move_simps)?

lemma moves_HandleOwnershipCancelingFailed [moves_intros]:
  "moves w0 untouched (HandleOwnershipCancelingFailedPixKeyEventUseCase_execute now i)"
  unfolding HandleOwnershipCancelingFailedPixKeyEventUseCase_execute_def
  by (intro moves_intros, assumption?) (auto simp: move_simps)?

lemma moves_HandleOwnershipPendingExpired [moves_intros]:
  "moves w0 untouched (HandleOwnershipPendingExpiredPixKeyUseCase_execute now i)"
  unfolding HandleOwnershipPendingExpiredPixKeyUseCase_execute_def
  by (intro moves_intros, assumption?) (auto simp: move_simps)?

lemma moves_CancelStartClaimById [moves_intros]:
  "moves w0 untouched (CancelStartClaimProcessByIdPixKeyUseCase_execute now user i)"
  unfolding CancelStartClaimProcessByIdPixKeyUseCase_execute_def
  by (intro moves_intros moves_cancelStart, assumption?) (auto simp: move_simps)?

lemma moves_WaitOwnershipClaim [moves_intros]:
  "moves w0 untouched (WaitOwnershipClaimProcessUseCase_execute now k)"
  unfolding WaitOwnershipClaimProcessUseCase_execute_def
  by (intro moves_intros, assumption?) (auto simp: move_simps)?

lemma moves_ConfirmOwnershipClaim [moves_intros]:
  "moves w0 untouched (ConfirmOwnershipClaimProcessUseCase_execute psp now k)"
  unfolding ConfirmOwnershipClaimProcessUseCase_execute_def
  by (intro moves_intros, assumption?) (auto simp: move_simps)?

lemma moves_CompleteOwnershipClaim [moves_intros]:
  "moves w0 untouched (CompleteOwnershipClaimProcessUseCase_execute now k)"
  unfolding CompleteOwnershipClaimProcessUseCase_execute_def
  by (intro moves_intros, assumption?) (auto simp: move_simps)?

lemma moves_CancelOwnershipClaim [moves_intros]:
  "moves w0 untouched (CancelOwnershipClaimProcessUseCase_execute now k)"
  unfolding CancelOwnershipClaimProcessUseCase_execute_def
  by (intro moves_intros, assumption?) (auto simp: move_simps)?

lemma moves_ApprovePortabilityClaimStart [moves_intros]:
  "moves w0 untouched (ApprovePortabilityClaimStartProcessUseCase_execute now user i)"
  unfolding ApprovePortabilityClaimStartProcessUseCase_execute_def
  by (intro moves_intros, assumption?) (auto simp: move_simps)?

lemma moves_HandlePortabilityOpened [moves_intros]:
  "moves w0 untouched (HandlePortabilityOpenedPixKeyEventUseCase_execute psp now i)"
  unfolding HandlePortabilityOpenedPixKeyEventUseCase_execute_def
  by (intro moves_intros, assumption?) (auto simp: move_simps)?

lemma moves_HandlePortabilityOpenedFailed [moves_intros]:
  "moves w0 untouched (HandlePortabilityOpenedFailedPixKeyEventUseCase_execute now i)"
  unfolding HandlePortabilityOpenedFailedPixKeyEventUseCase_execute_def
  by (intro moves_intros, assumption?) (auto simp: move_simps)?

lemma moves_CancelingPortabilityClaim [moves_intros]:
  "moves w0 untouched (CancelingPortabilityClaimProcessUseCase_execute now user i reason)"
  unfolding CancelingPortabilityClaimProcessUseCase_execute_def
  by (intro moves_intros, assumption?) (auto simp: move_simps)?

lemma moves_HandlePortabilityCanceling [moves_intros]:
  "moves w0 untouched (HandlePortabilityCancelingPixKeyEventUseCase_execute psp now i reason)"
  unfolding HandlePortabilityCancelingPixKeyEventUseCase_execute_def
  by (intro moves_intros, assumption?) (auto simp: move_simps)?

lemma moves_HandlePortabilityCancelingFailed [moves_intros]:
  "moves w0 untouched (HandlePortabilityCancelingFailedPixKeyEventUseCase_execute now i)"
  unfolding HandlePortabilityCancelingFailedPixKeyEventUseCase_execute_def
  by (intro moves_intros, assumption?) (auto simp: move_simps)?

lemma moves_HandlePortabilityPendingExpired [moves_intros]:
  "moves w0 untouched (HandlePortabilityPendingExpiredPixKeyUseCase_execute now i)"
  unfolding HandlePortabilityPendingExpiredPixKeyUseCase_execute_def
  by (intro moves_intros, assumption?) (auto simp: move_simps)?

lemma moves_CancelStartPortabilityById [moves_intros]:
  "moves w0 untouched (CancelStartPortabilityProcessByIdPixKeyUseCase_execute now user i)"
  unfolding CancelStartPortabilityProcessByIdPixKeyUseCase_execute_def
  by (intro moves_intros moves_cancelStart, assumption?) (auto simp: move_simps)?

lemma moves_ConfirmPortabilityClaim [moves_intros]:
  "moves w0 untouched (ConfirmPortabilityClaimProcessUseCase_execute now k)"
  unfolding ConfirmPortabilityClaimProcessUseCase_execute_def
  by (intro moves_intros, assumption?) (auto simp: move_simps)?

lemma moves_CompletePortabilityClaim [moves_intros]:
  "moves w0 untouched (CompletePortabilityClaimProcessUseCase_execute now k)"
  unfolding CompletePortabilityClaimProcessUseCase_execute_def
  by (intro moves_intros, assumption?) (auto simp: move_simps)?

lemma moves_CancelPortabilityClaim [moves_intros]:
  "moves w0 untouched (CancelPortabilityClaimProcessUseCase_execute now k)"
  unfolding CancelPortabilityClaimProcessUseCase_execute_def
  by (intro moves_intros, assumption?) (auto simp: move_simps)?

lemma moves_WaitPortabilityClaim [moves_intros]:
  "moves w0 untouched (WaitPortabilityClaimProcessUseCase_execute now k)"
  unfolding WaitPortabilityClaimProcessUseCase_execute_def
  by (intro moves_intros, assumption?) (auto simp: move_simps)?

lemma moves_ReadyPortabilityClaim [moves_intros]:
  "moves w0 untouched (ReadyPortabilityClaimProcessUseCase_execute autoApprovePortabilityRequest now k)"
  unfolding ReadyPortabilityClaimProcessUseCase_execute_def Let_def
  by (intro moves_intros)
    ((assumption | cases autoApprovePortabilityRequest;
      simp add: set_state_def row_step_def same_identity_def after_ready_def ready_may_become)+)

lemma moves_ApprovePortabilityClaim [moves_intros]:
  "moves w0 untouched (ApprovePortabilityClaimProcessUseCase_execute now user i reason)"
  unfolding ApprovePortabilityClaimProcessUseCase_execute_def
  by (intro moves_intros, assumption?) (auto simp: move_simps)?

lemma moves_CancelPortabilityRequestClaim [moves_intros]:
  "moves w0 untouched (CancelPortabilityRequestClaimProcessUseCase_execute now user i reason)"
  unfolding CancelPortabilityRequestClaimProcessUseCase_execute_def
  by (intro moves_intros, assumption?) (auto simp: move_simps)?

lemma moves_HandlePortabilityRequestCancelOpened [moves_intros]:
  "moves w0 untouched (HandlePortabilityRequestCancelOpenedPixKeyEventUseCase_execute psp now i reason)"
  unfolding HandlePortabilityRequestCancelOpenedPixKeyEventUseCase_execute_def
  by (intro moves_intros, assumption?) (auto simp: move_simps)?

lemma moves_HandlePortabilityRequestCancelOpenedFailed [moves_intros]:
  "moves w0 untouched (HandlePortabilityRequestCancelOpenedFailedPixKeyEventUseCase_execute now i)"
  unfolding HandlePortabilityRequestCancelOpenedFailedPixKeyEventUseCase_execute_def
  by (intro moves_intros, assumption?) (auto simp: move_simps)?

lemma moves_HandlePortabilityRequestCancelStarted [moves_intros]:
  "moves w0 untouched (HandlePortabilityRequestCancelStartedPixKeyEventUseCase_execute now i)"
  unfolding HandlePortabilityRequestCancelStartedPixKeyEventUseCase_execute_def
  by (intro moves_intros, assumption?) (auto simp: move_simps)?

lemma moves_HandlePortabilityRequestConfirmOpened [moves_intros]:
  "moves w0 untouched (HandlePortabilityRequestConfirmOpenedPixKeyEventUseCase_execute psp now i reason)"
  unfolding HandlePortabilityRequestConfirmOpenedPixKeyEventUseCase_execute_def
  by (intro moves_intros, assumption?) (auto simp: move_simps)?

lemma moves_HandlePortabilityRequestConfirmOpenedFailed [moves_intros]:
  "moves w0 untouched (HandlePortabilityRequestConfirmOpenedFailedPixKeyEventUseCase_execute now i)"
  unfolding HandlePortabilityRequestConfirmOpenedFailedPixKeyEventUseCase_execute_def
  by (intro moves_intros, assumption?) (auto simp: move_simps)?

lemma byId_known:
  "keysOk untouched w0 w \<Longrightarrow> PixKeyRepository_getById i w = Some p \<Longrightarrow> pk_state p \<noteq> K_CANCELED \<Longrightarrow>
    known w0 p"
  by (auto simp: PixKeyRepository_getById_def dest!: tbl_find_SomeD intro: knownI)

lemma moves_HandlePortabilityRequestConfirmStarted [moves_intros]:
  "moves w0 untouched (HandlePortabilityRequestConfirmStartedPixKeyEventUseCase_execute now i)"
  unfolding HandlePortabilityRequestConfirmStartedPixKeyEventUseCase_execute_def Let_def
  by (intro moves_intros) (auto simp: move_simps result_simps intro!: byId_known)

lemma moves_ReadyOwnershipClaim [moves_intros]:
  "moves w0 untouched (ReadyOwnershipClaimProcessUseCase_execute now k)"
  unfolding ReadyOwnershipClaimProcessUseCase_execute_def
  by (intro moves_intros, assumption)
    (auto simp: set_state_def row_step_def same_identity_def after_ready_def isReadyState_def
      intro!: ready_may_become)

lemma moves_HandleClaimPendingExpired [moves_intros]:
  "moves w0 untouched (HandleClaimPendingExpiredPixKeyEventUseCase_execute now i reason)"
  unfolding HandleClaimPendingExpiredPixKeyEventUseCase_execute_def
  by (intro moves_intros, assumption?) (auto simp: move_simps)?

lemma moves_HandleClaimClosing [moves_intros]:
  "moves w0 untouched (HandleClaimClosingPixKeyEventUseCase_execute psp now i reason)"
  unfolding HandleClaimClosingPixKeyEventUseCase_execute_def
  by (intro moves_intros moves_closeClaim, assumption?) (auto simp: move_simps)?

lemma moves_HandleClaimClosingFailed [moves_intros]:
  "moves w0 untouched (HandleClaimClosingFailedPixKeyEventUseCase_execute now i)"
  unfolding HandleClaimClosingFailedPixKeyEventUseCase_execute_def
  by (intro moves_intros, assumption?) (auto simp: move_simps)?

lemma moves_CompleteClosingClaim [moves_intros]:
  "moves w0 untouched (CompleteClosingClaimProcessUseCase_execute now k)"
  unfolding CompleteClosingClaimProcessUseCase_execute_def
  by (intro moves_intros, assumption?) (auto simp: move_simps)?

lemma moves_HandleClaimDenied [moves_intros]:
  "moves w0 untouched (HandleClaimDeniedPixKeyEventUseCase_execute psp now i reason)"
  unfolding HandleClaimDeniedPixKeyEventUseCase_execute_def
  by (intro moves_intros moves_denyClaim, assumption?) (auto simp: move_simps)?

lemma moves_HandleClaimDeniedFailed [moves_intros]:
  "moves w0 untouched (HandleClaimDeniedFailedPixKeyEventUseCase_execute now i)"
  unfolding HandleClaimDeniedFailedPixKeyEventUseCase_execute_def
  by (intro moves_intros, assumption?) (auto simp: move_simps)?

end
