(* ===== verification/Pix_Key_Requests.thy ===== *)
theory Pix_Key_Requests
  imports Pix_Key_Moves
begin

text \<open>
  The requests that reach the service, as one relation on the state, and what each of them does to
  the stored keys, whatever the order in which they arrive.
\<close>

section \<open>The controller and the crons\<close>

lemma moves_handlers [moves_intros]:
  "moves w0 untouched (handlePortabilityStarted now c)"
  "moves w0 untouched (handlePortabilityConfirmed now c)"
  "moves w0 untouched (handleOwnershipStarted psp now c)"
  "moves w0 untouched (handleOwnershipWaiting psp now c)"
  "moves w0 untouched (handleOwnershipConfirmed now c)"
  "moves w0 untouched (handleReady now c)"
  "moves w0 untouched (handleClaimClosing now c)"
  "moves w0 untouched (invalidFlow c)"
  by (cases "rc_type c"; cases "rc_status c";
      simp add: handlePortabilityStarted_def handlePortabilityConfirmed_def handleOwnershipStarted_def
        handleOwnershipWaiting_def handleOwnershipConfirmed_def handleReady_def handleClaimClosing_def
        invalidFlow_def moves_intros)+

lemma moves_dispatchClaim: "moves w0 untouched (dispatchClaim psp now c s)"
  by (cases s) (simp_all add: dispatchClaim_def moves_handlers)

lemma moves_HandleReceive [moves_intros]:
  "moves w0 untouched (HandleReceiveReadyPixKeyClaimController_execute psp now c)"
  unfolding HandleReceiveReadyPixKeyClaimController_execute_def
  by (intro moves_loadByKey moves_claim moves_dispatchClaim)

lemma moves_announceExpired [moves_intros]:
  assumes "event_state e = s"
  shows "moves w0 untouched (announceExpired s e timestamp now)"
  unfolding announceExpired_def
  by (intro moves_read moves_weaken [where R = untouched] moves_bind moves_foldS moves_return
      moves_emit_last)
    (use assms in \<open>auto simp: getByLessUpdatedAtAndStateIn_def\<close>)

lemma moves_SyncExpired [moves_intros]:
  "moves w0 untouched (SyncPendingExpiredPixKeyUseCase_execute timestamp now)"
  "moves w0 untouched (SyncOwnershipPendingExpiredPixKeyUseCase_execute timestamp now)"
  "moves w0 untouched (SyncPortabilityPendingExpiredPixKeyUseCase_execute timestamp now)"
  by (simp_all add: SyncPendingExpiredPixKeyUseCase_execute_def moves_announceExpired
      SyncOwnershipPendingExpiredPixKeyUseCase_execute_def
      SyncPortabilityPendingExpiredPixKeyUseCase_execute_def)

lemma moves_SyncClaimPendingExpired [moves_intros]:
  "moves w0 untouched (SyncClaimPendingExpiredPixKeyUseCase_execute timestamp now reason)"
proof -
  have "moves w0 row_step (announceClaimExpired r t p)" if "pk_state p = K_CLAIM_PENDING" for r t p
    unfolding announceClaimExpired_def
    by (cases "pk_claim p") (auto simp: that intro!: moves_intros)
  then show ?thesis
    unfolding SyncClaimPendingExpiredPixKeyUseCase_execute_def
    by (auto split: option.split simp: PixKeyRepository_getByState_def
        intro!: moves_return moves_read moves_weaken [where R = untouched] moves_bind moves_foldS)
qed

lemma moves_SyncPortabilityRequestPending [moves_intros]:
  "moves w0 untouched (SyncPortabilityRequestPendingPixKeyUseCase_execute timestamp now reason)"
proof -
  have "moves w0 row_step (confirmExpiredRequest r t now p)"
    if "known w0 p" "pk_state p = K_PORTABILITY_REQUEST_PENDING" for r t p
    unfolding confirmExpiredRequest_def using that
    by (cases "pk_claim p") (auto simp: may_become_def intro!: moves_intros moves_set)
  then have "moves w0 untouched (foldS (confirmExpiredRequest r t now) (PixKeyRepository_getByState
      K_PORTABILITY_REQUEST_PENDING w))" if "keysOk untouched w0 w" for r t w
    using knownI [OF that]
    by (intro moves_weaken [where R = untouched] moves_foldS) (simp add: PixKeyRepository_getByState_def)
  then show ?thesis
    unfolding SyncPortabilityRequestPendingPixKeyUseCase_execute_def
    by (auto split: option.split intro!: moves_return moves_read [of untouched])
qed

section \<open>Requests\<close>

text \<open>The use cases, by what they take.\<close>

definition user_use_cases :: "(int \<Rightarrow> string option \<Rightarrow> string \<Rightarrow> pix_key pix_step) list" where
  "user_use_cases = [DismissByIdPixKeyUseCase_execute, ApproveOwnershipClaimStartProcessUseCase_execute,
     CancelStartClaimProcessByIdPixKeyUseCase_execute, ApprovePortabilityClaimStartProcessUseCase_execute,
     CancelStartPortabilityProcessByIdPixKeyUseCase_execute]"

definition user_reason_use_cases ::
    "(int \<Rightarrow> string option \<Rightarrow> string \<Rightarrow> claim_reason option \<Rightarrow> pix_key pix_step) list" where
  "user_reason_use_cases = [CancelCodePixKeyUseCase_execute, CancelingOwnershipClaimProcessUseCase_execute,
     CancelingPortabilityClaimProcessUseCase_execute, ApprovePortabilityClaimProcessUseCase_execute,
     CancelPortabilityRequestClaimProcessUseCase_execute]"

definition event_use_cases :: "(int \<Rightarrow> string \<Rightarrow> pix_key pix_step) list" where
  "event_use_cases = [HandleDeletingFailedPixKeyEventUseCase_execute,
     HandleOwnershipOpenedFailedPixKeyEventUseCase_execute,
     HandleOwnershipCancelingFailedPixKeyEventUseCase_execute,
     HandlePortabilityOpenedFailedPixKeyEventUseCase_execute,
     HandlePortabilityCancelingFailedPixKeyEventUseCase_execute,
     HandlePortabilityRequestCancelOpenedFailedPixKeyEventUseCase_execute,
     HandlePortabilityRequestCancelStartedPixKeyEventUseCase_execute,
     HandlePortabilityRequestConfirmOpenedFailedPixKeyEventUseCase_execute,
     HandlePortabilityRequestConfirmStartedPixKeyEventUseCase_execute,
     HandleClaimClosingFailedPixKeyEventUseCase_execute,
     HandleClaimDeniedFailedPixKeyEventUseCase_execute]"

definition expiry_use_cases :: "(int \<Rightarrow> string \<Rightarrow> pix_key option pix_step) list" where
  "expiry_use_cases = [HandlePendingExpiredPixKeyUseCase_execute,
     HandleOwnershipPendingExpiredPixKeyUseCase_execute,
     HandlePortabilityPendingExpiredPixKeyUseCase_execute]"

definition psp_use_cases :: "(psp \<Rightarrow> int \<Rightarrow> string \<Rightarrow> pix_key pix_step) list" where
  "psp_use_cases = [HandleDeletingPixKeyEventUseCase_execute,
     HandleOwnershipOpenedPixKeyEventUseCase_execute, HandlePortabilityOpenedPixKeyEventUseCase_execute]"

definition psp_reason_use_cases ::
    "(psp \<Rightarrow> int \<Rightarrow> string \<Rightarrow> claim_reason option \<Rightarrow> pix_key pix_step) list" where
  "psp_reason_use_cases = [HandleOwnershipCancelingPixKeyEventUseCase_execute,
     HandlePortabilityCancelingPixKeyEventUseCase_execute,
     HandlePortabilityRequestCancelOpenedPixKeyEventUseCase_execute,
     HandlePortabilityRequestConfirmOpenedPixKeyEventUseCase_execute,
     HandleClaimClosingPixKeyEventUseCase_execute, HandleClaimDeniedPixKeyEventUseCase_execute]"

definition claim_use_cases :: "(int \<Rightarrow> string \<Rightarrow> pix_key pix_step) list" where
  "claim_use_cases = [WaitOwnershipClaimProcessUseCase_execute, CompleteOwnershipClaimProcessUseCase_execute,
     CancelOwnershipClaimProcessUseCase_execute, ConfirmPortabilityClaimProcessUseCase_execute,
     CompletePortabilityClaimProcessUseCase_execute, CancelPortabilityClaimProcessUseCase_execute,
     WaitPortabilityClaimProcessUseCase_execute, ReadyPortabilityClaimProcessUseCase_execute True,
     ReadyPortabilityClaimProcessUseCase_execute False, ReadyOwnershipClaimProcessUseCase_execute,
     CompleteClosingClaimProcessUseCase_execute]"

definition expiry_crons :: "(int \<Rightarrow> int \<Rightarrow> pix_key list pix_step) list" where
  "expiry_crons = [SyncPendingExpiredPixKeyUseCase_execute,
     SyncOwnershipPendingExpiredPixKeyUseCase_execute, SyncPortabilityPendingExpiredPixKeyUseCase_execute]"

text \<open>A request that changes existing keys, for a validator, a PSP and an instant.\<close>

inductive changes_keys :: "validators \<Rightarrow> psp \<Rightarrow> int \<Rightarrow> unit pix_step \<Rightarrow> bool" for v psp now where
  "f \<in> set user_use_cases \<Longrightarrow> changes_keys v psp now (unit_step (f now user i))"
| "f \<in> set user_reason_use_cases \<Longrightarrow> changes_keys v psp now (unit_step (f now user i reason))"
| "f \<in> set event_use_cases \<Longrightarrow> changes_keys v psp now (unit_step (f now i))"
| "f \<in> set expiry_use_cases \<Longrightarrow> changes_keys v psp now (unit_step (f now i))"
| "f \<in> set psp_use_cases \<Longrightarrow> changes_keys v psp now (unit_step (f psp now i))"
| "f \<in> set psp_reason_use_cases \<Longrightarrow> changes_keys v psp now (unit_step (f psp now i reason))"
| "f \<in> set claim_use_cases \<Longrightarrow> changes_keys v psp now (unit_step (f now k))"
| "f \<in> set expiry_crons \<Longrightarrow> changes_keys v psp now (unit_step (f timestamp now))"
| "changes_keys v psp now (SendCodePixKeyUseCase_execute now code user i)"
| "changes_keys v psp now (unit_step (DeleteByIdPixKeyUseCase_execute now user i why))"
| "changes_keys v psp now (unit_step (HandleConfirmedPixKeyEventUseCase_execute v psp now i))"
| "changes_keys v psp now (unit_step (HandleConfirmedFailedPixKeyEventUseCase_execute now i failed))"
| "changes_keys v psp now (unit_step (ConfirmOwnershipClaimProcessUseCase_execute psp now k))"
| "changes_keys v psp now (unit_step (HandleClaimPendingExpiredPixKeyEventUseCase_execute now i reason))"
| "changes_keys v psp now (HandleReceiveReadyPixKeyClaimController_execute psp now c)"
| "changes_keys v psp now (unit_step (SyncClaimPendingExpiredPixKeyUseCase_execute timestamp now reason))"
| "changes_keys v psp now (SyncPortabilityRequestPendingPixKeyUseCase_execute timestamp now reason)"

lemma changes_keys_moves: "changes_keys v psp now f \<Longrightarrow> moves w0 untouched f"
proof (induction rule: changes_keys.induct)
  case (1 f user i) then show ?case by (auto simp: user_use_cases_def intro!: moves_intros)
next
  case (2 f user i reason) then show ?case by (auto simp: user_reason_use_cases_def intro!: moves_intros)
next
  case (3 f i) then show ?case by (auto simp: event_use_cases_def intro!: moves_intros)
next
  case (4 f i) then show ?case by (auto simp: expiry_use_cases_def intro!: moves_intros)
next
  case (5 f i) then show ?case by (auto simp: psp_use_cases_def intro!: moves_intros)
next
  case (6 f i reason) then show ?case by (auto simp: psp_reason_use_cases_def intro!: moves_intros)
next
  case (7 f k) then show ?case by (auto simp: claim_use_cases_def intro!: moves_intros)
next
  case (8 f timestamp) then show ?case by (auto simp: expiry_crons_def intro!: moves_intros)
qed (intro moves_intros)+

text \<open>
  A request of the service. What a use case wrote before it threw stays in an observer, which swallows
  the exception, and is rolled back in a request of a user; calls of the PSP and notifications stay.
\<close>

definition rolled_back :: "pix_world \<Rightarrow> pix_world \<Rightarrow> pix_world" where
  "rolled_back w w1 = w\<lparr>pspCalls := pspCalls w1, notifications := notifications w1\<rparr>"

inductive pix_request ::
    "pix_config \<Rightarrow> validators \<Rightarrow> users_service \<Rightarrow> pix_world \<Rightarrow> pix_world \<Rightarrow> bool" for cfg v us where
  change: "changes_keys v psp now f \<Longrightarrow> f w = (r, w') \<Longrightarrow> pix_request cfg v us w w'"
| change_undone: "changes_keys v psp now f \<Longrightarrow> f w = (Inl e, w') \<Longrightarrow> pix_request cfg v us w (rolled_back w w')"
| verify: "VerifyCodePixKeyUseCase_execute cfg now user i code reason w = (r, w') \<Longrightarrow>
    pix_request cfg v us w w'"
| create: "CreatePixKeyUseCase_execute cfg v us now code i user t key w = (r, w') \<Longrightarrow>
    pix_request cfg v us w w'"

end
