(* ===== verification/Pix_Key_Properties.thy ===== *)
theory Pix_Key_Properties
  imports Pix_Key_Requests
begin

text \<open>
  The properties of the pix keys service over all its requests: keys follow the state machine, their
  owner never changes and a canceled key is never touched again, events tell the state they stand
  for, and the numbers of keys per user and of attempts per code stay within their limits.
\<close>

section \<open>What a request does to the keys\<close>

definition evolves :: "pix_world \<Rightarrow> pix_world \<Rightarrow> bool" where
  "evolves w w' \<longleftrightarrow> (\<exists>olds news es. pixKeys w' = olds @ news \<and> list_all2 row_step (pixKeys w) olds \<and>
     list_all (\<lambda>p. initial_state (pk_state p)) news \<and> tbl_wf pk_id (pixKeys w') \<and>
     pixOutbox w' = pixOutbox w @ es \<and> list_all truthful es)"

lemma list_all2_row_step_ids: "list_all2 row_step xs ys \<Longrightarrow> map pk_id ys = map pk_id xs"
  by (induction rule: list_all2_induct) (auto dest: row_step_id)

lemma evolves_refl: "tbl_wf pk_id (pixKeys w) \<Longrightarrow> evolves w w"
  unfolding evolves_def by (rule exI [of _ "pixKeys w"]) (simp add: list_all2_same)

lemma keysOk_evolves:
  assumes "keysOk row_step w w'"
  shows "evolves w w'"
proof -
  from assms obtain es where rel: "list_all2 row_step (pixKeys w) (pixKeys w')"
    and es: "pixOutbox w' = pixOutbox w @ es" "list_all truthful es"
    and wf: "tbl_wf pk_id (pixKeys w)"
    unfolding keysOk_def by blast
  from wf list_all2_row_step_ids [OF rel] have "tbl_wf pk_id (pixKeys w')" by (simp add: tbl_wf_def)
  with rel es show ?thesis
    unfolding evolves_def by (intro exI [of _ "pixKeys w'"] exI [of _ "[]"] exI [of _ es]) simp
qed

text \<open>What creating a key checks and does.\<close>

definition keys_limit :: "pix_config \<Rightarrow> users_service \<Rightarrow> string \<Rightarrow> nat" where
  "keys_limit cfg us user = (case us_getUserByUuid us user of
     None \<Rightarrow> 0
   | Some u \<Rightarrow> if ui_type u = NATURAL_PERSON
               then min (naturalPersonMaxNumberOfKeys cfg) (legalPersonMaxNumberOfKeys cfg)
               else legalPersonMaxNumberOfKeys cfg)"

definition adds_key :: "pix_config \<Rightarrow> users_service \<Rightarrow> pix_world \<Rightarrow> pix_world \<Rightarrow> bool" where
  "adds_key cfg us w w' \<longleftrightarrow> (\<exists>q e. w' = w\<lparr>pixKeys := pixKeys w @ [q], pixOutbox := pixOutbox w @ [e]\<rparr> \<and>
     initial_state (pk_state q) \<and> truthful e \<and> pk_id q \<notin> pk_id ` set (pixKeys w) \<and>
     countByUserAndStateIsNotCanceled (pk_user q) w < keys_limit cfg us (pk_user q))"

lemma max_keys_reached_None:
  "max_keys_reached cfg (ui_type u) n = None \<Longrightarrow> us_getUserByUuid us user = Some u \<Longrightarrow> n < keys_limit cfg us user"
  by (auto simp: max_keys_reached_def keys_limit_def split: if_splits)

lemma bind_readD: "bindS (readS g) f w = (r, w') \<Longrightarrow> w' = w \<or> (\<exists>x. g w = Inr x \<and> f x w = (r, w'))"
  by (auto simp: bindS_def readS_def split: sum.splits)

lemma bind_requireD: "bindS (requireData ns) f w = (r, w') \<Longrightarrow> w' = w \<or> f () w = (r, w')"
  by (auto simp: bindS_def requireData_def returnS_def throwS_def split: if_splits)

lemma store_new:
  assumes "bindS (PixKeyRepository_create now p) (\<lambda>q.
     bindS (emitKey (if pk_state q = K_CONFIRMED then E_CONFIRMED else E_PENDING) q None) (\<lambda>_. returnS q)) w = (r, w')"
    and "initial_state (pk_state p)" and "countByUserAndStateIsNotCanceled (pk_user p) w < keys_limit cfg us (pk_user p)"
  shows "w' = w \<or> adds_key cfg us w w'"
proof (cases "tbl_find pk_id (pk_id p) (pixKeys w)")
  case None
  let ?q = "p\<lparr>pk_createdAt := now, pk_updatedAt := now\<rparr>"
  let ?e = "\<lparr> pe_type = (if pk_state p = K_CONFIRMED then E_CONFIRMED else E_PENDING), pe_id = pk_id p,
    pe_state = pk_state p, pe_user = pk_user p, pe_reason = None \<rparr>"
  from None assms(1) have "w' = w\<lparr>pixKeys := pixKeys w @ [?q], pixOutbox := pixOutbox w @ [?e]\<rparr>"
    by (simp add: bindS_def PixKeyRepository_create_def tbl_create_def tbl_insert_def emitKey_def
        modifyS_def returnS_def Let_def split: if_splits)
  moreover have "truthful ?e" using assms(2) by (auto simp: initial_state_def truthful_def)
  ultimately show ?thesis
    unfolding adds_key_def using assms(2,3) None
    by (intro disjI2 exI [of _ ?q] exI [of _ ?e]) (simp add: tbl_find_None_iff)
next
  case (Some x)
  with assms(1) show ?thesis
    by (simp add: bindS_def PixKeyRepository_create_def tbl_create_def)
qed

lemma new_pix_key_simps [simp]:
  "initial_state (pk_state (new_pix_key i user t key u ob code))"
  "pk_user (new_pix_key i user t key u ob code) = user"
  by (simp_all add: new_pix_key_def Let_def initial_state_def)

lemma addNewPixKey_adds:
  assumes "addNewPixKey cfg v us now code i user t key w = (r, w')"
  shows "w' = w \<or> adds_key cfg us w w'"
proof -
  from assms have "w' = w \<or> (\<exists>u ob. us_getUserByUuid us user = Some u \<and>
     max_keys_reached cfg (ui_type u) (countByUserAndStateIsNotCanceled user w) = None \<and>
     bindS (PixKeyRepository_create now (new_pix_key i user t key u ob code)) (\<lambda>q.
       bindS (emitKey (if pk_state q = K_CONFIRMED then E_CONFIRMED else E_PENDING) q None)
         (\<lambda>_. returnS q)) w = (r, w'))"
    unfolding addNewPixKey_def Let_def
    by (auto dest!: bind_readD bind_requireD simp: result_simps throwS_def split: if_splits option.splits)
  then show ?thesis
  proof (elim disjE exE conjE)
    fix u ob
    assume "us_getUserByUuid us user = Some u"
      and "max_keys_reached cfg (ui_type u) (countByUserAndStateIsNotCanceled user w) = None"
    from max_keys_reached_None [OF this(2,1)] show "?thesis" if "bindS (PixKeyRepository_create now
      (new_pix_key i user t key u ob code)) (\<lambda>q. bindS (emitKey
        (if pk_state q = K_CONFIRMED then E_CONFIRMED else E_PENDING) q None) (\<lambda>_. returnS q)) w = (r, w')"
      using store_new [OF that, of cfg us] by simp
  qed simp
qed

lemma CreatePixKey_adds:
  assumes "CreatePixKeyUseCase_execute cfg v us now code i user t key w = (r, w')"
  shows "w' = w \<or> adds_key cfg us w w'"
  using assms unfolding CreatePixKeyUseCase_execute_def
  by (auto dest!: bind_readD dest: addNewPixKey_adds simp: throwS_def returnS_def
      split: option.splits if_splits)

lemma adds_key_evolves: "adds_key cfg us w w' \<Longrightarrow> tbl_wf pk_id (pixKeys w) \<Longrightarrow> evolves w w'"
  unfolding adds_key_def evolves_def
  by (elim exE conjE, rule exI [of _ "pixKeys w"]) (auto simp: list_all2_same tbl_wf_def)

lemma moves_keysOk:
  assumes "moves w untouched f" and "f w = (r, w')" and "tbl_wf pk_id (pixKeys w)"
  shows "keysOk row_step w w'"
proof -
  from assms(1) have "valid (keysOk untouched w) f (\<lambda>_. keysOk row_step w) (keysOk row_step w)"
    by (simp add: moves_def)
  from valid_weaken [OF this, of "keysOk untouched w" "\<lambda>_. keysOk row_step w" "keysOk row_step w"]
  show ?thesis
    using keysOk_start [OF assms(3)] assms(2) unfolding valid_def by (auto split: sum.splits)
qed

lemma moves_evolves:
  "moves w untouched f \<Longrightarrow> f w = (r, w') \<Longrightarrow> tbl_wf pk_id (pixKeys w) \<Longrightarrow> evolves w w'"
  by (blast intro: keysOk_evolves moves_keysOk)

lemma pix_request_evolves:
  assumes "pix_request cfg v us w w'" and wf: "tbl_wf pk_id (pixKeys w)"
  shows "evolves w w'"
  using assms(1)
proof cases
  case (change psp now f r)
  with changes_keys_moves wf show ?thesis by (blast intro: moves_evolves)
next
  case (change_undone psp now f e w1)
  then show ?thesis using evolves_refl [OF wf] by (simp add: rolled_back_def evolves_def)
next
  case (verify now user i code reason r)
  then show ?thesis by (rule moves_evolves [OF moves_VerifyCode _ wf])
next
  case (create now code i user t key r)
  then show ?thesis using CreatePixKey_adds adds_key_evolves evolves_refl wf by blast
qed

section \<open>The state machine\<close>

definition key_states :: "pix_world \<Rightarrow> string \<Rightarrow> key_state option" where
  "key_states w i = map_option pk_state (PixKeyRepository_getById i w)"

text \<open>The abstract machine: any number of keys move one step each, new ones start at the beginning.\<close>

definition machine_step :: "(string \<Rightarrow> key_state option) \<Rightarrow> (string \<Rightarrow> key_state option) \<Rightarrow> bool" where
  "machine_step m m' \<longleftrightarrow> (\<forall>i. case m i of
     None \<Rightarrow> (case m' i of None \<Rightarrow> True | Some t \<Rightarrow> initial_state t)
   | Some s \<Rightarrow> (case m' i of None \<Rightarrow> False | Some t \<Rightarrow> may_become s t))"

lemma find_append:
  "tbl_find key k (xs @ ys) = (case tbl_find key k xs of Some x \<Rightarrow> Some x | None \<Rightarrow> tbl_find key k ys)"
  by (induction xs) auto

lemma list_all2_find:
  assumes "list_all2 row_step xs ys"
  shows "case tbl_find pk_id i xs of None \<Rightarrow> tbl_find pk_id i ys = None
         | Some p \<Rightarrow> (\<exists>q. tbl_find pk_id i ys = Some q \<and> row_step p q)"
  using assms
proof (induction rule: list_all2_induct)
  case (Cons x xs y ys)
  then show ?case using row_step_id [OF Cons(1)] by (cases "pk_id x = i") (auto split: option.splits)
qed simp

lemma evolves_lookup:
  assumes "evolves w w'"
  shows "case PixKeyRepository_getById i w of
      None \<Rightarrow> (case PixKeyRepository_getById i w' of None \<Rightarrow> True | Some q \<Rightarrow> initial_state (pk_state q))
    | Some p \<Rightarrow> (\<exists>q. PixKeyRepository_getById i w' = Some q \<and> row_step p q)"
proof -
  from assms obtain olds news where w': "pixKeys w' = olds @ news"
    and olds: "list_all2 row_step (pixKeys w) olds"
    and news: "list_all (\<lambda>p. initial_state (pk_state p)) news"
    unfolding evolves_def by blast
  show ?thesis
    using list_all2_find [OF olds, of i] news
    by (auto simp: PixKeyRepository_getById_def w' find_append list_all_iff split: option.splits
        dest: tbl_find_SomeD)
qed

lemma evolves_machine: "evolves w w' \<Longrightarrow> machine_step (key_states w) (key_states w')"
  unfolding machine_step_def key_states_def
proof
  fix i
  assume "evolves w w'"
  from evolves_lookup [OF this, of i]
  show "case map_option pk_state (PixKeyRepository_getById i w) of
      None \<Rightarrow> (case map_option pk_state (PixKeyRepository_getById i w') of
        None \<Rightarrow> True | Some t \<Rightarrow> initial_state t)
    | Some s \<Rightarrow> (case map_option pk_state (PixKeyRepository_getById i w') of
        None \<Rightarrow> False | Some t \<Rightarrow> may_become s t)"
    by (auto simp: row_step_def split: option.splits)
qed

text \<open>The tables are repositories.\<close>

interpretation pix_keys: repository pk_id "tbl_find pk_id" "tbl_update pk_id" tbl_insert tbl_total
  "tbl_wf pk_id"
  by (rule list_table_repository)

interpretation pix_claims: repository pc_id "tbl_find pc_id" "tbl_update pc_id" tbl_insert tbl_total
  "tbl_wf pc_id"
  by (rule list_table_repository)

definition same_owner :: "pix_key \<Rightarrow> pix_key \<Rightarrow> bool" where
  "same_owner p q \<longleftrightarrow>
     pk_id q = pk_id p \<and> pk_user q = pk_user p \<and> pk_type q = pk_type p \<and> pk_document q = pk_document p \<and>
     pk_accountNumber q = pk_accountNumber p \<and> (pk_key q = pk_key p \<or> pk_type p = EVP) \<and>
     (pk_state p = K_CANCELED \<longrightarrow> q = p)"

interpretation pix_life: lifecycle "pix_request cfg v us" PixKeyRepository_getById
  "\<lambda>w. tbl_wf pk_id (pixKeys w)" same_owner
proof
  fix w w' i p
  assume "tbl_wf pk_id (pixKeys w)" and "pix_request cfg v us w w'"
  then have evolves: "evolves w w'" by (rule pix_request_evolves [rotated])
  then show "tbl_wf pk_id (pixKeys w')" unfolding evolves_def by blast
  assume "PixKeyRepository_getById i w = Some p"
  with evolves_lookup [OF evolves, of i]
  show "\<exists>q. PixKeyRepository_getById i w' = Some q \<and> same_owner p q"
    by (auto simp: row_step_def same_identity_def same_owner_def)
qed (auto simp: same_owner_def)

section \<open>The number of keys\<close>

definition active_keys :: "string \<Rightarrow> pix_key list \<Rightarrow> nat" where
  "active_keys u ps = length (filter (\<lambda>p. pk_user p = u \<and> notCanceled p) ps)"

lemma active_keys_append: "active_keys u (xs @ ys) = active_keys u xs + active_keys u ys"
  by (simp add: active_keys_def)

lemma active_keys_step: "list_all2 row_step xs ys \<Longrightarrow> active_keys u ys \<le> active_keys u xs"
proof (induction rule: list_all2_induct)
  case (Cons x xs y ys)
  from Cons(1) have "pk_user y = pk_user x" and "notCanceled y \<Longrightarrow> notCanceled x"
    by (auto simp: row_step_def same_identity_def notCanceled_def)
  with Cons(3) show ?case by (auto simp: active_keys_def)
qed simp

lemma moves_active_keys:
  assumes "moves w untouched f" and "f w = (r, w')" and "tbl_wf pk_id (pixKeys w)"
  shows "active_keys u (pixKeys w') \<le> active_keys u (pixKeys w)"
proof -
  from moves_keysOk [OF assms] have "list_all2 row_step (pixKeys w) (pixKeys w')" by (simp add: keysOk_def)
  then show ?thesis by (rule active_keys_step)
qed

lemma pix_request_active_keys:
  assumes "pix_request cfg v us w w'" and wf: "tbl_wf pk_id (pixKeys w)"
  shows "active_keys u (pixKeys w') \<le> max (active_keys u (pixKeys w)) (keys_limit cfg us u)"
  using assms(1)
proof cases
  case (change psp now f r)
  from moves_active_keys [OF changes_keys_moves [OF change(1)] change(2) wf, of u] show ?thesis by simp
next
  case (change_undone psp now f e w1)
  then show ?thesis by (simp add: rolled_back_def)
next
  case (verify now user i code reason r)
  from moves_active_keys [OF moves_VerifyCode verify(1) wf, of u] show ?thesis by simp
next
  case (create now code i user t key r)
  from CreatePixKey_adds [OF create] show ?thesis
  proof
    assume "adds_key cfg us w w'"
    then show ?thesis
      by (auto simp: adds_key_def active_keys_def countByUserAndStateIsNotCanceled_def)
  qed simp
qed

section \<open>Concrete keys\<close>

definition sample_key :: "string \<Rightarrow> string \<Rightarrow> key_state \<Rightarrow> pix_key" where
  "sample_key i user s = \<lparr> pk_id = i, pk_type = PHONE, pk_key = Some ''+5581999999999'',
     pk_personType = NATURAL_PERSON, pk_document = ''12345678909'', pk_name = ''Maria'',
     pk_tradeName = None, pk_user = user, pk_accountNumber = ''1'', pk_branch = ''1'', pk_state = s,
     pk_accountOpeningDate = 0, pk_code = Some ''12345'', pk_failed = None, pk_deletedByReason = None,
     pk_claim = None, pk_createdAt = 0, pk_updatedAt = 0, pk_canceledAt = None, pk_deletedAt = None \<rparr>"

definition sample_world :: "pix_key list \<Rightarrow> pix_world" where
  "sample_world ps = \<lparr> pixKeys = ps, pixKeyClaims = [], pixKeyVerifications = [], pixOutbox = [],
     pixClaimOutbox = [], pspCalls = [], notifications = [] \<rparr>"

definition sample_config :: pix_config where
  "sample_config = \<lparr> naturalPersonMaxNumberOfKeys = 5, legalPersonMaxNumberOfKeys = 20, numberOfRetries = 3 \<rparr>"

definition sample_users :: users_service where
  "sample_users = \<lparr> us_getUserByUuid = (\<lambda>u. Some \<lparr> ui_type = NATURAL_PERSON, ui_document = ''12345678909'',
       ui_fullName = ''Maria'', ui_active = True \<rparr>),
     us_getOnboarding = (\<lambda>u. Some \<lparr> ob_accountNumber = ''1'', ob_branch = ''1'', ob_updatedAt = 0 \<rparr>) \<rparr>"

definition sample_validators :: validators where
  "sample_validators = \<lparr> v_isEmail = (\<lambda>_. True), v_isCpf = (\<lambda>_. True), v_isCnpj = (\<lambda>_. True),
     v_isUUID = (\<lambda>_. True) \<rparr>"

lemmas sample_simps = sample_key_def sample_world_def sample_config_def sample_users_def

definition sample_before :: pix_world where
  "sample_before = sample_world [sample_key ''k'' ''u'' K_ADD_KEY_READY]"

definition sample_after :: pix_world where
  "sample_after = snd (DismissByIdPixKeyUseCase_execute 7 (Some ''u'') ''k'' sample_before)"

lemma sample_dismissal: "pix_request sample_config sample_validators sample_users sample_before sample_after"
proof (rule pix_request.change)
  show "changes_keys sample_validators (\<lambda>_. Inr None) 7
      (unit_step (DismissByIdPixKeyUseCase_execute 7 (Some ''u'') ''k''))"
    by (rule changes_keys.intros(1)) (simp add: user_use_cases_def)
  show "unit_step (DismissByIdPixKeyUseCase_execute 7 (Some ''u'') ''k'') sample_before = (Inr (), sample_after)"
    unfolding sample_after_def by code_simp
qed

lemma sample_run:
  "(pix_request sample_config sample_validators sample_users)\<^sup>*\<^sup>* sample_before sample_after"
  using sample_dismissal by (rule r_into_rtranclp)

lemma sample_wf: "tbl_wf pk_id (pixKeys sample_before)"
  by code_simp

section \<open>Properties\<close>

text \<open>C30: Every request moves each key at most one step along the life cycle of keys, whether it
  returns, throws in an observer or is rolled back; new keys start pending or confirmed.\<close>

theorem keys_follow_the_life_cycle:
  assumes "pix_request cfg v us w w'" and "tbl_wf pk_id (pixKeys w)"
  shows "tbl_wf pk_id (pixKeys w') \<and> machine_step (key_states w) (key_states w')"
proof -
  from assms have "evolves w w'" by (rule pix_request_evolves)
  then show ?thesis using evolves_machine by (auto simp: evolves_def)
qed

theorem keys_follow_the_life_cycle_witness:
  "machine_step (key_states sample_before) (key_states sample_after) \<and>
   key_states sample_before ''k'' = Some K_ADD_KEY_READY \<and> key_states sample_after ''k'' = Some K_READY"
proof (intro conjI)
  show "machine_step (key_states sample_before) (key_states sample_after)"
    using keys_follow_the_life_cycle [OF sample_dismissal sample_wf] by (rule conjunct2)
qed code_simp+



text \<open>C32: Every event that any sequence of requests emits carries the state of the key that its type
  stands for.\<close>

theorem events_tell_their_state:
  assumes "(pix_request cfg v us)\<^sup>*\<^sup>* w w'" and "tbl_wf pk_id (pixKeys w)"
  shows "\<exists>es. pixOutbox w' = pixOutbox w @ es \<and> list_all truthful es"
  using assms(1)
proof (induction rule: rtranclp_induct)
  case (step y z)
  from pix_life.run_wf [OF step(1)] assms(2) have "evolves y z" by (blast intro: pix_request_evolves step(2))
  with step.IH show ?case by (auto simp: evolves_def)
qed simp

theorem events_tell_their_state_witness:
  "\<exists>es. pixOutbox sample_after = pixOutbox sample_before @ es \<and> list_all truthful es"
  using events_tell_their_state [OF sample_run sample_wf] .

text \<open>C33: However requests come, a user has no more keys that are not canceled than before or than the
  maximum for the type of the user, natural persons being held to the smaller of the two maxima.\<close>

theorem keys_per_user_bounded:
  assumes "(pix_request cfg v us)\<^sup>*\<^sup>* w w'" and "tbl_wf pk_id (pixKeys w)"
  shows "countByUserAndStateIsNotCanceled u w' \<le> max (countByUserAndStateIsNotCanceled u w) (keys_limit cfg us u)"
  using assms(1)
proof (induction rule: rtranclp_induct)
  case (step y z)
  from pix_life.run_wf [OF step(1)] assms(2) pix_request_active_keys [OF step(2), of u] step.IH
  show ?case by (auto simp: countByUserAndStateIsNotCanceled_def active_keys_def)
qed simp

theorem keys_per_user_bounded_witness:
  "countByUserAndStateIsNotCanceled ''u'' sample_after \<le> 5 \<and>
   countByUserAndStateIsNotCanceled ''u'' sample_after = 1"
proof
  have "countByUserAndStateIsNotCanceled ''u'' sample_before = 1" "keys_limit sample_config sample_users ''u'' = 5"
    by code_simp+
  then show "countByUserAndStateIsNotCanceled ''u'' sample_after \<le> 5"
    using keys_per_user_bounded [OF sample_run sample_wf, of "''u''"] by simp
qed code_simp

end
