(* ===== verification/Pix_Key_Attempts.thy ===== *)
theory Pix_Key_Attempts
  imports Pix_Key_Properties
begin

text \<open>
  How often the code of a key can be tried: the rows of pix_keys_verification count the attempts, and
  only a new code removes them.
\<close>

section \<open>Use cases that add no attempt\<close>

definition calm :: "'a pix_step \<Rightarrow> bool" where
  "calm f \<longleftrightarrow> (\<forall>i w. countByPixKey i (snd (f w)) \<le> countByPixKey i w)"

named_theorems calm_intros \<open>rules that take a use case apart\<close>

lemma calm_bind [calm_intros]: "calm m \<Longrightarrow> (\<And>x. calm (f x)) \<Longrightarrow> calm (bindS m f)"
  unfolding calm_def bindS_def
  by (auto split: prod.split sum.split) (metis le_trans snd_conv)+

lemma calm_basic [calm_intros]:
  "calm (returnS x)" "calm (throwS e)" "calm (readS g)" "calm (invalidState p)"
  "calm (PixKeyRepository_update now p)" "calm (emitKey ev p r)" "calm (callPsp psp c)"
  "calm (PixKeyClaimRepository_update cl)" "calm (modifyS (\<lambda>w. w\<lparr>notifications := h w\<rparr>))"
  "calm (claimId p)" "calm (requireClaimId p)" "calm (requireData ns)"
  by (simp_all add: calm_def returnS_def throwS_def readS_def invalidState_def modifyS_def
      PixKeyRepository_update_def put_key_def emitKey_def callPsp_def PixKeyClaimRepository_update_def
      claimId_def requireClaimId_def requireData_def countByPixKey_def)

lemma length_filter_filter: "length (filter P (filter Q xs)) \<le> length (filter P xs)"
  by (induction xs) auto

lemma calm_delete [calm_intros]: "calm (deleteByPixKey i)"
  by (simp add: calm_def deleteByPixKey_def modifyS_def countByPixKey_def length_filter_filter
      del: filter_filter)

lemma calm_cases [calm_intros]:
  "calm f1 \<Longrightarrow> calm g1 \<Longrightarrow> calm (if c then f1 else g1)"
  "calm f2 \<Longrightarrow> (\<And>x. calm (g2 x)) \<Longrightarrow> calm (case z of None \<Rightarrow> f2 | Some x \<Rightarrow> g2 x)"
  "(\<And>a b. calm (f3 a b)) \<Longrightarrow> calm (case y of (a, b) \<Rightarrow> f3 a b)"
  "calm (f4 u) \<Longrightarrow> calm (let v = u in f4 v)"
  by (auto split: option.split prod.split)

lemma calm_sum [calm_intros]:
  "(\<And>e. calm (f e)) \<Longrightarrow> (\<And>x. calm (g x)) \<Longrightarrow> calm (case s of Inl e \<Rightarrow> f e | Inr x \<Rightarrow> g x)"
  by (auto split: sum.split)

lemma calm_psp_error [calm_intros]:
  "calm f1 \<Longrightarrow> calm f2 \<Longrightarrow> (\<And>x. calm (f3 x)) \<Longrightarrow> calm (case e of
     PixKeyOwnedByThirdPersonPsp \<Rightarrow> f1 | PixKeyOwnedBySamePersonPsp \<Rightarrow> f2 | OtherPspError x \<Rightarrow> f3 x)"
  by (auto split: psp_error.split)

lemma calm_foldS [calm_intros]: "(\<And>x. calm (f x)) \<Longrightarrow> calm (foldS f xs)"
  by (induction xs) (auto intro: calm_intros)

lemma calm_emitDismissed [calm_intros]: "calm (emitDismissed p)"
  by (cases "pk_state p") (simp_all add: emitDismissed_def calm_intros)

lemma calm_emitCanceled [calm_intros]:
  "calm (case pk_state q of K_CANCELED \<Rightarrow> emitKey E_CANCELED q None
     | K_CLAIM_CLOSING \<Rightarrow> emitKey E_CLAIM_CLOSING q reason | _ \<Rightarrow> returnS ())"
  by (cases "pk_state q") (simp_all add: calm_intros)

text \<open>The definitions of the use cases.\<close>

lemmas use_case_defs = gateway_def loadById_def loadByUserAndId_def loadByKey_def storeAndEmit_def
  whenState_def unit_step_def
  loadForUser_def SendCodePixKeyUseCase_execute_def CancelCodePixKeyUseCase_execute_def
  DismissByIdPixKeyUseCase_execute_def DeleteByIdPixKeyUseCase_execute_def
  loadEvent_def addPortabilityPendingPixKey_def addOwnershipPendingPixKey_def addAtPsp_def
  addConfirmedPixKey_def HandleConfirmedPixKeyEventUseCase_execute_def
  HandleConfirmedFailedPixKeyEventUseCase_execute_def HandleDeletingPixKeyEventUseCase_execute_def
  HandleDeletingFailedPixKeyEventUseCase_execute_def expireWhen_def cancelExpired_def
  HandlePendingExpiredPixKeyUseCase_execute_def announceExpired_def
  SyncPendingExpiredPixKeyUseCase_execute_def ApproveOwnershipClaimStartProcessUseCase_execute_def
  startOwnership_def HandleOwnershipOpenedPixKeyEventUseCase_execute_def
  HandleOwnershipOpenedFailedPixKeyEventUseCase_execute_def
  CancelingOwnershipClaimProcessUseCase_execute_def loadEventReason_def cancelOwnership_def
  HandleOwnershipCancelingPixKeyEventUseCase_execute_def
  HandleOwnershipCancelingFailedPixKeyEventUseCase_execute_def
  HandleOwnershipPendingExpiredPixKeyUseCase_execute_def cancelStart_def
  CancelStartClaimProcessByIdPixKeyUseCase_execute_def loadClaimed_def storeWithClaim_def
  WaitOwnershipClaimProcessUseCase_execute_def ConfirmOwnershipClaimProcessUseCase_execute_def
  CompleteOwnershipClaimProcessUseCase_execute_def CancelOwnershipClaimProcessUseCase_execute_def
  ApprovePortabilityClaimStartProcessUseCase_execute_def
  HandlePortabilityOpenedPixKeyEventUseCase_execute_def
  HandlePortabilityOpenedFailedPixKeyEventUseCase_execute_def
  CancelingPortabilityClaimProcessUseCase_execute_def
  HandlePortabilityCancelingPixKeyEventUseCase_execute_def
  HandlePortabilityCancelingFailedPixKeyEventUseCase_execute_def
  HandlePortabilityPendingExpiredPixKeyUseCase_execute_def
  CancelStartPortabilityProcessByIdPixKeyUseCase_execute_def
  ConfirmPortabilityClaimProcessUseCase_execute_def
  CompletePortabilityClaimProcessUseCase_execute_def
  CancelPortabilityClaimProcessUseCase_execute_def WaitPortabilityClaimProcessUseCase_execute_def
  ReadyPortabilityClaimProcessUseCase_execute_def
  ApprovePortabilityClaimProcessUseCase_execute_def
  CancelPortabilityRequestClaimProcessUseCase_execute_def reportedClaim_def
  HandlePortabilityRequestCancelOpenedPixKeyEventUseCase_execute_def
  HandlePortabilityRequestCancelOpenedFailedPixKeyEventUseCase_execute_def
  HandlePortabilityRequestCancelStartedPixKeyEventUseCase_execute_def
  HandlePortabilityRequestConfirmOpenedPixKeyEventUseCase_execute_def
  HandlePortabilityRequestConfirmOpenedFailedPixKeyEventUseCase_execute_def
  HandlePortabilityRequestConfirmStartedPixKeyEventUseCase_execute_def
  ReadyOwnershipClaimProcessUseCase_execute_def
  HandleClaimPendingExpiredPixKeyEventUseCase_execute_def closeClaim_def
  HandleClaimClosingPixKeyEventUseCase_execute_def
  HandleClaimClosingFailedPixKeyEventUseCase_execute_def
  CompleteClosingClaimProcessUseCase_execute_def denyClaim_def
  HandleClaimDeniedPixKeyEventUseCase_execute_def
  HandleClaimDeniedFailedPixKeyEventUseCase_execute_def
  SyncOwnershipPendingExpiredPixKeyUseCase_execute_def
  SyncPortabilityPendingExpiredPixKeyUseCase_execute_def announceClaimExpired_def
  SyncClaimPendingExpiredPixKeyUseCase_execute_def confirmExpiredRequest_def
  SyncPortabilityRequestPendingPixKeyUseCase_execute_def

lemma calm_handlers [calm_intros]:
  "calm (handlePortabilityStarted now c)" "calm (handlePortabilityConfirmed now c)"
  "calm (handleOwnershipStarted psp now c)" "calm (handleOwnershipWaiting psp now c)"
  "calm (handleOwnershipConfirmed now c)" "calm (handleReady now c)"
  "calm (handleClaimClosing now c)" "calm (invalidFlow c)"
  by (cases "rc_type c"; cases "rc_status c";
      simp add: handlePortabilityStarted_def handlePortabilityConfirmed_def handleOwnershipStarted_def
        handleOwnershipWaiting_def handleOwnershipConfirmed_def handleReady_def handleClaimClosing_def
        invalidFlow_def calm_intros use_case_defs)+

lemma calm_dispatchClaim [calm_intros]: "calm (dispatchClaim psp now c s)"
  by (cases s) (simp_all add: dispatchClaim_def calm_intros)

lemma changes_keys_calm: "changes_keys v psp now f \<Longrightarrow> calm f"
proof (induction rule: changes_keys.induct)
  case (1 f user i)
  then show ?case by (auto simp: user_use_cases_def use_case_defs intro!: calm_intros)
next
  case (2 f user i reason)
  then show ?case by (auto simp: user_reason_use_cases_def use_case_defs intro!: calm_intros)
next
  case (3 f i)
  then show ?case by (auto simp: event_use_cases_def use_case_defs intro!: calm_intros)
next
  case (4 f i)
  then show ?case by (auto simp: expiry_use_cases_def use_case_defs intro!: calm_intros)
next
  case (5 f i)
  then show ?case by (auto simp: psp_use_cases_def use_case_defs intro!: calm_intros)
next
  case (6 f i reason)
  then show ?case by (auto simp: psp_reason_use_cases_def use_case_defs intro!: calm_intros)
next
  case (7 f k)
  then show ?case by (auto simp: claim_use_cases_def use_case_defs intro!: calm_intros)
next
  case (8 f timestamp)
  then show ?case by (auto simp: expiry_crons_def use_case_defs intro!: calm_intros)
qed (unfold use_case_defs HandleReceiveReadyPixKeyClaimController_execute_def, (intro calm_intros)+)

section \<open>Attempts\<close>

lemma create_attempts:
  "CreatePixKeyUseCase_execute cfg v us now code i user t key w = (r, w') \<Longrightarrow> countByPixKey j w' = countByPixKey j w"
  by (drule CreatePixKey_adds) (auto simp: adds_key_def countByPixKey_def)

text \<open>An attempt is refused when the key has had its attempts, else it is recorded.\<close>

lemma emitVerified_attempts: "countByPixKey j (snd (emitVerified q reason y)) = countByPixKey j y"
  by (cases "pk_state q"; simp add: emitVerified_def emitKey_def modifyS_def returnS_def countByPixKey_def)

lemma emitVerified_returns: "fst (emitVerified q reason y) = Inr ()"
  by (cases "pk_state q"; simp add: emitVerified_def emitKey_def modifyS_def returnS_def)

lemma record_attempt:
  assumes "bindS (PixKeyVerificationRepository_create v) (\<lambda>_. bindS (PixKeyRepository_update now q)
      (\<lambda>_. bindS (emitVerified q reason) (\<lambda>_. returnS q))) w = (r, w')"
  shows "countByPixKey j w' = countByPixKey j w + (if pv_pixKey v = j then 1 else 0)"
proof -
  let ?y = "put_key now q (w\<lparr>pixKeyVerifications := pixKeyVerifications w @ [v]\<rparr>)"
  from assms emitVerified_returns [of q reason ?y] have "w' = snd (emitVerified q reason ?y)"
    by (cases "emitVerified q reason ?y")
      (auto simp: bindS_def PixKeyVerificationRepository_create_def PixKeyRepository_update_def
        modifyS_def returnS_def)
  then have "countByPixKey j w' = countByPixKey j ?y" by (simp only: emitVerified_attempts)
  then show ?thesis by (simp add: countByPixKey_def put_key_def)
qed

lemma verify_attempts:
  assumes "VerifyCodePixKeyUseCase_execute cfg now user i code reason w = (r, w')"
  shows "countByPixKey j w' \<le> max (countByPixKey j w) (numberOfRetries cfg)"
  using assms unfolding VerifyCodePixKeyUseCase_execute_def Let_def loadByUserAndId_def
  by (auto dest!: bind_readD record_attempt [where j = j] simp: throwS_def invalidState_def
      split: option.splits if_splits)


definition guessed :: pix_world where
  "guessed = snd (VerifyCodePixKeyUseCase_execute sample_config 7 (Some ''u'') ''k'' ''0'' None
     (sample_world [sample_key ''k'' ''u'' K_PENDING]))"


end
