(* ===== verification/Pix_Key_Runs.thy ===== *)
theory Pix_Key_Runs
  imports Pix_Key_Properties
begin

text \<open>
  Runs of the pix keys service: when the loop that fetches claims returns, what happens to a key that
  was never confirmed when somebody claims its value, and what a failure in the middle of handing a
  key over leaves behind.
\<close>

section \<open>Fetching the claims of the PSP\<close>

lemma syncClaim_returns: "\<exists>w'. syncClaim c w = (Inr (), w')"
proof (cases "PixKeyClaimRepository_getById (pc_id c) w")
  case None
  then show ?thesis
    by (simp add: syncClaim_def bindS_def readS_def PixKeyClaimRepository_create_def tbl_create_def
        PixKeyClaimRepository_getById_def modifyS_def)
next
  case (Some x)
  then show ?thesis
    by (simp add: syncClaim_def bindS_def readS_def PixKeyClaimRepository_update_def modifyS_def returnS_def)
qed

lemma syncClaims_return: "\<exists>w'. foldS syncClaim cs w = (Inr (), w')"
proof (induction cs arbitrary: w)
  case (Cons c cs)
  obtain w1 where "syncClaim c w = (Inr (), w1)" using syncClaim_returns by blast
  with Cons.IH [of w1] show ?case by (simp add: bindS_def)
qed (simp add: returnS_def)

text \<open>The PSP's answer at a turn ends the loop when it is an error or says that there are no more.\<close>

definition last_answer :: "claims_answer \<Rightarrow> bool" where
  "last_answer a \<longleftrightarrow> (case a of Inl _ \<Rightarrow> True | Inr (hasMoreElements, _) \<Rightarrow> \<not> hasMoreElements)"

lemma sync_loop_unfold:
  "SyncGetAllPixKeyClaimUseCase_loop g t w =
    (if last_answer (g t)
     then Some (case g t of Inl e \<Rightarrow> (Inl (PspFailure e), w) | Inr (_, cs) \<Rightarrow> foldS syncClaim cs w)
     else SyncGetAllPixKeyClaimUseCase_loop g (t + 1) (snd (foldS syncClaim (snd (projr (g t))) w)))"
proof (cases "g t")
  case (Inl e)
  then show ?thesis by (subst SyncGetAllPixKeyClaimUseCase_loop.simps) (simp add: last_answer_def)
next
  case (Inr a)
  obtain more cs where a: "a = (more, cs)" by fastforce
  obtain w' where "foldS syncClaim cs w = (Inr (), w')" using syncClaims_return by blast
  with Inr a show ?thesis
    by (subst SyncGetAllPixKeyClaimUseCase_loop.simps) (simp add: last_answer_def)
qed

lemma sync_loop_ends:
  "last_answer (g (t + k)) \<Longrightarrow> \<exists>x. SyncGetAllPixKeyClaimUseCase_loop g t w = Some x"
proof (induction k arbitrary: t w)
  case 0
  then show ?case by (subst sync_loop_unfold) simp
next
  case (Suc k)
  then have "last_answer (g ((t + 1) + k))" by simp
  from Suc.IH [OF this] show ?case by (subst sync_loop_unfold) auto
qed

lemma sync_loop_last:
  assumes "SyncGetAllPixKeyClaimUseCase_loop g t w = Some x"
  shows "\<exists>k. last_answer (g (t + k))"
proof (rule SyncGetAllPixKeyClaimUseCase_loop.raw_induct [OF _ assms, of "\<lambda>g t w x. \<exists>k. last_answer (g (t + k))"])
  fix loop :: "(nat \<Rightarrow> claims_answer) \<Rightarrow> nat \<Rightarrow> pix_world \<Rightarrow> ((pix_exn + unit) \<times> pix_world) option"
    and g t w x
  assume IH: "\<And>g t w x. loop g t w = Some x \<Longrightarrow> \<exists>k. last_answer (g (t + k))"
    and body: "(case g t of Inl e \<Rightarrow> Some (Inl (PspFailure e), w)
      | Inr (hasMoreElements, claims) \<Rightarrow>
          (case foldS syncClaim claims w of
             (Inl e, w') \<Rightarrow> Some (Inl e, w')
           | (Inr _, w') \<Rightarrow> if hasMoreElements then loop g (t + 1) w' else Some (Inr (), w'))) = Some x"
  show "\<exists>k. last_answer (g (t + k))"
  proof (cases "last_answer (g t)")
    case True
    then have "last_answer (g (t + 0))" by simp
    then show ?thesis ..
  next
    case False
    then obtain cs where "g t = Inr (True, cs)" by (auto simp: last_answer_def split: sum.splits)
    moreover obtain w' where "foldS syncClaim cs w = (Inr (), w')" using syncClaims_return by blast
    ultimately have "loop g (t + 1) w' = Some x" using body by simp
    from IH [OF this] obtain k where "last_answer (g (t + Suc k))" by auto
    then show ?thesis ..
  qed
qed

text \<open>C35: The loop that fetches the claims of a window of days returns exactly when some answer is an
  error or says that there is nothing more. It repeats one and the same request, so a PSP that always
  has more to give for that request keeps it running for ever.\<close>

theorem claims_sync_returns:
  "(SyncGetAllPixKeyClaimUseCase_loop g 0 w \<noteq> None) = (\<exists>turn. last_answer (g turn))"
  using sync_loop_ends [of g 0] sync_loop_last [of g 0] by fastforce

section \<open>A key that was never confirmed\<close>

text \<open>When the ownership of a value is claimed for which another user holds a key whose code was
  never confirmed, that key is treated as the current owner's: the claim is opened against it, and
  when the claimer gives up it becomes a ready key of the other user. The PSP is never asked.\<close>

theorem unconfirmed_key_becomes_ready:
  assumes "pixKeys w = [q, p]" and "pk_id q \<noteq> pk_id p" and "pk_key q = pk_key p" and "pk_id p \<noteq> []"
    and "pk_state q = K_NOT_CONFIRMED" and "pk_state p = K_OWNERSHIP_OPENED"
  shows "\<exists>r1 w1 r2 w2 r3 w3.
    HandleOwnershipOpenedPixKeyEventUseCase_execute psp now (pk_id p) w = (Inr r1, w1) \<and>
    CancelingOwnershipClaimProcessUseCase_execute now (Some (pk_user p)) (pk_id p) (Some reason) w1 = (Inr r2, w2) \<and>
    HandleOwnershipCancelingPixKeyEventUseCase_execute psp now (pk_id p) (Some reason) w2 = (Inr r3, w3) \<and>
    map pk_state (pixKeys w3) = [K_READY, K_OWNERSHIP_CANCELED] \<and>
    map pk_id (pixKeys w3) = [pk_id q, pk_id p] \<and> pspCalls w3 = pspCalls w"
proof -
  let ?q1 = "q\<lparr>pk_state := K_CLAIM_PENDING, pk_updatedAt := now\<rparr>"
  let ?p1 = "p\<lparr>pk_state := K_OWNERSHIP_WAITING, pk_updatedAt := now\<rparr>"
  let ?p2 = "p\<lparr>pk_state := K_OWNERSHIP_CANCELING, pk_updatedAt := now\<rparr>"
  note steps = bindS_def readS_def modifyS_def returnS_def throwS_def loadEvent_def loadForUser_def
    loadEventReason_def requireData_def needs_def missing_def loadById_def loadByUserAndId_def
    getByIdAndStateIsNotCanceled_def getByUserAndIdAndStateIsNotCanceled_def
    getByKeyAndStateIsNotCanceled_def notCanceled_def whenState_def storeAndEmit_def
    PixKeyRepository_update_def put_key_def tbl_update_def emitKey_def set_state_def findOtherKey_def
    isCanceledState_def PixKeyCanceledStates_def Let_def
  obtain r1 w1 where 1: "HandleOwnershipOpenedPixKeyEventUseCase_execute psp now (pk_id p) w = (Inr r1, w1)"
    and w1: "pixKeys w1 = [?q1, ?p1]" "pspCalls w1 = pspCalls w"
    using assms by (simp add: HandleOwnershipOpenedPixKeyEventUseCase_execute_def startOwnership_def steps)
  obtain r2 w2 where 2: "CancelingOwnershipClaimProcessUseCase_execute now (Some (pk_user p)) (pk_id p)
      (Some reason) w1 = (Inr r2, w2)"
    and w2: "pixKeys w2 = [?q1, ?p2]" "pspCalls w2 = pspCalls w"
    using assms(2-4) w1 by (simp add: CancelingOwnershipClaimProcessUseCase_execute_def steps)
  obtain r3 w3 where 3: "HandleOwnershipCancelingPixKeyEventUseCase_execute psp now (pk_id p)
      (Some reason) w2 = (Inr r3, w3)"
    and w3: "map pk_state (pixKeys w3) = [K_READY, K_OWNERSHIP_CANCELED]"
      "map pk_id (pixKeys w3) = [pk_id q, pk_id p]" "pspCalls w3 = pspCalls w"
    using assms(2-4) w2
    by (simp add: HandleOwnershipCancelingPixKeyEventUseCase_execute_def cancelOwnership_def steps)
  show ?thesis by (intro exI conjI, rule 1, rule 2, rule 3, rule w3(1), rule w3(2), rule w3(3))
qed

theorem unconfirmed_key_becomes_ready_witness:
  "\<exists>r1 w1 r2 w2 r3 w3.
    HandleOwnershipOpenedPixKeyEventUseCase_execute (\<lambda>_. Inr None) 7 ''b''
      (sample_world [sample_key ''a'' ''u'' K_NOT_CONFIRMED, sample_key ''b'' ''v'' K_OWNERSHIP_OPENED]) = (Inr r1, w1) \<and>
    CancelingOwnershipClaimProcessUseCase_execute 7 (Some ''v'') ''b'' (Some CR_FRAUD) w1 = (Inr r2, w2) \<and>
    HandleOwnershipCancelingPixKeyEventUseCase_execute (\<lambda>_. Inr None) 7 ''b'' (Some CR_FRAUD) w2 = (Inr r3, w3) \<and>
    map pk_state (pixKeys w3) = [K_READY, K_OWNERSHIP_CANCELED] \<and>
    map pk_id (pixKeys w3) = [''a'', ''b''] \<and> pspCalls w3 = []"
  using unconfirmed_key_becomes_ready [of
      "sample_world [sample_key ''a'' ''u'' K_NOT_CONFIRMED, sample_key ''b'' ''v'' K_OWNERSHIP_OPENED]"
      "sample_key ''a'' ''u'' K_NOT_CONFIRMED" "sample_key ''b'' ''v'' K_OWNERSHIP_OPENED"
      "\<lambda>_. Inr None" 7 CR_FRAUD]
  by (simp add: sample_world_def sample_key_def)

section \<open>Handing a key over\<close>

text \<open>Closing a claim for a claimer who is a user here too first deletes the key at the PSP, then
  creates it for the claimer, under the trade name of the old owner. When the PSP refuses the second
  call, the key is gone there and nothing of it is recorded here.\<close>

theorem failed_handover_loses_the_key:
  assumes "getByIdAndStateIsNotCanceled (pk_id p) w = Some p" and "pk_id p \<noteq> []"
    and "pk_state p = K_CLAIM_CLOSING" and "findOtherKey p w = Some q" and "pk_state q = K_OWNERSHIP_WAITING"
    and "psp (DeletePixKey (pk_key p) (pk_id p)) = Inr x"
    and "psp (CreatePixKey ((request_of q)\<lparr>cr_tradeName := pk_tradeName p\<rparr>)) = Inl e"
  shows "HandleClaimClosingPixKeyEventUseCase_execute psp now (pk_id p) (Some reason) w =
    (Inl (PspFailure e), w\<lparr>pspCalls := pspCalls w @ [DeletePixKey (pk_key p) (pk_id p),
       CreatePixKey ((request_of q)\<lparr>cr_tradeName := pk_tradeName p\<rparr>)]\<rparr>)"
  using assms
  by (simp add: HandleClaimClosingPixKeyEventUseCase_execute_def loadEventReason_def loadEvent_def
      requireData_def needs_def missing_def loadById_def bindS_def readS_def returnS_def whenState_def
      closeClaim_def gateway_def callPsp_def throwS_def)

definition refusing_psp :: psp where
  "refusing_psp c = (case c of CreatePixKey _ \<Rightarrow> Inl (OtherPspError ''offline'') | _ \<Rightarrow> Inr None)"

theorem failed_handover_loses_the_key_witness:
  "fst (HandleClaimClosingPixKeyEventUseCase_execute refusing_psp 7 ''a'' (Some CR_FRAUD)
      (sample_world [sample_key ''a'' ''u'' K_CLAIM_CLOSING, sample_key ''b'' ''v'' K_OWNERSHIP_WAITING])) =
    Inl (PspFailure (OtherPspError ''offline''))"
proof -
  let ?p = "sample_key ''a'' ''u'' K_CLAIM_CLOSING"
  let ?q = "sample_key ''b'' ''v'' K_OWNERSHIP_WAITING"
  have "getByIdAndStateIsNotCanceled ''a'' (sample_world [?p, ?q]) = Some ?p"
    "findOtherKey ?p (sample_world [?p, ?q]) = Some ?q"
    by (simp_all add: sample_world_def sample_key_def getByIdAndStateIsNotCanceled_def notCanceled_def
        findOtherKey_def getByKeyAndStateIsNotCanceled_def)
  then show ?thesis
    using failed_handover_loses_the_key [of ?p "sample_world [?p, ?q]" ?q refusing_psp None
        "OtherPspError ''offline''" 7 CR_FRAUD]
    by (simp add: refusing_psp_def sample_key_def)
qed

end
