(* ===== verification/Pix_Key_Decoding.thy ===== *)
theory Pix_Key_Decoding
  imports Pix_Key_Registration
begin

text \<open>
  Decoding a pix key, i.e. finding out whose account it names, before a payment
  (apps/pix-keys/src/application/usecases/create_decoded_pix_key.usecase.ts and the handlers of
  decoded keys). Decoding is rationed: every user has a bucket of tokens that refills with time,
  costs tokens per attempt and gives them back when a payment follows.
\<close>

section \<open>Entities\<close>

datatype decoded_state = D_PENDING | D_CONFIRMED | D_ERROR

text \<open>What decoding finds out, here or at the PSP; a decoded key stores it for the user who asked.\<close>

record decoded_info =
  dk_type :: key_type
  dk_key :: string
  dk_personType :: "person_type option"
  dk_document :: "string option"
  dk_name :: "string option"
  dk_tradeName :: "string option"
  dk_accountNumber :: "string option"
  dk_accountType :: "string option"
  dk_branch :: "string option"
  dk_ispb :: string
  dk_activeAccount :: "bool option"
  dk_accountOpeningDate :: "int option"
  dk_keyCreationDate :: "int option"
  dk_keyOwnershipDate :: "int option"
  dk_claimRequestDate :: "int option"
  dk_endToEndId :: "string option"
  dk_cidId :: "string option"
  dk_dictAccountId :: "int option"

record decoded_pix_key = decoded_info +
  dk_id :: string
  dk_state :: decoded_state
  dk_user :: string

record decode_limit =
  dl_id :: string
  dl_user :: string
  dl_limit :: int
  dl_lastDecodedCreatedAt :: "int option"

record decoded_event =
  de_type :: decoded_state
  de_id :: string
  de_state :: decoded_state
  de_user :: string
  de_key :: string
  de_keyType :: key_type
  de_personType :: "person_type option"

record decode_world =
  dw_pix :: pix_world
  decodedKeys :: "decoded_pix_key list"
  decodeCache :: "(string \<times> decoded_pix_key) list"
  decodeLimits :: "decode_limit list"
  decodeOutbox :: "decoded_event list"

record decode_config =
  naturalPersonBucketLimit :: int
  legalPersonBucketLimit :: int
  temporalIncrementBucket :: int
  temporalIncrementBucketInterval :: int
  validTryDecrementOrIncrementBucket :: int
  invalidTryDecrementBucket :: int
  decode_ispb :: string

datatype decode_psp_error = RemoteKeyNotFound | OtherDecodeError string

datatype decode_exn =
    DecodeMissingData "string list"
  | InvalidCnpjFormat string
  | InvalidCpfFormat string
  | DecodeInvalidEmailFormat string
  | InvalidEvpFormat string
  | DecodeInvalidPhoneNumberFormat string
  | DecodeForbidden
  | DecodeUserNotFound string
  | MaxDecodePixKeyRequestsPerDayReached int string string
  | DecodedPixKeyOwnedByUser string string
  | DecodedPixKeyNotFound string
  | DecodedPixKeyInvalidState decoded_state
  | DecodeGatewayFailure string
  | DecodeUniqueConstraint

type_synonym 'a decode_step = "(decode_world, decode_exn, 'a) step"

text \<open>The PSP's answer for a key, the document of the payer and the type.\<close>

type_synonym decoder = "string \<Rightarrow> string \<Rightarrow> key_type \<Rightarrow> decode_psp_error + decoded_info"

section \<open>Repositories\<close>

definition DecodedPixKeyRepository_getById :: "string \<Rightarrow> decode_world \<Rightarrow> decoded_pix_key option" where
  "DecodedPixKeyRepository_getById i w = tbl_find dk_id i (decodedKeys w)"

definition DecodedPixKeyRepository_create :: "decoded_pix_key \<Rightarrow> unit decode_step" where
  "DecodedPixKeyRepository_create d w =
     (case tbl_create dk_id DecodeUniqueConstraint d (decodedKeys w) of
        Inl e \<Rightarrow> (Inl e, w)
      | Inr t \<Rightarrow> (Inr (), w\<lparr>decodedKeys := t\<rparr>))"

definition DecodedPixKeyRepository_update :: "decoded_pix_key \<Rightarrow> unit decode_step" where
  "DecodedPixKeyRepository_update d = modifyS (\<lambda>w. w\<lparr>decodedKeys := tbl_update dk_id d (decodedKeys w)\<rparr>)"

text \<open>The cache; entries may expire at any time, the newest one of a hash is found.\<close>

definition getByHash :: "string \<Rightarrow> decode_world \<Rightarrow> decoded_pix_key option" where
  "getByHash h w = map_of (decodeCache w) h"

definition createHash :: "string \<Rightarrow> decoded_pix_key \<Rightarrow> unit decode_step" where
  "createHash h d = modifyS (\<lambda>w. w\<lparr>decodeCache := (h, d) # decodeCache w\<rparr>)"

definition UserPixKeyDecodeLimit_getByUser :: "string \<Rightarrow> decode_world \<Rightarrow> decode_limit option" where
  "UserPixKeyDecodeLimit_getByUser u w = find (\<lambda>l. dl_user l = u) (decodeLimits w)"

text \<open>\<open>upsert\<close>: the row with that id is written, or a new one is added.\<close>

definition createOrUpdate :: "decode_limit \<Rightarrow> unit decode_step" where
  "createOrUpdate l = modifyS (\<lambda>w. w\<lparr>decodeLimits :=
     (if tbl_find dl_id (dl_id l) (decodeLimits w) = None then tbl_insert l (decodeLimits w)
      else tbl_update dl_id l (decodeLimits w))\<rparr>)"

definition emitDecoded :: "decoded_state \<Rightarrow> decoded_pix_key \<Rightarrow> unit decode_step" where
  "emitDecoded e d = modifyS (\<lambda>w. w\<lparr>decodeOutbox := decodeOutbox w @
     [\<lparr> de_type = e, de_id = dk_id d, de_state = dk_state d, de_user = dk_user d, de_key = dk_key d,
        de_keyType = dk_type d, de_personType = dk_personType d \<rparr>]\<rparr>)"

definition requireDecodeData :: "string list \<Rightarrow> unit decode_step" where
  "requireDecodeData names = (if names = [] then returnS () else throwS (DecodeMissingData names))"

section \<open>The bucket\<close>

definition bucket_limit :: "decode_config \<Rightarrow> person_type \<Rightarrow> int" where
  "bucket_limit cfg t = (if t = NATURAL_PERSON then naturalPersonBucketLimit cfg else legalPersonBucketLimit cfg)"

text \<open>\<open>moment.unix()\<close>: whole seconds.\<close>

definition unix :: "int \<Rightarrow> int" where
  "unix t = t div 1000"

definition bucket_increments :: "decode_config \<Rightarrow> int \<Rightarrow> int \<Rightarrow> int" where
  "bucket_increments cfg lastDecodedCreatedAt now =
     (unix now - unix lastDecodedCreatedAt) div temporalIncrementBucketInterval cfg * temporalIncrementBucket cfg"

text \<open>The limit that decides whether a user may decode, which is not cut to the bucket.\<close>

definition Create_refreshUserLimitDecodedPixKey :: "decode_config \<Rightarrow> int \<Rightarrow> decode_limit \<Rightarrow> person_type \<Rightarrow> int" where
  "Create_refreshUserLimitDecodedPixKey cfg now l t =
    (case dl_lastDecodedCreatedAt l of
       None \<Rightarrow> bucket_limit cfg t
     | Some lastCreation \<Rightarrow> dl_limit l + bucket_increments cfg lastCreation now)"

definition Create_getUserLimitDecodedPixKey :: "decode_config \<Rightarrow> int \<Rightarrow> string \<Rightarrow> person_type \<Rightarrow> decode_world \<Rightarrow> int" where
  "Create_getUserLimitDecodedPixKey cfg now u t w =
    (case UserPixKeyDecodeLimit_getByUser u w of
       Some l \<Rightarrow> Create_refreshUserLimitDecodedPixKey cfg now l t
     | None \<Rightarrow> bucket_limit cfg t)"

section \<open>Decoding\<close>

text \<open>The copy of a cached key leaves out when it changed hands and the ids that the PSP gave out.\<close>

definition cached_copy :: "string \<Rightarrow> string \<Rightarrow> decoded_pix_key \<Rightarrow> decoded_pix_key" where
  "cached_copy i user c = c\<lparr>dk_id := i, dk_user := user, dk_state := D_PENDING, dk_keyOwnershipDate := None,
     dk_claimRequestDate := None, dk_endToEndId := None, dk_cidId := None, dk_dictAccountId := None\<rparr>"

definition getSameDecodedPixKeyInCache :: "string \<Rightarrow> string \<Rightarrow> string \<Rightarrow> decoded_pix_key option decode_step" where
  "getSameDecodedPixKeyInCache i user h =
     bindS (readS (\<lambda>w. Inr (getByHash h w))) (\<lambda>found.
     case found of
       None \<Rightarrow> returnS None
     | Some c \<Rightarrow>
         let d = cached_copy i user c in
         bindS (DecodedPixKeyRepository_create d) (\<lambda>_.
         bindS (emitDecoded D_PENDING d) (\<lambda>_. returnS (Some d))))"

definition remote_decoded :: "string \<Rightarrow> string \<Rightarrow> decoded_info \<Rightarrow> decoded_pix_key" where
  "remote_decoded i user r = decoded_info.extend (decoded_info.truncate r)
     \<lparr> dk_id = i, dk_state = D_PENDING, dk_user = user \<rparr>"

definition missingDecodeData :: "string \<Rightarrow> string \<Rightarrow> string \<Rightarrow> string list" where
  "missingDecodeData i key userDocument =
     needs i ''ID'' @ needs key ''Key'' @ needs userDocument ''User document''"

definition decodeRemotePixKey ::
    "decoder \<Rightarrow> (string \<Rightarrow> string) \<Rightarrow> string \<Rightarrow> string \<Rightarrow> string \<Rightarrow> string \<Rightarrow> key_type
     \<Rightarrow> decoded_pix_key decode_step" where
  "decodeRemotePixKey psp hash i user key userDocument t =
     bindS (requireDecodeData (missingDecodeData i key userDocument)) (\<lambda>_.
     bindS (getSameDecodedPixKeyInCache i user (hash key)) (\<lambda>cached.
     case cached of
       Some d \<Rightarrow> returnS d
     | None \<Rightarrow>
         (case psp key userDocument t of
            Inl RemoteKeyNotFound \<Rightarrow> throwS (DecodedPixKeyNotFound key)
          | Inl (OtherDecodeError e) \<Rightarrow> throwS (DecodeGatewayFailure e)
          | Inr r \<Rightarrow>
              let d = remote_decoded i user r in
              bindS (DecodedPixKeyRepository_create d) (\<lambda>_.
              bindS (createHash (hash key) d) (\<lambda>_.
              bindS (emitDecoded D_PENDING d) (\<lambda>_. returnS d))))))"

definition local_decoded :: "decode_config \<Rightarrow> string \<Rightarrow> string \<Rightarrow> string \<Rightarrow> pix_key \<Rightarrow> user_info \<Rightarrow> decoded_pix_key" where
  "local_decoded cfg i user key p ownerUser = \<lparr> dk_type = pk_type p, dk_key = key,
     dk_personType = Some (pk_personType p), dk_document = Some (pk_document p), dk_name = Some (pk_name p),
     dk_tradeName = pk_tradeName p, dk_accountNumber = Some (pk_accountNumber p),
     dk_accountType = Some ''CACC'', dk_branch = Some (pk_branch p), dk_ispb = decode_ispb cfg,
     dk_activeAccount = Some (ui_active ownerUser), dk_accountOpeningDate = Some (pk_accountOpeningDate p),
     dk_keyCreationDate = Some (pk_createdAt p), dk_keyOwnershipDate = None, dk_claimRequestDate = None,
     dk_endToEndId = None, dk_cidId = None, dk_dictAccountId = None, dk_id = i, dk_state = D_PENDING,
     dk_user = user \<rparr>"

definition decodeLocalPixKey ::
    "decode_config \<Rightarrow> users_service \<Rightarrow> decoder \<Rightarrow> (string \<Rightarrow> string) \<Rightarrow> string \<Rightarrow> string \<Rightarrow> string \<Rightarrow> string
     \<Rightarrow> key_type \<Rightarrow> decoded_pix_key decode_step" where
  "decodeLocalPixKey cfg us psp hash i user key userDocument t =
     bindS (requireDecodeData (missingDecodeData i key userDocument)) (\<lambda>_.
     bindS (readS (\<lambda>w. Inr (filter isReadyState (getByKeyAndStateIsNotCanceled (Some key) (dw_pix w))))) (\<lambda>ready.
     case ready of
       [] \<Rightarrow> decodeRemotePixKey psp hash i user key userDocument t
     | p # _ \<Rightarrow>
         if pk_user p = user then throwS (DecodedPixKeyOwnedByUser user (pk_id p))
         else (case us_getUserByUuid us (pk_user p) of
                 None \<Rightarrow> decodeRemotePixKey psp hash i user key userDocument t
               | Some ownerUser \<Rightarrow>
                   if \<not> ui_active ownerUser then decodeRemotePixKey psp hash i user key userDocument t
                   else
                     let d = local_decoded cfg i user key p ownerUser in
                     bindS (DecodedPixKeyRepository_create d) (\<lambda>_.
                     bindS (emitDecoded D_PENDING d) (\<lambda>_. returnS d)))))"

text \<open>The format of a key: \<open>None\<close> when it is fine. A phone is normalised first.\<close>

definition decode_key :: "key_type \<Rightarrow> string \<Rightarrow> string" where
  "decode_key t key = (if t = PHONE then formatPhone key else key)"

definition decode_format_error :: "validators \<Rightarrow> key_type \<Rightarrow> string \<Rightarrow> decode_exn option" where
  "decode_format_error v t key =
    (case t of
       CNPJ \<Rightarrow> if v_isCnpj v key then None else Some (InvalidCnpjFormat key)
     | CPF \<Rightarrow> if v_isCpf v key then None else Some (InvalidCpfFormat key)
     | EMAIL \<Rightarrow> if v_isEmail v key then None else Some (DecodeInvalidEmailFormat key)
     | EVP \<Rightarrow> if v_isUUID v key then None else Some (InvalidEvpFormat key)
     | PHONE \<Rightarrow> if isMobilePhone (Some (formatPhone key)) then None
                else Some (DecodeInvalidPhoneNumberFormat (formatPhone key)))"

definition decode_new ::
    "decode_config \<Rightarrow> users_service \<Rightarrow> decoder \<Rightarrow> (string \<Rightarrow> string) \<Rightarrow> int \<Rightarrow> string \<Rightarrow> string \<Rightarrow> string
     \<Rightarrow> key_type \<Rightarrow> decoded_pix_key decode_step" where
  "decode_new cfg us psp hash now i user key t =
    (case us_getUserByUuid us user of
       None \<Rightarrow> throwS (DecodeUserNotFound user)
     | Some payer \<Rightarrow>
         if \<not> ui_active payer then throwS (DecodeUserNotFound user)
         else
           bindS (readS (\<lambda>w. Inr (Create_getUserLimitDecodedPixKey cfg now user (ui_type payer) w))) (\<lambda>tokens.
           if tokens \<le> 0 then throwS (MaxDecodePixKeyRequestsPerDayReached tokens i key)
           else decodeLocalPixKey cfg us psp hash i user key (ui_document payer) t))"

definition CreateDecodedPixKeyUseCase_execute ::
    "decode_config \<Rightarrow> validators \<Rightarrow> users_service \<Rightarrow> decoder \<Rightarrow> (string \<Rightarrow> string) \<Rightarrow> int \<Rightarrow> string
     \<Rightarrow> string option \<Rightarrow> string \<Rightarrow> key_type \<Rightarrow> decoded_pix_key decode_step" where
  "CreateDecodedPixKeyUseCase_execute cfg v us psp hash now i user key t =
    (case user of
       None \<Rightarrow> throwS (DecodeMissingData (needs i ''ID'' @ [''User ID''] @ needs key ''Key''))
     | Some u \<Rightarrow>
         if i = [] \<or> u = [] \<or> key = []
         then throwS (DecodeMissingData (needs i ''ID'' @ needs u ''User ID'' @ needs key ''Key''))
         else (case decode_format_error v t key of
                 Some e \<Rightarrow> throwS e
               | None \<Rightarrow>
                   bindS (readS (\<lambda>w. Inr (DecodedPixKeyRepository_getById i w))) (\<lambda>found.
                   case found of
                     Some d \<Rightarrow> if dk_user d \<noteq> u then throwS DecodeForbidden else returnS d
                   | None \<Rightarrow> decode_new cfg us psp hash now i u (decode_key t key) t)))"

section \<open>Handlers of decoded keys\<close>

definition validateNewLimit :: "decode_config \<Rightarrow> person_type \<Rightarrow> int \<Rightarrow> int" where
  "validateNewLimit cfg t newLimit =
    (if t = NATURAL_PERSON \<and> newLimit > naturalPersonBucketLimit cfg then naturalPersonBucketLimit cfg
     else if t = LEGAL_PERSON \<and> newLimit > legalPersonBucketLimit cfg then legalPersonBucketLimit cfg
     else newLimit)"

definition Handle_refreshUserLimitDecodedPixKey ::
    "decode_config \<Rightarrow> int \<Rightarrow> person_type \<Rightarrow> decode_limit \<Rightarrow> decode_limit" where
  "Handle_refreshUserLimitDecodedPixKey cfg now t l =
    (case dl_lastDecodedCreatedAt l of
       None \<Rightarrow> l\<lparr>dl_limit := bucket_limit cfg t\<rparr>
     | Some lastCreation \<Rightarrow> l\<lparr>dl_limit := validateNewLimit cfg t (dl_limit l + bucket_increments cfg lastCreation now)\<rparr>)"

definition Handle_getUserLimitDecodedPixKey ::
    "decode_config \<Rightarrow> int \<Rightarrow> string \<Rightarrow> string \<Rightarrow> person_type \<Rightarrow> decode_world \<Rightarrow> decode_limit" where
  "Handle_getUserLimitDecodedPixKey cfg now newId u t w =
    (case UserPixKeyDecodeLimit_getByUser u w of
       Some l \<Rightarrow> Handle_refreshUserLimitDecodedPixKey cfg now t l
     | None \<Rightarrow> \<lparr> dl_id = newId, dl_user = u, dl_limit = bucket_limit cfg t, dl_lastDecodedCreatedAt = None \<rparr>)"

definition handleInvalidDecodedPixKey :: "decode_config \<Rightarrow> decode_limit \<Rightarrow> decode_limit" where
  "handleInvalidDecodedPixKey cfg l = l\<lparr>dl_limit := dl_limit l - invalidTryDecrementBucket cfg\<rparr>"

definition handleValidDecodedPixKey :: "decode_config \<Rightarrow> decode_limit \<Rightarrow> decode_limit" where
  "handleValidDecodedPixKey cfg l = l\<lparr>dl_limit := dl_limit l - validTryDecrementOrIncrementBucket cfg\<rparr>"

definition handleConfirmedDecodedPixKey :: "decode_config \<Rightarrow> person_type \<Rightarrow> decode_limit \<Rightarrow> decode_limit" where
  "handleConfirmedDecodedPixKey cfg t l =
     l\<lparr>dl_limit := validateNewLimit cfg t (dl_limit l + validTryDecrementOrIncrementBucket cfg)\<rparr>"

definition handleDecodedState :: "decode_config \<Rightarrow> person_type \<Rightarrow> decoded_state \<Rightarrow> decode_limit \<Rightarrow> decode_limit" where
  "handleDecodedState cfg t s l =
    (case s of
       D_ERROR \<Rightarrow> handleInvalidDecodedPixKey cfg l
     | D_PENDING \<Rightarrow> handleValidDecodedPixKey cfg l
     | D_CONFIRMED \<Rightarrow> handleConfirmedDecodedPixKey cfg t l)"

definition HandleNewDecodedPixKeyEventUseCase_execute ::
    "decode_config \<Rightarrow> users_service \<Rightarrow> int \<Rightarrow> string \<Rightarrow> string \<Rightarrow> string option \<Rightarrow> decoded_state \<Rightarrow> unit decode_step" where
  "HandleNewDecodedPixKeyEventUseCase_execute cfg us now newId i user s =
    (case user of
       None \<Rightarrow> throwS (DecodeMissingData (needs i ''Decoded Pix Key ID'' @ [''User ID'']))
     | Some u \<Rightarrow>
         bindS (requireDecodeData (needs i ''Decoded Pix Key ID'' @ needs u ''User ID'')) (\<lambda>_.
         case us_getUserByUuid us u of
           None \<Rightarrow> throwS (DecodeUserNotFound u)
         | Some info \<Rightarrow>
             bindS (readS (\<lambda>w. Inr (Handle_getUserLimitDecodedPixKey cfg now newId u (ui_type info) w))) (\<lambda>l.
             createOrUpdate ((handleDecodedState cfg (ui_type info) s l)\<lparr>dl_lastDecodedCreatedAt := Some now\<rparr>))))"

definition HandleErrorDecodedPixKeyEventUseCase_execute ::
    "decode_config \<Rightarrow> string \<Rightarrow> string option \<Rightarrow> string \<Rightarrow> key_type \<Rightarrow> decoded_state \<Rightarrow> decoded_pix_key decode_step" where
  "HandleErrorDecodedPixKeyEventUseCase_execute cfg i user key t s =
    (case user of
       None \<Rightarrow> throwS (DecodeMissingData (needs i ''ID'' @ [''User ID''] @ needs key ''Key''))
     | Some u \<Rightarrow>
         bindS (requireDecodeData (needs i ''ID'' @ needs u ''User ID'' @ needs key ''Key'')) (\<lambda>_.
         bindS (readS (\<lambda>w. Inr (DecodedPixKeyRepository_getById i w))) (\<lambda>found.
         case found of
           Some d \<Rightarrow> returnS d
         | None \<Rightarrow>
             if s \<noteq> D_ERROR then throwS (DecodedPixKeyInvalidState s)
             else
               let d = \<lparr> dk_type = t, dk_key = key, dk_personType = None, dk_document = None, dk_name = None,
                 dk_tradeName = None, dk_accountNumber = None, dk_accountType = None, dk_branch = None,
                 dk_ispb = decode_ispb cfg, dk_activeAccount = None, dk_accountOpeningDate = None,
                 dk_keyCreationDate = None, dk_keyOwnershipDate = None, dk_claimRequestDate = None,
                 dk_endToEndId = None, dk_cidId = None, dk_dictAccountId = None, dk_id = i,
                 dk_state = s, dk_user = u \<rparr>
               in bindS (DecodedPixKeyRepository_create d) (\<lambda>_. returnS d))))"

definition UpdateStateByIdDecodedPixKeyUseCase_execute ::
    "string \<Rightarrow> decoded_state \<Rightarrow> decoded_pix_key decode_step" where
  "UpdateStateByIdDecodedPixKeyUseCase_execute i s =
     bindS (requireDecodeData (needs i ''ID'')) (\<lambda>_.
     bindS (readS (\<lambda>w. orThrow (DecodedPixKeyRepository_getById i w) (DecodedPixKeyNotFound i))) (\<lambda>d.
     let q = d\<lparr>dk_state := s\<rparr> in
     bindS (DecodedPixKeyRepository_update q) (\<lambda>_.
     bindS (emitDecoded s q) (\<lambda>_. returnS q))))"

end
