(* ===== verification/Pix_Key_Buckets.thy ===== *)
theory Pix_Key_Buckets
  imports Pix_Key_Decoding Pix_Key_Properties
begin

text \<open>
  The buckets that ration the decoding of pix keys: they never overflow, the use case that asks and the
  handler that pays agree on whether a user has tokens left, and a bucket in frequent use is never
  refilled.
\<close>

section \<open>One event\<close>

interpretation decode_limits: repository dl_id "tbl_find dl_id" "tbl_update dl_id" tbl_insert tbl_total
  "tbl_wf dl_id"
  by (rule list_table_repository)

lemma find_updated:
  assumes "find (\<lambda>l. dl_user l = u) t = Some old" and "tbl_wf dl_id t"
    and "dl_id l = dl_id old" and "dl_user l = u"
  shows "find (\<lambda>l. dl_user l = u) (tbl_update dl_id l t) = Some l"
  using assms
proof (induction t)
  case (Cons x t)
  show ?case
  proof (cases "dl_user x = u")
    case True
    with Cons.prems show ?thesis by (simp add: tbl_update_def)
  next
    case False
    with Cons.prems have found: "find (\<lambda>l. dl_user l = u) t = Some old" by simp
    then have "old \<in> set t" by (auto simp: find_Some_iff)
    with Cons.prems have "dl_id x \<noteq> dl_id l" by (auto simp: tbl_wf_def)
    with Cons.IH [OF found] Cons.prems False show ?thesis by (simp add: tbl_wf_def tbl_update_def)
  qed
qed simp

lemma find_inserted:
  "find (\<lambda>l. dl_user l = u) t = None \<Longrightarrow> dl_user l = u \<Longrightarrow> find (\<lambda>l. dl_user l = u) (tbl_insert l t) = Some l"
  by (induction t) (auto simp: tbl_insert_def split: if_splits)

text \<open>What the handler stores.\<close>

definition next_bucket ::
    "decode_config \<Rightarrow> int \<Rightarrow> string \<Rightarrow> string \<Rightarrow> person_type \<Rightarrow> decoded_state \<Rightarrow> decode_world \<Rightarrow> decode_limit" where
  "next_bucket cfg now newId u t s w =
     (handleDecodedState cfg t s (Handle_getUserLimitDecodedPixKey cfg now newId u t w))\<lparr>dl_lastDecodedCreatedAt := Some now\<rparr>"

lemma getByUser_user: "UserPixKeyDecodeLimit_getByUser u w = Some l \<Longrightarrow> dl_user l = u"
  by (auto simp: UserPixKeyDecodeLimit_getByUser_def find_Some_iff)

lemma next_bucket_ids:
  "dl_user (next_bucket cfg now newId u t s w) = u"
  "UserPixKeyDecodeLimit_getByUser u w = Some l \<Longrightarrow> dl_id (next_bucket cfg now newId u t s w) = dl_id l"
  "UserPixKeyDecodeLimit_getByUser u w = None \<Longrightarrow> dl_id (next_bucket cfg now newId u t s w) = newId"
  by (cases s; auto simp: next_bucket_def handleDecodedState_def handleInvalidDecodedPixKey_def
      handleValidDecodedPixKey_def handleConfirmedDecodedPixKey_def Handle_getUserLimitDecodedPixKey_def
      Handle_refreshUserLimitDecodedPixKey_def dest: getByUser_user split: option.splits)+

lemma HandleNew_stores:
  assumes run: "HandleNewDecodedPixKeyEventUseCase_execute cfg us now newId i (Some u) s w = (Inr (), w')"
    and user: "us_getUserByUuid us u = Some info"
    and wf: "tbl_wf dl_id (decodeLimits w)" and fresh: "newId \<notin> dl_id ` set (decodeLimits w)"
  shows "UserPixKeyDecodeLimit_getByUser u w' = Some (next_bucket cfg now newId u (ui_type info) s w)"
    and "tbl_wf dl_id (decodeLimits w')" and "dl_id ` set (decodeLimits w') \<subseteq> insert newId (dl_id ` set (decodeLimits w))"
    and "UserPixKeyDecodeLimit_getByUser u w \<noteq> None \<Longrightarrow> dl_id ` set (decodeLimits w') = dl_id ` set (decodeLimits w)"
proof -
  let ?l = "next_bucket cfg now newId u (ui_type info) s w"
  let ?t = "decodeLimits w"
  have w': "w' = w\<lparr>decodeLimits := (if tbl_find dl_id (dl_id ?l) ?t = None then tbl_insert ?l ?t
      else tbl_update dl_id ?l ?t)\<rparr>"
    using run user
    by (auto simp: HandleNewDecodedPixKeyEventUseCase_execute_def requireDecodeData_def bindS_def readS_def
        returnS_def throwS_def createOrUpdate_def modifyS_def next_bucket_def split: if_splits)
  have ids: "dl_id ` set (tbl_update dl_id ?l ?t) = dl_id ` set ?t"
    by (metis map_key_update list.set_map)
  show "UserPixKeyDecodeLimit_getByUser u w' = Some ?l"
  proof (cases "UserPixKeyDecodeLimit_getByUser u w")
    case None
    with fresh have "tbl_find dl_id (dl_id ?l) ?t = None" by (simp add: next_bucket_ids tbl_find_None_iff)
    with None w' show ?thesis
      by (simp add: UserPixKeyDecodeLimit_getByUser_def find_inserted next_bucket_ids)
  next
    case (Some old)
    then have "old \<in> set ?t" by (auto simp: UserPixKeyDecodeLimit_getByUser_def find_Some_iff)
    then have "tbl_find dl_id (dl_id ?l) ?t \<noteq> None" by (simp add: next_bucket_ids(2) [OF Some] tbl_find_None_iff)
    with Some w' wf show ?thesis
      by (auto simp: UserPixKeyDecodeLimit_getByUser_def find_updated [of u ?t old] next_bucket_ids(1)
          next_bucket_ids(2) [unfolded UserPixKeyDecodeLimit_getByUser_def])
  qed
  show "tbl_wf dl_id (decodeLimits w')"
    using wf by (simp add: w' decode_limits.wf_update decode_limits.wf_insert)
  show "dl_id ` set (decodeLimits w') \<subseteq> insert newId (dl_id ` set ?t)"
    using ids by (cases "UserPixKeyDecodeLimit_getByUser u w")
      (auto simp: w' tbl_insert_def next_bucket_ids tbl_find_None_iff UserPixKeyDecodeLimit_getByUser_def find_Some_iff)
  assume "UserPixKeyDecodeLimit_getByUser u w \<noteq> None"
  then obtain old where old: "UserPixKeyDecodeLimit_getByUser u w = Some old" by blast
  then have "old \<in> set ?t" by (auto simp: UserPixKeyDecodeLimit_getByUser_def find_Some_iff)
  then show "dl_id ` set (decodeLimits w') = dl_id ` set ?t"
    using ids by (auto simp: w' next_bucket_ids(2) [OF old] tbl_find_None_iff)
qed

lemma validateNewLimit_le: "validateNewLimit cfg t x \<le> bucket_limit cfg t"
  by (cases t) (simp_all add: validateNewLimit_def bucket_limit_def)

lemma validateNewLimit_min: "validateNewLimit cfg t x = min x (bucket_limit cfg t)"
  by (cases t) (simp_all add: validateNewLimit_def bucket_limit_def)

lemma Handle_limit_le: "dl_limit (Handle_getUserLimitDecodedPixKey cfg now newId u t w) \<le> bucket_limit cfg t"
  by (simp add: Handle_getUserLimitDecodedPixKey_def Handle_refreshUserLimitDecodedPixKey_def
      validateNewLimit_le split: option.split)

section \<open>Properties\<close>

definition sample_decode_config :: decode_config where
  "sample_decode_config = \<lparr> naturalPersonBucketLimit = 100, legalPersonBucketLimit = 1000,
     temporalIncrementBucket = 2, temporalIncrementBucketInterval = 60,
     validTryDecrementOrIncrementBucket = 1, invalidTryDecrementBucket = 20, decode_ispb = ''26264220'' \<rparr>"

definition sample_decode_world :: decode_world where
  "sample_decode_world = \<lparr> dw_pix = sample_world [], decodedKeys = [], decodeCache = [],
     decodeLimits = [\<lparr> dl_id = ''l'', dl_user = ''u'', dl_limit = 10, dl_lastDecodedCreatedAt = Some 0 \<rparr>],
     decodeOutbox = [] \<rparr>"

text \<open>C36: Whatever happened to a decoded key, after the event the bucket of its user holds at most the
  capacity for the type of the user, and the event is remembered as the user's last one.\<close>

theorem bucket_never_overflows:
  assumes "HandleNewDecodedPixKeyEventUseCase_execute cfg us now newId i (Some u) s w = (Inr (), w')"
    and "us_getUserByUuid us u = Some info" and "tbl_wf dl_id (decodeLimits w)"
    and "newId \<notin> dl_id ` set (decodeLimits w)"
    and "0 \<le> validTryDecrementOrIncrementBucket cfg" and "0 \<le> invalidTryDecrementBucket cfg"
  shows "\<exists>l. UserPixKeyDecodeLimit_getByUser u w' = Some l \<and> dl_limit l \<le> bucket_limit cfg (ui_type info) \<and>
    dl_lastDecodedCreatedAt l = Some now"
proof -
  have "dl_limit (next_bucket cfg now newId u (ui_type info) s w) \<le> bucket_limit cfg (ui_type info)"
    using Handle_limit_le [of cfg now newId u "ui_type info" w] assms(5,6)
    by (cases s) (simp_all add: next_bucket_def handleDecodedState_def handleInvalidDecodedPixKey_def
        handleValidDecodedPixKey_def handleConfirmedDecodedPixKey_def validateNewLimit_le)
  with HandleNew_stores(1) [OF assms(1-4)] show ?thesis by (simp add: next_bucket_def)
qed

theorem bucket_never_overflows_witness:
  "\<exists>l. UserPixKeyDecodeLimit_getByUser ''u'' (snd (HandleNewDecodedPixKeyEventUseCase_execute sample_decode_config
      sample_users 6000000 ''n'' ''d'' (Some ''u'') D_CONFIRMED sample_decode_world)) = Some l \<and>
     dl_limit l \<le> 100 \<and> dl_lastDecodedCreatedAt l = Some 6000000"
proof -
  have run: "HandleNewDecodedPixKeyEventUseCase_execute sample_decode_config sample_users 6000000 ''n'' ''d''
      (Some ''u'') D_CONFIRMED sample_decode_world = (Inr (), snd (HandleNewDecodedPixKeyEventUseCase_execute
      sample_decode_config sample_users 6000000 ''n'' ''d'' (Some ''u'') D_CONFIRMED sample_decode_world))"
    by code_simp
  have user: "us_getUserByUuid sample_users ''u'' = Some \<lparr> ui_type = NATURAL_PERSON,
      ui_document = ''12345678909'', ui_fullName = ''Maria'', ui_active = True \<rparr>"
    by (simp add: sample_users_def)
  show ?thesis
    using bucket_never_overflows [OF run user]
    by (simp add: sample_decode_world_def sample_decode_config_def bucket_limit_def tbl_wf_def)
qed

text \<open>The use case that asks whether a user has tokens left does not cut the refilled bucket to its
  capacity while the handler that pays does; they still agree on whether anything is left.\<close>

theorem decode_gate_agrees:
  assumes "0 < bucket_limit cfg t"
  shows "(0 < Create_getUserLimitDecodedPixKey cfg now u t w) =
    (0 < dl_limit (Handle_getUserLimitDecodedPixKey cfg now newId u t w))"
  using assms
  by (auto simp: Create_getUserLimitDecodedPixKey_def Handle_getUserLimitDecodedPixKey_def
      Create_refreshUserLimitDecodedPixKey_def Handle_refreshUserLimitDecodedPixKey_def
      validateNewLimit_min split: option.split)

theorem decode_gate_agrees_witness:
  "(0 < Create_getUserLimitDecodedPixKey sample_decode_config 6000000 ''u'' NATURAL_PERSON sample_decode_world) =
   (0 < dl_limit (Handle_getUserLimitDecodedPixKey sample_decode_config 6000000 ''n'' ''u'' NATURAL_PERSON
      sample_decode_world))"
  by (rule decode_gate_agrees) code_simp

text \<open>Decoding again before an interval has passed, at each of the given instants.\<close>

fun frequent :: "decode_config \<Rightarrow> int \<Rightarrow> int list \<Rightarrow> bool" where
  "frequent cfg t [] = True"
| "frequent cfg t (t' # ts) \<longleftrightarrow> unix t \<le> unix t' \<and> unix t' - unix t < temporalIncrementBucketInterval cfg \<and>
     frequent cfg t' ts"

definition decode_often :: "decode_config \<Rightarrow> users_service \<Rightarrow> string \<Rightarrow> string \<Rightarrow> string \<Rightarrow> int list \<Rightarrow> unit decode_step" where
  "decode_often cfg us newId i u =
     foldS (\<lambda>t. HandleNewDecodedPixKeyEventUseCase_execute cfg us t newId i (Some u) D_PENDING)"

lemma frequent_event:
  assumes "UserPixKeyDecodeLimit_getByUser u w = Some l" and "dl_lastDecodedCreatedAt l = Some t"
    and "dl_limit l \<le> bucket_limit cfg ty" and "unix t \<le> unix t'"
    and "unix t' - unix t < temporalIncrementBucketInterval cfg"
  shows "next_bucket cfg t' newId u ty D_PENDING w =
    l\<lparr>dl_limit := dl_limit l - validTryDecrementOrIncrementBucket cfg, dl_lastDecodedCreatedAt := Some t'\<rparr>"
  using assms
  by (simp add: next_bucket_def handleDecodedState_def handleValidDecodedPixKey_def
      Handle_getUserLimitDecodedPixKey_def Handle_refreshUserLimitDecodedPixKey_def validateNewLimit_min
      bucket_increments_def)

text \<open>Time refills a bucket by whole intervals since the last event only, and every event counts as
  the last one. A user who decodes again before an interval has passed gets nothing back, however long
  that goes on and however many intervals pass altogether.\<close>

theorem frequent_decoding_never_refills:
  assumes "decode_often cfg us newId i u ts w = (Inr (), w')" and "frequent cfg t ts"
    and "UserPixKeyDecodeLimit_getByUser u w = Some l" and "dl_lastDecodedCreatedAt l = Some t"
    and "dl_limit l \<le> bucket_limit cfg (ui_type info)" and "us_getUserByUuid us u = Some info"
    and "tbl_wf dl_id (decodeLimits w)" and "newId \<notin> dl_id ` set (decodeLimits w)"
    and "0 \<le> validTryDecrementOrIncrementBucket cfg"
  shows "\<exists>l'. UserPixKeyDecodeLimit_getByUser u w' = Some l' \<and>
    dl_limit l' = dl_limit l - int (length ts) * validTryDecrementOrIncrementBucket cfg"
  using assms
proof (induction ts arbitrary: t l w)
  case Nil
  then show ?case by (simp add: decode_often_def returnS_def)
next
  case (Cons t' ts)
  from Cons.prems(1) obtain w1 where
    run: "HandleNewDecodedPixKeyEventUseCase_execute cfg us t' newId i (Some u) D_PENDING w = (Inr (), w1)"
    and rest: "decode_often cfg us newId i u ts w1 = (Inr (), w')"
    by (auto simp: decode_often_def result_simps)
  let ?l = "l\<lparr>dl_limit := dl_limit l - validTryDecrementOrIncrementBucket cfg, dl_lastDecodedCreatedAt := Some t'\<rparr>"
  have "next_bucket cfg t' newId u (ui_type info) D_PENDING w = ?l"
    using frequent_event [OF Cons.prems(3-5), of t' newId] Cons.prems(2) by simp
  with HandleNew_stores [OF run Cons.prems(6-8)] Cons.prems(3,8)
  have "UserPixKeyDecodeLimit_getByUser u w1 = Some ?l" "tbl_wf dl_id (decodeLimits w1)"
    "newId \<notin> dl_id ` set (decodeLimits w1)" by simp_all
  from Cons.IH [OF rest _ this(1) _ _ Cons.prems(6) this(2,3) Cons.prems(9)] Cons.prems(2,5,9)
  show ?case by (auto simp: algebra_simps)
qed

theorem frequent_decoding_never_refills_witness:
  "\<exists>l'. UserPixKeyDecodeLimit_getByUser ''u'' (snd (decode_often sample_decode_config sample_users ''n'' ''d'' ''u''
      [50000, 100000, 150000] sample_decode_world)) = Some l' \<and> dl_limit l' = 7"
proof -
  have run: "decode_often sample_decode_config sample_users ''n'' ''d'' ''u'' [50000, 100000, 150000]
      sample_decode_world = (Inr (), snd (decode_often sample_decode_config sample_users ''n'' ''d'' ''u''
      [50000, 100000, 150000] sample_decode_world))"
    by code_simp
  have often: "frequent sample_decode_config 0 [50000, 100000, 150000]" by code_simp
  show ?thesis
    using frequent_decoding_never_refills [OF run often, where l = "hd (decodeLimits sample_decode_world)"
        and info = "\<lparr> ui_type = NATURAL_PERSON, ui_document = ''12345678909'', ui_fullName = ''Maria'',
          ui_active = True \<rparr>"]
    by (simp add: sample_decode_world_def sample_decode_config_def bucket_limit_def tbl_wf_def
        sample_users_def UserPixKeyDecodeLimit_getByUser_def)
qed

end
