(* ===== verification/Pix_Payment_Domain.thy ===== *)
theory Pix_Payment_Domain
  imports Nighttime Pix_Key_Decoding
begin

text \<open>
  The data of the pix payments service (apps/pix-payments/src/domain/entities): payments that leave
  the platform, deposits that arrive, devolutions that return deposits, and the records of suspect
  deposits. Associations are kept by identifier, an identifier or another column that may be null is
  an option. Amounts are integer cents. Enums whose values are only passed on (account types) stay
  the strings they are in TypeScript.
\<close>

section \<open>Payments\<close>

datatype payment_state =
    PAY_PENDING | PAY_WAITING | PAY_CONFIRMED | PAY_ERROR | PAY_FAILED | PAY_CANCELED | PAY_SCHEDULED

datatype (plugins only: code size) payment_type =
    PT_ACCOUNT | PT_KEY | PT_QR_CODE | PT_QR_CODE_STATIC_INSTANT | PT_QR_CODE_STATIC_WITHDRAWAL
  | PT_QR_CODE_DYNAMIC_DUE_DATE | PT_QR_CODE_DYNAMIC_WITHDRAWAL | PT_QR_CODE_DYNAMIC_CHANGE
  | PT_QR_CODE_DYNAMIC_INSTANT

datatype payment_priority = PRIORITY | NOT_PRIORITY

datatype pix_agent_mod = AGTEC | AGTOT | AGPSS

datatype person_document = DOC_CPF | DOC_CNPJ

type_synonym failed = "string \<times> string"

record bank =
  bk_ispb :: string
  bk_name :: "string option"

text \<open>Whom a payment goes to, as decoding found out.\<close>

record beneficiary =
  py_beneficiaryAccountType :: "string option"
  py_beneficiaryPersonType :: "person_type option"
  py_beneficiaryBranch :: "string option"
  py_beneficiaryAccountNumber :: "string option"
  py_beneficiaryBankName :: "string option"
  py_beneficiaryBankIspb :: "string option"
  py_beneficiaryDocument :: "string option"
  py_beneficiaryName :: "string option"

record payment = beneficiary +
  py_id :: string
  py_operation :: "string option"
  py_changeOperation :: "string option"
  py_state :: payment_state
  py_value :: int
  py_endToEndId :: "string option"
  py_decodedQrCode :: "string option"
  py_decodedPixKey :: "string option"
  py_decodedPixAccount :: "string option"
  py_paymentDate :: "int option"
  py_description :: "string option"
  py_txId :: "string option"
  py_key :: "string option"
  py_transactionTag :: string
  py_paymentType :: payment_type
  py_priorityType :: payment_priority
  py_agentMod :: "pix_agent_mod option"
  py_agentIspb :: "string option"
  py_user :: string
  py_wallet :: string
  py_ownerAccountNumber :: string
  py_ownerBranch :: string
  py_ownerDocument :: string
  py_ownerPersonType :: person_type
  py_ownerFullName :: string
  py_chargebackReason :: "string option"
  py_failed :: "failed option"
  py_externalId :: "string option"
  py_createdAt :: int
  py_updatedAt :: int
  py_confirmedAt :: "int option"
  py_canceledAt :: "int option"

text \<open>Comparisons of moments by day; a missing date is now.\<close>

definition same_day :: "moment \<Rightarrow> int \<Rightarrow> int \<Rightarrow> bool" where
  "same_day m t u \<longleftrightarrow> m_startOfDay m t = m_startOfDay m u"

definition after_day :: "moment \<Rightarrow> int \<Rightarrow> int \<Rightarrow> bool" where
  "after_day m t u \<longleftrightarrow> m_startOfDay m u < m_startOfDay m t"

definition dateOr :: "moment \<Rightarrow> int option \<Rightarrow> int" where
  "dateOr m d = (case d of None \<Rightarrow> m_now m | Some t \<Rightarrow> t)"

definition isScheduledPayment :: "moment \<Rightarrow> int option \<Rightarrow> bool" where
  "isScheduledPayment m d \<longleftrightarrow> after_day m (dateOr m d) (m_now m)
     \<and> \<not> after_day m (dateOr m d) (m_addMonths m 3 (m_now m))"

definition isTodayPayment :: "moment \<Rightarrow> int option \<Rightarrow> bool" where
  "isTodayPayment m d \<longleftrightarrow> d = None \<or> same_day m (dateOr m d) (m_now m)"

definition isAlreadyPaid :: "payment \<Rightarrow> bool" where
  "isAlreadyPaid p \<longleftrightarrow> List.member [PAY_WAITING, PAY_CONFIRMED] (py_state p)"

definition isStateValidForCanceling :: "payment \<Rightarrow> bool" where
  "isStateValidForCanceling p \<longleftrightarrow> PAY_SCHEDULED = py_state p"

definition isAlreadyCompletedPayment :: "payment \<Rightarrow> bool" where
  "isAlreadyCompletedPayment p \<longleftrightarrow> PAY_CONFIRMED = py_state p"

section \<open>What a payment is made from\<close>

datatype decoded_account_state = DA_PENDING | DA_CONFIRMED

record decoded_pix_account =
  da_id :: string
  da_user :: string
  da_name :: string
  da_state :: decoded_account_state
  da_personType :: person_type
  da_bank :: bank
  da_branch :: string
  da_accountNumber :: string
  da_accountType :: string
  da_document :: string

datatype decoded_qr_code_state = QR_PENDING | QR_READY | QR_ERROR

datatype decoded_qr_code_type =
    QR_CODE_STATIC_INSTANT_PAYMENT | QR_CODE_STATIC_WITHDRAWAL | QR_CODE_DYNAMIC_DUE_DATE
  | QR_CODE_DYNAMIC_WITHDRAWAL | QR_CODE_DYNAMIC_CHANGE | QR_CODE_DYNAMIC_INSTANT_PAYMENT

text \<open>The columns that the payments read; a code holds its recipient.\<close>

record decoded_qr_code =
  qr_id :: string
  qr_state :: decoded_qr_code_state
  qr_type :: decoded_qr_code_type
  qr_key :: "string option"
  qr_txId :: "string option"
  qr_endToEndId :: "string option"
  qr_documentValue :: "int option"
  qr_paymentValue :: "int option"
  qr_withdrawValue :: "int option"
  qr_changeValue :: "int option"
  qr_allowUpdate :: bool
  qr_paymentDate :: "int option"
  qr_expirationDate :: "int option"
  qr_pss :: "string option"
  qr_recipient :: beneficiary
  qr_agentIspbWithdrawal :: "string option"
  qr_agentModWithdrawal :: "pix_agent_mod option"
  qr_agentIspbChange :: "string option"
  qr_agentModChange :: "pix_agent_mod option"

definition isExpiredQrCode :: "moment \<Rightarrow> decoded_qr_code \<Rightarrow> bool" where
  "isExpiredQrCode m q \<longleftrightarrow> after_day m (m_now m) (dateOr m (qr_expirationDate q))"

section \<open>Deposits and devolutions\<close>

datatype deposit_state = DEP_NEW | DEP_RECEIVED | DEP_WAITING | DEP_ERROR | DEP_BLOCKED

text \<open>
  \<open>check\<close> is an object from the names of checks to their results, here in the order of insertion.
\<close>

record pix_deposit =
  dp_id :: string
  dp_user :: string
  dp_wallet :: string
  dp_operation :: string
  dp_state :: deposit_state
  dp_txId :: "string option"
  dp_endToEndId :: "string option"
  dp_amount :: int
  dp_returnedAmount :: int
  dp_clientBank :: bank
  dp_clientBranch :: "string option"
  dp_clientAccountNumber :: "string option"
  dp_clientPersonType :: person_document
  dp_clientDocument :: "string option"
  dp_clientName :: "string option"
  dp_clientKey :: "string option"
  dp_thirdPartBank :: bank
  dp_thirdPartBranch :: "string option"
  dp_thirdPartAccountType :: "string option"
  dp_thirdPartAccountNumber :: "string option"
  dp_thirdPartPersonType :: person_document
  dp_thirdPartDocument :: "string option"
  dp_thirdPartName :: "string option"
  dp_thirdPartKey :: "string option"
  dp_description :: "string option"
  dp_transactionTag :: string
  dp_check :: "(string \<times> bool) list option"
  dp_createdAt :: int
  dp_updatedAt :: int

definition canCreateDevolution :: "moment \<Rightarrow> int \<Rightarrow> pix_deposit \<Rightarrow> bool" where
  "canCreateDevolution m intervalDays d \<longleftrightarrow> \<not> m_addDays m intervalDays (dp_createdAt d) < m_now m"

datatype devolution_code = DC_ORIGINAL | DC_FRAUD | DC_PSP_ERROR | DC_WITHDRAWAL_CHANGE

datatype devolution_state =
    DEV_PENDING | DEV_WAITING | DEV_CONFIRMED | DEV_ERROR | DEV_FAILED | DEV_CANCELED

record pix_devolution =
  dv_id :: string
  dv_user :: string
  dv_wallet :: string
  dv_operation :: "string option"
  dv_deposit :: string
  dv_endToEndId :: "string option"
  dv_amount :: int
  dv_devolutionCode :: devolution_code
  dv_description :: "string option"
  dv_chargebackReason :: "string option"
  dv_failed :: "failed option"
  dv_state :: devolution_state
  dv_externalId :: "string option"
  dv_createdAt :: int
  dv_updatedAt :: int

datatype devolution_received_state = DR_READY | DR_ERROR

record pix_devolution_received =
  dr_id :: string
  dr_user :: string
  dr_wallet :: string
  dr_operation :: string
  dr_state :: devolution_received_state
  dr_payment :: "string option"
  dr_txId :: "string option"
  dr_endToEndId :: "string option"
  dr_amount :: int
  dr_returnedAmount :: int
  dr_clientBank :: bank
  dr_clientBranch :: "string option"
  dr_clientAccountNumber :: "string option"
  dr_clientPersonType :: person_document
  dr_clientDocument :: "string option"
  dr_clientName :: "string option"
  dr_clientKey :: "string option"
  dr_thirdPartBank :: bank
  dr_thirdPartBranch :: "string option"
  dr_thirdPartAccountType :: "string option"
  dr_thirdPartAccountNumber :: "string option"
  dr_thirdPartPersonType :: person_document
  dr_thirdPartDocument :: "string option"
  dr_thirdPartName :: "string option"
  dr_thirdPartKey :: "string option"
  dr_description :: "string option"
  dr_transactionTag :: string

datatype warning_deposit_state = WD_CREATED | WD_APPROVED | WD_REJECTED

record warning_pix_deposit =
  wd_id :: string
  wd_operation :: string
  wd_user :: string
  wd_transactionTag :: string
  wd_state :: warning_deposit_state

record warning_pix_devolution =
  wv_id :: string
  wv_user :: string
  wv_operation :: string
  wv_endToEndId :: "string option"
  wv_amount :: int
  wv_devolutionCode :: devolution_code
  wv_description :: "string option"
  wv_chargebackReason :: "string option"
  wv_failed :: "failed option"
  wv_state :: devolution_state
  wv_externalId :: "string option"
  wv_updatedAt :: int

end
