(* ===== verification/Pix_Infraction_Domain.thy ===== *)
theory Pix_Infraction_Domain
  imports Pix_Payment_Domain
begin

text \<open>
  The data of infractions and refunds of the pix payments service (apps/pix-payments/src/domain/
  entities): reports of fraud that we open or receive, requests of another bank for its money back,
  the devolution that answers such a request, and the amounts blocked in the wallet of the customer
  until it is decided. A null or missing value is \<open>None\<close>.
\<close>

section \<open>Infractions\<close>

datatype infraction_status =
    IS_ACKNOWLEDGED | IS_CLOSED | IS_OPEN | IS_CANCELLED | IS_NEW | IS_RECEIVED | IS_IN_ANALYSIS
  | IS_OPENED

datatype (plugins only: code size) infraction_state =
    IN_NEW_CONFIRMED | IN_OPEN_PENDING | IN_OPEN_CONFIRMED | IN_ACKNOWLEDGED_PENDING
  | IN_ACKNOWLEDGED_CONFIRMED | IN_IN_ANALYSIS_PENDING | IN_IN_ANALYSIS_CONFIRMED
  | IN_CLOSED_PENDING | IN_CLOSED_CONFIRMED | IN_RECEIVE_PENDING | IN_RECEIVE_CONFIRMED
  | IN_CANCEL_PENDING | IN_CANCEL_CONFIRMED | IN_ERROR | IN_EXPIRED | IN_REQUEST_REFUND_RECEIVED

datatype analysis_result = AGREED | DISAGREED

text \<open>The same four kinds of transaction for infractions and refunds.\<close>

datatype transaction_kind = TK_PAYMENT | TK_DEVOLUTION | TK_DEPOSIT | TK_DEVOLUTION_RECEIVED

datatype infraction_type = IT_FRAUD | IT_REFUND_REQUEST | IT_CANCEL_DEVOLUTION

datatype infraction_report = DEBITED_PARTICIPANT | CREDITED_PARTICIPANT

record pix_infraction =
  inf_id :: string
  inf_issueId :: "int option"
  inf_infractionPspId :: "string option"
  inf_operation :: "string option"
  inf_transaction :: "string option"
  inf_transactionType :: transaction_kind
  inf_description :: "string option"
  inf_infractionType :: infraction_type
  inf_status :: infraction_status
  inf_state :: infraction_state
  inf_analysisResult :: "analysis_result option"
  inf_ispbDebitedParticipant :: "string option"
  inf_ispbCreditedParticipant :: "string option"
  inf_reportBy :: "infraction_report option"
  inf_ispb :: "string option"
  inf_endToEndId :: "string option"
  inf_creationDate :: "int option"
  inf_lastChangeDate :: "int option"
  inf_analysisDetails :: "string option"
  inf_isReporter :: "bool option"
  inf_closingDate :: "int option"
  inf_cancellationDate :: "int option"
  inf_failed :: "failed option"
  inf_createdAt :: int

section \<open>Refunds\<close>

datatype refund_reason = RR_FRAUD | RR_OPERATIONAL_FLAW | RR_REFUND_CANCELLED

datatype refund_rejection_reason = NO_BALANCE | ACCOUNT_CLOSURE | CANNOT_REFUND | OTHER_REJECTION

datatype refund_status = RS_OPEN | RS_CLOSED | RS_CANCELLED | RS_RECEIVED

datatype refund_state =
    RF_RECEIVE_PENDING | RF_RECEIVE_CONFIRMED | RF_CANCEL_PENDING | RF_CANCEL_CONFIRMED
  | RF_CLOSED_PENDING | RF_CLOSED_WAITING | RF_CLOSED_CONFIRMED | RF_ERROR

text \<open>Banks are kept by their ISPB.\<close>

record pix_refund =
  rf_id :: string
  rf_solicitationPspId :: "string option"
  rf_infraction :: "string option"
  rf_operation :: "string option"
  rf_transaction :: "string option"
  rf_transactionType :: transaction_kind
  rf_issueId :: "int option"
  rf_contested :: "bool option"
  rf_amount :: int
  rf_description :: "string option"
  rf_reason :: "refund_reason option"
  rf_requesterBank :: "string option"
  rf_responderBank :: "string option"
  rf_status :: refund_status
  rf_state :: refund_state
  rf_analysisDetails :: "string option"
  rf_rejectionReason :: "refund_rejection_reason option"
  rf_refundDevolution :: "string option"
  rf_failed :: "failed option"
  rf_createdAt :: int

definition canCreateRefundDevolution :: "moment \<Rightarrow> int \<Rightarrow> pix_refund \<Rightarrow> bool" where
  "canCreateRefundDevolution m intervalDays x
     \<longleftrightarrow> \<not> m_addDays m intervalDays (rf_createdAt x) < m_now m"

datatype refund_devolution_kind = RD_DEPOSIT | RD_DEVOLUTION_RECEIVED

text \<open>The states of a refund devolution are those of a devolution.\<close>

record pix_refund_devolution =
  rd_id :: string
  rd_user :: string
  rd_operation :: string
  rd_transaction :: "string option"
  rd_transactionType :: refund_devolution_kind
  rd_endToEndId :: "string option"
  rd_amount :: int
  rd_devolutionCode :: devolution_code
  rd_description :: "string option"
  rd_chargebackReason :: "string option"
  rd_failed :: "failed option"
  rd_state :: devolution_state
  rd_externalId :: "string option"
  rd_updatedAt :: int

section \<open>Blocked amounts\<close>

text \<open>
  \<open>PixInfractionRefundOperation\<close>: the operation that blocks what can be blocked of the original
  operation, for an infraction, a refund, or both.
\<close>

datatype refund_operation_state = RO_OPEN | RO_CLOSED

record refund_operation =
  ro_id :: string
  ro_state :: refund_operation_state
  ro_user :: string
  ro_pixInfraction :: "string option"
  ro_pixRefund :: "string option"
  ro_originalOperation :: string
  ro_originalValue :: int
  ro_refundOperation :: string
  ro_refundValue :: int

end
