(* ===== verification/Pix_Payment_Services.thy ===== *)
theory Pix_Payment_Services
  imports Pix_Infraction_Domain
begin

text \<open>
  What the use cases of the pix payments service work on: its exceptions, its events with their
  validation (apps/pix-payments/src/interface/events), the services and gateways it calls, its
  database and Redis with the repositories, and the ledger of the operations service. The ledger is
  a type variable: the operations service is a record of functions on it. What a use case does to
  the ledger or to an external service stays done when it throws later.
\<close>

section \<open>Exceptions\<close>

datatype (plugins only: code size) pay_exn =
    PayMissingData "string list"
  | PayInvalidDataFormat "string list"
  | PayForbidden
  | PayTypeError
  | PayServiceError string
  | PayDatabaseError string
  | PayNotNullViolation "string list"
  | PayUniqueConstraint
  | PayUserNotFound string
  | PayOnboardingNotFound string
  | PayWalletAccountNotFound string
  | PayWalletAccountNotActive nat
  | PaymentInvalidDate "int option"
  | PaymentNotFound string
  | PaymentInvalidState payment_state
  | PaymentValueIsNotPositive "int option"
  | PaymentBetweenSameWallet string
  | PixPaymentZroAccountNotExists string
  | PayBankNotFound
  | DecodedPixAccountNotFound string
  | DecodedPixAccountInvalidState string
  | PayDecodedPixKeyNotFound string
  | PayDecodedPixKeyInvalidState string
  | DecodedQrCodeNotFound string
  | DecodedQrCodeInvalidState string
  | DecodedQrCodeInvalidType decoded_qr_code_type
  | DecodedQrCodeExpired string
  | PixDepositNotFound string
  | PixDepositInvalidState deposit_state
  | PixDepositReceivedInvalidState deposit_state
  | PixDepositReceivedBankNotAllowed string
  | PixDepositReceivedAccountNotFound string
  | PixDepositZroAccountNotExists string
  | PixDepositExpiredDevolutionTime int
  | PixDevolutionNotFound string
  | PixDevolutionInvalidState devolution_state
  | PixDevolutionAmountOverflow int
  | PixDevolutionMaxNumber nat
  | PixDevolutionReceivedBankNotAllowed string
  | PixDevolutionReceivedAccountNotFound string
  | PayOperationNotFound string
  | WarningPixDepositNotFound string
  | WarningPixDepositInvalidState warning_deposit_state
  | WarningPixDevolutionNotFound string
  | WarningPixDevolutionAlreadyExists string
  | WarningPixDevolutionInvalidState devolution_state
  | PixTransactionNotFound "string option"
  | PixInfractionNotFound "string option"
  | PixInfractionInvalidState "infraction_state option"
  | PixRefundNotFound "string option"
  | PixRefundInvalidState "refund_state option"
  | PixRefundLimitDate string
  | PixRefundDevolutionNotFound string
  | PixRefundDevolutionInvalidState devolution_state
  | PixRefundDevolutionAmountOverflow int
  | PixRefundDevolutionMaxNumber nat
  | PixRefundTransactionExpiredDevolutionTime int
  | PixRefundTransactionZroAccountNotExists string

section \<open>Events\<close>

text \<open>An event class throws in its constructor when a field breaks its decorators.\<close>

definition too_long :: "string option \<Rightarrow> string \<Rightarrow> string list" where
  "too_long x name = missing (case x of None \<Rightarrow> False | Some s \<Rightarrow> 255 < length s) name"

definition not_positive :: "int option \<Rightarrow> string \<Rightarrow> string list" where
  "not_positive x name = missing (case x of None \<Rightarrow> False | Some v \<Rightarrow> v \<le> 0) name"

definition length_outside :: "nat \<Rightarrow> nat \<Rightarrow> string option \<Rightarrow> string \<Rightarrow> string list" where
  "length_outside a b x name =
     missing (case x of None \<Rightarrow> False | Some s \<Rightarrow> length s < a \<or> b < length s) name"

definition not_cpf_or_cnpj :: "validators \<Rightarrow> string option \<Rightarrow> string \<Rightarrow> string list" where
  "not_cpf_or_cnpj v x name =
     missing (case x of None \<Rightarrow> False | Some s \<Rightarrow> \<not> v_isCpf v s \<and> \<not> v_isCnpj v s) name"

datatype (plugins only: code size) payment_event_type =
    PE_PENDING | PE_CONFIRMED | PE_WAITING | PE_FAILED | PE_CANCELED | PE_ERROR | PE_COMPLETED
  | PE_REVERTED | PE_SCHEDULED

record payment_event =
  ev_id :: string
  ev_user :: string
  ev_wallet :: string
  ev_state :: payment_state
  ev_endToEndId :: "string option"
  ev_chargebackReason :: "string option"
  ev_failed :: "failed option"
  ev_value :: "int option"
  ev_operationId :: "string option"
  ev_transactionTag :: "string option"
  ev_beneficiaryName :: "string option"
  ev_beneficiaryDocument :: "string option"
  ev_beneficiaryBankIspb :: "string option"
  ev_beneficiaryBranch :: "string option"
  ev_beneficiaryAccountNumber :: "string option"
  ev_ownerFullName :: "string option"
  ev_ownerDocument :: "string option"
  ev_ownerBranch :: "string option"
  ev_ownerAccountNumber :: "string option"

definition PaymentControllerEvent :: "validators \<Rightarrow> payment_event \<Rightarrow> string list" where
  "PaymentControllerEvent v e =
     too_long (ev_endToEndId e) ''endToEndId'' @ too_long (ev_chargebackReason e) ''chargebackReason''
     @ not_positive (ev_value e) ''value'' @ too_long (ev_transactionTag e) ''transactionTag''
     @ too_long (ev_beneficiaryName e) ''beneficiaryName''
     @ not_cpf_or_cnpj v (ev_beneficiaryDocument e) ''beneficiaryDocument''
     @ too_long (ev_beneficiaryBankIspb e) ''beneficiaryBankIspb''
     @ length_outside 4 4 (ev_beneficiaryBranch e) ''beneficiaryBranch''
     @ too_long (ev_beneficiaryAccountNumber e) ''beneficiaryAccountNumber''
     @ too_long (ev_ownerFullName e) ''ownerFullName''
     @ not_cpf_or_cnpj v (ev_ownerDocument e) ''ownerDocument''
     @ too_long (ev_ownerBranch e) ''ownerBranch''
     @ too_long (ev_ownerAccountNumber e) ''ownerAccountNumber''"

definition plain_payment_event :: "payment \<Rightarrow> payment_event" where
  "plain_payment_event p =
     \<lparr> ev_id = py_id p, ev_user = py_user p, ev_wallet = py_wallet p, ev_state = py_state p,
       ev_endToEndId = None, ev_chargebackReason = None, ev_failed = None, ev_value = None,
       ev_operationId = None, ev_transactionTag = None, ev_beneficiaryName = None,
       ev_beneficiaryDocument = None, ev_beneficiaryBankIspb = None, ev_beneficiaryBranch = None,
       ev_beneficiaryAccountNumber = None, ev_ownerFullName = None, ev_ownerDocument = None,
       ev_ownerBranch = None, ev_ownerAccountNumber = None \<rparr>"

definition named_payment_event :: "payment \<Rightarrow> payment_event" where
  "named_payment_event p = (plain_payment_event p)
     \<lparr> ev_beneficiaryName := py_beneficiaryName p, ev_value := Some (py_value p) \<rparr>"

definition confirmed_payment_event :: "payment \<Rightarrow> payment_event" where
  "confirmed_payment_event p = (plain_payment_event p)
     \<lparr> ev_value := Some (py_value p), ev_operationId := py_operation p,
       ev_transactionTag := Some (py_transactionTag p),
       ev_beneficiaryName := py_beneficiaryName p,
       ev_beneficiaryDocument := py_beneficiaryDocument p,
       ev_beneficiaryBankIspb := py_beneficiaryBankIspb p,
       ev_beneficiaryBranch := py_beneficiaryBranch p,
       ev_beneficiaryAccountNumber := py_beneficiaryAccountNumber p,
       ev_ownerFullName := Some (py_ownerFullName p), ev_ownerDocument := Some (py_ownerDocument p),
       ev_ownerBranch := Some (py_ownerBranch p),
       ev_ownerAccountNumber := Some (py_ownerAccountNumber p) \<rparr>"

definition completed_payment_event :: "payment \<Rightarrow> payment_event" where
  "completed_payment_event p = (plain_payment_event p)\<lparr>ev_endToEndId := py_endToEndId p\<rparr>"

definition reverted_payment_event :: "payment \<Rightarrow> payment_event" where
  "reverted_payment_event p = (plain_payment_event p)
     \<lparr> ev_chargebackReason := py_chargebackReason p, ev_failed := py_failed p \<rparr>"

text \<open>
  The fields that the events of deposits, devolutions and received devolutions share, with the same
  decorators in the three classes.
\<close>

record transfer_fields =
  tf_amount :: "int option"
  tf_operationId :: "string option"
  tf_transactionTag :: "string option"
  tf_thirdPartName :: "string option"
  tf_thirdPartDocument :: "string option"
  tf_thirdPartBranch :: "string option"
  tf_thirdPartBankIspb :: "string option"
  tf_thirdPartAccountNumber :: "string option"
  tf_clientName :: "string option"
  tf_clientDocument :: "string option"
  tf_clientBranch :: "string option"
  tf_clientAccountNumber :: "string option"

definition no_fields :: transfer_fields where
  "no_fields = \<lparr> tf_amount = None, tf_operationId = None, tf_transactionTag = None,
     tf_thirdPartName = None, tf_thirdPartDocument = None, tf_thirdPartBranch = None,
     tf_thirdPartBankIspb = None, tf_thirdPartAccountNumber = None, tf_clientName = None,
     tf_clientDocument = None, tf_clientBranch = None, tf_clientAccountNumber = None \<rparr>"

definition bad_fields :: "transfer_fields \<Rightarrow> string list" where
  "bad_fields f =
     not_positive (tf_amount f) ''amount'' @ too_long (tf_thirdPartName f) ''thirdPartName''
     @ too_long (tf_transactionTag f) ''transactionTag''
     @ length_outside 11 14 (tf_thirdPartDocument f) ''thirdPartDocument''
     @ length_outside 4 4 (tf_thirdPartBranch f) ''thirdPartBranch''
     @ too_long (tf_thirdPartBankIspb f) ''thirdPartBankIspb''
     @ too_long (tf_thirdPartAccountNumber f) ''thirdPartAccountNumber''
     @ too_long (tf_clientName f) ''clientName''
     @ length_outside 11 14 (tf_clientDocument f) ''clientDocument''
     @ too_long (tf_clientBranch f) ''clientBranch''
     @ too_long (tf_clientAccountNumber f) ''clientAccountNumber''"

datatype deposit_event_type = DE_NEW | DE_RECEIVED | DE_WAITING | DE_BLOCKED | DE_RECEIVED_FAILED

record deposit_event =
  de_deposit :: string
  de_depositUser :: string
  de_wallet :: string
  de_depositState :: deposit_state
  de_refundOperationId :: "string option"
  de_fields :: transfer_fields

definition plain_deposit_event :: "pix_deposit \<Rightarrow> deposit_event" where
  "plain_deposit_event d = \<lparr> de_deposit = dp_id d, de_depositUser = dp_user d,
     de_wallet = dp_wallet d, de_depositState = dp_state d, de_refundOperationId = None,
     de_fields = no_fields\<lparr>tf_amount := Some (dp_amount d),
       tf_thirdPartName := dp_thirdPartName d\<rparr> \<rparr>"

definition parties_of_deposit :: "pix_deposit \<Rightarrow> transfer_fields \<Rightarrow> transfer_fields" where
  "parties_of_deposit d f = f\<lparr>
     tf_thirdPartName := dp_thirdPartName d, tf_thirdPartDocument := dp_thirdPartDocument d,
     tf_thirdPartBranch := dp_thirdPartBranch d,
     tf_thirdPartBankIspb := Some (bk_ispb (dp_thirdPartBank d)),
     tf_thirdPartAccountNumber := dp_thirdPartAccountNumber d, tf_clientName := dp_clientName d,
     tf_clientDocument := dp_clientDocument d, tf_clientBranch := dp_clientBranch d,
     tf_clientAccountNumber := dp_clientAccountNumber d\<rparr>"

definition received_deposit_event :: "string \<Rightarrow> pix_deposit \<Rightarrow> deposit_event" where
  "received_deposit_event refund d = (plain_deposit_event d)\<lparr>
     de_refundOperationId := Some refund,
     de_fields := parties_of_deposit d (no_fields\<lparr>tf_amount := Some (dp_amount d),
       tf_operationId := Some (dp_operation d),
       tf_transactionTag := Some (dp_transactionTag d)\<rparr>)\<rparr>"

datatype (plugins only: code size) devolution_event_type =
    VE_PENDING | VE_CONFIRMED | VE_WAITING | VE_FAILED | VE_CANCELED | VE_ERROR | VE_COMPLETED
  | VE_REVERTED | VE_CREATE_FAILED | VE_PENDING_FAILED

record devolution_event =
  ve_id :: string
  ve_user :: string
  ve_wallet :: string
  ve_state :: devolution_state
  ve_endToEndId :: "string option"
  ve_chargebackReason :: "string option"
  ve_failed :: "failed option"
  ve_deposit :: "string option"
  ve_fields :: transfer_fields

definition PixDevolutionControllerEvent :: "devolution_event \<Rightarrow> string list" where
  "PixDevolutionControllerEvent e =
     too_long (ve_endToEndId e) ''endToEndId''
     @ too_long (ve_chargebackReason e) ''chargebackReason'' @ bad_fields (ve_fields e)"

definition plain_devolution_event :: "pix_devolution \<Rightarrow> devolution_event" where
  "plain_devolution_event v = \<lparr> ve_id = dv_id v, ve_user = dv_user v, ve_wallet = dv_wallet v,
     ve_state = dv_state v, ve_endToEndId = None, ve_chargebackReason = None, ve_failed = None,
     ve_deposit = None, ve_fields = no_fields \<rparr>"

definition failed_devolution_event :: "pix_devolution \<Rightarrow> devolution_event" where
  "failed_devolution_event v = (plain_devolution_event v)
     \<lparr>ve_fields := no_fields\<lparr>tf_amount := Some (dv_amount v)\<rparr>\<rparr>"

definition confirmed_devolution_event ::
    "string \<Rightarrow> pix_deposit \<Rightarrow> pix_devolution \<Rightarrow> devolution_event" where
  "confirmed_devolution_event tag d v = (plain_devolution_event v)
     \<lparr>ve_fields := parties_of_deposit d (no_fields\<lparr>tf_amount := Some (dv_amount v),
        tf_operationId := dv_operation v, tf_transactionTag := Some tag\<rparr>)\<rparr>"

definition completed_devolution_event :: "pix_devolution \<Rightarrow> devolution_event" where
  "completed_devolution_event v = (plain_devolution_event v)\<lparr>ve_endToEndId := dv_endToEndId v\<rparr>"

definition reverted_devolution_event :: "pix_devolution \<Rightarrow> devolution_event" where
  "reverted_devolution_event v = (plain_devolution_event v)
     \<lparr>ve_chargebackReason := dv_chargebackReason v, ve_failed := dv_failed v\<rparr>"

record devolution_received_event =
  re_id :: string
  re_user :: string
  re_wallet :: string
  re_state :: devolution_received_state
  re_refundOperationId :: "string option"
  re_fields :: transfer_fields

definition ready_devolution_received_event ::
    "string \<Rightarrow> pix_devolution_received \<Rightarrow> devolution_received_event" where
  "ready_devolution_received_event refund r =
     \<lparr> re_id = dr_id r, re_user = dr_user r, re_wallet = dr_wallet r, re_state = dr_state r,
       re_refundOperationId = Some refund,
       re_fields = \<lparr> tf_amount = Some (dr_amount r), tf_operationId = Some (dr_operation r),
         tf_transactionTag = Some (dr_transactionTag r), tf_thirdPartName = dr_thirdPartName r,
         tf_thirdPartDocument = dr_thirdPartDocument r, tf_thirdPartBranch = dr_thirdPartBranch r,
         tf_thirdPartBankIspb = Some (bk_ispb (dr_thirdPartBank r)),
         tf_thirdPartAccountNumber = dr_thirdPartAccountNumber r, tf_clientName = dr_clientName r,
         tf_clientDocument = dr_clientDocument r, tf_clientBranch = dr_clientBranch r,
         tf_clientAccountNumber = dr_clientAccountNumber r \<rparr> \<rparr>"

datatype warning_devolution_event_type =
    WE_CREATED | WE_COMPLETED | WE_REVERTED | WE_PENDING | WE_FAILED | WE_WAITING | WE_CONFIRMED

record warning_devolution_event =
  we_id :: string
  we_state :: devolution_state
  we_user :: "string option"
  we_endToEndId :: "string option"
  we_failed :: "failed option"
  we_warningPix :: "string option"

definition plain_warning_devolution_event ::
    "warning_pix_devolution \<Rightarrow> warning_devolution_event" where
  "plain_warning_devolution_event x = \<lparr> we_id = wv_id x, we_state = wv_state x,
     we_user = Some (wv_user x), we_endToEndId = None, we_failed = None, we_warningPix = None \<rparr>"

record warning_deposit_event =
  wde_id :: string
  wde_user :: "string option"
  wde_state :: warning_deposit_state
  wde_amount :: "int option"
  wde_thirdPartName :: "string option"

record decoded_account_event =
  ae_id :: string
  ae_name :: string
  ae_state :: decoded_account_state
  ae_user :: string

text \<open>
  The events of infractions. All but those of the cron carry the identifier and the state only.
\<close>

datatype (plugins only: code size) infraction_event_type =
    IE_NEW | IE_OPEN_PENDING | IE_OPEN_CONFIRMED | IE_ACKNOWLEDGED_PENDING
  | IE_ACKNOWLEDGED_CONFIRMED | IE_IN_ANALYSIS_CONFIRMED | IE_CLOSED_PENDING | IE_CLOSED_CONFIRMED
  | IE_CLOSED_PENDING_RECEIVED | IE_CLOSED_CONFIRMED_RECEIVED | IE_RECEIVE_PENDING
  | IE_RECEIVE_CONFIRMED | IE_CANCEL_PENDING | IE_CANCEL_CONFIRMED | IE_ERROR
  | IE_CANCEL_PENDING_RECEIVED | IE_CANCEL_CONFIRMED_RECEIVED | IE_RECEIVE | IE_ACKNOWLEDGE
  | IE_CANCEL_RECEIVED | IE_CLOSE_RECEIVED

record infraction_event =
  ie_id :: "string option"
  ie_state :: "infraction_state option"
  ie_operationTransactionId :: "string option"
  ie_reportDetails :: "string option"
  ie_infractionPspId :: "string option"
  ie_infractionType :: "infraction_type option"
  ie_status :: "infraction_status option"
  ie_ispbDebitedParticipant :: "string option"
  ie_ispbCreditedParticipant :: "string option"
  ie_reportBy :: "infraction_report option"
  ie_ispb :: "string option"
  ie_endToEndId :: "string option"
  ie_creationDate :: "int option"
  ie_lastChangeDate :: "int option"
  ie_isReporter :: "bool option"
  ie_analysisDetails :: "string option"
  ie_analysisResult :: "analysis_result option"

definition longer :: "nat \<Rightarrow> string option \<Rightarrow> string \<Rightarrow> string list" where
  "longer n x name = missing (case x of None \<Rightarrow> False | Some s \<Rightarrow> n < length s) name"

definition not_uuid :: "validators \<Rightarrow> string option \<Rightarrow> string \<Rightarrow> string list" where
  "not_uuid v x name = missing (case x of None \<Rightarrow> False | Some s \<Rightarrow> \<not> v_isUUID v s) name"

definition PixInfractionControllerEvent :: "validators \<Rightarrow> infraction_event \<Rightarrow> string list" where
  "PixInfractionControllerEvent v e =
     not_uuid v (ie_id e) ''id''
     @ not_uuid v (ie_operationTransactionId e) ''operationTransactionId''
     @ longer 2000 (ie_reportDetails e) ''reportDetails''
     @ not_uuid v (ie_infractionPspId e) ''infractionPspId''
     @ length_outside 8 8 (ie_ispbDebitedParticipant e) ''ispbDebitedParticipant''
     @ length_outside 8 8 (ie_ispbCreditedParticipant e) ''ispbCreditedParticipant''
     @ length_outside 8 8 (ie_ispb e) ''ispb''"

definition empty_infraction_event :: infraction_event where
  "empty_infraction_event = \<lparr> ie_id = None, ie_state = None, ie_operationTransactionId = None,
     ie_reportDetails = None, ie_infractionPspId = None, ie_infractionType = None, ie_status = None,
     ie_ispbDebitedParticipant = None, ie_ispbCreditedParticipant = None, ie_reportBy = None,
     ie_ispb = None, ie_endToEndId = None, ie_creationDate = None, ie_lastChangeDate = None,
     ie_isReporter = None, ie_analysisDetails = None, ie_analysisResult = None \<rparr>"

definition plain_infraction_event :: "pix_infraction \<Rightarrow> infraction_event" where
  "plain_infraction_event x =
     empty_infraction_event\<lparr>ie_id := Some (inf_id x), ie_state := Some (inf_state x)\<rparr>"

datatype (plugins only: code size) refund_event_type =
    FE_RECEIVE_PENDING | FE_RECEIVE_CONFIRMED | FE_CANCEL_PENDING | FE_CANCEL_CONFIRMED
  | FE_CLOSED_PENDING | FE_CLOSED_CONFIRMED | FE_CLOSED_WAITING | FE_ERROR | FE_RECEIVE

record refund_event =
  fe_id :: string
  fe_state :: "refund_state option"
  fe_solicitationPspId :: "string option"
  fe_contested :: "bool option"
  fe_amount :: "int option"
  fe_description :: "string option"
  fe_reason :: "refund_reason option"
  fe_requesterIspb :: "string option"
  fe_responderIspb :: "string option"
  fe_status :: "refund_status option"
  fe_endToEndIdTransaction :: "string option"
  fe_infractionId :: "string option"

definition PixRefundControllerEvent :: "validators \<Rightarrow> refund_event \<Rightarrow> string list" where
  "PixRefundControllerEvent v e =
     not_uuid v (Some (fe_id e)) ''id'' @ not_uuid v (fe_solicitationPspId e) ''solicitationPspId''
     @ not_positive (fe_amount e) ''amount'' @ longer 1900 (fe_description e) ''description''
     @ length_outside 8 8 (fe_requesterIspb e) ''requesterIspb''
     @ length_outside 8 8 (fe_responderIspb e) ''responderIspb''
     @ too_long (fe_endToEndIdTransaction e) ''endToEndIdTransaction''
     @ not_uuid v (fe_infractionId e) ''infractionId''"

definition plain_refund_event :: "pix_refund \<Rightarrow> refund_event" where
  "plain_refund_event x = \<lparr> fe_id = rf_id x, fe_state = Some (rf_state x), fe_solicitationPspId = None,
     fe_contested = None, fe_amount = None, fe_description = None, fe_reason = None,
     fe_requesterIspb = None, fe_responderIspb = None, fe_status = None,
     fe_endToEndIdTransaction = None, fe_infractionId = None \<rparr>"

datatype (plugins only: code size) refund_devolution_event_type =
    XE_CREATE | XE_PENDING | XE_WAITING | XE_CONFIRMED | XE_FAILED | XE_COMPLETED | XE_REVERTED

record refund_devolution_event =
  xe_id :: string
  xe_state :: devolution_state
  xe_user :: "string option"
  xe_endToEndId :: "string option"
  xe_failed :: "failed option"
  xe_refundId :: "string option"

definition PixRefundDevolutionControllerEvent ::
    "validators \<Rightarrow> refund_devolution_event \<Rightarrow> string list" where
  "PixRefundDevolutionControllerEvent v e =
     not_uuid v (Some (xe_id e)) ''id'' @ too_long (xe_endToEndId e) ''endToEndId''"

definition plain_refund_devolution_event :: "pix_refund_devolution \<Rightarrow> refund_devolution_event" where
  "plain_refund_devolution_event x = \<lparr> xe_id = rd_id x, xe_state = rd_state x,
     xe_user = Some (rd_user x), xe_endToEndId = None, xe_failed = None, xe_refundId = None \<rparr>"

datatype (plugins only: code size) pay_event =
    PaymentEvent payment_event_type payment_event
  | DepositEvent deposit_event_type deposit_event
  | DevolutionEvent devolution_event_type devolution_event
  | DevolutionReceivedEvent devolution_received_event
  | WarningDepositCreated warning_deposit_event
  | WarningDevolutionEvent warning_devolution_event_type warning_devolution_event
  | DecodedAccountConfirmed decoded_account_event
  | InfractionEvent infraction_event_type infraction_event
  | RefundEvent refund_event_type refund_event
  | RefundDevolutionEvent refund_devolution_event_type refund_devolution_event

definition invalid_fields :: "validators \<Rightarrow> pay_event \<Rightarrow> string list" where
  "invalid_fields v e = (case e of
     PaymentEvent _ x \<Rightarrow> PaymentControllerEvent v x
   | DepositEvent _ x \<Rightarrow> bad_fields (de_fields x)
   | DevolutionEvent _ x \<Rightarrow> PixDevolutionControllerEvent x
   | DevolutionReceivedEvent x \<Rightarrow> bad_fields (re_fields x)
   | WarningDepositCreated x \<Rightarrow>
       not_positive (wde_amount x) ''amount'' @ too_long (wde_thirdPartName x) ''thirdPartName''
   | WarningDevolutionEvent _ x \<Rightarrow> too_long (we_endToEndId x) ''endToEndId''
   | DecodedAccountConfirmed x \<Rightarrow>
       missing (ae_name x = []) ''name'' @ too_long (Some (ae_name x)) ''name''
   | InfractionEvent _ x \<Rightarrow> PixInfractionControllerEvent v x
   | RefundEvent _ x \<Rightarrow> PixRefundControllerEvent v x
   | RefundDevolutionEvent _ x \<Rightarrow> PixRefundDevolutionControllerEvent v x)"

end
