(* ===== verification/Pix_Payment_World.thy ===== *)
theory Pix_Payment_World
  imports Pix_Payment_Services
begin

text \<open>
  The state of the pix payments service and the steps its use cases are made of: the services it
  calls, its tables and its Redis keys with their repositories
  (apps/pix-payments/src/infrastructure/sequelize/repositories and redis/repositories). A column
  whose value in an update is \<open>undefined\<close> keeps what is stored.
\<close>

section \<open>The services\<close>

text \<open>
  What the operations service is asked for (apps/pix-payments/src/infrastructure/nest/services/
  operation.service.ts), as functions on its state \<open>'l\<close>. \<open>os_blockOperation\<close> is \<open>createOperation\<close> with
  \<open>ownerAllowAvailableRawValue\<close>: it takes what the wallet has when that is less, and answers with
  the identifier and the value of the operation. \<open>getOperationById\<close> tells the state and the value.
  A wallet account is as the service tells it.
\<close>

record operation_request =
  or_id :: string
  or_rawValue :: int
  or_currencyTag :: string
  or_description :: string

record account_info =
  ai_id :: nat
  ai_wallet :: string
  ai_user :: string
  ai_active :: bool
  ai_accountNumber :: string
  ai_branchNumber :: string

record 'l operation_service =
  os_createOperation :: "string \<Rightarrow> operation_request \<Rightarrow> string option \<Rightarrow> string option
     \<Rightarrow> 'l \<Rightarrow> (pay_exn + unit) \<times> 'l"
  os_createAndAcceptOperation :: "string \<Rightarrow> operation_request \<Rightarrow> string option \<Rightarrow> string option
     \<Rightarrow> 'l \<Rightarrow> (pay_exn + unit) \<times> 'l"
  os_blockOperation :: "string \<Rightarrow> operation_request \<Rightarrow> string \<Rightarrow> 'l
     \<Rightarrow> (pay_exn + (string \<times> int) option) \<times> 'l"
  os_acceptOperation :: "string \<Rightarrow> 'l \<Rightarrow> (pay_exn + unit) \<times> 'l"
  os_revertOperation :: "string \<Rightarrow> 'l \<Rightarrow> (pay_exn + unit) \<times> 'l"
  os_setOperationReference :: "string \<Rightarrow> string \<Rightarrow> 'l \<Rightarrow> (pay_exn + unit) \<times> 'l"
  os_getOperationById :: "string \<Rightarrow> 'l \<Rightarrow> pay_exn + (operation_state \<times> int) option"
  os_getWalletAccountByAccountNumber :: "string \<Rightarrow> string \<Rightarrow> 'l \<Rightarrow> pay_exn + account_info option"
  os_getWalletAccountByWallet :: "string \<Rightarrow> string \<Rightarrow> 'l \<Rightarrow> pay_exn + account_info option"

text \<open>Calls that other services or the PSP act on; they are logged, since no rollback undoes them.\<close>

record devolution_call =
  vc_id :: string
  vc_deposit :: string
  vc_depositEndToEndId :: "string option"
  vc_amount :: int
  vc_description :: "string option"
  vc_code :: devolution_code

record infraction_call =
  ic_operationTransactionId :: "string option"
  ic_operationTransactionEndToEndId :: "string option"
  ic_infractionType :: infraction_type
  ic_reportDetails :: "string option"
  ic_ispb :: "string option"
  ic_ispbDebitedParticipant :: "string option"
  ic_ispbCreditedParticipant :: "string option"
  ic_reportBy :: "infraction_report option"
  ic_createdAt :: int
  ic_personType :: "person_type option"
  ic_document :: "string option"
  ic_branch :: "string option"
  ic_accountNumber :: "string option"

record issue_update =
  iu_issueId :: "int option"
  iu_description :: "string option"
  iu_infractionPspId :: "string option"
  iu_ispbDebitedParticipant :: "string option"
  iu_ispbCreditedParticipant :: "string option"
  iu_reportBy :: "infraction_report option"
  iu_endToEndId :: "string option"
  iu_dueDate :: "int option"

record refund_issue =
  ri_clientName :: "string option"
  ri_endToEndId :: "string option"
  ri_amount :: int
  ri_description :: "string option"
  ri_reason :: "refund_reason option"
  ri_operation :: string

record refund_closing =
  rc_solicitationPspId :: "string option"
  rc_status :: refund_status
  rc_devolutionId :: "string option"
  rc_devolutionEndToEndId :: "string option"
  rc_analysisDetails :: "string option"

datatype (plugins only: code size) pay_call =
    CreatePayment payment string
  | CreateInfraction infraction_call
  | CloseInfraction "string option" "analysis_result option" "string option"
  | CancelInfraction "string option"
  | CreateIssueInfraction "string option" "string option" string infraction_type
  | UpdateIssueInfraction issue_update
  | UpdateIssueInfractionStatus "int option" infraction_status
  | CreateIssueRefund refund_issue
  | UpdateIssueRefundStatus "int option" refund_status
  | CancelRefundRequest "string option" refund_status "string option" "refund_rejection_reason option"
  | CloseRefundRequest refund_closing
  | CreatePixDevolutionRefund devolution_call
  | CreatePixDevolution devolution_call
  | CreateWarningPixDevolution devolution_call
  | UpdateDecodedPixKeyState string
  | CreateWarningTransaction string string "string option" "string option"
  | AddWarningTransactionComment string string

text \<open>What the PSP and the issue tracker answer; each caller reads the fields of its own answer.\<close>

record psp_answer =
  an_endToEndId :: "string option"
  an_externalId :: "string option"
  an_infractionId :: "string option"
  an_debitedParticipant :: "string option"
  an_creditedParticipant :: "string option"
  an_issueId :: "int option"

text \<open>Infractions and refund requests as the PSP lists them.\<close>

record psp_infraction =
  pi_infractionId :: string
  pi_operationTransactionId :: "string option"
  pi_ispb :: "string option"
  pi_endToEndId :: "string option"
  pi_infractionType :: infraction_type
  pi_reportedBy :: "infraction_report option"
  pi_reportDetails :: "string option"
  pi_status :: infraction_status
  pi_debitedParticipant :: "string option"
  pi_creditedParticipant :: "string option"
  pi_creationDate :: "int option"
  pi_lastChangeDate :: "int option"
  pi_analysisResult :: "analysis_result option"
  pi_analysisDetails :: "string option"
  pi_isReporter :: "bool option"

record psp_refund =
  pf_solicitationId :: string
  pf_transactionEndToEndId :: "string option"
  pf_contested :: "bool option"
  pf_refundAmount :: int
  pf_refundDetails :: "string option"
  pf_refundReason :: "refund_reason option"
  pf_requesterIspb :: "string option"
  pf_responderIspb :: "string option"
  pf_status :: refund_status
  pf_infractionId :: "string option"

datatype payment_status = ST_SETTLED | ST_PROCESSING | ST_CHARGEBACK | ST_OTHER

record status_answer =
  sa_status :: payment_status
  sa_endToEndId :: "string option"
  sa_errorCode :: "string option"
  sa_reason :: "string option"

text \<open>A question for the state of a transfer, by its identifier and one of the PSP.\<close>

datatype status_query =
    GetPayment string "string option"
  | GetPaymentById string "string option"

record pay_config =
  pc_currencyTag :: string
  pc_description :: string
  pc_zroBankIspb :: string
  pc_newPixReceivedTag :: string
  pc_changeTag :: string
  pc_sendAccountTag :: string
  pc_sendKeyTag :: string
  pc_sendQrsTag :: string
  pc_sendQrdTag :: string
  pc_duedateQrdTag :: string
  pc_withdrawalQrsTag :: string
  pc_withdrawalQrdTag :: string
  pc_changeQrdTag :: string
  pc_agentModWithdrawal :: pix_agent_mod
  pc_receivedPixDepositTag :: string
  pc_sendDevolutionTag :: string
  pc_devolutionReceivedTag :: string
  pc_devolutionMaxNumber :: nat
  pc_devolutionIntervalDays :: int
  pc_minAmount :: int
  pc_cefIspb :: string
  pc_santanderIspb :: string
  pc_santanderCnpj :: string
  pc_receitaFederalCnpj :: string
  pc_maxOccupationIncome :: int
  pc_minAmountToWarningIncome :: int
  pc_messageUserRequest :: string
  pc_thresholdInSeconds :: int
  pc_refundTag :: string
  pc_sendRefundDevolutionTag :: string
  pc_refundDevolutionMaxNumber :: nat
  pc_refundDevolutionIntervalDays :: int
  pc_infractionDueDays :: int

record deposit_hash =
  dh_clientAccountNumber :: "string option"
  dh_thirdPartAccountNumber :: "string option"
  dh_amount :: int
  dh_thirdPartBranch :: "string option"
  dh_thirdPartIspb :: string

text \<open>
  Everything a request runs with: the configuration, the instant and calendar, the services. An
  onboarding is told by its occupation income.
\<close>

record 'l pay_env =
  pe_cfg :: pay_config
  pe_moment :: moment
  pe_operations :: "'l operation_service"
  pe_getUser :: "string \<Rightarrow> pay_exn + user_info option"
  pe_getUserByDocument :: "string \<Rightarrow> pay_exn + string option"
  pe_getOnboarding :: "string \<Rightarrow> pay_exn + int option option"
  pe_getBank :: "string \<Rightarrow> pay_exn + bank option"
  pe_getDecodedPixKey :: "string \<Rightarrow> pay_exn + decoded_pix_key option"
  pe_getWarningTransaction :: "string \<Rightarrow> pay_exn + string option"
  pe_call :: "pay_call \<Rightarrow> pay_exn + psp_answer"
  pe_status :: "status_query \<Rightarrow> pay_exn + status_answer option"
  pe_getInfractions :: "pay_exn + psp_infraction list"
  pe_getRefundRequests :: "refund_status \<Rightarrow> pay_exn + psp_refund list"
  pe_translate :: "string option \<Rightarrow> failed option"
  pe_warningReason :: "string \<Rightarrow> string"
  pe_sha1 :: "deposit_hash \<Rightarrow> string"
  pe_validators :: validators

section \<open>The state\<close>

record pay_db =
  payments :: "payment list"
  deposits :: "pix_deposit list"
  devolutions :: "pix_devolution list"
  devolutionsReceived :: "pix_devolution_received list"
  warningDeposits :: "warning_pix_deposit list"
  warningDevolutions :: "warning_pix_devolution list"
  infractions :: "pix_infraction list"
  refunds :: "pix_refund list"
  refundDevolutions :: "pix_refund_devolution list"
  refundOperations :: "refund_operation list"
  decodedQrCodes :: "decoded_qr_code list"
  decodedAccounts :: "decoded_pix_account list"
  skipList :: "string list"
  blockedCpfs :: "string list"
  blockedBanks :: "string list"
  payOutbox :: "pay_event list"

record pay_redis =
  depositCache :: "pix_deposit list"
  depositHashes :: "string list"
  skipCache :: "string list"

record 'l pay_world =
  pw_db :: pay_db
  pw_redis :: pay_redis
  pw_calls :: "pay_call list"
  pw_ledger :: 'l

type_synonym ('l, 'a) pay_step = "('l pay_world, pay_exn, 'a) step"

definition dbR :: "(pay_db \<Rightarrow> pay_exn + 'a) \<Rightarrow> ('l, 'a) pay_step" where
  "dbR f = readS (\<lambda>w. f (pw_db w))"

definition dbM :: "(pay_db \<Rightarrow> pay_db) \<Rightarrow> ('l, unit) pay_step" where
  "dbM f = modifyS (\<lambda>w. w\<lparr>pw_db := f (pw_db w)\<rparr>)"

definition redisR :: "(pay_redis \<Rightarrow> pay_exn + 'a) \<Rightarrow> ('l, 'a) pay_step" where
  "redisR f = readS (\<lambda>w. f (pw_redis w))"

definition redisM :: "(pay_redis \<Rightarrow> pay_redis) \<Rightarrow> ('l, unit) pay_step" where
  "redisM f = modifyS (\<lambda>w. w\<lparr>pw_redis := f (pw_redis w)\<rparr>)"

definition askS :: "pay_exn + 'a \<Rightarrow> ('l, 'a) pay_step" where
  "askS r = readS (\<lambda>_. r)"

definition ledgerR :: "('l \<Rightarrow> pay_exn + 'a) \<Rightarrow> ('l, 'a) pay_step" where
  "ledgerR f = readS (\<lambda>w. f (pw_ledger w))"

definition ledgerS :: "('l \<Rightarrow> (pay_exn + 'a) \<times> 'l) \<Rightarrow> ('l, 'a) pay_step" where
  "ledgerS f w = (let (r, l) = f (pw_ledger w) in (r, w\<lparr>pw_ledger := l\<rparr>))"

definition callS :: "'l pay_env \<Rightarrow> pay_call \<Rightarrow> ('l, psp_answer) pay_step" where
  "callS E c w = (pe_call E c, w\<lparr>pw_calls := pw_calls w @ [c]\<rparr>)"

definition whenS :: "bool \<Rightarrow> ('s, 'e, unit) step \<Rightarrow> ('s, 'e, unit) step" where
  "whenS c m = (if c then m else returnS ())"

definition throwWhen :: "bool \<Rightarrow> 'e \<Rightarrow> ('s, 'e, unit) step" where
  "throwWhen c e = (if c then throwS e else returnS ())"

text \<open>\<open>try\<close>: the exception becomes a value.\<close>

definition tryS :: "('s, 'e, 'a) step \<Rightarrow> ('s, 'e, 'e + 'a) step" where
  "tryS f s = (case f s of (r, s') \<Rightarrow> (Inr r, s'))"

text \<open>A value that an earlier check has found present.\<close>

definition given :: "'a option \<Rightarrow> ('l, 'a) pay_step" where
  "given x = (case x of None \<Rightarrow> throwS PayTypeError | Some y \<Rightarrow> returnS y)"

definition needData :: "string list \<Rightarrow> ('l, unit) pay_step" where
  "needData names = throwWhen (names \<noteq> []) (PayMissingData names)"

definition foundS :: "pay_exn + 'a option \<Rightarrow> pay_exn \<Rightarrow> ('l, 'a) pay_step" where
  "foundS r e = bindS (askS r) (\<lambda>x. case x of None \<Rightarrow> throwS e | Some y \<Rightarrow> returnS y)"

definition findS :: "(pay_db \<Rightarrow> 'a option) \<Rightarrow> pay_exn \<Rightarrow> ('l, 'a) pay_step" where
  "findS f e = dbR (\<lambda>d. orThrow (f d) e)"

text \<open>Services validate the identifier they are given.\<close>

definition givenId :: "string option \<Rightarrow> ('l, string) pay_step" where
  "givenId i = (case i of None \<Rightarrow> throwS (PayServiceError ''id'') | Some x \<Rightarrow> returnS x)"

definition emitPay :: "'l pay_env \<Rightarrow> pay_event \<Rightarrow> ('l, unit) pay_step" where
  "emitPay E e = (let bad = invalid_fields (pe_validators E) e in
     if bad = [] then dbM (\<lambda>d. d\<lparr>payOutbox := payOutbox d @ [e]\<rparr>)
     else throwS (PayInvalidDataFormat bad))"

abbreviation env_now :: "'l pay_env \<Rightarrow> int" where
  "env_now E \<equiv> m_now (pe_moment E)"

section \<open>Repositories\<close>

text \<open>
  \<open>None\<close> in a field that may be \<open>undefined\<close> leaves the column alone. An entity that was read keeps
  its raw columns, and the constructor of its model prefers them (\<open>values?.failedCode ??
  values?.failed?.code\<close>): there the stored value stays, which is \<open>stored\<close> with the rows exchanged.
\<close>

definition stored :: "'a option \<Rightarrow> 'a option \<Rightarrow> 'a option" where
  "stored new old = (case new of None \<Rightarrow> old | Some x \<Rightarrow> Some x)"

lemma stored_simps [simp]: "stored None old = old" "stored (Some x) old = Some x"
  by (simp_all add: stored_def)

definition insertRow ::
    "('r \<Rightarrow> string) \<Rightarrow> (pay_db \<Rightarrow> 'r list) \<Rightarrow> (('r list \<Rightarrow> 'r list) \<Rightarrow> pay_db \<Rightarrow> pay_db) \<Rightarrow> 'r
     \<Rightarrow> ('l, unit) pay_step" where
  "insertRow key table upd r =
     bindS (dbR (\<lambda>d. tbl_create key PayUniqueConstraint r (table d)))
       (\<lambda>t. dbM (upd (\<lambda>_. t)))"

subsection \<open>Payments\<close>

definition nulls :: "payment \<Rightarrow> string list" where
  "nulls p =
     missing (py_beneficiaryAccountType p = None) ''beneficiaryAccountType''
     @ missing (py_beneficiaryPersonType p = None) ''beneficiaryPersonType''
     @ missing (py_beneficiaryBranch p = None) ''beneficiaryBranch''
     @ missing (py_beneficiaryAccountNumber p = None) ''beneficiaryAccountNumber''
     @ missing (py_beneficiaryBankIspb p = None) ''beneficiaryBankIspb''
     @ missing (py_beneficiaryDocument p = None) ''beneficiaryDocument''"

definition PaymentRepository_create :: "int \<Rightarrow> payment \<Rightarrow> ('l, payment) pay_step" where
  "PaymentRepository_create now p =
     (let q = p\<lparr>py_createdAt := now, py_updatedAt := now\<rparr> in
      bindS (throwWhen (nulls p \<noteq> []) (PayNotNullViolation (nulls p))) (\<lambda>_.
      bindS (insertRow py_id payments payments_update q) (\<lambda>_.
      returnS q)))"

definition PaymentRepository_getById :: "string \<Rightarrow> pay_db \<Rightarrow> payment option" where
  "PaymentRepository_getById i d = tbl_find py_id i (payments d)"

definition payment_row :: "int \<Rightarrow> payment \<Rightarrow> payment \<Rightarrow> payment" where
  "payment_row now old p = p\<lparr>
     py_endToEndId := stored (py_endToEndId p) (py_endToEndId old),
     py_chargebackReason := stored (py_chargebackReason p) (py_chargebackReason old),
     py_externalId := stored (py_externalId p) (py_externalId old), py_updatedAt := now\<rparr>"

definition PaymentRepository_update :: "int \<Rightarrow> payment \<Rightarrow> pay_db \<Rightarrow> pay_db" where
  "PaymentRepository_update now p d =
     d\<lparr>payments := map (\<lambda>old. if py_id old = py_id p then payment_row now old p else old) (payments d)\<rparr>"

definition PaymentRepository_getByIdOrEndToEndId ::
    "string \<Rightarrow> string \<Rightarrow> pay_db \<Rightarrow> payment option" where
  "PaymentRepository_getByIdOrEndToEndId i e d =
     find (\<lambda>p. if i \<noteq> [] then py_id p = i else py_endToEndId p = Some e) (payments d)"

definition hasOperation :: "string \<Rightarrow> payment \<Rightarrow> bool" where
  "hasOperation i p \<longleftrightarrow> py_operation p = Some i \<or> py_changeOperation p = Some i"

definition PaymentRepository_getByOperation :: "string \<Rightarrow> pay_db \<Rightarrow> payment option" where
  "PaymentRepository_getByOperation i d = find (hasOperation i) (payments d)"

definition PaymentRepository_getByOperationAndWallet ::
    "string \<Rightarrow> string \<Rightarrow> pay_db \<Rightarrow> payment option" where
  "PaymentRepository_getByOperationAndWallet i u d =
     find (\<lambda>p. hasOperation i p \<and> py_wallet p = u) (payments d)"

definition PaymentRepository_getAllByStateAndPaymentDate ::
    "moment \<Rightarrow> payment_state \<Rightarrow> int \<Rightarrow> pay_db \<Rightarrow> payment list" where
  "PaymentRepository_getAllByStateAndPaymentDate m s t d =
     filter (\<lambda>p. py_state p = s
       \<and> (case py_paymentDate p of None \<Rightarrow> False | Some u \<Rightarrow> same_day m u t)) (payments d)"

datatype threshold_comparison = BEFORE_THAN | AFTER_OR_EQUAL_THAN

definition at_threshold :: "threshold_comparison \<Rightarrow> int \<Rightarrow> int \<Rightarrow> bool" where
  "at_threshold c date t = (case c of BEFORE_THAN \<Rightarrow> t < date | AFTER_OR_EQUAL_THAN \<Rightarrow> date \<le> t)"

definition PaymentRepository_getAllByStateThresholdDateAndPriorityType ::
    "payment_state \<Rightarrow> int \<Rightarrow> threshold_comparison \<Rightarrow> payment_priority option \<Rightarrow> pay_db
     \<Rightarrow> payment list" where
  "PaymentRepository_getAllByStateThresholdDateAndPriorityType s date c prio d =
     filter (\<lambda>p. py_state p = s \<and> at_threshold c date (py_updatedAt p)
       \<and> (case prio of None \<Rightarrow> True | Some x \<Rightarrow> py_priorityType p = x)) (payments d)"

subsection \<open>Deposits\<close>

definition PixDepositRepository_create :: "int \<Rightarrow> pix_deposit \<Rightarrow> ('l, pix_deposit) pay_step" where
  "PixDepositRepository_create now x =
     (let y = x\<lparr>dp_createdAt := now, dp_updatedAt := now\<rparr> in
      bindS (insertRow dp_id deposits deposits_update y) (\<lambda>_. returnS y))"

definition PixDepositRepository_update :: "int \<Rightarrow> pix_deposit \<Rightarrow> pay_db \<Rightarrow> pay_db" where
  "PixDepositRepository_update now x d =
     d\<lparr>deposits := tbl_update dp_id (x\<lparr>dp_updatedAt := now\<rparr>) (deposits d)\<rparr>"

definition PixDepositRepository_getById :: "string \<Rightarrow> pay_db \<Rightarrow> pix_deposit option" where
  "PixDepositRepository_getById i d = tbl_find dp_id i (deposits d)"

definition PixDepositRepository_getByOperation :: "string \<Rightarrow> pay_db \<Rightarrow> pix_deposit option" where
  "PixDepositRepository_getByOperation i d = find (\<lambda>x. dp_operation x = i) (deposits d)"

definition PixDepositRepository_getByOperationAndWallet ::
    "string \<Rightarrow> string \<Rightarrow> pay_db \<Rightarrow> pix_deposit option" where
  "PixDepositRepository_getByOperationAndWallet i u d =
     find (\<lambda>x. dp_operation x = i \<and> dp_wallet x = u) (deposits d)"

definition cacheDeposit :: "int \<Rightarrow> pix_deposit \<Rightarrow> pay_redis \<Rightarrow> pay_redis" where
  "cacheDeposit now x r =
     r\<lparr>depositCache := x\<lparr>dp_updatedAt := now\<rparr> # filter (\<lambda>y. dp_id y \<noteq> dp_id x) (depositCache r)\<rparr>"

definition PixDepositCacheRepository_create ::
    "int \<Rightarrow> pix_deposit \<Rightarrow> ('l, pix_deposit) pay_step" where
  "PixDepositCacheRepository_create now x =
     (let y = x\<lparr>dp_createdAt := now, dp_updatedAt := now\<rparr> in
      bindS (redisM (cacheDeposit now y)) (\<lambda>_. returnS y))"

definition PixDepositCacheRepository_getById :: "string \<Rightarrow> pay_redis \<Rightarrow> pix_deposit option" where
  "PixDepositCacheRepository_getById i r = tbl_find dp_id i (depositCache r)"

subsection \<open>Devolutions\<close>

definition PixDevolutionRepository_create ::
    "int \<Rightarrow> pix_devolution \<Rightarrow> ('l, pix_devolution) pay_step" where
  "PixDevolutionRepository_create now x =
     (let y = x\<lparr>dv_createdAt := now, dv_updatedAt := now\<rparr> in
      bindS (insertRow dv_id devolutions devolutions_update y) (\<lambda>_. returnS y))"

definition devolution_row :: "int \<Rightarrow> pix_devolution \<Rightarrow> pix_devolution \<Rightarrow> pix_devolution" where
  "devolution_row now old x = x\<lparr>
     dv_endToEndId := stored (dv_endToEndId x) (dv_endToEndId old),
     dv_chargebackReason := stored (dv_chargebackReason x) (dv_chargebackReason old),
     dv_externalId := stored (dv_externalId x) (dv_externalId old), dv_updatedAt := now\<rparr>"

text \<open>The operation of a devolution must not be null.\<close>

definition PixDevolutionRepository_update :: "int \<Rightarrow> pix_devolution \<Rightarrow> ('l, unit) pay_step" where
  "PixDevolutionRepository_update now x =
     bindS (throwWhen (dv_operation x = None) (PayNotNullViolation [''operationId''])) (\<lambda>_.
     dbM (\<lambda>d. d\<lparr>devolutions := map (\<lambda>old. if dv_id old = dv_id x then devolution_row now old x else old)
       (devolutions d)\<rparr>))"

definition PixDevolutionRepository_getById :: "string \<Rightarrow> pay_db \<Rightarrow> pix_devolution option" where
  "PixDevolutionRepository_getById i d = tbl_find dv_id i (devolutions d)"

definition activeDevolution :: "pix_devolution \<Rightarrow> bool" where
  "activeDevolution x \<longleftrightarrow> \<not> List.member [DEV_CANCELED, DEV_FAILED, DEV_ERROR] (dv_state x)"

definition countByDeposit :: "string \<Rightarrow> pay_db \<Rightarrow> nat" where
  "countByDeposit i d = length (filter (\<lambda>x. dv_deposit x = i \<and> activeDevolution x) (devolutions d))"

definition getTotalDevolutionAmountByDeposit :: "string \<Rightarrow> pay_db \<Rightarrow> int" where
  "getTotalDevolutionAmountByDeposit i d =
     sum_list (map dv_amount (filter (\<lambda>x. dv_deposit x = i \<and> activeDevolution x) (devolutions d)))"

definition PixDevolutionRepository_getAllByStateAndThresholdDate ::
    "devolution_state \<Rightarrow> int \<Rightarrow> threshold_comparison \<Rightarrow> pay_db \<Rightarrow> pix_devolution list" where
  "PixDevolutionRepository_getAllByStateAndThresholdDate s date c d =
     filter (\<lambda>x. dv_state x = s \<and> at_threshold c date (dv_updatedAt x)) (devolutions d)"

definition PixDevolutionReceivedRepository_create ::
    "pix_devolution_received \<Rightarrow> ('l, unit) pay_step" where
  "PixDevolutionReceivedRepository_create x =
     insertRow dr_id devolutionsReceived devolutionsReceived_update x"

definition PixDevolutionReceivedRepository_getById ::
    "string \<Rightarrow> pay_db \<Rightarrow> pix_devolution_received option" where
  "PixDevolutionReceivedRepository_getById i d = tbl_find dr_id i (devolutionsReceived d)"

subsection \<open>Suspect deposits\<close>

definition WarningPixDepositRepository_create :: "warning_pix_deposit \<Rightarrow> ('l, unit) pay_step" where
  "WarningPixDepositRepository_create x = insertRow wd_id warningDeposits warningDeposits_update x"

definition WarningPixDepositRepository_getById :: "string \<Rightarrow> pay_db \<Rightarrow> warning_pix_deposit option" where
  "WarningPixDepositRepository_getById i d = tbl_find wd_id i (warningDeposits d)"

definition WarningPixDepositRepository_getByOperation ::
    "string \<Rightarrow> pay_db \<Rightarrow> warning_pix_deposit option" where
  "WarningPixDepositRepository_getByOperation i d = find (\<lambda>x. wd_operation x = i) (warningDeposits d)"

definition WarningPixDepositRepository_update :: "warning_pix_deposit \<Rightarrow> pay_db \<Rightarrow> pay_db" where
  "WarningPixDepositRepository_update x d =
     d\<lparr>warningDeposits := tbl_update wd_id x (warningDeposits d)\<rparr>"

definition WarningPixDevolutionRepository_create ::
    "int \<Rightarrow> warning_pix_devolution \<Rightarrow> ('l, unit) pay_step" where
  "WarningPixDevolutionRepository_create now x =
     insertRow wv_id warningDevolutions warningDevolutions_update (x\<lparr>wv_updatedAt := now\<rparr>)"

definition WarningPixDevolutionRepository_getById ::
    "string \<Rightarrow> pay_db \<Rightarrow> warning_pix_devolution option" where
  "WarningPixDevolutionRepository_getById i d = tbl_find wv_id i (warningDevolutions d)"

definition WarningPixDevolutionRepository_getByOperation ::
    "string \<Rightarrow> pay_db \<Rightarrow> warning_pix_devolution option" where
  "WarningPixDevolutionRepository_getByOperation i d =
     find (\<lambda>x. wv_operation x = i) (warningDevolutions d)"

definition WarningPixDevolutionRepository_getAllByStateAndThresholdDate ::
    "devolution_state \<Rightarrow> int \<Rightarrow> threshold_comparison \<Rightarrow> pay_db \<Rightarrow> warning_pix_devolution list" where
  "WarningPixDevolutionRepository_getAllByStateAndThresholdDate s date c d =
     filter (\<lambda>x. wv_state x = s \<and> at_threshold c date (wv_updatedAt x)) (warningDevolutions d)"

definition warning_devolution_row ::
    "int \<Rightarrow> warning_pix_devolution \<Rightarrow> warning_pix_devolution \<Rightarrow> warning_pix_devolution" where
  "warning_devolution_row now old x = x\<lparr>
     wv_endToEndId := stored (wv_endToEndId x) (wv_endToEndId old),
     wv_chargebackReason := stored (wv_chargebackReason x) (wv_chargebackReason old),
     wv_externalId := stored (wv_externalId x) (wv_externalId old),
     wv_failed := stored (wv_failed old) (wv_failed x), wv_updatedAt := now\<rparr>"

definition WarningPixDevolutionRepository_update ::
    "int \<Rightarrow> warning_pix_devolution \<Rightarrow> pay_db \<Rightarrow> pay_db" where
  "WarningPixDevolutionRepository_update now x d =
     d\<lparr>warningDevolutions := map (\<lambda>old. if wv_id old = wv_id x then warning_devolution_row now old x else old)
       (warningDevolutions d)\<rparr>"

subsection \<open>Infractions\<close>

definition PixInfractionRepository_create :: "int \<Rightarrow> pix_infraction \<Rightarrow> ('l, pix_infraction) pay_step" where
  "PixInfractionRepository_create now x =
     (let y = x\<lparr>inf_createdAt := now\<rparr> in
      bindS (insertRow inf_id infractions infractions_update y) (\<lambda>_. returnS y))"

definition PixInfractionRepository_getById :: "string \<Rightarrow> pay_db \<Rightarrow> pix_infraction option" where
  "PixInfractionRepository_getById i d = tbl_find inf_id i (infractions d)"

definition PixInfractionRepository_getByInfractionPspId :: "string \<Rightarrow> pay_db \<Rightarrow> pix_infraction option" where
  "PixInfractionRepository_getByInfractionPspId i d =
     find (\<lambda>x. inf_infractionPspId x = Some i) (infractions d)"

definition PixInfractionRepository_getByIssueId :: "int \<Rightarrow> pay_db \<Rightarrow> pix_infraction option" where
  "PixInfractionRepository_getByIssueId i d = find (\<lambda>x. inf_issueId x = Some i) (infractions d)"

definition infraction_row :: "pix_infraction \<Rightarrow> pix_infraction \<Rightarrow> pix_infraction" where
  "infraction_row old x = x\<lparr>
     inf_issueId := stored (inf_issueId x) (inf_issueId old),
     inf_infractionPspId := stored (inf_infractionPspId x) (inf_infractionPspId old),
     inf_description := stored (inf_description x) (inf_description old),
     inf_ispbDebitedParticipant := stored (inf_ispbDebitedParticipant x) (inf_ispbDebitedParticipant old),
     inf_ispbCreditedParticipant := stored (inf_ispbCreditedParticipant x) (inf_ispbCreditedParticipant old),
     inf_analysisResult := stored (inf_analysisResult x) (inf_analysisResult old),
     inf_analysisDetails := stored (inf_analysisDetails x) (inf_analysisDetails old),
     inf_failed := stored (inf_failed old) (inf_failed x)\<rparr>"

definition PixInfractionRepository_update :: "pix_infraction \<Rightarrow> pay_db \<Rightarrow> pay_db" where
  "PixInfractionRepository_update x d =
     d\<lparr>infractions := map (\<lambda>old. if inf_id old = inf_id x then infraction_row old x else old) (infractions d)\<rparr>"

subsection \<open>Refunds\<close>

definition PixRefundRepository_create :: "int \<Rightarrow> pix_refund \<Rightarrow> ('l, pix_refund) pay_step" where
  "PixRefundRepository_create now x =
     (let y = x\<lparr>rf_createdAt := now\<rparr> in
      bindS (insertRow rf_id refunds refunds_update y) (\<lambda>_. returnS y))"

definition PixRefundRepository_getById :: "string \<Rightarrow> pay_db \<Rightarrow> pix_refund option" where
  "PixRefundRepository_getById i d = tbl_find rf_id i (refunds d)"

definition PixRefundRepository_getByIssueId :: "int \<Rightarrow> pay_db \<Rightarrow> pix_refund option" where
  "PixRefundRepository_getByIssueId i d = find (\<lambda>x. rf_issueId x = Some i) (refunds d)"

definition PixRefundRepository_getBySolicitationId :: "string \<Rightarrow> pay_db \<Rightarrow> pix_refund option" where
  "PixRefundRepository_getBySolicitationId i d = find (\<lambda>x. rf_solicitationPspId x = Some i) (refunds d)"

definition PixRefundRepository_getByRefundDevolution :: "string \<Rightarrow> pay_db \<Rightarrow> pix_refund option" where
  "PixRefundRepository_getByRefundDevolution i d = find (\<lambda>x. rf_refundDevolution x = Some i) (refunds d)"

text \<open>\<open>values?.refundDevolutionId ?? values?.refundDevolution?.id\<close>: the first devolution stays.\<close>

definition refund_row :: "pix_refund \<Rightarrow> pix_refund \<Rightarrow> pix_refund" where
  "refund_row old x = x\<lparr>
     rf_issueId := stored (rf_issueId x) (rf_issueId old),
     rf_analysisDetails := stored (rf_analysisDetails x) (rf_analysisDetails old),
     rf_rejectionReason := stored (rf_rejectionReason x) (rf_rejectionReason old),
     rf_refundDevolution := stored (rf_refundDevolution old) (rf_refundDevolution x),
     rf_failed := stored (rf_failed old) (rf_failed x)\<rparr>"

definition PixRefundRepository_update :: "pix_refund \<Rightarrow> pay_db \<Rightarrow> pay_db" where
  "PixRefundRepository_update x d =
     d\<lparr>refunds := map (\<lambda>old. if rf_id old = rf_id x then refund_row old x else old) (refunds d)\<rparr>"

definition PixRefundDevolutionRepository_create ::
    "int \<Rightarrow> pix_refund_devolution \<Rightarrow> ('l, unit) pay_step" where
  "PixRefundDevolutionRepository_create now x =
     insertRow rd_id refundDevolutions refundDevolutions_update (x\<lparr>rd_updatedAt := now\<rparr>)"

definition PixRefundDevolutionRepository_getById :: "string \<Rightarrow> pay_db \<Rightarrow> pix_refund_devolution option" where
  "PixRefundDevolutionRepository_getById i d = tbl_find rd_id i (refundDevolutions d)"

definition countByTransaction :: "string option \<Rightarrow> pay_db \<Rightarrow> nat" where
  "countByTransaction i d = length (filter (\<lambda>x. rd_transaction x = i
     \<and> \<not> List.member [DEV_CANCELED, DEV_FAILED, DEV_ERROR] (rd_state x)) (refundDevolutions d))"

definition PixRefundDevolutionRepository_getAllByStateAndThresholdDate ::
    "devolution_state \<Rightarrow> int \<Rightarrow> threshold_comparison \<Rightarrow> pay_db \<Rightarrow> pix_refund_devolution list" where
  "PixRefundDevolutionRepository_getAllByStateAndThresholdDate s date c d =
     filter (\<lambda>x. rd_state x = s \<and> at_threshold c date (rd_updatedAt x)) (refundDevolutions d)"

definition refund_devolution_row ::
    "int \<Rightarrow> pix_refund_devolution \<Rightarrow> pix_refund_devolution \<Rightarrow> pix_refund_devolution" where
  "refund_devolution_row now old x = x\<lparr>
     rd_endToEndId := stored (rd_endToEndId x) (rd_endToEndId old),
     rd_chargebackReason := stored (rd_chargebackReason x) (rd_chargebackReason old),
     rd_externalId := stored (rd_externalId x) (rd_externalId old), rd_updatedAt := now\<rparr>"

definition PixRefundDevolutionRepository_update ::
    "int \<Rightarrow> pix_refund_devolution \<Rightarrow> pay_db \<Rightarrow> pay_db" where
  "PixRefundDevolutionRepository_update now x d =
     d\<lparr>refundDevolutions := map (\<lambda>old. if rd_id old = rd_id x then refund_devolution_row now old x else old)
       (refundDevolutions d)\<rparr>"

subsection \<open>Blocked amounts\<close>

definition PixInfractionRefundOperationRepository_create :: "refund_operation \<Rightarrow> ('l, unit) pay_step" where
  "PixInfractionRefundOperationRepository_create x =
     insertRow ro_id refundOperations refundOperations_update x"

definition PixInfractionRefundOperationRepository_update :: "refund_operation \<Rightarrow> pay_db \<Rightarrow> pay_db" where
  "PixInfractionRefundOperationRepository_update x d =
     d\<lparr>refundOperations := tbl_update ro_id x (refundOperations d)\<rparr>"

record refund_operation_filter =
  rof_user :: "string option"
  rof_pixInfraction :: "string option"
  rof_pixRefund :: "string option"
  rof_states :: "refund_operation_state list option"

definition asked :: "'a option \<Rightarrow> ('a \<Rightarrow> bool) \<Rightarrow> bool" where
  "asked x P = (case x of None \<Rightarrow> True | Some y \<Rightarrow> P y)"

definition PixInfractionRefundOperationRepository_getAllByFilter ::
    "refund_operation_filter \<Rightarrow> pay_db \<Rightarrow> refund_operation list" where
  "PixInfractionRefundOperationRepository_getAllByFilter f d =
     filter (\<lambda>x. asked (rof_user f) (\<lambda>u. ro_user x = u)
       \<and> asked (rof_pixInfraction f) (\<lambda>i. ro_pixInfraction x = Some i)
       \<and> asked (rof_pixRefund f) (\<lambda>i. ro_pixRefund x = Some i)
       \<and> asked (rof_states f) (\<lambda>ss. List.member ss (ro_state x))) (refundOperations d)"

subsection \<open>Transactions of infractions and refunds\<close>

definition PixDevolutionRepository_getByOperation :: "string \<Rightarrow> pay_db \<Rightarrow> pix_devolution option" where
  "PixDevolutionRepository_getByOperation i d = find (\<lambda>x. dv_operation x = Some i) (devolutions d)"

definition getWithDepositById :: "string \<Rightarrow> pay_db \<Rightarrow> (pix_devolution \<times> pix_deposit option) option" where
  "getWithDepositById i d = map_option (\<lambda>v. (v, PixDepositRepository_getById (dv_deposit v) d))
     (PixDevolutionRepository_getById i d)"

definition PixDepositRepository_getByIdOrEndToEndId :: "string \<Rightarrow> string \<Rightarrow> pay_db \<Rightarrow> pix_deposit option" where
  "PixDepositRepository_getByIdOrEndToEndId i e d =
     find (\<lambda>x. if i \<noteq> [] then dp_id x = i else dp_endToEndId x = Some e) (deposits d)"

definition PixDepositRepository_getByEndToEndId :: "string \<Rightarrow> pay_db \<Rightarrow> pix_deposit option" where
  "PixDepositRepository_getByEndToEndId e d = find (\<lambda>x. dp_endToEndId x = Some e) (deposits d)"

definition PixDevolutionReceivedRepository_getByIdOrEndToEndId ::
    "string \<Rightarrow> string \<Rightarrow> pay_db \<Rightarrow> pix_devolution_received option" where
  "PixDevolutionReceivedRepository_getByIdOrEndToEndId i e d =
     find (\<lambda>x. if i \<noteq> [] then dr_id x = i else dr_endToEndId x = Some e) (devolutionsReceived d)"

definition PixDevolutionReceivedRepository_getByEndToEndId ::
    "string \<Rightarrow> pay_db \<Rightarrow> pix_devolution_received option" where
  "PixDevolutionReceivedRepository_getByEndToEndId e d =
     find (\<lambda>x. dr_endToEndId x = Some e) (devolutionsReceived d)"

definition PixDevolutionReceivedRepository_update :: "pix_devolution_received \<Rightarrow> pay_db \<Rightarrow> pay_db" where
  "PixDevolutionReceivedRepository_update x d =
     d\<lparr>devolutionsReceived := tbl_update dr_id x (devolutionsReceived d)\<rparr>"

section \<open>Requests\<close>

text \<open>
  A request from another service runs in a transaction that an exception rolls back, events
  included. An observer of an event swallows the exception, so what was written before it is
  committed (libs/common/src/interceptors/transaction.interceptor.ts and the observers under
  apps/pix-payments/src/infrastructure/nest/observers). Redis, the ledger and the calls stay.
\<close>

definition served :: "('l, 'a) pay_step \<Rightarrow> 'l pay_world \<Rightarrow> 'l pay_world" where
  "served f w = (case f w of (Inl e, w') \<Rightarrow> w'\<lparr>pw_db := pw_db w\<rparr> | (Inr x, w') \<Rightarrow> w')"

definition observed :: "('l, 'a) pay_step \<Rightarrow> 'l pay_world \<Rightarrow> 'l pay_world" where
  "observed f w = snd (f w)"

text \<open>A cron writes without a transaction and fires its events only at the end
  (apps/pix-payments/src/infrastructure/nest/cron/payment.cron.ts).\<close>

definition cronRun :: "('l, 'a) pay_step \<Rightarrow> 'l pay_world \<Rightarrow> 'l pay_world" where
  "cronRun f w = (case f w of
     (Inl e, w') \<Rightarrow> w'\<lparr>pw_db := (pw_db w')\<lparr>payOutbox := payOutbox (pw_db w)\<rparr>\<rparr>
   | (Inr x, w') \<Rightarrow> w')"

end
