(* ===== verification/Pix_Payment_Creation.thy ===== *)
theory Pix_Payment_Creation
  imports Pix_Payment_World
begin

text \<open>
  Ordering a pix payment: to a decoded account, to a decoded pix key, or by one of the six kinds of
  QR code (apps/pix-payments/src/application/usecases/create_by_*_payment.usecase.ts,
  duedate_by_*, withdrawal_by_* and change_by_*). The payment is stored pending, or scheduled for a
  later day, and announced.
\<close>

section \<open>Shared steps\<close>

record payment_request =
  pr_id :: string
  pr_value :: "int option"
  pr_paymentDate :: "int option"
  pr_description :: "string option"
  pr_decoded :: string

definition requestNames :: "string \<Rightarrow> string \<Rightarrow> payment_request \<Rightarrow> bool \<Rightarrow> string \<Rightarrow> string list" where
  "requestNames user wallet r valueNeeded decodedName =
     needs user ''User'' @ needs wallet ''Wallet'' @ needs (pr_id r) ''Payment ID''
     @ missing (valueNeeded \<and> \<not> truthy (pr_value r)) ''Payment Value''
     @ needs (pr_decoded r) decodedName"

text \<open>A payment that exists already is returned to its wallet.\<close>

definition unlessStored ::
    "string \<Rightarrow> string \<Rightarrow> ('l, payment) pay_step \<Rightarrow> ('l, payment) pay_step" where
  "unlessStored i wallet create =
     bindS (dbR (\<lambda>d. Inr (PaymentRepository_getById i d))) (\<lambda>found.
     case found of
       Some p \<Rightarrow> if py_wallet p \<noteq> wallet then throwS PayForbidden else returnS p
     | None \<Rightarrow> create)"

definition load_payer ::
    "'l pay_env \<Rightarrow> string \<Rightarrow> string \<Rightarrow> ('l, user_info \<times> account_info) pay_step" where
  "load_payer E user wallet =
     bindS (foundS (pe_getUser E user) (PayUserNotFound user)) (\<lambda>u.
     bindS (needData (needs (ui_document u) ''Document'' @ needs (ui_fullName u) ''FullName'')) (\<lambda>_.
     bindS (foundS (pe_getOnboarding E user) (PayOnboardingNotFound user)) (\<lambda>_.
     bindS (ledgerR (os_getWalletAccountByWallet (pe_operations E) wallet (pc_currencyTag (pe_cfg E)))) (\<lambda>x.
     case x of
       None \<Rightarrow> throwS (PayWalletAccountNotFound wallet)
     | Some a \<Rightarrow>
         bindS (throwWhen (\<not> ai_active a) (PayWalletAccountNotActive (ai_id a))) (\<lambda>_.
         bindS (needData (needs (ai_accountNumber a) ''Account Number''
                  @ needs (ai_branchNumber a) ''Branch Number'')) (\<lambda>_.
         returnS (u, a)))))))"

text \<open>Due today, later, or on a day that is not allowed.\<close>

definition schedule ::
    "'l pay_env \<Rightarrow> int option \<Rightarrow> ('l, payment_state \<times> payment_priority) pay_step" where
  "schedule E date =
     (if isTodayPayment (pe_moment E) date then returnS (PAY_PENDING, PRIORITY)
      else if isScheduledPayment (pe_moment E) date then returnS (PAY_SCHEDULED, NOT_PRIORITY)
      else throwS (PaymentInvalidDate date))"

text \<open>A value that is \<open>undefined\<close> is stored as the default of its column, 0.\<close>

definition new_payment ::
    "payment_request \<Rightarrow> int option \<Rightarrow> int option \<Rightarrow> string \<Rightarrow> string \<Rightarrow> string
     \<Rightarrow> user_info \<times> account_info \<Rightarrow> payment_state \<times> payment_priority
     \<Rightarrow> payment_type \<Rightarrow> string \<Rightarrow> beneficiary \<Rightarrow> payment" where
  "new_payment r v date user wallet opId payer plan ptype tag b =
     \<lparr> py_beneficiaryAccountType = py_beneficiaryAccountType b,
       py_beneficiaryPersonType = py_beneficiaryPersonType b,
       py_beneficiaryBranch = py_beneficiaryBranch b,
       py_beneficiaryAccountNumber = py_beneficiaryAccountNumber b,
       py_beneficiaryBankName = py_beneficiaryBankName b,
       py_beneficiaryBankIspb = py_beneficiaryBankIspb b,
       py_beneficiaryDocument = py_beneficiaryDocument b,
       py_beneficiaryName = py_beneficiaryName b,
       py_id = pr_id r, py_operation = Some opId, py_changeOperation = None, py_state = fst plan,
       py_value = toNum v, py_endToEndId = None, py_decodedQrCode = None, py_decodedPixKey = None,
       py_decodedPixAccount = None, py_paymentDate = date, py_description = pr_description r,
       py_txId = None, py_key = None, py_transactionTag = tag, py_paymentType = ptype,
       py_priorityType = snd plan, py_agentMod = None, py_agentIspb = None, py_user = user,
       py_wallet = wallet, py_ownerAccountNumber = ai_accountNumber (snd payer),
       py_ownerBranch = ai_branchNumber (snd payer), py_ownerDocument = ui_document (fst payer),
       py_ownerPersonType = ui_type (fst payer), py_ownerFullName = ui_fullName (fst payer),
       py_chargebackReason = None, py_failed = None, py_externalId = None, py_createdAt = 0,
       py_updatedAt = 0, py_confirmedAt = None, py_canceledAt = None \<rparr>"

definition with_code :: "decoded_qr_code \<Rightarrow> payment \<Rightarrow> payment" where
  "with_code q p = p\<lparr>py_txId := qr_txId q, py_key := qr_key q, py_endToEndId := qr_endToEndId q,
     py_decodedQrCode := Some (qr_id q)\<rparr>"

definition announcePayment :: "'l pay_env \<Rightarrow> int option \<Rightarrow> payment \<Rightarrow> ('l, unit) pay_step" where
  "announcePayment E v p =
     (if py_state p = PAY_PENDING then emitPay E (PaymentEvent PE_PENDING (plain_payment_event p))
      else emitPay E (PaymentEvent PE_SCHEDULED ((named_payment_event p)\<lparr>ev_value := v\<rparr>)))"

definition storePayment :: "'l pay_env \<Rightarrow> int option \<Rightarrow> payment \<Rightarrow> ('l, payment) pay_step" where
  "storePayment E v p =
     bindS (announcePayment E v p) (\<lambda>_. PaymentRepository_create (env_now E) p)"

section \<open>To an account or a key\<close>

definition CreateByAccountPaymentUseCase_execute ::
    "'l pay_env \<Rightarrow> string \<Rightarrow> string \<Rightarrow> string \<Rightarrow> payment_request \<Rightarrow> ('l, payment) pay_step" where
  "CreateByAccountPaymentUseCase_execute E opId user wallet r =
     bindS (needData (requestNames user wallet r True ''Payment Pix Account ID'')) (\<lambda>_.
     unlessStored (pr_id r) wallet (
     bindS (load_payer E user wallet) (\<lambda>payer.
     bindS (schedule E (pr_paymentDate r)) (\<lambda>plan.
     bindS (findS (\<lambda>d. tbl_find da_id (pr_decoded r) (decodedAccounts d))
              (DecodedPixAccountNotFound (pr_decoded r))) (\<lambda>a.
     bindS (throwWhen (da_state a \<noteq> DA_PENDING) (DecodedPixAccountInvalidState (pr_decoded r))) (\<lambda>_.
     let b = \<lparr> py_beneficiaryAccountType = Some (da_accountType a),
               py_beneficiaryPersonType = Some (da_personType a),
               py_beneficiaryBranch = Some (da_branch a),
               py_beneficiaryAccountNumber = Some (da_accountNumber a),
               py_beneficiaryBankName = bk_name (da_bank a),
               py_beneficiaryBankIspb = Some (bk_ispb (da_bank a)),
               py_beneficiaryDocument = Some (da_document a),
               py_beneficiaryName = Some (da_name a) \<rparr>;
         p = (new_payment r (pr_value r) (pr_paymentDate r) user wallet opId payer plan PT_ACCOUNT
                (pc_sendAccountTag (pe_cfg E)) b)\<lparr>py_decodedPixAccount := Some (pr_decoded r)\<rparr>;
         a' = a\<lparr>da_state := DA_CONFIRMED\<rparr>
     in
     bindS (storePayment E (pr_value r) p) (\<lambda>q.
     bindS (dbM (\<lambda>d. d\<lparr>decodedAccounts := tbl_update da_id a' (decodedAccounts d)\<rparr>)) (\<lambda>_.
     bindS (emitPay E (DecodedAccountConfirmed
              \<lparr> ae_id = da_id a', ae_name = da_name a', ae_state = da_state a', ae_user = da_user a' \<rparr>)) (\<lambda>_.
     returnS q)))))))))"

definition CreateByPixKeyPaymentUseCase_execute ::
    "'l pay_env \<Rightarrow> string \<Rightarrow> string \<Rightarrow> string \<Rightarrow> payment_request \<Rightarrow> ('l, payment) pay_step" where
  "CreateByPixKeyPaymentUseCase_execute E opId user wallet r =
     bindS (needData (requestNames user wallet r True ''Payment Pix Key ID'')) (\<lambda>_.
     unlessStored (pr_id r) wallet (
     bindS (load_payer E user wallet) (\<lambda>payer.
     bindS (schedule E (pr_paymentDate r)) (\<lambda>plan.
     bindS (foundS (pe_getDecodedPixKey E (pr_decoded r)) (PayDecodedPixKeyNotFound (pr_decoded r))) (\<lambda>k.
     bindS (throwWhen (dk_state k \<noteq> D_PENDING) (PayDecodedPixKeyInvalidState (pr_decoded r))) (\<lambda>_.
     bindS (foundS (pe_getBank E (dk_ispb k)) PayBankNotFound) (\<lambda>bank.
     let b = \<lparr> py_beneficiaryAccountType = dk_accountType k,
               py_beneficiaryPersonType = dk_personType k,
               py_beneficiaryBranch = dk_branch k,
               py_beneficiaryAccountNumber = dk_accountNumber k,
               py_beneficiaryBankName = bk_name bank,
               py_beneficiaryBankIspb = Some (dk_ispb k),
               py_beneficiaryDocument = dk_document k,
               py_beneficiaryName = dk_name k \<rparr>;
         p = (new_payment r (pr_value r) (pr_paymentDate r) user wallet opId payer plan PT_KEY
                (pc_sendKeyTag (pe_cfg E)) b)\<lparr>py_decodedPixKey := Some (pr_decoded r),
                py_endToEndId := dk_endToEndId k, py_key := Some (dk_key k)\<rparr>
     in
     bindS (storePayment E (pr_value r) p) (\<lambda>q.
     bindS (callS E (UpdateDecodedPixKeyState (pr_decoded r))) (\<lambda>_.
     returnS q)))))))))"

section \<open>By QR code\<close>

text \<open>
  The code must be ready, of the expected type and, where the use case looks, not expired.
\<close>

definition load_code ::
    "'l pay_env \<Rightarrow> string \<Rightarrow> decoded_qr_code_type \<Rightarrow> bool \<Rightarrow> ('l, decoded_qr_code) pay_step" where
  "load_code E i t expires =
     bindS (findS (\<lambda>d. tbl_find qr_id i (decodedQrCodes d)) (DecodedQrCodeNotFound i)) (\<lambda>q.
     bindS (throwWhen (qr_state q \<noteq> QR_READY) (DecodedQrCodeInvalidState i)) (\<lambda>_.
     bindS (throwWhen (qr_type q \<noteq> t) (DecodedQrCodeInvalidType (qr_type q))) (\<lambda>_.
     bindS (throwWhen (expires \<and> isExpiredQrCode (pe_moment E) q) (DecodedQrCodeExpired (qr_id q))) (\<lambda>_.
     returnS q))))"

text \<open>
  \<open>value <= 0\<close> is false for a value that is missing in the request (\<open>undefined\<close>) and true for a
  column of the code that is \<open>null\<close>.
\<close>

definition requestedValue :: "int option \<Rightarrow> ('l, int option) pay_step" where
  "requestedValue v = bindS (throwWhen (case v of None \<Rightarrow> False | Some x \<Rightarrow> x \<le> 0)
     (PaymentValueIsNotPositive v)) (\<lambda>_. returnS v)"

definition codeValue :: "int option \<Rightarrow> ('l, int option) pay_step" where
  "codeValue v = bindS (throwWhen (toNum v \<le> 0) (PaymentValueIsNotPositive v)) (\<lambda>_. returnS v)"

definition CreateByQrCodeStaticPaymentUseCase_execute ::
    "'l pay_env \<Rightarrow> string \<Rightarrow> string \<Rightarrow> string \<Rightarrow> payment_request \<Rightarrow> ('l, payment) pay_step" where
  "CreateByQrCodeStaticPaymentUseCase_execute E opId user wallet r =
     bindS (needData (requestNames user wallet r False ''Payment Qr Code ID'')) (\<lambda>_.
     unlessStored (pr_id r) wallet (
     bindS (load_payer E user wallet) (\<lambda>payer.
     bindS (schedule E (pr_paymentDate r)) (\<lambda>plan.
     bindS (load_code E (pr_decoded r) QR_CODE_STATIC_INSTANT_PAYMENT False) (\<lambda>q.
     bindS (requestedValue (if 0 < toNum (qr_paymentValue q) then qr_paymentValue q else pr_value r)) (\<lambda>v.
     storePayment E v (with_code q
       (new_payment r v (Some (dateOr (pe_moment E) (pr_paymentDate r))) user wallet opId payer plan
          PT_QR_CODE_STATIC_INSTANT (pc_sendQrsTag (pe_cfg E)) (qr_recipient q)))))))))"

definition CreateByQrCodeDynamicPaymentUseCase_execute ::
    "'l pay_env \<Rightarrow> string \<Rightarrow> string \<Rightarrow> string \<Rightarrow> payment_request \<Rightarrow> ('l, payment) pay_step" where
  "CreateByQrCodeDynamicPaymentUseCase_execute E opId user wallet r =
     bindS (needData (requestNames user wallet r False ''Payment Qr Code ID'')) (\<lambda>_.
     unlessStored (pr_id r) wallet (
     bindS (load_payer E user wallet) (\<lambda>payer.
     bindS (schedule E (pr_paymentDate r)) (\<lambda>plan.
     bindS (load_code E (pr_decoded r) QR_CODE_DYNAMIC_INSTANT_PAYMENT True) (\<lambda>q.
     bindS (if \<not> qr_allowUpdate q then codeValue (qr_documentValue q)
            else requestedValue (pr_value r)) (\<lambda>v.
     storePayment E v (with_code q
       (new_payment r v (Some (dateOr (pe_moment E) (pr_paymentDate r))) user wallet opId payer plan
          PT_QR_CODE_DYNAMIC_INSTANT (pc_sendQrdTag (pe_cfg E)) (qr_recipient q)))))))))"

definition DuedateByQrCodeDynamicPaymentUseCase_execute ::
    "'l pay_env \<Rightarrow> string \<Rightarrow> string \<Rightarrow> string \<Rightarrow> payment_request \<Rightarrow> ('l, payment) pay_step" where
  "DuedateByQrCodeDynamicPaymentUseCase_execute E opId user wallet r =
     bindS (needData (requestNames user wallet r False ''Payment Qr Code ID'')) (\<lambda>_.
     unlessStored (pr_id r) wallet (
     bindS (load_payer E user wallet) (\<lambda>payer.
     bindS (load_code E (pr_decoded r) QR_CODE_DYNAMIC_DUE_DATE True) (\<lambda>q.
     let date = Some (dateOr (pe_moment E) (qr_paymentDate q)) in
     bindS (codeValue (qr_paymentValue q)) (\<lambda>v.
     bindS (schedule E date) (\<lambda>plan.
     storePayment E v (with_code q
       (new_payment r v date user wallet opId payer plan
          PT_QR_CODE_DYNAMIC_DUE_DATE (pc_duedateQrdTag (pe_cfg E)) (qr_recipient q)))))))))"

text \<open>Withdrawals and change are paid at once.\<close>

definition WithdrawalByQrCodeStaticPaymentUseCase_execute ::
    "'l pay_env \<Rightarrow> string \<Rightarrow> string \<Rightarrow> string \<Rightarrow> payment_request \<Rightarrow> ('l, payment) pay_step" where
  "WithdrawalByQrCodeStaticPaymentUseCase_execute E opId user wallet r =
     bindS (needData (requestNames user wallet r False ''Payment Qr Code ID'')) (\<lambda>_.
     unlessStored (pr_id r) wallet (
     bindS (load_payer E user wallet) (\<lambda>payer.
     bindS (load_code E (pr_decoded r) QR_CODE_STATIC_WITHDRAWAL False) (\<lambda>q.
     bindS (requestedValue (if 0 < toNum (qr_paymentValue q) then qr_paymentValue q else pr_value r)) (\<lambda>v.
     bindS (case qr_pss q of
              None \<Rightarrow> throwS (PayMissingData [''PSS Agent ISPB''])
            | Some pss \<Rightarrow>
                if pss = [] then throwS (PayMissingData [''PSS Agent ISPB''])
                else bindS (foundS (pe_getBank E pss) PayBankNotFound) (\<lambda>_. returnS ())) (\<lambda>_.
     storePayment E v ((with_code q
       (new_payment r v (Some (env_now E)) user wallet opId payer (PAY_PENDING, PRIORITY)
          PT_QR_CODE_STATIC_WITHDRAWAL (pc_withdrawalQrsTag (pe_cfg E)) (qr_recipient q)))
       \<lparr>py_agentMod := Some (pc_agentModWithdrawal (pe_cfg E)), py_agentIspb := qr_pss q\<rparr>)))))))"

definition WithdrawalByQrCodeDynamicPaymentUseCase_execute ::
    "'l pay_env \<Rightarrow> string \<Rightarrow> string \<Rightarrow> string \<Rightarrow> payment_request \<Rightarrow> ('l, payment) pay_step" where
  "WithdrawalByQrCodeDynamicPaymentUseCase_execute E opId user wallet r =
     bindS (needData (requestNames user wallet r False ''Payment Qr Code ID'')) (\<lambda>_.
     unlessStored (pr_id r) wallet (
     bindS (load_payer E user wallet) (\<lambda>payer.
     bindS (load_code E (pr_decoded r) QR_CODE_DYNAMIC_WITHDRAWAL True) (\<lambda>q.
     bindS (if \<not> qr_allowUpdate q then codeValue (qr_withdrawValue q)
            else requestedValue (pr_value r)) (\<lambda>v.
     storePayment E v ((with_code q
       (new_payment r v (Some (env_now E)) user wallet opId payer (PAY_PENDING, PRIORITY)
          PT_QR_CODE_DYNAMIC_WITHDRAWAL (pc_withdrawalQrdTag (pe_cfg E)) (qr_recipient q)))
       \<lparr>py_agentIspb := qr_agentIspbWithdrawal q, py_agentMod := qr_agentModWithdrawal q\<rparr>))))))"

text \<open>
  Change: the value asked for in cash comes on top of the value of the purchase. \<open>undefined\<close> plus a
  number is \<open>NaN\<close>, which the database refuses.
\<close>

definition ChangeByQrCodeDynamicPaymentUseCase_execute ::
    "'l pay_env \<Rightarrow> string \<Rightarrow> string \<Rightarrow> string \<Rightarrow> string \<Rightarrow> payment_request \<Rightarrow> ('l, payment) pay_step" where
  "ChangeByQrCodeDynamicPaymentUseCase_execute E opId changeOpId user wallet r =
     bindS (needData (requestNames user wallet r False ''Payment Qr Code ID'')) (\<lambda>_.
     unlessStored (pr_id r) wallet (
     bindS (load_payer E user wallet) (\<lambda>payer.
     bindS (load_code E (pr_decoded r) QR_CODE_DYNAMIC_CHANGE True) (\<lambda>q.
     bindS (if \<not> qr_allowUpdate q then codeValue (qr_changeValue q)
            else requestedValue (pr_value r)) (\<lambda>v.
     case v of
       None \<Rightarrow> throwS (PayDatabaseError ''NaN'')
     | Some cash \<Rightarrow>
         let total = Some (cash + toNum (qr_documentValue q)) in
         storePayment E total ((with_code q
           (new_payment r total (Some (env_now E)) user wallet opId payer (PAY_PENDING, PRIORITY)
              PT_QR_CODE_DYNAMIC_CHANGE (pc_changeQrdTag (pe_cfg E)) (qr_recipient q)))
           \<lparr>py_changeOperation := Some changeOpId, py_agentMod := qr_agentModChange q,
             py_agentIspb := qr_agentIspbChange q\<rparr>))))))"

end
