(* ===== verification/Pix_Payment_Processing.thy ===== *)
theory Pix_Payment_Processing
  imports Pix_Payment_Creation
begin

text \<open>
  What becomes of a pix payment (apps/pix-payments/src/application/usecases): a pending one is
  blocked in the ledger and handed to the PSP, or settled at once when its beneficiary has an
  account here; later it is completed, reverted, charged back or, while scheduled, canceled. Crons
  release scheduled payments and ask the PSP for the state of waiting ones.
\<close>

section \<open>The ledger operations of a payment\<close>

definition payment_operation :: "'l pay_env \<Rightarrow> payment \<Rightarrow> string \<Rightarrow> operation_request" where
  "payment_operation E p i = \<lparr> or_id = i, or_rawValue = py_value p,
     or_currencyTag = pc_currencyTag (pe_cfg E), or_description = pc_description (pe_cfg E) \<rparr>"

definition createOperationPSP :: "'l pay_env \<Rightarrow> payment \<Rightarrow> ('l, unit) pay_step" where
  "createOperationPSP E p = bindS (givenId (py_operation p)) (\<lambda>i.
     ledgerS (os_createOperation (pe_operations E) (py_transactionTag p) (payment_operation E p i)
       (Some (py_wallet p)) None))"

definition createChangeOperationPSP :: "'l pay_env \<Rightarrow> payment \<Rightarrow> ('l, unit) pay_step" where
  "createChangeOperationPSP E p = bindS (givenId (py_changeOperation p)) (\<lambda>i.
     ledgerS (os_createOperation (pe_operations E) (pc_changeTag (pe_cfg E)) (payment_operation E p i)
       (Some (py_wallet p)) None))"

definition createAndAcceptOperationP2P :: "'l pay_env \<Rightarrow> payment \<Rightarrow> string \<Rightarrow> ('l, unit) pay_step" where
  "createAndAcceptOperationP2P E p beneficiary = bindS (givenId (py_operation p)) (\<lambda>i.
     ledgerS (os_createAndAcceptOperation (pe_operations E) (py_transactionTag p)
       (payment_operation E p i) (Some (py_wallet p)) (Some beneficiary)))"

definition createAndAcceptChangeOperationP2P ::
    "'l pay_env \<Rightarrow> payment \<Rightarrow> string \<Rightarrow> ('l, unit) pay_step" where
  "createAndAcceptChangeOperationP2P E p beneficiary = bindS (givenId (py_changeOperation p)) (\<lambda>i.
     ledgerS (os_createAndAcceptOperation (pe_operations E) (pc_changeTag (pe_cfg E))
       (payment_operation E p i) (Some (py_wallet p)) (Some beneficiary)))"

definition setPaymentReference :: "'l pay_env \<Rightarrow> payment \<Rightarrow> ('l, unit) pay_step" where
  "setPaymentReference E p = bindS (givenId (py_operation p)) (\<lambda>i.
     bindS (givenId (py_changeOperation p)) (\<lambda>j.
     ledgerS (os_setOperationReference (pe_operations E) i j)))"

section \<open>A pending payment\<close>

definition sendPaymentPSP :: "'l pay_env \<Rightarrow> payment \<Rightarrow> ('l, payment) pay_step" where
  "sendPaymentPSP E p =
     bindS (createOperationPSP E p) (\<lambda>_.
     bindS (whenS (py_changeOperation p \<noteq> None)
              (bindS (createChangeOperationPSP E p) (\<lambda>_. setPaymentReference E p))) (\<lambda>_.
     bindS (callS E (CreatePayment p (pc_zroBankIspb (pe_cfg E)))) (\<lambda>a.
     let q = p\<lparr>py_endToEndId := an_endToEndId a, py_state := PAY_WAITING,
               py_externalId := an_externalId a\<rparr> in
     bindS (dbM (PaymentRepository_update (env_now E) q)) (\<lambda>_.
     bindS (emitPay E (PaymentEvent PE_WAITING (plain_payment_event q))) (\<lambda>_.
     returnS q)))))"

text \<open>The deposit of a payment between accounts of the platform; \<open>depId\<close> is drawn for it.\<close>

definition document_type :: "'l pay_env \<Rightarrow> string \<Rightarrow> person_document" where
  "document_type E s = (if v_isCpf (pe_validators E) s then DOC_CPF else DOC_CNPJ)"

definition p2p_deposit ::
    "'l pay_env \<Rightarrow> string \<Rightarrow> payment \<Rightarrow> string \<Rightarrow> account_info \<Rightarrow> bank \<Rightarrow> pix_deposit" where
  "p2p_deposit E depId p opId a b =
     \<lparr> dp_id = depId, dp_user = ai_user a, dp_wallet = ai_wallet a, dp_operation = opId,
       dp_state = DEP_RECEIVED, dp_txId = py_txId p, dp_endToEndId = None, dp_amount = py_value p,
       dp_returnedAmount = 0, dp_clientBank = b, dp_clientBranch = py_beneficiaryBranch p,
       dp_clientAccountNumber = py_beneficiaryAccountNumber p,
       dp_clientPersonType =
         (if py_beneficiaryPersonType p = Some LEGAL_PERSON then DOC_CNPJ else DOC_CPF),
       dp_clientDocument = py_beneficiaryDocument p, dp_clientName = py_beneficiaryName p,
       dp_clientKey = py_key p, dp_thirdPartBank = b, dp_thirdPartBranch = Some (py_ownerBranch p),
       dp_thirdPartAccountType = Some ''CACC'',
       dp_thirdPartAccountNumber = Some (py_ownerAccountNumber p),
       dp_thirdPartPersonType = document_type E (py_ownerDocument p),
       dp_thirdPartDocument = Some (py_ownerDocument p),
       dp_thirdPartName = Some (py_ownerFullName p), dp_thirdPartKey = None,
       dp_description = py_description p, dp_transactionTag = pc_newPixReceivedTag (pe_cfg E),
       dp_check = None, dp_createdAt = 0, dp_updatedAt = 0 \<rparr>"

definition sendPaymentP2P ::
    "'l pay_env \<Rightarrow> string \<Rightarrow> string \<Rightarrow> payment \<Rightarrow> account_info \<Rightarrow> ('l, payment) pay_step" where
  "sendPaymentP2P E depId refundId p a =
     bindS (createAndAcceptOperationP2P E p (ai_wallet a)) (\<lambda>_.
     bindS (whenS (py_changeOperation p \<noteq> None)
              (bindS (createAndAcceptChangeOperationP2P E p (ai_wallet a))
                 (\<lambda>_. setPaymentReference E p))) (\<lambda>_.
     bindS (givenId (py_beneficiaryBankIspb p)) (\<lambda>ispb.
     bindS (foundS (pe_getBank E ispb) PayBankNotFound) (\<lambda>b.
     bindS (givenId (py_operation p)) (\<lambda>i.
     bindS (PixDepositRepository_create (env_now E) (p2p_deposit E depId p i a b)) (\<lambda>d.
     bindS (emitPay E (DepositEvent DE_RECEIVED (received_deposit_event refundId d))) (\<lambda>_.
     let q = p\<lparr>py_state := PAY_CONFIRMED\<rparr> in
     bindS (dbM (PaymentRepository_update (env_now E) q)) (\<lambda>_.
     bindS (emitPay E (PaymentEvent PE_CONFIRMED (confirmed_payment_event q))) (\<lambda>_.
     returnS q)))))))))"

definition loadPayment :: "string \<Rightarrow> string \<Rightarrow> ('l, payment) pay_step" where
  "loadPayment name i = bindS (needData (needs i name)) (\<lambda>_.
     findS (PaymentRepository_getById i) (PaymentNotFound i))"

definition HandlePendingPaymentEventUseCase_execute ::
    "'l pay_env \<Rightarrow> string \<Rightarrow> string \<Rightarrow> string \<Rightarrow> ('l, payment) pay_step" where
  "HandlePendingPaymentEventUseCase_execute E depId refundId i =
     bindS (loadPayment ''ID'' i) (\<lambda>p.
     if isAlreadyPaid p then returnS p
     else if py_state p \<noteq> PAY_PENDING then throwS (PaymentInvalidState (py_state p))
     else if py_beneficiaryBankIspb p \<noteq> Some (pc_zroBankIspb (pe_cfg E)) then sendPaymentPSP E p
     else
       bindS (givenId (py_beneficiaryAccountNumber p)) (\<lambda>number.
       bindS (ledgerR (os_getWalletAccountByAccountNumber (pe_operations E) number
                (pc_currencyTag (pe_cfg E)))) (\<lambda>x.
       case x of
         None \<Rightarrow> throwS (PixPaymentZroAccountNotExists (py_id p))
       | Some a \<Rightarrow>
           bindS (throwWhen (\<not> ai_active a) (PayWalletAccountNotActive (ai_id a))) (\<lambda>_.
           bindS (throwWhen (py_wallet p = ai_wallet a)
                    (PaymentBetweenSameWallet (py_wallet p))) (\<lambda>_.
           sendPaymentP2P E depId refundId p a)))))"

section \<open>Completing, reverting, canceling\<close>

definition acceptGiven :: "'l pay_env \<Rightarrow> string option \<Rightarrow> ('l, unit) pay_step" where
  "acceptGiven E x = bindS (givenId x) (\<lambda>i. ledgerS (os_acceptOperation (pe_operations E) i))"

definition HandleCompletePaymentEventUseCase_execute ::
    "'l pay_env \<Rightarrow> string \<Rightarrow> string option \<Rightarrow> ('l, payment) pay_step" where
  "HandleCompletePaymentEventUseCase_execute E i e2e =
     bindS (loadPayment ''Transaction ID'' i) (\<lambda>p.
     if isAlreadyCompletedPayment p then returnS p
     else if py_state p \<noteq> PAY_WAITING then throwS (PaymentInvalidState (py_state p))
     else
       bindS (acceptGiven E (py_operation p)) (\<lambda>_.
       bindS (whenS (py_changeOperation p \<noteq> None) (acceptGiven E (py_changeOperation p))) (\<lambda>_.
       let q = p\<lparr>py_state := PAY_CONFIRMED, py_endToEndId := e2e,
                 py_confirmedAt := Some (env_now E)\<rparr> in
       bindS (dbM (PaymentRepository_update (env_now E) q)) (\<lambda>_.
       bindS (emitPay E (PaymentEvent PE_CONFIRMED (confirmed_payment_event q))) (\<lambda>_.
       returnS q)))))"

text \<open>
  An operation that the ledger knows is reverted; one that it does not know is taken off the
  payment. \<open>True\<close> tells that it was reverted.
\<close>

definition revertIfKnown :: "'l pay_env \<Rightarrow> string option \<Rightarrow> ('l, bool) pay_step" where
  "revertIfKnown E x = bindS (givenId x) (\<lambda>i.
     bindS (ledgerR (os_getOperationById (pe_operations E) i)) (\<lambda>found.
     if found = None then returnS False
     else bindS (ledgerS (os_revertOperation (pe_operations E) i)) (\<lambda>_. returnS True)))"

definition revertOperation :: "'l pay_env \<Rightarrow> payment \<Rightarrow> ('l, payment) pay_step" where
  "revertOperation E p = bindS (revertIfKnown E (py_operation p)) (\<lambda>known.
     returnS (if known then p else p\<lparr>py_operation := None\<rparr>))"

definition revertChangeOperation :: "'l pay_env \<Rightarrow> payment \<Rightarrow> ('l, payment) pay_step" where
  "revertChangeOperation E p = bindS (revertIfKnown E (py_changeOperation p)) (\<lambda>known.
     returnS (if known then p else p\<lparr>py_changeOperation := None\<rparr>))"

definition failPayment ::
    "'l pay_env \<Rightarrow> string option \<Rightarrow> failed option \<Rightarrow> payment \<Rightarrow> ('l, payment) pay_step" where
  "failPayment E reason failure p =
     bindS (revertOperation E p) (\<lambda>p1.
     bindS (if py_changeOperation p1 \<noteq> None then revertChangeOperation E p1 else returnS p1) (\<lambda>p2.
     let q = p2\<lparr>py_state := PAY_FAILED, py_chargebackReason := reason, py_failed := failure\<rparr> in
     bindS (dbM (PaymentRepository_update (env_now E) q)) (\<lambda>_.
     bindS (emitPay E (PaymentEvent PE_FAILED (named_payment_event q))) (\<lambda>_.
     returnS q))))"

definition HandleRevertPaymentEventUseCase_execute ::
    "'l pay_env \<Rightarrow> string \<Rightarrow> string option \<Rightarrow> failed option \<Rightarrow> ('l, payment) pay_step" where
  "HandleRevertPaymentEventUseCase_execute E i reason failure =
     bindS (loadPayment ''ID'' i) (\<lambda>p.
     if py_state p = PAY_FAILED then returnS p
     else if \<not> List.member [PAY_PENDING, PAY_WAITING, PAY_CONFIRMED] (py_state p)
     then throwS (PaymentInvalidState (py_state p))
     else failPayment E reason failure p)"

definition ReceivePaymentChargebackUseCase_execute ::
    "'l pay_env \<Rightarrow> string \<Rightarrow> string option \<Rightarrow> failed option \<Rightarrow> ('l, payment) pay_step" where
  "ReceivePaymentChargebackUseCase_execute E i reason failure =
     bindS (loadPayment ''ID'' i) (\<lambda>p.
     if py_state p = PAY_FAILED then returnS p
     else if PAY_WAITING \<noteq> py_state p then throwS (PaymentInvalidState (py_state p))
     else failPayment E reason failure p)"

definition CancelPaymentByOperationIdUseCase_execute ::
    "'l pay_env \<Rightarrow> string \<Rightarrow> string \<Rightarrow> ('l, payment) pay_step" where
  "CancelPaymentByOperationIdUseCase_execute E wallet i =
     bindS (needData (needs wallet ''Wallet'' @ needs i ''Operation ID'')) (\<lambda>_.
     bindS (findS (PaymentRepository_getByOperationAndWallet i wallet) (PaymentNotFound i)) (\<lambda>p.
     if py_state p = PAY_CANCELED then returnS p
     else if \<not> isStateValidForCanceling p then throwS (PaymentInvalidState (py_state p))
     else
       let q = p\<lparr>py_state := PAY_CANCELED, py_canceledAt := Some (env_now E)\<rparr> in
       bindS (dbM (PaymentRepository_update (env_now E) q)) (\<lambda>_.
       bindS (emitPay E (PaymentEvent PE_CANCELED (named_payment_event q))) (\<lambda>_.
       returnS q))))"

section \<open>The crons\<close>

definition releasePayment :: "'l pay_env \<Rightarrow> payment \<Rightarrow> ('l, unit) pay_step" where
  "releasePayment E p =
     (let q = p\<lparr>py_state := PAY_PENDING\<rparr> in
      bindS (dbM (PaymentRepository_update (env_now E) q)) (\<lambda>_.
      emitPay E (PaymentEvent PE_PENDING (plain_payment_event q))))"

definition SyncScheduledPaymentUseCase_execute :: "'l pay_env \<Rightarrow> ('l, unit) pay_step" where
  "SyncScheduledPaymentUseCase_execute E =
     bindS (dbR (\<lambda>d. Inr (PaymentRepository_getAllByStateAndPaymentDate (pe_moment E) PAY_SCHEDULED
              (env_now E) d))) (foldS (releasePayment E))"

text \<open>An exception of the PSP counts as no answer.\<close>

definition askStatus :: "'l pay_env \<Rightarrow> status_query \<Rightarrow> status_answer option" where
  "askStatus E q = (case pe_status E q of Inl e \<Rightarrow> None | Inr x \<Rightarrow> x)"

definition syncPayment :: "'l pay_env \<Rightarrow> (payment \<Rightarrow> status_query) \<Rightarrow> payment \<Rightarrow> ('l, unit) pay_step" where
  "syncPayment E query p =
     (case askStatus E (query p) of
        None \<Rightarrow> returnS ()
      | Some a \<Rightarrow>
          (case sa_status a of
             ST_SETTLED \<Rightarrow> emitPay E (PaymentEvent PE_COMPLETED
               (completed_payment_event (p\<lparr>py_endToEndId := sa_endToEndId a\<rparr>)))
           | ST_CHARGEBACK \<Rightarrow> emitPay E (PaymentEvent PE_REVERTED
               (reverted_payment_event (p\<lparr>py_failed := pe_translate E (sa_errorCode a),
                  py_chargebackReason := sa_reason a\<rparr>)))
           | _ \<Rightarrow> returnS ()))"

definition thresholdDate :: "'l pay_env \<Rightarrow> int" where
  "thresholdDate E = env_now E - 1000 * pc_thresholdInSeconds (pe_cfg E)"

definition SyncWaitingPaymentUseCase_execute :: "'l pay_env \<Rightarrow> ('l, unit) pay_step" where
  "SyncWaitingPaymentUseCase_execute E =
     bindS (dbR (\<lambda>d. Inr (PaymentRepository_getAllByStateThresholdDateAndPriorityType PAY_WAITING
              (thresholdDate E) BEFORE_THAN None d)))
       (foldS (syncPayment E (\<lambda>p. GetPayment (py_id p) (py_endToEndId p))))"

definition SyncWaitingRecentPaymentUseCase_execute :: "'l pay_env \<Rightarrow> ('l, unit) pay_step" where
  "SyncWaitingRecentPaymentUseCase_execute E =
     bindS (dbR (\<lambda>d. Inr (PaymentRepository_getAllByStateThresholdDateAndPriorityType PAY_WAITING
              (thresholdDate E) AFTER_OR_EQUAL_THAN (Some PRIORITY) d)))
       (foldS (syncPayment E (\<lambda>p. GetPaymentById (py_id p) (py_externalId p))))"

end
