(* ===== verification/Pix_Deposits.thy ===== *)
theory Pix_Deposits
  imports Pix_Payment_Processing
begin

text \<open>
  Deposits that arrive from the PSP (apps/pix-payments/src/application/usecases): a deposit waits in
  Redis while seven checks look for fraud (warning_pix_deposit/), then it is credited, or held for a
  decision: approved by the compliance team, blocked by it, or given back by its owner. A deposit
  that cannot be credited at all is stored with an error and returned.
\<close>

section \<open>Receiving\<close>

text \<open>A missing string is empty, a missing amount 0.\<close>

record deposit_request =
  rq_id :: string
  rq_amount :: int
  rq_txId :: "string option"
  rq_endToEndId :: "string option"
  rq_clientBank :: "bank option"
  rq_clientBranch :: string
  rq_clientAccountNumber :: string
  rq_clientDocument :: string
  rq_clientName :: "string option"
  rq_clientKey :: "string option"
  rq_thirdPartBank :: "bank option"
  rq_thirdPartBranch :: "string option"
  rq_thirdPartAccountType :: "string option"
  rq_thirdPartAccountNumber :: string
  rq_thirdPartDocument :: "string option"
  rq_thirdPartName :: "string option"
  rq_thirdPartKey :: "string option"
  rq_description :: "string option"

definition depositNames :: "deposit_request \<Rightarrow> string list" where
  "depositNames r =
     needs (rq_id r) ''ID'' @ missing (rq_clientBank r = None) ''Client bank''
     @ needs (rq_clientBranch r) ''Client branch''
     @ needs (rq_clientAccountNumber r) ''Client account number''
     @ needs (rq_clientDocument r) ''Client document''
     @ missing (rq_thirdPartBank r = None) ''Third part bank''
     @ needs (rq_thirdPartAccountNumber r) ''Third part account number''
     @ missing (rq_amount r = 0) ''Amount''"

definition optional_document_type :: "'l pay_env \<Rightarrow> string option \<Rightarrow> person_document" where
  "optional_document_type E x = (case x of None \<Rightarrow> DOC_CNPJ | Some s \<Rightarrow> document_type E s)"

definition new_deposit ::
    "'l pay_env \<Rightarrow> deposit_request \<Rightarrow> deposit_state \<Rightarrow> string \<Rightarrow> string \<Rightarrow> string \<Rightarrow> bank \<Rightarrow> bank
     \<Rightarrow> pix_deposit" where
  "new_deposit E r s opId user wallet clientBank thirdPartBank =
     \<lparr> dp_id = rq_id r, dp_user = user, dp_wallet = wallet, dp_operation = opId, dp_state = s,
       dp_txId = rq_txId r, dp_endToEndId = rq_endToEndId r, dp_amount = rq_amount r,
       dp_returnedAmount = 0, dp_clientBank = clientBank, dp_clientBranch = Some (rq_clientBranch r),
       dp_clientAccountNumber = Some (rq_clientAccountNumber r),
       dp_clientPersonType = document_type E (rq_clientDocument r),
       dp_clientDocument = Some (rq_clientDocument r), dp_clientName = rq_clientName r,
       dp_clientKey = rq_clientKey r, dp_thirdPartBank = thirdPartBank,
       dp_thirdPartBranch = rq_thirdPartBranch r,
       dp_thirdPartAccountType = rq_thirdPartAccountType r,
       dp_thirdPartAccountNumber = Some (rq_thirdPartAccountNumber r),
       dp_thirdPartPersonType = optional_document_type E (rq_thirdPartDocument r),
       dp_thirdPartDocument = rq_thirdPartDocument r, dp_thirdPartName = rq_thirdPartName r,
       dp_thirdPartKey = rq_thirdPartKey r, dp_description = rq_description r,
       dp_transactionTag = pc_receivedPixDepositTag (pe_cfg E), dp_check = None,
       dp_createdAt = 0, dp_updatedAt = 0 \<rparr>"

definition ownBank :: "'l pay_env \<Rightarrow> (string \<Rightarrow> pay_exn) \<Rightarrow> bank option \<Rightarrow> ('l, bank) pay_step" where
  "ownBank E refusal x = (case x of
     None \<Rightarrow> throwS PayTypeError
   | Some b \<Rightarrow> if bk_ispb b \<noteq> pc_zroBankIspb (pe_cfg E) then throwS (refusal (bk_ispb b)) else returnS b)"

definition theBank :: "bank option \<Rightarrow> ('l, bank) pay_step" where
  "theBank x = (case x of None \<Rightarrow> throwS PayTypeError | Some b \<Rightarrow> returnS b)"

definition loadBank :: "'l pay_env \<Rightarrow> bank \<Rightarrow> ('l, bank) pay_step" where
  "loadBank E b = foundS (pe_getBank E (bk_ispb b)) PayBankNotFound"

text \<open>The skip list, with a copy in Redis.\<close>

definition ReceivePixDeposit_isInSkipList :: "pix_deposit \<Rightarrow> ('l, bool) pay_step" where
  "ReceivePixDeposit_isInSkipList x = (case dp_clientAccountNumber x of
     None \<Rightarrow> returnS False
   | Some number \<Rightarrow>
       bindS (redisR (\<lambda>r. Inr (List.member (skipCache r) number))) (\<lambda>cached.
       if cached then returnS True
       else
         bindS (dbR (\<lambda>d. Inr (List.member (skipList d) number))) (\<lambda>listed.
         if \<not> listed then returnS False
         else bindS (redisM (\<lambda>r. r\<lparr>skipCache := number # skipCache r\<rparr>)) (\<lambda>_. returnS True))))"

definition ReceivePixDepositUseCase_execute ::
    "'l pay_env \<Rightarrow> string \<Rightarrow> deposit_request \<Rightarrow> ('l, pix_deposit) pay_step" where
  "ReceivePixDepositUseCase_execute E opId r =
     bindS (needData (depositNames r)) (\<lambda>_.
     bindS (redisR (\<lambda>s. Inr (PixDepositCacheRepository_getById (rq_id r) s))) (\<lambda>found.
     case found of
       Some x \<Rightarrow> returnS x
     | None \<Rightarrow>
         bindS (ownBank E PixDepositReceivedBankNotAllowed (rq_clientBank r)) (\<lambda>own.
         bindS (loadBank E own) (\<lambda>clientBank.
         bindS (theBank (rq_thirdPartBank r)) (\<lambda>other.
         bindS (loadBank E other) (\<lambda>thirdPartBank.
         bindS (ledgerR (os_getWalletAccountByAccountNumber (pe_operations E)
                  (rq_clientAccountNumber r) (pc_currencyTag (pe_cfg E)))) (\<lambda>account.
         case account of
           None \<Rightarrow> throwS (PixDepositReceivedAccountNotFound (rq_clientAccountNumber r))
         | Some a \<Rightarrow>
             bindS (throwWhen (\<not> ai_active a) (PayWalletAccountNotActive (ai_id a))) (\<lambda>_.
             bindS (PixDepositCacheRepository_create (env_now E)
                      (new_deposit E r DEP_NEW opId (ai_user a) (ai_wallet a) clientBank thirdPartBank)) (\<lambda>x.
             bindS (ReceivePixDeposit_isInSkipList x) (\<lambda>skip.
             bindS (emitPay E (DepositEvent (if skip then DE_WAITING else DE_NEW)
                      (plain_deposit_event x))) (\<lambda>_.
             returnS x)))))))))))"

text \<open>
  A deposit that was refused is stored for an unknown wallet. \<open>ids\<close> are the identifiers drawn for
  the user (unless known), the operation, the wallet and the devolution.
\<close>

definition HandleReceiveFailedPixDepositEventUseCase_execute ::
    "'l pay_env \<Rightarrow> string \<times> string \<times> string \<times> string \<Rightarrow> deposit_request \<Rightarrow> ('l, unit) pay_step" where
  "HandleReceiveFailedPixDepositEventUseCase_execute E ids r =
     (let (userId, opId, walletId, devolutionId) = ids in
      bindS (needData (depositNames r @ missing (\<not> holds (\<lambda>s. s \<noteq> []) (rq_description r)) ''Description'')) (\<lambda>_.
      bindS (dbR (\<lambda>d. Inr (PixDepositRepository_getById (rq_id r) d))) (\<lambda>found.
      if found \<noteq> None then returnS ()
      else
        bindS (ownBank E PixDepositReceivedBankNotAllowed (rq_clientBank r)) (\<lambda>own.
        bindS (askS (pe_getBank E (bk_ispb own))) (\<lambda>clientBank.
        bindS (theBank (rq_thirdPartBank r)) (\<lambda>other.
        bindS (askS (pe_getBank E (bk_ispb other))) (\<lambda>thirdPartBank.
        bindS (askS (pe_getUserByDocument E (rq_clientDocument r))) (\<lambda>user.
        bindS (PixDepositRepository_create (env_now E)
                 (new_deposit E r DEP_ERROR opId (case user of None \<Rightarrow> userId | Some u \<Rightarrow> u) walletId
                    (case clientBank of None \<Rightarrow> own | Some b \<Rightarrow> b)
                    (case thirdPartBank of None \<Rightarrow> other | Some b \<Rightarrow> b))) (\<lambda>x.
        bindS (emitPay E (DepositEvent DE_RECEIVED_FAILED (plain_deposit_event x))) (\<lambda>_.
        emitPay E (DevolutionEvent VE_CREATE_FAILED
          \<lparr> ve_id = devolutionId, ve_user = dp_user x, ve_wallet = dp_wallet x,
            ve_state = DEV_PENDING, ve_endToEndId = None, ve_chargebackReason = None,
            ve_failed = None, ve_deposit = Some (dp_id x), ve_fields = no_fields \<rparr>)))))))))))"

section \<open>The checks\<close>

datatype warning_check = IsCef | IsDuplicated | IsOverWarningIncome | IsReceitaFederal
  | IsSantanderCnpj | IsSuspectBank | IsSuspectCpf

definition checkers :: "warning_check list" where
  "checkers = [IsCef, IsDuplicated, IsOverWarningIncome, IsReceitaFederal, IsSantanderCnpj,
     IsSuspectBank, IsSuspectCpf]"

text \<open>\<open>checkName\<close>: the name of the class, from a decorator that also counts the classes.\<close>

definition checkName :: "warning_check \<Rightarrow> string" where
  "checkName c = (case c of
     IsCef \<Rightarrow> ''HandleWarningPixDepositIsCefEventUseCase''
   | IsDuplicated \<Rightarrow> ''HandleWarningPixDepositIsDuplicatedEventUseCase''
   | IsOverWarningIncome \<Rightarrow> ''HandleWarningPixDepositIsOverWarningIncomeEventUseCase''
   | IsReceitaFederal \<Rightarrow> ''HandleWarningPixDepositIsReceitaFederalEventUseCase''
   | IsSantanderCnpj \<Rightarrow> ''HandleWarningPixDepositIsSantanderCnpjEventUseCase''
   | IsSuspectBank \<Rightarrow> ''HandleWarningPixDepositIsSuspectBankEventUseCase''
   | IsSuspectCpf \<Rightarrow> ''HandleWarningPixDepositIsSuspectCpfEventUseCase'')"

text \<open>Every check first moves a new deposit to waiting.\<close>

definition startWaiting :: "'l pay_env \<Rightarrow> pix_deposit \<Rightarrow> ('l, pix_deposit) pay_step" where
  "startWaiting E x =
     (if \<not> List.member [DEP_NEW, DEP_WAITING] (dp_state x) then throwS (PixDepositInvalidState (dp_state x))
      else if dp_state x \<noteq> DEP_WAITING
      then bindS (redisM (cacheDeposit (env_now E) (x\<lparr>dp_state := DEP_WAITING\<rparr>)))
             (\<lambda>_. returnS (x\<lparr>dp_state := DEP_WAITING\<rparr>))
      else returnS x)"

definition IsCef_check :: "'l pay_env \<Rightarrow> pix_deposit \<Rightarrow> bool" where
  "IsCef_check E x \<longleftrightarrow> \<not> (pc_minAmount (pe_cfg E) < dp_amount x
     \<and> bk_ispb (dp_thirdPartBank x) = pc_cefIspb (pe_cfg E))"

definition IsReceitaFederal_check :: "'l pay_env \<Rightarrow> pix_deposit \<Rightarrow> bool" where
  "IsReceitaFederal_check E x \<longleftrightarrow> dp_thirdPartDocument x \<noteq> Some (pc_receitaFederalCnpj (pe_cfg E))"

definition IsSantanderCnpj_check :: "'l pay_env \<Rightarrow> pix_deposit \<Rightarrow> bool" where
  "IsSantanderCnpj_check E x \<longleftrightarrow> \<not> (pc_minAmount (pe_cfg E) < dp_amount x
     \<and> bk_ispb (dp_thirdPartBank x) = pc_santanderIspb (pe_cfg E)
     \<and> dp_thirdPartDocument x = Some (pc_santanderCnpj (pe_cfg E)))"

definition IsSuspectBank_check :: "'l pay_env \<Rightarrow> pay_db \<Rightarrow> pix_deposit \<Rightarrow> bool" where
  "IsSuspectBank_check E d x \<longleftrightarrow> \<not> (case dp_thirdPartDocument x of
     None \<Rightarrow> False
   | Some s \<Rightarrow> v_isCnpj (pe_validators E) s \<and> List.member (blockedBanks d) s)"

definition IsSuspectCpf_check :: "pay_db \<Rightarrow> pix_deposit \<Rightarrow> bool" where
  "IsSuspectCpf_check d x \<longleftrightarrow> \<not> (case dp_thirdPartDocument x of
     None \<Rightarrow> False
   | Some s \<Rightarrow> List.member (blockedCpfs d) s)"

text \<open>A user without a finished onboarding makes the next check throw a \<open>TypeError\<close>.\<close>

definition isOverWarningOccupationIncome :: "'l pay_env \<Rightarrow> pix_deposit \<Rightarrow> ('l, bool) pay_step" where
  "isOverWarningOccupationIncome E x =
     bindS (foundS (pe_getOnboarding E (dp_user x)) PayTypeError) (\<lambda>income.
     returnS (\<not> (toNum income \<le> pc_maxOccupationIncome (pe_cfg E)
       \<and> pc_minAmountToWarningIncome (pe_cfg E) \<le> dp_amount x)))"

definition depositHash :: "pix_deposit \<Rightarrow> deposit_hash" where
  "depositHash x = \<lparr> dh_clientAccountNumber = dp_clientAccountNumber x,
     dh_thirdPartAccountNumber = dp_thirdPartAccountNumber x, dh_amount = dp_amount x,
     dh_thirdPartBranch = dp_thirdPartBranch x, dh_thirdPartIspb = bk_ispb (dp_thirdPartBank x) \<rparr>"

definition getSameDepositIn24Hours :: "'l pay_env \<Rightarrow> pix_deposit \<Rightarrow> ('l, bool) pay_step" where
  "getSameDepositIn24Hours E x =
     (let hash = pe_sha1 E (depositHash x) in
      bindS (redisR (\<lambda>r. Inr (List.member (depositHashes r) hash))) (\<lambda>found.
      if found then returnS False
      else bindS (redisM (\<lambda>r. r\<lparr>depositHashes := hash # depositHashes r\<rparr>)) (\<lambda>_. returnS True)))"

definition runCheck :: "'l pay_env \<Rightarrow> warning_check \<Rightarrow> pix_deposit \<Rightarrow> ('l, bool) pay_step" where
  "runCheck E c x = (case c of
     IsCef \<Rightarrow> returnS (IsCef_check E x)
   | IsDuplicated \<Rightarrow>
       if dp_amount x \<le> pc_minAmount (pe_cfg E) then returnS True else getSameDepositIn24Hours E x
   | IsOverWarningIncome \<Rightarrow> isOverWarningOccupationIncome E x
   | IsReceitaFederal \<Rightarrow> returnS (IsReceitaFederal_check E x)
   | IsSantanderCnpj \<Rightarrow> returnS (IsSantanderCnpj_check E x)
   | IsSuspectBank \<Rightarrow> dbR (\<lambda>d. Inr (IsSuspectBank_check E d x))
   | IsSuspectCpf \<Rightarrow> dbR (\<lambda>d. Inr (IsSuspectCpf_check d x)))"

text \<open>\<open>deposit.check[name] = result\<close>\<close>

fun put_result :: "string \<Rightarrow> bool \<Rightarrow> (string \<times> bool) list \<Rightarrow> (string \<times> bool) list" where
  "put_result n b [] = [(n, b)]"
| "put_result n b ((m, c) # xs) = (if m = n then (n, b) # xs else (m, c) # put_result n b xs)"

definition results_of :: "pix_deposit \<Rightarrow> (string \<times> bool) list" where
  "results_of x = (case dp_check x of None \<Rightarrow> [] | Some xs \<Rightarrow> xs)"

text \<open>The skip list of the checkers is always empty.\<close>

definition setResult :: "'l pay_env \<Rightarrow> warning_check \<Rightarrow> string \<Rightarrow> ('l, unit) pay_step" where
  "setResult E c i =
     bindS (redisR (\<lambda>r. orThrow (PixDepositCacheRepository_getById i r) (PixDepositNotFound i))) (\<lambda>x0.
     bindS (startWaiting E x0) (\<lambda>x.
     bindS (runCheck E c x) (\<lambda>result.
     redisM (cacheDeposit (env_now E) (x\<lparr>dp_check := Some (put_result (checkName c) result (results_of x))\<rparr>)))))"

definition WarningDepositChecker_execute ::
    "'l pay_env \<Rightarrow> warning_check \<Rightarrow> string \<Rightarrow> ('l, pix_deposit) pay_step" where
  "WarningDepositChecker_execute E c i =
     bindS (needData (needs i ''ID'')) (\<lambda>_.
     bindS (setResult E c i) (\<lambda>_.
     bindS (redisR (\<lambda>r. orThrow (PixDepositCacheRepository_getById i r) PayTypeError)) (\<lambda>x.
     bindS (whenS (dp_check x \<noteq> None \<and> length (results_of x) = length checkers)
              (emitPay E (DepositEvent DE_WAITING (plain_deposit_event x)))) (\<lambda>_.
     returnS x))))"

section \<open>Crediting or holding\<close>

definition falseChecks :: "'l pay_env \<Rightarrow> pix_deposit \<Rightarrow> string list" where
  "falseChecks E x = map (pe_warningReason E \<circ> fst) (filter (\<lambda>(n, b). \<not> b) (results_of x))"

fun join_reasons :: "string list \<Rightarrow> string" where
  "join_reasons [] = []"
| "join_reasons [s] = s"
| "join_reasons (s # t # ts) = s @ ''; '' @ join_reasons (t # ts)"

definition deposit_operation :: "'l pay_env \<Rightarrow> pix_deposit \<Rightarrow> operation_request" where
  "deposit_operation E x = \<lparr> or_id = dp_operation x, or_rawValue = dp_amount x,
     or_currencyTag = pc_currencyTag (pe_cfg E),
     or_description = pc_receivedPixDepositTag (pe_cfg E) \<rparr>"

definition holdDeposit :: "'l pay_env \<Rightarrow> string \<Rightarrow> pix_deposit \<Rightarrow> ('l, pix_deposit) pay_step" where
  "holdDeposit E warningId x =
     bindS (PixDepositRepository_create (env_now E) x) (\<lambda>_.
     bindS (ledgerS (os_createOperation (pe_operations E) (dp_transactionTag x)
              (deposit_operation E x) None (Some (dp_wallet x)))) (\<lambda>_.
     bindS (WarningPixDepositRepository_create
              \<lparr> wd_id = warningId, wd_operation = dp_operation x, wd_user = dp_user x,
                wd_transactionTag = dp_transactionTag x, wd_state = WD_CREATED \<rparr>) (\<lambda>_.
     bindS (emitPay E (WarningDepositCreated
              \<lparr> wde_id = warningId, wde_user = Some (dp_user x), wde_state = WD_CREATED,
                wde_amount = Some (dp_amount x), wde_thirdPartName = dp_thirdPartName x \<rparr>)) (\<lambda>_.
     bindS (callS E (CreateWarningTransaction (dp_operation x) (dp_transactionTag x)
              (dp_endToEndId x)
              (let s = join_reasons (falseChecks E x) in if s = [] then None else Some s))) (\<lambda>_.
     returnS x)))))"

definition creditDeposit :: "'l pay_env \<Rightarrow> string \<Rightarrow> pix_deposit \<Rightarrow> ('l, pix_deposit) pay_step" where
  "creditDeposit E refundId x0 =
     (let x = x0\<lparr>dp_state := DEP_RECEIVED\<rparr> in
      bindS (redisM (cacheDeposit (env_now E) x)) (\<lambda>_.
      bindS (PixDepositRepository_create (env_now E) x) (\<lambda>y.
      bindS (ledgerS (os_createAndAcceptOperation (pe_operations E) (dp_transactionTag x)
               (deposit_operation E x) None (Some (dp_wallet x)))) (\<lambda>_.
      bindS (emitPay E (DepositEvent DE_RECEIVED (received_deposit_event refundId y))) (\<lambda>_.
      returnS y)))))"

definition HandleWaitingPixDepositEventUseCase_execute ::
    "'l pay_env \<Rightarrow> string \<Rightarrow> string \<Rightarrow> string \<Rightarrow> ('l, pix_deposit) pay_step" where
  "HandleWaitingPixDepositEventUseCase_execute E warningId refundId i =
     bindS (needData (needs i ''ID'')) (\<lambda>_.
     bindS (redisR (\<lambda>r. orThrow (PixDepositCacheRepository_getById i r) (PixDepositNotFound i))) (\<lambda>x.
     if dp_state x = DEP_RECEIVED then returnS x
     else
       bindS (dbR (\<lambda>d. Inr (PixDepositRepository_getById i d))) (\<lambda>found.
       case found of
         Some y \<Rightarrow> returnS y
       | None \<Rightarrow>
           if list_ex (\<lambda>(n, b). \<not> b) (results_of x) then holdDeposit E warningId x
           else creditDeposit E refundId x)))"

section \<open>Decisions on a held deposit\<close>

definition loadHeldDeposit ::
    "'l pay_env \<Rightarrow> string \<Rightarrow> ('l, (operation_state \<times> int) \<times> pix_deposit \<times> warning_pix_deposit) pay_step" where
  "loadHeldDeposit E i =
     bindS (needData (needs i ''Operation ID'')) (\<lambda>_.
     bindS (ledgerR (os_getOperationById (pe_operations E) i)) (\<lambda>o'.
     case o' of
       None \<Rightarrow> throwS (PayOperationNotFound i)
     | Some s \<Rightarrow>
         bindS (findS (PixDepositRepository_getByOperation i) (PixDepositNotFound i)) (\<lambda>x.
         bindS (findS (WarningPixDepositRepository_getByOperation i) (WarningPixDepositNotFound i)) (\<lambda>y.
         returnS (s, x, y)))))"

definition ApprovePixDepositUseCase_execute ::
    "'l pay_env \<Rightarrow> string \<Rightarrow> string \<Rightarrow> ('l, pix_deposit) pay_step" where
  "ApprovePixDepositUseCase_execute E refundId i =
     bindS (loadHeldDeposit E i) (\<lambda>(_, x, y).
     bindS (throwWhen (dp_state x = DEP_RECEIVED) (PixDepositReceivedInvalidState (dp_state x))) (\<lambda>_.
     bindS (throwWhen (wd_state y = WD_REJECTED) (WarningPixDepositInvalidState (wd_state y))) (\<lambda>_.
     bindS (ledgerS (os_acceptOperation (pe_operations E) i)) (\<lambda>_.
     let x' = x\<lparr>dp_state := DEP_RECEIVED\<rparr> in
     bindS (dbM (PixDepositRepository_update (env_now E) x')) (\<lambda>_.
     bindS (emitPay E (DepositEvent DE_RECEIVED (received_deposit_event refundId x'))) (\<lambda>_.
     bindS (dbM (WarningPixDepositRepository_update (y\<lparr>wd_state := WD_REJECTED\<rparr>))) (\<lambda>_.
     returnS x')))))))"

definition warning_devolution_created ::
    "string \<Rightarrow> warning_pix_deposit \<Rightarrow> warning_devolution_event" where
  "warning_devolution_created i y = \<lparr> we_id = i, we_state = DEV_PENDING, we_user = Some (wd_user y),
     we_endToEndId = None, we_failed = None, we_warningPix = Some (wd_id y) \<rparr>"

definition BlockPixDepositUseCase_execute ::
    "'l pay_env \<Rightarrow> string \<Rightarrow> string \<Rightarrow> ('l, pix_deposit) pay_step" where
  "BlockPixDepositUseCase_execute E devolutionId i =
     bindS (loadHeldDeposit E i) (\<lambda>(_, x, y).
     bindS (throwWhen (dp_state x = DEP_BLOCKED) (PixDepositReceivedInvalidState (dp_state x))) (\<lambda>_.
     bindS (throwWhen (wd_state y = WD_APPROVED) (WarningPixDepositInvalidState (wd_state y))) (\<lambda>_.
     let x' = x\<lparr>dp_state := DEP_BLOCKED\<rparr>; y' = y\<lparr>wd_state := WD_APPROVED\<rparr> in
     bindS (dbM (PixDepositRepository_update (env_now E) x')) (\<lambda>_.
     bindS (emitPay E (DepositEvent DE_BLOCKED (plain_deposit_event x'))) (\<lambda>_.
     bindS (dbM (WarningPixDepositRepository_update y')) (\<lambda>_.
     bindS (emitPay E (WarningDevolutionEvent WE_CREATED (warning_devolution_created devolutionId y'))) (\<lambda>_.
     returnS x')))))))"

text \<open>The owner of a held deposit asks for it to be returned.\<close>

definition CreateWarningPixDevolutionUseCase_execute ::
    "'l pay_env \<Rightarrow> string \<Rightarrow> string \<Rightarrow> string \<Rightarrow> ('l, string) pay_step" where
  "CreateWarningPixDevolutionUseCase_execute E devolutionId user i =
     bindS (needData (needs user ''User ID'' @ needs i ''Operation ID'')) (\<lambda>_.
     bindS (findS (PixDepositRepository_getByOperation i) (PixDepositNotFound i)) (\<lambda>x.
     bindS (throwWhen (dp_user x \<noteq> user) PayForbidden) (\<lambda>_.
     bindS (throwWhen (\<not> List.member [DEP_NEW, DEP_WAITING] (dp_state x))
              (PixDepositInvalidState (dp_state x))) (\<lambda>_.
     bindS (findS (WarningPixDepositRepository_getByOperation i) (WarningPixDepositNotFound i)) (\<lambda>y.
     bindS (throwWhen (wd_state y \<noteq> WD_CREATED) (WarningPixDepositInvalidState (wd_state y))) (\<lambda>_.
     bindS (dbR (\<lambda>d. Inr (WarningPixDevolutionRepository_getByOperation i d))) (\<lambda>z.
     bindS (throwWhen (z \<noteq> None) (WarningPixDevolutionAlreadyExists i)) (\<lambda>_.
     let x' = x\<lparr>dp_state := DEP_BLOCKED\<rparr> in
     bindS (dbM (PixDepositRepository_update (env_now E) x')) (\<lambda>_.
     bindS (emitPay E (DepositEvent DE_BLOCKED (plain_deposit_event x'))) (\<lambda>_.
     bindS (emitPay E (WarningDevolutionEvent WE_CREATED (warning_devolution_created devolutionId y))) (\<lambda>_.
     returnS devolutionId)))))))))))"

end
