(* ===== verification/Pix_Devolutions.thy ===== *)
theory Pix_Devolutions
  imports Pix_Deposits
begin

text \<open>
  Returning deposits (apps/pix-payments/src/application/usecases): the devolution that the owner of a
  deposit asks for, the devolution of a deposit that could not be credited, the devolution of a
  suspect deposit (warning devolution), and the devolution of one of our payments that arrives from
  outside. \<open>returnedAmount\<close> of a deposit records what is being given back.
\<close>

section \<open>Devolutions asked for by the owner\<close>

text \<open>\<open>if (!this.devolutionMaxNumber)\<close>: 0 means no maximum.\<close>

definition new_devolution_code :: "'l pay_env \<Rightarrow> pix_deposit \<Rightarrow> devolution_code" where
  "new_devolution_code E x =
     (if List.member [pc_withdrawalQrsTag (pe_cfg E), pc_withdrawalQrdTag (pe_cfg E),
           pc_changeQrdTag (pe_cfg E)] (dp_transactionTag x)
      then DC_WITHDRAWAL_CHANGE else DC_ORIGINAL)"

definition addDevolution ::
    "'l pay_env \<Rightarrow> string \<Rightarrow> string \<Rightarrow> string \<Rightarrow> string \<Rightarrow> int \<Rightarrow> string option \<Rightarrow> pix_deposit
     \<Rightarrow> ('l, pix_devolution) pay_step" where
  "addDevolution E opId i user wallet amount description x =
     bindS (throwWhen (\<not> canCreateDevolution (pe_moment E) (pc_devolutionIntervalDays (pe_cfg E)) x)
              (PixDepositExpiredDevolutionTime (dp_createdAt x))) (\<lambda>_.
     bindS (throwWhen (dp_amount x < amount) (PixDevolutionAmountOverflow (dp_amount x))) (\<lambda>_.
     bindS (dbR (\<lambda>d. let n = countByDeposit (dp_id x) d; m = pc_devolutionMaxNumber (pe_cfg E)
              in if m \<noteq> 0 \<and> m \<le> n then Inl (PixDevolutionMaxNumber n) else Inr ())) (\<lambda>_.
     let availableAmount = dp_amount x - dp_returnedAmount x in
     bindS (throwWhen (availableAmount < amount) (PixDevolutionAmountOverflow availableAmount)) (\<lambda>_.
     bindS (dbM (PixDepositRepository_update (env_now E)
              (x\<lparr>dp_returnedAmount := dp_returnedAmount x + amount\<rparr>))) (\<lambda>_.
     bindS (PixDevolutionRepository_create (env_now E)
              \<lparr> dv_id = i, dv_user = user, dv_wallet = wallet, dv_operation = Some opId,
                dv_deposit = dp_id x, dv_endToEndId = None, dv_amount = amount,
                dv_devolutionCode = new_devolution_code E x, dv_description = description,
                dv_chargebackReason = None, dv_failed = None, dv_state = DEV_PENDING,
                dv_externalId = None, dv_createdAt = 0, dv_updatedAt = 0 \<rparr>) (\<lambda>v.
     bindS (emitPay E (DevolutionEvent VE_PENDING (plain_devolution_event v))) (\<lambda>_.
     returnS v)))))))"

definition CreatePixDevolutionUseCase_execute ::
    "'l pay_env \<Rightarrow> string \<Rightarrow> string \<Rightarrow> string \<Rightarrow> string \<Rightarrow> string \<Rightarrow> int \<Rightarrow> string option
     \<Rightarrow> ('l, pix_devolution) pay_step" where
  "CreatePixDevolutionUseCase_execute E opId i user wallet operation amount description =
     bindS (needData (needs i ''ID'' @ needs user ''User'' @ needs wallet ''Wallet''
              @ needs operation ''Operation'' @ missing (amount = 0) ''Amount'')) (\<lambda>_.
     bindS (dbR (\<lambda>d. Inr (PixDevolutionRepository_getById i d))) (\<lambda>found.
     case found of
       Some v \<Rightarrow> if dv_wallet v \<noteq> wallet then throwS PayForbidden else returnS v
     | None \<Rightarrow>
         bindS (findS (PixDepositRepository_getByOperationAndWallet operation wallet)
                  (PixDepositNotFound operation))
           (addDevolution E opId i user wallet amount description)))"

text \<open>The request is validated first: an amount is a positive integer of at most 1e18.\<close>

definition CreatePixDevolutionController_execute ::
    "'l pay_env \<Rightarrow> string \<Rightarrow> string \<Rightarrow> string \<Rightarrow> string \<Rightarrow> string \<Rightarrow> int \<Rightarrow> string option
     \<Rightarrow> ('l, pix_devolution) pay_step" where
  "CreatePixDevolutionController_execute E opId i user wallet operation amount description =
     bindS (throwWhen (amount \<le> 0 \<or> 10 ^ 18 < amount) (PayInvalidDataFormat [''amount''])) (\<lambda>_.
     CreatePixDevolutionUseCase_execute E opId i user wallet operation amount description)"

section \<open>Sending a devolution\<close>

definition loadDevolution :: "string \<Rightarrow> ('l, pix_devolution) pay_step" where
  "loadDevolution i = bindS (needData (needs i ''ID'')) (\<lambda>_.
     findS (PixDevolutionRepository_getById i) (PixDevolutionNotFound i))"

definition depositOf :: "pix_devolution \<Rightarrow> ('l, pix_deposit) pay_step" where
  "depositOf v = findS (PixDepositRepository_getById (dv_deposit v)) (PixDepositNotFound (dv_deposit v))"

text \<open>A devolution that is already on its way is left alone; otherwise it must be pending.\<close>

definition whenPending ::
    "(pix_devolution \<Rightarrow> ('l, pix_devolution) pay_step) \<Rightarrow> pix_devolution \<Rightarrow> ('l, pix_devolution) pay_step" where
  "whenPending act v =
     (if List.member [DEV_WAITING, DEV_CONFIRMED] (dv_state v) then returnS v
      else if dv_state v \<noteq> DEV_PENDING then throwS (PixDevolutionInvalidState (dv_state v))
      else act v)"

definition devolution_call_of :: "pix_devolution \<Rightarrow> pix_deposit \<Rightarrow> devolution_call" where
  "devolution_call_of v x = \<lparr> vc_id = dv_id v, vc_deposit = dp_id x,
     vc_depositEndToEndId = dp_endToEndId x, vc_amount = dv_amount v,
     vc_description = dv_description v, vc_code = dv_devolutionCode v \<rparr>"

definition callDevolutionPSP ::
    "'l pay_env \<Rightarrow> pix_deposit \<Rightarrow> pix_devolution \<Rightarrow> ('l, pix_devolution) pay_step" where
  "callDevolutionPSP E x v =
     bindS (callS E (CreatePixDevolution (devolution_call_of v x))) (\<lambda>a.
     let q = v\<lparr>dv_endToEndId := an_endToEndId a, dv_state := DEV_WAITING,
               dv_externalId := an_externalId a\<rparr> in
     bindS (PixDevolutionRepository_update (env_now E) q) (\<lambda>_.
     bindS (emitPay E (DevolutionEvent VE_WAITING (plain_devolution_event q))) (\<lambda>_.
     returnS q)))"

definition devolution_operation :: "'l pay_env \<Rightarrow> pix_devolution \<Rightarrow> string \<Rightarrow> operation_request" where
  "devolution_operation E v i = \<lparr> or_id = i, or_rawValue = dv_amount v,
     or_currencyTag = pc_currencyTag (pe_cfg E), or_description = pc_sendDevolutionTag (pe_cfg E) \<rparr>"

definition sendDevolutionPSP ::
    "'l pay_env \<Rightarrow> pix_deposit \<Rightarrow> pix_devolution \<Rightarrow> ('l, pix_devolution) pay_step" where
  "sendDevolutionPSP E x v =
     bindS (givenId (dv_operation v)) (\<lambda>i.
     bindS (ledgerS (os_createOperation (pe_operations E) (pc_sendDevolutionTag (pe_cfg E))
              (devolution_operation E v i) (Some (dv_wallet v)) None)) (\<lambda>_.
     callDevolutionPSP E x v))"

definition p2p_devolution_received ::
    "'l pay_env \<Rightarrow> string \<Rightarrow> string \<Rightarrow> pix_deposit \<Rightarrow> pix_devolution \<Rightarrow> payment \<Rightarrow> account_info
     \<Rightarrow> pix_devolution_received" where
  "p2p_devolution_received E receivedId opId x v p a =
     \<lparr> dr_id = receivedId, dr_user = ai_user a, dr_wallet = ai_wallet a, dr_operation = opId,
       dr_state = DR_READY, dr_payment = Some (py_id p), dr_txId = dp_txId x,
       dr_endToEndId = dp_endToEndId x, dr_amount = dv_amount v, dr_returnedAmount = 0,
       dr_clientBank = dp_thirdPartBank x, dr_clientBranch = dp_thirdPartBranch x,
       dr_clientAccountNumber = dp_thirdPartAccountNumber x,
       dr_clientPersonType = optional_document_type E (dp_thirdPartDocument x),
       dr_clientDocument = dp_thirdPartDocument x, dr_clientName = dp_thirdPartName x,
       dr_clientKey = dp_thirdPartKey x, dr_thirdPartBank = dp_clientBank x,
       dr_thirdPartBranch = dp_clientBranch x, dr_thirdPartAccountType = Some ''CACC'',
       dr_thirdPartAccountNumber = dp_clientAccountNumber x,
       dr_thirdPartPersonType = optional_document_type E (dp_clientDocument x),
       dr_thirdPartDocument = dp_clientDocument x, dr_thirdPartName = dp_clientName x,
       dr_thirdPartKey = dp_clientKey x, dr_description = dv_description v,
       dr_transactionTag = pc_devolutionReceivedTag (pe_cfg E) \<rparr>"

text \<open>\<open>ids\<close>: drawn for the received devolution and for a later refund.\<close>

definition sendDevolutionP2P ::
    "'l pay_env \<Rightarrow> string \<times> string \<Rightarrow> account_info \<Rightarrow> pix_deposit \<Rightarrow> pix_devolution
     \<Rightarrow> ('l, pix_devolution) pay_step" where
  "sendDevolutionP2P E ids a x v =
     bindS (findS (PaymentRepository_getByOperation (dp_operation x)) (PaymentNotFound (dp_operation x))) (\<lambda>p.
     bindS (givenId (dv_operation v)) (\<lambda>i.
     bindS (ledgerS (os_createAndAcceptOperation (pe_operations E) (pc_sendDevolutionTag (pe_cfg E))
              (devolution_operation E v i) (Some (dv_wallet v)) (Some (ai_wallet a)))) (\<lambda>_.
     let r = p2p_devolution_received E (fst ids) i x v p a; q = v\<lparr>dv_state := DEV_CONFIRMED\<rparr> in
     bindS (PixDevolutionReceivedRepository_create r) (\<lambda>_.
     bindS (emitPay E (DevolutionReceivedEvent (ready_devolution_received_event (snd ids) r))) (\<lambda>_.
     bindS (PixDevolutionRepository_update (env_now E) q) (\<lambda>_.
     bindS (emitPay E (DevolutionEvent VE_CONFIRMED
              (confirmed_devolution_event (pc_sendDevolutionTag (pe_cfg E)) x q))) (\<lambda>_.
     returnS q)))))))"

definition HandlePendingPixDevolutionEventUseCase_execute ::
    "'l pay_env \<Rightarrow> string \<times> string \<Rightarrow> string \<Rightarrow> ('l, pix_devolution) pay_step" where
  "HandlePendingPixDevolutionEventUseCase_execute E ids i =
     bindS (loadDevolution i) (whenPending (\<lambda>v.
     bindS (depositOf v) (\<lambda>x.
     if bk_ispb (dp_thirdPartBank x) \<noteq> pc_zroBankIspb (pe_cfg E) then sendDevolutionPSP E x v
     else
       bindS (givenId (dp_thirdPartAccountNumber x)) (\<lambda>number.
       bindS (ledgerR (os_getWalletAccountByAccountNumber (pe_operations E) number
                (pc_currencyTag (pe_cfg E)))) (\<lambda>account.
       case account of
         None \<Rightarrow> throwS (PixDepositZroAccountNotExists (dp_id x))
       | Some a \<Rightarrow>
           bindS (throwWhen (\<not> ai_active a) (PayWalletAccountNotActive (ai_id a))) (\<lambda>_.
           sendDevolutionP2P E ids a x v))))))"

section \<open>Completing and reverting\<close>

definition HandleCompletePixDevolutionEventUseCase_execute ::
    "'l pay_env \<Rightarrow> string \<Rightarrow> string option \<Rightarrow> ('l, pix_devolution) pay_step" where
  "HandleCompletePixDevolutionEventUseCase_execute E i e2e =
     bindS (loadDevolution i) (\<lambda>v.
     if dv_state v = DEV_CONFIRMED then returnS v
     else if dv_state v \<noteq> DEV_WAITING then throwS (PixDevolutionInvalidState (dv_state v))
     else
       bindS (givenId (dv_operation v)) (\<lambda>j.
       bindS (ledgerR (os_getOperationById (pe_operations E) j)) (\<lambda>found.
       bindS (whenS (found \<noteq> None) (ledgerS (os_acceptOperation (pe_operations E) j))) (\<lambda>_.
       bindS (depositOf v) (\<lambda>x.
       let q = v\<lparr>dv_state := DEV_CONFIRMED, dv_endToEndId := e2e\<rparr> in
       bindS (PixDevolutionRepository_update (env_now E) q) (\<lambda>_.
       bindS (emitPay E (DevolutionEvent VE_CONFIRMED
                (confirmed_devolution_event (pc_sendDevolutionTag (pe_cfg E)) x q))) (\<lambda>_.
       returnS q)))))))"

definition revertDevolutionOperation ::
    "'l pay_env \<Rightarrow> pix_devolution \<Rightarrow> ('l, pix_devolution) pay_step" where
  "revertDevolutionOperation E v = bindS (revertIfKnown E (dv_operation v)) (\<lambda>known.
     returnS (if known then v else v\<lparr>dv_operation := None\<rparr>))"

definition takeBack :: "'l pay_env \<Rightarrow> pix_devolution \<Rightarrow> ('l, unit) pay_step" where
  "takeBack E v = bindS (depositOf v) (\<lambda>x.
     dbM (PixDepositRepository_update (env_now E)
       (x\<lparr>dp_returnedAmount := dp_returnedAmount x - dv_amount v\<rparr>)))"

definition failed_devolution ::
    "string option \<Rightarrow> failed option \<Rightarrow> pix_devolution \<Rightarrow> pix_devolution" where
  "failed_devolution reason failure v =
     v\<lparr>dv_state := DEV_FAILED, dv_chargebackReason := reason, dv_failed := failure\<rparr>"

text \<open>The operation is reverted last.\<close>

definition HandleRevertPixDevolutionEventUseCase_execute ::
    "'l pay_env \<Rightarrow> string \<Rightarrow> string option \<Rightarrow> failed option \<Rightarrow> ('l, pix_devolution) pay_step" where
  "HandleRevertPixDevolutionEventUseCase_execute E i reason failure =
     bindS (loadDevolution i) (\<lambda>v.
     if dv_state v = DEV_FAILED then returnS v
     else if \<not> List.member [DEV_PENDING, DEV_WAITING, DEV_CONFIRMED] (dv_state v)
     then throwS (PixDevolutionInvalidState (dv_state v))
     else
       bindS (takeBack E v) (\<lambda>_.
       let q = failed_devolution reason failure v in
       bindS (PixDevolutionRepository_update (env_now E) q) (\<lambda>_.
       bindS (emitPay E (DevolutionEvent VE_FAILED (failed_devolution_event q))) (\<lambda>_.
       revertDevolutionOperation E q))))"

text \<open>The operation is reverted before the devolution is stored.\<close>

definition ReceivePixDevolutionChargebackUseCase_execute ::
    "'l pay_env \<Rightarrow> string \<Rightarrow> string option \<Rightarrow> failed option \<Rightarrow> ('l, pix_devolution) pay_step" where
  "ReceivePixDevolutionChargebackUseCase_execute E i reason failure =
     bindS (loadDevolution i) (\<lambda>v.
     if dv_state v = DEV_FAILED then returnS v
     else if DEV_WAITING \<noteq> dv_state v then throwS (PixDevolutionInvalidState (dv_state v))
     else
       bindS (takeBack E v) (\<lambda>_.
       bindS (revertDevolutionOperation E v) (\<lambda>v1.
       let q = failed_devolution reason failure v1 in
       bindS (PixDevolutionRepository_update (env_now E) q) (\<lambda>_.
       bindS (emitPay E (DevolutionEvent VE_FAILED (failed_devolution_event q))) (\<lambda>_.
       returnS q)))))"

section \<open>Devolutions of deposits that failed\<close>

definition HandleCreateFailedPixDevolutionEventUseCase_execute ::
    "'l pay_env \<Rightarrow> string \<Rightarrow> string \<Rightarrow> string \<Rightarrow> ('l, pix_devolution) pay_step" where
  "HandleCreateFailedPixDevolutionEventUseCase_execute E opId i depositId =
     bindS (needData (needs i ''ID'' @ needs depositId ''Pix Deposit ID'')) (\<lambda>_.
     bindS (dbR (\<lambda>d. Inr (PixDevolutionRepository_getById i d))) (\<lambda>found.
     case found of
       Some v \<Rightarrow> returnS v
     | None \<Rightarrow>
         bindS (findS (PixDepositRepository_getById depositId) (PixDepositNotFound depositId)) (\<lambda>x.
         bindS (throwWhen (dp_state x \<noteq> DEP_ERROR) (PixDepositInvalidState (dp_state x))) (\<lambda>_.
         bindS (dbM (PixDepositRepository_update (env_now E)
                  (x\<lparr>dp_returnedAmount := dp_amount x\<rparr>))) (\<lambda>_.
         bindS (PixDevolutionRepository_create (env_now E)
                  \<lparr> dv_id = i, dv_user = dp_user x, dv_wallet = dp_wallet x, dv_operation = Some opId,
                    dv_deposit = dp_id x, dv_endToEndId = dp_endToEndId x, dv_amount = dp_amount x,
                    dv_devolutionCode = DC_PSP_ERROR, dv_description = dp_description x,
                    dv_chargebackReason = None, dv_failed = None, dv_state = DEV_PENDING,
                    dv_externalId = None, dv_createdAt = 0, dv_updatedAt = 0 \<rparr>) (\<lambda>v.
         bindS (emitPay E (DevolutionEvent VE_PENDING_FAILED (plain_devolution_event v))) (\<lambda>_.
         returnS v)))))))"

definition HandlePendingFailedPixDevolutionEventUseCase_execute ::
    "'l pay_env \<Rightarrow> string \<Rightarrow> ('l, pix_devolution) pay_step" where
  "HandlePendingFailedPixDevolutionEventUseCase_execute E i =
     bindS (loadDevolution i) (whenPending (\<lambda>v.
     bindS (depositOf v) (\<lambda>x. callDevolutionPSP E x v)))"

section \<open>The crons\<close>

definition syncDevolution ::
    "'l pay_env \<Rightarrow> (pix_devolution \<Rightarrow> status_query) \<Rightarrow> pix_devolution \<Rightarrow> ('l, unit) pay_step" where
  "syncDevolution E query v =
     (case askStatus E (query v) of
        None \<Rightarrow> returnS ()
      | Some a \<Rightarrow>
          (case sa_status a of
             ST_SETTLED \<Rightarrow> emitPay E (DevolutionEvent VE_COMPLETED
               (completed_devolution_event (v\<lparr>dv_endToEndId := sa_endToEndId a\<rparr>)))
           | ST_CHARGEBACK \<Rightarrow> emitPay E (DevolutionEvent VE_REVERTED
               (reverted_devolution_event (v\<lparr>dv_failed := pe_translate E (sa_errorCode a),
                  dv_chargebackReason := sa_reason a\<rparr>)))
           | _ \<Rightarrow> returnS ()))"

definition SyncWaitingPixDevolutionUseCase_execute :: "'l pay_env \<Rightarrow> ('l, unit) pay_step" where
  "SyncWaitingPixDevolutionUseCase_execute E =
     bindS (dbR (\<lambda>d. Inr (PixDevolutionRepository_getAllByStateAndThresholdDate DEV_WAITING
              (thresholdDate E) BEFORE_THAN d)))
       (foldS (syncDevolution E (\<lambda>v. GetPayment (dv_id v) (dv_endToEndId v))))"

definition SyncWaitingRecentPixDevolutionUseCase_execute :: "'l pay_env \<Rightarrow> ('l, unit) pay_step" where
  "SyncWaitingRecentPixDevolutionUseCase_execute E =
     bindS (dbR (\<lambda>d. Inr (PixDevolutionRepository_getAllByStateAndThresholdDate DEV_WAITING
              (thresholdDate E) AFTER_OR_EQUAL_THAN d)))
       (foldS (syncDevolution E (\<lambda>v. GetPaymentById (dv_id v) (dv_externalId v))))"

section \<open>Devolutions of suspect deposits\<close>

definition HandleCreateWarningPixDevolutionEventUseCase_execute ::
    "'l pay_env \<Rightarrow> string \<Rightarrow> string \<Rightarrow> ('l, warning_pix_devolution) pay_step" where
  "HandleCreateWarningPixDevolutionEventUseCase_execute E i warningId =
     bindS (needData (needs i ''ID'' @ needs warningId ''Warning Pix Deposit ID'')) (\<lambda>_.
     bindS (dbR (\<lambda>d. Inr (WarningPixDevolutionRepository_getById i d))) (\<lambda>found.
     case found of
       Some z \<Rightarrow> returnS z
     | None \<Rightarrow>
         bindS (findS (WarningPixDepositRepository_getById warningId) (WarningPixDepositNotFound warningId)) (\<lambda>y.
         bindS (findS (PixDepositRepository_getByOperation (wd_operation y))
                  (PixDepositNotFound (wd_operation y))) (\<lambda>x.
         let z = \<lparr> wv_id = i, wv_user = dp_user x, wv_operation = dp_operation x,
                   wv_endToEndId = dp_endToEndId x, wv_amount = dp_amount x,
                   wv_devolutionCode = (if WD_CREATED = wd_state y then DC_ORIGINAL else DC_FRAUD),
                   wv_description = dp_description x, wv_chargebackReason = None, wv_failed = None,
                   wv_state = DEV_PENDING, wv_externalId = None, wv_updatedAt = 0 \<rparr>
         in
         bindS (dbM (PixDepositRepository_update (env_now E)
                  (x\<lparr>dp_returnedAmount := dp_amount x\<rparr>))) (\<lambda>_.
         bindS (WarningPixDevolutionRepository_create (env_now E) z) (\<lambda>_.
         bindS (emitPay E (WarningDevolutionEvent WE_PENDING (plain_warning_devolution_event z))) (\<lambda>_.
         returnS z)))))))"

definition loadWarningDevolution :: "string \<Rightarrow> ('l, warning_pix_devolution) pay_step" where
  "loadWarningDevolution i = bindS (needData (needs i ''ID'')) (\<lambda>_.
     findS (WarningPixDevolutionRepository_getById i) (WarningPixDevolutionNotFound i))"

definition warningDepositOf :: "warning_pix_devolution \<Rightarrow> ('l, pix_deposit) pay_step" where
  "warningDepositOf z =
     findS (PixDepositRepository_getByOperation (wv_operation z)) (PixDepositNotFound (wv_operation z))"

definition warning_call_of :: "warning_pix_devolution \<Rightarrow> pix_deposit \<Rightarrow> devolution_call" where
  "warning_call_of z x = \<lparr> vc_id = wv_id z, vc_deposit = dp_id x,
     vc_depositEndToEndId = dp_endToEndId x, vc_amount = wv_amount z,
     vc_description = wv_description z, vc_code = wv_devolutionCode z \<rparr>"

text \<open>
  The PSP returns the money first, then the operation of the deposit is reverted. A devolution that
  the owner asked for is noted in the issue of the compliance team.
\<close>

definition HandlePendingWarningPixDevolutionEventUseCase_execute ::
    "'l pay_env \<Rightarrow> string \<Rightarrow> ('l, warning_pix_devolution) pay_step" where
  "HandlePendingWarningPixDevolutionEventUseCase_execute E i =
     bindS (loadWarningDevolution i) (\<lambda>z.
     if List.member [DEV_WAITING, DEV_CONFIRMED] (wv_state z) then returnS z
     else if \<not> List.member [DEV_PENDING, DEV_FAILED] (wv_state z)
     then throwS (WarningPixDevolutionInvalidState (wv_state z))
     else
       bindS (ledgerR (os_getOperationById (pe_operations E) (wv_operation z))) (\<lambda>found.
       case found of
         None \<Rightarrow> throwS (PayOperationNotFound (wv_operation z))
       | Some (s, _) \<Rightarrow>
           bindS (warningDepositOf z) (\<lambda>x.
           bindS (callS E (CreateWarningPixDevolution (warning_call_of z x))) (\<lambda>a.
           let q = z\<lparr>wv_endToEndId := an_endToEndId a, wv_state := DEV_WAITING,
                     wv_externalId := an_externalId a\<rparr> in
           bindS (dbM (WarningPixDevolutionRepository_update (env_now E) q)) (\<lambda>_.
           bindS (whenS (s \<noteq> REVERTED)
                    (ledgerS (os_revertOperation (pe_operations E) (wv_operation z)))) (\<lambda>_.
           bindS (whenS (wv_devolutionCode q = DC_ORIGINAL)
                    (bindS (foundS (pe_getWarningTransaction E (wv_operation z)) PayTypeError) (\<lambda>issue.
                     bindS (callS E (AddWarningTransactionComment issue
                              (pc_messageUserRequest (pe_cfg E)))) (\<lambda>_. returnS ())))) (\<lambda>_.
           bindS (emitPay E (WarningDevolutionEvent WE_WAITING (plain_warning_devolution_event q))) (\<lambda>_.
           returnS q))))))))"

definition HandleCompleteWarningPixDevolutionEventUseCase_execute ::
    "'l pay_env \<Rightarrow> string \<Rightarrow> string option \<Rightarrow> ('l, warning_pix_devolution) pay_step" where
  "HandleCompleteWarningPixDevolutionEventUseCase_execute E i e2e =
     bindS (loadWarningDevolution i) (\<lambda>z.
     if wv_state z = DEV_CONFIRMED then returnS z
     else if wv_state z \<noteq> DEV_WAITING then throwS (WarningPixDevolutionInvalidState (wv_state z))
     else
       let q = z\<lparr>wv_state := DEV_CONFIRMED, wv_endToEndId := e2e\<rparr> in
       bindS (dbM (WarningPixDevolutionRepository_update (env_now E) q)) (\<lambda>_.
       bindS (emitPay E (WarningDevolutionEvent WE_CONFIRMED (plain_warning_devolution_event q))) (\<lambda>_.
       returnS q)))"

definition HandleRevertWarningPixDevolutionEventUseCase_execute ::
    "'l pay_env \<Rightarrow> string \<Rightarrow> string option \<Rightarrow> failed option \<Rightarrow> ('l, warning_pix_devolution) pay_step" where
  "HandleRevertWarningPixDevolutionEventUseCase_execute E i reason failure =
     bindS (loadWarningDevolution i) (\<lambda>z.
     if wv_state z = DEV_FAILED then returnS z
     else if \<not> List.member [DEV_PENDING, DEV_WAITING, DEV_CONFIRMED] (wv_state z)
     then throwS (WarningPixDevolutionInvalidState (wv_state z))
     else
       bindS (warningDepositOf z) (\<lambda>x.
       bindS (dbM (PixDepositRepository_update (env_now E)
                (x\<lparr>dp_returnedAmount := dp_returnedAmount x - wv_amount z\<rparr>))) (\<lambda>_.
       let q = z\<lparr>wv_state := DEV_FAILED, wv_chargebackReason := reason, wv_failed := failure\<rparr> in
       bindS (dbM (WarningPixDevolutionRepository_update (env_now E) q)) (\<lambda>_.
       bindS (emitPay E (WarningDevolutionEvent WE_FAILED (plain_warning_devolution_event q))) (\<lambda>_.
       returnS q)))))"

definition syncWarningDevolution ::
    "'l pay_env \<Rightarrow> (warning_pix_devolution \<Rightarrow> status_query) \<Rightarrow> warning_pix_devolution
     \<Rightarrow> ('l, unit) pay_step" where
  "syncWarningDevolution E query z =
     (case askStatus E (query z) of
        None \<Rightarrow> returnS ()
      | Some a \<Rightarrow>
          (case sa_status a of
             ST_SETTLED \<Rightarrow> emitPay E (WarningDevolutionEvent WE_COMPLETED
               ((plain_warning_devolution_event z)\<lparr>we_endToEndId := sa_endToEndId a\<rparr>))
           | ST_CHARGEBACK \<Rightarrow> emitPay E (WarningDevolutionEvent WE_REVERTED
               ((plain_warning_devolution_event z)\<lparr>we_failed := pe_translate E (sa_errorCode a)\<rparr>))
           | _ \<Rightarrow> returnS ()))"

definition SyncWaitingWarningPixDevolutionUseCase_execute :: "'l pay_env \<Rightarrow> ('l, unit) pay_step" where
  "SyncWaitingWarningPixDevolutionUseCase_execute E =
     bindS (dbR (\<lambda>d. Inr (WarningPixDevolutionRepository_getAllByStateAndThresholdDate DEV_WAITING
              (thresholdDate E) BEFORE_THAN d)))
       (foldS (syncWarningDevolution E (\<lambda>z. GetPayment (wv_id z) (wv_endToEndId z))))"

definition SyncWaitingRecentWarningPixDevolutionUseCase_execute ::
    "'l pay_env \<Rightarrow> ('l, unit) pay_step" where
  "SyncWaitingRecentWarningPixDevolutionUseCase_execute E =
     bindS (dbR (\<lambda>d. Inr (WarningPixDevolutionRepository_getAllByStateAndThresholdDate DEV_WAITING
              (thresholdDate E) AFTER_OR_EQUAL_THAN d)))
       (foldS (syncWarningDevolution E (\<lambda>z. GetPaymentById (wv_id z) (wv_externalId z))))"

section \<open>A payment of ours is returned\<close>

text \<open>\<open>paymentKey\<close>: the identifier of the payment, or its end-to-end identifier.\<close>

definition ReceivePixDevolutionReceivedUseCase_execute ::
    "'l pay_env \<Rightarrow> string \<times> string \<Rightarrow> string \<times> string \<Rightarrow> deposit_request
     \<Rightarrow> ('l, pix_devolution_received) pay_step" where
  "ReceivePixDevolutionReceivedUseCase_execute E ids paymentKey r =
     bindS (needData (depositNames r)) (\<lambda>_.
     bindS (dbR (\<lambda>d. Inr (PixDevolutionReceivedRepository_getById (rq_id r) d))) (\<lambda>found.
     case found of
       Some x \<Rightarrow> returnS x
     | None \<Rightarrow>
         bindS (ownBank E PixDevolutionReceivedBankNotAllowed (rq_clientBank r)) (\<lambda>own.
         bindS (loadBank E own) (\<lambda>clientBank.
         bindS (theBank (rq_thirdPartBank r)) (\<lambda>other.
         bindS (loadBank E other) (\<lambda>thirdPartBank.
         bindS (findS (\<lambda>d. if fst paymentKey \<noteq> [] \<or> snd paymentKey \<noteq> []
                  then PaymentRepository_getByIdOrEndToEndId (fst paymentKey) (snd paymentKey) d
                  else None) (PaymentNotFound (fst paymentKey))) (\<lambda>p.
         bindS (ledgerR (os_getWalletAccountByAccountNumber (pe_operations E)
                  (rq_clientAccountNumber r) (pc_currencyTag (pe_cfg E)))) (\<lambda>account.
         case account of
           None \<Rightarrow> throwS (PixDevolutionReceivedAccountNotFound (rq_clientAccountNumber r))
         | Some a \<Rightarrow>
             bindS (throwWhen (\<not> ai_active a) (PayWalletAccountNotActive (ai_id a))) (\<lambda>_.
             let x = \<lparr> dr_id = rq_id r, dr_user = py_user p, dr_wallet = py_wallet p,
                       dr_operation = fst ids, dr_state = DR_READY,
                       dr_payment = (if fst paymentKey = [] then None else Some (fst paymentKey)),
                       dr_txId = rq_txId r, dr_endToEndId = rq_endToEndId r,
                       dr_amount = rq_amount r, dr_returnedAmount = 0,
                       dr_clientBank = clientBank, dr_clientBranch = Some (rq_clientBranch r),
                       dr_clientAccountNumber = Some (rq_clientAccountNumber r),
                       dr_clientPersonType = document_type E (rq_clientDocument r),
                       dr_clientDocument = Some (rq_clientDocument r),
                       dr_clientName = rq_clientName r, dr_clientKey = rq_clientKey r,
                       dr_thirdPartBank = thirdPartBank, dr_thirdPartBranch = rq_thirdPartBranch r,
                       dr_thirdPartAccountType = rq_thirdPartAccountType r,
                       dr_thirdPartAccountNumber = Some (rq_thirdPartAccountNumber r),
                       dr_thirdPartPersonType = optional_document_type E (rq_thirdPartDocument r),
                       dr_thirdPartDocument = rq_thirdPartDocument r,
                       dr_thirdPartName = rq_thirdPartName r, dr_thirdPartKey = rq_thirdPartKey r,
                       dr_description = rq_description r,
                       dr_transactionTag = pc_devolutionReceivedTag (pe_cfg E) \<rparr>
             in
             bindS (PixDevolutionReceivedRepository_create x) (\<lambda>_.
             bindS (ledgerS (os_createAndAcceptOperation (pe_operations E) (dr_transactionTag x)
                      \<lparr> or_id = dr_operation x, or_rawValue = dr_amount x,
                        or_currencyTag = pc_currencyTag (pe_cfg E),
                        or_description = pc_devolutionReceivedTag (pe_cfg E) \<rparr>
                      None (Some (py_wallet p)))) (\<lambda>_.
             bindS (emitPay E (DevolutionReceivedEvent (ready_devolution_received_event (snd ids) x))) (\<lambda>_.
             returnS x))))))))))))"

end
