(* ===== verification/Pix_Infractions.thy ===== *)
theory Pix_Infractions
  imports Pix_Devolutions
begin

text \<open>
  Infractions (apps/pix-payments/src/application/usecases): reports that the compliance team opens in
  the issue tracker and we send to the PSP, and reports that the PSP sends to us. A report that asks
  for a refund blocks the amount of the reported transaction in the wallet of the customer.
\<close>

section \<open>Loading and storing\<close>

definition loadInfraction :: "string \<Rightarrow> ('l, pix_infraction) pay_step" where
  "loadInfraction i = bindS (needData (needs i ''ID'')) (\<lambda>_.
     findS (PixInfractionRepository_getById i) (PixInfractionNotFound (Some i)))"

definition infractionByIssue :: "string \<Rightarrow> int \<Rightarrow> ('l, pix_infraction) pay_step" where
  "infractionByIssue name i = bindS (needData (missing (i = 0) name)) (\<lambda>_.
     findS (PixInfractionRepository_getByIssueId i) (PixInfractionNotFound None))"

definition infractionByPsp :: "string \<Rightarrow> ('l, pix_infraction) pay_step" where
  "infractionByPsp i =
     findS (PixInfractionRepository_getByInfractionPspId i) (PixInfractionNotFound (Some i))"

definition storeInfraction ::
    "'l pay_env \<Rightarrow> infraction_event_type \<Rightarrow> pix_infraction \<Rightarrow> ('l, pix_infraction) pay_step" where
  "storeInfraction E event x =
     bindS (dbM (PixInfractionRepository_update x)) (\<lambda>_.
     bindS (emitPay E (InfractionEvent event (plain_infraction_event x))) (\<lambda>_.
     returnS x))"

text \<open>An infraction that is there already is left alone; it may come from \<open>pending\<close> or an error.\<close>

definition whenInfraction ::
    "infraction_state \<Rightarrow> infraction_state \<Rightarrow> (pix_infraction \<Rightarrow> ('l, pix_infraction) pay_step)
     \<Rightarrow> pix_infraction \<Rightarrow> ('l, pix_infraction) pay_step" where
  "whenInfraction confirmed pending act x =
     (if inf_state x = confirmed then returnS x
      else if \<not> List.member [pending, IN_ERROR] (inf_state x)
      then throwS (PixInfractionInvalidState (Some (inf_state x)))
      else act x)"

section \<open>Blocked amounts\<close>

definition openBlocksOf :: "pix_infraction \<Rightarrow> refund_operation_filter" where
  "openBlocksOf x = \<lparr> rof_user = None, rof_pixInfraction = Some (inf_id x), rof_pixRefund = None,
     rof_states = Some [RO_OPEN] \<rparr>"

text \<open>Every operation is settled at the ledger before its row is closed.\<close>

definition closeBlock ::
    "(string \<Rightarrow> ('l, unit) pay_step) \<Rightarrow> refund_operation \<Rightarrow> ('l, unit) pay_step" where
  "closeBlock settle x = bindS (settle (ro_refundOperation x)) (\<lambda>_.
     dbM (PixInfractionRefundOperationRepository_update (x\<lparr>ro_state := RO_CLOSED\<rparr>)))"

definition closeBlocks ::
    "(string \<Rightarrow> ('l, unit) pay_step) \<Rightarrow> refund_operation_filter \<Rightarrow> ('l, unit) pay_step" where
  "closeBlocks settle f =
     bindS (dbR (\<lambda>d. Inr (PixInfractionRefundOperationRepository_getAllByFilter f d)))
       (foldS (closeBlock settle))"

definition revertRefundOperations :: "'l pay_env \<Rightarrow> refund_operation_filter \<Rightarrow> ('l, unit) pay_step" where
  "revertRefundOperations E = closeBlocks (\<lambda>i. ledgerS (os_revertOperation (pe_operations E) i))"

text \<open>The transaction that a report or a refund is about: a deposit, or a payment that came back.\<close>

datatype received_transaction =
    ReceivedDeposit pix_deposit
  | ReceivedDevolution pix_devolution_received

fun rt_id where
  "rt_id (ReceivedDeposit x) = dp_id x" | "rt_id (ReceivedDevolution x) = dr_id x"

fun rt_operation where
  "rt_operation (ReceivedDeposit x) = dp_operation x"
| "rt_operation (ReceivedDevolution x) = dr_operation x"

fun rt_wallet where
  "rt_wallet (ReceivedDeposit x) = dp_wallet x" | "rt_wallet (ReceivedDevolution x) = dr_wallet x"

fun rt_user where
  "rt_user (ReceivedDeposit x) = dp_user x" | "rt_user (ReceivedDevolution x) = dr_user x"

fun rt_endToEndId where
  "rt_endToEndId (ReceivedDeposit x) = dp_endToEndId x"
| "rt_endToEndId (ReceivedDevolution x) = dr_endToEndId x"

fun rt_kind where
  "rt_kind (ReceivedDeposit _) = TK_DEPOSIT" | "rt_kind (ReceivedDevolution _) = TK_DEVOLUTION_RECEIVED"

definition received :: "pix_deposit option \<Rightarrow> pix_devolution_received option \<Rightarrow> received_transaction option" where
  "received x y = (case x of Some d \<Rightarrow> Some (ReceivedDeposit d) | None \<Rightarrow> map_option ReceivedDevolution y)"

definition receivedOf :: "transaction_kind \<Rightarrow> string \<Rightarrow> pay_db \<Rightarrow> received_transaction option" where
  "receivedOf k i d =
     (if k = TK_DEPOSIT then map_option ReceivedDeposit (PixDepositRepository_getById i d)
      else map_option ReceivedDevolution (PixDevolutionReceivedRepository_getById i d))"

definition block_request :: "'l pay_env \<Rightarrow> string \<Rightarrow> int \<Rightarrow> operation_request" where
  "block_request E i value = \<lparr> or_id = i, or_rawValue = value,
     or_currencyTag = pc_currencyTag (pe_cfg E), or_description = pc_refundTag (pe_cfg E) \<rparr>"

text \<open>
  \<open>blockWalletAccountBalance\<close>: \<open>wanted\<close> is the amount of a refund, an infraction takes the value of
  the original operation. \<open>ids\<close>: of the new operation and of its row.
\<close>

definition blockBalance ::
    "'l pay_env \<Rightarrow> string \<times> string \<Rightarrow> int option \<Rightarrow> string option \<Rightarrow> string option
     \<Rightarrow> received_transaction \<Rightarrow> ('l, unit) pay_step" where
  "blockBalance E ids wanted infraction refund t =
     bindS (ledgerR (os_getOperationById (pe_operations E) (rt_operation t))) (\<lambda>original.
     case original of
       None \<Rightarrow> throwS (PayOperationNotFound (rt_operation t))
     | Some (_, value) \<Rightarrow>
         bindS (ledgerS (os_blockOperation (pe_operations E) (pc_refundTag (pe_cfg E))
                  (block_request E (fst ids) (case wanted of None \<Rightarrow> value | Some v \<Rightarrow> v))
                  (rt_wallet t))) (\<lambda>answer.
         case answer of
           None \<Rightarrow> returnS ()
         | Some (j, blocked) \<Rightarrow>
             PixInfractionRefundOperationRepository_create
               \<lparr> ro_id = snd ids, ro_state = RO_OPEN, ro_user = rt_user t,
                 ro_pixInfraction = infraction, ro_pixRefund = refund,
                 ro_originalOperation = rt_operation t, ro_originalValue = value,
                 ro_refundOperation = j, ro_refundValue = blocked \<rparr>))"

section \<open>Infractions that we report\<close>

text \<open>A missing type or status is \<open>None\<close>, a missing identifier empty or 0.\<close>

definition CreatePixInfractionUseCase_execute ::
    "'l pay_env \<Rightarrow> string \<Rightarrow> infraction_type option \<Rightarrow> string \<Rightarrow> infraction_status option \<Rightarrow> int
     \<Rightarrow> string option \<Rightarrow> ('l, pix_infraction) pay_step" where
  "CreatePixInfractionUseCase_execute E i ty operation status issueId description =
     bindS (needData (needs i ''Pix Infraction ID'' @ missing (ty = None) ''Infraction Type''
              @ needs operation ''Operation ID'' @ missing (status = None) ''Status''
              @ missing (issueId = 0) ''Issue ID'')) (\<lambda>_.
     bindS (dbR (\<lambda>d. Inr (PixInfractionRepository_getByIssueId issueId d))) (\<lambda>found.
     case found of
       Some x \<Rightarrow> returnS x
     | None \<Rightarrow>
         bindS (throwWhen (status \<noteq> Some IS_NEW) (PixInfractionInvalidState None)) (\<lambda>_.
         bindS (dbR (\<lambda>d. Inr (PaymentRepository_getByOperation operation d))) (\<lambda>payment.
         bindS (dbR (\<lambda>d. Inr (PixDevolutionRepository_getByOperation operation d))) (\<lambda>devolution.
         bindS (throwWhen (payment = None \<and> devolution = None) (PixTransactionNotFound None)) (\<lambda>_.
         bindS (given ty) (\<lambda>infractionType.
         let x = \<lparr> inf_id = i, inf_issueId = Some issueId, inf_infractionPspId = None,
                   inf_operation = None,
                   inf_transaction = (case payment of Some p \<Rightarrow> Some (py_id p)
                                      | None \<Rightarrow> map_option dv_id devolution),
                   inf_transactionType = TK_PAYMENT, inf_description = description,
                   inf_infractionType = infractionType, inf_status = IS_NEW,
                   inf_state = IN_NEW_CONFIRMED, inf_analysisResult = None,
                   inf_ispbDebitedParticipant = None, inf_ispbCreditedParticipant = None,
                   inf_reportBy = Some DEBITED_PARTICIPANT, inf_ispb = None, inf_endToEndId = None,
                   inf_creationDate = None, inf_lastChangeDate = None, inf_analysisDetails = None,
                   inf_isReporter = None, inf_closingDate = None, inf_cancellationDate = None,
                   inf_failed = None, inf_createdAt = 0 \<rparr>
         in
         bindS (PixInfractionRepository_create (env_now E) x) (\<lambda>y.
         bindS (emitPay E (InfractionEvent IE_NEW (plain_infraction_event y))) (\<lambda>_.
         returnS y)))))))))"

definition OpenPixInfractionUseCase_execute ::
    "'l pay_env \<Rightarrow> int \<Rightarrow> string option \<Rightarrow> ('l, pix_infraction) pay_step" where
  "OpenPixInfractionUseCase_execute E issueId description =
     bindS (infractionByIssue ''Issue ID'' issueId) (\<lambda>x.
     if inf_state x = IN_OPEN_PENDING then returnS x
     else storeInfraction E IE_OPEN_PENDING
       (x\<lparr>inf_status := IS_OPENED, inf_state := IN_OPEN_PENDING, inf_description := description\<rparr>))"

definition InAnalysisPixInfractionUseCase_execute ::
    "'l pay_env \<Rightarrow> int \<Rightarrow> string option \<Rightarrow> ('l, pix_infraction) pay_step" where
  "InAnalysisPixInfractionUseCase_execute E issueId description =
     bindS (infractionByIssue ''Issue ID'' issueId) (\<lambda>x.
     if inf_state x = IN_IN_ANALYSIS_CONFIRMED then returnS x
     else storeInfraction E IE_IN_ANALYSIS_CONFIRMED
       (x\<lparr>inf_status := IS_IN_ANALYSIS, inf_state := IN_IN_ANALYSIS_CONFIRMED,
          inf_description := description\<rparr>))"

definition ClosePixInfractionUseCase_execute ::
    "'l pay_env \<Rightarrow> int \<Rightarrow> analysis_result option \<Rightarrow> string option \<Rightarrow> ('l, pix_infraction) pay_step" where
  "ClosePixInfractionUseCase_execute E issueId result details =
     bindS (needData (missing (issueId = 0) ''Issue ID'' @ missing (result = None) ''Analysis Result'')) (\<lambda>_.
     bindS (infractionByIssue ''Issue ID'' issueId) (\<lambda>x.
     if List.member [IN_CLOSED_PENDING, IN_CLOSED_CONFIRMED] (inf_state x) then returnS x
     else
       let y = x\<lparr>inf_status := IS_CLOSED, inf_state := IN_CLOSED_PENDING,
                 inf_analysisResult := result, inf_analysisDetails := details\<rparr> in
       bindS (dbM (PixInfractionRepository_update y)) (\<lambda>_.
       bindS (whenS (result = Some DISAGREED \<and> inf_infractionType y = IT_REFUND_REQUEST
                \<and> inf_operation y \<noteq> None) (revertRefundOperations E (openBlocksOf y))) (\<lambda>_.
       bindS (emitPay E (InfractionEvent IE_CLOSED_PENDING (plain_infraction_event y))) (\<lambda>_.
       returnS y)))))"

definition CancelPixInfractionUseCase_execute :: "'l pay_env \<Rightarrow> int \<Rightarrow> ('l, pix_infraction) pay_step" where
  "CancelPixInfractionUseCase_execute E issueId =
     bindS (infractionByIssue ''ID'' issueId) (\<lambda>x.
     if List.member [IN_CANCEL_PENDING, IN_CANCEL_CONFIRMED] (inf_state x) then returnS x
     else storeInfraction E IE_CANCEL_PENDING
       (x\<lparr>inf_status := IS_CANCELLED, inf_state := IN_CANCEL_PENDING\<rparr>))"

section \<open>Sending them to the PSP\<close>

text \<open>What the PSP is told about a payment, or about a devolution and its deposit.\<close>

definition infraction_call_of :: "pix_infraction \<Rightarrow> infraction_call" where
  "infraction_call_of x = \<lparr> ic_operationTransactionId = inf_transaction x,
     ic_operationTransactionEndToEndId = None, ic_infractionType = inf_infractionType x,
     ic_reportDetails = inf_description x, ic_ispb = inf_ispb x,
     ic_ispbDebitedParticipant = inf_ispbDebitedParticipant x,
     ic_ispbCreditedParticipant = inf_ispbCreditedParticipant x, ic_reportBy = inf_reportBy x,
     ic_createdAt = inf_createdAt x, ic_personType = None, ic_document = None, ic_branch = None,
     ic_accountNumber = None \<rparr>"

definition getDocumentType :: "pix_deposit \<Rightarrow> person_type" where
  "getDocumentType x = (case dp_thirdPartPersonType x of DOC_CPF \<Rightarrow> NATURAL_PERSON | DOC_CNPJ \<Rightarrow> LEGAL_PERSON)"

definition reportedTransaction ::
    "pix_infraction \<Rightarrow> ('l, infraction_call) pay_step" where
  "reportedTransaction x =
     bindS (given (inf_transaction x)) (\<lambda>i.
     if inf_transactionType x = TK_PAYMENT then
       bindS (findS (PaymentRepository_getById i) (PixTransactionNotFound (Some i))) (\<lambda>p.
       returnS ((infraction_call_of x)\<lparr>ic_accountNumber := py_beneficiaryAccountNumber p,
         ic_branch := py_beneficiaryBranch p, ic_document := py_beneficiaryDocument p,
         ic_personType := py_beneficiaryPersonType p,
         ic_operationTransactionEndToEndId := py_endToEndId p\<rparr>))
     else
       bindS (dbR (\<lambda>d. Inr (getWithDepositById i d))) (\<lambda>found.
       case found of
         Some (v, Some y) \<Rightarrow>
           returnS ((infraction_call_of x)\<lparr>ic_accountNumber := dp_thirdPartAccountNumber y,
             ic_branch := dp_thirdPartBranch y, ic_document := dp_thirdPartDocument y,
             ic_personType := Some (getDocumentType y),
             ic_operationTransactionEndToEndId := dv_endToEndId v\<rparr>)
       | _ \<Rightarrow> throwS (PixTransactionNotFound (Some i))))"

definition opened_issue :: "infraction_call \<Rightarrow> pix_infraction \<Rightarrow> issue_update" where
  "opened_issue c x = \<lparr> iu_issueId = inf_issueId x, iu_description = None,
     iu_infractionPspId = inf_infractionPspId x,
     iu_ispbDebitedParticipant = inf_ispbDebitedParticipant x,
     iu_ispbCreditedParticipant = inf_ispbCreditedParticipant x, iu_reportBy = inf_reportBy x,
     iu_endToEndId = ic_operationTransactionEndToEndId c, iu_dueDate = None \<rparr>"

definition HandleOpenPendingPixInfractionEventUseCase_execute ::
    "'l pay_env \<Rightarrow> string \<Rightarrow> ('l, pix_infraction) pay_step" where
  "HandleOpenPendingPixInfractionEventUseCase_execute E i =
     bindS (loadInfraction i) (whenInfraction IN_OPEN_CONFIRMED IN_OPEN_PENDING (\<lambda>x.
     bindS (reportedTransaction x) (\<lambda>c.
     bindS (callS E (CreateInfraction c)) (\<lambda>a.
     let y = x\<lparr>inf_infractionPspId := an_infractionId a,
               inf_ispbDebitedParticipant := an_debitedParticipant a,
               inf_ispbCreditedParticipant := an_creditedParticipant a\<rparr> in
     bindS (callS E (UpdateIssueInfraction (opened_issue c y))) (\<lambda>_.
     storeInfraction E IE_OPEN_CONFIRMED
       (y\<lparr>inf_status := IS_OPENED, inf_state := IN_OPEN_CONFIRMED\<rparr>))))))"

definition HandleClosePendingPixInfractionEventUseCase_execute ::
    "'l pay_env \<Rightarrow> string \<Rightarrow> ('l, pix_infraction) pay_step" where
  "HandleClosePendingPixInfractionEventUseCase_execute E i =
     bindS (loadInfraction i) (whenInfraction IN_CLOSED_CONFIRMED IN_CLOSED_PENDING (\<lambda>x.
     bindS (callS E (CloseInfraction (inf_infractionPspId x) (inf_analysisResult x)
              (inf_analysisDetails x))) (\<lambda>_.
     storeInfraction E IE_CLOSED_CONFIRMED
       (x\<lparr>inf_status := IS_CLOSED, inf_state := IN_CLOSED_CONFIRMED\<rparr>))))"

definition HandleCancelPendingPixInfractionEventUseCase_execute ::
    "'l pay_env \<Rightarrow> string \<Rightarrow> ('l, pix_infraction) pay_step" where
  "HandleCancelPendingPixInfractionEventUseCase_execute E i =
     bindS (loadInfraction i) (whenInfraction IN_CANCEL_CONFIRMED IN_CANCEL_PENDING (\<lambda>x.
     bindS (callS E (CancelInfraction (inf_infractionPspId x))) (\<lambda>_.
     storeInfraction E IE_CANCEL_CONFIRMED (x\<lparr>inf_state := IN_CANCEL_CONFIRMED\<rparr>))))"

section \<open>Infractions reported to us\<close>

record infraction_request =
  ir_id :: string
  ir_creationDate :: "int option"
  ir_reportDetails :: "string option"
  ir_endToEndId :: string
  ir_infractionPspId :: string
  ir_infractionType :: "infraction_type option"
  ir_isReporter :: "bool option"
  ir_ispb :: "string option"
  ir_ispbCreditedParticipant :: "string option"
  ir_ispbDebitedParticipant :: "string option"
  ir_lastChangeDate :: "int option"
  ir_reportBy :: "infraction_report option"
  ir_status :: infraction_status
  ir_operationTransactionId :: string

definition received_infraction ::
    "infraction_request \<Rightarrow> infraction_type \<Rightarrow> string option \<Rightarrow> received_transaction \<Rightarrow> pix_infraction" where
  "received_infraction r ty operation t =
     \<lparr> inf_id = ir_id r, inf_issueId = None, inf_infractionPspId = Some (ir_infractionPspId r),
       inf_operation = operation, inf_transaction = Some (rt_id t), inf_transactionType = rt_kind t,
       inf_description = ir_reportDetails r, inf_infractionType = ty, inf_status = ir_status r,
       inf_state = IN_RECEIVE_PENDING, inf_analysisResult = None,
       inf_ispbDebitedParticipant = ir_ispbDebitedParticipant r,
       inf_ispbCreditedParticipant = ir_ispbCreditedParticipant r, inf_reportBy = ir_reportBy r,
       inf_ispb = ir_ispb r, inf_endToEndId = Some (ir_endToEndId r),
       inf_creationDate = ir_creationDate r, inf_lastChangeDate = ir_lastChangeDate r,
       inf_analysisDetails = None, inf_isReporter = ir_isReporter r, inf_closingDate = None,
       inf_cancellationDate = None, inf_failed = None, inf_createdAt = 0 \<rparr>"

definition infractionNames :: "infraction_request \<Rightarrow> string list" where
  "infractionNames r =
     needs (ir_id r) ''ID'' @ needs (ir_endToEndId r) ''End To End ID''
     @ needs (ir_infractionPspId r) ''Infraction PSP ID''
     @ missing (ir_infractionType r = None) ''Infraction Type''
     @ missing (ir_creationDate r = None) ''Create Change Date''
     @ missing (ir_lastChangeDate r = None) ''Last Change Date''"

text \<open>\<open>ids\<close>: drawn for the blocking operation and its row.\<close>

definition HandleReceivePixInfractionEventUseCase_execute ::
    "'l pay_env \<Rightarrow> string \<times> string \<Rightarrow> infraction_request \<Rightarrow> ('l, pix_infraction) pay_step" where
  "HandleReceivePixInfractionEventUseCase_execute E ids r =
     bindS (needData (infractionNames r)) (\<lambda>_.
     bindS (dbR (\<lambda>d. Inr (PixInfractionRepository_getByInfractionPspId (ir_infractionPspId r) d))) (\<lambda>found.
     case found of
       Some x \<Rightarrow> returnS x
     | None \<Rightarrow>
         bindS (throwWhen (ir_status r \<noteq> IS_ACKNOWLEDGED) (PixInfractionInvalidState None)) (\<lambda>_.
         bindS (findS (\<lambda>d. received
                    (PixDepositRepository_getByIdOrEndToEndId (ir_operationTransactionId r) (ir_endToEndId r) d)
                    (PixDevolutionReceivedRepository_getByIdOrEndToEndId (ir_operationTransactionId r)
                       (ir_endToEndId r) d))
                  (PixTransactionNotFound (Some (ir_operationTransactionId r)))) (\<lambda>t.
         bindS (given (ir_infractionType r)) (\<lambda>ty.
         let operation = (if ty = IT_REFUND_REQUEST then Some (fst ids) else None) in
         bindS (PixInfractionRepository_create (env_now E) (received_infraction r ty operation t)) (\<lambda>x.
         bindS (whenS (operation \<noteq> None) (blockBalance E ids None (Some (inf_id x)) None t)) (\<lambda>_.
         bindS (emitPay E (InfractionEvent IE_RECEIVE_PENDING (plain_infraction_event x))) (\<lambda>_.
         returnS x))))))))"

definition received_issue :: "'l pay_env \<Rightarrow> int option \<Rightarrow> pix_infraction \<Rightarrow> issue_update" where
  "received_issue E issueId x = \<lparr> iu_issueId = issueId, iu_description = inf_description x,
     iu_infractionPspId = inf_infractionPspId x,
     iu_ispbDebitedParticipant = inf_ispbDebitedParticipant x,
     iu_ispbCreditedParticipant = inf_ispbCreditedParticipant x, iu_reportBy = inf_reportBy x,
     iu_endToEndId = inf_endToEndId x,
     iu_dueDate = Some (m_startOfDay (pe_moment E)
       (m_addDays (pe_moment E) (pc_infractionDueDays (pe_cfg E)) (env_now E))) \<rparr>"

fun rt_clientDocument where
  "rt_clientDocument (ReceivedDeposit x) = dp_clientDocument x"
| "rt_clientDocument (ReceivedDevolution x) = dr_clientDocument x"

definition HandleReceivePendingPixInfractionEventUseCase_execute ::
    "'l pay_env \<Rightarrow> string \<Rightarrow> ('l, pix_infraction) pay_step" where
  "HandleReceivePendingPixInfractionEventUseCase_execute E i =
     bindS (loadInfraction i) (whenInfraction IN_RECEIVE_CONFIRMED IN_RECEIVE_PENDING (\<lambda>x.
     bindS (given (inf_transaction x)) (\<lambda>j.
     bindS (findS (receivedOf (inf_transactionType x) j) (PixTransactionNotFound None)) (\<lambda>t.
     bindS (callS E (CreateIssueInfraction (rt_clientDocument t) (inf_description x) (rt_operation t)
              (inf_infractionType x))) (\<lambda>a.
     bindS (callS E (UpdateIssueInfraction (received_issue E (an_issueId a) x))) (\<lambda>_.
     bindS (callS E (UpdateIssueInfractionStatus (an_issueId a) IS_RECEIVED)) (\<lambda>_.
     storeInfraction E IE_RECEIVE_CONFIRMED
       (x\<lparr>inf_issueId := an_issueId a, inf_state := IN_RECEIVE_CONFIRMED\<rparr>))))))))"

definition HandleAcknowledgePixInfractionEventUseCase_execute ::
    "'l pay_env \<Rightarrow> string \<Rightarrow> ('l, pix_infraction) pay_step" where
  "HandleAcknowledgePixInfractionEventUseCase_execute E pspId =
     bindS (needData (needs pspId ''infraction PSP ID'')) (\<lambda>_.
     bindS (infractionByPsp pspId) (\<lambda>x.
     if List.member [IN_ACKNOWLEDGED_PENDING, IN_ACKNOWLEDGED_CONFIRMED, IN_RECEIVE_PENDING,
          IN_RECEIVE_CONFIRMED] (inf_state x) then returnS x
     else storeInfraction E IE_ACKNOWLEDGED_PENDING
       (x\<lparr>inf_status := IS_ACKNOWLEDGED, inf_state := IN_ACKNOWLEDGED_PENDING\<rparr>)))"

definition HandleAcknowledgePendingPixInfractionEventUseCase_execute ::
    "'l pay_env \<Rightarrow> string \<Rightarrow> ('l, pix_infraction) pay_step" where
  "HandleAcknowledgePendingPixInfractionEventUseCase_execute E i =
     bindS (loadInfraction i) (whenInfraction IN_ACKNOWLEDGED_CONFIRMED IN_ACKNOWLEDGED_PENDING (\<lambda>x.
     bindS (callS E (UpdateIssueInfractionStatus (inf_issueId x) (inf_status x))) (\<lambda>_.
     storeInfraction E IE_ACKNOWLEDGED_CONFIRMED
       (x\<lparr>inf_status := IS_ACKNOWLEDGED, inf_state := IN_ACKNOWLEDGED_CONFIRMED\<rparr>))))"

definition pspDecision :: "string \<Rightarrow> analysis_result option \<Rightarrow> ('l, pix_infraction) pay_step" where
  "pspDecision pspId result =
     bindS (needData (needs pspId ''Infraction ID'' @ missing (result = None) ''Analysis Result''))
       (\<lambda>_. infractionByPsp pspId)"

definition HandleCancelPixInfractionReceivedEventUseCase_execute ::
    "'l pay_env \<Rightarrow> string \<Rightarrow> analysis_result option \<Rightarrow> string option \<Rightarrow> ('l, pix_infraction) pay_step" where
  "HandleCancelPixInfractionReceivedEventUseCase_execute E pspId result details =
     bindS (pspDecision pspId result) (\<lambda>x.
     if List.member [IN_CANCEL_PENDING, IN_CANCEL_CONFIRMED] (inf_state x) then returnS x
     else
       let y = x\<lparr>inf_status := IS_CANCELLED, inf_state := IN_CANCEL_PENDING,
                 inf_analysisResult := result, inf_analysisDetails := details\<rparr> in
       bindS (dbM (PixInfractionRepository_update y)) (\<lambda>_.
       bindS (revertRefundOperations E (openBlocksOf y)) (\<lambda>_.
       bindS (emitPay E (InfractionEvent IE_CANCEL_PENDING_RECEIVED (plain_infraction_event y))) (\<lambda>_.
       returnS y))))"

definition HandleCancelPendingPixInfractionReceivedEventUseCase_execute ::
    "'l pay_env \<Rightarrow> string \<Rightarrow> ('l, pix_infraction) pay_step" where
  "HandleCancelPendingPixInfractionReceivedEventUseCase_execute E i =
     bindS (loadInfraction i) (whenInfraction IN_CANCEL_CONFIRMED IN_CANCEL_PENDING (\<lambda>x.
     bindS (callS E (UpdateIssueInfractionStatus (inf_issueId x) (inf_status x))) (\<lambda>_.
     storeInfraction E IE_CANCEL_CONFIRMED_RECEIVED (x\<lparr>inf_state := IN_CANCEL_CONFIRMED\<rparr>))))"

definition HandleClosePixInfractionReceivedEventUseCase_execute ::
    "'l pay_env \<Rightarrow> string \<Rightarrow> analysis_result option \<Rightarrow> string option \<Rightarrow> ('l, pix_infraction) pay_step" where
  "HandleClosePixInfractionReceivedEventUseCase_execute E pspId result details =
     bindS (pspDecision pspId result) (\<lambda>x.
     if List.member [IN_CLOSED_PENDING, IN_CLOSED_CONFIRMED] (inf_state x) then returnS x
     else storeInfraction E IE_CLOSED_PENDING_RECEIVED
       (x\<lparr>inf_status := IS_CLOSED, inf_state := IN_CLOSED_PENDING,
          inf_analysisResult := result, inf_analysisDetails := details\<rparr>))"

definition HandleClosePendingPixInfractionReceivedEventUseCase_execute ::
    "'l pay_env \<Rightarrow> string \<Rightarrow> ('l, pix_infraction) pay_step" where
  "HandleClosePendingPixInfractionReceivedEventUseCase_execute E i =
     bindS (loadInfraction i) (whenInfraction IN_CLOSED_CONFIRMED IN_CLOSED_PENDING (\<lambda>x.
     bindS (callS E (UpdateIssueInfractionStatus (inf_issueId x) (inf_status x))) (\<lambda>_.
     storeInfraction E IE_CLOSED_CONFIRMED_RECEIVED (x\<lparr>inf_state := IN_CLOSED_CONFIRMED\<rparr>))))"

definition HandleRevertPixInfractionEventUseCase_execute ::
    "'l pay_env \<Rightarrow> string \<Rightarrow> failed option \<Rightarrow> ('l, pix_infraction) pay_step" where
  "HandleRevertPixInfractionEventUseCase_execute E i failure =
     bindS (loadInfraction i) (\<lambda>x.
     if inf_state x = IN_ERROR then returnS x
     else storeInfraction E IE_ERROR (x\<lparr>inf_failed := failure, inf_state := IN_ERROR\<rparr>))"

end
