(* ===== verification/Pix_Refunds.thy ===== *)
theory Pix_Refunds
  imports Pix_Infractions
begin

text \<open>
  Refunds (apps/pix-payments/src/application/usecases): another bank asks for its money back, the
  compliance team accepts or rejects the request, and what is blocked for it is sent back as a refund
  devolution; deposits that arrive while an amount is still short are blocked too. The crons that
  learn about infractions, refunds and devolutions from the PSP are here as well.
\<close>

section \<open>Loading and storing\<close>

definition loadRefund :: "string \<Rightarrow> ('l, pix_refund) pay_step" where
  "loadRefund i = bindS (needData (needs i ''ID'')) (\<lambda>_.
     findS (PixRefundRepository_getById i) (PixRefundNotFound (Some i)))"

definition storeRefund ::
    "'l pay_env \<Rightarrow> refund_event_type \<Rightarrow> pix_refund \<Rightarrow> ('l, pix_refund) pay_step" where
  "storeRefund E event x =
     bindS (dbM (PixRefundRepository_update x)) (\<lambda>_.
     bindS (emitPay E (RefundEvent event (plain_refund_event x))) (\<lambda>_.
     returnS x))"

definition whenRefund ::
    "refund_state list \<Rightarrow> refund_state \<Rightarrow> (pix_refund \<Rightarrow> ('l, pix_refund) pay_step)
     \<Rightarrow> pix_refund \<Rightarrow> ('l, pix_refund) pay_step" where
  "whenRefund done pending act x =
     (if List.member done (rf_state x) then returnS x
      else if \<not> List.member [pending, RF_ERROR] (rf_state x)
      then throwS (PixRefundInvalidState (Some (rf_state x)))
      else act x)"

definition openRefundBlocks :: "string \<Rightarrow> refund_operation_filter" where
  "openRefundBlocks i = \<lparr> rof_user = None, rof_pixInfraction = None, rof_pixRefund = Some i,
     rof_states = Some [RO_OPEN] \<rparr>"

section \<open>Receiving a request\<close>

text \<open>A missing infraction is empty.\<close>

record refund_request =
  fr_id :: string
  fr_infractionPspId :: string
  fr_contested :: "bool option"
  fr_amount :: int
  fr_description :: "string option"
  fr_reason :: "refund_reason option"
  fr_requesterBank :: "string option"
  fr_responderBank :: "string option"
  fr_status :: "refund_status option"
  fr_endToEndId :: string
  fr_solicitationPspId :: string

definition refundNames :: "refund_request \<Rightarrow> string list" where
  "refundNames r =
     needs (fr_id r) ''ID'' @ missing (fr_amount r = 0) ''Amount''
     @ missing (fr_status r = None) ''Status'' @ needs (fr_endToEndId r) ''Transaction EndToEndId''
     @ needs (fr_solicitationPspId r) ''Solicitation ID''"

text \<open>\<open>getMoment\<close> of a null date is now.\<close>

definition validateRelatedInfraction :: "'l pay_env \<Rightarrow> pix_infraction \<Rightarrow> ('l, unit) pay_step" where
  "validateRelatedInfraction E x =
     bindS (throwWhen (inf_state x \<noteq> IN_CLOSED_CONFIRMED \<or> inf_analysisResult x \<noteq> Some AGREED)
              (PixInfractionInvalidState (Some (inf_state x)))) (\<lambda>_.
     throwWhen (m_addDays (pe_moment E) 3 (dateOr (pe_moment E) (inf_closingDate x)) < env_now E)
       (PixRefundLimitDate (inf_id x)))"

definition linkRefund :: "string \<Rightarrow> refund_operation \<Rightarrow> ('l, unit) pay_step" where
  "linkRefund i x = dbM (PixInfractionRefundOperationRepository_update (x\<lparr>ro_pixRefund := Some i\<rparr>))"

definition associateRefundToPixInfractionRefundOperation ::
    "string \<Rightarrow> pix_infraction \<Rightarrow> ('l, unit) pay_step" where
  "associateRefundToPixInfractionRefundOperation i x =
     bindS (dbR (\<lambda>d. Inr (PixInfractionRefundOperationRepository_getAllByFilter
              \<lparr> rof_user = None, rof_pixInfraction = Some (inf_id x), rof_pixRefund = None,
                rof_states = None \<rparr> d))) (foldS (linkRefund i))"

definition received_refund ::
    "refund_request \<Rightarrow> refund_status \<Rightarrow> received_transaction \<Rightarrow> string option \<Rightarrow> string option
     \<Rightarrow> pix_refund" where
  "received_refund r status t infraction operation =
     \<lparr> rf_id = fr_id r, rf_solicitationPspId = Some (fr_solicitationPspId r),
       rf_infraction = infraction, rf_operation = operation, rf_transaction = Some (rt_id t),
       rf_transactionType = rt_kind t, rf_issueId = None, rf_contested = fr_contested r,
       rf_amount = fr_amount r, rf_description = fr_description r, rf_reason = fr_reason r,
       rf_requesterBank = fr_requesterBank r, rf_responderBank = fr_responderBank r,
       rf_status = status, rf_state = RF_RECEIVE_PENDING, rf_analysisDetails = None,
       rf_rejectionReason = None, rf_refundDevolution = None, rf_failed = None, rf_createdAt = 0 \<rparr>"

text \<open>
  A request that names an infraction takes over what the infraction has blocked, any other blocks
  its own amount. The state of the infraction is written without an event.
\<close>

definition refundOfInfraction ::
    "'l pay_env \<Rightarrow> refund_request \<Rightarrow> refund_status \<Rightarrow> received_transaction \<Rightarrow> string
     \<Rightarrow> ('l, pix_refund) pay_step" where
  "refundOfInfraction E r status t pspId =
     bindS (infractionByPsp pspId) (\<lambda>x.
     bindS (validateRelatedInfraction E x) (\<lambda>_.
     bindS (dbM (PixInfractionRepository_update (x\<lparr>inf_state := IN_REQUEST_REFUND_RECEIVED\<rparr>))) (\<lambda>_.
     bindS (associateRefundToPixInfractionRefundOperation (fr_id r) x) (\<lambda>_.
     returnS (received_refund r status t (Some (inf_id x)) (inf_operation x))))))"

definition refundOnItsOwn ::
    "'l pay_env \<Rightarrow> string \<times> string \<Rightarrow> refund_request \<Rightarrow> refund_status \<Rightarrow> received_transaction
     \<Rightarrow> ('l, pix_refund) pay_step" where
  "refundOnItsOwn E ids r status t =
     bindS (blockBalance E ids (Some (fr_amount r)) None (Some (fr_id r)) t) (\<lambda>_.
     returnS (received_refund r status t None (Some (fst ids))))"

definition HandleReceivePixRefundEventUseCase_execute ::
    "'l pay_env \<Rightarrow> string \<times> string \<Rightarrow> refund_request \<Rightarrow> ('l, pix_refund) pay_step" where
  "HandleReceivePixRefundEventUseCase_execute E ids r =
     bindS (needData (refundNames r)) (\<lambda>_.
     bindS (dbR (\<lambda>d. Inr (PixRefundRepository_getBySolicitationId (fr_solicitationPspId r) d))) (\<lambda>found.
     case found of
       Some x \<Rightarrow> returnS x
     | None \<Rightarrow>
         bindS (throwWhen (fr_status r \<noteq> Some RS_OPEN) (PixRefundInvalidState None)) (\<lambda>_.
         bindS (findS (\<lambda>d. received (PixDepositRepository_getByEndToEndId (fr_endToEndId r) d)
                    (PixDevolutionReceivedRepository_getByEndToEndId (fr_endToEndId r) d))
                  (PixTransactionNotFound (Some (fr_endToEndId r)))) (\<lambda>t.
         bindS (if fr_infractionPspId r \<noteq> []
                then refundOfInfraction E r RS_OPEN t (fr_infractionPspId r)
                else refundOnItsOwn E ids r RS_OPEN t) (\<lambda>x.
         bindS (PixRefundRepository_create (env_now E) x) (\<lambda>y.
         bindS (emitPay E (RefundEvent FE_RECEIVE_PENDING (plain_refund_event y))) (\<lambda>_.
         returnS y)))))))"

fun rt_clientName where
  "rt_clientName (ReceivedDeposit x) = dp_clientName x"
| "rt_clientName (ReceivedDevolution x) = dr_clientName x"

definition refund_issue_of :: "pix_refund \<Rightarrow> received_transaction \<Rightarrow> refund_issue" where
  "refund_issue_of x t = \<lparr> ri_clientName = rt_clientName t, ri_endToEndId = rt_endToEndId t,
     ri_amount = rf_amount x, ri_description = rf_description x, ri_reason = rf_reason x,
     ri_operation = rt_operation t \<rparr>"

definition HandleReceivePendingPixRefundUseCase_execute ::
    "'l pay_env \<Rightarrow> string \<Rightarrow> ('l, pix_refund) pay_step" where
  "HandleReceivePendingPixRefundUseCase_execute E i =
     bindS (loadRefund i) (whenRefund [RF_RECEIVE_CONFIRMED] RF_RECEIVE_PENDING (\<lambda>x.
     bindS (given (rf_transaction x)) (\<lambda>j.
     bindS (findS (receivedOf (rf_transactionType x) j) (PixTransactionNotFound None)) (\<lambda>t.
     bindS (callS E (CreateIssueRefund (refund_issue_of x t))) (\<lambda>a.
     bindS (callS E (UpdateIssueRefundStatus (an_issueId a) RS_RECEIVED)) (\<lambda>_.
     storeRefund E FE_RECEIVE_CONFIRMED
       (x\<lparr>rf_issueId := an_issueId a, rf_state := RF_RECEIVE_CONFIRMED\<rparr>)))))))"

section \<open>Deciding a request\<close>

definition refundByIssue :: "int \<Rightarrow> ('l, pix_refund) pay_step" where
  "refundByIssue i = findS (PixRefundRepository_getByIssueId i) (PixRefundNotFound None)"

definition CancelPixRefundUseCase_execute ::
    "'l pay_env \<Rightarrow> int \<Rightarrow> string option \<Rightarrow> refund_rejection_reason option \<Rightarrow> ('l, pix_refund) pay_step" where
  "CancelPixRefundUseCase_execute E issueId details reason =
     bindS (needData (missing (issueId = 0) ''Issue ID'')) (\<lambda>_.
     bindS (refundByIssue issueId) (\<lambda>x.
     if rf_state x = RF_CANCEL_PENDING then returnS x
     else
       let y = x\<lparr>rf_state := RF_CANCEL_PENDING, rf_status := RS_CANCELLED,
                 rf_analysisDetails := details, rf_rejectionReason := reason\<rparr> in
       bindS (dbM (PixRefundRepository_update y)) (\<lambda>_.
       bindS (revertRefundOperations E (openRefundBlocks (rf_id y))) (\<lambda>_.
       bindS (emitPay E (RefundEvent FE_CANCEL_PENDING (plain_refund_event y))) (\<lambda>_.
       returnS y)))))"

definition ClosePixRefundUseCase_execute ::
    "'l pay_env \<Rightarrow> int \<Rightarrow> string \<Rightarrow> ('l, pix_refund) pay_step" where
  "ClosePixRefundUseCase_execute E issueId details =
     bindS (needData (missing (issueId = 0) ''Issue ID'' @ needs details ''Analysis Details'')) (\<lambda>_.
     bindS (refundByIssue issueId) (\<lambda>x.
     if rf_state x = RF_CLOSED_PENDING then returnS x
     else storeRefund E FE_CLOSED_PENDING
       (x\<lparr>rf_state := RF_CLOSED_PENDING, rf_status := RS_CLOSED,
          rf_analysisDetails := Some details\<rparr>)))"

definition HandleCancelPendingPixRefundEventUseCase_execute ::
    "'l pay_env \<Rightarrow> string \<Rightarrow> ('l, pix_refund) pay_step" where
  "HandleCancelPendingPixRefundEventUseCase_execute E i =
     bindS (loadRefund i) (whenRefund [RF_CANCEL_CONFIRMED] RF_CANCEL_PENDING (\<lambda>x.
     bindS (callS E (CancelRefundRequest (rf_solicitationPspId x) (rf_status x)
              (rf_analysisDetails x) (rf_rejectionReason x))) (\<lambda>_.
     storeRefund E FE_CANCEL_CONFIRMED (x\<lparr>rf_state := RF_CANCEL_CONFIRMED\<rparr>))))"

text \<open>\<open>devolutionId\<close> is drawn; the devolution itself is created when its event is handled.\<close>

definition create_refund_devolution_event :: "string \<Rightarrow> pix_refund \<Rightarrow> refund_devolution_event" where
  "create_refund_devolution_event devolutionId x = \<lparr> xe_id = devolutionId, xe_state = DEV_PENDING,
     xe_user = None, xe_endToEndId = None, xe_failed = None, xe_refundId = Some (rf_id x) \<rparr>"

definition HandleClosePendingPixRefundEventUseCase_execute ::
    "'l pay_env \<Rightarrow> string \<Rightarrow> string \<Rightarrow> ('l, pix_refund) pay_step" where
  "HandleClosePendingPixRefundEventUseCase_execute E devolutionId i =
     bindS (loadRefund i) (whenRefund [RF_CLOSED_WAITING, RF_CLOSED_CONFIRMED] RF_CLOSED_PENDING (\<lambda>x.
     bindS (storeRefund E FE_CLOSED_WAITING
              (x\<lparr>rf_refundDevolution := Some devolutionId, rf_state := RF_CLOSED_WAITING\<rparr>)) (\<lambda>y.
     bindS (emitPay E (RefundDevolutionEvent XE_CREATE (create_refund_devolution_event devolutionId y))) (\<lambda>_.
     returnS y))))"

definition HandleRevertPixRefundEventUseCase_execute ::
    "'l pay_env \<Rightarrow> string \<Rightarrow> failed option \<Rightarrow> ('l, pix_refund) pay_step" where
  "HandleRevertPixRefundEventUseCase_execute E i failure =
     bindS (loadRefund i) (\<lambda>x.
     if rf_state x = RF_ERROR then returnS x
     else storeRefund E FE_ERROR (x\<lparr>rf_failed := failure, rf_state := RF_ERROR\<rparr>))"

section \<open>Refund devolutions\<close>

fun rt_amount where
  "rt_amount (ReceivedDeposit x) = dp_amount x" | "rt_amount (ReceivedDevolution x) = dr_amount x"

fun rt_returnedAmount where
  "rt_returnedAmount (ReceivedDeposit x) = dp_returnedAmount x"
| "rt_returnedAmount (ReceivedDevolution x) = dr_returnedAmount x"

fun rt_description where
  "rt_description (ReceivedDeposit x) = dp_description x"
| "rt_description (ReceivedDevolution x) = dr_description x"

fun rt_devolutionKind where
  "rt_devolutionKind (ReceivedDeposit _) = RD_DEPOSIT"
| "rt_devolutionKind (ReceivedDevolution _) = RD_DEVOLUTION_RECEIVED"

text \<open>Without an open block the amount is \<open>undefined\<close>.\<close>

definition calculateRefundAmount :: "string \<Rightarrow> pay_db \<Rightarrow> int option" where
  "calculateRefundAmount i d =
     (case PixInfractionRefundOperationRepository_getAllByFilter (openRefundBlocks i) d of
        [] \<Rightarrow> None
      | xs \<Rightarrow> Some (sum_list (map ro_refundValue xs)))"

text \<open>
  What is returned is added to the transaction that the type of the refund names; \<open>undefined\<close> makes it
  \<open>NaN\<close>, which the database refuses.
\<close>

definition addReturned ::
    "'l pay_env \<Rightarrow> transaction_kind \<Rightarrow> pix_deposit option \<Rightarrow> pix_devolution_received option
     \<Rightarrow> int option \<Rightarrow> ('l, int) pay_step" where
  "addReturned E kind deposit devolution amount =
     (if kind = TK_DEPOSIT then
        bindS (given deposit) (\<lambda>x.
        case amount of
          None \<Rightarrow> throwS (PayDatabaseError ''returnedAmount'')
        | Some a \<Rightarrow> bindS (dbM (PixDepositRepository_update (env_now E)
              (x\<lparr>dp_returnedAmount := dp_returnedAmount x + a\<rparr>))) (\<lambda>_. returnS a))
      else
        bindS (given devolution) (\<lambda>x.
        case amount of
          None \<Rightarrow> throwS (PayDatabaseError ''returnedAmount'')
        | Some a \<Rightarrow> bindS (dbM (PixDevolutionReceivedRepository_update
              (x\<lparr>dr_returnedAmount := dr_returnedAmount x + a\<rparr>))) (\<lambda>_. returnS a)))"

definition new_refund_devolution ::
    "string \<Rightarrow> string \<Rightarrow> int \<Rightarrow> pix_refund \<Rightarrow> received_transaction \<Rightarrow> pix_refund_devolution" where
  "new_refund_devolution i opId amount x t =
     \<lparr> rd_id = i, rd_user = rt_user t, rd_operation = opId, rd_transaction = Some (rt_id t),
       rd_transactionType = rt_devolutionKind t, rd_endToEndId = None, rd_amount = amount,
       rd_devolutionCode = DC_FRAUD, rd_description = rt_description t, rd_chargebackReason = None,
       rd_failed = None, rd_state = DEV_PENDING, rd_externalId = None, rd_updatedAt = 0 \<rparr>"

text \<open>The limits on a refund: its age, the amount received, the number of devolutions.\<close>

definition checkRefund ::
    "'l pay_env \<Rightarrow> string \<Rightarrow> pix_refund \<Rightarrow> received_transaction \<Rightarrow> ('l, unit) pay_step" where
  "checkRefund E j x t =
     bindS (throwWhen (\<not> canCreateRefundDevolution (pe_moment E)
                (pc_refundDevolutionIntervalDays (pe_cfg E)) x)
              (PixRefundTransactionExpiredDevolutionTime (rf_createdAt x))) (\<lambda>_.
     bindS (throwWhen (rt_amount t < rf_amount x) (PixRefundDevolutionAmountOverflow (rf_amount x))) (\<lambda>_.
     dbR (\<lambda>d. let n = countByTransaction (Some j) d; m = pc_refundDevolutionMaxNumber (pe_cfg E)
       in if m \<noteq> 0 \<and> m \<le> n then Inl (PixRefundDevolutionMaxNumber n) else Inr ())))"

definition HandleCreatePixRefundDevolutionEventUseCase_execute ::
    "'l pay_env \<Rightarrow> string \<Rightarrow> string \<Rightarrow> ('l, pix_refund_devolution) pay_step" where
  "HandleCreatePixRefundDevolutionEventUseCase_execute E i refundId =
     bindS (needData (needs i ''ID'' @ needs refundId ''Pix Refund ID'')) (\<lambda>_.
     bindS (dbR (\<lambda>d. Inr (PixRefundDevolutionRepository_getById i d))) (\<lambda>found.
     case found of
       Some v \<Rightarrow> returnS v
     | None \<Rightarrow>
         bindS (findS (PixRefundRepository_getById refundId) (PixRefundNotFound (Some refundId))) (\<lambda>x.
         bindS (given (rf_transaction x)) (\<lambda>j.
         bindS (dbR (\<lambda>d. Inr (PixDevolutionReceivedRepository_getById j d))) (\<lambda>devolution.
         bindS (dbR (\<lambda>d. Inr (PixDepositRepository_getById j d))) (\<lambda>deposit.
         case received deposit devolution of
           None \<Rightarrow> throwS (PixTransactionNotFound (Some j))
         | Some t \<Rightarrow>
             bindS (checkRefund E j x t) (\<lambda>_.
             bindS (dbR (\<lambda>d. Inr (calculateRefundAmount (rf_id x) d))) (\<lambda>refundAmount.
             let available = rt_amount t - rt_returnedAmount t in
             bindS (throwWhen (case refundAmount of None \<Rightarrow> False | Some a \<Rightarrow> available < a)
                      (PixRefundDevolutionAmountOverflow available)) (\<lambda>_.
             bindS (addReturned E (rf_transactionType x) deposit devolution refundAmount) (\<lambda>amount.
             bindS (case rf_operation x of None \<Rightarrow> throwS (PayNotNullViolation [''operationId''])
                    | Some k \<Rightarrow> returnS k) (\<lambda>opId.
             let v = new_refund_devolution i opId amount x t in
             bindS (PixRefundDevolutionRepository_create (env_now E) v) (\<lambda>_.
             bindS (emitPay E (RefundDevolutionEvent XE_PENDING (plain_refund_devolution_event v))) (\<lambda>_.
             returnS v)))))))))))))"

definition loadRefundDevolution :: "string \<Rightarrow> ('l, pix_refund_devolution) pay_step" where
  "loadRefundDevolution i = bindS (needData (needs i ''ID'')) (\<lambda>_.
     findS (PixRefundDevolutionRepository_getById i) (PixRefundDevolutionNotFound i))"

definition storeRefundDevolution ::
    "'l pay_env \<Rightarrow> refund_devolution_event_type \<Rightarrow> pix_refund_devolution
     \<Rightarrow> ('l, pix_refund_devolution) pay_step" where
  "storeRefundDevolution E event v =
     bindS (dbM (PixRefundDevolutionRepository_update (env_now E) v)) (\<lambda>_.
     bindS (emitPay E (RefundDevolutionEvent event (plain_refund_devolution_event v))) (\<lambda>_.
     returnS v))"

definition refund_call_of :: "pix_refund_devolution \<Rightarrow> received_transaction \<Rightarrow> devolution_call" where
  "refund_call_of v t = \<lparr> vc_id = rd_id v, vc_deposit = rt_id t, vc_depositEndToEndId = rt_endToEndId t,
     vc_amount = rd_amount v, vc_description = rd_description v, vc_code = rd_devolutionCode v \<rparr>"

definition sendRefundDevolutionPSP ::
    "'l pay_env \<Rightarrow> received_transaction \<Rightarrow> pix_refund_devolution \<Rightarrow> ('l, pix_refund_devolution) pay_step" where
  "sendRefundDevolutionPSP E t v =
     bindS (callS E (CreatePixDevolutionRefund (refund_call_of v t))) (\<lambda>a.
     storeRefundDevolution E XE_WAITING (v\<lparr>rd_endToEndId := an_endToEndId a, rd_state := DEV_WAITING,
       rd_externalId := an_externalId a\<rparr>))"

text \<open>The wallet that is credited is the one that the transaction was received on.\<close>

definition sendRefundDevolutionP2P ::
    "'l pay_env \<Rightarrow> received_transaction \<Rightarrow> pix_refund_devolution \<Rightarrow> ('l, pix_refund_devolution) pay_step" where
  "sendRefundDevolutionP2P E t v =
     bindS (ledgerS (os_createAndAcceptOperation (pe_operations E)
              (pc_sendRefundDevolutionTag (pe_cfg E))
              \<lparr> or_id = rd_operation v, or_rawValue = rd_amount v,
                or_currencyTag = pc_currencyTag (pe_cfg E),
                or_description = pc_sendRefundDevolutionTag (pe_cfg E) \<rparr>
              None (Some (rt_wallet t)))) (\<lambda>_.
     storeRefundDevolution E XE_CONFIRMED (v\<lparr>rd_state := DEV_CONFIRMED\<rparr>))"

fun rt_thirdPartBank where
  "rt_thirdPartBank (ReceivedDeposit x) = dp_thirdPartBank x"
| "rt_thirdPartBank (ReceivedDevolution x) = dr_thirdPartBank x"

fun rt_thirdPartAccountNumber where
  "rt_thirdPartAccountNumber (ReceivedDeposit x) = dp_thirdPartAccountNumber x"
| "rt_thirdPartAccountNumber (ReceivedDevolution x) = dr_thirdPartAccountNumber x"

definition HandlePendingPixRefundDevolutionEventUseCase_execute ::
    "'l pay_env \<Rightarrow> string \<Rightarrow> ('l, pix_refund_devolution) pay_step" where
  "HandlePendingPixRefundDevolutionEventUseCase_execute E i =
     bindS (loadRefundDevolution i) (\<lambda>v.
     if List.member [DEV_WAITING, DEV_CONFIRMED] (rd_state v) then returnS v
     else if rd_state v \<noteq> DEV_PENDING then throwS (PixRefundDevolutionInvalidState (rd_state v))
     else
       bindS (given (rd_transaction v)) (\<lambda>j.
       bindS (findS (\<lambda>d. received (PixDepositRepository_getById j d)
                  (PixDevolutionReceivedRepository_getById j d)) (PixTransactionNotFound (Some j))) (\<lambda>t.
       if bk_ispb (rt_thirdPartBank t) \<noteq> pc_zroBankIspb (pe_cfg E) then sendRefundDevolutionPSP E t v
       else
         bindS (givenId (rt_thirdPartAccountNumber t)) (\<lambda>number.
         bindS (ledgerR (os_getWalletAccountByAccountNumber (pe_operations E) number
                  (pc_currencyTag (pe_cfg E)))) (\<lambda>account.
         case account of
           None \<Rightarrow> throwS (PixRefundTransactionZroAccountNotExists (rt_id t))
         | Some a \<Rightarrow>
             bindS (throwWhen (\<not> ai_active a) (PayWalletAccountNotActive (ai_id a))) (\<lambda>_.
             sendRefundDevolutionP2P E t v))))))"

definition acceptPixInfractionRefundOperations :: "'l pay_env \<Rightarrow> string \<Rightarrow> ('l, unit) pay_step" where
  "acceptPixInfractionRefundOperations E i =
     closeBlocks (\<lambda>k. ledgerS (os_acceptOperation (pe_operations E) k)) (openRefundBlocks i)"

definition refundOfDevolution :: "pix_refund_devolution \<Rightarrow> ('l, pix_refund) pay_step" where
  "refundOfDevolution v =
     findS (PixRefundRepository_getByRefundDevolution (rd_id v)) (PixRefundNotFound None)"

definition refund_closing_of :: "pix_refund \<Rightarrow> pix_refund_devolution \<Rightarrow> refund_closing" where
  "refund_closing_of x v = \<lparr> rc_solicitationPspId = rf_solicitationPspId x, rc_status = rf_status x,
     rc_devolutionId = rf_refundDevolution x, rc_devolutionEndToEndId = rd_endToEndId v,
     rc_analysisDetails = rf_analysisDetails x \<rparr>"

definition HandleCompletePixRefundDevolutionEventUseCase_execute ::
    "'l pay_env \<Rightarrow> string \<Rightarrow> string option \<Rightarrow> ('l, pix_refund_devolution) pay_step" where
  "HandleCompletePixRefundDevolutionEventUseCase_execute E i e2e =
     bindS (loadRefundDevolution i) (\<lambda>v.
     if rd_state v = DEV_CONFIRMED then returnS v
     else if rd_state v \<noteq> DEV_WAITING then throwS (PixRefundDevolutionInvalidState (rd_state v))
     else
       bindS (refundOfDevolution v) (\<lambda>x.
       bindS (acceptPixInfractionRefundOperations E (rf_id x)) (\<lambda>_.
       bindS (storeRefundDevolution E XE_CONFIRMED (v\<lparr>rd_state := DEV_CONFIRMED, rd_endToEndId := e2e\<rparr>)) (\<lambda>w.
       bindS (callS E (CloseRefundRequest (refund_closing_of x w))) (\<lambda>_.
       bindS (storeRefund E FE_CLOSED_CONFIRMED (x\<lparr>rf_state := RF_CLOSED_CONFIRMED\<rparr>)) (\<lambda>_.
       returnS w))))))"

definition giveBackReturned :: "'l pay_env \<Rightarrow> pix_refund_devolution \<Rightarrow> ('l, unit) pay_step" where
  "giveBackReturned E v = whenS (rd_transactionType v = RD_DEPOSIT)
     (bindS (given (rd_transaction v)) (\<lambda>j.
      bindS (findS (PixDepositRepository_getById j) (PixDepositNotFound j)) (\<lambda>x.
      dbM (PixDepositRepository_update (env_now E)
        (x\<lparr>dp_returnedAmount := dp_returnedAmount x - rd_amount v\<rparr>)))))"

definition revertRefundBlocks :: "'l pay_env \<Rightarrow> pix_refund_devolution \<Rightarrow> ('l, unit) pay_step" where
  "revertRefundBlocks E v =
     bindS (ledgerR (os_getOperationById (pe_operations E) (rd_operation v))) (\<lambda>found.
     whenS (found \<noteq> None)
       (bindS (refundOfDevolution v) (\<lambda>x. revertRefundOperations E (openRefundBlocks (rf_id x)))))"

definition HandleRevertPixRefundDevolutionEventUseCase_execute ::
    "'l pay_env \<Rightarrow> string \<Rightarrow> string option \<Rightarrow> failed option \<Rightarrow> ('l, pix_refund_devolution) pay_step" where
  "HandleRevertPixRefundDevolutionEventUseCase_execute E i reason failure =
     bindS (loadRefundDevolution i) (\<lambda>v.
     if rd_state v = DEV_FAILED then returnS v
     else if \<not> List.member [DEV_PENDING, DEV_WAITING, DEV_CONFIRMED] (rd_state v)
     then throwS (PixRefundDevolutionInvalidState (rd_state v))
     else
       bindS (giveBackReturned E v) (\<lambda>_.
       bindS (storeRefundDevolution E XE_FAILED
                (v\<lparr>rd_state := DEV_FAILED, rd_chargebackReason := reason, rd_failed := failure\<rparr>)) (\<lambda>w.
       bindS (revertRefundBlocks E w) (\<lambda>_.
       returnS w))))"

section \<open>Blocking what arrives later\<close>

text \<open>
  \<open>sumByOriginalOperationId\<close>: per original operation its value, what is blocked of it, and one of its
  rows, in the order of insertion.
\<close>

type_synonym block_sum = "string \<times> int \<times> int \<times> refund_operation"

fun addToSum :: "refund_operation \<Rightarrow> block_sum list \<Rightarrow> block_sum list" where
  "addToSum x [] = [(ro_originalOperation x, ro_originalValue x, ro_refundValue x, x)]"
| "addToSum x ((i, v, s, y) # r) =
     (if i = ro_originalOperation x then (i, v, s + ro_refundValue x, y) # r
      else (i, v, s, y) # addToSum x r)"

definition sumByOriginalOperation :: "refund_operation list \<Rightarrow> block_sum list" where
  "sumByOriginalOperation xs = fold addToSum xs []"

definition blockFor ::
    "'l pay_env \<Rightarrow> string \<Rightarrow> string \<Rightarrow> int \<Rightarrow> refund_operation
     \<Rightarrow> ('l, int \<times> (string \<times> int) option) pay_step" where
  "blockFor E i wallet value x =
     bindS (ledgerR (os_getOperationById (pe_operations E) (ro_originalOperation x))) (\<lambda>original.
     case original of
       None \<Rightarrow> throwS (PayOperationNotFound (ro_originalOperation x))
     | Some (_, v) \<Rightarrow>
         bindS (ledgerS (os_blockOperation (pe_operations E) (pc_refundTag (pe_cfg E))
                  (block_request E i value) wallet)) (\<lambda>answer.
         returnS (v, answer)))"

definition storeBlock ::
    "string \<Rightarrow> refund_operation \<Rightarrow> int \<times> (string \<times> int) option \<Rightarrow> ('l, unit) pay_step" where
  "storeBlock rowId x a =
     (case snd a of
        None \<Rightarrow> throwS (PayNotNullViolation [''refundOperationId'', ''refundOperationValue''])
      | Some (j, blocked) \<Rightarrow>
          PixInfractionRefundOperationRepository_create (x\<lparr>ro_id := rowId, ro_state := RO_OPEN,
            ro_originalValue := fst a, ro_refundOperation := j, ro_refundValue := blocked\<rparr>))"

text \<open>The operations created so far are reverted when one fails; their rows stay.\<close>

definition giveUp :: "'l pay_env \<Rightarrow> string list \<Rightarrow> pay_exn \<Rightarrow> ('l, 'a) pay_step" where
  "giveUp E created e =
     bindS (foldS (\<lambda>i. ledgerS (os_revertOperation (pe_operations E) i)) created) (\<lambda>_. throwS e)"

definition blockShortfall ::
    "'l pay_env \<Rightarrow> string \<Rightarrow> string \<Rightarrow> string \<Rightarrow> int \<Rightarrow> refund_operation \<Rightarrow> string list
     \<Rightarrow> ('l, string list) pay_step" where
  "blockShortfall E i rowId wallet value x created =
     bindS (tryS (blockFor E i wallet value x)) (\<lambda>r.
     case r of
       Inl e \<Rightarrow> giveUp E created e
     | Inr a \<Rightarrow>
         bindS (tryS (storeBlock rowId x a)) (\<lambda>r'.
         case r' of
           Inl e \<Rightarrow> giveUp E (created @ [i]) e
         | Inr _ \<Rightarrow> returnS (created @ [i])))"

fun blockShortfalls ::
    "'l pay_env \<Rightarrow> string \<Rightarrow> (nat \<Rightarrow> string) \<Rightarrow> string \<Rightarrow> int \<Rightarrow> block_sum list \<Rightarrow> string list
     \<Rightarrow> ('l, unit) pay_step" where
  "blockShortfalls E i rows wallet amount [] created = returnS ()"
| "blockShortfalls E i rows wallet amount ((_, v, s, x) # r) created =
     (if s < v then
        bindS (blockShortfall E i (rows (length r)) wallet (min (v - s) amount) x created)
          (blockShortfalls E i rows wallet amount r)
      else blockShortfalls E i rows wallet amount r created)"

text \<open>\<open>rows\<close>: the identifiers drawn for the rows. \<open>state\<close> tells whether a state was given.\<close>

definition HandleCreatePixInfractionRefundOperationUseCase_execute ::
    "'l pay_env \<Rightarrow> (nat \<Rightarrow> string) \<Rightarrow> string \<Rightarrow> string \<Rightarrow> bool \<Rightarrow> string \<Rightarrow> string \<Rightarrow> int
     \<Rightarrow> ('l, unit) pay_step" where
  "HandleCreatePixInfractionRefundOperationUseCase_execute E rows i transactionId state user wallet amount =
     bindS (needData (needs i ''Refund Operation ID'' @ needs transactionId ''Pix Transaction ID''
              @ missing (\<not> state) ''Pix transaction State'' @ needs user ''Pix transaction User ID''
              @ needs wallet ''Pix transaction Wallet ID'' @ missing (amount = 0) ''Pix transaction Amount'')) (\<lambda>_.
     bindS (dbR (\<lambda>d. Inr (PixInfractionRefundOperationRepository_getAllByFilter
              \<lparr> rof_user = Some user, rof_pixInfraction = None, rof_pixRefund = None,
                rof_states = Some [RO_OPEN] \<rparr> d))) (\<lambda>blocks.
     if blocks = [] then returnS ()
     else
       bindS (ledgerR (os_getOperationById (pe_operations E) i)) (\<lambda>found.
       if found \<noteq> None then returnS ()
       else blockShortfalls E i rows wallet amount (sumByOriginalOperation blocks) [])))"

section \<open>The crons\<close>

definition received_infraction_event :: "string \<Rightarrow> psp_infraction \<Rightarrow> infraction_event" where
  "received_infraction_event i p = empty_infraction_event\<lparr>ie_id := Some i,
     ie_infractionPspId := Some (pi_infractionId p), ie_infractionType := Some (pi_infractionType p),
     ie_status := Some (pi_status p), ie_ispbDebitedParticipant := pi_debitedParticipant p,
     ie_ispbCreditedParticipant := pi_creditedParticipant p, ie_reportBy := pi_reportedBy p,
     ie_ispb := pi_ispb p, ie_endToEndId := pi_endToEndId p, ie_creationDate := pi_creationDate p,
     ie_lastChangeDate := pi_lastChangeDate p, ie_isReporter := pi_isReporter p,
     ie_operationTransactionId := pi_operationTransactionId p,
     ie_reportDetails := pi_reportDetails p\<rparr>"

definition decided_infraction_event :: "psp_infraction \<Rightarrow> infraction_event" where
  "decided_infraction_event p = empty_infraction_event\<lparr>ie_infractionPspId := Some (pi_infractionId p),
     ie_analysisDetails := pi_analysisDetails p, ie_analysisResult := pi_analysisResult p\<rparr>"

text \<open>The stored infractions are searched by the identifier of the PSP among their own identifiers.\<close>

definition syncInfraction :: "'l pay_env \<Rightarrow> (nat \<Rightarrow> string) \<Rightarrow> nat \<times> psp_infraction \<Rightarrow> ('l, unit) pay_step" where
  "syncInfraction E drawn np = (let p = snd np in
     case pi_status p of
       IS_ACKNOWLEDGED \<Rightarrow>
         bindS (dbR (\<lambda>d. Inr (PixInfractionRepository_getById (pi_infractionId p) d))) (\<lambda>found.
         if found = None
         then emitPay E (InfractionEvent IE_RECEIVE (received_infraction_event (drawn (fst np)) p))
         else emitPay E (InfractionEvent IE_ACKNOWLEDGE
                (empty_infraction_event\<lparr>ie_infractionPspId := Some (pi_infractionId p)\<rparr>)))
     | IS_CANCELLED \<Rightarrow> emitPay E (InfractionEvent IE_CANCEL_RECEIVED (decided_infraction_event p))
     | IS_CLOSED \<Rightarrow> emitPay E (InfractionEvent IE_CLOSE_RECEIVED (decided_infraction_event p))
     | _ \<Rightarrow> returnS ())"

definition SyncPixInfractionUseCase_execute :: "'l pay_env \<Rightarrow> (nat \<Rightarrow> string) \<Rightarrow> ('l, unit) pay_step" where
  "SyncPixInfractionUseCase_execute E drawn =
     bindS (askS (pe_getInfractions E)) (\<lambda>ps. foldS (syncInfraction E drawn) (enumerate 0 ps))"

definition received_refund_event :: "string \<Rightarrow> psp_refund \<Rightarrow> refund_event" where
  "received_refund_event i p = \<lparr> fe_id = i, fe_state = None,
     fe_solicitationPspId = Some (pf_solicitationId p), fe_contested = pf_contested p,
     fe_amount = Some (pf_refundAmount p), fe_description = pf_refundDetails p,
     fe_reason = pf_refundReason p, fe_requesterIspb = pf_requesterIspb p,
     fe_responderIspb = pf_responderIspb p, fe_status = Some (pf_status p),
     fe_endToEndIdTransaction = pf_transactionEndToEndId p, fe_infractionId = pf_infractionId p \<rparr>"

definition syncRefund :: "'l pay_env \<Rightarrow> (nat \<Rightarrow> string) \<Rightarrow> nat \<times> psp_refund \<Rightarrow> ('l, unit) pay_step" where
  "syncRefund E drawn np = (case pf_status (snd np) of
     RS_OPEN \<Rightarrow> emitPay E (RefundEvent FE_RECEIVE (received_refund_event (drawn (fst np)) (snd np)))
   | _ \<Rightarrow> returnS ())"

definition SyncPixRefundUseCase_execute :: "'l pay_env \<Rightarrow> (nat \<Rightarrow> string) \<Rightarrow> ('l, unit) pay_step" where
  "SyncPixRefundUseCase_execute E drawn =
     bindS (askS (pe_getRefundRequests E RS_OPEN)) (\<lambda>ps. foldS (syncRefund E drawn) (enumerate 0 ps))"

definition syncRefundDevolution ::
    "'l pay_env \<Rightarrow> (pix_refund_devolution \<Rightarrow> status_query) \<Rightarrow> pix_refund_devolution \<Rightarrow> ('l, unit) pay_step" where
  "syncRefundDevolution E query v =
     (case askStatus E (query v) of
        None \<Rightarrow> returnS ()
      | Some a \<Rightarrow>
          (case sa_status a of
             ST_SETTLED \<Rightarrow> emitPay E (RefundDevolutionEvent XE_COMPLETED
               ((plain_refund_devolution_event v)\<lparr>xe_endToEndId := sa_endToEndId a\<rparr>))
           | ST_CHARGEBACK \<Rightarrow> emitPay E (RefundDevolutionEvent XE_REVERTED
               ((plain_refund_devolution_event v)\<lparr>xe_failed := pe_translate E (sa_errorCode a)\<rparr>))
           | _ \<Rightarrow> returnS ()))"

definition SyncWaitingPixRefundDevolutionUseCase_execute :: "'l pay_env \<Rightarrow> ('l, unit) pay_step" where
  "SyncWaitingPixRefundDevolutionUseCase_execute E =
     bindS (dbR (\<lambda>d. Inr (PixRefundDevolutionRepository_getAllByStateAndThresholdDate DEV_WAITING
              (thresholdDate E) BEFORE_THAN d)))
       (foldS (syncRefundDevolution E (\<lambda>v. GetPayment (rd_id v) (rd_endToEndId v))))"

definition SyncWaitingRecentPixRefundDevolutionUseCase_execute :: "'l pay_env \<Rightarrow> ('l, unit) pay_step" where
  "SyncWaitingRecentPixRefundDevolutionUseCase_execute E =
     bindS (dbR (\<lambda>d. Inr (PixRefundDevolutionRepository_getAllByStateAndThresholdDate DEV_WAITING
              (thresholdDate E) AFTER_OR_EQUAL_THAN d)))
       (foldS (syncRefundDevolution E (\<lambda>v. GetPaymentById (rd_id v) (rd_externalId v))))"

end
