(* ===== verification/Pix_Payment_Requests.thy ===== *)
theory Pix_Payment_Requests
  imports Pix_Refunds
begin

text \<open>
  The requests of the pix payments service: which use cases are served to other services, which
  handle events and which run as crons, with any arguments, any answers of the services they ask,
  and any identifiers drawn. Between them other services may use the ledger, keys in Redis may
  expire, and the tables that decoding and back-office use cases own may change.
\<close>

abbreviation run :: "('l, 'a) pay_step \<Rightarrow> ('l, unit) pay_step" where
  "run f \<equiv> bindS f (\<lambda>_. returnS ())"

inductive served_usecase :: "'l operation_service \<Rightarrow> ('l, unit) pay_step \<Rightarrow> bool"
  for ops :: "'l operation_service" where
  by_account: "pe_operations E = ops \<Longrightarrow>
    served_usecase ops (run (CreateByAccountPaymentUseCase_execute E i user wallet r))"
| by_key: "pe_operations E = ops \<Longrightarrow>
    served_usecase ops (run (CreateByPixKeyPaymentUseCase_execute E i user wallet r))"
| by_static: "pe_operations E = ops \<Longrightarrow>
    served_usecase ops (run (CreateByQrCodeStaticPaymentUseCase_execute E i user wallet r))"
| by_dynamic: "pe_operations E = ops \<Longrightarrow>
    served_usecase ops (run (CreateByQrCodeDynamicPaymentUseCase_execute E i user wallet r))"
| by_duedate: "pe_operations E = ops \<Longrightarrow>
    served_usecase ops (run (DuedateByQrCodeDynamicPaymentUseCase_execute E i user wallet r))"
| by_static_withdrawal: "pe_operations E = ops \<Longrightarrow>
    served_usecase ops (run (WithdrawalByQrCodeStaticPaymentUseCase_execute E i user wallet r))"
| by_dynamic_withdrawal: "pe_operations E = ops \<Longrightarrow>
    served_usecase ops (run (WithdrawalByQrCodeDynamicPaymentUseCase_execute E i user wallet r))"
| by_change: "pe_operations E = ops \<Longrightarrow>
    served_usecase ops (run (ChangeByQrCodeDynamicPaymentUseCase_execute E i j user wallet r))"
| payment_chargeback: "pe_operations E = ops \<Longrightarrow>
    served_usecase ops (run (ReceivePaymentChargebackUseCase_execute E i reason failure))"
| cancel: "pe_operations E = ops \<Longrightarrow>
    served_usecase ops (run (CancelPaymentByOperationIdUseCase_execute E wallet i))"
| receive_deposit: "pe_operations E = ops \<Longrightarrow>
    served_usecase ops (run (ReceivePixDepositUseCase_execute E i rq))"
| approve: "pe_operations E = ops \<Longrightarrow>
    served_usecase ops (run (ApprovePixDepositUseCase_execute E j i))"
| block: "pe_operations E = ops \<Longrightarrow>
    served_usecase ops (run (BlockPixDepositUseCase_execute E j i))"
| ask_back: "pe_operations E = ops \<Longrightarrow>
    served_usecase ops (run (CreateWarningPixDevolutionUseCase_execute E j user i))"
| create_devolution: "pe_operations E = ops \<Longrightarrow>
    served_usecase ops (run (CreatePixDevolutionController_execute E j i user wallet operation amount description))"
| devolution_chargeback: "pe_operations E = ops \<Longrightarrow>
    served_usecase ops (run (ReceivePixDevolutionChargebackUseCase_execute E i reason failure))"
| devolution_received: "pe_operations E = ops \<Longrightarrow>
    served_usecase ops (run (ReceivePixDevolutionReceivedUseCase_execute E ids paymentKey rq))"
| create_infraction: "pe_operations E = ops \<Longrightarrow>
    served_usecase ops (run (CreatePixInfractionUseCase_execute E i ty operation status issueId description))"
| open_infraction: "pe_operations E = ops \<Longrightarrow>
    served_usecase ops (run (OpenPixInfractionUseCase_execute E issueId description))"
| analyse_infraction: "pe_operations E = ops \<Longrightarrow>
    served_usecase ops (run (InAnalysisPixInfractionUseCase_execute E issueId description))"
| close_infraction: "pe_operations E = ops \<Longrightarrow>
    served_usecase ops (run (ClosePixInfractionUseCase_execute E issueId result details))"
| cancel_infraction: "pe_operations E = ops \<Longrightarrow>
    served_usecase ops (run (CancelPixInfractionUseCase_execute E issueId))"
| receive_infraction: "pe_operations E = ops \<Longrightarrow>
    served_usecase ops (run (HandleReceivePixInfractionEventUseCase_execute E ids ir))"
| acknowledge_infraction: "pe_operations E = ops \<Longrightarrow>
    served_usecase ops (run (HandleAcknowledgePixInfractionEventUseCase_execute E pspId))"
| infraction_cancelled: "pe_operations E = ops \<Longrightarrow>
    served_usecase ops (run (HandleCancelPixInfractionReceivedEventUseCase_execute E pspId result details))"
| infraction_closed: "pe_operations E = ops \<Longrightarrow>
    served_usecase ops (run (HandleClosePixInfractionReceivedEventUseCase_execute E pspId result details))"
| receive_refund: "pe_operations E = ops \<Longrightarrow>
    served_usecase ops (run (HandleReceivePixRefundEventUseCase_execute E ids fr))"
| cancel_refund: "pe_operations E = ops \<Longrightarrow>
    served_usecase ops (run (CancelPixRefundUseCase_execute E issueId details rejection))"
| close_refund: "pe_operations E = ops \<Longrightarrow>
    served_usecase ops (run (ClosePixRefundUseCase_execute E issueId note))"

inductive observed_usecase :: "'l operation_service \<Rightarrow> ('l, unit) pay_step \<Rightarrow> bool"
  for ops :: "'l operation_service" where
  pending_payment: "pe_operations E = ops \<Longrightarrow>
    observed_usecase ops (run (HandlePendingPaymentEventUseCase_execute E depId refundId i))"
| complete_payment: "pe_operations E = ops \<Longrightarrow>
    observed_usecase ops (run (HandleCompletePaymentEventUseCase_execute E i e2e))"
| revert_payment: "pe_operations E = ops \<Longrightarrow>
    observed_usecase ops (run (HandleRevertPaymentEventUseCase_execute E i reason failure))"
| failed_deposit: "pe_operations E = ops \<Longrightarrow>
    observed_usecase ops (run (HandleReceiveFailedPixDepositEventUseCase_execute E drawn rq))"
| check_deposit: "pe_operations E = ops \<Longrightarrow>
    observed_usecase ops (run (WarningDepositChecker_execute E c i))"
| waiting_deposit: "pe_operations E = ops \<Longrightarrow>
    observed_usecase ops (run (HandleWaitingPixDepositEventUseCase_execute E j refundId i))"
| pending_devolution: "pe_operations E = ops \<Longrightarrow>
    observed_usecase ops (run (HandlePendingPixDevolutionEventUseCase_execute E ids i))"
| complete_devolution: "pe_operations E = ops \<Longrightarrow>
    observed_usecase ops (run (HandleCompletePixDevolutionEventUseCase_execute E i e2e))"
| revert_devolution: "pe_operations E = ops \<Longrightarrow>
    observed_usecase ops (run (HandleRevertPixDevolutionEventUseCase_execute E i reason failure))"
| create_failed: "pe_operations E = ops \<Longrightarrow>
    observed_usecase ops (run (HandleCreateFailedPixDevolutionEventUseCase_execute E j i depId))"
| pending_failed: "pe_operations E = ops \<Longrightarrow>
    observed_usecase ops (run (HandlePendingFailedPixDevolutionEventUseCase_execute E i))"
| create_warning: "pe_operations E = ops \<Longrightarrow>
    observed_usecase ops (run (HandleCreateWarningPixDevolutionEventUseCase_execute E i j))"
| pending_warning: "pe_operations E = ops \<Longrightarrow>
    observed_usecase ops (run (HandlePendingWarningPixDevolutionEventUseCase_execute E i))"
| complete_warning: "pe_operations E = ops \<Longrightarrow>
    observed_usecase ops (run (HandleCompleteWarningPixDevolutionEventUseCase_execute E i e2e))"
| revert_warning: "pe_operations E = ops \<Longrightarrow>
    observed_usecase ops (run (HandleRevertWarningPixDevolutionEventUseCase_execute E i reason failure))"
| open_pending_infraction: "pe_operations E = ops \<Longrightarrow>
    observed_usecase ops (run (HandleOpenPendingPixInfractionEventUseCase_execute E i))"
| close_pending_infraction: "pe_operations E = ops \<Longrightarrow>
    observed_usecase ops (run (HandleClosePendingPixInfractionEventUseCase_execute E i))"
| cancel_pending_infraction: "pe_operations E = ops \<Longrightarrow>
    observed_usecase ops (run (HandleCancelPendingPixInfractionEventUseCase_execute E i))"
| receive_pending_infraction: "pe_operations E = ops \<Longrightarrow>
    observed_usecase ops (run (HandleReceivePendingPixInfractionEventUseCase_execute E i))"
| acknowledge_pending_infraction: "pe_operations E = ops \<Longrightarrow>
    observed_usecase ops (run (HandleAcknowledgePendingPixInfractionEventUseCase_execute E i))"
| cancelled_pending_infraction: "pe_operations E = ops \<Longrightarrow>
    observed_usecase ops (run (HandleCancelPendingPixInfractionReceivedEventUseCase_execute E i))"
| closed_pending_infraction: "pe_operations E = ops \<Longrightarrow>
    observed_usecase ops (run (HandleClosePendingPixInfractionReceivedEventUseCase_execute E i))"
| revert_infraction: "pe_operations E = ops \<Longrightarrow>
    observed_usecase ops (run (HandleRevertPixInfractionEventUseCase_execute E i failure))"
| receive_pending_refund: "pe_operations E = ops \<Longrightarrow>
    observed_usecase ops (run (HandleReceivePendingPixRefundUseCase_execute E i))"
| cancel_pending_refund: "pe_operations E = ops \<Longrightarrow>
    observed_usecase ops (run (HandleCancelPendingPixRefundEventUseCase_execute E i))"
| close_pending_refund: "pe_operations E = ops \<Longrightarrow>
    observed_usecase ops (run (HandleClosePendingPixRefundEventUseCase_execute E j i))"
| revert_refund: "pe_operations E = ops \<Longrightarrow>
    observed_usecase ops (run (HandleRevertPixRefundEventUseCase_execute E i failure))"
| create_refund_devolution: "pe_operations E = ops \<Longrightarrow>
    observed_usecase ops (run (HandleCreatePixRefundDevolutionEventUseCase_execute E i j))"
| pending_refund_devolution: "pe_operations E = ops \<Longrightarrow>
    observed_usecase ops (run (HandlePendingPixRefundDevolutionEventUseCase_execute E i))"
| complete_refund_devolution: "pe_operations E = ops \<Longrightarrow>
    observed_usecase ops (run (HandleCompletePixRefundDevolutionEventUseCase_execute E i e2e))"
| revert_refund_devolution: "pe_operations E = ops \<Longrightarrow>
    observed_usecase ops (run (HandleRevertPixRefundDevolutionEventUseCase_execute E i reason failure))"
| block_later: "pe_operations E = ops \<Longrightarrow>
    observed_usecase ops (run (HandleCreatePixInfractionRefundOperationUseCase_execute E rows i transactionId st user wallet amount))"

inductive cron_usecase :: "'l operation_service \<Rightarrow> ('l, unit) pay_step \<Rightarrow> bool"
  for ops :: "'l operation_service" where
  scheduled: "pe_operations E = ops \<Longrightarrow> cron_usecase ops (SyncScheduledPaymentUseCase_execute E)"
| waiting: "pe_operations E = ops \<Longrightarrow> cron_usecase ops (SyncWaitingPaymentUseCase_execute E)"
| recent: "pe_operations E = ops \<Longrightarrow> cron_usecase ops (SyncWaitingRecentPaymentUseCase_execute E)"
| waiting_devolution: "pe_operations E = ops \<Longrightarrow>
    cron_usecase ops (SyncWaitingPixDevolutionUseCase_execute E)"
| recent_devolution: "pe_operations E = ops \<Longrightarrow>
    cron_usecase ops (SyncWaitingRecentPixDevolutionUseCase_execute E)"
| waiting_warning: "pe_operations E = ops \<Longrightarrow>
    cron_usecase ops (SyncWaitingWarningPixDevolutionUseCase_execute E)"
| recent_warning: "pe_operations E = ops \<Longrightarrow>
    cron_usecase ops (SyncWaitingRecentWarningPixDevolutionUseCase_execute E)"
| infractions: "pe_operations E = ops \<Longrightarrow> cron_usecase ops (SyncPixInfractionUseCase_execute E drawn)"
| refunds: "pe_operations E = ops \<Longrightarrow> cron_usecase ops (SyncPixRefundUseCase_execute E drawn)"
| waiting_refund_devolution: "pe_operations E = ops \<Longrightarrow>
    cron_usecase ops (SyncWaitingPixRefundDevolutionUseCase_execute E)"
| recent_refund_devolution: "pe_operations E = ops \<Longrightarrow>
    cron_usecase ops (SyncWaitingRecentPixRefundDevolutionUseCase_execute E)"

text \<open>\<open>others\<close> relates the states of the ledger before and after a request of another service.\<close>

inductive pay_request ::
    "'l operation_service \<Rightarrow> ('l \<Rightarrow> 'l \<Rightarrow> bool) \<Rightarrow> 'l pay_world \<Rightarrow> 'l pay_world \<Rightarrow> bool"
  for ops :: "'l operation_service" and others :: "'l \<Rightarrow> 'l \<Rightarrow> bool" where
  served: "served_usecase ops f \<Longrightarrow> pay_request ops others w (served f w)"
| observed: "observed_usecase ops f \<Longrightarrow> pay_request ops others w (observed f w)"
| cron: "cron_usecase ops f \<Longrightarrow> pay_request ops others w (cronRun f w)"
| ledger: "others (pw_ledger w) l \<Longrightarrow> pay_request ops others w (w\<lparr>pw_ledger := l\<rparr>)"
| expired: "pay_request ops others w (w\<lparr>pw_redis := \<lparr> depositCache = filter P (depositCache (pw_redis w)),
    depositHashes = filter Q (depositHashes (pw_redis w)), skipCache = skipped \<rparr>\<rparr>)"
| decoded: "pay_request ops others w (w\<lparr>pw_db := (pw_db w)\<lparr>decodedQrCodes := codes,
    decodedAccounts := accounts, skipList := skipped, blockedCpfs := cpfs, blockedBanks := banks\<rparr>\<rparr>)"

abbreviation pay_requests ::
    "'l operation_service \<Rightarrow> ('l \<Rightarrow> 'l \<Rightarrow> bool) \<Rightarrow> 'l pay_world \<Rightarrow> 'l pay_world \<Rightarrow> bool" where
  "pay_requests ops others \<equiv> (pay_request ops others)\<^sup>*\<^sup>*"

end
