(* ===== verification/Pix_Payment_Frames.thy ===== *)
theory Pix_Payment_Frames
  imports Pix_Payment_Requests
begin

text \<open>
  What a use case may do to the state, whether it returns or throws, as a reflexive and transitive
  relation between the states before and after: the rules that carry such a relation from the steps
  to the use cases, and from the use cases to the requests.
\<close>

section \<open>Steps within a relation\<close>

named_theorems frame \<open>steps that stay within a relation\<close>

definition inside :: "('s \<Rightarrow> 's \<Rightarrow> bool) \<Rightarrow> ('s, 'e, 'a) step \<Rightarrow> bool" where
  "inside R f \<longleftrightarrow> (\<forall>s. R s (snd (f s)))"

text \<open>A fact about every value that a step returns.\<close>

definition gives :: "('s, 'e, 'a) step \<Rightarrow> ('a \<Rightarrow> bool) \<Rightarrow> bool" where
  "gives f C \<longleftrightarrow> (\<forall>s x s'. f s = (Inr x, s') \<longrightarrow> C x)"

lemma inside_use: "inside R f \<Longrightarrow> f s = (r, s') \<Longrightarrow> R s s'"
  by (metis snd_conv inside_def)

lemma gives_use: "gives f C \<Longrightarrow> f s = (Inr x, s') \<Longrightarrow> C x"
  unfolding gives_def by blast

lemma gives_bindS: "gives m C \<Longrightarrow> (\<And>x. C x \<Longrightarrow> gives (f x) D) \<Longrightarrow> gives (bindS m f) D"
  by (fastforce simp: gives_def result_simps)

lemma gives_returnS [simp]: "gives (returnS x) C \<longleftrightarrow> C x"
  by (simp add: gives_def returnS_def)

lemma gives_throwS [simp]: "gives (throwS e) C"
  by (simp add: gives_def throwS_def)

lemma valid_gives:
  assumes "gives f C" and "keeps f I"
  shows "valid I f (\<lambda>x w. C x \<and> I w) I"
  unfolding valid_def
proof (intro allI impI)
  fix s assume "I s"
  with assms show "case f s of (Inl e, s') \<Rightarrow> I s' | (Inr x, s') \<Rightarrow> C x \<and> I s'"
    by (cases "f s"; cases "fst (f s)") (auto simp: valid_def gives_def dest!: spec [of _ s])
qed

lemma valid_fact: "(C \<Longrightarrow> valid P f Q E) \<Longrightarrow> valid (\<lambda>w. C \<and> P w) f Q E"
  by (auto simp: valid_def)

locale step_relation =
  fixes R :: "'s \<Rightarrow> 's \<Rightarrow> bool"
  assumes refl [simp]: "R s s"
    and trans: "R s s1 \<Longrightarrow> R s1 s2 \<Longrightarrow> R s s2"
begin

lemma inside_basic [frame]:
  "inside R (returnS x)" "inside R (throwS e)" "inside R (readS g)" "inside R (throwWhen c e')"
  by (simp_all add: inside_def returnS_def throwS_def readS_def throwWhen_def)

lemma inside_bindS [frame]:
  "inside R m \<Longrightarrow> (\<And>x. inside R (f x)) \<Longrightarrow> inside R (bindS m f)"
  unfolding inside_def bindS_def
  by (auto split: prod.splits sum.splits) (metis snd_conv trans)+

lemma inside_bindS_gives:
  "inside R m \<Longrightarrow> gives m C \<Longrightarrow> (\<And>x. C x \<Longrightarrow> inside R (f x)) \<Longrightarrow> inside R (bindS m f)"
  unfolding inside_def gives_def bindS_def
  by (auto split: prod.splits sum.splits) (metis snd_conv trans)+

lemma inside_if [frame]: "(c \<Longrightarrow> inside R f) \<Longrightarrow> (\<not> c \<Longrightarrow> inside R g) \<Longrightarrow> inside R (if c then f else g)"
  by simp

lemma inside_option [frame]:
  "inside R f \<Longrightarrow> (\<And>x. inside R (g x)) \<Longrightarrow> inside R (case m of None \<Rightarrow> f | Some x \<Rightarrow> g x)"
  by (cases m) auto

lemma inside_prod [frame]: "(\<And>x y. inside R (f x y)) \<Longrightarrow> inside R (case p of (x, y) \<Rightarrow> f x y)"
  by (cases p) auto

lemma inside_whenS [frame]: "inside R f \<Longrightarrow> inside R (whenS c f)"
  by (simp add: whenS_def frame)

lemma inside_foldS [frame]: "(\<And>x. inside R (f x)) \<Longrightarrow> inside R (foldS f xs)"
  by (induction xs) (auto intro!: frame)

lemma inside_sum [frame]:
  "(\<And>e. inside R (f e)) \<Longrightarrow> (\<And>x. inside R (g x)) \<Longrightarrow> inside R (case m of Inl e \<Rightarrow> f e | Inr x \<Rightarrow> g x)"
  by (cases m) auto

lemma inside_tryS [frame]: "inside R f \<Longrightarrow> inside R (tryS f)"
  by (auto simp: inside_def tryS_def split: prod.splits) (metis snd_conv)

text \<open>A predicate on the state that the relation preserves is kept by the steps within it.\<close>

lemma inside_keeps: "inside R f \<Longrightarrow> (\<And>s s'. R s s' \<Longrightarrow> P s \<Longrightarrow> P s') \<Longrightarrow> keeps f P"
  unfolding inside_def valid_def by (auto split: prod.splits sum.splits) (metis snd_conv)+

end

section \<open>Steps of the pix payments service\<close>

text \<open>Relations that do not look at Redis, the outbox or the calls.\<close>

locale pay_relation = step_relation R
  for R :: "'l pay_world \<Rightarrow> 'l pay_world \<Rightarrow> bool" +
  assumes outbox: "R w (w\<lparr>pw_db := (pw_db w)\<lparr>payOutbox := out\<rparr>\<rparr>)"
    and calls: "R w (w\<lparr>pw_calls := c\<rparr>)"
begin

lemma inside_reads [frame]:
  "inside R (dbR f)" "inside R (redisR g)" "inside R (askS q)" "inside R (ledgerR h)"
  "inside R (needData names)" "inside R (foundS r e)" "inside R (findS i e')" "inside R (givenId x)"
  "inside R (given y)"
  by (auto simp: dbR_def redisR_def askS_def ledgerR_def needData_def foundS_def findS_def
      givenId_def given_def intro!: frame)

lemma inside_dbM: "(\<And>w. R w (w\<lparr>pw_db := f (pw_db w)\<rparr>)) \<Longrightarrow> inside R (dbM f)"
  by (simp add: inside_def dbM_def modifyS_def)

lemma inside_redisM: "(\<And>w. R w (w\<lparr>pw_redis := f (pw_redis w)\<rparr>)) \<Longrightarrow> inside R (redisM f)"
  by (simp add: inside_def redisM_def modifyS_def)

lemma inside_ledgerS: "(\<And>w r l. f (pw_ledger w) = (r, l) \<Longrightarrow> R w (w\<lparr>pw_ledger := l\<rparr>)) \<Longrightarrow> inside R (ledgerS f)"
  by (simp add: inside_def ledgerS_def split: prod.splits)

lemma inside_callS [frame]: "inside R (callS E c)"
  by (simp add: inside_def callS_def calls)

lemma inside_emitPay [frame]: "inside R (emitPay E e)"
  by (auto simp: emitPay_def Let_def outbox intro!: frame inside_dbM)

lemma inside_insertRow:
  "(\<And>w t. tbl_create key PayUniqueConstraint r (table (pw_db w)) = Inr t
     \<Longrightarrow> R w (w\<lparr>pw_db := upd (\<lambda>_. t) (pw_db w)\<rparr>)) \<Longrightarrow> inside R (insertRow key table upd r)"
  by (auto simp: inside_def insertRow_def bindS_def dbR_def readS_def dbM_def modifyS_def
      split: sum.splits)

lemma inside_run [frame]: "inside R f \<Longrightarrow> inside R (run f)"
  by (intro frame)

end

section \<open>Requests within a relation\<close>

lemma pay_request_inside:
  assumes request: "pay_request ops others w w'"
    and use: "\<And>f. served_usecase ops f \<or> observed_usecase ops f \<or> cron_usecase ops f \<Longrightarrow> inside R f"
    and rollback: "\<And>w1. R w w1 \<Longrightarrow> R w (w1\<lparr>pw_db := pw_db w\<rparr>)"
    and outbox: "\<And>w1 out. R w w1 \<Longrightarrow> R w (w1\<lparr>pw_db := (pw_db w1)\<lparr>payOutbox := out\<rparr>\<rparr>)"
    and ledger: "\<And>l. others (pw_ledger w) l \<Longrightarrow> R w (w\<lparr>pw_ledger := l\<rparr>)"
    and expired: "\<And>P Q s. R w (w\<lparr>pw_redis := \<lparr> depositCache = filter P (depositCache (pw_redis w)),
      depositHashes = filter Q (depositHashes (pw_redis w)), skipCache = s \<rparr>\<rparr>)"
    and decoded: "\<And>c a s b k. R w (w\<lparr>pw_db := (pw_db w)\<lparr>decodedQrCodes := c, decodedAccounts := a,
      skipList := s, blockedCpfs := b, blockedBanks := k\<rparr>\<rparr>)"
  shows "R w w'"
  using request
proof cases
  case (served f)
  with use have "R w (snd (f w))" by (auto simp: inside_def)
  with served rollback show ?thesis
    by (auto simp: Pix_Payment_World.served_def split: prod.splits sum.splits)
next
  case (observed f)
  with use show ?thesis by (auto simp: Pix_Payment_World.observed_def inside_def)
next
  case (cron f)
  with use have "R w (snd (f w))" by (auto simp: inside_def)
  with cron outbox show ?thesis by (auto simp: cronRun_def split: prod.splits sum.splits)
qed (auto intro: ledger expired decoded)

end
