(* ===== verification/Pix_Payment_Ledger.thy ===== *)
theory Pix_Payment_Ledger
  imports Pix_Payment_Frames
begin

text \<open>
  Payments and the ledger. The contract of the operations service as the payments need it is a
  locale: what an operation becomes when a call returns, and that no call, returning or not, and no
  other service changes the value of an operation or the state of a settled one. On it rest the
  life cycle of the payments and the agreement of their states with those of their operations.
\<close>

section \<open>The ledger as the payments see it\<close>

text \<open>State and terms of every operation: the wallet that pays, if any, and the value.\<close>

type_synonym order_terms = "string option \<times> int"

type_synonym order_view = "string \<Rightarrow> (operation_state \<times> order_terms) option"

definition orders_evolve :: "order_view \<Rightarrow> order_view \<Rightarrow> bool" where
  "orders_evolve v v' \<longleftrightarrow> (\<forall>i s x. v i = Some (s, x) \<longrightarrow>
     (\<exists>s'. v' i = Some (s', x) \<and> (s \<noteq> PENDING \<longrightarrow> s' = s)))"

lemma orders_evolve_refl [simp]: "orders_evolve v v"
  by (simp add: orders_evolve_def)

lemma orders_evolve_trans: "orders_evolve v v1 \<Longrightarrow> orders_evolve v1 v2 \<Longrightarrow> orders_evolve v v2"
  unfolding orders_evolve_def by metis

lemma orders_evolve_known: "orders_evolve v v' \<Longrightarrow> v i = Some (s, x) \<Longrightarrow> \<exists>s'. v' i = Some (s', x)"
  unfolding orders_evolve_def by blast

lemma orders_evolve_final: "orders_evolve v v' \<Longrightarrow> v i = Some (s, x) \<Longrightarrow> s \<noteq> PENDING \<Longrightarrow> v' i = Some (s, x)"
  unfolding orders_evolve_def by blast

lemma orders_evolve_None: "orders_evolve v v' \<Longrightarrow> v' i = None \<Longrightarrow> v i = None"
  unfolding orders_evolve_def by (metis not_None_eq option.distinct(1) surj_pair)

locale payment_ledger =
  fixes ops :: "'l operation_service" and ok :: "'l \<Rightarrow> bool" and view :: "'l \<Rightarrow> order_view"
    and others :: "'l \<Rightarrow> 'l \<Rightarrow> bool"
  assumes create: "ok l \<Longrightarrow> os_createOperation ops tag rq payer payee l = (r, l') \<Longrightarrow>
      ok l' \<and> orders_evolve (view l) (view l') \<and> (isInr r \<longrightarrow>
        view l (or_id rq) = None \<and> view l' (or_id rq) = Some (PENDING, payer, or_rawValue rq))"
    and create_accept: "ok l \<Longrightarrow> os_createAndAcceptOperation ops tag rq payer payee l = (r, l') \<Longrightarrow>
      ok l' \<and> orders_evolve (view l) (view l') \<and> (isInr r \<longrightarrow>
        view l (or_id rq) = None \<and> view l' (or_id rq) = Some (ACCEPTED, payer, or_rawValue rq))"
    and block: "ok l \<Longrightarrow> os_blockOperation ops tag rq owner l = (b, l') \<Longrightarrow>
      ok l' \<and> orders_evolve (view l) (view l') \<and> (isInr b \<longrightarrow>
        (\<exists>v. b = Inr (Some (or_id rq, v)) \<and> 0 \<le> v \<and> v \<le> or_rawValue rq \<and> view l (or_id rq) = None
          \<and> view l' (or_id rq) = Some (PENDING, Some owner, v)))"
    and accept: "ok l \<Longrightarrow> os_acceptOperation ops i l = (r, l') \<Longrightarrow>
      ok l' \<and> orders_evolve (view l) (view l') \<and> (isInr r \<longrightarrow>
        (\<exists>x. view l i = Some (PENDING, x) \<and> view l' i = Some (ACCEPTED, x)))"
    and revert: "ok l \<Longrightarrow> os_revertOperation ops i l = (r, l') \<Longrightarrow>
      ok l' \<and> orders_evolve (view l) (view l') \<and> (isInr r \<longrightarrow> (\<exists>x. view l' i = Some (REVERTED, x)))"
    and reference: "ok l \<Longrightarrow> os_setOperationReference ops i j l = (r, l') \<Longrightarrow>
      ok l' \<and> orders_evolve (view l) (view l')"
    and lookup: "ok l \<Longrightarrow> os_getOperationById ops i l = Inr x \<Longrightarrow> x = map_option (\<lambda>(s, y). (s, snd y)) (view l i)"
    and other: "ok l \<Longrightarrow> others l l' \<Longrightarrow> ok l' \<and> orders_evolve (view l) (view l')"

section \<open>Payments and their operations\<close>

definition operations_of :: "payment \<Rightarrow> string set" where
  "operations_of p = set_option (py_operation p) \<union> set_option (py_changeOperation p)"

definition py_terms :: "payment \<Rightarrow> order_terms" where
  "py_terms p = (Some (py_wallet p), py_value p)"

definition committed :: "payment \<Rightarrow> bool" where
  "committed p \<longleftrightarrow> py_state p = PAY_WAITING \<or> py_state p = PAY_CONFIRMED"

text \<open>
  A payment that was handed over blocks its value in operations of its own; a confirmed payment has
  its operations accepted, a failed one none but reverted.
\<close>

definition row_ok :: "order_view \<Rightarrow> payment \<Rightarrow> bool" where
  "row_ok v p \<longleftrightarrow>
     (committed p \<longrightarrow> py_operation p \<noteq> None \<and> py_operation p \<noteq> py_changeOperation p
        \<and> (\<forall>i \<in> operations_of p. \<exists>s. v i = Some (s, py_terms p)))
     \<and> (py_state p = PAY_CONFIRMED \<longrightarrow> (\<forall>i \<in> operations_of p. v i = Some (ACCEPTED, py_terms p)))
     \<and> (py_state p = PAY_FAILED \<longrightarrow> (\<forall>i \<in> operations_of p. \<exists>x. v i = Some (REVERTED, x)))"

definition pay_inv :: "order_view \<Rightarrow> payment list \<Rightarrow> bool" where
  "pay_inv v ps \<longleftrightarrow> tbl_wf py_id ps \<and> (\<forall>p \<in> set ps. row_ok v p)
     \<and> (\<forall>p \<in> set ps. \<forall>q \<in> set ps. committed p \<longrightarrow> committed q
          \<longrightarrow> operations_of p \<inter> operations_of q \<noteq> {} \<longrightarrow> p = q)"

lemma committed_known:
  "row_ok v p \<Longrightarrow> committed p \<Longrightarrow> i \<in> operations_of p \<Longrightarrow> \<exists>s. v i = Some (s, py_terms p)"
  by (simp add: row_ok_def)

lemma inv_row: "pay_inv v ps \<Longrightarrow> p \<in> set ps \<Longrightarrow> row_ok v p"
  by (simp add: pay_inv_def)

lemma inv_apart:
  "pay_inv v ps \<Longrightarrow> p \<in> set ps \<Longrightarrow> q \<in> set ps \<Longrightarrow> committed p \<Longrightarrow> committed q
     \<Longrightarrow> i \<in> operations_of p \<Longrightarrow> i \<in> operations_of q \<Longrightarrow> p = q"
  unfolding pay_inv_def by blast

lemma inv_wf: "pay_inv v ps \<Longrightarrow> tbl_wf py_id ps"
  by (simp add: pay_inv_def)

lemma row_ok_evolve:
  assumes "row_ok v p" and "orders_evolve v v'"
  shows "row_ok v' p"
proof -
  have "\<exists>s'. v' i = Some (s', x)" if "\<exists>s. v i = Some (s, x)" for i x
    using that orders_evolve_known [OF assms(2)] by blast
  moreover have "v' i = Some (s, x)" if "v i = Some (s, x)" "s \<noteq> PENDING" for i s x
    using that orders_evolve_final [OF assms(2)] by blast
  ultimately show ?thesis using assms(1) unfolding row_ok_def
    by (elim conjE, intro conjI impI ballI) (simp_all, blast)
qed

lemma pay_inv_evolve: "pay_inv v ps \<Longrightarrow> orders_evolve v v' \<Longrightarrow> pay_inv v' ps"
  unfolding pay_inv_def using row_ok_evolve by blast

text \<open>The states that a payment may still come to.\<close>

fun later_states :: "payment_state \<Rightarrow> payment_state set" where
  "later_states PAY_SCHEDULED =
     {PAY_SCHEDULED, PAY_CANCELED, PAY_PENDING, PAY_WAITING, PAY_CONFIRMED, PAY_FAILED}"
| "later_states PAY_PENDING = {PAY_PENDING, PAY_WAITING, PAY_CONFIRMED, PAY_FAILED}"
| "later_states PAY_WAITING = {PAY_WAITING, PAY_CONFIRMED, PAY_FAILED}"
| "later_states s = {s}"

lemma later_states_refl [simp]: "s \<in> later_states s"
  by (cases s) auto

lemma later_states_trans: "t \<in> later_states s \<Longrightarrow> u \<in> later_states t \<Longrightarrow> u \<in> later_states s"
  by (cases s; cases t) auto

text \<open>
  A payment keeps what it was ordered with; an operation is only taken off when it fails.
\<close>

definition kept_or_dropped :: "payment \<Rightarrow> 'a option \<Rightarrow> 'a option \<Rightarrow> bool" where
  "kept_or_dropped p x y \<longleftrightarrow> y = x \<or> y = None \<and> py_state p = PAY_FAILED"

definition follows :: "payment \<Rightarrow> payment \<Rightarrow> bool" where
  "follows p q \<longleftrightarrow> py_id q = py_id p \<and> py_value q = py_value p \<and> py_wallet q = py_wallet p
     \<and> py_user q = py_user p \<and> beneficiary.truncate q = beneficiary.truncate p
     \<and> kept_or_dropped q (py_operation p) (py_operation q)
     \<and> kept_or_dropped q (py_changeOperation p) (py_changeOperation q)
     \<and> py_state q \<in> later_states (py_state p)"

text \<open>Payments that no request changes any more.\<close>

definition over :: "order_view \<Rightarrow> payment \<Rightarrow> bool" where
  "over v p \<longleftrightarrow> py_state p = PAY_CONFIRMED \<or> py_state p = PAY_FAILED \<or> py_state p = PAY_CANCELED
     \<or> py_state p = PAY_PENDING \<and> (\<exists>i x. py_operation p = Some i \<and> v i = Some (ACCEPTED, x))"

definition rows_follow :: "order_view \<Rightarrow> payment list \<Rightarrow> payment list \<Rightarrow> bool" where
  "rows_follow v ps qs \<longleftrightarrow>
     (\<forall>p \<in> set ps. \<exists>q \<in> set qs. follows p q \<and> (over v p \<longrightarrow> q = p))"

lemma follows_refl [simp]: "follows p p"
  by (simp add: follows_def kept_or_dropped_def)

lemma follows_trans: "follows p q \<Longrightarrow> follows q r \<Longrightarrow> follows p r"
  unfolding follows_def kept_or_dropped_def
  by (elim conjE, intro conjI) (auto intro: later_states_trans)

lemma over_evolve: "over v p \<Longrightarrow> orders_evolve v v' \<Longrightarrow> over v' p"
  unfolding over_def using orders_evolve_final [of v v'] by blast

lemma rows_follow_refl [simp]: "rows_follow v ps ps"
  unfolding rows_follow_def using follows_refl by blast

lemma rows_follow_trans:
  assumes "rows_follow v ps qs" and "rows_follow v' qs rs" and "orders_evolve v v'"
  shows "rows_follow v ps rs"
  using assms over_evolve follows_trans unfolding rows_follow_def by metis

text \<open>A row is written over another: it takes over the operations of the old row, or opens new ones.\<close>

lemma payment_row_core [simp]:
  "py_id (payment_row now p q) = py_id q" "py_value (payment_row now p q) = py_value q"
  "py_wallet (payment_row now p q) = py_wallet q" "py_user (payment_row now p q) = py_user q"
  "py_operation (payment_row now p q) = py_operation q"
  "py_changeOperation (payment_row now p q) = py_changeOperation q"
  "py_state (payment_row now p q) = py_state q"
  "beneficiary.truncate (payment_row now p q) = beneficiary.truncate q"
  by (simp_all add: payment_row_def beneficiary.truncate_def)

lemma payment_row_same [simp]:
  "row_ok v (payment_row now p q) = row_ok v q" "committed (payment_row now p q) = committed q"
  "operations_of (payment_row now p q) = operations_of q"
  "follows r (payment_row now p q) = follows r q"
  by (simp_all add: row_ok_def committed_def operations_of_def follows_def kept_or_dropped_def py_terms_def)

lemma set_payments_update:
  assumes "tbl_wf py_id (payments d)" and "p \<in> set (payments d)" and "py_id q = py_id p"
  shows "set (payments (PaymentRepository_update now q d))
    = insert (payment_row now p q) (set (payments d) - {p})"
proof -
  have same: "py_id x = py_id q \<longleftrightarrow> x = p" if "x \<in> set (payments d)" for x
    using assms that inj_onD [of py_id "set (payments d)"] by (auto simp: tbl_wf_def distinct_map)
  have "set (payments (PaymentRepository_update now q d))
      = (\<lambda>x. if py_id x = py_id q then payment_row now x q else x) ` set (payments d)"
    by (simp add: PaymentRepository_update_def)
  also have "\<dots> = (\<lambda>x. if x = p then payment_row now p q else x) ` set (payments d)"
    by (intro image_cong) (simp_all add: same)
  also have "\<dots> = insert (payment_row now p q) (set (payments d) - {p})"
    using assms(2) by auto
  finally show ?thesis .
qed

lemma wf_payments_update:
  "tbl_wf py_id (payments (PaymentRepository_update now q d)) = tbl_wf py_id (payments d)"
proof -
  have "map py_id (payments (PaymentRepository_update now q d)) = map py_id (payments d)"
    by (auto simp: PaymentRepository_update_def)
  then show ?thesis by (simp add: tbl_wf_def)
qed

lemma update_moves:
  assumes inv: "pay_inv v (payments d)" and ev: "orders_evolve v v'" and p: "p \<in> set (payments d)"
    and q: "follows p q" "row_ok v' q" "\<not> over v p"
    and own: "committed q \<Longrightarrow> committed p \<and> operations_of q \<subseteq> operations_of p
      \<or> (\<forall>i \<in> operations_of q. v i = None)"
  shows "pay_inv v' (payments (PaymentRepository_update now q d))
    \<and> rows_follow v (payments d) (payments (PaymentRepository_update now q d))"
proof -
  from inv have wf: "tbl_wf py_id (payments d)" by (simp add: pay_inv_def)
  from q(1) have id: "py_id q = py_id p" by (simp add: follows_def)
  note rows = set_payments_update [OF wf p id]
  have apart: "operations_of q \<inter> operations_of r = {}"
    if "committed q" "committed r" "r \<in> set (payments d) - {p}" for r
  proof (rule ccontr)
    assume meet: "operations_of q \<inter> operations_of r \<noteq> {}"
    then obtain i where i: "i \<in> operations_of q" "i \<in> operations_of r" by auto
    from inv_row [OF inv] that(2,3) i(2) have "v i \<noteq> None"
      using committed_known [of v r i] by auto
    with own [OF that(1)] i(1) have "committed p" "i \<in> operations_of p" by auto
    with i(2) inv_apart [OF inv p] that(2,3) show False by auto
  qed
  have "pay_inv v' (payments (PaymentRepository_update now q d))"
    unfolding pay_inv_def wf_payments_update rows
    using wf q(2) row_ok_evolve [OF inv_row [OF inv] ev] inv_apart [OF inv]
    by (auto dest: apart)
  moreover have "rows_follow v (payments d) (payments (PaymentRepository_update now q d))"
    unfolding rows_follow_def rows
  proof
    fix r assume "r \<in> set (payments d)"
    with q(1,3) show "\<exists>x \<in> insert (payment_row now p q) (set (payments d) - {p}).
        follows r x \<and> (over v r \<longrightarrow> x = r)"
      by (cases "r = p") (auto intro: bexI [of _ r])
  qed
  ultimately show ?thesis by blast
qed

lemma insert_moves:
  assumes inv: "pay_inv v ps" and ev: "orders_evolve v v'"
    and new: "tbl_find py_id (py_id q) ps = None" "py_state q = PAY_PENDING \<or> py_state q = PAY_SCHEDULED"
  shows "pay_inv v' (tbl_insert q ps) \<and> rows_follow v ps (tbl_insert q ps)"
proof -
  from new(2) have "\<not> committed q" "row_ok v' q" by (auto simp: committed_def row_ok_def)
  with tbl_wf_insert [OF inv_wf [OF inv] new(1)] row_ok_evolve [OF inv_row [OF inv] ev]
    inv_apart [OF inv] have "pay_inv v' (tbl_insert q ps)"
    unfolding pay_inv_def by (auto simp: tbl_insert_def)
  moreover have "rows_follow v ps (tbl_insert q ps)"
    unfolding rows_follow_def tbl_insert_def by (auto intro!: bexI)
  ultimately show ?thesis by blast
qed

section \<open>Relations between states\<close>

text \<open>The steps that leave the payments alone, and those that move them.\<close>

definition pay_quiet :: "('l \<Rightarrow> bool) \<Rightarrow> ('l \<Rightarrow> order_view) \<Rightarrow> 'l pay_world \<Rightarrow> 'l pay_world \<Rightarrow> bool" where
  "pay_quiet ok view w w' \<longleftrightarrow> (ok (pw_ledger w) \<longrightarrow> ok (pw_ledger w')
     \<and> orders_evolve (view (pw_ledger w)) (view (pw_ledger w'))
     \<and> payments (pw_db w') = payments (pw_db w))"

definition pay_moves :: "('l \<Rightarrow> bool) \<Rightarrow> ('l \<Rightarrow> order_view) \<Rightarrow> 'l pay_world \<Rightarrow> 'l pay_world \<Rightarrow> bool" where
  "pay_moves ok view w w' \<longleftrightarrow> (ok (pw_ledger w) \<longrightarrow> ok (pw_ledger w')
     \<and> orders_evolve (view (pw_ledger w)) (view (pw_ledger w'))
     \<and> (pay_inv (view (pw_ledger w)) (payments (pw_db w)) \<longrightarrow>
          pay_inv (view (pw_ledger w')) (payments (pw_db w'))
          \<and> rows_follow (view (pw_ledger w)) (payments (pw_db w)) (payments (pw_db w'))))"

lemma quiet_moves: "pay_quiet ok view w w' \<Longrightarrow> pay_moves ok view w w'"
  unfolding pay_quiet_def pay_moves_def by (simp add: pay_inv_evolve)

lemma pay_quiet_relation: "pay_relation (pay_quiet ok view)"
  by unfold_locales (auto simp: pay_quiet_def intro: orders_evolve_trans)

lemma pay_moves_relation: "pay_relation (pay_moves ok view)"
proof
  fix s s1 s2 assume 1: "pay_moves ok view s s1" and 2: "pay_moves ok view s1 s2"
  then show "pay_moves ok view s s2"
    unfolding pay_moves_def by (auto intro: orders_evolve_trans rows_follow_trans)
qed (auto simp: pay_moves_def)

interpretation quiet: pay_relation "pay_quiet ok view" for ok view
  by (rule pay_quiet_relation)

interpretation moves: pay_relation "pay_moves ok view" for ok view
  by (rule pay_moves_relation)

lemma inside_moves: "inside (pay_quiet ok view) f \<Longrightarrow> inside (pay_moves ok view) f"
  by (simp add: inside_def quiet_moves)

text \<open>Writes to other tables.\<close>

named_theorems quiet_steps \<open>steps that leave the payments alone\<close>

lemma quiet_dbM [quiet_steps]:
  "(\<And>d. payments (f d) = payments d) \<Longrightarrow> inside (pay_quiet ok view) (dbM f)"
  by (rule quiet.inside_dbM) (simp add: pay_quiet_def)

lemma quiet_redisM [quiet_steps]: "inside (pay_quiet ok view) (redisM f)"
  by (rule quiet.inside_redisM) (simp add: pay_quiet_def)

lemma quiet_insertRow [quiet_steps]:
  "(\<And>f d. payments (upd f d) = payments d) \<Longrightarrow> inside (pay_quiet ok view) (insertRow key table upd r)"
  by (rule quiet.inside_insertRow) (simp add: pay_quiet_def)

lemma other_tables [simp]:
  "payments (PixDepositRepository_update now x d) = payments d"
  "payments (WarningPixDepositRepository_update y d) = payments d"
  "payments (WarningPixDevolutionRepository_update now z d) = payments d"
  "payments (PixInfractionRepository_update n d) = payments d"
  "payments (PixRefundRepository_update m d) = payments d"
  "payments (PixRefundDevolutionRepository_update now u d) = payments d"
  "payments (PixInfractionRefundOperationRepository_update b d) = payments d"
  "payments (PixDevolutionReceivedRepository_update c d) = payments d"
  by (simp_all add: PixDepositRepository_update_def WarningPixDepositRepository_update_def
      WarningPixDevolutionRepository_update_def PixInfractionRepository_update_def
      PixRefundRepository_update_def PixRefundDevolutionRepository_update_def
      PixInfractionRefundOperationRepository_update_def PixDevolutionReceivedRepository_update_def)

lemma quiet_repositories [quiet_steps]:
  "inside (pay_quiet ok view) (PixDepositRepository_create now x)"
  "inside (pay_quiet ok view) (PixDepositCacheRepository_create now x)"
  "inside (pay_quiet ok view) (PixDevolutionRepository_create now v)"
  "inside (pay_quiet ok view) (PixDevolutionRepository_update now v)"
  "inside (pay_quiet ok view) (PixDevolutionReceivedRepository_create r)"
  "inside (pay_quiet ok view) (WarningPixDepositRepository_create y)"
  "inside (pay_quiet ok view) (WarningPixDevolutionRepository_create now z)"
  "inside (pay_quiet ok view) (PixInfractionRepository_create now n)"
  "inside (pay_quiet ok view) (PixRefundRepository_create now m)"
  "inside (pay_quiet ok view) (PixRefundDevolutionRepository_create now u)"
  "inside (pay_quiet ok view) (PixInfractionRefundOperationRepository_create b)"
  by (simp_all add: PixInfractionRepository_create_def PixRefundRepository_create_def
      PixRefundDevolutionRepository_create_def PixInfractionRefundOperationRepository_create_def
      PixDepositRepository_create_def PixDepositCacheRepository_create_def
      PixDevolutionRepository_create_def PixDevolutionRepository_update_def
      PixDevolutionReceivedRepository_create_def WarningPixDepositRepository_create_def
      WarningPixDevolutionRepository_create_def Let_def frame quiet_steps)

lemma quiet_ledgerS:
  fixes view :: "'l \<Rightarrow> order_view"
  assumes "\<And>l r l'. ok l \<Longrightarrow> f l = (r, l') \<Longrightarrow> ok l' \<and> orders_evolve (view l) (view l')"
  shows "inside (pay_quiet ok view) (ledgerS f)"
proof (rule quiet.inside_ledgerS)
  fix w :: "'l pay_world" and r l assume "f (pw_ledger w) = (r, l)"
  with assms [of "pw_ledger w" r l] show "pay_quiet ok view w (w\<lparr>pw_ledger := l\<rparr>)"
    by (simp add: pay_quiet_def)
qed

context payment_ledger
begin

lemma quiet_ledger [quiet_steps]:
  "inside (pay_quiet ok view) (ledgerS (os_createOperation ops tag rq a b))"
  "inside (pay_quiet ok view) (ledgerS (os_createAndAcceptOperation ops tag rq a b))"
  "inside (pay_quiet ok view) (ledgerS (os_blockOperation ops tag rq owner))"
  "inside (pay_quiet ok view) (ledgerS (os_acceptOperation ops i))"
  "inside (pay_quiet ok view) (ledgerS (os_revertOperation ops i))"
  "inside (pay_quiet ok view) (ledgerS (os_setOperationReference ops i j))"
  by (rule quiet_ledgerS, drule (1) create, simp)
    (rule quiet_ledgerS, drule (1) create_accept, simp,
     rule quiet_ledgerS, drule (1) block, simp,
     rule quiet_ledgerS, drule (1) accept, simp,
     rule quiet_ledgerS, drule (1) revert, simp,
     rule quiet_ledgerS, drule (1) reference, simp)

end

end
