(* ===== verification/Pix_Payment_Life.thy ===== *)
theory Pix_Payment_Life
  imports Pix_Payment_Ledger
begin

text \<open>
  The life of payments over all requests: the use cases that leave the payments alone, those that
  store a new one, and those that move one along its life cycle together with its operations.
\<close>

section \<open>Use cases of deposits and devolutions\<close>

context payment_ledger
begin

lemma quiet_revertIfKnown [quiet_steps]:
  assumes [simp]: "pe_operations E = ops"
  shows "inside (pay_quiet ok view) (revertIfKnown E x)"
  by (auto simp: revertIfKnown_def intro!: frame quiet_steps)

lemma quiet_deposits [quiet_steps]:
  assumes [simp]: "pe_operations E = ops"
  shows "inside (pay_quiet ok view) (ReceivePixDepositUseCase_execute E i rq)"
    and "inside (pay_quiet ok view) (HandleReceiveFailedPixDepositEventUseCase_execute E drawn rq)"
    and "inside (pay_quiet ok view) (WarningDepositChecker_execute E c i)"
    and "inside (pay_quiet ok view) (HandleWaitingPixDepositEventUseCase_execute E j k i)"
    and "inside (pay_quiet ok view) (ApprovePixDepositUseCase_execute E j i)"
    and "inside (pay_quiet ok view) (BlockPixDepositUseCase_execute E j i)"
    and "inside (pay_quiet ok view) (CreateWarningPixDevolutionUseCase_execute E j user i)"
        apply (auto simp: ReceivePixDepositUseCase_execute_def ownBank_def theBank_def loadBank_def
      ReceivePixDeposit_isInSkipList_def Let_def intro!: frame quiet_steps)[1]
       apply (auto simp: HandleReceiveFailedPixDepositEventUseCase_execute_def ownBank_def theBank_def Let_def
      intro!: frame quiet_steps)[1]
      apply (cases c; auto simp: WarningDepositChecker_execute_def setResult_def startWaiting_def runCheck_def
      isOverWarningOccupationIncome_def getSameDepositIn24Hours_def Let_def intro!: frame quiet_steps)[1]
     apply (auto simp: HandleWaitingPixDepositEventUseCase_execute_def holdDeposit_def creditDeposit_def Let_def
      intro!: frame quiet_steps)[1]
    apply (auto simp: ApprovePixDepositUseCase_execute_def loadHeldDeposit_def Let_def intro!: frame quiet_steps)[1]
   apply (auto simp: BlockPixDepositUseCase_execute_def loadHeldDeposit_def Let_def intro!: frame quiet_steps)[1]
  apply (auto simp: CreateWarningPixDevolutionUseCase_execute_def Let_def intro!: frame quiet_steps)[1]
  done

lemmas devolution_defs = loadDevolution_def depositOf_def whenPending_def callDevolutionPSP_def
  sendDevolutionPSP_def sendDevolutionP2P_def takeBack_def revertDevolutionOperation_def
  addDevolution_def CreatePixDevolutionUseCase_execute_def Let_def

lemma quiet_devolutions [quiet_steps]:
  assumes [simp]: "pe_operations E = ops"
  shows "inside (pay_quiet ok view)
      (CreatePixDevolutionController_execute E j i user wallet operation a description)"
    and "inside (pay_quiet ok view) (HandlePendingPixDevolutionEventUseCase_execute E ids i)"
    and "inside (pay_quiet ok view) (HandleCompletePixDevolutionEventUseCase_execute E i e2e)"
    and "inside (pay_quiet ok view) (HandleRevertPixDevolutionEventUseCase_execute E i reason failure)"
    and "inside (pay_quiet ok view) (ReceivePixDevolutionChargebackUseCase_execute E i reason failure)"
    and "inside (pay_quiet ok view) (HandleCreateFailedPixDevolutionEventUseCase_execute E j i depId)"
    and "inside (pay_quiet ok view) (HandlePendingFailedPixDevolutionEventUseCase_execute E i)"
  by (auto simp: CreatePixDevolutionController_execute_def devolution_defs intro!: frame quiet_steps)
    (auto simp: HandlePendingPixDevolutionEventUseCase_execute_def
      HandleCompletePixDevolutionEventUseCase_execute_def
      HandleRevertPixDevolutionEventUseCase_execute_def
      ReceivePixDevolutionChargebackUseCase_execute_def
      HandleCreateFailedPixDevolutionEventUseCase_execute_def
      HandlePendingFailedPixDevolutionEventUseCase_execute_def devolution_defs intro!: frame quiet_steps)

lemma quiet_warning_devolutions [quiet_steps]:
  assumes [simp]: "pe_operations E = ops"
  shows "inside (pay_quiet ok view) (HandleCreateWarningPixDevolutionEventUseCase_execute E i j)"
    and "inside (pay_quiet ok view) (HandlePendingWarningPixDevolutionEventUseCase_execute E i)"
    and "inside (pay_quiet ok view) (HandleCompleteWarningPixDevolutionEventUseCase_execute E i e2e)"
    and "inside (pay_quiet ok view) (HandleRevertWarningPixDevolutionEventUseCase_execute E i reason failure)"
    and "inside (pay_quiet ok view) (ReceivePixDevolutionReceivedUseCase_execute E ids paymentKey rq)"
  by (auto simp: HandleCreateWarningPixDevolutionEventUseCase_execute_def
      HandlePendingWarningPixDevolutionEventUseCase_execute_def loadWarningDevolution_def
      warningDepositOf_def HandleCompleteWarningPixDevolutionEventUseCase_execute_def
      HandleRevertWarningPixDevolutionEventUseCase_execute_def
      ReceivePixDevolutionReceivedUseCase_execute_def ownBank_def theBank_def loadBank_def Let_def
      intro!: frame quiet_steps)

lemmas infraction_defs = loadInfraction_def infractionByIssue_def infractionByPsp_def
  storeInfraction_def whenInfraction_def closeBlock_def closeBlocks_def revertRefundOperations_def
  blockBalance_def pspDecision_def reportedTransaction_def Let_def

lemma quiet_infractions [quiet_steps]:
  assumes [simp]: "pe_operations E = ops"
  shows "inside (pay_quiet ok view)
      (CreatePixInfractionUseCase_execute E i ty operation status issueId description)"
    and "inside (pay_quiet ok view) (OpenPixInfractionUseCase_execute E issueId description)"
    and "inside (pay_quiet ok view) (InAnalysisPixInfractionUseCase_execute E issueId description)"
    and "inside (pay_quiet ok view) (ClosePixInfractionUseCase_execute E issueId result details)"
    and "inside (pay_quiet ok view) (CancelPixInfractionUseCase_execute E issueId)"
    and "inside (pay_quiet ok view) (HandleReceivePixInfractionEventUseCase_execute E ids ir)"
    and "inside (pay_quiet ok view) (HandleAcknowledgePixInfractionEventUseCase_execute E pspId)"
    and "inside (pay_quiet ok view) (HandleCancelPixInfractionReceivedEventUseCase_execute E pspId result details)"
    and "inside (pay_quiet ok view) (HandleClosePixInfractionReceivedEventUseCase_execute E pspId result details)"
    and "inside (pay_quiet ok view) (HandleRevertPixInfractionEventUseCase_execute E i failure)"
  by (auto simp: CreatePixInfractionUseCase_execute_def OpenPixInfractionUseCase_execute_def
      InAnalysisPixInfractionUseCase_execute_def ClosePixInfractionUseCase_execute_def
      CancelPixInfractionUseCase_execute_def HandleReceivePixInfractionEventUseCase_execute_def
      HandleAcknowledgePixInfractionEventUseCase_execute_def
      HandleCancelPixInfractionReceivedEventUseCase_execute_def
      HandleClosePixInfractionReceivedEventUseCase_execute_def
      HandleRevertPixInfractionEventUseCase_execute_def infraction_defs intro!: frame quiet_steps)

lemma quiet_pending_infractions [quiet_steps]:
  "inside (pay_quiet ok view) (HandleOpenPendingPixInfractionEventUseCase_execute E i)"
  "inside (pay_quiet ok view) (HandleClosePendingPixInfractionEventUseCase_execute E i)"
  "inside (pay_quiet ok view) (HandleCancelPendingPixInfractionEventUseCase_execute E i)"
  "inside (pay_quiet ok view) (HandleReceivePendingPixInfractionEventUseCase_execute E i)"
  "inside (pay_quiet ok view) (HandleAcknowledgePendingPixInfractionEventUseCase_execute E i)"
  "inside (pay_quiet ok view) (HandleCancelPendingPixInfractionReceivedEventUseCase_execute E i)"
  "inside (pay_quiet ok view) (HandleClosePendingPixInfractionReceivedEventUseCase_execute E i)"
  by (auto simp: HandleOpenPendingPixInfractionEventUseCase_execute_def
      HandleClosePendingPixInfractionEventUseCase_execute_def
      HandleCancelPendingPixInfractionEventUseCase_execute_def
      HandleReceivePendingPixInfractionEventUseCase_execute_def
      HandleAcknowledgePendingPixInfractionEventUseCase_execute_def
      HandleCancelPendingPixInfractionReceivedEventUseCase_execute_def
      HandleClosePendingPixInfractionReceivedEventUseCase_execute_def infraction_defs
      intro!: frame quiet_steps)

lemmas refund_defs = loadRefund_def storeRefund_def whenRefund_def validateRelatedInfraction_def
  linkRefund_def associateRefundToPixInfractionRefundOperation_def refundOfInfraction_def
  refundOnItsOwn_def refundByIssue_def loadRefundDevolution_def storeRefundDevolution_def
  sendRefundDevolutionPSP_def sendRefundDevolutionP2P_def acceptPixInfractionRefundOperations_def
  refundOfDevolution_def giveBackReturned_def revertRefundBlocks_def addReturned_def checkRefund_def
  blockFor_def storeBlock_def giveUp_def blockShortfall_def

lemma quiet_refunds [quiet_steps]:
  assumes [simp]: "pe_operations E = ops"
  shows "inside (pay_quiet ok view) (HandleReceivePixRefundEventUseCase_execute E ids fr)"
    and "inside (pay_quiet ok view) (HandleReceivePendingPixRefundUseCase_execute E i)"
    and "inside (pay_quiet ok view) (CancelPixRefundUseCase_execute E issueId details rejection)"
    and "inside (pay_quiet ok view) (ClosePixRefundUseCase_execute E issueId note)"
    and "inside (pay_quiet ok view) (HandleCancelPendingPixRefundEventUseCase_execute E i)"
    and "inside (pay_quiet ok view) (HandleClosePendingPixRefundEventUseCase_execute E j i)"
    and "inside (pay_quiet ok view) (HandleRevertPixRefundEventUseCase_execute E i failure)"
  by (auto simp: HandleReceivePixRefundEventUseCase_execute_def
      HandleReceivePendingPixRefundUseCase_execute_def CancelPixRefundUseCase_execute_def
      ClosePixRefundUseCase_execute_def HandleCancelPendingPixRefundEventUseCase_execute_def
      HandleClosePendingPixRefundEventUseCase_execute_def HandleRevertPixRefundEventUseCase_execute_def
      refund_defs infraction_defs intro!: frame quiet_steps)

lemma quiet_shortfalls [quiet_steps]:
  assumes [simp]: "pe_operations E = ops"
  shows "inside (pay_quiet ok view) (blockShortfalls E i rows wallet amount xs created)"
  by (induction xs arbitrary: created) (auto simp: refund_defs intro!: frame quiet_steps)

lemma quiet_refund_devolutions [quiet_steps]:
  assumes [simp]: "pe_operations E = ops"
  shows "inside (pay_quiet ok view) (HandleCreatePixRefundDevolutionEventUseCase_execute E i j)"
    and "inside (pay_quiet ok view) (HandlePendingPixRefundDevolutionEventUseCase_execute E i)"
    and "inside (pay_quiet ok view) (HandleCompletePixRefundDevolutionEventUseCase_execute E i e2e)"
    and "inside (pay_quiet ok view) (HandleRevertPixRefundDevolutionEventUseCase_execute E i reason failure)"
    and "inside (pay_quiet ok view)
      (HandleCreatePixInfractionRefundOperationUseCase_execute E rows i transactionId st user wallet amount)"
  by (auto simp: HandleCreatePixRefundDevolutionEventUseCase_execute_def
      HandlePendingPixRefundDevolutionEventUseCase_execute_def
      HandleCompletePixRefundDevolutionEventUseCase_execute_def
      HandleRevertPixRefundDevolutionEventUseCase_execute_def
      HandleCreatePixInfractionRefundOperationUseCase_execute_def refund_defs infraction_defs
      intro!: frame quiet_steps)

lemma quiet_crons [quiet_steps]:
  "inside (pay_quiet ok view) (SyncWaitingPaymentUseCase_execute E)"
  "inside (pay_quiet ok view) (SyncWaitingRecentPaymentUseCase_execute E)"
  "inside (pay_quiet ok view) (SyncWaitingPixDevolutionUseCase_execute E)"
  "inside (pay_quiet ok view) (SyncWaitingRecentPixDevolutionUseCase_execute E)"
  "inside (pay_quiet ok view) (SyncWaitingWarningPixDevolutionUseCase_execute E)"
  "inside (pay_quiet ok view) (SyncWaitingRecentWarningPixDevolutionUseCase_execute E)"
  "inside (pay_quiet ok view) (SyncPixInfractionUseCase_execute E drawn)"
  "inside (pay_quiet ok view) (SyncPixRefundUseCase_execute E drawn)"
  "inside (pay_quiet ok view) (SyncWaitingPixRefundDevolutionUseCase_execute E)"
  "inside (pay_quiet ok view) (SyncWaitingRecentPixRefundDevolutionUseCase_execute E)"
  by (auto simp: SyncPixInfractionUseCase_execute_def SyncPixRefundUseCase_execute_def
      SyncWaitingPixRefundDevolutionUseCase_execute_def syncInfraction_def syncRefund_def
      SyncWaitingRecentPixRefundDevolutionUseCase_execute_def syncRefundDevolution_def Let_def
      SyncWaitingPaymentUseCase_execute_def SyncWaitingRecentPaymentUseCase_execute_def
      SyncWaitingPixDevolutionUseCase_execute_def SyncWaitingRecentPixDevolutionUseCase_execute_def
      SyncWaitingWarningPixDevolutionUseCase_execute_def
      SyncWaitingRecentWarningPixDevolutionUseCase_execute_def syncPayment_def syncDevolution_def
      syncWarningDevolution_def intro!: frame quiet_steps
      split: payment_status.split infraction_status.split refund_status.split)

section \<open>New payments\<close>

lemma moves_create:
  assumes "py_state p = PAY_PENDING \<or> py_state p = PAY_SCHEDULED"
  shows "inside (pay_moves ok view) (PaymentRepository_create now p)"
proof -
  let ?q = "p\<lparr>py_createdAt := now, py_updatedAt := now\<rparr>"
  have "pay_moves ok view w (w\<lparr>pw_db := payments_update (\<lambda>_. t) (pw_db w)\<rparr>)"
    if "tbl_create py_id PayUniqueConstraint ?q (payments (pw_db w)) = Inr t" for w t
    using that insert_moves [of "view (pw_ledger w)" "payments (pw_db w)" "view (pw_ledger w)" ?q] assms
    by (auto simp: pay_moves_def tbl_create_def split: if_splits)
  then show ?thesis
    by (auto simp: PaymentRepository_create_def Let_def intro!: frame moves.inside_insertRow)
qed

lemma moves_storePayment:
  assumes "py_state p = PAY_PENDING \<or> py_state p = PAY_SCHEDULED"
  shows "inside (pay_moves ok view) (storePayment E v p)"
  by (auto simp: storePayment_def announcePayment_def intro!: frame moves_create assms)

lemma schedule_states:
  "gives (schedule E d) (\<lambda>plan. fst plan = PAY_PENDING \<or> fst plan = PAY_SCHEDULED)"
  by (auto simp: schedule_def)

lemma new_payment_state [simp]:
  "py_state (new_payment r v date user wallet opId payer plan ptype tag b) = fst plan"
  "py_state (with_code q p) = py_state p"
  by (simp_all add: new_payment_def with_code_def)

lemma moves_load [quiet_steps]:
  "inside (pay_moves ok view) (load_payer E user wallet)"
  "inside (pay_moves ok view) (load_code E i t x)"
  "inside (pay_moves ok view) (requestedValue v)"
  "inside (pay_moves ok view) (codeValue v)"
  by (auto simp: load_payer_def load_code_def requestedValue_def codeValue_def intro!: frame)

lemma moves_unlessStored [quiet_steps]:
  "inside (pay_moves ok view) f \<Longrightarrow> inside (pay_moves ok view) (unlessStored i wallet f)"
  by (auto simp: unlessStored_def intro!: frame)

lemma moves_announce [quiet_steps]:
  "inside (pay_moves ok view) (emitPay E e)" "inside (pay_moves ok view) (callS E c)"
  by (rule frame)+

lemma moves_accounts [quiet_steps]:
  "inside (pay_moves ok view) (dbM (\<lambda>d. d\<lparr>decodedAccounts := t d\<rparr>))"
  by (rule inside_moves, rule quiet_dbM) simp

lemma moves_schedule_bind:
  assumes "\<And>plan. fst plan = PAY_PENDING \<or> fst plan = PAY_SCHEDULED \<Longrightarrow> inside (pay_moves ok view) (f plan)"
  shows "inside (pay_moves ok view) (bindS (schedule E d) f)"
  by (rule moves.inside_bindS_gives [OF _ schedule_states]) (auto simp: schedule_def intro!: frame assms)

lemma moves_creations:
  shows "inside (pay_moves ok view) (CreateByAccountPaymentUseCase_execute E i user wallet r)"
    and "inside (pay_moves ok view) (CreateByPixKeyPaymentUseCase_execute E i user wallet r)"
    and "inside (pay_moves ok view) (CreateByQrCodeStaticPaymentUseCase_execute E i user wallet r)"
    and "inside (pay_moves ok view) (CreateByQrCodeDynamicPaymentUseCase_execute E i user wallet r)"
    and "inside (pay_moves ok view) (DuedateByQrCodeDynamicPaymentUseCase_execute E i user wallet r)"
    and "inside (pay_moves ok view) (WithdrawalByQrCodeStaticPaymentUseCase_execute E i user wallet r)"
    and "inside (pay_moves ok view) (WithdrawalByQrCodeDynamicPaymentUseCase_execute E i user wallet r)"
    and "inside (pay_moves ok view) (ChangeByQrCodeDynamicPaymentUseCase_execute E i j user wallet r)"
  by (auto simp: CreateByAccountPaymentUseCase_execute_def CreateByPixKeyPaymentUseCase_execute_def
      CreateByQrCodeStaticPaymentUseCase_execute_def CreateByQrCodeDynamicPaymentUseCase_execute_def
      DuedateByQrCodeDynamicPaymentUseCase_execute_def WithdrawalByQrCodeStaticPaymentUseCase_execute_def
      WithdrawalByQrCodeDynamicPaymentUseCase_execute_def ChangeByQrCodeDynamicPaymentUseCase_execute_def
      Let_def intro!: moves_schedule_bind moves_storePayment frame quiet_steps)

end

section \<open>Operations of a payment\<close>

text \<open>Operations that did not exist at first and now have the value of the payment.\<close>

definition opened_for :: "operation_state set \<Rightarrow> order_view \<Rightarrow> order_view \<Rightarrow> payment \<Rightarrow> string \<Rightarrow> bool" where
  "opened_for S v0 v p i \<longleftrightarrow> v0 i = None \<and> (\<exists>s \<in> S. v i = Some (s, py_terms p))"

definition opened_ops :: "operation_state set \<Rightarrow> order_view \<Rightarrow> order_view \<Rightarrow> payment \<Rightarrow> bool" where
  "opened_ops S v0 v p \<longleftrightarrow> py_operation p \<noteq> None \<and> py_operation p \<noteq> py_changeOperation p
     \<and> (\<forall>i \<in> operations_of p. opened_for S v0 v p i)"

definition lasting :: "operation_state set \<Rightarrow> bool" where
  "lasting S \<longleftrightarrow> S = UNIV \<or> PENDING \<notin> S"

lemma lasting_simps [simp]: "lasting UNIV" "lasting {ACCEPTED}" "lasting {REVERTED}"
  by (simp_all add: lasting_def)

lemma opened_for_evolve:
  "lasting S \<Longrightarrow> opened_for S v0 v p i \<Longrightarrow> orders_evolve v v' \<Longrightarrow> opened_for S v0 v' p i"
  unfolding opened_for_def lasting_def using orders_evolve_known [of v v' i] orders_evolve_final [of v v' i]
  by (metis UNIV_I)

lemma opened_ops_evolve:
  "lasting S \<Longrightarrow> opened_ops S v0 v p \<Longrightarrow> orders_evolve v v' \<Longrightarrow> opened_ops S v0 v' p"
  unfolding opened_ops_def using opened_for_evolve by blast

text \<open>A step that opens one operation for \<open>p\<close> when it returns.\<close>

definition opens :: "('l \<Rightarrow> bool) \<Rightarrow> ('l \<Rightarrow> order_view) \<Rightarrow> operation_state set \<Rightarrow> payment
    \<Rightarrow> string option \<Rightarrow> ('l, unit) pay_step \<Rightarrow> bool" where
  "opens ok view S p x f \<longleftrightarrow> inside (pay_quiet ok view) f \<and> (\<forall>w u w'. ok (pw_ledger w) \<longrightarrow>
     f w = (Inr u, w') \<longrightarrow> (\<exists>i. x = Some i \<and> view (pw_ledger w) i = None
       \<and> (\<exists>s \<in> S. view (pw_ledger w') i = Some (s, py_terms p))))"

lemma opens_use:
  "opens ok view S p x f \<Longrightarrow> ok (pw_ledger w) \<Longrightarrow> f w = (Inr u, w') \<Longrightarrow>
     \<exists>i. x = Some i \<and> view (pw_ledger w) i = None
       \<and> (\<exists>s \<in> S. view (pw_ledger w') i = Some (s, py_terms p))"
  unfolding opens_def by blast

lemma ledgerS_Inr [result_simps]:
  "ledgerS f w = (Inr x, w') \<longleftrightarrow> (\<exists>l. f (pw_ledger w) = (Inr x, l) \<and> w' = w\<lparr>pw_ledger := l\<rparr>)"
  by (auto simp: ledgerS_def split: prod.splits)

lemma givenId_Inr [result_simps]: "givenId x w = (Inr i, w') \<longleftrightarrow> x = Some i \<and> w' = w"
  by (auto simp: givenId_def result_simps split: option.splits)

lemma opens_first:
  assumes f: "opens ok view S p (py_operation p) f" and ok: "ok (pw_ledger w0)"
  shows "valid (pay_quiet ok view w0) f
    (\<lambda>_ w. pay_quiet ok view w0 w \<and> (\<exists>i. py_operation p = Some i
       \<and> opened_for S (view (pw_ledger w0)) (view (pw_ledger w)) p i))
    (pay_moves ok view w0)"
  unfolding valid_def
proof (intro allI impI)
  fix w assume w: "pay_quiet ok view w0 w"
  obtain r w' where fw: "f w = (r, w')" by fastforce
  with f have step: "pay_quiet ok view w w'" by (auto simp: opens_def dest: inside_use)
  with w have q: "pay_quiet ok view w0 w'" by (rule quiet.trans)
  show "case f w of (Inl e, w') \<Rightarrow> pay_moves ok view w0 w'
    | (Inr u, w') \<Rightarrow> pay_quiet ok view w0 w' \<and> (\<exists>i. py_operation p = Some i
       \<and> opened_for S (view (pw_ledger w0)) (view (pw_ledger w')) p i)"
  proof (cases r)
    case (Inl e)
    with fw q show ?thesis by (simp add: quiet_moves)
  next
    case (Inr u)
    from w ok have ok': "ok (pw_ledger w)" and ev: "orders_evolve (view (pw_ledger w0)) (view (pw_ledger w))"
      by (simp_all add: pay_quiet_def)
    from opens_use [OF f ok'] fw Inr
    obtain i where "py_operation p = Some i" "view (pw_ledger w) i = None"
      "\<exists>s \<in> S. view (pw_ledger w') i = Some (s, py_terms p)" by blast
    with orders_evolve_None [OF ev] fw Inr q show ?thesis by (auto simp: opened_for_def)
  qed
qed

lemma opens_second:
  assumes f: "opens ok view S p (py_changeOperation p) f" and g: "inside (pay_quiet ok view) g"
    and ok: "ok (pw_ledger w0)" and S: "lasting S"
  shows "valid
    (\<lambda>w. pay_quiet ok view w0 w \<and> (\<exists>i. py_operation p = Some i
       \<and> opened_for S (view (pw_ledger w0)) (view (pw_ledger w)) p i))
    (whenS (py_changeOperation p \<noteq> None) (bindS f (\<lambda>_. g)))
    (\<lambda>_ w. pay_quiet ok view w0 w
       \<and> opened_ops S (view (pw_ledger w0)) (view (pw_ledger w)) p)
    (pay_moves ok view w0)"
  unfolding valid_def
proof (intro allI impI)
  let ?v0 = "view (pw_ledger w0)" and ?m = "whenS (py_changeOperation p \<noteq> None) (bindS f (\<lambda>_. g))"
  fix w assume pre: "pay_quiet ok view w0 w \<and> (\<exists>i. py_operation p = Some i
       \<and> opened_for S ?v0 (view (pw_ledger w)) p i)"
  then obtain i where w: "pay_quiet ok view w0 w" and i: "py_operation p = Some i"
    and opened: "opened_for S ?v0 (view (pw_ledger w)) p i" by blast
  obtain r w' where run: "?m w = (r, w')" by fastforce
  from f g have "inside (pay_quiet ok view) ?m" by (auto simp: opens_def intro!: frame)
  from inside_use [OF this run] have step: "pay_quiet ok view w w'" .
  with w have q: "pay_quiet ok view w0 w'" by (rule quiet.trans)
  from w ok have ok': "ok (pw_ledger w)" by (simp add: pay_quiet_def)
  with step have ev: "orders_evolve (view (pw_ledger w)) (view (pw_ledger w'))" by (simp add: pay_quiet_def)
  from S opened ev have first: "opened_for S ?v0 (view (pw_ledger w')) p i" by (rule opened_for_evolve)
  show "case ?m w of (Inl e, w') \<Rightarrow> pay_moves ok view w0 w'
    | (Inr u, w') \<Rightarrow> pay_quiet ok view w0 w' \<and> opened_ops S ?v0 (view (pw_ledger w')) p"
  proof (cases r)
    case (Inl e)
    with run q show ?thesis by (simp add: quiet_moves)
  next
    case (Inr u)
    have "opened_for S ?v0 (view (pw_ledger w')) p j \<and> i \<noteq> j" if j: "py_changeOperation p = Some j" for j
    proof -
      from run Inr j obtain u1 w1 where f1: "f w = (Inr u1, w1)" and g1: "g w1 = (Inr u, w')"
        by (auto simp: whenS_def result_simps)
      from opens_use [OF f ok' f1] j have new: "view (pw_ledger w) j = None"
        and now: "\<exists>s \<in> S. view (pw_ledger w1) j = Some (s, py_terms p)" by auto
      from w ok have "orders_evolve ?v0 (view (pw_ledger w))" by (simp add: pay_quiet_def)
      from orders_evolve_None [OF this new] now
      have "opened_for S ?v0 (view (pw_ledger w1)) p j" by (simp add: opened_for_def)
      moreover from f f1 ok' have "ok (pw_ledger w1)"
        by (auto simp: opens_def pay_quiet_def dest!: inside_use)
      with inside_use [OF g g1] have "orders_evolve (view (pw_ledger w1)) (view (pw_ledger w'))"
        by (simp add: pay_quiet_def)
      ultimately show ?thesis
        using opened_for_evolve [OF S] new opened by (auto simp: opened_for_def)
    qed
    with first i have "opened_ops S ?v0 (view (pw_ledger w')) p"
      by (cases "py_changeOperation p") (auto simp: opened_ops_def operations_of_def)
    with run Inr q show ?thesis by simp
  qed
qed

text \<open>Steps between opening the operations and writing the payment, and the write.\<close>

lemma valid_quiet:
  assumes f: "inside (pay_quiet ok view) f" and C: "\<And>v v'. orders_evolve v v' \<Longrightarrow> C v \<Longrightarrow> C v'"
    and ok: "ok (pw_ledger w0)"
  shows "valid (\<lambda>w. pay_quiet ok view w0 w \<and> C (view (pw_ledger w))) f
    (\<lambda>_ w. pay_quiet ok view w0 w \<and> C (view (pw_ledger w))) (pay_moves ok view w0)"
proof -
  have "keeps f (\<lambda>w. pay_quiet ok view w0 w \<and> C (view (pw_ledger w)))"
    using ok C by (intro quiet.inside_keeps [OF f]) (auto simp: pay_quiet_def intro: orders_evolve_trans)
  then show ?thesis by (rule valid_weaken) (simp_all add: quiet_moves)
qed

lemma valid_write:
  assumes ok: "ok (pw_ledger w0)" and p: "p \<in> set (payments (pw_db w0))"
    and row: "\<And>v. pay_inv (view (pw_ledger w0)) (payments (pw_db w0)) \<Longrightarrow>
      orders_evolve (view (pw_ledger w0)) v \<Longrightarrow> C v \<Longrightarrow>
      follows p q \<and> row_ok v q \<and> \<not> over (view (pw_ledger w0)) p
      \<and> (committed q \<longrightarrow> committed p \<and> operations_of q \<subseteq> operations_of p
           \<or> (\<forall>i \<in> operations_of q. view (pw_ledger w0) i = None))"
  shows "valid (\<lambda>w. pay_quiet ok view w0 w \<and> C (view (pw_ledger w)))
    (dbM (PaymentRepository_update now q)) (\<lambda>_. pay_moves ok view w0) (pay_moves ok view w0)"
  unfolding dbM_def
proof (rule valid_modifyS)
  fix w assume w: "pay_quiet ok view w0 w \<and> C (view (pw_ledger w))"
  with ok have ok': "ok (pw_ledger w)" and ev: "orders_evolve (view (pw_ledger w0)) (view (pw_ledger w))"
    and same: "payments (pw_db w) = payments (pw_db w0)" by (simp_all add: pay_quiet_def)
  have "pay_inv (view (pw_ledger w)) (payments (PaymentRepository_update now q (pw_db w)))
      \<and> rows_follow (view (pw_ledger w0)) (payments (pw_db w0))
          (payments (PaymentRepository_update now q (pw_db w)))"
    if inv: "pay_inv (view (pw_ledger w0)) (payments (pw_db w0))"
    using row [OF inv ev] w update_moves [OF inv [folded same] ev, of p q now] p same by auto
  with ok' ev show "pay_moves ok view w0 (w\<lparr>pw_db := PaymentRepository_update now q (pw_db w)\<rparr>)"
    by (simp add: pay_moves_def)
qed

lemma valid_moves:
  "inside (pay_moves ok view) f \<Longrightarrow> valid (pay_moves ok view w0) f (\<lambda>_. pay_moves ok view w0) (pay_moves ok view w0)"
  by (erule moves.inside_keeps) (rule moves.trans)

lemma opensI:
  fixes view :: "'l \<Rightarrow> order_view"
  assumes law: "\<And>i l r l'. ok l \<Longrightarrow> call i l = (r, l') \<Longrightarrow> ok l' \<and> orders_evolve (view l) (view l') \<and> (isInr r \<longrightarrow>
    view l i = None \<and> (\<exists>s \<in> S. view l' i = Some (s, py_terms p)))"
  shows "opens ok view S p x (bindS (givenId x) (\<lambda>i. ledgerS (call i)))"
  unfolding opens_def
proof (intro conjI allI impI)
  show "inside (pay_quiet ok view) (bindS (givenId x) (\<lambda>i. ledgerS (call i)))"
    by (intro frame quiet_ledgerS) (drule (1) law, simp)
next
  fix w u w' assume "ok (pw_ledger w)"
    and "bindS (givenId x) (\<lambda>i. ledgerS (call i)) w = (Inr u, w')"
  then obtain i l where "x = Some i" "call i (pw_ledger w) = (Inr u, l)" "w' = w\<lparr>pw_ledger := l\<rparr>"
    by (auto simp: result_simps)
  with law [OF \<open>ok (pw_ledger w)\<close>, of i "Inr u" l]
  show "\<exists>i. x = Some i \<and> view (pw_ledger w) i = None
      \<and> (\<exists>s \<in> S. view (pw_ledger w') i = Some (s, py_terms p))" by simp
qed

lemma valid_reading:
  "inside (pay_quiet ok view) f \<Longrightarrow> valid (pay_quiet ok view w0) f (\<lambda>_. pay_quiet ok view w0) (pay_moves ok view w0)"
  by (rule valid_weaken, erule quiet.inside_keeps, rule quiet.trans) (auto intro: quiet_moves)

lemma valid_quiet_moves:
  "inside (pay_moves ok view) f \<Longrightarrow> valid (pay_quiet ok view w0) f (\<lambda>_. pay_moves ok view w0) (pay_moves ok view w0)"
  by (rule valid_weaken, erule valid_moves) (auto intro: quiet_moves)

lemma valid_if:
  "(c \<Longrightarrow> valid P f Q E) \<Longrightarrow> (\<not> c \<Longrightarrow> valid P g Q E) \<Longrightarrow> valid P (if c then f else g) Q E"
  by simp

lemma valid_option:
  "valid P f Q E \<Longrightarrow> (\<And>x. valid P (g x) Q E) \<Longrightarrow> valid P (case m of None \<Rightarrow> f | Some x \<Rightarrow> g x) Q E"
  by (cases m) auto

text \<open>A use case that reads a payment and goes on with it.\<close>

lemma inside_found:
  fixes view :: "'l \<Rightarrow> order_view"
  assumes F: "\<And>d p. F d = Some p \<Longrightarrow> p \<in> set (payments d)"
    and g: "\<And>p w0. ok (pw_ledger w0) \<Longrightarrow> p \<in> set (payments (pw_db w0)) \<Longrightarrow>
      valid (pay_quiet ok view w0) (g p) (\<lambda>_. pay_moves ok view w0) (pay_moves ok view w0)"
  shows "inside (pay_moves ok view) (bindS (findS F e) g)"
  unfolding inside_def
proof
  fix w :: "'l pay_world"
  show "pay_moves ok view w (snd (bindS (findS F e) g w))"
  proof (cases "ok (pw_ledger w) \<and> F (pw_db w) \<noteq> None")
    case True
    then obtain p where p: "F (pw_db w) = Some p" by auto
    then have run: "bindS (findS F e) g w = g p w"
      by (simp add: findS_def dbR_def readS_def bindS_def)
    obtain r w' where gw: "g p w = (r, w')" by fastforce
    from g [of w p] True F [OF p] have "valid (pay_quiet ok view w) (g p) (\<lambda>_. pay_moves ok view w) (pay_moves ok view w)"
      by simp
    from valid_use [OF this quiet.refl gw] gw run show ?thesis by simp
  next
    case False
    then have "F (pw_db w) = None \<Longrightarrow> snd (bindS (findS F e) g w) = w"
      by (simp add: findS_def dbR_def readS_def bindS_def)
    with False show ?thesis by (auto simp: pay_moves_def)
  qed
qed

context payment_ledger
begin

lemma opens_ledger:
  assumes [simp]: "pe_operations E = ops"
  shows "opens ok view UNIV p (py_operation p) (createOperationPSP E p)"
    and "opens ok view UNIV p (py_changeOperation p) (createChangeOperationPSP E p)"
    and "opens ok view {ACCEPTED} p (py_operation p) (createAndAcceptOperationP2P E p u)"
    and "opens ok view {ACCEPTED} p (py_changeOperation p) (createAndAcceptChangeOperationP2P E p u)"
  unfolding createOperationPSP_def createChangeOperationPSP_def createAndAcceptOperationP2P_def
    createAndAcceptChangeOperationP2P_def
  by (rule opensI, simp, drule (1) create, simp add: payment_operation_def py_terms_def)+
    (rule opensI, simp, drule (1) create_accept, simp add: payment_operation_def py_terms_def)+

lemma quiet_reference [quiet_steps]:
  assumes [simp]: "pe_operations E = ops"
  shows "inside (pay_quiet ok view) (setPaymentReference E p)"
  by (auto simp: setPaymentReference_def intro!: frame quiet_steps)

text \<open>Sending: the operations are opened, then the payment is waiting or confirmed.\<close>

lemma sent_row:
  assumes inv: "pay_inv v0 ps" and p: "p \<in> set ps" and ops': "opened_ops S v0 v p"
    and pending: "py_state p = PAY_PENDING"
    and q: "q = p\<lparr>py_endToEndId := e, py_state := s, py_externalId := x\<rparr>"
    and s: "s = PAY_WAITING \<or> s = PAY_CONFIRMED \<and> S = {ACCEPTED}"
  shows "follows p q \<and> row_ok v q \<and> \<not> over v0 p
    \<and> (committed q \<longrightarrow> committed p \<and> operations_of q \<subseteq> operations_of p
         \<or> (\<forall>i \<in> operations_of q. v0 i = None))"
proof -
  from ops' have new: "\<forall>i \<in> operations_of p. v0 i = None"
    by (simp add: opened_ops_def opened_for_def)
  have "operations_of q = operations_of p" by (simp add: q operations_of_def)
  moreover from s pending have "follows p q"
    by (auto simp: q follows_def kept_or_dropped_def beneficiary.truncate_def)
  moreover from ops' s have "row_ok v q"
    by (auto simp: q row_ok_def committed_def opened_ops_def opened_for_def operations_of_def
        py_terms_def)
  moreover from new pending have "\<not> over v0 p" by (auto simp: over_def operations_of_def)
  ultimately show ?thesis using new by simp
qed

lemma valid_opened:
  assumes "inside (pay_quiet ok view) f" and "ok (pw_ledger w0)" and "lasting S"
  shows "valid (\<lambda>w. pay_quiet ok view w0 w \<and> opened_ops S (view (pw_ledger w0)) (view (pw_ledger w)) p) f
    (\<lambda>_ w. pay_quiet ok view w0 w \<and> opened_ops S (view (pw_ledger w0)) (view (pw_ledger w)) p)
    (pay_moves ok view w0)"
  using assms(1) opened_ops_evolve [OF assms(3)] assms(2)
  by (rule valid_quiet [where C = "\<lambda>v. opened_ops S (view (pw_ledger w0)) v p"])

lemma valid_sent:
  assumes "ok (pw_ledger w0)" and "p \<in> set (payments (pw_db w0))" and "py_state p = PAY_PENDING"
    and "q = p\<lparr>py_endToEndId := e, py_state := s, py_externalId := x\<rparr>"
    and "s = PAY_WAITING \<or> s = PAY_CONFIRMED \<and> S = {ACCEPTED}"
  shows "valid (\<lambda>w. pay_quiet ok view w0 w \<and> opened_ops S (view (pw_ledger w0)) (view (pw_ledger w)) p)
    (dbM (PaymentRepository_update now q)) (\<lambda>_. pay_moves ok view w0) (pay_moves ok view w0)"
  using assms(1,2) sent_row [OF _ assms(2) _ assms(3,4,5)]
  by (rule valid_write [where p = p and C = "\<lambda>v. opened_ops S (view (pw_ledger w0)) v p"])

lemma sendPaymentPSP_moves:
  assumes E [simp]: "pe_operations E = ops" and ok: "ok (pw_ledger w0)"
    and p: "p \<in> set (payments (pw_db w0))" "py_state p = PAY_PENDING"
  shows "valid (pay_quiet ok view w0) (sendPaymentPSP E p) (\<lambda>_. pay_moves ok view w0) (pay_moves ok view w0)"
  unfolding sendPaymentPSP_def Let_def
  by (intro valid_bindS [OF opens_first [OF opens_ledger(1) [OF E] ok]]
      valid_bindS [OF opens_second [OF opens_ledger(2) [OF E] quiet_reference [OF E] ok lasting_simps(1)]]
      valid_bindS [OF valid_opened [OF quiet.inside_callS ok lasting_simps(1)]]
      valid_bindS [OF valid_sent [OF ok p refl]] valid_moves moves.inside_bindS frame disjI1 refl)

lemma sendPaymentP2P_moves:
  assumes E [simp]: "pe_operations E = ops" and ok: "ok (pw_ledger w0)"
    and p: "p \<in> set (payments (pw_db w0))" "py_state p = PAY_PENDING"
  shows "valid (pay_quiet ok view w0) (sendPaymentP2P E depId refundId p a)
    (\<lambda>_. pay_moves ok view w0) (pay_moves ok view w0)"
proof -
  have q: "p\<lparr>py_state := PAY_CONFIRMED\<rparr> = p\<lparr>py_endToEndId := py_endToEndId p,
      py_state := PAY_CONFIRMED, py_externalId := py_externalId p\<rparr>" by simp
  note pass = valid_bindS [OF valid_opened [OF _ ok lasting_simps(2)]]
  show ?thesis unfolding sendPaymentP2P_def Let_def
    by (rule valid_bindS [OF opens_first [OF opens_ledger(3) [OF E] ok]],
      rule valid_bindS [OF opens_second [OF opens_ledger(4) [OF E] quiet_reference [OF E] ok lasting_simps(2)]],
      rule pass, rule frame, rule pass, rule frame, rule pass, rule frame, rule pass,
      rule quiet_steps, rule pass, rule frame,
      rule valid_bindS [OF valid_sent [OF ok p q]], simp, rule valid_moves, intro frame)
qed

lemma inside_loadPayment:
  assumes "\<And>p w0. ok (pw_ledger w0) \<Longrightarrow> p \<in> set (payments (pw_db w0)) \<Longrightarrow>
      valid (pay_quiet ok view w0) (g p) (\<lambda>_. pay_moves ok view w0) (pay_moves ok view w0)"
  shows "inside (pay_moves ok view) (bindS (loadPayment name i) g)"
proof -
  have "bindS (loadPayment name i) g = bindS (needData (needs i name)) (\<lambda>_.
      bindS (findS (PaymentRepository_getById i) (PaymentNotFound i)) g)"
    by (simp add: loadPayment_def bindS_assoc)
  moreover have "inside (pay_moves ok view)
      (bindS (findS (PaymentRepository_getById i) (PaymentNotFound i)) g)"
    by (rule inside_found) (auto simp: PaymentRepository_getById_def assms dest: tbl_find_SomeD)
  ultimately show ?thesis by (auto intro!: frame)
qed

lemma pending_moves:
  assumes E [simp]: "pe_operations E = ops"
  shows "inside (pay_moves ok view) (HandlePendingPaymentEventUseCase_execute E depId refundId i)"
  unfolding HandlePendingPaymentEventUseCase_execute_def
  by (rule inside_loadPayment)
    (auto intro!: valid_if valid_option valid_bindS [OF valid_reading] sendPaymentPSP_moves sendPaymentP2P_moves
      valid_quiet_moves [OF moves.inside_basic(1)] valid_quiet_moves [OF moves.inside_basic(2)] frame)

end

section \<open>Settling and unwinding\<close>

text \<open>What is known of an operation that was accepted or reverted on the way.\<close>

definition op_status :: "operation_state \<Rightarrow> order_view \<Rightarrow> string option \<Rightarrow> bool" where
  "op_status s v x \<longleftrightarrow> (\<forall>i. x = Some i \<longrightarrow> (\<exists>y. v i = Some (s, y)))"

lemma op_status_evolve: "s \<noteq> PENDING \<Longrightarrow> op_status s v x \<Longrightarrow> orders_evolve v v' \<Longrightarrow> op_status s v' x"
  unfolding op_status_def using orders_evolve_final [of v v'] by blast

text \<open>Failing: an operation that the ledger knows was reverted, one that it does not know is dropped.\<close>

definition not_accepted :: "order_view \<Rightarrow> string option \<Rightarrow> bool" where
  "not_accepted v x \<longleftrightarrow> (\<exists>i. x = Some i \<and> (\<forall>y. v i \<noteq> Some (ACCEPTED, y)))"

definition unwound :: "order_view \<Rightarrow> string option \<Rightarrow> string option \<Rightarrow> bool" where
  "unwound v x y \<longleftrightarrow> (y = x \<or> y = None) \<and> op_status REVERTED v y"

definition taken_off :: "order_view \<Rightarrow> order_view \<Rightarrow> payment \<Rightarrow> payment \<Rightarrow> bool" where
  "taken_off v0 v p q \<longleftrightarrow> not_accepted v0 (py_operation p)
     \<and> (\<exists>x. q = p\<lparr>py_operation := x\<rparr> \<and> unwound v (py_operation p) x)"

lemma valid_gain:
  fixes w0 :: "'l pay_world"
  assumes f: "inside (pay_quiet ok view) f" and ok: "ok (pw_ledger w0)"
    and C: "\<And>v v'. orders_evolve v v' \<Longrightarrow> C v \<Longrightarrow> C v'"
    and D: "\<And>w u w'. pay_quiet ok view w0 w \<Longrightarrow> pay_quiet ok view w w' \<Longrightarrow> ok (pw_ledger w) \<Longrightarrow>
      f w = (Inr u, w') \<Longrightarrow> D u (view (pw_ledger w'))"
  shows "valid (\<lambda>w. pay_quiet ok view w0 w \<and> C (view (pw_ledger w))) f
    (\<lambda>u w. pay_quiet ok view w0 w \<and> C (view (pw_ledger w)) \<and> D u (view (pw_ledger w)))
    (pay_moves ok view w0)"
  unfolding valid_def
proof (intro allI impI)
  fix w assume w: "pay_quiet ok view w0 w \<and> C (view (pw_ledger w))"
  obtain r w' where fw: "f w = (r, w')" by fastforce
  from inside_use [OF f fw] have step: "pay_quiet ok view w w'" .
  with w have q: "pay_quiet ok view w0 w'" by (blast intro: quiet.trans)
  from w ok have ok': "ok (pw_ledger w)" by (simp add: pay_quiet_def)
  with step w C have "C (view (pw_ledger w'))" by (auto simp: pay_quiet_def)
  with fw q D [OF _ step ok'] w show "case f w of (Inl e, w') \<Rightarrow> pay_moves ok view w0 w'
    | (Inr u, w') \<Rightarrow> pay_quiet ok view w0 w' \<and> C (view (pw_ledger w')) \<and> D u (view (pw_ledger w'))"
    by (auto simp: quiet_moves split: sum.split)
qed

lemma valid_gain_first:
  fixes w0 :: "'l pay_world"
  assumes f: "inside (pay_quiet ok view) f" and ok: "ok (pw_ledger w0)"
    and D: "\<And>w u w'. pay_quiet ok view w0 w \<Longrightarrow> pay_quiet ok view w w' \<Longrightarrow> ok (pw_ledger w) \<Longrightarrow>
      f w = (Inr u, w') \<Longrightarrow> D u (view (pw_ledger w'))"
  shows "valid (pay_quiet ok view w0) f
    (\<lambda>u w. pay_quiet ok view w0 w \<and> D u (view (pw_ledger w))) (pay_moves ok view w0)"
proof -
  have "valid (\<lambda>w. pay_quiet ok view w0 w \<and> True) f
    (\<lambda>u w. pay_quiet ok view w0 w \<and> True \<and> D u (view (pw_ledger w))) (pay_moves ok view w0)"
    using f ok TrueI D by (rule valid_gain [where C = "\<lambda>_. True"])
  then show ?thesis by simp
qed

context payment_ledger
begin

lemma acceptGiven_Inr:
  assumes "pe_operations E = ops" and "ok (pw_ledger w)" and "acceptGiven E x w = (Inr u, w')"
  shows "x \<noteq> None \<and> op_status ACCEPTED (view (pw_ledger w')) x"
proof -
  from assms(1,3) obtain i l where "x = Some i" "os_acceptOperation ops i (pw_ledger w) = (Inr u, l)"
    "w' = w\<lparr>pw_ledger := l\<rparr>" by (auto simp: acceptGiven_def result_simps)
  with accept [OF assms(2), of i "Inr u" l] show ?thesis by (auto simp: op_status_def)
qed

lemma quiet_acceptGiven [quiet_steps]:
  assumes [simp]: "pe_operations E = ops"
  shows "inside (pay_quiet ok view) (acceptGiven E x)"
  by (auto simp: acceptGiven_def intro!: frame quiet_steps)

lemma confirmed_row:
  assumes inv: "pay_inv v0 ps" and ev: "orders_evolve v0 v" and p: "p \<in> set ps" "py_state p = PAY_WAITING"
    and acc: "op_status ACCEPTED v (py_operation p)" "op_status ACCEPTED v (py_changeOperation p)"
    and q: "q = p\<lparr>py_state := PAY_CONFIRMED, py_endToEndId := e, py_confirmedAt := t\<rparr>"
  shows "follows p q \<and> row_ok v q \<and> \<not> over v0 p
    \<and> (committed q \<longrightarrow> committed p \<and> operations_of q \<subseteq> operations_of p
         \<or> (\<forall>i \<in> operations_of q. v0 i = None))"
proof -
  from p have c: "committed p" by (simp add: committed_def)
  have same: "operations_of q = operations_of p" by (simp add: q operations_of_def)
  have "v i = Some (ACCEPTED, py_terms p)" if i: "i \<in> operations_of p" for i
  proof -
    from committed_known [OF inv_row [OF inv p(1)] c i] orders_evolve_known [OF ev]
    obtain s where "v i = Some (s, py_terms p)" by blast
    moreover from acc i have "\<exists>y. v i = Some (ACCEPTED, y)" by (auto simp: op_status_def operations_of_def)
    ultimately show ?thesis by auto
  qed
  with inv_row [OF inv p(1)] c same have "row_ok v q" by (auto simp: q row_ok_def committed_def py_terms_def)
  moreover from p have "follows p q"
    by (auto simp: q follows_def kept_or_dropped_def beneficiary.truncate_def)
  moreover from p have "\<not> over v0 p" by (simp add: over_def)
  ultimately show ?thesis using c same by simp
qed

lemma accept_first:
  assumes E [simp]: "pe_operations E = ops" and ok: "ok (pw_ledger w0)"
  shows "valid (pay_quiet ok view w0) (acceptGiven E x)
    (\<lambda>_ w. pay_quiet ok view w0 w \<and> op_status ACCEPTED (view (pw_ledger w)) x) (pay_moves ok view w0)"
  using quiet_acceptGiven [OF E] ok
  by (rule valid_gain_first [where D = "\<lambda>_ v. op_status ACCEPTED v x"]) (drule (1) acceptGiven_Inr [OF E], simp)

lemma accept_change:
  assumes E [simp]: "pe_operations E = ops" and ok: "ok (pw_ledger w0)"
  shows "valid (\<lambda>w. pay_quiet ok view w0 w \<and> op_status ACCEPTED (view (pw_ledger w)) x)
      (whenS (y \<noteq> None) (acceptGiven E y))
      (\<lambda>_ w. pay_quiet ok view w0 w \<and> op_status ACCEPTED (view (pw_ledger w)) x
         \<and> op_status ACCEPTED (view (pw_ledger w)) y) (pay_moves ok view w0)"
proof (rule valid_gain [where C = "\<lambda>v. op_status ACCEPTED v x" and D = "\<lambda>_ v. op_status ACCEPTED v y"])
  fix w u w' assume "ok (pw_ledger w)" and "whenS (y \<noteq> None) (acceptGiven E y) w = (Inr u, w')"
  then show "op_status ACCEPTED (view (pw_ledger w')) y"
    by (cases y) (auto simp: op_status_def [of _ _ None] whenS_def dest: acceptGiven_Inr [OF E])
qed (auto intro!: ok frame quiet_steps intro: op_status_evolve)

lemma confirm_write:
  assumes ok: "ok (pw_ledger w0)" and p: "p \<in> set (payments (pw_db w0))" "py_state p = PAY_WAITING"
  shows "valid (\<lambda>w. pay_quiet ok view w0 w \<and> op_status ACCEPTED (view (pw_ledger w)) (py_operation p)
      \<and> op_status ACCEPTED (view (pw_ledger w)) (py_changeOperation p))
    (dbM (PaymentRepository_update now (p\<lparr>py_state := PAY_CONFIRMED, py_endToEndId := e,
       py_confirmedAt := t\<rparr>)))
    (\<lambda>_. pay_moves ok view w0) (pay_moves ok view w0)"
  using ok p(1)
  by (rule valid_write [where C = "\<lambda>v. op_status ACCEPTED v (py_operation p)
      \<and> op_status ACCEPTED v (py_changeOperation p)"]) (rule confirmed_row [OF _ _ p _ _ refl]; simp)

lemma complete_moves:
  assumes E: "pe_operations E = ops"
  shows "inside (pay_moves ok view) (HandleCompletePaymentEventUseCase_execute E i e2e)"
  unfolding HandleCompletePaymentEventUseCase_execute_def Let_def
  by (rule inside_loadPayment, intro valid_if valid_bindS [OF accept_first [OF E]]
      valid_bindS [OF accept_change [OF E]] valid_bindS [OF confirm_write] valid_moves frame
      valid_quiet_moves [OF moves.inside_basic(1)] valid_quiet_moves [OF moves.inside_basic(2)]) simp_all

lemma revertIfKnown_Inr:
  assumes E: "pe_operations E = ops" and w: "pay_quiet ok view w0 w" "ok (pw_ledger w)" "ok (pw_ledger w0)"
    and run: "revertIfKnown E x w = (Inr known, w')"
  shows "not_accepted (view (pw_ledger w0)) x
    \<and> unwound (view (pw_ledger w')) x (if known then x else None)"
proof -
  from w have ev: "orders_evolve (view (pw_ledger w0)) (view (pw_ledger w))" by (simp add: pay_quiet_def)
  from run E obtain i found where i: "x = Some i" and look: "os_getOperationById ops i (pw_ledger w) = Inr found"
    and rest: "(if found = None then returnS False
      else bindS (ledgerS (os_revertOperation ops i)) (\<lambda>_. returnS True)) w = (Inr known, w')"
    by (auto simp: revertIfKnown_def ledgerR_def result_simps)
  show ?thesis
  proof (cases found)
    case None
    with lookup [OF w(2) look] have "view (pw_ledger w) i = None" by simp
    from orders_evolve_None [OF ev this] None rest i show ?thesis
      by (auto simp: not_accepted_def unwound_def op_status_def result_simps)
  next
    case (Some s)
    with rest obtain u l where r: "os_revertOperation ops i (pw_ledger w) = (Inr u, l)"
      and known: known and w': "w' = w\<lparr>pw_ledger := l\<rparr>" by (auto simp: result_simps)
    from revert [OF w(2) r] obtain y where y: "view l i = Some (REVERTED, y)"
      and "orders_evolve (view (pw_ledger w)) (view l)" by auto
    with ev have "orders_evolve (view (pw_ledger w0)) (view l)" by (blast intro: orders_evolve_trans)
    from orders_evolve_final [OF this, of i ACCEPTED] y i known w' show ?thesis
      by (auto simp: not_accepted_def unwound_def op_status_def)
  qed
qed

lemma revertOperation_valid:
  assumes E: "pe_operations E = ops" and ok: "ok (pw_ledger w0)"
  shows "valid (pay_quiet ok view w0) (revertOperation E p)
    (\<lambda>q w. pay_quiet ok view w0 w \<and> taken_off (view (pw_ledger w0)) (view (pw_ledger w)) p q)
    (pay_moves ok view w0)"
proof (rule valid_gain_first [where D = "\<lambda>q v. taken_off (view (pw_ledger w0)) v p q"])
  fix w q w' assume w: "pay_quiet ok view w0 w" "ok (pw_ledger w)" and "revertOperation E p w = (Inr q, w')"
  then obtain known where "revertIfKnown E (py_operation p) w = (Inr known, w')"
    and q: "q = (if known then p else p\<lparr>py_operation := None\<rparr>)"
    by (auto simp: revertOperation_def result_simps)
  from revertIfKnown_Inr [OF E w ok this(1)] q
  show "taken_off (view (pw_ledger w0)) (view (pw_ledger w')) p q"
    by (auto simp: taken_off_def intro!: exI [of _ "py_operation q"])
qed (auto simp: revertOperation_def intro!: ok frame quiet_steps E)

text \<open>What \<open>failPayment\<close> has found out before it writes.\<close>

lemma revertChange_valid:
  assumes E: "pe_operations E = ops" and ok: "ok (pw_ledger w0)"
  shows "valid
    (\<lambda>w. pay_quiet ok view w0 w \<and> taken_off (view (pw_ledger w0)) (view (pw_ledger w)) p p1)
    (if py_changeOperation p1 \<noteq> None then revertChangeOperation E p1 else returnS p1)
    (\<lambda>q w. pay_quiet ok view w0 w \<and> taken_off (view (pw_ledger w0)) (view (pw_ledger w)) p p1
       \<and> (\<exists>y. q = p1\<lparr>py_changeOperation := y\<rparr> \<and> unwound (view (pw_ledger w)) (py_changeOperation p1) y))
    (pay_moves ok view w0)"
proof (rule valid_gain [where C = "\<lambda>v. taken_off (view (pw_ledger w0)) v p p1"
      and D = "\<lambda>q v. \<exists>y. q = p1\<lparr>py_changeOperation := y\<rparr> \<and> unwound v (py_changeOperation p1) y"])
  fix v v' assume "orders_evolve v v'" "taken_off (view (pw_ledger w0)) v p p1"
  then show "taken_off (view (pw_ledger w0)) v' p p1"
    by (auto simp: taken_off_def unwound_def intro: op_status_evolve)
next
  fix w q w' assume w: "pay_quiet ok view w0 w" "ok (pw_ledger w)"
    and run: "(if py_changeOperation p1 \<noteq> None then revertChangeOperation E p1 else returnS p1) w = (Inr q, w')"
  show "\<exists>y. q = p1\<lparr>py_changeOperation := y\<rparr> \<and> unwound (view (pw_ledger w')) (py_changeOperation p1) y"
  proof (cases "py_changeOperation p1 = None")
    case True
    with run show ?thesis
      by (intro exI [of _ None]) (auto simp: unwound_def op_status_def result_simps)
  next
    case False
    with run obtain known where "revertIfKnown E (py_changeOperation p1) w = (Inr known, w')"
      and q: "q = (if known then p1 else p1\<lparr>py_changeOperation := None\<rparr>)"
      by (auto simp: revertChangeOperation_def result_simps)
    from revertIfKnown_Inr [OF E w ok this(1)] q show ?thesis
      by (intro exI [of _ "py_changeOperation q"]) auto
  qed
qed (auto simp: revertChangeOperation_def intro!: ok frame quiet_steps E)

lemma failed_row:
  assumes inv: "pay_inv v0 ps" and p: "p \<in> set ps"
      "py_state p = PAY_PENDING \<or> py_state p = PAY_WAITING \<or> py_state p = PAY_CONFIRMED"
    and off: "taken_off v0 v p p1" "p2 = p1\<lparr>py_changeOperation := y\<rparr>" "unwound v (py_changeOperation p1) y"
    and q: "q = p2\<lparr>py_state := PAY_FAILED, py_chargebackReason := r, py_failed := f\<rparr>"
  shows "follows p q \<and> row_ok v q \<and> \<not> over v0 p
    \<and> (committed q \<longrightarrow> committed p \<and> operations_of q \<subseteq> operations_of p
         \<or> (\<forall>i \<in> operations_of q. v0 i = None))"
proof -
  from off(1) obtain x where x: "p1 = p\<lparr>py_operation := x\<rparr>" "unwound v (py_operation p) x"
    and no: "not_accepted v0 (py_operation p)" by (auto simp: taken_off_def)
  from no inv_row [OF inv p(1)] p(2) have live: "\<not> over v0 p"
    by (auto simp: over_def not_accepted_def row_ok_def operations_of_def py_terms_def)
  with p(2) have "py_state p = PAY_PENDING \<or> py_state p = PAY_WAITING" by (auto simp: over_def)
  with x off(2,3) have "follows p q"
    by (auto simp: q follows_def kept_or_dropped_def beneficiary.truncate_def unwound_def)
  moreover from x off(2,3) have "row_ok v q"
    by (auto simp: q row_ok_def committed_def operations_of_def unwound_def op_status_def)
  ultimately show ?thesis using live by (simp add: q committed_def)
qed

lemma failPayment_moves:
  assumes E: "pe_operations E = ops" and ok: "ok (pw_ledger w0)" and p: "p \<in> set (payments (pw_db w0))"
    and st: "py_state p = PAY_PENDING \<or> py_state p = PAY_WAITING \<or> py_state p = PAY_CONFIRMED"
  shows "valid (pay_quiet ok view w0) (failPayment E reason failure p)
    (\<lambda>_. pay_moves ok view w0) (pay_moves ok view w0)"
  unfolding failPayment_def Let_def
proof (rule valid_bindS [OF revertOperation_valid [OF E ok]],
    rule valid_bindS [OF revertChange_valid [OF E ok]], rule valid_bindS)
  fix p1 p2
  show "valid (\<lambda>w. pay_quiet ok view w0 w \<and> taken_off (view (pw_ledger w0)) (view (pw_ledger w)) p p1
      \<and> (\<exists>y. p2 = p1\<lparr>py_changeOperation := y\<rparr> \<and> unwound (view (pw_ledger w)) (py_changeOperation p1) y))
    (dbM (PaymentRepository_update (env_now E) (p2\<lparr>py_state := PAY_FAILED, py_chargebackReason := reason,
       py_failed := failure\<rparr>)))
    (\<lambda>_. pay_moves ok view w0) (pay_moves ok view w0)"
    using ok p
    by (rule valid_write [where C = "\<lambda>v. taken_off (view (pw_ledger w0)) v p p1
      \<and> (\<exists>y. p2 = p1\<lparr>py_changeOperation := y\<rparr> \<and> unwound v (py_changeOperation p1) y)"])
      (elim conjE exE, rule failed_row [OF _ p st _ _ _ refl])
qed (intro valid_moves frame)

lemma revert_moves:
  assumes E: "pe_operations E = ops"
  shows "inside (pay_moves ok view) (HandleRevertPaymentEventUseCase_execute E i reason failure)"
    and "inside (pay_moves ok view) (ReceivePaymentChargebackUseCase_execute E i reason failure)"
  unfolding HandleRevertPaymentEventUseCase_execute_def ReceivePaymentChargebackUseCase_execute_def
  by (rule inside_loadPayment, intro valid_if failPayment_moves [OF E]
      valid_quiet_moves [OF moves.inside_basic(1)] valid_quiet_moves [OF moves.inside_basic(2)];
      force)+

section \<open>Canceling and releasing scheduled payments\<close>

lemma scheduled_row:
  assumes p: "py_state p = PAY_SCHEDULED"
    and q: "q = p\<lparr>py_state := s, py_canceledAt := t\<rparr>" "s = PAY_CANCELED \<or> s = PAY_PENDING"
  shows "follows p q \<and> row_ok v q \<and> \<not> over v0 p
    \<and> (committed q \<longrightarrow> committed p \<and> operations_of q \<subseteq> operations_of p
         \<or> (\<forall>i \<in> operations_of q. v0 i = None))"
  using assms by (auto simp: follows_def kept_or_dropped_def beneficiary.truncate_def row_ok_def
      committed_def over_def)

lemma write_scheduled:
  assumes "ok (pw_ledger w0)" and "p \<in> set (payments (pw_db w0))" and "py_state p = PAY_SCHEDULED"
    and "q = p\<lparr>py_state := s, py_canceledAt := t\<rparr>" "s = PAY_CANCELED \<or> s = PAY_PENDING"
  shows "valid (pay_quiet ok view w0) (dbM (PaymentRepository_update now q))
    (\<lambda>_. pay_moves ok view w0) (pay_moves ok view w0)"
proof -
  have "valid (\<lambda>w. pay_quiet ok view w0 w \<and> True) (dbM (PaymentRepository_update now q))
    (\<lambda>_. pay_moves ok view w0) (pay_moves ok view w0)"
    using assms(1,2) scheduled_row [OF assms(3,4,5)]
    by (rule valid_write [where p = p and C = "\<lambda>_. True"])
  then show ?thesis by simp
qed

lemma find_member: "find P xs = Some x \<Longrightarrow> x \<in> set xs \<and> P x"
  by (auto simp: find_Some_iff)

lemma cancel_moves: "inside (pay_moves ok view) (CancelPaymentByOperationIdUseCase_execute E wallet i)"
  unfolding CancelPaymentByOperationIdUseCase_execute_def Let_def
proof (rule moves.inside_bindS, rule frame, rule inside_found)
  show "p \<in> set (payments d)" if "PaymentRepository_getByOperationAndWallet i wallet d = Some p" for d p
    using find_member that unfolding PaymentRepository_getByOperationAndWallet_def by fast
qed (intro valid_if valid_bindS [OF write_scheduled [OF _ _ _ refl]] valid_moves frame
      valid_quiet_moves [OF moves.inside_basic(1)] valid_quiet_moves [OF moves.inside_basic(2)];
      simp add: isStateValidForCanceling_def)

text \<open>The cron releases the rows it has read, one after the other.\<close>

lemma release_run:
  assumes "releasePayment E p w = (r, w')"
  shows "pw_ledger w' = pw_ledger w"
    and "payments (pw_db w') = payments (PaymentRepository_update (env_now E) (p\<lparr>py_state := PAY_PENDING\<rparr>) (pw_db w))"
  using assms by (auto simp: releasePayment_def Let_def bindS_def dbM_def modifyS_def emitPay_def
      throwS_def split: if_splits)

lemma release_moves:
  assumes "releasePayment E p w = (r, w')" and "p \<in> set (payments (pw_db w))" and "py_state p = PAY_SCHEDULED"
  shows "pay_moves ok view w w'"
proof (cases "ok (pw_ledger w)")
  case True
  have q: "p\<lparr>py_state := PAY_PENDING\<rparr> = p\<lparr>py_state := PAY_PENDING, py_canceledAt := py_canceledAt p\<rparr>" by simp
  have "valid (pay_quiet ok view w) (releasePayment E p) (\<lambda>_. pay_moves ok view w) (pay_moves ok view w)"
    unfolding releasePayment_def Let_def
    by (rule valid_bindS, rule write_scheduled [OF True assms(2,3) q], simp, rule valid_moves, rule frame)
  from valid_use [OF this quiet.refl assms(1)] show ?thesis .
qed (simp add: pay_moves_def)

lemma release_all_moves:
  assumes "foldS (releasePayment E) ps w = (r, w')" and "distinct (map py_id ps)"
    and "\<forall>p \<in> set ps. p \<in> set (payments (pw_db w)) \<and> py_state p = PAY_SCHEDULED"
    and "tbl_wf py_id (payments (pw_db w))"
  shows "pay_moves ok view w w'"
  using assms
proof (induction ps arbitrary: w)
  case Nil
  then show ?case by (simp add: result_simps moves.refl)
next
  case (Cons p ps)
  obtain r1 w1 where 1: "releasePayment E p w = (r1, w1)" by fastforce
  with Cons.prems have m: "pay_moves ok view w w1" by (auto intro: release_moves)
  show ?case
  proof (cases r1)
    case (Inl e)
    with 1 Cons.prems(1) m show ?thesis by (simp add: bindS_def)
  next
    case (Inr u)
    with 1 Cons.prems(1) have rest: "foldS (releasePayment E) ps w1 = (r, w')" by (simp add: bindS_def)
    from Cons.prems(3) have p: "p \<in> set (payments (pw_db w))" by simp
    have rows: "set (payments (pw_db w1)) = insert (payment_row (env_now E) p (p\<lparr>py_state := PAY_PENDING\<rparr>))
        (set (payments (pw_db w)) - {p})"
      unfolding release_run(2) [OF 1] by (rule set_payments_update [OF Cons.prems(4) p]) simp
    from Cons.prems(2,3) rows have "\<forall>q \<in> set ps. q \<in> set (payments (pw_db w1)) \<and> py_state q = PAY_SCHEDULED"
      by auto
    moreover from Cons.prems(4) have "tbl_wf py_id (payments (pw_db w1))"
      unfolding release_run(2) [OF 1] wf_payments_update .
    ultimately have "pay_moves ok view w1 w'"
      using Cons.IH [OF rest] Cons.prems(2) by simp
    with m show ?thesis by (rule moves.trans)
  qed
qed

lemma sync_scheduled_moves: "inside (pay_moves ok view) (SyncScheduledPaymentUseCase_execute E)"
  unfolding inside_def
proof
  fix w :: "'l pay_world"
  let ?ps = "PaymentRepository_getAllByStateAndPaymentDate (pe_moment E) PAY_SCHEDULED (env_now E) (pw_db w)"
  obtain r w' where run: "foldS (releasePayment E) ?ps w = (r, w')" by fastforce
  then have run': "snd (SyncScheduledPaymentUseCase_execute E w) = w'"
    by (simp add: SyncScheduledPaymentUseCase_execute_def bindS_def dbR_def readS_def)
  show "pay_moves ok view w (snd (SyncScheduledPaymentUseCase_execute E w))"
  proof (cases "tbl_wf py_id (payments (pw_db w))")
    case True
    then have "distinct (map py_id ?ps)"
      by (simp add: PaymentRepository_getAllByStateAndPaymentDate_def tbl_wf_def distinct_map_filter)
    from release_all_moves [OF run this _ True] have "pay_moves ok view w w'"
      by (simp add: PaymentRepository_getAllByStateAndPaymentDate_def)
    with run' show ?thesis by simp
  next
    case False
    have "pw_ledger w' = pw_ledger w"
      using run by (rule foldS_keeps [where P = "\<lambda>s. pw_ledger s = pw_ledger w"]) (auto dest: release_run(1))
    with False run' show ?thesis by (auto simp: pay_moves_def pay_inv_def)
  qed
qed

section \<open>All requests\<close>

lemmas all_moves = moves_creations revert_moves cancel_moves pending_moves complete_moves
  sync_scheduled_moves quiet_deposits [THEN inside_moves] quiet_devolutions [THEN inside_moves]
  quiet_warning_devolutions [THEN inside_moves] quiet_crons [THEN inside_moves]
  quiet_infractions [THEN inside_moves] quiet_pending_infractions [THEN inside_moves]
  quiet_refunds [THEN inside_moves] quiet_refund_devolutions [THEN inside_moves]

lemma served_moves: "served_usecase ops f \<Longrightarrow> inside (pay_moves ok view) f"
  by (erule served_usecase.cases; erule ssubst [of f]; rule moves.inside_run; rule all_moves; assumption)

lemma observed_moves: "observed_usecase ops f \<Longrightarrow> inside (pay_moves ok view) f"
  by (erule observed_usecase.cases; erule ssubst [of f]; rule moves.inside_run; rule all_moves; assumption)

lemma cron_moves: "cron_usecase ops f \<Longrightarrow> inside (pay_moves ok view) f"
  by (erule cron_usecase.cases; erule ssubst [of f]; rule all_moves)

lemma request_moves:
  assumes "pay_request ops others w w'"
  shows "pay_moves ok view w w'"
  using assms
proof (rule pay_request_inside)
  fix f assume "served_usecase ops f \<or> observed_usecase ops f \<or> cron_usecase ops f"
  then show "inside (pay_moves ok view) f"
    using served_moves observed_moves cron_moves by blast
next
  fix w1 assume "pay_moves ok view w w1"
  then show "pay_moves ok view w (w1\<lparr>pw_db := pw_db w\<rparr>)"
    by (auto simp: pay_moves_def intro: pay_inv_evolve)
next
  fix w1 out assume "pay_moves ok view w w1"
  then show "pay_moves ok view w (w1\<lparr>pw_db := (pw_db w1)\<lparr>payOutbox := out\<rparr>\<rparr>)"
    by (auto simp: pay_moves_def)
next
  fix l assume "others (pw_ledger w) l"
  then show "pay_moves ok view w (w\<lparr>pw_ledger := l\<rparr>)"
    using other by (auto simp: pay_moves_def intro: pay_inv_evolve)
qed (simp_all add: pay_moves_def)

lemma requests_moves:
  assumes "pay_requests ops others w w'"
  shows "pay_moves ok view w w'"
  using assms by (induction rule: rtranclp_induct) (auto intro: moves.refl moves.trans request_moves)

lemma requests_inv:
  assumes "pay_requests ops others w w'" and "ok (pw_ledger w)" and "pay_inv (view (pw_ledger w)) (payments (pw_db w))"
  shows "pay_inv (view (pw_ledger w')) (payments (pw_db w'))"
    and "rows_follow (view (pw_ledger w)) (payments (pw_db w)) (payments (pw_db w'))"
    and "ok (pw_ledger w')"
  using requests_moves [OF assms(1)] assms(2,3) by (simp_all add: pay_moves_def)

text \<open>Starting without payments, every payment agrees with its operations.\<close>

lemma pay_inv_Nil [simp]: "pay_inv v []"
  by (simp add: pay_inv_def tbl_wf_def)

lemma requests_row:
  assumes "pay_requests ops others w w'" and "ok (pw_ledger w)" and "payments (pw_db w) = []"
    and "p \<in> set (payments (pw_db w'))"
  shows "row_ok (view (pw_ledger w')) p"
  using requests_inv(1) [OF assms(1,2)] assms(3,4) by (auto intro: inv_row)

end

end
