(* ===== verification/Pix_Dispute_Frames.thy ===== *)
theory Pix_Dispute_Frames
  imports Pix_Payment_Life
begin

text \<open>
  Use cases that leave infractions, refunds and blocked amounts alone: a locale for the relations
  between states that do not look at anything else, and its lemma for every such use case. The
  use cases of infractions and refunds are grouped as they use the tables.
\<close>

section \<open>The tables of infractions and refunds\<close>

definition disputes ::
    "pay_db \<Rightarrow> pix_infraction list \<times> pix_refund list \<times> pix_refund_devolution list \<times> refund_operation list" where
  "disputes d = (infractions d, refunds d, refundDevolutions d, refundOperations d)"

lemma disputes_other_tables [simp]:
  "disputes (d\<lparr>payments := a\<rparr>) = disputes d" "disputes (d\<lparr>deposits := b\<rparr>) = disputes d"
  "disputes (d\<lparr>devolutions := c\<rparr>) = disputes d" "disputes (d\<lparr>devolutionsReceived := e\<rparr>) = disputes d"
  "disputes (d\<lparr>warningDeposits := f\<rparr>) = disputes d" "disputes (d\<lparr>warningDevolutions := g\<rparr>) = disputes d"
  "disputes (d\<lparr>decodedQrCodes := h\<rparr>) = disputes d" "disputes (d\<lparr>decodedAccounts := i\<rparr>) = disputes d"
  "disputes (d\<lparr>skipList := j\<rparr>) = disputes d" "disputes (d\<lparr>blockedCpfs := j\<rparr>) = disputes d"
  "disputes (d\<lparr>blockedBanks := j\<rparr>) = disputes d" "disputes (d\<lparr>payOutbox := k\<rparr>) = disputes d"
  "disputes (payments_update a' d) = disputes d" "disputes (deposits_update b' d) = disputes d"
  "disputes (devolutions_update c' d) = disputes d"
  "disputes (devolutionsReceived_update e' d) = disputes d"
  "disputes (warningDeposits_update f' d) = disputes d"
  "disputes (warningDevolutions_update g' d) = disputes d"
  "disputes (PaymentRepository_update now p d) = disputes d"
  "disputes (PixDepositRepository_update now x d) = disputes d"
  "disputes (WarningPixDepositRepository_update y d) = disputes d"
  "disputes (WarningPixDevolutionRepository_update now z d) = disputes d"
  "disputes (PixDevolutionReceivedRepository_update u d) = disputes d"
  by (simp_all add: disputes_def PaymentRepository_update_def PixDepositRepository_update_def
      WarningPixDepositRepository_update_def WarningPixDevolutionRepository_update_def
      PixDevolutionReceivedRepository_update_def)

text \<open>The steps that the use cases of infractions and refunds are made of.\<close>

lemmas infraction_steps = loadInfraction_def infractionByIssue_def infractionByPsp_def
  storeInfraction_def whenInfraction_def revertRefundOperations_def reportedTransaction_def
  pspDecision_def Let_def

lemmas refund_steps = loadRefund_def storeRefund_def whenRefund_def validateRelatedInfraction_def
  refundOfInfraction_def refundOnItsOwn_def refundByIssue_def loadRefundDevolution_def
  storeRefundDevolution_def sendRefundDevolutionPSP_def sendRefundDevolutionP2P_def
  acceptPixInfractionRefundOperations_def refundOfDevolution_def giveBackReturned_def
  revertRefundBlocks_def addReturned_def checkRefund_def

locale undisputed = pay_relation R
  for R :: "'l pay_world \<Rightarrow> 'l pay_world \<Rightarrow> bool" +
  fixes ops :: "'l operation_service"
  assumes tables: "disputes d = disputes (pw_db w) \<Longrightarrow> R w (w\<lparr>pw_db := d\<rparr>)"
    and redis: "R w (w\<lparr>pw_redis := x\<rparr>)"
    and create_inside [frame]: "inside R (ledgerS (os_createOperation ops tag rq a b))"
    and create_accept_inside [frame]: "inside R (ledgerS (os_createAndAcceptOperation ops tag rq a b))"
    and block_inside [frame]: "inside R (ledgerS (os_blockOperation ops tag rq u))"
    and accept_inside [frame]: "inside R (ledgerS (os_acceptOperation ops i))"
    and revert_inside [frame]: "inside R (ledgerS (os_revertOperation ops i))"
    and reference_inside [frame]: "inside R (ledgerS (os_setOperationReference ops i j))"
begin

lemma tables_dbM [frame]: "(\<And>d. disputes (f d) = disputes d) \<Longrightarrow> inside R (dbM f)"
  by (rule inside_dbM) (simp add: tables)

lemma tables_redisM [frame]: "inside R (redisM f)"
  by (rule inside_redisM) (rule redis)

lemma tables_insertRow [frame]:
  "(\<And>f d. disputes (upd f d) = disputes d) \<Longrightarrow> inside R (insertRow key table upd r)"
  by (rule inside_insertRow) (simp add: tables)

lemma tables_repositories [frame]:
  "inside R (PaymentRepository_create now p)"
  "inside R (PixDepositRepository_create now x)" "inside R (PixDepositCacheRepository_create now x)"
  "inside R (PixDevolutionRepository_create now v)" "inside R (PixDevolutionRepository_update now v)"
  "inside R (PixDevolutionReceivedRepository_create r)"
  "inside R (WarningPixDepositRepository_create y)"
  "inside R (WarningPixDevolutionRepository_create now z)"
  by (auto simp: PaymentRepository_create_def PixDepositRepository_create_def
      PixDepositCacheRepository_create_def PixDevolutionRepository_create_def
      PixDevolutionRepository_update_def PixDevolutionReceivedRepository_create_def
      WarningPixDepositRepository_create_def WarningPixDevolutionRepository_create_def Let_def
      intro!: frame)

section \<open>Payments, deposits and devolutions\<close>

lemma creations_inside:
  "inside R (CreateByAccountPaymentUseCase_execute E i user wallet r)"
  "inside R (CreateByPixKeyPaymentUseCase_execute E i user wallet r)"
  "inside R (CreateByQrCodeStaticPaymentUseCase_execute E i user wallet r)"
  "inside R (CreateByQrCodeDynamicPaymentUseCase_execute E i user wallet r)"
  "inside R (DuedateByQrCodeDynamicPaymentUseCase_execute E i user wallet r)"
  "inside R (WithdrawalByQrCodeStaticPaymentUseCase_execute E i user wallet r)"
  "inside R (WithdrawalByQrCodeDynamicPaymentUseCase_execute E i user wallet r)"
  "inside R (ChangeByQrCodeDynamicPaymentUseCase_execute E i j user wallet r)"
  by (auto simp: CreateByAccountPaymentUseCase_execute_def CreateByPixKeyPaymentUseCase_execute_def
      CreateByQrCodeStaticPaymentUseCase_execute_def CreateByQrCodeDynamicPaymentUseCase_execute_def
      DuedateByQrCodeDynamicPaymentUseCase_execute_def WithdrawalByQrCodeStaticPaymentUseCase_execute_def
      WithdrawalByQrCodeDynamicPaymentUseCase_execute_def ChangeByQrCodeDynamicPaymentUseCase_execute_def
      unlessStored_def load_payer_def schedule_def storePayment_def announcePayment_def load_code_def
      requestedValue_def codeValue_def Let_def intro!: frame)

lemma processing_inside:
  assumes [simp]: "pe_operations E = ops"
  shows "inside R (HandlePendingPaymentEventUseCase_execute E depId refundId i)"
    and "inside R (HandleCompletePaymentEventUseCase_execute E i e2e)"
    and "inside R (HandleRevertPaymentEventUseCase_execute E i reason failure)"
    and "inside R (ReceivePaymentChargebackUseCase_execute E i reason failure)"
    and "inside R (CancelPaymentByOperationIdUseCase_execute E wallet i)"
  by (auto simp: HandlePendingPaymentEventUseCase_execute_def sendPaymentPSP_def sendPaymentP2P_def
      createOperationPSP_def createChangeOperationPSP_def createAndAcceptOperationP2P_def
      createAndAcceptChangeOperationP2P_def setPaymentReference_def loadPayment_def
      HandleCompletePaymentEventUseCase_execute_def acceptGiven_def
      HandleRevertPaymentEventUseCase_execute_def ReceivePaymentChargebackUseCase_execute_def
      failPayment_def revertOperation_def revertChangeOperation_def revertIfKnown_def
      CancelPaymentByOperationIdUseCase_execute_def Let_def intro!: frame)

lemma deposits_inside:
  assumes [simp]: "pe_operations E = ops"
  shows "inside R (ReceivePixDepositUseCase_execute E i rq)"
    and "inside R (HandleReceiveFailedPixDepositEventUseCase_execute E drawn rq)"
    and "inside R (WarningDepositChecker_execute E c i)"
    and "inside R (HandleWaitingPixDepositEventUseCase_execute E j k i)"
    and "inside R (ApprovePixDepositUseCase_execute E j i)"
    and "inside R (BlockPixDepositUseCase_execute E j i)"
    and "inside R (CreateWarningPixDevolutionUseCase_execute E j user i)"
  by (auto simp: ReceivePixDepositUseCase_execute_def ownBank_def theBank_def loadBank_def
      ReceivePixDeposit_isInSkipList_def HandleReceiveFailedPixDepositEventUseCase_execute_def
      HandleWaitingPixDepositEventUseCase_execute_def holdDeposit_def creditDeposit_def
      ApprovePixDepositUseCase_execute_def BlockPixDepositUseCase_execute_def loadHeldDeposit_def
      CreateWarningPixDevolutionUseCase_execute_def Let_def intro!: frame)
    (cases c; auto simp: WarningDepositChecker_execute_def setResult_def startWaiting_def runCheck_def
      isOverWarningOccupationIncome_def getSameDepositIn24Hours_def Let_def intro!: frame)

lemma devolutions_inside:
  assumes [simp]: "pe_operations E = ops"
  shows "inside R (CreatePixDevolutionController_execute E j i user wallet operation a description)"
    and "inside R (HandlePendingPixDevolutionEventUseCase_execute E ids i)"
    and "inside R (HandleCompletePixDevolutionEventUseCase_execute E i e2e)"
    and "inside R (HandleRevertPixDevolutionEventUseCase_execute E i reason failure)"
    and "inside R (ReceivePixDevolutionChargebackUseCase_execute E i reason failure)"
    and "inside R (HandleCreateFailedPixDevolutionEventUseCase_execute E j i depId)"
    and "inside R (HandlePendingFailedPixDevolutionEventUseCase_execute E i)"
    and "inside R (ReceivePixDevolutionReceivedUseCase_execute E ids paymentKey rq)"
  by (auto simp: CreatePixDevolutionController_execute_def CreatePixDevolutionUseCase_execute_def
      addDevolution_def HandlePendingPixDevolutionEventUseCase_execute_def
      HandleCompletePixDevolutionEventUseCase_execute_def revertIfKnown_def
      HandleRevertPixDevolutionEventUseCase_execute_def
      ReceivePixDevolutionChargebackUseCase_execute_def
      HandleCreateFailedPixDevolutionEventUseCase_execute_def
      HandlePendingFailedPixDevolutionEventUseCase_execute_def loadDevolution_def depositOf_def
      whenPending_def callDevolutionPSP_def sendDevolutionPSP_def sendDevolutionP2P_def takeBack_def
      revertDevolutionOperation_def ReceivePixDevolutionReceivedUseCase_execute_def ownBank_def
      theBank_def loadBank_def Let_def intro!: frame)

lemma warning_devolutions_inside:
  assumes [simp]: "pe_operations E = ops"
  shows "inside R (HandleCreateWarningPixDevolutionEventUseCase_execute E i j)"
    and "inside R (HandlePendingWarningPixDevolutionEventUseCase_execute E i)"
    and "inside R (HandleCompleteWarningPixDevolutionEventUseCase_execute E i e2e)"
    and "inside R (HandleRevertWarningPixDevolutionEventUseCase_execute E i reason failure)"
  by (auto simp: HandleCreateWarningPixDevolutionEventUseCase_execute_def
      HandlePendingWarningPixDevolutionEventUseCase_execute_def loadWarningDevolution_def
      warningDepositOf_def HandleCompleteWarningPixDevolutionEventUseCase_execute_def
      HandleRevertWarningPixDevolutionEventUseCase_execute_def Let_def intro!: frame)

lemma crons_inside:
  "inside R (SyncScheduledPaymentUseCase_execute E)"
  "inside R (SyncWaitingPaymentUseCase_execute E)"
  "inside R (SyncWaitingRecentPaymentUseCase_execute E)"
  "inside R (SyncWaitingPixDevolutionUseCase_execute E)"
  "inside R (SyncWaitingRecentPixDevolutionUseCase_execute E)"
  "inside R (SyncWaitingWarningPixDevolutionUseCase_execute E)"
  "inside R (SyncWaitingRecentWarningPixDevolutionUseCase_execute E)"
  "inside R (SyncPixInfractionUseCase_execute E drawn)"
  "inside R (SyncPixRefundUseCase_execute E drawn)"
  "inside R (SyncWaitingPixRefundDevolutionUseCase_execute E)"
  "inside R (SyncWaitingRecentPixRefundDevolutionUseCase_execute E)"
  by (auto simp: SyncScheduledPaymentUseCase_execute_def releasePayment_def
      SyncWaitingPaymentUseCase_execute_def SyncWaitingRecentPaymentUseCase_execute_def
      SyncWaitingPixDevolutionUseCase_execute_def SyncWaitingRecentPixDevolutionUseCase_execute_def
      SyncWaitingWarningPixDevolutionUseCase_execute_def
      SyncWaitingRecentWarningPixDevolutionUseCase_execute_def SyncPixInfractionUseCase_execute_def
      SyncPixRefundUseCase_execute_def SyncWaitingPixRefundDevolutionUseCase_execute_def
      SyncWaitingRecentPixRefundDevolutionUseCase_execute_def syncPayment_def syncDevolution_def
      syncWarningDevolution_def syncInfraction_def syncRefund_def syncRefundDevolution_def Let_def
      intro!: frame split: payment_status.split infraction_status.split refund_status.split)

lemmas undisputed_inside = creations_inside processing_inside deposits_inside devolutions_inside
  warning_devolutions_inside

end

section \<open>Infractions and refunds\<close>

text \<open>
  A relation that also admits what those use cases write, row by row or as a whole where the rows
  depend on the ledger, admits every request.
\<close>

locale disputed = undisputed R ops
  for R :: "'l pay_world \<Rightarrow> 'l pay_world \<Rightarrow> bool" and ops :: "'l operation_service" +
  fixes others :: "'l \<Rightarrow> 'l \<Rightarrow> bool"
  assumes infraction_created [frame]: "inside R (PixInfractionRepository_create now x)"
    and infraction_updated [frame]: "inside R (dbM (PixInfractionRepository_update x))"
    and refund_created [frame]: "inside R (PixRefundRepository_create now y)"
    and refund_updated [frame]: "inside R (dbM (PixRefundRepository_update y))"
    and refund_devolution_created [frame]: "inside R (PixRefundDevolutionRepository_create now z)"
    and refund_devolution_updated [frame]: "inside R (dbM (PixRefundDevolutionRepository_update now z))"
    and balance_blocked: "pe_operations E = ops \<Longrightarrow> inside R (blockBalance E ids wanted infraction refund t)"
    and shortfalls_blocked: "pe_operations E = ops \<Longrightarrow>
      inside R (blockShortfalls E i drawn wallet amount shortfalls created)"
    and blocks_reverted [frame]: "inside R (closeBlocks (\<lambda>k. ledgerS (os_revertOperation ops k)) c)"
    and blocks_accepted [frame]: "inside R (closeBlocks (\<lambda>k. ledgerS (os_acceptOperation ops k)) c)"
    and blocks_linked [frame]: "inside R (associateRefundToPixInfractionRefundOperation j n)"
    and rollback: "R w w1 \<Longrightarrow> R w (w1\<lparr>pw_db := pw_db w\<rparr>)"
    and other_service: "others (pw_ledger w) l \<Longrightarrow> R w (w\<lparr>pw_ledger := l\<rparr>)"
begin

lemma infractions_inside:
  assumes [simp]: "pe_operations E = ops"
  shows "inside R (CreatePixInfractionUseCase_execute E i ty operation status issueId description)"
    and "inside R (OpenPixInfractionUseCase_execute E issueId description)"
    and "inside R (InAnalysisPixInfractionUseCase_execute E issueId description)"
    and "inside R (ClosePixInfractionUseCase_execute E issueId result details)"
    and "inside R (CancelPixInfractionUseCase_execute E issueId)"
    and "inside R (HandleReceivePixInfractionEventUseCase_execute E ids ir)"
    and "inside R (HandleAcknowledgePixInfractionEventUseCase_execute E pspId)"
    and "inside R (HandleCancelPixInfractionReceivedEventUseCase_execute E pspId result details)"
    and "inside R (HandleClosePixInfractionReceivedEventUseCase_execute E pspId result details)"
    and "inside R (HandleRevertPixInfractionEventUseCase_execute E i failure)"
  by (auto simp: CreatePixInfractionUseCase_execute_def OpenPixInfractionUseCase_execute_def
      InAnalysisPixInfractionUseCase_execute_def ClosePixInfractionUseCase_execute_def
      CancelPixInfractionUseCase_execute_def HandleReceivePixInfractionEventUseCase_execute_def
      HandleAcknowledgePixInfractionEventUseCase_execute_def
      HandleCancelPixInfractionReceivedEventUseCase_execute_def
      HandleClosePixInfractionReceivedEventUseCase_execute_def
      HandleRevertPixInfractionEventUseCase_execute_def infraction_steps
      intro!: frame balance_blocked)

lemma pending_infractions_inside:
  "inside R (HandleOpenPendingPixInfractionEventUseCase_execute E i)"
  "inside R (HandleClosePendingPixInfractionEventUseCase_execute E i)"
  "inside R (HandleCancelPendingPixInfractionEventUseCase_execute E i)"
  "inside R (HandleReceivePendingPixInfractionEventUseCase_execute E i)"
  "inside R (HandleAcknowledgePendingPixInfractionEventUseCase_execute E i)"
  "inside R (HandleCancelPendingPixInfractionReceivedEventUseCase_execute E i)"
  "inside R (HandleClosePendingPixInfractionReceivedEventUseCase_execute E i)"
  by (auto simp: HandleOpenPendingPixInfractionEventUseCase_execute_def
      HandleClosePendingPixInfractionEventUseCase_execute_def
      HandleCancelPendingPixInfractionEventUseCase_execute_def
      HandleReceivePendingPixInfractionEventUseCase_execute_def
      HandleAcknowledgePendingPixInfractionEventUseCase_execute_def
      HandleCancelPendingPixInfractionReceivedEventUseCase_execute_def
      HandleClosePendingPixInfractionReceivedEventUseCase_execute_def infraction_steps intro!: frame)

lemma refunds_inside:
  assumes [simp]: "pe_operations E = ops"
  shows "inside R (HandleReceivePixRefundEventUseCase_execute E ids fr)"
    and "inside R (HandleReceivePendingPixRefundUseCase_execute E i)"
    and "inside R (CancelPixRefundUseCase_execute E issueId details rejection)"
    and "inside R (ClosePixRefundUseCase_execute E issueId note)"
    and "inside R (HandleCancelPendingPixRefundEventUseCase_execute E i)"
    and "inside R (HandleClosePendingPixRefundEventUseCase_execute E j i)"
    and "inside R (HandleRevertPixRefundEventUseCase_execute E i failure)"
  by (auto simp: HandleReceivePixRefundEventUseCase_execute_def
      HandleReceivePendingPixRefundUseCase_execute_def CancelPixRefundUseCase_execute_def
      ClosePixRefundUseCase_execute_def HandleCancelPendingPixRefundEventUseCase_execute_def
      HandleClosePendingPixRefundEventUseCase_execute_def HandleRevertPixRefundEventUseCase_execute_def
      refund_steps infraction_steps intro!: frame balance_blocked)

lemma refund_devolutions_inside:
  assumes [simp]: "pe_operations E = ops"
  shows "inside R (HandleCreatePixRefundDevolutionEventUseCase_execute E i j)"
    and "inside R (HandlePendingPixRefundDevolutionEventUseCase_execute E i)"
    and "inside R (HandleCompletePixRefundDevolutionEventUseCase_execute E i e2e)"
    and "inside R (HandleRevertPixRefundDevolutionEventUseCase_execute E i reason failure)"
    and "inside R
      (HandleCreatePixInfractionRefundOperationUseCase_execute E drawn i transactionId st user wallet amount)"
  by (auto simp: HandleCreatePixRefundDevolutionEventUseCase_execute_def
      HandlePendingPixRefundDevolutionEventUseCase_execute_def
      HandleCompletePixRefundDevolutionEventUseCase_execute_def
      HandleRevertPixRefundDevolutionEventUseCase_execute_def
      HandleCreatePixInfractionRefundOperationUseCase_execute_def refund_steps infraction_steps
      intro!: frame shortfalls_blocked)

lemmas disputed_inside = undisputed_inside infractions_inside pending_infractions_inside
  refunds_inside refund_devolutions_inside

lemma served_inside: "served_usecase ops f \<Longrightarrow> inside R f"
  by (erule served_usecase.cases; erule ssubst [of f]; rule inside_run; rule disputed_inside; assumption)

lemma observed_inside: "observed_usecase ops f \<Longrightarrow> inside R f"
  by (erule observed_usecase.cases; erule ssubst [of f]; rule inside_run; rule disputed_inside; assumption)

lemma cron_inside: "cron_usecase ops f \<Longrightarrow> inside R f"
  by (erule cron_usecase.cases; erule ssubst [of f]; rule crons_inside)

lemma request_inside:
  assumes "pay_request ops others w w'"
  shows "R w w'"
  using assms
proof (rule pay_request_inside)
  fix f assume "served_usecase ops f \<or> observed_usecase ops f \<or> cron_usecase ops f"
  then show "inside R f" using served_inside observed_inside cron_inside by blast
next
  fix w1 out assume "R w w1"
  then show "R w (w1\<lparr>pw_db := (pw_db w1)\<lparr>payOutbox := out\<rparr>\<rparr>)" using outbox trans by blast
qed (auto intro: rollback other_service redis intro!: tables simp: disputes_def)

lemma requests_inside: "pay_requests ops others w w' \<Longrightarrow> R w w'"
  by (induction rule: rtranclp_induct) (auto intro: trans request_inside)

end

end
