(* ===== verification/Pix_Refund_Links.thy ===== *)
theory Pix_Refund_Links
  imports Pix_Dispute_Frames
begin

text \<open>
  The devolution that a refund names: the repository never writes over it, so whatever the use cases
  ask for, a refund keeps the first one. The relation is an instance of \<open>disputed\<close> that does not look
  at the ledger at all.
\<close>

definition links_kept :: "'l pay_world \<Rightarrow> 'l pay_world \<Rightarrow> bool" where
  "links_kept w w' \<longleftrightarrow> (\<forall>x \<in> set (refunds (pw_db w)). rf_refundDevolution x \<noteq> None \<longrightarrow>
     (\<exists>y \<in> set (refunds (pw_db w')). rf_id y = rf_id x \<and> rf_refundDevolution y = rf_refundDevolution x))"

lemma links_kept_same: "refunds (pw_db w') = refunds (pw_db w) \<Longrightarrow> links_kept w w'"
  by (auto simp: links_kept_def)

lemma links_kept_trans: "links_kept w w1 \<Longrightarrow> links_kept w1 w2 \<Longrightarrow> links_kept w w2"
  unfolding links_kept_def by metis

interpretation refund_relation: pay_relation links_kept
  by unfold_locales (auto intro: links_kept_same links_kept_trans)

lemma links_other_tables [simp]:
  "refunds (PixInfractionRepository_update n d) = refunds d"
  "refunds (PixRefundDevolutionRepository_update now u d) = refunds d"
  "refunds (PixInfractionRefundOperationRepository_update b d) = refunds d"
  by (simp_all add: PixInfractionRepository_update_def PixRefundDevolutionRepository_update_def
      PixInfractionRefundOperationRepository_update_def)

lemma links_kept_dbM:
  "(\<And>d. refunds (f d) = refunds d) \<Longrightarrow> inside links_kept (dbM f)"
  by (rule refund_relation.inside_dbM) (simp add: links_kept_same)

lemma links_kept_insertRow:
  "(\<And>f d. refunds (upd f d) = refunds d) \<Longrightarrow> inside links_kept (insertRow key table upd r)"
  by (rule refund_relation.inside_insertRow) (simp add: links_kept_same)

lemma links_kept_ledgerS: "inside links_kept (ledgerS f)"
  by (rule refund_relation.inside_ledgerS) (simp add: links_kept_same)

lemma links_kept_create: "inside links_kept (PixRefundRepository_create now y)"
proof -
  have "links_kept w (w\<lparr>pw_db := refunds_update (\<lambda>_. t) (pw_db w)\<rparr>)"
    if "tbl_create rf_id PayUniqueConstraint r (refunds (pw_db w)) = Inr t" for w :: "'a pay_world" and r t
    using that by (auto simp: links_kept_def tbl_create_def tbl_insert_def split: if_splits)
  then show ?thesis
    by (auto simp: PixRefundRepository_create_def Let_def intro!: frame refund_relation.inside_insertRow)
qed

lemma links_kept_update: "inside links_kept (dbM (PixRefundRepository_update y))"
proof (rule refund_relation.inside_dbM)
  fix w :: "'a pay_world"
  have "\<exists>z \<in> set (refunds (PixRefundRepository_update y (pw_db w))).
      rf_id z = rf_id x \<and> rf_refundDevolution z = rf_refundDevolution x"
    if "x \<in> set (refunds (pw_db w))" "rf_refundDevolution x \<noteq> None" for x
  proof -
    let ?z = "if rf_id x = rf_id y then refund_row x y else x"
    from that(1) have "?z \<in> set (refunds (PixRefundRepository_update y (pw_db w)))"
      by (auto simp: PixRefundRepository_update_def)
    moreover from that(2) have "rf_id ?z = rf_id x \<and> rf_refundDevolution ?z = rf_refundDevolution x"
      by (auto simp: refund_row_def stored_def)
    ultimately show ?thesis by blast
  qed
  then show "links_kept w (w\<lparr>pw_db := PixRefundRepository_update y (pw_db w)\<rparr>)"
    by (simp add: links_kept_def)
qed

lemma links_kept_closeBlocks: "inside links_kept (closeBlocks (\<lambda>k. ledgerS (f k)) c)"
  by (auto simp: closeBlocks_def closeBlock_def intro!: frame links_kept_dbM links_kept_ledgerS)

lemma links_kept_associate: "inside links_kept (associateRefundToPixInfractionRefundOperation i x)"
  by (auto simp: associateRefundToPixInfractionRefundOperation_def linkRefund_def
      intro!: frame links_kept_dbM)

lemma links_kept_block: "inside links_kept (blockBalance E ids wanted infraction refund t)"
  by (auto simp: blockBalance_def PixInfractionRefundOperationRepository_create_def
      intro!: frame links_kept_insertRow links_kept_ledgerS)

lemma links_kept_shortfalls: "inside links_kept (blockShortfalls E i drawn wallet amount xs created)"
  by (induction xs arbitrary: created)
    (auto simp: blockShortfall_def blockFor_def storeBlock_def giveUp_def
      PixInfractionRefundOperationRepository_create_def
      intro!: frame links_kept_insertRow links_kept_ledgerS)

interpretation refund_links: disputed links_kept ops others for ops others
  by unfold_locales
    (auto simp: disputes_def PixInfractionRepository_create_def PixRefundDevolutionRepository_create_def
      Let_def links_kept_same links_kept_ledgerS links_kept_dbM links_kept_create links_kept_update
      links_kept_closeBlocks links_kept_associate links_kept_block links_kept_shortfalls
      intro!: frame links_kept_insertRow refund_relation.inside_redisM)

end
