(* ===== verification/Pix_Block_Ledger.thy ===== *)
theory Pix_Block_Ledger
  imports Pix_Dispute_Frames
begin

text \<open>
  Blocked amounts and the ledger. Every row of a blocked amount stands for an operation of its own
  at the operations service, with the value that the row tells; when the row is closed the operation
  has been accepted or reverted. Rows keep what they were created with and are never opened again.
\<close>

section \<open>Rows and their operations\<close>

definition block_ok :: "order_view \<Rightarrow> refund_operation \<Rightarrow> bool" where
  "block_ok v x \<longleftrightarrow> 0 \<le> ro_refundValue x
     \<and> (\<exists>s u. v (ro_refundOperation x) = Some (s, Some u, ro_refundValue x)
          \<and> (ro_state x = RO_CLOSED \<longrightarrow> s = ACCEPTED \<or> s = REVERTED))
     \<and> (\<exists>s u. v (ro_originalOperation x) = Some (s, u, ro_originalValue x))"

definition blocks_inv :: "order_view \<Rightarrow> refund_operation list \<Rightarrow> bool" where
  "blocks_inv v xs \<longleftrightarrow> tbl_wf ro_id xs \<and> inj_on ro_refundOperation (set xs)
     \<and> (\<forall>x \<in> set xs. block_ok v x)"

definition block_follows :: "refund_operation \<Rightarrow> refund_operation \<Rightarrow> bool" where
  "block_follows x y \<longleftrightarrow> y = x\<lparr>ro_state := ro_state y, ro_pixRefund := ro_pixRefund y\<rparr>
     \<and> (ro_state x = RO_CLOSED \<longrightarrow> ro_state y = RO_CLOSED)"

definition blocks_follow :: "refund_operation list \<Rightarrow> refund_operation list \<Rightarrow> bool" where
  "blocks_follow xs ys \<longleftrightarrow> (\<forall>x \<in> set xs. \<exists>y \<in> set ys. block_follows x y)"

lemma block_follows_refl [simp]: "block_follows x x"
  by (simp add: block_follows_def)

lemma block_follows_trans: "block_follows x y \<Longrightarrow> block_follows y z \<Longrightarrow> block_follows x z"
  by (cases x; cases y; cases z) (auto simp: block_follows_def)

lemma block_follows_fields:
  "block_follows x y \<Longrightarrow> ro_id y = ro_id x \<and> ro_user y = ro_user x
     \<and> ro_pixInfraction y = ro_pixInfraction x \<and> ro_refundOperation y = ro_refundOperation x
     \<and> ro_refundValue y = ro_refundValue x \<and> ro_originalOperation y = ro_originalOperation x
     \<and> ro_originalValue y = ro_originalValue x"
  by (cases x; cases y) (simp add: block_follows_def)

lemma blocks_follow_refl [simp]: "blocks_follow xs xs"
  unfolding blocks_follow_def using block_follows_refl by blast

lemma blocks_follow_trans: "blocks_follow xs ys \<Longrightarrow> blocks_follow ys zs \<Longrightarrow> blocks_follow xs zs"
  unfolding blocks_follow_def using block_follows_trans by blast

lemma block_ok_evolve:
  assumes "block_ok v x" and ev: "orders_evolve v v'"
  shows "block_ok v' x"
proof -
  from assms(1) obtain s u t w
    where s: "0 \<le> ro_refundValue x" "v (ro_refundOperation x) = Some (s, Some u, ro_refundValue x)"
      "ro_state x = RO_CLOSED \<longrightarrow> s = ACCEPTED \<or> s = REVERTED"
      and t: "v (ro_originalOperation x) = Some (t, w, ro_originalValue x)"
    by (auto simp: block_ok_def)
  from ev s(2) obtain s' where "v' (ro_refundOperation x) = Some (s', Some u, ro_refundValue x)"
    and "s \<noteq> PENDING \<longrightarrow> s' = s" unfolding orders_evolve_def by blast
  with s(1,3) orders_evolve_known [OF ev t] show ?thesis by (auto simp: block_ok_def)
qed

lemma blocks_inv_evolve: "blocks_inv v xs \<Longrightarrow> orders_evolve v v' \<Longrightarrow> blocks_inv v' xs"
  unfolding blocks_inv_def using block_ok_evolve by blast

lemma blocks_inv_Nil [simp]: "blocks_inv v []"
  by (simp add: blocks_inv_def tbl_wf_def)

lemma set_tbl_update:
  assumes "tbl_wf key t" and "x \<in> set t" and "key y = key x"
  shows "set (tbl_update key y t) = insert y (set t - {x})"
proof -
  have "key z = key y \<longleftrightarrow> z = x" if "z \<in> set t" for z
    using assms that inj_onD [of key "set t"] by (auto simp: tbl_wf_def distinct_map)
  with assms(2) show ?thesis by (force simp: tbl_update_def image_iff)
qed

lemma blocks_update:
  assumes inv: "blocks_inv v xs" and ev: "orders_evolve v v'" and x: "x \<in> set xs"
    and y: "block_follows x y" "block_ok v' y"
  shows "blocks_inv v' (tbl_update ro_id y xs) \<and> blocks_follow xs (tbl_update ro_id y xs)"
proof -
  from y(1) have id: "ro_id y = ro_id x" "ro_refundOperation y = ro_refundOperation x"
    by (simp_all add: block_follows_fields)
  from inv have wf: "tbl_wf ro_id xs" and inj: "inj_on ro_refundOperation (set xs)"
    by (simp_all add: blocks_inv_def)
  note rows = set_tbl_update [OF wf x id(1)]
  have "inj_on ro_refundOperation (insert y (set xs - {x}))"
    using inj x id(2) by (auto simp: inj_on_def)
  moreover have "\<forall>z \<in> insert y (set xs - {x}). block_ok v' z"
    using inv ev y(2) by (auto simp: blocks_inv_def intro: block_ok_evolve)
  ultimately have "blocks_inv v' (tbl_update ro_id y xs)"
    using tbl_wf_update [OF wf] by (simp add: blocks_inv_def rows)
  moreover have "blocks_follow xs (tbl_update ro_id y xs)"
    unfolding blocks_follow_def rows using y(1) by (metis block_follows_refl insert_iff Diff_iff singletonD)
  ultimately show ?thesis ..
qed

lemma blocks_insert:
  assumes inv: "blocks_inv v xs" and ev: "orders_evolve v v'"
    and y: "tbl_find ro_id (ro_id y) xs = None" "v (ro_refundOperation y) = None" "block_ok v' y"
  shows "blocks_inv v' (tbl_insert y xs) \<and> blocks_follow xs (tbl_insert y xs)"
proof -
  from inv y(2) have "ro_refundOperation y \<notin> ro_refundOperation ` set xs"
    by (auto simp: blocks_inv_def block_ok_def)
  with inv ev y show ?thesis
    by (auto simp: blocks_inv_def blocks_follow_def tbl_insert_def tbl_wf_def tbl_find_None_iff
        intro: block_ok_evolve block_follows_refl)
qed

section \<open>The relation between states\<close>

definition blocks_move :: "('l \<Rightarrow> bool) \<Rightarrow> ('l \<Rightarrow> order_view) \<Rightarrow> 'l pay_world \<Rightarrow> 'l pay_world \<Rightarrow> bool" where
  "blocks_move ok view w w' \<longleftrightarrow> (ok (pw_ledger w) \<longrightarrow> ok (pw_ledger w')
     \<and> orders_evolve (view (pw_ledger w)) (view (pw_ledger w'))
     \<and> (blocks_inv (view (pw_ledger w)) (refundOperations (pw_db w)) \<longrightarrow>
          blocks_inv (view (pw_ledger w')) (refundOperations (pw_db w'))
          \<and> blocks_follow (refundOperations (pw_db w)) (refundOperations (pw_db w'))))"

lemma blocks_move_ledger:
  assumes "ok (pw_ledger w) \<Longrightarrow> ok (pw_ledger w') \<and> orders_evolve (view (pw_ledger w)) (view (pw_ledger w'))"
    and "refundOperations (pw_db w') = refundOperations (pw_db w)"
  shows "blocks_move ok view w w'"
  using assms by (auto simp: blocks_move_def intro: blocks_inv_evolve)

lemma blocks_move_relation: "pay_relation (blocks_move ok view)"
proof
  fix w w1 w2 assume 1: "blocks_move ok view w w1" and 2: "blocks_move ok view w1 w2"
  then show "blocks_move ok view w w2"
    unfolding blocks_move_def by (auto intro: orders_evolve_trans blocks_follow_trans)
qed (auto simp: blocks_move_def)

interpretation block_moves: pay_relation "blocks_move ok view" for ok view
  by (rule blocks_move_relation)

lemma blocks_ledgerS:
  fixes view :: "'l \<Rightarrow> order_view"
  assumes "\<And>l r l'. ok l \<Longrightarrow> f l = (r, l') \<Longrightarrow> ok l' \<and> orders_evolve (view l) (view l')"
  shows "inside (blocks_move ok view) (ledgerS f)"
  by (rule block_moves.inside_ledgerS)
    (rule blocks_move_ledger, simp_all add: assms)

section \<open>Loops over rows\<close>

text \<open>
  A loop over rows that were read before it began: a step that leaves the other rows in place finds
  each of them as it was read.
\<close>

abbreviation rows :: "'l pay_world \<Rightarrow> refund_operation list" where
  "rows w \<equiv> refundOperations (pw_db w)"

definition row_step ::
    "('l \<Rightarrow> bool) \<Rightarrow> ('l \<Rightarrow> order_view) \<Rightarrow> (refund_operation \<Rightarrow> ('l, unit) pay_step) \<Rightarrow> bool" where
  "row_step ok view f \<longleftrightarrow> (\<forall>x w. ok (pw_ledger w) \<longrightarrow> blocks_inv (view (pw_ledger w)) (rows w)
     \<longrightarrow> x \<in> set (rows w) \<longrightarrow> blocks_move ok view w (snd (f x w))
        \<and> set (rows w) - {x} \<subseteq> set (rows (snd (f x w))))"

lemma fold_rows:
  fixes view :: "'l \<Rightarrow> order_view" and w :: "'l pay_world"
  assumes step: "row_step ok view f"
    and "distinct xs" and "set xs \<subseteq> set (rows w)" and "foldS f xs w = (r, w')"
    and "ok (pw_ledger w)" and "blocks_inv (view (pw_ledger w)) (rows w)"
  shows "blocks_move ok view w w'"
  using assms(2-)
proof (induction xs arbitrary: w)
  case Nil
  then show ?case by (simp add: returnS_def blocks_move_def)
next
  case (Cons x xs)
  obtain r1 w1 where 1: "f x w = (r1, w1)" by fastforce
  with step Cons.prems have
    m: "blocks_move ok view w w1" and others: "set (rows w) - {x} \<subseteq> set (rows w1)"
    unfolding row_step_def by (metis list.set_intros(1) subset_iff snd_conv)+
  show ?case
  proof (cases r1)
    case (Inl e)
    with 1 Cons.prems(3) m show ?thesis by (simp add: bindS_def)
  next
    case (Inr u)
    with 1 Cons.prems(3) have rest: "foldS f xs w1 = (r, w')" by (simp add: bindS_def)
    from m Cons.prems(4,5) have "ok (pw_ledger w1)" "blocks_inv (view (pw_ledger w1)) (rows w1)"
      by (simp_all add: blocks_move_def)
    moreover from Cons.prems(1,2) others have "distinct xs" "set xs \<subseteq> set (rows w1)" by auto
    ultimately have "blocks_move ok view w1 w'" using Cons.IH rest by blast
    with m show ?thesis by (rule block_moves.trans)
  qed
qed

lemma loop_inside:
  fixes view :: "'l \<Rightarrow> order_view"
  assumes step: "row_step ok view f"
    and quiet: "\<And>x. inside (pay_quiet ok view) (f x)"
  shows "inside (blocks_move ok view)
    (bindS (dbR (\<lambda>d. Inr (PixInfractionRefundOperationRepository_getAllByFilter c d))) (foldS f))"
  unfolding inside_def
proof
  fix w :: "'l pay_world"
  let ?xs = "PixInfractionRefundOperationRepository_getAllByFilter c (pw_db w)"
  obtain r w' where run: "foldS f ?xs w = (r, w')" by fastforce
  then have run': "snd (bindS (dbR (\<lambda>d. Inr (PixInfractionRefundOperationRepository_getAllByFilter c d))) (foldS f) w) = w'"
    by (simp add: bindS_def dbR_def readS_def)
  have "blocks_move ok view w w'"
  proof (cases "ok (pw_ledger w) \<and> blocks_inv (view (pw_ledger w)) (rows w)")
    case True
    then have "distinct ?xs" "set ?xs \<subseteq> set (rows w)"
      by (auto simp: PixInfractionRefundOperationRepository_getAllByFilter_def blocks_inv_def tbl_wf_def
          distinct_map)
    with True show ?thesis using fold_rows [OF step _ _ run] by simp
  next
    case False
    have "pay_quiet ok view w w'"
      using quiet.inside_foldS [of ok view f ?xs] quiet run by (auto simp: inside_def) (metis snd_conv)
    with False show ?thesis by (auto simp: pay_quiet_def blocks_move_def)
  qed
  with run' show "blocks_move ok view w (snd (bindS (dbR (\<lambda>d. Inr
      (PixInfractionRefundOperationRepository_getAllByFilter c d))) (foldS f) w))" by simp
qed

section \<open>Closing and linking rows\<close>

lemma link_step: "row_step ok view (linkRefund i)"
proof -
  have "blocks_move ok view w (snd (linkRefund i x w)) \<and> set (rows w) - {x} \<subseteq> set (rows (snd (linkRefund i x w)))"
    if inv: "blocks_inv (view (pw_ledger w)) (rows w)" and x: "x \<in> set (rows w)" for x w
  proof -
    let ?y = "x\<lparr>ro_pixRefund := Some i\<rparr>"
    from inv x have "block_ok (view (pw_ledger w)) ?y" by (auto simp: blocks_inv_def block_ok_def)
    then have "blocks_inv (view (pw_ledger w)) (tbl_update ro_id ?y (rows w))
        \<and> blocks_follow (rows w) (tbl_update ro_id ?y (rows w))"
      by (intro blocks_update [OF inv _ x]) (simp_all add: block_follows_def)
    moreover from inv x have "set (tbl_update ro_id ?y (rows w)) = insert ?y (set (rows w) - {x})"
      by (intro set_tbl_update) (simp_all add: blocks_inv_def)
    ultimately show ?thesis
      by (auto simp: linkRefund_def dbM_def modifyS_def blocks_move_def
          PixInfractionRefundOperationRepository_update_def)
  qed
  then show ?thesis by (simp add: row_step_def)
qed

text \<open>A call of the ledger that leaves its operation in state \<open>s\<close> when it returns.\<close>

definition settles ::
    "('l \<Rightarrow> bool) \<Rightarrow> ('l \<Rightarrow> order_view) \<Rightarrow> operation_state \<Rightarrow> (string \<Rightarrow> 'l \<Rightarrow> (pay_exn + unit) \<times> 'l) \<Rightarrow> bool" where
  "settles ok view s f \<longleftrightarrow> (\<forall>i l r l'. ok l \<longrightarrow> f i l = (r, l') \<longrightarrow> ok l' \<and> orders_evolve (view l) (view l')
     \<and> (isInr r \<longrightarrow> (\<exists>x. view l' i = Some (s, x))))"

lemma close_step:
  fixes view :: "'l \<Rightarrow> order_view"
  assumes f: "settles ok view s f" and s: "s = ACCEPTED \<or> s = REVERTED"
  shows "row_step ok view (closeBlock (\<lambda>i. ledgerS (f i)))"
proof -
  have "blocks_move ok view w (snd (closeBlock (\<lambda>i. ledgerS (f i)) x w))
      \<and> set (rows w) - {x} \<subseteq> set (rows (snd (closeBlock (\<lambda>i. ledgerS (f i)) x w)))"
    if ok: "ok (pw_ledger w)" and inv: "blocks_inv (view (pw_ledger w)) (rows w)"
      and x: "x \<in> set (rows w)" for x and w :: "'l pay_world"
  proof -
    obtain r l' where call: "f (ro_refundOperation x) (pw_ledger w) = (r, l')" by fastforce
    with f ok have l': "ok l'" "orders_evolve (view (pw_ledger w)) (view l')"
      and settled: "isInr r \<Longrightarrow> \<exists>x'. view l' (ro_refundOperation x) = Some (s, x')"
      unfolding settles_def by blast+
    show ?thesis
    proof (cases r)
      case (Inl e)
      with call l' show ?thesis
        by (auto simp: closeBlock_def bindS_def ledgerS_def intro!: blocks_move_ledger)
    next
      case (Inr u)
      let ?y = "x\<lparr>ro_state := RO_CLOSED\<rparr>"
      from inv x have "block_ok (view l') x" using l'(2) by (auto simp: blocks_inv_def intro: block_ok_evolve)
      with settled Inr s have y: "block_ok (view l') ?y" by (auto simp: block_ok_def)
      have "blocks_inv (view l') (tbl_update ro_id ?y (rows w))
          \<and> blocks_follow (rows w) (tbl_update ro_id ?y (rows w))"
        by (intro blocks_update [OF inv l'(2) x] y) (simp add: block_follows_def)
      moreover from inv x have "set (tbl_update ro_id ?y (rows w)) = insert ?y (set (rows w) - {x})"
        by (intro set_tbl_update) (simp_all add: blocks_inv_def)
      ultimately show ?thesis using call l' Inr
        by (auto simp: closeBlock_def bindS_def ledgerS_def dbM_def modifyS_def blocks_move_def
            PixInfractionRefundOperationRepository_update_def)
    qed
  qed
  then show ?thesis by (simp add: row_step_def)
qed

lemma quiet_close:
  assumes "settles ok view s f"
  shows "inside (pay_quiet ok view) (closeBlock (\<lambda>i. ledgerS (f i)) x)"
  using assms unfolding closeBlock_def settles_def
  by (intro quiet.inside_bindS quiet_ledgerS quiet_dbM) auto

lemma close_inside:
  assumes "settles ok view s f" and "s = ACCEPTED \<or> s = REVERTED"
  shows "inside (blocks_move ok view) (closeBlocks (\<lambda>i. ledgerS (f i)) c)"
  unfolding closeBlocks_def using assms by (intro loop_inside close_step quiet_close)

lemma link_inside:
  "inside (blocks_move ok view) (associateRefundToPixInfractionRefundOperation i x)"
  unfolding associateRefundToPixInfractionRefundOperation_def
  by (rule loop_inside [OF link_step]) (simp add: linkRefund_def quiet_dbM)

section \<open>Blocking\<close>

text \<open>What a successful call has done to the ledger, before its row is stored.\<close>

definition blocked ::
    "('l \<Rightarrow> bool) \<Rightarrow> ('l \<Rightarrow> order_view) \<Rightarrow> string \<Rightarrow> string \<Rightarrow> int \<Rightarrow> int \<Rightarrow> 'l \<Rightarrow> 'l \<Rightarrow> bool" where
  "blocked ok view i original v b l l' \<longleftrightarrow> ok l' \<and> orders_evolve (view l) (view l') \<and> 0 \<le> b
     \<and> view l i = None \<and> (\<exists>u. view l' i = Some (PENDING, Some u, b))
     \<and> (\<exists>s u. view l original = Some (s, u, v))"

lemma store_moves:
  fixes view :: "'l \<Rightarrow> order_view" and w :: "'l pay_world"
  assumes call: "blocked ok view (ro_refundOperation y) (ro_originalOperation y) (ro_originalValue y)
      (ro_refundValue y) (pw_ledger w) l'"
    and open_state: "ro_state y = RO_OPEN"
  shows "blocks_move ok view w
    (snd (PixInfractionRefundOperationRepository_create y (w\<lparr>pw_ledger := l'\<rparr>)))"
proof -
  from call have l': "ok l'" "orders_evolve (view (pw_ledger w)) (view l')"
    and fresh: "view (pw_ledger w) (ro_refundOperation y) = None" by (simp_all add: blocked_def)
  from call orders_evolve_known [OF l'(2)] open_state have y: "block_ok (view l') y"
    by (fastforce simp: blocked_def block_ok_def)
  show ?thesis
  proof (cases "tbl_find ro_id (ro_id y) (rows w)")
    case None
    with l' blocks_insert [OF _ l'(2) None fresh y] show ?thesis
      by (simp add: PixInfractionRefundOperationRepository_create_def insertRow_def bindS_def dbR_def
          readS_def dbM_def modifyS_def tbl_create_def blocks_move_def)
  next
    case (Some x)
    with l' show ?thesis
      by (auto simp: PixInfractionRefundOperationRepository_create_def insertRow_def bindS_def dbR_def
          readS_def tbl_create_def intro!: blocks_move_ledger)
  qed
qed

lemma stored_moves:
  "w1 = w\<lparr>pw_ledger := pw_ledger w1\<rparr>
     \<Longrightarrow> blocked ok view (ro_refundOperation y) (ro_originalOperation y) (ro_originalValue y)
           (ro_refundValue y) (pw_ledger w) (pw_ledger w1)
     \<Longrightarrow> ro_state y = RO_OPEN
     \<Longrightarrow> blocks_move ok view w (snd (PixInfractionRefundOperationRepository_create y w1))"
  by (metis store_moves)

text \<open>The lookup of the original operation and the call, as both use cases make them.\<close>

definition lookup_and_block ::
    "'l operation_service \<Rightarrow> string \<Rightarrow> string \<Rightarrow> (int \<Rightarrow> operation_request) \<Rightarrow> string
     \<Rightarrow> ('l, int \<times> (string \<times> int) option) pay_step" where
  "lookup_and_block ops tag original rq owner =
     bindS (ledgerR (os_getOperationById ops original)) (\<lambda>found.
     case found of
       None \<Rightarrow> throwS (PayOperationNotFound original)
     | Some (_, v) \<Rightarrow> bindS (ledgerS (os_blockOperation ops tag (rq v) owner)) (\<lambda>answer. returnS (v, answer)))"

lemma blockFor_lookup:
  "blockFor E i wallet value x = lookup_and_block (pe_operations E) (pc_refundTag (pe_cfg E))
     (ro_originalOperation x) (\<lambda>_. block_request E i value) wallet"
  by (simp add: blockFor_def lookup_and_block_def)

lemma blockBalance_lookup:
  "blockBalance E ids wanted infraction refund t =
     bindS (lookup_and_block (pe_operations E) (pc_refundTag (pe_cfg E)) (rt_operation t)
       (\<lambda>v. block_request E (fst ids) (case wanted of None \<Rightarrow> v | Some a \<Rightarrow> a)) (rt_wallet t)) (\<lambda>(v, answer).
     case answer of
       None \<Rightarrow> returnS ()
     | Some (j, b) \<Rightarrow> PixInfractionRefundOperationRepository_create
         \<lparr> ro_id = snd ids, ro_state = RO_OPEN, ro_user = rt_user t, ro_pixInfraction = infraction,
           ro_pixRefund = refund, ro_originalOperation = rt_operation t, ro_originalValue = v,
           ro_refundOperation = j, ro_refundValue = b \<rparr>)"
  by (rule ext) (auto simp: blockBalance_def lookup_and_block_def bindS_def returnS_def throwS_def
      split: prod.splits sum.splits option.splits)

context payment_ledger
begin

lemma lookup_and_block_result:
  assumes run: "lookup_and_block ops tag original rq owner w = (r, w1)" and i: "\<And>v. or_id (rq v) = i"
    and ok: "ok (pw_ledger w)"
  shows "w1 = w\<lparr>pw_ledger := pw_ledger w1\<rparr>"
    and "ok (pw_ledger w1) \<and> orders_evolve (view (pw_ledger w)) (view (pw_ledger w1))"
    and "r = Inr (v, a) \<Longrightarrow> \<exists>b. a = Some (i, b)
      \<and> blocked ok view i original v b (pw_ledger w) (pw_ledger w1)"
proof -
  show same: "w1 = w\<lparr>pw_ledger := pw_ledger w1\<rparr>"
    using run by (auto simp: lookup_and_block_def bindS_def ledgerR_def readS_def ledgerS_def throwS_def
        returnS_def split: sum.splits option.splits prod.splits)
  from quiet_ledger(3) have "inside (pay_quiet ok view) (lookup_and_block ops tag original rq owner)"
    unfolding lookup_and_block_def by (auto intro!: frame)
  with run ok show "ok (pw_ledger w1) \<and> orders_evolve (view (pw_ledger w)) (view (pw_ledger w1))"
    by (auto simp: inside_def pay_quiet_def dest!: spec [of _ w])
  show "\<exists>b. a = Some (i, b) \<and> blocked ok view i original v b (pw_ledger w) (pw_ledger w1)"
    if "r = Inr (v, a)"
  proof -
    from run that obtain s l' where known: "os_getOperationById ops original (pw_ledger w) = Inr (Some (s, v))"
      and call: "os_blockOperation ops tag (rq v) owner (pw_ledger w) = (Inr a, l')"
      and w1: "w1 = w\<lparr>pw_ledger := l'\<rparr>"
      by (auto simp: lookup_and_block_def bindS_def ledgerR_def readS_def ledgerS_def throwS_def
          returnS_def split: sum.splits option.splits prod.splits)
    from lookup [OF ok known] obtain u where "view (pw_ledger w) original = Some (s, u, v)"
      by (cases "view (pw_ledger w) original") auto
    with block [OF ok call] w1 show ?thesis by (fastforce simp: blocked_def i)
  qed
qed

lemma lookup_then_store_inside:
  assumes "\<And>v. or_id (rq v) = i"
    and k: "\<And>w w1 v b. ok (pw_ledger w) \<Longrightarrow> w1 = w\<lparr>pw_ledger := pw_ledger w1\<rparr>
      \<Longrightarrow> blocked ok view i original v b (pw_ledger w) (pw_ledger w1)
      \<Longrightarrow> blocks_move ok view w (snd (k (v, Some (i, b)) w1))"
  shows "inside (blocks_move ok view) (bindS (lookup_and_block ops tag original rq owner) k)"
  unfolding inside_def
proof
  fix w :: "'l pay_world"
  obtain r w1 where run: "lookup_and_block ops tag original rq owner w = (r, w1)" by fastforce
  show "blocks_move ok view w (snd (bindS (lookup_and_block ops tag original rq owner) k w))"
  proof (cases "ok (pw_ledger w)")
    case True
    note result = lookup_and_block_result [OF run assms(1) True]
    show ?thesis
    proof (cases r)
      case (Inl e)
      from result(1) have "pw_db w1 = pw_db w" by (metis pay_world.surjective pay_world.update_convs pay_world.select_convs)
      with result(2) run Inl show ?thesis by (auto simp: bindS_def intro!: blocks_move_ledger)
    next
      case (Inr va)
      obtain v a where va: "va = (v, a)" by fastforce
      from result(3) Inr va obtain b where "a = Some (i, b)"
        "blocked ok view i original v b (pw_ledger w) (pw_ledger w1)" by blast
      with k [OF True result(1)] run Inr va show ?thesis by (simp add: bindS_def)
    qed
  qed (simp add: blocks_move_def)
qed

lemma block_balance_inside:
  assumes [simp]: "pe_operations E = ops"
  shows "inside (blocks_move ok view) (blockBalance E ids wanted infraction refund t)"
  unfolding blockBalance_lookup assms
  by (rule lookup_then_store_inside) (auto simp: block_request_def intro!: stored_moves)

lemma give_up_inside:
  "pe_operations E = ops \<Longrightarrow> inside (blocks_move ok view) (giveUp E created e)"
  unfolding giveUp_def by (auto intro!: frame blocks_ledgerS dest: revert)

lemma shortfall_inside:
  assumes [simp]: "pe_operations E = ops"
  shows "inside (blocks_move ok view) (blockShortfall E i rowId wallet value x created)"
  unfolding inside_def
proof
  fix w :: "'l pay_world"
  obtain r w1 where run: "blockFor E i wallet value x w = (r, w1)" by fastforce
  note run' = run [unfolded blockFor_lookup assms]
  show "blocks_move ok view w (snd (blockShortfall E i rowId wallet value x created w))"
  proof (cases "ok (pw_ledger w)")
    case True
    note result = lookup_and_block_result [OF run' _ True, of i]
    have id: "or_id (block_request E i value) = i" by (simp add: block_request_def)
    show ?thesis
    proof (cases r)
      case (Inl e)
      from result(1) id have "pw_db w1 = pw_db w"
        by (metis pay_world.surjective pay_world.update_convs pay_world.select_convs)
      with result(2) id have "blocks_move ok view w w1" by (auto intro!: blocks_move_ledger)
      moreover have "inside (blocks_move ok view) (giveUp E created e :: ('l, string list) pay_step)"
        using assms by (rule give_up_inside)
      ultimately show ?thesis using run Inl
        by (auto simp: blockShortfall_def bindS_def tryS_def inside_def intro: block_moves.trans)
    next
      case (Inr va)
      obtain v a where va: "va = (v, a)" by fastforce
      from result(3) [of v a] Inr va id obtain b where a: "a = Some (i, b)"
        and b: "blocked ok view i (ro_originalOperation x) v b (pw_ledger w) (pw_ledger w1)" by blast
      obtain r2 w2 where row: "storeBlock rowId x va w1 = (r2, w2)" by fastforce
      have "blocks_move ok view w (snd (storeBlock rowId x va w1))"
        using result(1) id b by (simp add: storeBlock_def va a) (rule stored_moves, simp_all)
      with row have m: "blocks_move ok view w w2" by simp
      show ?thesis
      proof (cases r2)
        case (Inl e)
        have "inside (blocks_move ok view) (giveUp E (created @ [i]) e :: ('l, string list) pay_step)"
          using assms by (rule give_up_inside)
        with m run \<open>r = Inr va\<close> row Inl show ?thesis
          by (auto simp: blockShortfall_def bindS_def tryS_def inside_def intro: block_moves.trans)
      next
        case (Inr u)
        with m run row \<open>r = Inr va\<close> show ?thesis
          by (simp add: blockShortfall_def bindS_def tryS_def returnS_def)
      qed
    qed
  qed (simp add: blocks_move_def)
qed

lemma shortfalls_inside:
  assumes [simp]: "pe_operations E = ops"
  shows "inside (blocks_move ok view) (blockShortfalls E i drawn wallet amount xs created)"
  by (induction xs arbitrary: created) (auto intro!: frame shortfall_inside)

lemma blocks_ledger:
  assumes "inside (pay_quiet ok view) (ledgerS f)"
  shows "inside (blocks_move ok view) (ledgerS f)"
proof (rule block_moves.inside_ledgerS)
  fix w :: "'l pay_world" and r l assume "f (pw_ledger w) = (r, l)"
  with assms show "blocks_move ok view w (w\<lparr>pw_ledger := l\<rparr>)"
    by (auto simp: inside_def ledgerS_def pay_quiet_def dest!: spec [of _ w] intro!: blocks_move_ledger)
qed

lemma reverts: "settles ok view REVERTED (os_revertOperation ops)"
  unfolding settles_def by (metis revert)

lemma accepts: "settles ok view ACCEPTED (os_acceptOperation ops)"
  unfolding settles_def by (metis accept)

end

section \<open>All requests\<close>

lemma blocks_move_tables:
  "refundOperations d = refundOperations (pw_db w) \<Longrightarrow> blocks_move ok view w (w\<lparr>pw_db := d\<rparr>)"
  by (simp add: blocks_move_def)

sublocale payment_ledger \<subseteq> blocks: disputed "blocks_move ok view" ops others
proof
  fix w w1 :: "'l pay_world" assume "blocks_move ok view w w1"
  then show "blocks_move ok view w (w1\<lparr>pw_db := pw_db w\<rparr>)"
    by (auto simp: blocks_move_def intro: blocks_inv_evolve)
next
  fix w :: "'l pay_world" and l assume "others (pw_ledger w) l"
  then show "blocks_move ok view w (w\<lparr>pw_ledger := l\<rparr>)"
    using other by (auto intro!: blocks_move_ledger)
qed (auto simp: disputes_def PixInfractionRepository_create_def PixInfractionRepository_update_def
    PixRefundRepository_create_def PixRefundRepository_update_def PixRefundDevolutionRepository_create_def
    PixRefundDevolutionRepository_update_def Let_def blocks_move_tables link_inside
    quiet_ledger [THEN blocks_ledger]
    intro!: frame block_balance_inside shortfalls_inside close_inside [OF reverts]
      close_inside [OF accepts] block_moves.inside_dbM block_moves.inside_redisM block_moves.inside_insertRow
      blocks_move_ledger)

context payment_ledger
begin

text \<open>Starting without blocked amounts, every row agrees with its operation.\<close>

lemma requests_blocks:
  assumes "pay_requests ops others w w'" and "ok (pw_ledger w)" and "refundOperations (pw_db w) = []"
  shows "blocks_inv (view (pw_ledger w')) (refundOperations (pw_db w'))" and "ok (pw_ledger w')"
  using blocks.requests_inside [OF assms(1)] assms(2,3) by (auto simp: blocks_move_def)

lemma requests_blocks_follow:
  assumes "pay_requests ops others w w'" and "ok (pw_ledger w)"
    and "blocks_inv (view (pw_ledger w)) (refundOperations (pw_db w))"
  shows "blocks_follow (refundOperations (pw_db w)) (refundOperations (pw_db w'))"
  using blocks.requests_inside [OF assms(1)] assms(2,3) by (auto simp: blocks_move_def)

end

end
