(* ===== verification/Banking_Domain.thy ===== *)
theory Banking_Domain
  imports Pix_Payment_World
begin

text \<open>
  The banking service (apps/banking): wire transfers (TED) of users and of the back office, contacts
  and the lists of banks and cities. Entities of src/domain/entities, repositories of
  src/infrastructure/sequelize/repositories, events of src/interface/events.
\<close>

section \<open>Entities\<close>

datatype ted_state = TED_PENDING | TED_WAITING | TED_FAILED | TED_FORWARDED | TED_CONFIRMED

text \<open>Whom a transfer goes to. The type of an account is its string.\<close>

record recipient =
  rp_bankCode :: string
  rp_bankName :: "string option"
  rp_name :: string
  rp_type :: string
  rp_document :: string
  rp_agency :: string
  rp_account :: string
  rp_accountDigit :: string
  rp_accountType :: string

record banking_ted = recipient +
  bt_id :: nat
  bt_transactionId :: "string option"
  bt_user :: string
  bt_state :: ted_state
  bt_amount :: int
  bt_operation :: string
  bt_createdAt :: int
  bt_confirmedAt :: "int option"
  bt_failedAt :: "int option"
  bt_forwardedAt :: "int option"

definition isAlreadyForwardedBankingTed :: "banking_ted \<Rightarrow> bool" where
  "isAlreadyForwardedBankingTed t \<longleftrightarrow> bt_state t = TED_FORWARDED"

definition isAlreadyFailedBankingTed :: "banking_ted \<Rightarrow> bool" where
  "isAlreadyFailedBankingTed t \<longleftrightarrow> bt_state t = TED_FAILED"

definition isAlreadyPaidBankingTed :: "banking_ted \<Rightarrow> bool" where
  "isAlreadyPaidBankingTed t \<longleftrightarrow> List.member [TED_WAITING, TED_CONFIRMED] (bt_state t)"

definition isAlreadyConfirmedBankingTed :: "banking_ted \<Rightarrow> bool" where
  "isAlreadyConfirmedBankingTed t \<longleftrightarrow> List.member [TED_CONFIRMED] (bt_state t)"

record ted_failure =
  fl_id :: nat
  fl_operation :: string
  fl_transactionId :: "string option"
  fl_ted :: nat
  fl_code :: "string option"
  fl_message :: "string option"
  fl_createdAt :: int

record ted_received =
  tv_id :: nat
  tv_operation :: string
  tv_ownerDocument :: string
  tv_ownerName :: string
  tv_ownerBankAccount :: string
  tv_ownerBankBranch :: string
  tv_ownerBankCode :: string
  tv_ownerBankName :: string

text \<open>Contacts belong to the number of a user; rows that were deleted stay with \<open>deleted\<close> set.\<close>

record banking_contact =
  bc_id :: nat
  bc_user :: nat
  bc_name :: string
  bc_documentType :: person_document
  bc_document :: string
  bc_contactUser :: nat
  bc_deleted :: bool

record account_contact =
  ac_id :: nat
  ac_contact :: nat
  ac_branchNumber :: string
  ac_accountNumber :: string
  ac_accountDigit :: string
  ac_bankName :: string
  ac_bankCode :: string
  ac_accountType :: string
  ac_deleted :: bool

text \<open>\<open>BankEntity\<close> and \<open>BankTedEntity\<close>: \<open>lb_code\<close> is the empty string for the former, which has none.\<close>

record listed_bank =
  lb_id :: string
  lb_ispb :: string
  lb_code :: string
  lb_name :: string
  lb_fullName :: string
  lb_active :: bool
  lb_deletedAt :: "int option"

record federative_unit =
  fu_code :: string
  fu_name :: string
  fu_acronym :: string
  fu_regionCode :: string
  fu_regionName :: string
  fu_regionAcronym :: string

record city = federative_unit +
  ct_id :: string
  ct_code :: string
  ct_name :: string
  ct_active :: bool

record admin_account =
  aa_id :: string
  aa_document :: string
  aa_fullName :: string
  aa_branchNumber :: string
  aa_accountNumber :: string
  aa_accountDigit :: string
  aa_accountType :: string
  aa_bankName :: string
  aa_bankCode :: string
  aa_enabled :: bool

record admin_ted =
  at_id :: string
  at_source :: string
  at_destination :: string
  at_state :: ted_state
  at_description :: string
  at_value :: int
  at_transactionId :: "string option"
  at_confirmedAt :: "int option"
  at_failedAt :: "int option"
  at_forwardedAt :: "int option"
  at_failureCode :: "string option"
  at_failureMessage :: "string option"
  at_createdBy :: nat
  at_updatedBy :: nat
  at_createdAt :: int

definition isAlreadyForwardedAdminBankingTed :: "admin_ted \<Rightarrow> bool" where
  "isAlreadyForwardedAdminBankingTed t \<longleftrightarrow> at_state t = TED_FORWARDED"

definition isAlreadyFailedAdminBankingTed :: "admin_ted \<Rightarrow> bool" where
  "isAlreadyFailedAdminBankingTed t \<longleftrightarrow> at_state t = TED_FAILED"

definition isAlreadyPaidAdminBankingTed :: "admin_ted \<Rightarrow> bool" where
  "isAlreadyPaidAdminBankingTed t \<longleftrightarrow> List.member [TED_WAITING, TED_CONFIRMED] (at_state t)"

definition isAlreadyConfirmedAdminBankingTed :: "admin_ted \<Rightarrow> bool" where
  "isAlreadyConfirmedAdminBankingTed t \<longleftrightarrow> List.member [TED_CONFIRMED] (at_state t)"

section \<open>Exceptions, calls and events\<close>

datatype (plugins only: code size) ted_exn =
    TedMissingData "string list"
  | TedInvalidDataFormat "string list"
  | TedTypeError
  | TedForbidden
  | TedUserNotFound
  | TedOnboardingNotFound
  | BankingTedIntervalInvalid
  | BankingTedWeekdayInvalid
  | BankingTedHolidayInvalid
  | BankTedNotFound
  | BankingTedNotFound
  | BankingTedInvalidState
  | BankingTedInvalidConfirmation
  | BankingTedZroAccountNotExists
  | TedWalletNotFound
  | TedWalletNotActive
  | TedWalletAccountNotFound
  | TedWalletAccountNotActive
  | AdminBankingTedNotFound
  | AdminBankingTedInvalidState
  | AdminBankingTedInvalidConfirmation
  | AdminBankingTedBetweenSameAccount
  | AdminBankingAccountNotFound
  | AdminBankingAccountNotActive
  | BankNotFoundException
  | BankingAccountContactNotFound
  | TedUniqueConstraint
  | TedNotNull string
  | TedServiceError string

text \<open>\<open>CreateBankingTedPspRequest\<close>; the purpose code and the callback address are fixed.\<close>

record ted_call =
  tk_transactionId :: string
  tk_ownerDocument :: string
  tk_ownerName :: string
  tk_ownerAccount :: string
  tk_beneficiaryDocument :: string
  tk_beneficiaryName :: string
  tk_beneficiaryBankCode :: string
  tk_beneficiaryAgency :: string
  tk_beneficiaryAccount :: string
  tk_beneficiaryAccountDigit :: string
  tk_beneficiaryAccountType :: string
  tk_amount :: int

datatype list_change = LIST_CREATED | LIST_UPDATED | LIST_DELETED

datatype ted_event =
    BankingTedEvent ted_state nat string "string option"
  | BankingTedReceivedEvent nat string
  | AdminBankingTedEvent ted_state string
  | BankEvent list_change string string
  | BankTedEvent list_change string string
  | CityEvent list_change string string

definition invalid_ted_fields :: "validators \<Rightarrow> ted_event \<Rightarrow> string list" where
  "invalid_ted_fields v e = (case e of
     BankingTedEvent _ i u w \<Rightarrow>
       missing (i = 0) ''id'' @ missing (\<not> v_isUUID v u) ''userId'' @ not_uuid v w ''walletId''
   | BankingTedReceivedEvent i j \<Rightarrow> missing (i = 0) ''id'' @ missing (\<not> v_isUUID v j) ''operationId''
   | AdminBankingTedEvent _ i \<Rightarrow> missing (\<not> v_isUUID v i) ''id''
   | BankEvent _ i s \<Rightarrow> missing (\<not> v_isUUID v i) ''id'' @ missing (length s \<noteq> 8) ''ispb''
   | BankTedEvent _ i c \<Rightarrow> missing (\<not> v_isUUID v i) ''id'' @ too_long (Some c) ''code''
   | CityEvent _ i c \<Rightarrow> missing (\<not> v_isUUID v i) ''id'')"

section \<open>The world\<close>

record ted_user =
  tu_id :: nat
  tu_document :: string
  tu_fullName :: string

record default_wallet =
  dw_uuid :: string
  dw_user :: string
  dw_active :: bool

text \<open>The hours between which transfers are taken are a pair, \<open>start;end\<close> in the configuration.\<close>

record ted_config =
  tc_currencyTag :: string
  tc_intervalHour :: "string \<times> string"
  tc_tedP2PTag :: string
  tc_tedTag :: string
  tc_tedP2PDescription :: string
  tc_tedDescription :: string
  tc_failureTag :: string
  tc_failureDescription :: string
  tc_zroBankCode :: string
  tc_zroBankIspb :: string

text \<open>
  What a request runs with. \<open>te_weekday\<close> is the day of the week of the hour that has begun, with 0
  for Sunday, \<open>te_uuid\<close> the identifier that the request draws. The default wallet of a user is asked
  of the operations service.
\<close>

record 'l ted_env =
  te_cfg :: ted_config
  te_moment :: moment
  te_weekday :: nat
  te_uuid :: string
  te_operations :: "'l operation_service"
  te_getDefaultWallet :: "string \<Rightarrow> 'l \<Rightarrow> pay_exn + default_wallet option"
  te_getUser :: "string \<Rightarrow> ted_exn + ted_user option"
  te_getOnboarding :: "string \<Rightarrow> ted_exn + unit option"
  te_getOnboardingByAccount :: "string \<Rightarrow> ted_exn + string option"
  te_getHoliday :: "int \<Rightarrow> ted_exn + unit option"
  te_psp :: "ted_call \<Rightarrow> ted_exn + unit"
  te_validators :: validators

record ted_db =
  teds :: "banking_ted list"
  tedFailures :: "ted_failure list"
  tedsReceived :: "ted_received list"
  contacts :: "banking_contact list"
  accountContacts :: "account_contact list"
  listedBanks :: "listed_bank list"
  bankTeds :: "listed_bank list"
  cities :: "city list"
  adminTeds :: "admin_ted list"
  adminAccounts :: "admin_account list"
  tedOutbox :: "ted_event list"

record 'l ted_world =
  tw_db :: ted_db
  tw_calls :: "ted_call list"
  tw_ledger :: 'l

type_synonym ('l, 'a) ted_step = "('l ted_world, ted_exn, 'a) step"

definition tedR :: "(ted_db \<Rightarrow> ted_exn + 'a) \<Rightarrow> ('l, 'a) ted_step" where
  "tedR f = readS (\<lambda>w. f (tw_db w))"

definition tedM :: "(ted_db \<Rightarrow> ted_db) \<Rightarrow> ('l, unit) ted_step" where
  "tedM f = modifyS (\<lambda>w. w\<lparr>tw_db := f (tw_db w)\<rparr>)"

definition askT :: "ted_exn + 'a \<Rightarrow> ('l, 'a) ted_step" where
  "askT r = readS (\<lambda>_. r)"

definition operations_error :: "pay_exn + 'a \<Rightarrow> ted_exn + 'a" where
  "operations_error r = (case r of Inl _ \<Rightarrow> Inl (TedServiceError ''operations'') | Inr x \<Rightarrow> Inr x)"

definition askOperations :: "('l \<Rightarrow> pay_exn + 'a) \<Rightarrow> ('l, 'a) ted_step" where
  "askOperations f = readS (\<lambda>w. operations_error (f (tw_ledger w)))"

definition atOperations :: "('l \<Rightarrow> (pay_exn + 'a) \<times> 'l) \<Rightarrow> ('l, 'a) ted_step" where
  "atOperations f w = (let (r, l) = f (tw_ledger w) in (operations_error r, w\<lparr>tw_ledger := l\<rparr>))"

definition callPsp :: "'l ted_env \<Rightarrow> ted_call \<Rightarrow> ('l, unit) ted_step" where
  "callPsp E c w = (te_psp E c, w\<lparr>tw_calls := tw_calls w @ [c]\<rparr>)"

definition needT :: "string list \<Rightarrow> ('l, unit) ted_step" where
  "needT names = throwWhen (names \<noteq> []) (TedMissingData names)"

definition foundT :: "ted_exn + 'a option \<Rightarrow> ted_exn \<Rightarrow> ('l, 'a) ted_step" where
  "foundT r e = bindS (askT r) (\<lambda>x. case x of None \<Rightarrow> throwS e | Some y \<Rightarrow> returnS y)"

definition findT :: "(ted_db \<Rightarrow> 'a option) \<Rightarrow> ted_exn \<Rightarrow> ('l, 'a) ted_step" where
  "findT f e = tedR (\<lambda>d. orThrow (f d) e)"

definition emitTed :: "'l ted_env \<Rightarrow> ted_event \<Rightarrow> ('l, unit) ted_step" where
  "emitTed E e = (let bad = invalid_ted_fields (te_validators E) e in
     if bad = [] then tedM (\<lambda>d. d\<lparr>tedOutbox := tedOutbox d @ [e]\<rparr>)
     else throwS (TedInvalidDataFormat bad))"

abbreviation ted_now :: "'l ted_env \<Rightarrow> int" where
  "ted_now E \<equiv> m_now (te_moment E)"

section \<open>Repositories\<close>

text \<open>A serial key is drawn above all those in use; rows are never erased.\<close>

definition serial :: "('r \<Rightarrow> nat) \<Rightarrow> 'r list \<Rightarrow> nat" where
  "serial key t = Suc (fold (\<lambda>r. max (key r)) t 0)"

definition BankingTedRepository_create :: "int \<Rightarrow> banking_ted \<Rightarrow> ('l, banking_ted) ted_step" where
  "BankingTedRepository_create now t =
     bindS (tedR (\<lambda>d. Inr (t\<lparr>bt_id := serial bt_id (teds d), bt_createdAt := now\<rparr>))) (\<lambda>t'.
     bindS (tedM (\<lambda>d. d\<lparr>teds := tbl_insert t' (teds d)\<rparr>)) (\<lambda>_. returnS t'))"

definition BankingTedRepository_update :: "banking_ted \<Rightarrow> ('l, unit) ted_step" where
  "BankingTedRepository_update t = tedM (\<lambda>d. d\<lparr>teds := tbl_update bt_id t (teds d)\<rparr>)"

definition BankingTedRepository_getById :: "nat \<Rightarrow> ted_db \<Rightarrow> banking_ted option" where
  "BankingTedRepository_getById i d = tbl_find bt_id i (teds d)"

definition BankingTedRepository_getByOperation :: "string \<Rightarrow> ted_db \<Rightarrow> banking_ted option" where
  "BankingTedRepository_getByOperation i d = find (\<lambda>t. bt_operation t = i) (teds d)"

definition BankingTedRepository_getByTransactionId :: "string \<Rightarrow> ted_db \<Rightarrow> banking_ted option" where
  "BankingTedRepository_getByTransactionId i d = find (\<lambda>t. bt_transactionId t = Some i) (teds d)"

definition BankingTedFailureRepository_create :: "ted_failure \<Rightarrow> ('l, unit) ted_step" where
  "BankingTedFailureRepository_create f =
     tedM (\<lambda>d. d\<lparr>tedFailures := tbl_insert (f\<lparr>fl_id := serial fl_id (tedFailures d)\<rparr>) (tedFailures d)\<rparr>)"

definition BankingTedReceivedRepository_create :: "ted_received \<Rightarrow> ('l, ted_received) ted_step" where
  "BankingTedReceivedRepository_create r =
     bindS (tedR (\<lambda>d. Inr (r\<lparr>tv_id := serial tv_id (tedsReceived d)\<rparr>))) (\<lambda>r'.
     bindS (tedM (\<lambda>d. d\<lparr>tedsReceived := tbl_insert r' (tedsReceived d)\<rparr>)) (\<lambda>_. returnS r'))"

definition BankTedRepository_getByCode :: "string \<Rightarrow> ted_db \<Rightarrow> listed_bank option" where
  "BankTedRepository_getByCode c d = find (\<lambda>b. lb_code b = c \<and> lb_deletedAt b = None) (bankTeds d)"

definition BankingContactRepository_create :: "banking_contact \<Rightarrow> ('l, banking_contact) ted_step" where
  "BankingContactRepository_create c =
     bindS (tedR (\<lambda>d. Inr (c\<lparr>bc_id := serial bc_id (contacts d)\<rparr>))) (\<lambda>c'.
     bindS (tedM (\<lambda>d. d\<lparr>contacts := tbl_insert c' (contacts d)\<rparr>)) (\<lambda>_. returnS c'))"

definition BankingContactRepository_getByUserAndDocument ::
    "nat \<Rightarrow> string \<Rightarrow> ted_db \<Rightarrow> banking_contact option" where
  "BankingContactRepository_getByUserAndDocument u n d =
     find (\<lambda>c. bc_user c = u \<and> bc_document c = n \<and> \<not> bc_deleted c) (contacts d)"

definition BankingContactRepository_delete :: "nat \<Rightarrow> ted_db \<Rightarrow> ted_db" where
  "BankingContactRepository_delete i d =
     d\<lparr>contacts := map (\<lambda>c. if bc_id c = i then c\<lparr>bc_deleted := True\<rparr> else c) (contacts d)\<rparr>"

definition BankingAccountContactRepository_create :: "account_contact \<Rightarrow> ('l, unit) ted_step" where
  "BankingAccountContactRepository_create a =
     tedM (\<lambda>d. d\<lparr>accountContacts :=
       tbl_insert (a\<lparr>ac_id := serial ac_id (accountContacts d)\<rparr>) (accountContacts d)\<rparr>)"

definition BankingAccountContactRepository_getById :: "nat \<Rightarrow> ted_db \<Rightarrow> account_contact option" where
  "BankingAccountContactRepository_getById i d =
     find (\<lambda>a. ac_id a = i \<and> \<not> ac_deleted a) (accountContacts d)"

definition BankingAccountContactRepository_getByBankingContact ::
    "nat \<Rightarrow> ted_db \<Rightarrow> account_contact list" where
  "BankingAccountContactRepository_getByBankingContact i d =
     filter (\<lambda>a. ac_contact a = i \<and> \<not> ac_deleted a) (accountContacts d)"

definition BankingAccountContactRepository_delete :: "nat \<Rightarrow> ted_db \<Rightarrow> ted_db" where
  "BankingAccountContactRepository_delete i d = d\<lparr>accountContacts :=
     map (\<lambda>a. if ac_id a = i then a\<lparr>ac_deleted := True\<rparr> else a) (accountContacts d)\<rparr>"

definition AdminBankingTedRepository_create :: "int \<Rightarrow> admin_ted \<Rightarrow> ('l, admin_ted) ted_step" where
  "AdminBankingTedRepository_create now t = (let t' = t\<lparr>at_createdAt := now\<rparr> in
     bindS (tedR (\<lambda>d. tbl_create at_id TedUniqueConstraint t' (adminTeds d))) (\<lambda>r.
     bindS (tedM (\<lambda>d. d\<lparr>adminTeds := r\<rparr>)) (\<lambda>_. returnS t')))"

definition AdminBankingTedRepository_update :: "admin_ted \<Rightarrow> ('l, unit) ted_step" where
  "AdminBankingTedRepository_update t = tedM (\<lambda>d. d\<lparr>adminTeds := tbl_update at_id t (adminTeds d)\<rparr>)"

definition AdminBankingTedRepository_getById :: "string \<Rightarrow> ted_db \<Rightarrow> admin_ted option" where
  "AdminBankingTedRepository_getById i d = tbl_find at_id i (adminTeds d)"

definition AdminBankingTedRepository_getByTransactionId :: "string \<Rightarrow> ted_db \<Rightarrow> admin_ted option" where
  "AdminBankingTedRepository_getByTransactionId i d = find (\<lambda>t. at_transactionId t = Some i) (adminTeds d)"

definition AdminBankingAccountRepository_getById :: "string \<Rightarrow> ted_db \<Rightarrow> admin_account option" where
  "AdminBankingAccountRepository_getById i d = tbl_find aa_id i (adminAccounts d)"

section \<open>Requests\<close>

text \<open>As in the pix payments service: a request is a transaction, an observer swallows exceptions.\<close>

definition tedServed :: "('l, 'a) ted_step \<Rightarrow> 'l ted_world \<Rightarrow> 'l ted_world" where
  "tedServed f w = (case f w of (Inl e, w') \<Rightarrow> w'\<lparr>tw_db := tw_db w\<rparr> | (Inr x, w') \<Rightarrow> w')"

definition tedObserved :: "('l, 'a) ted_step \<Rightarrow> 'l ted_world \<Rightarrow> 'l ted_world" where
  "tedObserved f w = snd (f w)"

text \<open>A cron has no transaction and fires its events only when it returns (src/infrastructure/nest/cron).\<close>

definition tedCron :: "('l, 'a) ted_step \<Rightarrow> 'l ted_world \<Rightarrow> 'l ted_world" where
  "tedCron f w = (case f w of
     (Inl e, w') \<Rightarrow> w'\<lparr>tw_db := (tw_db w')\<lparr>tedOutbox := tedOutbox (tw_db w)\<rparr>\<rparr>
   | (Inr x, w') \<Rightarrow> w')"

end
