(* ===== verification/Banking_Teds.thy ===== *)
theory Banking_Teds
  imports Banking_Domain
begin

text \<open>
  The use cases of the transfers of users (apps/banking/src/application/usecases/banking_ted) with
  their contacts (usecases/banking_contact).
\<close>

section \<open>Ordering a transfer\<close>

record ted_request = recipient +
  to_user :: string
  to_wallet :: string
  to_operation :: string
  to_amount :: int

definition isHourInRange :: "moment \<Rightarrow> string \<times> string \<Rightarrow> bool" where
  "isHourInRange m p \<longleftrightarrow> m_time m (fst p) < m_now m \<and> m_now m < m_time m (snd p)"

definition new_ted :: "ted_request \<Rightarrow> banking_ted" where
  "new_ted r = recipient.extend (recipient.truncate r) \<lparr> bt_id = 0, bt_transactionId = None,
     bt_user = to_user r, bt_state = TED_PENDING, bt_amount = to_amount r,
     bt_operation = to_operation r, bt_createdAt = 0, bt_confirmedAt = None, bt_failedAt = None,
     bt_forwardedAt = None \<rparr>"

definition missing_of_request :: "ted_request \<Rightarrow> string list" where
  "missing_of_request r =
     missing (to_user r = []) ''User ID'' @ missing (to_wallet r = []) ''Wallet ID''
     @ missing (to_operation r = []) ''Operation ID'' @ missing (to_amount r = 0) ''Amount''
     @ missing (rp_bankCode r = []) ''Beneficiary Bank Code''
     @ missing (rp_name r = []) ''Beneficiary Name'' @ missing (rp_type r = []) ''Beneficiary Type''
     @ missing (rp_document r = []) ''Beneficiary Document''
     @ missing (rp_agency r = []) ''Beneficiary Bank Agency''
     @ missing (rp_account r = []) ''Beneficiary Bank Account''
     @ missing (rp_accountDigit r = []) ''Beneficiary Bank Account Digit''
     @ missing (rp_accountType r = []) ''Beneficiary Account Type''"

definition CreateBankingTedUseCase_execute :: "'l ted_env \<Rightarrow> ted_request \<Rightarrow> ('l, banking_ted) ted_step" where
  "CreateBankingTedUseCase_execute E r =
     bindS (needT (missing_of_request r)) (\<lambda>_.
     bindS (tedR (\<lambda>d. Inr (BankingTedRepository_getByOperation (to_operation r) d))) (\<lambda>found.
     case found of
       Some t \<Rightarrow> if bt_user t \<noteq> to_user r then throwS TedForbidden else returnS t
     | None \<Rightarrow>
         bindS (foundT (te_getUser E (to_user r)) TedUserNotFound) (\<lambda>_.
         bindS (foundT (te_getOnboarding E (to_user r)) TedOnboardingNotFound) (\<lambda>_.
         bindS (throwWhen (\<not> isHourInRange (te_moment E) (tc_intervalHour (te_cfg E)))
           BankingTedIntervalInvalid) (\<lambda>_.
         bindS (throwWhen (List.member [0, 6] (te_weekday E)) BankingTedWeekdayInvalid) (\<lambda>_.
         bindS (askT (te_getHoliday E (m_startOfDay (te_moment E) (ted_now E)))) (\<lambda>holiday.
         bindS (throwWhen (holiday \<noteq> None) BankingTedHolidayInvalid) (\<lambda>_.
         bindS (findT (BankTedRepository_getByCode (rp_bankCode r)) BankTedNotFound) (\<lambda>_.
         bindS (BankingTedRepository_create (ted_now E) (new_ted r)) (\<lambda>t.
         bindS (emitTed E (BankingTedEvent TED_PENDING (bt_id t) (bt_user t) (Some (to_wallet r)))) (\<lambda>_.
         returnS t)))))))))))"

text \<open>\<open>CreateBankingTedRequest\<close> and \<open>CreateBankingTedController\<close>.\<close>

definition account_types :: "string list" where
  "account_types = [''CACC'', ''CASH'', ''CHAR'', ''CISH'', ''COMM'', ''CPAC'', ''LLSV'', ''LOAN'', ''MGLD'',
     ''MOMA'', ''NREX'', ''ODFT'', ''ONDP'', ''OTHR'', ''SACC'', ''SLRY'', ''SVGS'', ''TAXE'', ''TRAN'', ''TRAS'', ''CC'']"

definition CreateBankingTedRequest :: "validators \<Rightarrow> ted_request \<Rightarrow> string list" where
  "CreateBankingTedRequest v r =
     missing (\<not> v_isUUID v (to_user r)) ''userId'' @ missing (\<not> v_isUUID v (to_wallet r)) ''walletId''
     @ missing (\<not> v_isUUID v (to_operation r)) ''operationId''
     @ missing (to_amount r \<le> 0) ''amount'' @ too_long (Some (rp_bankCode r)) ''beneficiaryBankCode''
     @ too_long (rp_bankName r) ''beneficiaryBankName'' @ too_long (Some (rp_name r)) ''beneficiaryName''
     @ too_long (Some (rp_type r)) ''beneficiaryType''
     @ missing (\<not> (v_isCpf v (rp_document r) \<or> v_isCnpj v (rp_document r))
         \<or> list_ex (\<lambda>c. \<not> is_digit c) (rp_document r)) ''beneficiaryDocument''
     @ too_long (Some (rp_agency r)) ''beneficiaryAgency''
     @ too_long (Some (rp_account r)) ''beneficiaryAccount''
     @ too_long (Some (rp_accountDigit r)) ''beneficiaryAccountDigit''
     @ missing (\<not> List.member account_types (rp_accountType r)) ''beneficiaryAccountType''"

definition CreateBankingTedController_execute ::
    "'l ted_env \<Rightarrow> ted_request \<Rightarrow> ('l, banking_ted) ted_step" where
  "CreateBankingTedController_execute E r =
     (let bad = CreateBankingTedRequest (te_validators E) r in
      if bad = [] then CreateBankingTedUseCase_execute E r else throwS (TedInvalidDataFormat bad))"

section \<open>Contacts\<close>

definition document_kind :: "validators \<Rightarrow> string \<Rightarrow> person_document" where
  "document_kind v n = (if v_isCpf v n then DOC_CPF else DOC_CNPJ)"

definition same_account :: "banking_ted \<Rightarrow> account_contact \<Rightarrow> bool" where
  "same_account t a \<longleftrightarrow> ac_branchNumber a = rp_agency t \<and> ac_accountNumber a = rp_account t
     \<and> ac_accountDigit a = rp_accountDigit t \<and> Some (ac_bankName a) = rp_bankName t
     \<and> ac_bankCode a = rp_bankCode t \<and> ac_accountType a = rp_accountType t"

text \<open>The column \<open>bankName\<close> may not be null, the name of the bank of a transfer may be missing.\<close>

definition createBankingContact ::
    "'l ted_env \<Rightarrow> ted_user \<Rightarrow> banking_ted \<Rightarrow> nat \<Rightarrow> ('l, unit) ted_step" where
  "createBankingContact E u t contactUser =
     bindS (tedR (\<lambda>d. Inr (BankingContactRepository_getByUserAndDocument (tu_id u) (rp_document t) d))) (\<lambda>found.
     bindS (case found of
         Some c \<Rightarrow> returnS c
       | None \<Rightarrow> BankingContactRepository_create \<lparr> bc_id = 0, bc_user = tu_id u, bc_name = rp_name t,
           bc_documentType = document_kind (te_validators E) (rp_document t),
           bc_document = rp_document t, bc_contactUser = contactUser, bc_deleted = False \<rparr>) (\<lambda>c.
     bindS (tedR (\<lambda>d. Inr (BankingAccountContactRepository_getByBankingContact (bc_id c) d))) (\<lambda>accounts.
     if list_ex (same_account t) accounts then returnS ()
     else case rp_bankName t of
       None \<Rightarrow> throwS (TedNotNull ''bank_name'')
     | Some n \<Rightarrow> BankingAccountContactRepository_create \<lparr> ac_id = 0, ac_contact = bc_id c,
         ac_branchNumber = rp_agency t, ac_accountNumber = rp_account t,
         ac_accountDigit = rp_accountDigit t, ac_bankName = n, ac_bankCode = rp_bankCode t,
         ac_accountType = rp_accountType t, ac_deleted = False \<rparr>)))"

definition DeleteBankingContactByUserAndIdUseCase_execute :: "nat \<Rightarrow> nat \<Rightarrow> ('l, unit) ted_step" where
  "DeleteBankingContactByUserAndIdUseCase_execute i u =
     bindS (needT (missing (u = 0) ''User ID'' @ missing (i = 0) ''Banking Account Contact ID'')) (\<lambda>_.
     bindS (findT (BankingAccountContactRepository_getById i) BankingAccountContactNotFound) (\<lambda>a.
     bindS (tedM (BankingAccountContactRepository_delete i)) (\<lambda>_.
     bindS (tedR (\<lambda>d. Inr (BankingAccountContactRepository_getByBankingContact (ac_contact a) d))) (\<lambda>left.
     if left = [] then tedM (BankingContactRepository_delete (ac_contact a)) else returnS ()))))"

section \<open>Carrying a transfer out\<close>

definition ted_operation_request :: "'l ted_env \<Rightarrow> string \<Rightarrow> banking_ted \<Rightarrow> string \<Rightarrow> operation_request" where
  "ted_operation_request E i t description = \<lparr> or_id = i, or_rawValue = bt_amount t,
     or_currencyTag = tc_currencyTag (te_cfg E), or_description = description \<rparr>"

definition createAndAcceptOperation ::
    "'l ted_env \<Rightarrow> string \<Rightarrow> operation_request \<Rightarrow> string option \<Rightarrow> string option \<Rightarrow> ('l, unit) ted_step" where
  "createAndAcceptOperation E tag rq owner beneficiary =
     atOperations (os_createAndAcceptOperation (te_operations E) tag rq owner beneficiary)"

definition ted_call_of :: "string \<Rightarrow> ted_user \<Rightarrow> account_info \<Rightarrow> banking_ted \<Rightarrow> ted_call" where
  "ted_call_of i u a t = \<lparr> tk_transactionId = i, tk_ownerDocument = tu_document u,
     tk_ownerName = tu_fullName u, tk_ownerAccount = ai_accountNumber a,
     tk_beneficiaryDocument = rp_document t, tk_beneficiaryName = rp_name t,
     tk_beneficiaryBankCode = rp_bankCode t, tk_beneficiaryAgency = rp_agency t,
     tk_beneficiaryAccount = rp_account t, tk_beneficiaryAccountDigit = rp_accountDigit t,
     tk_beneficiaryAccountType = rp_accountType t, tk_amount = bt_amount t \<rparr>"

text \<open>To another bank: the PSP is called before the operation is created.\<close>

definition sendBankingTedPSP ::
    "'l ted_env \<Rightarrow> ted_user \<Rightarrow> account_info \<Rightarrow> banking_ted \<Rightarrow> ('l, banking_ted) ted_step" where
  "sendBankingTedPSP E u a t =
     bindS (callPsp E (ted_call_of (te_uuid E) u a t)) (\<lambda>_.
     bindS (createAndAcceptOperation E (tc_tedTag (te_cfg E))
       (ted_operation_request E (bt_operation t) t (tc_tedDescription (te_cfg E)))
       (Some (ai_wallet a)) None) (\<lambda>_.
     let t' = t\<lparr>bt_transactionId := Some (te_uuid E), bt_state := TED_WAITING\<rparr> in
     bindS (BankingTedRepository_update t') (\<lambda>_.
     bindS (emitTed E (BankingTedEvent TED_WAITING (bt_id t') (bt_user t') None)) (\<lambda>_.
     bindS (createBankingContact E u t' 0) (\<lambda>_. returnS t')))))"

text \<open>To another wallet of the platform.\<close>

definition sendBankingTedP2P ::
    "'l ted_env \<Rightarrow> ted_user \<Rightarrow> account_info \<Rightarrow> string \<Rightarrow> default_wallet \<Rightarrow> nat \<Rightarrow> banking_ted
       \<Rightarrow> ('l, banking_ted) ted_step" where
  "sendBankingTedP2P E u a ownerWallet w contactUser t =
     bindS (findT (BankTedRepository_getByCode (rp_bankCode t)) BankTedNotFound) (\<lambda>b.
     bindS (createAndAcceptOperation E (tc_tedP2PTag (te_cfg E))
       (ted_operation_request E (bt_operation t) t (tc_tedP2PDescription (te_cfg E)))
       (Some ownerWallet) (Some (dw_uuid w))) (\<lambda>_.
     bindS (BankingTedReceivedRepository_create \<lparr> tv_id = 0, tv_operation = bt_operation t,
       tv_ownerDocument = tu_document u, tv_ownerName = tu_fullName u,
       tv_ownerBankAccount = ai_accountNumber a, tv_ownerBankBranch = ai_branchNumber a,
       tv_ownerBankCode = lb_code b, tv_ownerBankName = lb_name b \<rparr>) (\<lambda>r.
     bindS (emitTed E (BankingTedReceivedEvent (tv_id r) (tv_operation r))) (\<lambda>_.
     let t' = t\<lparr>bt_state := TED_CONFIRMED, bt_confirmedAt := Some (ted_now E)\<rparr> in
     bindS (BankingTedRepository_update t') (\<lambda>_.
     bindS (emitTed E (BankingTedEvent TED_CONFIRMED (bt_id t') (bt_user t') None)) (\<lambda>_.
     bindS (createBankingContact E u t' contactUser) (\<lambda>_. returnS t')))))))"

text \<open>An answer of the operations service that may be missing.\<close>

definition foundAt :: "('l \<Rightarrow> pay_exn + 'a option) \<Rightarrow> ted_exn \<Rightarrow> ('l, 'a) ted_step" where
  "foundAt f e = bindS (askOperations f) (\<lambda>x. case x of None \<Rightarrow> throwS e | Some y \<Rightarrow> returnS y)"

definition HandlePendingBankingTedEventUseCase_execute ::
    "'l ted_env \<Rightarrow> nat \<Rightarrow> string \<Rightarrow> ('l, banking_ted) ted_step" where
  "HandlePendingBankingTedEventUseCase_execute E i ownerWallet = (let c = te_cfg E; ops = te_operations E in
     bindS (needT (missing (i = 0) ''ID'' @ missing (ownerWallet = []) ''Wallet ID'')) (\<lambda>_.
     bindS (findT (BankingTedRepository_getById i) BankingTedNotFound) (\<lambda>t.
     if isAlreadyPaidBankingTed t then returnS t
     else
       bindS (throwWhen (bt_state t \<noteq> TED_PENDING) BankingTedInvalidState) (\<lambda>_.
       bindS (foundT (te_getUser E (bt_user t)) (TedMissingData [''Document'', ''FullName''])) (\<lambda>u.
       bindS (needT (missing (tu_document u = []) ''Document'' @ missing (tu_fullName u = []) ''FullName'')) (\<lambda>_.
       bindS (foundAt (os_getWalletAccountByWallet ops ownerWallet (tc_currencyTag c)) TedWalletAccountNotFound) (\<lambda>a.
       bindS (throwWhen (\<not> ai_active a) TedWalletAccountNotActive) (\<lambda>_.
       bindS (needT (missing (ai_accountNumber a = []) ''Account Number''
         @ missing (ai_branchNumber a = []) ''Branch Number'')) (\<lambda>_.
       if rp_bankCode t \<noteq> tc_zroBankCode c then sendBankingTedPSP E u a t
       else
         bindS (foundT (te_getOnboardingByAccount E (rp_account t @ rp_accountDigit t)) TedOnboardingNotFound) (\<lambda>v.
         bindS (foundAt (te_getDefaultWallet E v) TedWalletNotFound) (\<lambda>w.
         bindS (throwWhen (\<not> dw_active w) TedWalletNotActive) (\<lambda>_.
         bindS (foundAt (os_getWalletAccountByWallet ops (dw_uuid w) (tc_currencyTag c))
           BankingTedZroAccountNotExists) (\<lambda>b.
         bindS (throwWhen (\<not> ai_active b) TedWalletAccountNotActive) (\<lambda>_.
         bindS (askT (te_getUser E (dw_user w))) (\<lambda>bu.
         sendBankingTedP2P E u a ownerWallet w (case bu of None \<Rightarrow> 0 | Some x \<Rightarrow> tu_id x) t)))))))))))))))"

text \<open>The handler of the dead letters of the former.\<close>

definition HandlePendingFailedBankingTedEventUseCase_execute ::
    "'l ted_env \<Rightarrow> nat \<Rightarrow> ('l, banking_ted) ted_step" where
  "HandlePendingFailedBankingTedEventUseCase_execute E i =
     bindS (needT (missing (i = 0) ''ID'')) (\<lambda>_.
     bindS (findT (BankingTedRepository_getById i) BankingTedNotFound) (\<lambda>t.
     if bt_state t \<noteq> TED_PENDING then returnS t
     else
       bindS (askOperations (os_getOperationById (te_operations E) (bt_operation t))) (\<lambda>found.
       bindS (whenS (found \<noteq> None) (atOperations (os_revertOperation (te_operations E) (bt_operation t)))) (\<lambda>_.
       let t' = t\<lparr>bt_state := TED_FAILED, bt_failedAt := Some (ted_now E)\<rparr> in
       bindS (BankingTedRepository_update t') (\<lambda>_.
       bindS (emitTed E (BankingTedEvent TED_FAILED (bt_id t') (bt_user t') None)) (\<lambda>_. returnS t'))))))"

section \<open>Confirmation\<close>

definition padStart :: "nat \<Rightarrow> string \<Rightarrow> string" where
  "padStart n s = replicate (n - length s) (CHR ''0'') @ s"

definition lower_char :: "char \<Rightarrow> char" where
  "lower_char c = (let n = of_char c :: nat in if 65 \<le> n \<and> n \<le> 90 then char_of (n + 32) else c)"

definition toLowerCase :: "string \<Rightarrow> string" where
  "toLowerCase s = map lower_char s"

text \<open>What the PSP tells about the transfer that it confirms; its account includes the digit.\<close>

record ted_confirmation =
  cf_transactionId :: string
  cf_document :: string
  cf_bankCode :: string
  cf_agency :: string
  cf_account :: string
  cf_accountType :: string
  cf_amount :: int

definition validateTedInfo :: "banking_ted \<Rightarrow> ted_confirmation \<Rightarrow> bool" where
  "validateTedInfo t p \<longleftrightarrow> rp_document t = cf_document p
     \<and> padStart 3 (rp_bankCode t) = padStart 3 (cf_bankCode p)
     \<and> padStart 4 (rp_agency t) = padStart 4 (cf_agency p)
     \<and> rp_account t @ rp_accountDigit t = cf_account p
     \<and> toLowerCase (rp_accountType t) = toLowerCase (cf_accountType p)
     \<and> bt_amount t = cf_amount p"

definition missing_of_confirmation :: "ted_confirmation \<Rightarrow> string list" where
  "missing_of_confirmation p =
     missing (cf_transactionId p = []) ''Beneficiary Document''
     @ missing (cf_document p = []) ''Beneficiary Document''
     @ missing (cf_bankCode p = []) ''Beneficiary BankCode'' @ missing (cf_agency p = []) ''Beneficiary Agency''
     @ missing (cf_account p = []) ''Beneficiary Account''
     @ missing (cf_accountType p = []) ''Beneficiary Account Type'' @ missing (cf_amount p = 0) ''Amount''"

definition incomplete :: "banking_ted \<Rightarrow> bool" where
  "incomplete t \<longleftrightarrow> rp_document t = [] \<or> rp_account t = [] \<or> rp_bankCode t = [] \<or> rp_agency t = []
     \<or> rp_accountType t = [] \<or> bt_amount t = 0"

definition ConfirmBankingTedUseCase_execute :: "'l ted_env \<Rightarrow> ted_confirmation \<Rightarrow> ('l, banking_ted) ted_step" where
  "ConfirmBankingTedUseCase_execute E p =
     bindS (needT (missing_of_confirmation p)) (\<lambda>_.
     bindS (findT (BankingTedRepository_getByTransactionId (cf_transactionId p)) BankingTedNotFound) (\<lambda>t.
     bindS (throwWhen (incomplete t) BankingTedNotFound) (\<lambda>_.
     if isAlreadyConfirmedBankingTed t then returnS t
     else
       bindS (throwWhen (bt_state t \<noteq> TED_WAITING) BankingTedInvalidState) (\<lambda>_.
       bindS (throwWhen (\<not> validateTedInfo t p) BankingTedInvalidConfirmation) (\<lambda>_.
       let t' = t\<lparr>bt_state := TED_CONFIRMED, bt_confirmedAt := Some (ted_now E)\<rparr> in
       bindS (BankingTedRepository_update t') (\<lambda>_.
       bindS (emitTed E (BankingTedEvent TED_CONFIRMED (bt_id t') (bt_user t') None)) (\<lambda>_. returnS t')))))))"

section \<open>Forwarding and rejection\<close>

definition ForwardBankingTedUseCase_execute :: "'l ted_env \<Rightarrow> nat \<Rightarrow> ('l, banking_ted) ted_step" where
  "ForwardBankingTedUseCase_execute E i =
     bindS (needT (missing (i = 0) ''ID'')) (\<lambda>_.
     bindS (findT (BankingTedRepository_getById i) BankingTedNotFound) (\<lambda>t.
     if isAlreadyForwardedBankingTed t then returnS t
     else
       bindS (throwWhen (bt_state t \<noteq> TED_CONFIRMED) BankingTedInvalidState) (\<lambda>_.
       let t' = t\<lparr>bt_state := TED_FORWARDED, bt_forwardedAt := Some (ted_now E)\<rparr> in
       bindS (BankingTedRepository_update t') (\<lambda>_.
       bindS (emitTed E (BankingTedEvent TED_FORWARDED (bt_id t') (bt_user t') None)) (\<lambda>_. returnS t')))))"

definition createAndAcceptReversalOperation :: "'l ted_env \<Rightarrow> banking_ted \<Rightarrow> ('l, string) ted_step" where
  "createAndAcceptReversalOperation E t =
     bindS (foundAt (te_getDefaultWallet E (bt_user t)) TedWalletNotFound) (\<lambda>w.
     bindS (throwWhen (\<not> dw_active w) TedWalletNotActive) (\<lambda>_.
     bindS (createAndAcceptOperation E (tc_failureTag (te_cfg E))
       (ted_operation_request E (te_uuid E) t (tc_failureDescription (te_cfg E)))
       None (Some (dw_uuid w))) (\<lambda>_. returnS (te_uuid E))))"

definition RejectBankingTedUseCase_execute ::
    "'l ted_env \<Rightarrow> nat \<Rightarrow> string option \<Rightarrow> string option \<Rightarrow> ('l, banking_ted) ted_step" where
  "RejectBankingTedUseCase_execute E i code message =
     bindS (needT (missing (i = 0) ''Transaction ID'')) (\<lambda>_.
     bindS (findT (BankingTedRepository_getById i) BankingTedNotFound) (\<lambda>t.
     if isAlreadyFailedBankingTed t then returnS t
     else
       bindS (throwWhen (\<not> List.member [TED_CONFIRMED, TED_FORWARDED] (bt_state t)) BankingTedInvalidState) (\<lambda>_.
       bindS (createAndAcceptReversalOperation E t) (\<lambda>reversal.
       let t' = t\<lparr>bt_state := TED_FAILED, bt_failedAt := Some (ted_now E)\<rparr> in
       bindS (BankingTedRepository_update t') (\<lambda>_.
       bindS (BankingTedFailureRepository_create \<lparr> fl_id = 0, fl_operation = reversal,
         fl_transactionId = bt_transactionId t', fl_ted = bt_id t', fl_code = code, fl_message = message,
         fl_createdAt = ted_now E \<rparr>) (\<lambda>_.
       bindS (emitTed E (BankingTedEvent TED_FAILED (bt_id t') (bt_user t') None)) (\<lambda>_. returnS t')))))))"

end
