(* ===== verification/Banking_Admin.thy ===== *)
theory Banking_Admin
  imports Banking_Teds
begin

text \<open>
  Transfers between the accounts of the back office (apps/banking/src/application/usecases/
  admin_banking_ted), which no operation of the ledger accompanies, and the controller that sends a
  confirmation of the PSP to the transfers of users or to these.
\<close>

section \<open>Use cases\<close>

record admin_ted_request =
  ar_id :: string
  ar_admin :: nat
  ar_source :: string
  ar_destination :: string
  ar_description :: string
  ar_value :: int

definition activeAccount :: "string \<Rightarrow> ('l, admin_account) ted_step" where
  "activeAccount i =
     bindS (findT (AdminBankingAccountRepository_getById i) AdminBankingAccountNotFound) (\<lambda>a.
     bindS (throwWhen (\<not> aa_enabled a) AdminBankingAccountNotActive) (\<lambda>_. returnS a))"

definition CreateAdminBankingTedUseCase_execute ::
    "'l ted_env \<Rightarrow> admin_ted_request \<Rightarrow> ('l, admin_ted) ted_step" where
  "CreateAdminBankingTedUseCase_execute E r =
     bindS (needT (missing (ar_id r = []) ''ID'' @ missing (ar_admin r = 0) ''Admin ID''
       @ missing (ar_source r = []) ''Source ID'' @ missing (ar_destination r = []) ''Destination ID''
       @ missing (ar_description r = []) ''Description'' @ missing (ar_value r = 0) ''Value'')) (\<lambda>_.
     bindS (tedR (\<lambda>d. Inr (AdminBankingTedRepository_getById (ar_id r) d))) (\<lambda>found.
     case found of
       Some t \<Rightarrow> if ar_admin r = at_createdBy t then returnS t else throwS TedForbidden
     | None \<Rightarrow>
         bindS (throwWhen (ar_source r = ar_destination r) AdminBankingTedBetweenSameAccount) (\<lambda>_.
         bindS (activeAccount (ar_source r)) (\<lambda>_.
         bindS (activeAccount (ar_destination r)) (\<lambda>_.
         bindS (AdminBankingTedRepository_create (ted_now E) \<lparr> at_id = ar_id r, at_source = ar_source r,
           at_destination = ar_destination r, at_state = TED_PENDING, at_description = ar_description r,
           at_value = ar_value r, at_transactionId = None, at_confirmedAt = None, at_failedAt = None,
           at_forwardedAt = None, at_failureCode = None, at_failureMessage = None,
           at_createdBy = ar_admin r, at_updatedBy = ar_admin r, at_createdAt = 0 \<rparr>) (\<lambda>t.
         bindS (emitTed E (AdminBankingTedEvent TED_PENDING (at_id t))) (\<lambda>_. returnS t)))))))"

text \<open>A missing account is not active either (\<open>!sourceFound?.isActive()\<close>).\<close>

definition enabledAccount :: "string \<Rightarrow> ('l, admin_account) ted_step" where
  "enabledAccount i =
     findT (\<lambda>d. case AdminBankingAccountRepository_getById i d of
         Some a \<Rightarrow> if aa_enabled a then Some a else None
       | None \<Rightarrow> None) AdminBankingAccountNotActive"

definition admin_ted_call :: "string \<Rightarrow> admin_account \<Rightarrow> admin_account \<Rightarrow> admin_ted \<Rightarrow> ted_call" where
  "admin_ted_call i a b t = \<lparr> tk_transactionId = i, tk_ownerDocument = aa_document a,
     tk_ownerName = aa_fullName a, tk_ownerAccount = aa_accountNumber a,
     tk_beneficiaryDocument = aa_document b, tk_beneficiaryName = aa_fullName b,
     tk_beneficiaryBankCode = aa_bankCode b, tk_beneficiaryAgency = aa_branchNumber b,
     tk_beneficiaryAccount = aa_accountNumber b, tk_beneficiaryAccountDigit = aa_accountDigit b,
     tk_beneficiaryAccountType = aa_accountType b, tk_amount = at_value t \<rparr>"

definition storeAdminTed :: "'l ted_env \<Rightarrow> admin_ted \<Rightarrow> ('l, admin_ted) ted_step" where
  "storeAdminTed E t =
     bindS (AdminBankingTedRepository_update t) (\<lambda>_.
     bindS (emitTed E (AdminBankingTedEvent (at_state t) (at_id t))) (\<lambda>_. returnS t))"

definition loadAdminTed :: "string \<Rightarrow> string \<Rightarrow> ('l, admin_ted) ted_step" where
  "loadAdminTed name i =
     bindS (needT (missing (i = []) name)) (\<lambda>_.
     findT (AdminBankingTedRepository_getById i) AdminBankingTedNotFound)"

definition HandlePendingAdminBankingTedEventUseCase_execute ::
    "'l ted_env \<Rightarrow> string \<Rightarrow> ('l, admin_ted) ted_step" where
  "HandlePendingAdminBankingTedEventUseCase_execute E i =
     bindS (loadAdminTed ''ID'' i) (\<lambda>t.
     if isAlreadyPaidAdminBankingTed t then returnS t
     else
       bindS (throwWhen (at_state t \<noteq> TED_PENDING) AdminBankingTedInvalidState) (\<lambda>_.
       bindS (enabledAccount (at_source t)) (\<lambda>a.
       bindS (enabledAccount (at_destination t)) (\<lambda>b.
       bindS (callPsp E (admin_ted_call (te_uuid E) a b t)) (\<lambda>_.
       storeAdminTed E (t\<lparr>at_transactionId := Some (te_uuid E), at_state := TED_WAITING\<rparr>))))))"

definition HandlePendingFailedAdminBankingTedEventUseCase_execute ::
    "'l ted_env \<Rightarrow> string \<Rightarrow> ('l, admin_ted) ted_step" where
  "HandlePendingFailedAdminBankingTedEventUseCase_execute E i =
     bindS (loadAdminTed ''ID'' i) (\<lambda>t.
     if at_state t \<noteq> TED_PENDING then returnS t
     else storeAdminTed E (t\<lparr>at_state := TED_FAILED, at_failedAt := Some (ted_now E)\<rparr>))"

definition missing_of_admin_confirmation :: "ted_confirmation \<Rightarrow> string list" where
  "missing_of_admin_confirmation p =
     missing (cf_transactionId p = []) ''Transaction ID'' @ missing (cf_document p = []) ''Destination Document''
     @ missing (cf_bankCode p = []) ''Destination BankCode''
     @ missing (cf_agency p = []) ''Destination Branch Number''
     @ missing (cf_account p = []) ''Destination Account''
     @ missing (cf_accountType p = []) ''Destination Account Type'' @ missing (cf_amount p = 0) ''Value''"

definition validateAdminTedInfo :: "admin_account \<Rightarrow> admin_ted \<Rightarrow> ted_confirmation \<Rightarrow> bool" where
  "validateAdminTedInfo b t p \<longleftrightarrow> aa_document b = cf_document p
     \<and> padStart 3 (aa_bankCode b) = padStart 3 (cf_bankCode p)
     \<and> padStart 4 (aa_branchNumber b) = padStart 4 (cf_agency p)
     \<and> aa_accountNumber b @ aa_accountDigit b = cf_account p
     \<and> toLowerCase (aa_accountType b) = toLowerCase (cf_accountType p)
     \<and> at_value t = cf_amount p"

definition ConfirmAdminBankingTedUseCase_execute ::
    "'l ted_env \<Rightarrow> ted_confirmation \<Rightarrow> ('l, admin_ted) ted_step" where
  "ConfirmAdminBankingTedUseCase_execute E p =
     bindS (needT (missing_of_admin_confirmation p)) (\<lambda>_.
     bindS (findT (AdminBankingTedRepository_getByTransactionId (cf_transactionId p)) AdminBankingTedNotFound) (\<lambda>t.
     if isAlreadyConfirmedAdminBankingTed t then returnS t
     else
       bindS (throwWhen (at_state t \<noteq> TED_WAITING) AdminBankingTedInvalidState) (\<lambda>_.
       bindS (enabledAccount (at_destination t)) (\<lambda>b.
       bindS (throwWhen (\<not> validateAdminTedInfo b t p) AdminBankingTedInvalidConfirmation) (\<lambda>_.
       storeAdminTed E (t\<lparr>at_state := TED_CONFIRMED, at_confirmedAt := Some (ted_now E)\<rparr>))))))"

definition ForwardAdminBankingTedUseCase_execute :: "'l ted_env \<Rightarrow> string \<Rightarrow> ('l, admin_ted) ted_step" where
  "ForwardAdminBankingTedUseCase_execute E i =
     bindS (loadAdminTed ''ID'' i) (\<lambda>t.
     if isAlreadyForwardedAdminBankingTed t then returnS t
     else
       bindS (throwWhen (at_state t \<noteq> TED_CONFIRMED) AdminBankingTedInvalidState) (\<lambda>_.
       storeAdminTed E (t\<lparr>at_state := TED_FORWARDED, at_forwardedAt := Some (ted_now E)\<rparr>)))"

definition RejectAdminBankingTedUseCase_execute ::
    "'l ted_env \<Rightarrow> string \<Rightarrow> string option \<Rightarrow> string option \<Rightarrow> ('l, admin_ted) ted_step" where
  "RejectAdminBankingTedUseCase_execute E i code message =
     bindS (loadAdminTed ''Transaction ID'' i) (\<lambda>t.
     if isAlreadyFailedAdminBankingTed t then returnS t
     else
       bindS (throwWhen (\<not> List.member [TED_CONFIRMED, TED_FORWARDED] (at_state t)) AdminBankingTedInvalidState) (\<lambda>_.
       storeAdminTed E (t\<lparr>at_state := TED_FAILED,
         at_failureCode := stored code (at_failureCode t),
         at_failureMessage := stored message (at_failureMessage t),
         at_failedAt := Some (ted_now E)\<rparr>)))"

section \<open>A confirmation of the PSP\<close>

definition ConfirmTedRequest :: "validators \<Rightarrow> ted_confirmation \<Rightarrow> string list" where
  "ConfirmTedRequest v p =
     missing (\<not> v_isUUID v (cf_transactionId p)) ''transactionId''
     @ too_long (Some (cf_document p)) ''beneficiaryDocument''
     @ too_long (Some (cf_bankCode p)) ''beneficiaryBankCode''
     @ too_long (Some (cf_agency p)) ''beneficiaryAgency''
     @ too_long (Some (cf_account p)) ''beneficiaryAccount''
     @ missing (cf_amount p \<le> 0) ''amount''"

definition ConfirmTedController_execute :: "'l ted_env \<Rightarrow> ted_confirmation \<Rightarrow> ('l, unit) ted_step" where
  "ConfirmTedController_execute E p = (let bad = ConfirmTedRequest (te_validators E) p in
     bindS (throwWhen (bad \<noteq> []) (TedInvalidDataFormat bad)) (\<lambda>_.
     bindS (needT (missing (cf_transactionId p = []) ''Transaction ID'')) (\<lambda>_.
     bindS (tedR (\<lambda>d. Inr (BankingTedRepository_getByTransactionId (cf_transactionId p) d))) (\<lambda>found.
     case found of
       Some _ \<Rightarrow> bindS (ConfirmBankingTedUseCase_execute E p) (\<lambda>_. returnS ())
     | None \<Rightarrow>
         bindS (tedR (\<lambda>d. Inr (AdminBankingTedRepository_getByTransactionId (cf_transactionId p) d))) (\<lambda>found'.
         case found' of
           Some _ \<Rightarrow> bindS (ConfirmAdminBankingTedUseCase_execute E p) (\<lambda>_. returnS ())
         | None \<Rightarrow> throwS BankingTedNotFound)))))"

end
