(* ===== verification/Banking_Lists.thy ===== *)
theory Banking_Lists
  imports Banking_Domain
begin

text \<open>
  The lists of banks and cities, which crons bring up to date with what they download
  (apps/banking/src/application/usecases/bank, banking_ted/sync_bank_ted.usecase.ts and city). The
  writes are started one after the other and awaited together, so one that fails does not keep the
  others from being carried out.
\<close>

fun issueAll :: "('x \<Rightarrow> ('l, (ted_exn + unit) list) ted_step) \<Rightarrow> 'x list \<Rightarrow> ('l, (ted_exn + unit) list) ted_step" where
  "issueAll f [] = returnS []"
| "issueAll f (x # xs) = bindS (f x) (\<lambda>r. bindS (issueAll f xs) (\<lambda>rs. returnS (r @ rs)))"

definition awaitAll :: "(ted_exn + unit) list \<Rightarrow> ('l, unit) ted_step" where
  "awaitAll rs = (case find (\<lambda>r. \<not> isInr r) rs of Some (Inl e) \<Rightarrow> throwS e | _ \<Rightarrow> returnS ())"

text \<open>A write that may fail, as a promise.\<close>

definition promised :: "(ted_db \<Rightarrow> ted_exn + ted_db) \<Rightarrow> ('l, ted_exn + unit) ted_step" where
  "promised f = bindS (tedR (\<lambda>d. Inr (f d))) (\<lambda>r.
     case r of Inl e \<Rightarrow> returnS (Inl e) | Inr d \<Rightarrow> bindS (tedM (\<lambda>_. d)) (\<lambda>_. returnS (Inr ())))"

definition promisedThen :: "'l ted_env \<Rightarrow> (ted_db \<Rightarrow> ted_exn + ted_db) \<Rightarrow> ted_event
    \<Rightarrow> ('l, (ted_exn + unit) list) ted_step" where
  "promisedThen E f e = bindS (promised f) (\<lambda>r. bindS (emitTed E e) (\<lambda>_. returnS [r]))"

section \<open>Banks\<close>

text \<open>
  \<open>SyncBankUseCase\<close> and \<open>SyncBankTedUseCase\<close> differ in the table, the events and the bank of the
  platform, which is never deleted. A bank that was deleted comes back when it is listed again;
  only the names are taken over.
\<close>

type_synonym bank_table = "ted_db \<Rightarrow> listed_bank list"

type_synonym bank_table_update = "(listed_bank list \<Rightarrow> listed_bank list) \<Rightarrow> ted_db \<Rightarrow> ted_db"

definition newBanks :: "listed_bank list \<Rightarrow> listed_bank list \<Rightarrow> listed_bank list" where
  "newBanks found downloaded = filter (\<lambda>b. \<not> List.member (map lb_ispb found) (lb_ispb b)) downloaded"

definition deleteBanks :: "listed_bank list \<Rightarrow> listed_bank list \<Rightarrow> listed_bank list" where
  "deleteBanks found downloaded = filter (\<lambda>b. \<not> List.member (map lb_ispb downloaded) (lb_ispb b)) found"

definition updateBanks :: "listed_bank list \<Rightarrow> listed_bank list \<Rightarrow> listed_bank list" where
  "updateBanks found downloaded = filter (\<lambda>b. List.member (map lb_ispb downloaded) (lb_ispb b)) found"

definition taken :: "bool \<Rightarrow> listed_bank \<Rightarrow> listed_bank list \<Rightarrow> bool" where
  "taken codes b t \<longleftrightarrow> list_ex (\<lambda>x. lb_id x = lb_id b \<or> lb_ispb x = lb_ispb b \<or> codes \<and> lb_code x = lb_code b) t"

definition bank_create :: "bool \<Rightarrow> bank_table \<Rightarrow> bank_table_update \<Rightarrow> listed_bank \<Rightarrow> ted_db \<Rightarrow> ted_exn + ted_db" where
  "bank_create codes get upd b d =
     (if taken codes b (get d) then Inl TedUniqueConstraint else Inr (upd (tbl_insert b) d))"

definition bank_update :: "bank_table_update \<Rightarrow> listed_bank \<Rightarrow> ted_db \<Rightarrow> ted_db" where
  "bank_update upd b d = upd (tbl_update lb_id b) d"

definition bank_delete :: "bank_table_update \<Rightarrow> int \<Rightarrow> listed_bank \<Rightarrow> ted_db \<Rightarrow> ted_db" where
  "bank_delete upd now b d =
     upd (map (\<lambda>x. if lb_id x = lb_id b then x\<lparr>lb_deletedAt := Some now\<rparr> else x)) d"

definition refreshed :: "listed_bank \<Rightarrow> listed_bank \<Rightarrow> listed_bank" where
  "refreshed b info = b\<lparr>lb_name := lb_name info, lb_fullName := lb_fullName info, lb_deletedAt := None\<rparr>"

definition upToDate :: "listed_bank \<Rightarrow> listed_bank \<Rightarrow> bool" where
  "upToDate b info \<longleftrightarrow> lb_name b = lb_name info \<and> lb_fullName b = lb_fullName info \<and> lb_deletedAt b = None"

definition syncBanks :: "'l ted_env \<Rightarrow> bool \<Rightarrow> bank_table \<Rightarrow> bank_table_update
    \<Rightarrow> (list_change \<Rightarrow> listed_bank \<Rightarrow> ted_event) \<Rightarrow> (listed_bank \<Rightarrow> bool) \<Rightarrow> listed_bank list
    \<Rightarrow> ('l, unit) ted_step" where
  "syncBanks E codes get upd event own downloaded =
     (if downloaded = [] then returnS ()
      else
        bindS (tedR (\<lambda>d. Inr (get d))) (\<lambda>found.
        bindS (issueAll (\<lambda>b. promisedThen E (bank_create codes get upd b) (event LIST_CREATED b))
          (newBanks found downloaded)) (\<lambda>r1.
        bindS (issueAll (\<lambda>b. if own b \<or> lb_deletedAt b \<noteq> None then returnS []
            else promisedThen E (\<lambda>d. Inr (bank_delete upd (ted_now E) b d)) (event LIST_DELETED b))
          (deleteBanks found downloaded)) (\<lambda>r2.
        bindS (issueAll (\<lambda>b. case find (\<lambda>x. lb_ispb x = lb_ispb b) downloaded of
              None \<Rightarrow> throwS TedTypeError
            | Some info \<Rightarrow>
                if upToDate b info then returnS []
                else promisedThen E (\<lambda>d. Inr (bank_update upd (refreshed b info) d))
                  (event LIST_UPDATED (refreshed b info)))
          (updateBanks found downloaded)) (\<lambda>r3.
        awaitAll (r1 @ r2 @ r3))))))"

definition bankEvent :: "list_change \<Rightarrow> listed_bank \<Rightarrow> ted_event" where
  "bankEvent k b = BankEvent k (lb_id b) (lb_ispb b)"

definition bankTedEvent :: "list_change \<Rightarrow> listed_bank \<Rightarrow> ted_event" where
  "bankTedEvent k b = BankTedEvent k (lb_id b) (lb_code b)"

definition SyncBankUseCase_execute :: "'l ted_env \<Rightarrow> listed_bank list \<Rightarrow> ('l, unit) ted_step" where
  "SyncBankUseCase_execute E downloaded = syncBanks E False listedBanks listedBanks_update bankEvent
     (\<lambda>b. lb_ispb b = tc_zroBankIspb (te_cfg E)) downloaded"

definition SyncBankTedUseCase_execute :: "'l ted_env \<Rightarrow> listed_bank list \<Rightarrow> ('l, unit) ted_step" where
  "SyncBankTedUseCase_execute E downloaded = syncBanks E True bankTeds bankTeds_update bankTedEvent
     (\<lambda>b. lb_code b = tc_zroBankCode (te_cfg E)) downloaded"

definition BankRepository_getById :: "string \<Rightarrow> ted_db \<Rightarrow> listed_bank option" where
  "BankRepository_getById i d = find (\<lambda>b. lb_id b = i \<and> lb_deletedAt b = None) (listedBanks d)"

definition UpdateBankActiveUseCase_execute ::
    "'l ted_env \<Rightarrow> string \<Rightarrow> bool option \<Rightarrow> ('l, listed_bank) ted_step" where
  "UpdateBankActiveUseCase_execute E i active =
     bindS (needT (missing (i = []) ''ID'' @ missing (active = None) ''Active'')) (\<lambda>_.
     bindS (findT (BankRepository_getById i) BankNotFoundException) (\<lambda>b.
     let b' = b\<lparr>lb_active := (active = Some True)\<rparr> in
     bindS (tedM (bank_update listedBanks_update b')) (\<lambda>_.
     bindS (emitTed E (bankEvent LIST_UPDATED b')) (\<lambda>_. returnS b'))))"

section \<open>Cities\<close>

definition city_taken :: "city \<Rightarrow> city list \<Rightarrow> bool" where
  "city_taken c t \<longleftrightarrow> list_ex (\<lambda>x. ct_id x = ct_id c \<or> ct_code x = ct_code c) t"

definition CityRepository_create :: "city \<Rightarrow> ted_db \<Rightarrow> ted_exn + ted_db" where
  "CityRepository_create c d =
     (if city_taken c (cities d) then Inl TedUniqueConstraint else Inr (d\<lparr>cities := tbl_insert c (cities d)\<rparr>))"

definition CityRepository_delete :: "city \<Rightarrow> ted_db \<Rightarrow> ted_db" where
  "CityRepository_delete c d = d\<lparr>cities := filter (\<lambda>x. ct_id x \<noteq> ct_id c) (cities d)\<rparr>"

definition CityRepository_update :: "city \<Rightarrow> ted_db \<Rightarrow> ted_db" where
  "CityRepository_update c d = d\<lparr>cities := tbl_update ct_id c (cities d)\<rparr>"

definition cityEvent :: "list_change \<Rightarrow> city \<Rightarrow> ted_event" where
  "cityEvent k c = CityEvent k (ct_id c) (ct_code c)"

definition SyncCityUseCase_execute :: "'l ted_env \<Rightarrow> city list \<Rightarrow> ('l, unit) ted_step" where
  "SyncCityUseCase_execute E downloaded =
     (if downloaded = [] then returnS ()
      else
        bindS (tedR (\<lambda>d. Inr (cities d))) (\<lambda>found.
        bindS (issueAll (\<lambda>c. promisedThen E (CityRepository_create c) (cityEvent LIST_CREATED c))
          (filter (\<lambda>c. \<not> List.member (map ct_code found) (ct_code c)) downloaded)) (\<lambda>r1.
        bindS (issueAll (\<lambda>c. promisedThen E (\<lambda>d. Inr (CityRepository_delete c d)) (cityEvent LIST_DELETED c))
          (filter (\<lambda>c. \<not> List.member (map ct_code downloaded) (ct_code c)) found)) (\<lambda>r2.
        bindS (issueAll (\<lambda>c. case find (\<lambda>x. ct_code x = ct_code c) downloaded of
              None \<Rightarrow> throwS TedTypeError
            | Some info \<Rightarrow>
                if ct_name c = ct_name info then returnS []
                else let c' = federative_unit.extend (federative_unit.truncate info)
                       \<lparr> ct_id = ct_id c, ct_code = ct_code c, ct_name = ct_name info, ct_active = ct_active c \<rparr>
                  in promisedThen E (\<lambda>d. Inr (CityRepository_update c' d)) (cityEvent LIST_UPDATED c'))
          (filter (\<lambda>c. List.member (map ct_code downloaded) (ct_code c)) found)) (\<lambda>r3.
        awaitAll (r1 @ r2 @ r3))))))"

end
