(* ===== verification/Banking_Ledger.thy ===== *)
theory Banking_Ledger
  imports Banking_Admin Banking_Lists Pix_Payment_Ledger
begin

text \<open>
  The transfers and the ledger. The operations service is known by the same contract that the pix
  payments rest on (\<open>payment_ledger\<close>); on it rest the life cycle of the transfers and the agreement
  of their states with their operations, for every sequence of requests.
\<close>

section \<open>Requests\<close>

inductive banking_request :: "'l operation_service \<Rightarrow> ('l \<Rightarrow> 'l \<Rightarrow> bool) \<Rightarrow> 'l ted_world \<Rightarrow> 'l ted_world \<Rightarrow> bool"
  for ops :: "'l operation_service" and others :: "'l \<Rightarrow> 'l \<Rightarrow> bool" where
  ted_create: "te_operations E = ops \<Longrightarrow>
    banking_request ops others w (tedServed (CreateBankingTedController_execute E r) w)"
| ted_pending: "te_operations E = ops \<Longrightarrow>
    banking_request ops others w (tedObserved (HandlePendingBankingTedEventUseCase_execute E i u) w)"
| ted_dead_letter: "te_operations E = ops \<Longrightarrow>
    banking_request ops others w (tedObserved (HandlePendingFailedBankingTedEventUseCase_execute E i) w)"
| ted_confirm: "te_operations E = ops \<Longrightarrow>
    banking_request ops others w (tedServed (ConfirmTedController_execute E p) w)"
| ted_forward: "te_operations E = ops \<Longrightarrow>
    banking_request ops others w (tedServed (ForwardBankingTedUseCase_execute E i) w)"
| ted_reject: "te_operations E = ops \<Longrightarrow>
    banking_request ops others w (tedServed (RejectBankingTedUseCase_execute E i c m) w)"
| admin_create: "te_operations E = ops \<Longrightarrow>
    banking_request ops others w (tedServed (CreateAdminBankingTedUseCase_execute E a) w)"
| admin_pending: "te_operations E = ops \<Longrightarrow>
    banking_request ops others w (tedObserved (HandlePendingAdminBankingTedEventUseCase_execute E s) w)"
| admin_dead_letter: "te_operations E = ops \<Longrightarrow>
    banking_request ops others w (tedObserved (HandlePendingFailedAdminBankingTedEventUseCase_execute E s) w)"
| admin_forward: "te_operations E = ops \<Longrightarrow>
    banking_request ops others w (tedServed (ForwardAdminBankingTedUseCase_execute E s) w)"
| admin_reject: "te_operations E = ops \<Longrightarrow>
    banking_request ops others w (tedServed (RejectAdminBankingTedUseCase_execute E s c m) w)"
| delete_contact: "banking_request ops others w (tedServed (DeleteBankingContactByUserAndIdUseCase_execute i n) w)"
| bank_active: "te_operations E = ops \<Longrightarrow>
    banking_request ops others w (tedServed (UpdateBankActiveUseCase_execute E s act) w)"
| sync_banks: "te_operations E = ops \<Longrightarrow>
    banking_request ops others w (tedCron (SyncBankUseCase_execute E banks) w)"
| sync_bank_teds: "te_operations E = ops \<Longrightarrow>
    banking_request ops others w (tedCron (SyncBankTedUseCase_execute E banks) w)"
| sync_cities: "te_operations E = ops \<Longrightarrow>
    banking_request ops others w (tedCron (SyncCityUseCase_execute E cs) w)"
| back_office: "banking_request ops others w (w\<lparr>tw_db := (tw_db w)\<lparr>adminAccounts := as\<rparr>\<rparr>)"
| other_ledger: "others (tw_ledger w) l \<Longrightarrow> banking_request ops others w (w\<lparr>tw_ledger := l\<rparr>)"

section \<open>The invariant\<close>

text \<open>
  A transfer that was sent has an accepted operation of its amount that some wallet paid. A failure
  record is the only one of its transfer: the transfer failed after it was paid, and an accepted
  operation that no wallet paid gave its amount back.
\<close>

definition sent :: "banking_ted \<Rightarrow> bool" where
  "sent t \<longleftrightarrow> bt_state t = TED_WAITING \<or> bt_state t = TED_CONFIRMED \<or> bt_state t = TED_FORWARDED"

definition paid :: "order_view \<Rightarrow> banking_ted \<Rightarrow> bool" where
  "paid v t \<longleftrightarrow> (\<exists>u. v (bt_operation t) = Some (ACCEPTED, Some u, bt_amount t))"

definition given_back :: "order_view \<Rightarrow> banking_ted list \<Rightarrow> ted_failure \<Rightarrow> bool" where
  "given_back v ts f \<longleftrightarrow> (\<exists>t \<in> set ts. bt_id t = fl_ted f \<and> bt_state t = TED_FAILED \<and> paid v t
     \<and> v (fl_operation f) = Some (ACCEPTED, None, bt_amount t))"

definition ted_inv :: "order_view \<Rightarrow> banking_ted list \<Rightarrow> ted_failure list \<Rightarrow> bool" where
  "ted_inv v ts fs \<longleftrightarrow> tbl_wf bt_id ts \<and> distinct (map bt_operation ts)
     \<and> (\<forall>t \<in> set ts. 0 < bt_amount t \<and> (sent t \<longrightarrow> paid v t))
     \<and> (\<forall>f \<in> set fs. given_back v ts f)
     \<and> distinct (map fl_ted fs) \<and> distinct (map fl_operation fs)"

fun later_ted_states :: "ted_state \<Rightarrow> ted_state set" where
  "later_ted_states TED_PENDING = UNIV"
| "later_ted_states TED_WAITING = {TED_WAITING, TED_CONFIRMED, TED_FORWARDED, TED_FAILED}"
| "later_ted_states TED_CONFIRMED = {TED_CONFIRMED, TED_FORWARDED, TED_FAILED}"
| "later_ted_states TED_FORWARDED = {TED_FORWARDED, TED_FAILED}"
| "later_ted_states TED_FAILED = {TED_FAILED}"

definition ted_follows :: "banking_ted \<Rightarrow> banking_ted \<Rightarrow> bool" where
  "ted_follows t t' \<longleftrightarrow> bt_id t' = bt_id t \<and> bt_user t' = bt_user t \<and> bt_amount t' = bt_amount t
     \<and> bt_operation t' = bt_operation t \<and> recipient.truncate t' = recipient.truncate t
     \<and> bt_state t' \<in> later_ted_states (bt_state t) \<and> (bt_state t = TED_FAILED \<longrightarrow> t' = t)"

definition teds_follow :: "ted_db \<Rightarrow> ted_db \<Rightarrow> bool" where
  "teds_follow d d' \<longleftrightarrow> (\<forall>t \<in> set (teds d). \<exists>t' \<in> set (teds d'). ted_follows t t')
     \<and> set (tedFailures d) \<subseteq> set (tedFailures d')"

lemma ted_follows_refl [simp]: "ted_follows t t"
  by (cases "bt_state t") (simp_all add: ted_follows_def)

lemma later_ted_trans: "s' \<in> later_ted_states s \<Longrightarrow> s'' \<in> later_ted_states s' \<Longrightarrow> s'' \<in> later_ted_states s"
  by (cases s; cases s') auto

lemma ted_follows_trans: "ted_follows t t' \<Longrightarrow> ted_follows t' t'' \<Longrightarrow> ted_follows t t''"
  unfolding ted_follows_def by (auto intro: later_ted_trans)

lemma teds_follow_refl [simp]: "teds_follow d d"
  unfolding teds_follow_def using ted_follows_refl by blast

lemma teds_follow_trans: "teds_follow d d' \<Longrightarrow> teds_follow d' d'' \<Longrightarrow> teds_follow d d''"
  unfolding teds_follow_def by (meson ted_follows_trans subset_trans)

lemma teds_follow_same: "teds d' = teds d \<Longrightarrow> tedFailures d' = tedFailures d \<Longrightarrow> teds_follow d d'"
  unfolding teds_follow_def by (auto intro: ted_follows_refl bexI)

lemma paid_evolve: "orders_evolve v v' \<Longrightarrow> paid v t \<Longrightarrow> paid v' t"
  unfolding paid_def using orders_evolve_final [of v v'] by blast

lemma given_back_evolve: "orders_evolve v v' \<Longrightarrow> given_back v ts f \<Longrightarrow> given_back v' ts f"
  unfolding given_back_def using paid_evolve orders_evolve_final [of v v'] by blast

lemma ted_inv_evolve: "orders_evolve v v' \<Longrightarrow> ted_inv v ts fs \<Longrightarrow> ted_inv v' ts fs"
  unfolding ted_inv_def using paid_evolve given_back_evolve by blast

section \<open>Writes to the transfers\<close>

lemma serial_fresh: "r \<in> set t \<Longrightarrow> key r < serial key t"
proof -
  have "\<forall>m. m \<le> fold (\<lambda>r. max (key r)) t m \<and> (\<forall>r \<in> set t. key r \<le> fold (\<lambda>r. max (key r)) t m)"
    by (induction t) (auto intro: order_trans [rotated])
  then show "r \<in> set t \<Longrightarrow> key r < serial key t" by (auto simp: serial_def less_Suc_eq_le)
qed

lemma ted_inv_insert:
  assumes "ted_inv v ts fs" and "bt_id t \<notin> bt_id ` set ts" and "bt_operation t \<notin> bt_operation ` set ts"
    and "bt_state t = TED_PENDING" "0 < bt_amount t"
  shows "ted_inv v (tbl_insert t ts) fs"
  using assms unfolding ted_inv_def
  by (auto simp: tbl_insert_def tbl_wf_def sent_def given_back_def)

text \<open>A row is written over itself in a new state.\<close>

lemma set_teds_update:
  assumes "tbl_wf bt_id ts" and "t \<in> set ts" and "bt_id t' = bt_id t"
  shows "set (tbl_update bt_id t' ts) = insert t' (set ts - {t})"
proof -
  have same: "bt_id x = bt_id t' \<longleftrightarrow> x = t" if "x \<in> set ts" for x
    using assms that inj_onD [of bt_id "set ts"] by (auto simp: tbl_wf_def distinct_map)
  have "set (tbl_update bt_id t' ts) = (\<lambda>x. if x = t then t' else x) ` set ts"
    unfolding tbl_update_def set_map by (intro image_cong) (simp_all add: same)
  also have "\<dots> = insert t' (set ts - {t})" using assms(2) by auto
  finally show ?thesis .
qed

lemma ted_inv_update:
  assumes inv: "ted_inv v ts fs" and t: "t \<in> set ts" "bt_state t \<noteq> TED_FAILED"
    and f: "ted_follows t t'" and p: "sent t' \<Longrightarrow> paid v t"
  shows "ted_inv v (tbl_update bt_id t' ts) fs"
proof -
  from inv have wf: "tbl_wf bt_id ts" by (simp add: ted_inv_def)
  from f have i: "bt_id t' = bt_id t" "bt_operation t' = bt_operation t" "bt_amount t' = bt_amount t"
    by (simp_all add: ted_follows_def)
  note rows = set_teds_update [OF wf t(1) i(1)]
  have "map bt_id (tbl_update bt_id t' ts) = map bt_id ts" by (simp add: tbl_update_def)
  moreover have "bt_operation x = bt_operation t'" if "x \<in> set ts" "bt_id x = bt_id t'" for x
    using that wf t(1) i inj_onD [of bt_id "set ts" x t] by (auto simp: tbl_wf_def distinct_map)
  then have "map bt_operation (tbl_update bt_id t' ts) = map bt_operation ts"
    by (auto simp: tbl_update_def)
  moreover have "paid v t' = paid v t" using i by (simp add: paid_def)
  moreover have "given_back v (tbl_update bt_id t' ts) x" if "given_back v ts x" for x
    using that t(2) unfolding given_back_def rows by blast
  ultimately show ?thesis using inv p t(1) i(3)
    unfolding ted_inv_def tbl_wf_def rows by auto
qed

lemma teds_follow_update:
  assumes "tbl_wf bt_id (teds d)" and "t \<in> set (teds d)" and "ted_follows t t'"
  shows "teds_follow d (d\<lparr>teds := tbl_update bt_id t' (teds d)\<rparr>)"
proof -
  from assms(3) have "bt_id t' = bt_id t" by (simp add: ted_follows_def)
  note rows = set_teds_update [OF assms(1,2) this]
  have "\<exists>y \<in> insert t' (set (teds d) - {t}). ted_follows x y" if "x \<in> set (teds d)" for x
    using that assms(3) by (cases "x = t") (auto intro: bexI [of _ x])
  then show ?thesis unfolding teds_follow_def by (simp add: rows)
qed

lemma ted_inv_failure:
  assumes inv: "ted_inv v ts fs" and g: "given_back v ts f"
    and new: "fl_ted f \<notin> fl_ted ` set fs" "fl_operation f \<notin> fl_operation ` set fs"
  shows "ted_inv v ts (tbl_insert f fs)"
  using assms by (auto simp: ted_inv_def tbl_insert_def)

section \<open>Steps\<close>

text \<open>A step from one state on.\<close>

definition insideAt :: "('s \<Rightarrow> 's \<Rightarrow> bool) \<Rightarrow> ('s, 'e, 'a) step \<Rightarrow> 's \<Rightarrow> bool" where
  "insideAt R f s \<longleftrightarrow> R s (snd (f s))"

lemma inside_at: "inside R f \<Longrightarrow> insideAt R f s"
  by (simp add: inside_def insideAt_def)

lemma insideI: "(\<And>s. insideAt R f s) \<Longrightarrow> inside R f"
  by (simp add: inside_def insideAt_def)

context step_relation
begin

lemma insideAt_bindS:
  assumes "insideAt R m s" and "\<And>x s1. m s = (Inr x, s1) \<Longrightarrow> insideAt R (f x) s1"
  shows "insideAt R (bindS m f) s"
  using assms unfolding insideAt_def bindS_def
  by (auto split: prod.splits sum.splits) (metis snd_conv trans)

lemma insideAt_throwS [simp]: "insideAt R (throwS e) s"
  by (simp add: insideAt_def throwS_def)

lemma insideAt_returnS [simp]: "insideAt R (returnS x) s"
  by (simp add: insideAt_def returnS_def)

lemma insideAt_if:
  "(c \<Longrightarrow> insideAt R f s) \<Longrightarrow> (\<not> c \<Longrightarrow> insideAt R g s) \<Longrightarrow> insideAt R (if c then f else g) s"
  by simp

lemma insideAt_readS:
  "(\<And>x. g s = Inr x \<Longrightarrow> insideAt R (f x) s) \<Longrightarrow> insideAt R (bindS (readS g) f) s"
  by (auto simp: insideAt_def bindS_def readS_def split: sum.splits)

lemma insideAt_throwWhen:
  "(\<not> c \<Longrightarrow> insideAt R (f ()) s) \<Longrightarrow> insideAt R (bindS (throwWhen c e) f) s"
  by (auto simp: insideAt_def bindS_def throwWhen_def throwS_def returnS_def)

end

definition ted_sound :: "('l \<Rightarrow> bool) \<Rightarrow> ('l \<Rightarrow> order_view) \<Rightarrow> 'l ted_world \<Rightarrow> bool" where
  "ted_sound ok view w \<longleftrightarrow> ok (tw_ledger w)
     \<and> ted_inv (view (tw_ledger w)) (teds (tw_db w)) (tedFailures (tw_db w))"

definition ted_moves :: "('l \<Rightarrow> bool) \<Rightarrow> ('l \<Rightarrow> order_view) \<Rightarrow> 'l ted_world \<Rightarrow> 'l ted_world \<Rightarrow> bool" where
  "ted_moves ok view w w' \<longleftrightarrow> (ted_sound ok view w \<longrightarrow> ted_sound ok view w'
     \<and> orders_evolve (view (tw_ledger w)) (view (tw_ledger w')) \<and> teds_follow (tw_db w) (tw_db w'))"

lemma ted_moves_relation: "step_relation (ted_moves ok view)"
  by unfold_locales (auto simp: ted_moves_def intro: orders_evolve_trans teds_follow_trans)

interpretation tm: step_relation "ted_moves ok view" for ok view
  by (rule ted_moves_relation)

lemma ted_moves_same:
  assumes "tw_ledger w' = tw_ledger w" and "teds (tw_db w') = teds (tw_db w)"
    and "tedFailures (tw_db w') = tedFailures (tw_db w)"
  shows "ted_moves ok view w w'"
  using assms by (simp add: ted_moves_def ted_sound_def teds_follow_same)

text \<open>The rollback of a transaction leaves the ledger as it is.\<close>

lemma ted_moves_rollback: "ted_moves ok view w w' \<Longrightarrow> ted_moves ok view w (w'\<lparr>tw_db := tw_db w\<rparr>)"
  unfolding ted_moves_def ted_sound_def by (auto intro: ted_inv_evolve)

lemma ted_moves_served: "inside (ted_moves ok view) f \<Longrightarrow> ted_moves ok view w (tedServed f w)"
  by (auto simp: tedServed_def split: prod.split sum.split dest!: inside_use [of _ f w]
      intro: ted_moves_rollback)

lemma ted_moves_observed: "inside (ted_moves ok view) f \<Longrightarrow> ted_moves ok view w (tedObserved f w)"
  by (simp add: tedObserved_def inside_def)

lemma ted_moves_cron: "inside (ted_moves ok view) f \<Longrightarrow> ted_moves ok view w (tedCron f w)"
proof -
  assume "inside (ted_moves ok view) f"
  then have *: "ted_moves ok view w (snd (f w))" by (simp add: inside_def)
  have "ted_moves ok view (snd (f w)) (tedCron f w)"
    by (rule ted_moves_same) (auto simp: tedCron_def split: prod.split sum.split)
  with * show ?thesis by (rule tm.trans)
qed

section \<open>Steps that leave the transfers alone\<close>

definition ted_quiet :: "'l ted_world \<Rightarrow> 'l ted_world \<Rightarrow> bool" where
  "ted_quiet w w' \<longleftrightarrow> tw_ledger w' = tw_ledger w \<and> teds (tw_db w') = teds (tw_db w)
     \<and> tedFailures (tw_db w') = tedFailures (tw_db w)"

lemma ted_quiet_relation: "step_relation ted_quiet"
  by unfold_locales (simp_all add: ted_quiet_def)

interpretation tq: step_relation ted_quiet
  by (rule ted_quiet_relation)

lemma ted_quiet_moves: "ted_quiet w w' \<Longrightarrow> ted_moves ok view w w'"
  by (simp add: ted_quiet_def ted_moves_same)

lemma inside_ted_quiet: "inside ted_quiet f \<Longrightarrow> inside (ted_moves ok view) f"
  by (simp add: inside_def ted_quiet_moves)

lemma ted_quiet_reads [frame]:
  "inside ted_quiet (tedR f)" "inside ted_quiet (askT q)" "inside ted_quiet (askOperations g)"
  "inside ted_quiet (needT names)" "inside ted_quiet (foundT r e)" "inside ted_quiet (findT i e')"
  "inside ted_quiet (foundAt h e'')" "inside ted_quiet (activeAccount s)"
  "inside ted_quiet (enabledAccount s')" "inside ted_quiet (loadAdminTed n j)"
  by (auto simp: tedR_def askT_def askOperations_def needT_def foundT_def findT_def foundAt_def
      activeAccount_def enabledAccount_def loadAdminTed_def intro!: frame)

lemma ted_quiet_tedM [frame]:
  "(\<And>d. teds (f d) = teds d) \<Longrightarrow> (\<And>d. tedFailures (f d) = tedFailures d) \<Longrightarrow> inside ted_quiet (tedM f)"
  by (simp add: inside_def tedM_def modifyS_def ted_quiet_def)

lemma ted_quiet_callPsp [frame]: "inside ted_quiet (callPsp E c)"
  by (simp add: inside_def callPsp_def ted_quiet_def)

lemma ted_quiet_emitTed [frame]: "inside ted_quiet (emitTed E e)"
  by (auto simp: emitTed_def Let_def intro!: frame)

lemma ted_quiet_repositories [frame]:
  "inside ted_quiet (BankingTedReceivedRepository_create r)"
  "inside ted_quiet (BankingContactRepository_create c)"
  "inside ted_quiet (BankingAccountContactRepository_create a)"
  "inside ted_quiet (AdminBankingTedRepository_create now t)"
  "inside ted_quiet (storeAdminTed E t)"
  by (auto simp: BankingTedReceivedRepository_create_def BankingContactRepository_create_def
      BankingAccountContactRepository_create_def AdminBankingTedRepository_create_def storeAdminTed_def
      AdminBankingTedRepository_update_def Let_def intro!: frame)

lemma ted_quiet_contacts [frame]:
  "inside ted_quiet (createBankingContact E u t n)"
  "inside ted_quiet (DeleteBankingContactByUserAndIdUseCase_execute i j)"
  by (auto simp: createBankingContact_def DeleteBankingContactByUserAndIdUseCase_execute_def
      BankingContactRepository_delete_def BankingAccountContactRepository_delete_def intro!: frame)

lemma ted_quiet_admin:
  "inside ted_quiet (CreateAdminBankingTedUseCase_execute E r)"
  "inside ted_quiet (HandlePendingAdminBankingTedEventUseCase_execute E i)"
  "inside ted_quiet (HandlePendingFailedAdminBankingTedEventUseCase_execute E i)"
  "inside ted_quiet (ConfirmAdminBankingTedUseCase_execute E p)"
  "inside ted_quiet (ForwardAdminBankingTedUseCase_execute E i)"
  "inside ted_quiet (RejectAdminBankingTedUseCase_execute E i c m)"
  by (auto simp: CreateAdminBankingTedUseCase_execute_def HandlePendingAdminBankingTedEventUseCase_execute_def
      HandlePendingFailedAdminBankingTedEventUseCase_execute_def ConfirmAdminBankingTedUseCase_execute_def
      ForwardAdminBankingTedUseCase_execute_def RejectAdminBankingTedUseCase_execute_def intro!: frame)

lemma ted_quiet_issueAll [frame]: "(\<And>x. inside ted_quiet (f x)) \<Longrightarrow> inside ted_quiet (issueAll f xs)"
  by (induction xs) (auto intro!: frame)

text \<open>A promised write of another table.\<close>

definition elsewhere :: "(ted_db \<Rightarrow> ted_exn + ted_db) \<Rightarrow> bool" where
  "elsewhere f \<longleftrightarrow> (\<forall>d d'. f d = Inr d' \<longrightarrow> teds d' = teds d \<and> tedFailures d' = tedFailures d)"

lemma ted_quiet_promisedThen [frame]: "elsewhere f \<Longrightarrow> inside ted_quiet (promisedThen E f e)"
proof -
  assume f: "elsewhere f"
  have "inside ted_quiet (promised f)"
    using f by (auto simp: elsewhere_def promised_def inside_def ted_quiet_def bindS_def tedR_def readS_def
        tedM_def modifyS_def returnS_def split: sum.splits)
  then show ?thesis unfolding promisedThen_def by (intro frame)
qed

lemma ted_quiet_awaitAll [frame]: "inside ted_quiet (awaitAll rs)"
  by (auto simp: awaitAll_def intro!: frame)

lemma other_tables_banks [simp]:
  "elsewhere (bank_create c listedBanks listedBanks_update b)"
  "elsewhere (bank_create c bankTeds bankTeds_update b)"
  "elsewhere (\<lambda>d. Inr (bank_delete listedBanks_update n b d))"
  "elsewhere (\<lambda>d. Inr (bank_delete bankTeds_update n b d))"
  "elsewhere (\<lambda>d. Inr (bank_update listedBanks_update b d))"
  "elsewhere (\<lambda>d. Inr (bank_update bankTeds_update b d))"
  "elsewhere (CityRepository_create x)"
  "elsewhere (\<lambda>d. Inr (CityRepository_delete x d))"
  "elsewhere (\<lambda>d. Inr (CityRepository_update x d))"
  by (auto simp: elsewhere_def bank_create_def bank_delete_def bank_update_def
      CityRepository_create_def CityRepository_delete_def CityRepository_update_def)

lemma ted_quiet_bank_update: "inside ted_quiet (tedM (bank_update listedBanks_update b))"
  by (simp add: bank_update_def frame)

lemma ted_quiet_lists:
  "inside ted_quiet (SyncBankUseCase_execute E bs)"
  "inside ted_quiet (SyncBankTedUseCase_execute E bs)"
  "inside ted_quiet (SyncCityUseCase_execute E cs)"
  "inside ted_quiet (UpdateBankActiveUseCase_execute E i a)"
  by (auto simp: SyncBankUseCase_execute_def SyncBankTedUseCase_execute_def SyncCityUseCase_execute_def
      syncBanks_def UpdateBankActiveUseCase_execute_def Let_def
      intro!: frame ted_quiet_bank_update)

section \<open>Use cases\<close>

named_theorems ted_reads \<open>when a step that only reads returns\<close>

lemma ted_read_results [ted_reads]:
  "tedR f s = (Inr x, s1) \<longleftrightarrow> f (tw_db s) = Inr x \<and> s1 = s"
  "askT q s = (Inr x, s1) \<longleftrightarrow> q = Inr x \<and> s1 = s"
  "askOperations g s = (Inr y, s1) \<longleftrightarrow> g (tw_ledger s) = Inr y \<and> s1 = s"
  "needT names s = (Inr u, s1) \<longleftrightarrow> names = [] \<and> s1 = s"
  "throwWhen c e s = (Inr u, s1) \<longleftrightarrow> \<not> c \<and> s1 = s"
  by (auto simp: tedR_def askT_def askOperations_def needT_def throwWhen_def operations_error_def result_simps
      split: sum.splits)

lemma ted_found_results [ted_reads]:
  "foundT r e s = (Inr x, s1) \<longleftrightarrow> r = Inr (Some x) \<and> s1 = s"
  "foundAt h e s = (Inr y, s1) \<longleftrightarrow> h (tw_ledger s) = Inr (Some y) \<and> s1 = s"
  "findT f e s = (Inr z, s1) \<longleftrightarrow> f (tw_db s) = Some z \<and> s1 = s"
  by (auto simp: foundT_def foundAt_def findT_def orThrow_def result_simps ted_read_results split: option.splits)

lemma ted_bind:
  assumes "inside ted_quiet m"
    and "\<And>x s1. m s = (Inr x, s1) \<Longrightarrow> insideAt (ted_moves ok view) (f x) s1"
  shows "insideAt (ted_moves ok view) (bindS m f) s"
  by (rule tm.insideAt_bindS [OF inside_at [OF inside_ted_quiet [OF assms(1)]] assms(2)])

named_theorems ted_walk \<open>walking through a use case\<close>

lemma ted_walk_reads [ted_walk]:
  "(\<And>x. f (tw_db s) = Inr x \<Longrightarrow> insideAt (ted_moves ok view) (k1 x) s)
     \<Longrightarrow> insideAt (ted_moves ok view) (bindS (tedR f) k1) s"
  "(\<And>x. q = Inr x \<Longrightarrow> insideAt (ted_moves ok view) (k2 x) s)
     \<Longrightarrow> insideAt (ted_moves ok view) (bindS (askT q) k2) s"
  "(\<And>x. insideAt (ted_moves ok view) (k3 x) s)
     \<Longrightarrow> insideAt (ted_moves ok view) (bindS (askOperations g) k3) s"
  "(names = [] \<Longrightarrow> insideAt (ted_moves ok view) (k4 ()) s)
     \<Longrightarrow> insideAt (ted_moves ok view) (bindS (needT names) k4) s"
  "(\<not> c \<Longrightarrow> insideAt (ted_moves ok view) (k5 ()) s)
     \<Longrightarrow> insideAt (ted_moves ok view) (bindS (throwWhen c e) k5) s"
  by (auto intro!: ted_bind frame simp: ted_reads)

lemma ted_walk_finds [ted_walk]:
  "(\<And>x. r = Inr (Some x) \<Longrightarrow> insideAt (ted_moves ok view) (k1 x) s)
     \<Longrightarrow> insideAt (ted_moves ok view) (bindS (foundT r e) k1) s"
  "(\<And>x. insideAt (ted_moves ok view) (k2 x) s)
     \<Longrightarrow> insideAt (ted_moves ok view) (bindS (foundAt h e) k2) s"
  "(\<And>x. f (tw_db s) = Some x \<Longrightarrow> insideAt (ted_moves ok view) (k3 x) s)
     \<Longrightarrow> insideAt (ted_moves ok view) (bindS (findT f e) k3) s"
  by (auto intro!: ted_bind frame simp: ted_reads)

lemma ted_walk_quiet [ted_walk]:
  "(\<And>s1. ted_quiet s s1 \<Longrightarrow> insideAt (ted_moves ok view) (k1 ()) s1)
     \<Longrightarrow> insideAt (ted_moves ok view) (bindS (callPsp E c) k1) s"
  "(\<And>s1. ted_quiet s s1 \<Longrightarrow> insideAt (ted_moves ok view) (k2 ()) s1)
     \<Longrightarrow> insideAt (ted_moves ok view) (bindS (emitTed E e) k2) s"
  "(\<And>s1. ted_quiet s s1 \<Longrightarrow> insideAt (ted_moves ok view) (k3 ()) s1)
     \<Longrightarrow> insideAt (ted_moves ok view) (bindS (createBankingContact E u t n) k3) s"
  "(\<And>r' s1. ted_quiet s s1 \<Longrightarrow> insideAt (ted_moves ok view) (k4 r') s1)
     \<Longrightarrow> insideAt (ted_moves ok view) (bindS (BankingTedReceivedRepository_create r) k4) s"
  by (auto intro!: ted_bind frame dest: inside_use [OF ted_quiet_callPsp] inside_use [OF ted_quiet_emitTed]
      inside_use [OF ted_quiet_contacts(1)] inside_use [OF ted_quiet_repositories(1)])

lemma ted_at_sound:
  "(ted_sound ok view s \<Longrightarrow> insideAt (ted_moves ok view) f s) \<Longrightarrow> insideAt (ted_moves ok view) f s"
  unfolding insideAt_def by (auto simp: ted_moves_def)

lemma ted_found_row:
  "BankingTedRepository_getById i d = Some t \<Longrightarrow> t \<in> set (teds d) \<and> bt_id t = i"
  "BankingTedRepository_getByTransactionId j d = Some t \<Longrightarrow> t \<in> set (teds d)"
  by (auto simp: BankingTedRepository_getById_def BankingTedRepository_getByTransactionId_def tbl_find_def
      find_Some_iff)

text \<open>A transfer that was paid and not written yet.\<close>

definition ready :: "('l \<Rightarrow> bool) \<Rightarrow> ('l \<Rightarrow> order_view) \<Rightarrow> banking_ted \<Rightarrow> 'l ted_world \<Rightarrow> bool" where
  "ready ok view t s \<longleftrightarrow> t \<in> set (teds (tw_db s)) \<and> (ted_sound ok view s \<longrightarrow> paid (view (tw_ledger s)) t)"

lemma ready_quiet: "ready ok view t s \<Longrightarrow> ted_quiet s s1 \<Longrightarrow> ready ok view t s1"
  by (auto simp: ready_def ted_quiet_def ted_sound_def)

lemma ready_sent: "t \<in> set (teds (tw_db s)) \<Longrightarrow> sent t \<Longrightarrow> ready ok view t s"
  by (auto simp: ready_def ted_sound_def ted_inv_def)

lemma ted_store:
  assumes "t \<in> set (teds (tw_db s))" and "bt_state t \<noteq> TED_FAILED" and "ted_follows t t'"
    and "sent t' \<Longrightarrow> ready ok view t s"
  shows "insideAt (ted_moves ok view) (BankingTedRepository_update t') s"
  unfolding insideAt_def BankingTedRepository_update_def tedM_def modifyS_def ted_moves_def
proof (simp, intro impI)
  assume s: "ted_sound ok view s"
  then have inv: "ted_inv (view (tw_ledger s)) (teds (tw_db s)) (tedFailures (tw_db s))"
    by (simp add: ted_sound_def)
  with assms s have "ted_inv (view (tw_ledger s)) (tbl_update bt_id t' (teds (tw_db s))) (tedFailures (tw_db s))"
    by (intro ted_inv_update) (auto simp: ready_def)
  moreover from inv have "tbl_wf bt_id (teds (tw_db s))" by (simp add: ted_inv_def)
  ultimately show "ted_sound ok view (s\<lparr>tw_db := (tw_db s)\<lparr>teds := tbl_update bt_id t' (teds (tw_db s))\<rparr>\<rparr>)
    \<and> teds_follow (tw_db s) ((tw_db s)\<lparr>teds := tbl_update bt_id t' (teds (tw_db s))\<rparr>)"
    using s assms(1,3) by (simp add: ted_sound_def teds_follow_update)
qed

lemma ted_moves_ledger:
  assumes "ok (tw_ledger s) \<Longrightarrow> ok l \<and> orders_evolve (view (tw_ledger s)) (view l)"
  shows "ted_moves ok view s (s\<lparr>tw_ledger := l\<rparr>)"
  using assms by (auto simp: ted_moves_def ted_sound_def intro: ted_inv_evolve)

lemma snd_atOperations: "snd (atOperations f s) = s\<lparr>tw_ledger := snd (f (tw_ledger s))\<rparr>"
  by (simp add: atOperations_def Let_def split: prod.split)

lemma atOperations_Inr:
  "atOperations f s = (Inr x, s1) \<longleftrightarrow> (\<exists>l. f (tw_ledger s) = (Inr x, l) \<and> s1 = s\<lparr>tw_ledger := l\<rparr>)"
  by (auto simp: atOperations_def Let_def operations_error_def split: prod.splits sum.splits)

lemma ted_create:
  assumes "BankingTedRepository_getByOperation (bt_operation t) (tw_db s) = None"
    and "bt_state t = TED_PENDING" "0 < bt_amount t"
  shows "insideAt (ted_moves ok view) (BankingTedRepository_create now t) s"
proof -
  let ?t = "t\<lparr>bt_id := serial bt_id (teds (tw_db s)), bt_createdAt := now\<rparr>"
  have s1: "snd (BankingTedRepository_create now t s)
      = s\<lparr>tw_db := (tw_db s)\<lparr>teds := tbl_insert ?t (teds (tw_db s))\<rparr>\<rparr>"
    by (simp add: BankingTedRepository_create_def bindS_def tedR_def readS_def tedM_def modifyS_def returnS_def)
  have "bt_id ?t \<notin> bt_id ` set (teds (tw_db s))"
    using serial_fresh [of _ "teds (tw_db s)" bt_id] by fastforce
  moreover from assms(1) have "bt_operation ?t \<notin> bt_operation ` set (teds (tw_db s))"
    by (auto simp: BankingTedRepository_getByOperation_def find_None_iff)
  ultimately have "ted_sound ok view s \<Longrightarrow> ted_sound ok view (snd (BankingTedRepository_create now t s))"
    using assms(2,3) by (auto simp: ted_sound_def s1 intro: ted_inv_insert)
  moreover have "teds_follow (tw_db s) ((tw_db s)\<lparr>teds := tbl_insert ?t (teds (tw_db s))\<rparr>)"
    unfolding teds_follow_def by (auto simp: tbl_insert_def intro: ted_follows_refl bexI)
  ultimately show ?thesis by (simp add: insideAt_def ted_moves_def s1)
qed

lemma ted_create_usecase: "inside (ted_moves ok view) (CreateBankingTedController_execute E r)"
proof (cases "CreateBankingTedRequest (te_validators E) r = []")
  case True
  then have "0 < to_amount r" by (simp add: CreateBankingTedRequest_def missing_def split: if_splits)
  then have "inside (ted_moves ok view) (CreateBankingTedUseCase_execute E r)"
    unfolding CreateBankingTedUseCase_execute_def
    by (intro insideI)
      (auto intro!: ted_walk tm.insideAt_bindS [OF ted_create] simp: new_ted_def
        recipient.defs split: option.split)
  with True show ?thesis by (simp add: CreateBankingTedController_execute_def Let_def)
qed (simp add: CreateBankingTedController_execute_def Let_def tm.inside_basic)

lemma ted_confirm_usecase: "inside (ted_moves ok view) (ConfirmBankingTedUseCase_execute E p)"
  unfolding ConfirmBankingTedUseCase_execute_def Let_def
  by (intro insideI ted_walk tm.insideAt_if tm.insideAt_returnS tm.insideAt_bindS [OF ted_store] ready_sent)
    (auto dest: ted_found_row simp: ted_follows_def sent_def recipient.defs)

lemma ted_forward_usecase: "inside (ted_moves ok view) (ForwardBankingTedUseCase_execute E i)"
  unfolding ForwardBankingTedUseCase_execute_def Let_def
  by (intro insideI ted_walk tm.insideAt_if tm.insideAt_returnS tm.insideAt_bindS [OF ted_store] ready_sent)
    (auto dest: ted_found_row simp: ted_follows_def sent_def recipient.defs)

text \<open>The new state and the record of the failure belong together.\<close>

lemma returnS_bind: "bindS (returnS x) f = f x"
  by (simp add: bindS_def returnS_def fun_eq_iff)

lemma ted_give_back:
  assumes t: "t \<in> set (teds (tw_db s))" "sent t" and f: "fl_ted f = bt_id t"
    and op: "view (tw_ledger s) (fl_operation f) = Some (ACCEPTED, None, bt_amount t)"
    and new: "fl_operation f \<notin> fl_operation ` set (tedFailures (tw_db s))"
    and k: "\<And>s1. insideAt (ted_moves ok view) (k ()) s1"
  shows "insideAt (ted_moves ok view)
    (bindS (BankingTedRepository_update (t\<lparr>bt_state := TED_FAILED, bt_failedAt := Some n\<rparr>)) (\<lambda>_.
     bindS (BankingTedFailureRepository_create f) k)) s"
proof -
  let ?t = "t\<lparr>bt_state := TED_FAILED, bt_failedAt := Some n\<rparr>"
  let ?f = "f\<lparr>fl_id := serial fl_id (tedFailures (tw_db s))\<rparr>"
  let ?d = "(tw_db s)\<lparr>teds := tbl_update bt_id ?t (teds (tw_db s)), tedFailures := tbl_insert ?f (tedFailures (tw_db s))\<rparr>"
  have follows: "ted_follows t ?t"
    using t(2) by (auto simp: ted_follows_def sent_def recipient.defs)
  have "ted_sound ok view (s\<lparr>tw_db := ?d\<rparr>) \<and> teds_follow (tw_db s) ?d" if s: "ted_sound ok view s"
  proof -
    from s have inv: "ted_inv (view (tw_ledger s)) (teds (tw_db s)) (tedFailures (tw_db s))"
      by (simp add: ted_sound_def)
    then have wf: "tbl_wf bt_id (teds (tw_db s))" by (simp add: ted_inv_def)
    from inv t have p: "paid (view (tw_ledger s)) t" by (auto simp: ted_inv_def)
    have u: "ted_inv (view (tw_ledger s)) (tbl_update bt_id ?t (teds (tw_db s))) (tedFailures (tw_db s))"
      using ted_inv_update [OF inv t(1) _ follows] t(2) p by (auto simp: sent_def)
    have g: "given_back (view (tw_ledger s)) (tbl_update bt_id ?t (teds (tw_db s))) ?f"
      using set_teds_update [OF wf t(1), of ?t] p op f by (auto simp: given_back_def paid_def)
    have fresh: "fl_ted ?f \<notin> fl_ted ` set (tedFailures (tw_db s))"
    proof
      assume "fl_ted ?f \<in> fl_ted ` set (tedFailures (tw_db s))"
      with inv f obtain x where x: "x \<in> set (teds (tw_db s))" "bt_id x = bt_id t" "bt_state x = TED_FAILED"
        unfolding ted_inv_def given_back_def by force
      with wf t(1) have "x = t"
        using inj_onD [of bt_id "set (teds (tw_db s))" x t] by (simp add: tbl_wf_def distinct_map)
      with x(3) t(2) show False by (simp add: sent_def)
    qed
    have "ted_inv (view (tw_ledger s)) (teds ?d) (tedFailures ?d)"
      using ted_inv_failure [OF u g fresh] new by simp
    moreover have "teds_follow (tw_db s) ?d"
      using teds_follow_update [OF wf t(1) follows] by (auto simp: teds_follow_def tbl_insert_def)
    ultimately show ?thesis using s by (simp add: ted_sound_def)
  qed
  then have "ted_moves ok view s (s\<lparr>tw_db := ?d\<rparr>)" by (simp add: ted_moves_def)
  moreover have "bindS (BankingTedRepository_update ?t) (\<lambda>_. bindS (BankingTedFailureRepository_create f) k) s
      = k () (s\<lparr>tw_db := ?d\<rparr>)"
    by (simp add: BankingTedRepository_update_def BankingTedFailureRepository_create_def tedM_def bindS_def modifyS_def)
  ultimately show ?thesis
    using tm.trans k [of "s\<lparr>tw_db := ?d\<rparr>"] by (simp add: insideAt_def)
qed

context payment_ledger
begin

lemma ted_ledger_moves:
  "insideAt (ted_moves ok view) (atOperations (os_createAndAcceptOperation ops tag rq a b)) s"
  "insideAt (ted_moves ok view) (atOperations (os_revertOperation ops i)) s"
  unfolding insideAt_def snd_atOperations
  by (intro ted_moves_ledger; metis create_accept revert prod.collapse)+

lemma ted_pay:
  assumes t: "t \<in> set (teds (tw_db s))" and rq: "or_id rq = bt_operation t" "or_rawValue rq = bt_amount t"
    and k: "\<And>s1. ready ok view t s1 \<Longrightarrow> insideAt (ted_moves ok view) (k ()) s1"
  shows "insideAt (ted_moves ok view)
    (bindS (atOperations (os_createAndAcceptOperation ops tag rq (Some u) b)) k) s"
proof (rule ted_at_sound, rule tm.insideAt_bindS [OF ted_ledger_moves(1)])
  fix x s1 assume s: "ted_sound ok view s"
    and "atOperations (os_createAndAcceptOperation ops tag rq (Some u) b) s = (Inr x, s1)"
  then obtain l where l: "os_createAndAcceptOperation ops tag rq (Some u) b (tw_ledger s) = (Inr x, l)"
      "s1 = s\<lparr>tw_ledger := l\<rparr>" by (auto simp: atOperations_Inr)
  from s have "ok (tw_ledger s)" by (simp add: ted_sound_def)
  from create_accept [OF this l(1)] rq have "paid (view l) t" by (simp add: paid_def)
  with t l(2) have "ready ok view t s1" by (simp add: ready_def)
  from k [OF this] show "insideAt (ted_moves ok view) (k x) s1" by simp
qed

lemma ted_send_psp:
  assumes "te_operations E = ops" and "t \<in> set (teds (tw_db s))" "bt_state t = TED_PENDING"
  shows "insideAt (ted_moves ok view) (sendBankingTedPSP E u a t) s"
  unfolding sendBankingTedPSP_def createAndAcceptOperation_def Let_def assms(1)
  using assms(2,3)
  by (intro ted_walk ted_pay tm.insideAt_returnS tm.insideAt_bindS [OF ted_store])
    (auto simp: ted_quiet_def ready_def ted_operation_request_def ted_follows_def recipient.defs)

lemma ted_send_p2p:
  assumes "te_operations E = ops" and "t \<in> set (teds (tw_db s))" "bt_state t = TED_PENDING"
  shows "insideAt (ted_moves ok view) (sendBankingTedP2P E u a ow w n t) s"
  unfolding sendBankingTedP2P_def createAndAcceptOperation_def Let_def assms(1)
  using assms(2,3)
  by (intro ted_walk ted_pay tm.insideAt_returnS tm.insideAt_bindS [OF ted_store])
    (auto simp: ted_quiet_def ted_sound_def ready_def ted_operation_request_def ted_follows_def recipient.defs)

lemma ted_pending_usecase:
  assumes "te_operations E = ops"
  shows "inside (ted_moves ok view) (HandlePendingBankingTedEventUseCase_execute E i u)"
  unfolding HandlePendingBankingTedEventUseCase_execute_def Let_def
  by (intro insideI ted_walk tm.insideAt_if tm.insideAt_returnS ted_send_psp ted_send_p2p)
    (auto dest: ted_found_row simp: assms)

lemma ted_dead_letter_usecase:
  assumes "te_operations E = ops"
  shows "inside (ted_moves ok view) (HandlePendingFailedBankingTedEventUseCase_execute E i)"
proof -
  have "insideAt (ted_moves ok view) (bindS (whenS c (atOperations (os_revertOperation ops j))) k) s"
    if "\<And>s1. tw_db s1 = tw_db s \<Longrightarrow> insideAt (ted_moves ok view) (k ()) s1"
    for c j and k :: "unit \<Rightarrow> ('l, banking_ted) ted_step" and s
    using that ted_ledger_moves(2) [of j s] unfolding whenS_def
    by (auto intro!: tm.insideAt_bindS simp: atOperations_Inr result_simps)
  note rv = this
  show ?thesis
    unfolding HandlePendingFailedBankingTedEventUseCase_execute_def Let_def assms
    by (intro rv insideI ted_walk tm.insideAt_if tm.insideAt_returnS tm.insideAt_bindS [OF ted_store])
      (auto dest: ted_found_row simp: ted_follows_def sent_def recipient.defs)
qed

lemma ted_reversal:
  assumes "te_operations E = ops" and t: "t \<in> set (teds (tw_db s))" "sent t"
    and f: "\<And>r. fl_operation (f r) = r" "\<And>r. fl_ted (f r) = bt_id t"
    and k: "\<And>s1. insideAt (ted_moves ok view) (k ()) s1"
  shows "insideAt (ted_moves ok view)
    (bindS (createAndAcceptReversalOperation E t) (\<lambda>r.
     bindS (BankingTedRepository_update (t\<lparr>bt_state := TED_FAILED, bt_failedAt := Some n\<rparr>)) (\<lambda>_.
     bindS (BankingTedFailureRepository_create (f r)) k))) s"
proof -
  have "insideAt (ted_moves ok view)
    (bindS (atOperations (os_createAndAcceptOperation ops tag (ted_operation_request E (te_uuid E) t d) None b)) (\<lambda>_.
     bindS (BankingTedRepository_update (t\<lparr>bt_state := TED_FAILED, bt_failedAt := Some n\<rparr>)) (\<lambda>_.
     bindS (BankingTedFailureRepository_create (f (te_uuid E))) k))) s" for tag d b
  proof (rule ted_at_sound, rule tm.insideAt_bindS [OF ted_ledger_moves(1)])
    fix x s1 assume s: "ted_sound ok view s"
      and "atOperations (os_createAndAcceptOperation ops tag (ted_operation_request E (te_uuid E) t d) None b) s
        = (Inr x, s1)"
    then obtain l where l: "os_createAndAcceptOperation ops tag (ted_operation_request E (te_uuid E) t d) None b
        (tw_ledger s) = (Inr x, l)" "s1 = s\<lparr>tw_ledger := l\<rparr>" by (auto simp: atOperations_Inr)
    from s have inv: "ted_inv (view (tw_ledger s)) (teds (tw_db s)) (tedFailures (tw_db s))" "ok (tw_ledger s)"
      by (simp_all add: ted_sound_def)
    from create_accept [OF inv(2) l(1)] have v: "view (tw_ledger s) (te_uuid E) = None"
        "view l (te_uuid E) = Some (ACCEPTED, None, bt_amount t)"
      by (simp_all add: ted_operation_request_def)
    from inv(1) v(1) have new: "te_uuid E \<notin> fl_operation ` set (tedFailures (tw_db s))"
      unfolding ted_inv_def given_back_def by fastforce
    show "insideAt (ted_moves ok view)
      (bindS (BankingTedRepository_update (t\<lparr>bt_state := TED_FAILED, bt_failedAt := Some n\<rparr>)) (\<lambda>_.
       bindS (BankingTedFailureRepository_create (f (te_uuid E))) k)) s1"
      by (rule ted_give_back) (use f t k l(2) v(2) new in simp_all)
  qed
  then show ?thesis
    unfolding createAndAcceptReversalOperation_def createAndAcceptOperation_def bindS_assoc assms(1) returnS_bind
    by (intro ted_walk)
qed

lemma ted_reject_usecase:
  assumes "te_operations E = ops"
  shows "inside (ted_moves ok view) (RejectBankingTedUseCase_execute E i c m)"
  unfolding RejectBankingTedUseCase_execute_def Let_def
  by (intro insideI ted_walk tm.insideAt_if tm.insideAt_returnS ted_reversal)
    (auto dest: ted_found_row simp: assms sent_def)

lemma ted_request_moves:
  assumes "banking_request ops others w w'"
  shows "ted_moves ok view w w'"
  using assms
proof cases
  case (ted_create E r)
  then show ?thesis by (simp add: ted_moves_served ted_create_usecase)
next
  case (ted_pending E i u)
  then show ?thesis by (simp add: ted_moves_observed ted_pending_usecase)
next
  case (ted_dead_letter E i)
  then show ?thesis by (simp add: ted_moves_observed ted_dead_letter_usecase)
next
  case (ted_confirm E p)
  have "inside (ted_moves ok view) (ConfirmTedController_execute E p)"
    unfolding ConfirmTedController_execute_def Let_def tedR_def needT_def
    by (intro tm.inside_bindS tm.inside_basic tm.inside_option ted_confirm_usecase
        inside_ted_quiet [OF ted_quiet_admin(4)])
  with ted_confirm show ?thesis by (simp add: ted_moves_served)
next
  case (ted_forward E i)
  then show ?thesis by (simp add: ted_moves_served ted_forward_usecase)
next
  case (ted_reject E i c m)
  then show ?thesis by (simp add: ted_moves_served ted_reject_usecase)
next
  case (back_office as)
  then show ?thesis by (simp add: ted_moves_same)
next
  case (other_ledger l)
  with other [of "tw_ledger w" l] show ?thesis by (simp add: ted_moves_ledger)
qed (simp_all add: ted_moves_served ted_moves_observed ted_moves_cron inside_ted_quiet ted_quiet_admin
    ted_quiet_lists ted_quiet_contacts)

lemma ted_requests_move: "(banking_request ops others)\<^sup>*\<^sup>* w w' \<Longrightarrow> ted_moves ok view w w'"
  by (induction rule: rtranclp_induct) (auto intro: tm.trans ted_request_moves)

end

end
