(* ===== verification/Operations_Service.thy ===== *)
theory Operations_Service
  imports Operation_Safety Pix_Block_Ledger Banking_Ledger
begin

text \<open>
  The operations service as the payments use it: the client of apps/pix-payments/src/infrastructure/
  nest/services/operation.service.ts on one side, the use cases of apps/operations on the other. It
  meets the contract of the locale \<open>payment_ledger\<close>, so the life cycle of the payments holds for the
  two services together.
\<close>

section \<open>More use cases of the operations service\<close>

text \<open>
  \<open>SetOperationReferenceByIdUseCase\<close>: both operations are read before either is written.
\<close>

definition SetOperationReferenceByIdUseCase_execute ::
    "string \<Rightarrow> string \<Rightarrow> db \<Rightarrow> ((operation \<times> operation) \<times> db) uc" where
  "SetOperationReferenceByIdUseCase_execute i j d =
    (if i = [] \<or> j = []
     then Inl (MissingDataException (missing (i = []) ''Operation ID First''
            @ missing (j = []) ''Operation ID Second''))
     else
       bindR (orThrow (OperationRepository_getById i d) (OperationNotFoundException i)) (\<lambda>p.
       bindR (orThrow (OperationRepository_getById j d) (OperationNotFoundException j)) (\<lambda>q.
       let p' = p\<lparr>operationRef := Some (op_id q)\<rparr>; q' = q\<lparr>operationRef := Some (op_id p)\<rparr>
       in Inr ((p', q'), OperationRepository_update q' (OperationRepository_update p' d)))))"

definition GetOperationByIdUseCase_execute :: "string \<Rightarrow> db \<Rightarrow> operation option uc" where
  "GetOperationByIdUseCase_execute i d =
    (if i = [] then Inl (MissingDataException [''ID'']) else Inr (OperationRepository_getById i d))"

text \<open>
  The columns \<open>accountNumber\<close> and \<open>branchNumber\<close> of an account are functions of its identifier.
\<close>

definition WalletAccountRepository_getByAccountNumberAndCurrency ::
    "(nat \<Rightarrow> string) \<Rightarrow> string \<Rightarrow> currency \<Rightarrow> db \<Rightarrow> (wallet \<times> wallet_account) option" where
  "WalletAccountRepository_getByAccountNumberAndCurrency number n c d =
    (case find (\<lambda>a. wa_currency a = cur_id c \<and> number (wa_id a) = n
            \<and> WalletRepository_getByUuid (wa_wallet a) d \<noteq> None) (walletAccounts d) of
       None \<Rightarrow> None
     | Some a \<Rightarrow> map_option (\<lambda>x. (x, a)) (WalletRepository_getByUuid (wa_wallet a) d))"

definition GetWalletAccountByAccountNumberAndCurrencyUseCase_execute ::
    "(nat \<Rightarrow> string) \<Rightarrow> string \<Rightarrow> string \<Rightarrow> db \<Rightarrow> (wallet \<times> wallet_account) option uc" where
  "GetWalletAccountByAccountNumberAndCurrencyUseCase_execute number n tag d =
    (if n = [] \<or> tag = []
     then Inl (MissingDataException (missing (n = []) ''Account Number''
            @ missing (tag = []) ''Currency''))
     else
       bindR (orThrow (CurrencyRepository_getByTag tag d) (CurrencyNotFoundException tag)) (\<lambda>c.
       Inr (WalletAccountRepository_getByAccountNumberAndCurrency number n c d)))"

definition GetWalletAccountByWalletAndCurrencyUseCase_execute ::
    "string \<Rightarrow> string \<Rightarrow> db \<Rightarrow> wallet_account option uc" where
  "GetWalletAccountByWalletAndCurrencyUseCase_execute u tag d =
    (if u = [] \<or> tag = []
     then Inl (MissingDataException (missing (u = []) ''Wallet'' @ missing (tag = []) ''Currency''))
     else
       bindR (orThrow (CurrencyRepository_getByTag tag d) (CurrencyNotFoundException tag)) (\<lambda>c.
       Inr (find (\<lambda>a. wa_currency a = cur_id c \<and> wa_wallet a = u) (walletAccounts d))))"

section \<open>The service behind its client\<close>

text \<open>
  Requests arrive over Kafka, each at its own instant (\<open>le_moment\<close>) and with fresh identifiers for
  the rows it may create (\<open>le_ids\<close>); the service is a world and the number of requests served.
\<close>

record ledger_env =
  le_config :: config
  le_moment :: "nat \<Rightarrow> moment"
  le_ids :: "nat \<Rightarrow> (string \<times> string) \<times> (string \<times> string)"
  le_accountNumber :: "nat \<Rightarrow> string"
  le_branchNumber :: "nat \<Rightarrow> string"

record ledger_service =
  ls_world :: world
  ls_count :: nat

definition atLedger ::
    "('a \<Rightarrow> 'b) \<Rightarrow> (nat \<Rightarrow> 'a create_step) \<Rightarrow> ledger_service \<Rightarrow> (pay_exn + 'b) \<times> ledger_service" where
  "atLedger answer f l =
    (case transactional (f (ls_count l)) ((ls_world l)\<lparr>the_fields := init_fields\<rparr>) of
       (Inl e, w) \<Rightarrow> (Inl (PayServiceError ''operations''), \<lparr> ls_world = w, ls_count = Suc (ls_count l) \<rparr>)
     | (Inr x, w) \<Rightarrow> (Inr (answer x), \<lparr> ls_world = w, ls_count = Suc (ls_count l) \<rparr>))"

definition askLedger :: "(db \<Rightarrow> 'a uc) \<Rightarrow> ledger_service \<Rightarrow> pay_exn + 'a" where
  "askLedger f l = (case f (the_db (ls_world l)) of
     Inl e \<Rightarrow> Inl (PayServiceError ''operations'') | Inr x \<Rightarrow> Inr x)"

definition participant_of :: "operation_request \<Rightarrow> string \<Rightarrow> participant" where
  "participant_of rq u = \<lparr> p_operation = or_id rq, p_wallet = u, p_currency = or_currencyTag rq,
     p_rawValue = or_rawValue rq, p_fee = Some 0, p_description = or_description rq,
     p_ownerAllowAvailableRawValue = False, p_ownerRequestedRawValue = None,
     p_ownerRequestedFee = None \<rparr>"

definition blocking_participant :: "operation_request \<Rightarrow> string \<Rightarrow> participant" where
  "blocking_participant rq u = (participant_of rq u)\<lparr>p_ownerAllowAvailableRawValue := True\<rparr>"

text \<open>The answer to a creation: the operation of the owner.\<close>

definition owner_answer :: "created_operation \<Rightarrow> (string \<times> int) option" where
  "owner_answer r = map_option (\<lambda>p. (op_id p, op_value p)) (ownerOperation r)"

text \<open>The answer about an account; the one by wallet does not tell the user.\<close>

definition account_info_of :: "ledger_env \<Rightarrow> string \<Rightarrow> wallet_account \<Rightarrow> account_info" where
  "account_info_of e u a = \<lparr> ai_id = wa_id a, ai_wallet = wa_wallet a, ai_user = u,
     ai_active = wallet_account_isActive a, ai_accountNumber = le_accountNumber e (wa_id a),
     ai_branchNumber = le_branchNumber e (wa_id a) \<rparr>"

definition operationService :: "ledger_env \<Rightarrow> ledger_service operation_service" where
  "operationService e = \<lparr>
     os_createOperation = (\<lambda>tag rq u v. atLedger (\<lambda>_. ()) (\<lambda>n.
       CreateOperationUseCase_execute (le_moment e n) (le_config e) (le_ids e n) tag
         (map_option (participant_of rq) u) (map_option (participant_of rq) v))),
     os_createAndAcceptOperation = (\<lambda>tag rq u v. atLedger (\<lambda>_. ()) (\<lambda>n.
       CreateAndAcceptOperationController_execute (le_moment e n) (le_config e) (le_ids e n) tag
         (map_option (participant_of rq) u) (map_option (participant_of rq) v))),
     os_blockOperation = (\<lambda>tag rq u. atLedger owner_answer (\<lambda>n.
       CreateOperationUseCase_execute (le_moment e n) (le_config e) (le_ids e n) tag
         (Some (blocking_participant rq u)) None)),
     os_acceptOperation = (\<lambda>i. atLedger (\<lambda>_. ()) (\<lambda>_. dbS (AcceptOperationUseCase_execute i))),
     os_revertOperation = (\<lambda>i. atLedger (\<lambda>_. ()) (\<lambda>n. dbS (RevertOperationUseCase_execute (m_now (le_moment e n)) i))),
     os_setOperationReference = (\<lambda>i j. atLedger (\<lambda>_. ()) (\<lambda>_. dbS (SetOperationReferenceByIdUseCase_execute i j))),
     os_getOperationById = (\<lambda>i l. map_sum id (map_option (\<lambda>p. (op_state p, op_value p)))
       (askLedger (GetOperationByIdUseCase_execute i) l)),
     os_getWalletAccountByAccountNumber = (\<lambda>n tag l. map_sum id
       (map_option (\<lambda>(x, a). account_info_of e (user_uuid (w_user x)) a))
       (askLedger (GetWalletAccountByAccountNumberAndCurrencyUseCase_execute (le_accountNumber e) n tag) l)),
     os_getWalletAccountByWallet = (\<lambda>u tag l. map_sum id (map_option (account_info_of e []))
       (askLedger (GetWalletAccountByWalletAndCurrencyUseCase_execute u tag) l)) \<rparr>"

section \<open>Orders on the books\<close>

definition wallet_of :: "db \<Rightarrow> nat \<Rightarrow> string option" where
  "wallet_of d i = map_option wa_wallet (WalletAccountRepository_getById i d)"

definition operations_view :: "db \<Rightarrow> order_view" where
  "operations_view d i = map_option (\<lambda>ord. (status ord, Option.bind (debtor ord) (wallet_of d), amount ord))
     (orders (ledger_of d) i)"

lemma wallet_of_same: "same_ledger d d' \<Longrightarrow> wallet_of d' = wallet_of d"
  by (rule ext) (simp add: wallet_of_def same_ledger_reads)

lemma wallet_of_update:
  assumes "WalletAccountRepository_getById i d = Some a" and "wa_id a' = wa_id a" and "wa_wallet a' = wa_wallet a"
  shows "wallet_of (WalletAccountRepository_update a' d) = wallet_of d"
  using assms accounts.key_get [OF assms(1)]
  by (intro ext) (auto simp: wallet_of_def accounts.get_update)

lemma wallet_of_frames [simp]:
  "wallet_of (OperationRepository_update p d) = wallet_of d"
  "wallet_of (operation_insert p d) = wallet_of d"
  "wallet_of (WalletAccountTransactionRepository_create t d) = wallet_of d"
  by (rule ext; simp add: wallet_of_def)+

lemma wallet_of_open: "wallet_of (open_operation p d) = wallet_of d"
  by (auto simp: open_operation_def blockWalletAccountBalance_def wallet_of_update split: option.splits)

lemma wallet_of_steps:
  "debit_owner p d = Inr (x, d') \<Longrightarrow> wallet_of d' = wallet_of d"
  "credit_beneficiary p d = Inr (x, d') \<Longrightarrow> wallet_of d' = wallet_of d"
  "release_owner p d = Inr d' \<Longrightarrow> wallet_of d' = wallet_of d"
  by (auto simp: debit_owner_def credit_beneficiary_def release_owner_def Let_def result_simps
      wallet_of_update split: option.splits)

lemma books_wallets:
  assumes "books d d'"
  shows "wallet_of d' = wallet_of d"
  using assms
proof (cases rule: books.cases)
  case (books_accept i r)
  then show ?thesis by (elim accept_cases) (simp add: wallet_of_same wallet_of_steps)
next
  case (books_revert now i p)
  then show ?thesis
    by (cases rule: revert_cases) (simp_all add: wallet_of_same wallet_of_steps)
qed (simp_all add: wallet_of_same wallet_of_open)

text \<open>An order keeps its parties and its amount, and its status once it is settled.\<close>

lemma books_orders:
  assumes "books d d'" and "orders (ledger_of d) j = Some ord"
  shows "\<exists>ord'. orders (ledger_of d') j = Some ord' \<and> debtor ord' = debtor ord
    \<and> amount ord' = amount ord \<and> (status ord \<noteq> PENDING \<longrightarrow> status ord' = status ord)"
  using assms(1)
proof (cases rule: books.cases)
  case books_same
  then show ?thesis using assms(2) by (simp add: ledger_of_same del: ledger_of_sel)
next
  case (books_open p)
  from ledger_of_open [OF books_open(2,3)] assms(2) books_open(1,2) show ?thesis
    by (auto simp: hold_def simp del: ledger_of_sel) (auto)
next
  case (books_link p r)
  from ledger_of_link [OF books_link(2)] assms(2) books_link(1) show ?thesis
    by (simp del: ledger_of_sel)
next
  case (books_accept i r)
  from accept_ledger [OF books_accept] assms(2) show ?thesis
    by (auto simp: settle_def simp del: ledger_of_sel)
next
  case (books_revert now i p)
  from revert_ledger [OF books_revert] assms(2) show ?thesis
    by (auto simp: release_def simp del: ledger_of_sel)
qed

lemma orders_evolveI:
  assumes "wallet_of d' = wallet_of d"
    and "\<And>j ord. orders (ledger_of d) j = Some ord \<Longrightarrow>
      \<exists>ord'. orders (ledger_of d') j = Some ord' \<and> debtor ord' = debtor ord
        \<and> amount ord' = amount ord \<and> (status ord \<noteq> PENDING \<longrightarrow> status ord' = status ord)"
  shows "orders_evolve (operations_view d) (operations_view d')"
  unfolding orders_evolve_def
proof (intro allI impI)
  fix i s x assume "operations_view d i = Some (s, x)"
  then obtain ord where "orders (ledger_of d) i = Some ord" "s = status ord"
    "x = (Option.bind (debtor ord) (wallet_of d), amount ord)"
    by (auto simp: operations_view_def simp del: ledger_of_sel)
  with assms(2) [OF this(1)] show "\<exists>s'. operations_view d' i = Some (s', x) \<and> (s \<noteq> PENDING \<longrightarrow> s' = s)"
    by (auto simp: operations_view_def assms(1) simp del: ledger_of_sel)
qed

lemma books_evolve: "books d d' \<Longrightarrow> orders_evolve (operations_view d) (operations_view d')"
  by (intro orders_evolveI books_wallets books_orders)

lemma books_rtrancl_evolve: "books\<^sup>*\<^sup>* d d' \<Longrightarrow> orders_evolve (operations_view d) (operations_view d')"
  by (induction rule: rtranclp_induct) (auto intro: orders_evolve_trans books_evolve)

text \<open>Books that are kept in order.\<close>

definition books_sound :: "db \<Rightarrow> bool" where
  "books_sound d \<longleftrightarrow> keys_ok d \<and> entries_match d \<and> pending_matches d"

lemma books_rtrancl_sound:
  assumes "books\<^sup>*\<^sup>* d d'" and "books_sound d"
  shows "books_sound d'"
proof -
  from assms(2) have "keys_ok d" and "entries_match d \<and> pending_matches d"
    by (simp_all add: books_sound_def)
  with assms(1) have "entries_match d' \<and> pending_matches d'"
    by (rule books_invariant [where P = "\<lambda>d. entries_match d \<and> pending_matches d"])
      (auto intro: books_entries books_pending)
  with books_rtrancl_keys [OF assms(1) \<open>keys_ok d\<close>] show ?thesis by (simp add: books_sound_def)
qed

text \<open>A reference to another operation changes nothing on the books.\<close>

lemma reference_one:
  assumes p: "OperationRepository_getById i d = Some p" and q: "q = p\<lparr>operationRef := r\<rparr>"
    and d': "d' = OperationRepository_update q d" and sound: "books_sound d"
  shows "books_sound d'" and "orders_evolve (operations_view d) (operations_view d')"
    and "OperationRepository_getById j d' = (if j = i then Some q else OperationRepository_getById j d)"
proof -
  from ops.key_get [OF p] have id: "op_id p = i" by simp
  have led: "ledger_of d' = ledger_of d" using ledger_of_link [of p d r] p id by (simp add: d' q)
  show at: "OperationRepository_getById j d' = (if j = i then Some q else OperationRepository_getById j d)" for j
    using p id by (auto simp: d' q ops.get_update)
  have "operations_total (held_by k) d' = operations_total (held_by k) d" for k
    using sound p id by (auto simp: d' q books_sound_def keys_ok_def held_by_def isPending_def
        ops.total_update_neutral)
  moreover have "expected_entries (Some q) = expected_entries (Some p)"
    by (simp add: q expected_entries_def isAccepted_def split: option.splits)
  moreover have "entries_of_operation k d' = entries_of_operation k d" for k
    by (simp add: d' operation_entries)
  ultimately show "books_sound d'"
    using sound p by (auto simp: books_sound_def d' led [unfolded d'] pending_matches_def
        entries_match_def at [unfolded d'] simp del: ledger_of_sel)
  show "orders_evolve (operations_view d) (operations_view d')"
    by (rule orders_evolveI) (simp add: d', simp add: led del: ledger_of_sel)
qed

lemma reference_books:
  assumes "SetOperationReferenceByIdUseCase_execute i j d = Inr (r, d')" and "books_sound d"
  shows "books_sound d' \<and> orders_evolve (operations_view d) (operations_view d')"
proof -
  from assms(1) obtain p q where p: "OperationRepository_getById i d = Some p"
    and q: "OperationRepository_getById j d = Some q"
    and d': "d' = OperationRepository_update (q\<lparr>operationRef := Some (op_id p)\<rparr>)
      (OperationRepository_update (p\<lparr>operationRef := Some (op_id q)\<rparr>) d)"
    by (auto simp: SetOperationReferenceByIdUseCase_execute_def Let_def result_simps)
  let ?d1 = "OperationRepository_update (p\<lparr>operationRef := Some (op_id q)\<rparr>) d"
  note first = reference_one [where r = "Some (op_id q)", OF p refl refl assms(2)]
  obtain q1 where q1: "OperationRepository_getById j ?d1 = Some q1"
    using first(3) [of j] p q by fastforce
  with first(3) [of j] p q
  have "q\<lparr>operationRef := Some (op_id p)\<rparr> = q1\<lparr>operationRef := Some (op_id p)\<rparr>"
    by (auto split: if_splits)
  note q1 = q1 this
  from reference_one(1,2) [OF q1 refl first(1)] first(2) show ?thesis
    by (auto simp: d' intro: orders_evolve_trans)
qed

section \<open>Creating for a payment\<close>

lemma created_owner:
  assumes "create_by_participants m cfg tt oi ow bi bw w = (Inr r, w')"
  shows "ownerOperation r = None \<longleftrightarrow> ow = None"
  using assms
  by (auto simp: create_by_participants_def createIndependentOperations_def createSharedOperation_def
      createOwnerOperation_def createBeneficiaryOperation_def result_simps Let_def
      split: option.splits if_splits)

lemma funded_exactly:
  "funded tt d oi ow oi' \<Longrightarrow> (\<And>p. oi = Some p \<Longrightarrow> \<not> p_ownerAllowAvailableRawValue p) \<Longrightarrow> oi' = oi"
  by (auto simp: funded_def use_available_balance_def Let_def split: option.splits)

lemma new_operation_value:
  assumes "new_operation oi ow bi bw tt = Some p"
  shows "oi = Some q \<Longrightarrow> op_value p = fee_of q + p_rawValue q"
    and "oi = None \<Longrightarrow> bi = Some q \<Longrightarrow> op_value p = p_rawValue q - fee_of q"
  using assms by (auto simp: new_operation_def Let_def split: option.splits)

lemma participant_given:
  "map_option (participant_of rq) u = Some q \<Longrightarrow>
     p_operation q = or_id rq \<and> p_rawValue q = or_rawValue rq \<and> fee_of q = 0"
  "Some q = map_option (participant_of rq) u \<Longrightarrow>
     p_operation q = or_id rq \<and> p_rawValue q = or_rawValue rq \<and> fee_of q = 0"
  by (cases u; auto simp: participant_of_def)+

text \<open>The one operation that a request without a fee opens.\<close>

lemma created_for_request:
  assumes run: "CreateOperationUseCase_execute m cfg ids tag (map_option (participant_of rq) u)
      (map_option (participant_of rq) v) w = (Inr r, w')"
    and wf: "keys_ok (the_db w)"
  obtains p where "created_list r = [p]" and "op_id p = or_id rq" and "op_value p = or_rawValue rq"
    and "Option.bind (ownerWalletAccount p) (wallet_of (the_db w)) = u"
    and "isPending p" and "OperationRepository_getById (or_id rq) (the_db w) = None"
proof -
  let ?oi = "map_option (participant_of rq) u"
  let ?bi = "map_option (participant_of rq) v"
  from wf have wa: "walletAccounts_wf (the_db w)" by (simp add: keys_ok_def)
  from CreateOperationUseCase_effect [OF run wa] have op: "opened r (the_db w) (the_db w')" .
  from CreateOperationUseCase_run [OF run wa] obtain tt ow bw oi' w4 w5 where
      cur: "current_account ow (the_db w)" and none: "ow = None \<longleftrightarrow> ?oi = None"
    and fund: "funded tt (the_db w) ?oi ow oi'" and own: "own_account ?oi ow"
    and c: "create_by_participants m cfg tt oi' ow ?bi bw w4 = (Inr r, w5)" by metis
  have oi': "oi' = ?oi"
    using fund by (rule funded_exactly) (auto simp: participant_of_def)
  have fields: "op_id p = or_id rq \<and> op_value p = or_rawValue rq" if p: "p \<in> set (created_list r)" for p
  proof -
    from created_origin [OF c p] obtain oi2 ow2 bi2 bw2 p0 where
        p0: "new_operation oi2 ow2 bi2 bw2 tt = Some p0" "same_order p p0"
      and o2: "oi2 = oi' \<and> ow2 = ow \<or> oi2 = None \<and> ow2 = None"
      and b2: "bi2 = ?bi \<or> bi2 = None" "bw2 = bw \<or> bw2 = None" .
    show ?thesis
    proof (cases oi2)
      case None
      with new_operation_accounts(4) [OF p0(1)] obtain q where q: "bi2 = Some q" "op_id p0 = p_operation q" by blast
      with new_operation_value(2) [OF p0(1) None q(1)] b2(1) p0(2) show ?thesis
        by (auto simp: same_order_def dest!: participant_given)
    next
      case (Some q)
      with new_operation_value(1) [OF p0(1) Some] new_operation_accounts(3) [OF p0(1) Some] o2 oi' p0(2)
      show ?thesis by (auto simp: same_order_def dest!: participant_given)
    qed
  qed
  have "\<exists>p. created_list r = [p] \<and> isPending p \<and> OperationRepository_getById (op_id p) (the_db w) = None
      \<and> (ownerOperation r = None \<longleftrightarrow> ownerWalletAccount p = None)"
  proof (cases "ownerOperation r")
    case None
    with op show ?thesis
      by (cases "beneficiaryOperation r") (simp_all add: opened_def created_list_def)
  next
    case p: (Some p)
    show ?thesis
    proof (cases "beneficiaryOperation r")
      case None
      with op p show ?thesis by (simp add: opened_def created_list_def)
    next
      case (Some q)
      have "op_id p = op_id q"
      proof (rule ccontr)
        assume "op_id p \<noteq> op_id q"
        with p Some have "p \<in> set (created_list r)" "q \<in> set (created_list r)"
          by (simp_all add: created_list_def)
        with fields \<open>op_id p \<noteq> op_id q\<close> show False by simp
      qed
      with op p Some show ?thesis by (auto simp: opened_def created_list_def)
    qed
  qed
  then obtain p where p: "created_list r = [p]" "isPending p"
      "OperationRepository_getById (op_id p) (the_db w) = None"
    and owner: "ownerOperation r = None \<longleftrightarrow> ownerWalletAccount p = None"
    by (elim exE conjE) (rule that)
  from fields p(1) have id: "op_id p = or_id rq" "op_value p = or_rawValue rq" by auto
  have "Option.bind (ownerWalletAccount p) (wallet_of (the_db w)) = u"
  proof (cases "ownerWalletAccount p")
    case None
    with owner created_owner [OF c] none show ?thesis by simp
  next
    case (Some i)
    from p(1) have "p \<in> set (created_list r)" by simp
    from created_origin [OF c this] obtain oi2 ow2 bi2 bw2 p0 where
        p0: "new_operation oi2 ow2 bi2 bw2 tt = Some p0" "same_order p p0"
      and o2: "oi2 = oi' \<and> ow2 = ow \<or> oi2 = None \<and> ow2 = None"
      and b2: "bi2 = ?bi \<or> bi2 = None" "bw2 = bw \<or> bw2 = None" .
    from Some p0(2) have "ownerWalletAccount p0 = Some i" by (simp add: same_order_def)
    with new_operation_accounts(1) [OF p0(1)] o2 obtain x a where "ow = Some (x, a)" "i = wa_id a"
      by auto
    with none own cur Some show ?thesis
      by (auto simp: own_account_def current_account_def wallet_of_def participant_of_def)
  qed
  with that p id show ?thesis by simp
qed

text \<open>A request that takes what there is: the value is the amount asked for, or the balance.\<close>

lemma use_available_le:
  assumes "fee_of p = 0"
  shows "fee_of (use_available_balance a p) + p_rawValue (use_available_balance a p) \<le> p_rawValue p"
    and "p_operation (use_available_balance a p) = p_operation p"
  using assms by (auto simp: use_available_balance_def Let_def)

lemma blocking_participant_sel [simp]:
  "p_operation (blocking_participant rq u) = or_id rq" "p_wallet (blocking_participant rq u) = u"
  "p_rawValue (blocking_participant rq u) = or_rawValue rq" "p_fee (blocking_participant rq u) = Some 0"
  by (simp_all add: blocking_participant_def participant_of_def)

lemma blocked_for_request:
  assumes run: "CreateOperationUseCase_execute m cfg ids tag (Some (blocking_participant rq u)) None w = (Inr r, w')"
    and wf: "keys_ok (the_db w)"
  obtains p where "ownerOperation r = Some p" and "created_list r = [p]" and "op_id p = or_id rq"
    and "0 \<le> op_value p" and "op_value p \<le> or_rawValue rq"
    and "Option.bind (ownerWalletAccount p) (wallet_of (the_db w)) = Some u"
    and "OperationRepository_getById (or_id rq) (the_db w) = None" and "isPending p"
proof -
  let ?q = "blocking_participant rq u"
  from wf have wa: "walletAccounts_wf (the_db w)" by (simp add: keys_ok_def)
  from CreateOperationUseCase_effect [OF run wa] have op: "opened r (the_db w) (the_db w')" .
  from CreateOperationUseCase_run [OF run wa] obtain tt ow bw oi' w4 w5 where
      cur: "current_account ow (the_db w)" and none: "ow = None \<longleftrightarrow> Some ?q = None"
    and nob: "bw = None \<longleftrightarrow> None = (None :: participant option)"
    and fund: "funded tt (the_db w) (Some ?q) ow oi'" and own: "own_account (Some ?q) ow"
    and c: "create_by_participants m cfg tt oi' ow None bw w4 = (Inr r, w5)"
    and ok: "\<forall>p. ownerOperation r = Some p \<or> beneficiaryOperation r = Some p \<longrightarrow> event_ok p" by metis
  from none obtain x a where ow: "ow = Some (x, a)" by auto
  with fund have oi': "oi' = Some (use_available_balance a ?q)" by (simp add: funded_def Let_def)
  from nob have bw: "bw = None" by simp
  from c ow oi' bw obtain p where p: "ownerOperation r = Some p" "beneficiaryOperation r = None"
    by (auto simp: create_by_participants_def createOwnerOperation_def result_simps Let_def)
  then have list: "created_list r = [p]" by (simp add: created_list_def)
  then have "p \<in> set (created_list r)" by simp
  from created_origin [OF c this] obtain oi2 ow2 bi2 bw2 p0 where
      p0: "new_operation oi2 ow2 bi2 bw2 tt = Some p0" "same_order p p0"
    and o2: "oi2 = oi' \<and> ow2 = ow \<or> oi2 = None \<and> ow2 = None" and b2: "bi2 = None \<or> bi2 = None" .
  from o2 b2 p0(1) oi' have oi2: "oi2 = Some (use_available_balance a ?q)" "ow2 = ow"
    by (auto simp: new_operation_def)
  note avail = use_available_le [of ?q a]
  have id: "op_id p = or_id rq"
    using new_operation_accounts(3) [OF p0(1) oi2(1)] p0(2) avail(2) by (simp add: same_order_def)
  have "op_value p \<le> or_rawValue rq"
    using new_operation_value(1) [OF p0(1) oi2(1)] p0(2) avail(1) by (simp add: same_order_def)
  moreover from ok p(1) have "0 \<le> op_value p" by (simp add: event_ok_def)
  moreover have facts: "isPending p" "ownerWalletAccount p \<noteq> None"
      "OperationRepository_getById (op_id p) (the_db w) = None"
    using op p by (simp_all add: opened_def)
  moreover have "Option.bind (ownerWalletAccount p) (wallet_of (the_db w)) = Some u"
  proof -
    from facts(2) p0(2) obtain i where i: "ownerWalletAccount p = Some i" "ownerWalletAccount p0 = Some i"
      by (auto simp: same_order_def)
    from new_operation_accounts(1) [OF p0(1) i(2)] oi2(2) ow have "i = wa_id a" by auto
    with i(1) own cur ow show ?thesis
      by (auto simp: own_account_def current_account_def wallet_of_def)
  qed
  ultimately show ?thesis using id by (intro that [OF p(1) list id]) simp_all
qed

section \<open>The contract\<close>

definition ledger_sound :: "ledger_service \<Rightarrow> bool" where
  "ledger_sound l \<longleftrightarrow> books_sound (the_db (ls_world l))"

definition ledger_view :: "ledger_service \<Rightarrow> order_view" where
  "ledger_view l = operations_view (the_db (ls_world l))"

text \<open>Requests of the other services of the platform.\<close>

definition other_requests :: "ledger_service \<Rightarrow> ledger_service \<Rightarrow> bool" where
  "other_requests l l' \<longleftrightarrow> requests (ls_world l) (ls_world l')"

lemma requests_books: "requests w w' \<Longrightarrow> keys_ok (the_db w) \<Longrightarrow> books\<^sup>*\<^sup>* (the_db w) (the_db w')"
proof (induction rule: rtranclp_induct)
  case (step x y)
  then show ?case by (metis books_rtrancl_keys rtranclp_trans serves_books)
qed simp

lemma books_contract:
  assumes "books\<^sup>*\<^sup>* (the_db (ls_world l)) (the_db (ls_world l'))" and "ledger_sound l"
  shows "ledger_sound l' \<and> orders_evolve (ledger_view l) (ledger_view l')"
  using assms by (auto simp: ledger_sound_def ledger_view_def intro: books_rtrancl_sound books_rtrancl_evolve)

lemma atLedger_cases:
  assumes "atLedger g f l = (r, l')"
  obtains (returned) x where "r = Inr (g x)"
      and "f (ls_count l) ((ls_world l)\<lparr>the_fields := init_fields\<rparr>) = (Inr x, ls_world l')"
  | (failed) "\<not> isInr r" and "the_db (ls_world l') = the_db (ls_world l)"
  using assms by (auto simp: atLedger_def transactional_def split: prod.splits sum.splits)

text \<open>A call that fails is rolled back.\<close>

lemma atLedger_contract:
  assumes "atLedger g f l = (r, l')" and "ledger_sound l"
    and "\<And>n w x w'. books_sound (the_db w) \<Longrightarrow> f n w = (Inr x, w') \<Longrightarrow>
      books_sound (the_db w') \<and> orders_evolve (operations_view (the_db w)) (operations_view (the_db w'))
      \<and> Q (Inr (g x)) (operations_view (the_db w)) (operations_view (the_db w'))"
  shows "ledger_sound l' \<and> orders_evolve (ledger_view l) (ledger_view l')
    \<and> (isInr r \<longrightarrow> Q r (ledger_view l) (ledger_view l'))"
  using assms(1)
proof (cases rule: atLedger_cases)
  case (returned x)
  from assms(3) [OF _ returned(2)] assms(2) returned(1) show ?thesis
    by (simp add: ledger_sound_def ledger_view_def)
next
  case failed
  with assms(2) show ?thesis by (simp add: ledger_sound_def ledger_view_def)
qed

lemma books_step:
  "books\<^sup>*\<^sup>* d d' \<Longrightarrow> books_sound d \<Longrightarrow>
     books_sound d' \<and> orders_evolve (operations_view d) (operations_view d')"
  by (simp add: books_rtrancl_sound books_rtrancl_evolve)

lemma created_view:
  assumes "opened r d d'" and "books\<^sup>*\<^sup>* d d'" and "created_list r = [p]"
  shows "operations_view d' (op_id p)
    = Some (PENDING, Option.bind (ownerWalletAccount p) (wallet_of d), op_value p)"
proof -
  have "wallet_of d' = wallet_of d"
    using assms(2) by (induction rule: rtranclp_induct) (auto dest: books_wallets)
  moreover from opened_ledger [OF assms(1)] assms(3)
  have "ledger_of d' = hold (op_id p) (order_of p) (ledger_of d)" by (simp add: hold_operation_def)
  ultimately show ?thesis by (simp add: operations_view_def hold_def del: ledger_of_sel)
qed

lemma create_contract:
  assumes "CreateOperationUseCase_execute m cfg ids tag (map_option (participant_of rq) u)
      (map_option (participant_of rq) v) w = (Inr r, w')" and "books_sound (the_db w)"
  shows "books_sound (the_db w') \<and> orders_evolve (operations_view (the_db w)) (operations_view (the_db w'))
    \<and> operations_view (the_db w) (or_id rq) = None
    \<and> operations_view (the_db w') (or_id rq) = Some (PENDING, u, or_rawValue rq)"
proof -
  from assms(2) have keys: "keys_ok (the_db w)" by (simp add: books_sound_def)
  then have wa: "walletAccounts_wf (the_db w)" by (simp add: keys_ok_def)
  from create_books [OF assms(1) keys] have b: "books\<^sup>*\<^sup>* (the_db w) (the_db w')" .
  from created_for_request [OF assms(1) keys] obtain p where p: "created_list r = [p]"
      "op_id p = or_id rq" "op_value p = or_rawValue rq"
      "Option.bind (ownerWalletAccount p) (wallet_of (the_db w)) = u"
      "OperationRepository_getById (or_id rq) (the_db w) = None" .
  have "operations_view (the_db w') (or_id rq) = Some (PENDING, u, or_rawValue rq)"
    using created_view [OF CreateOperationUseCase_effect [OF assms(1) wa] b p(1)] p(2,3,4) by simp
  moreover from p(5) have "operations_view (the_db w) (or_id rq) = None"
    by (simp add: operations_view_def)
  ultimately show ?thesis using books_step [OF b assms(2)] by simp
qed

lemma block_contract:
  assumes "CreateOperationUseCase_execute m cfg ids tag (Some (blocking_participant rq u)) None w = (Inr r, w')"
    and "books_sound (the_db w)"
  shows "books_sound (the_db w') \<and> orders_evolve (operations_view (the_db w)) (operations_view (the_db w'))
    \<and> (\<exists>v. owner_answer r = Some (or_id rq, v) \<and> 0 \<le> v \<and> v \<le> or_rawValue rq
         \<and> operations_view (the_db w) (or_id rq) = None
         \<and> operations_view (the_db w') (or_id rq) = Some (PENDING, Some u, v))"
proof -
  from assms(2) have keys: "keys_ok (the_db w)" by (simp add: books_sound_def)
  then have wa: "walletAccounts_wf (the_db w)" by (simp add: keys_ok_def)
  from create_books [OF assms(1) keys] have b: "books\<^sup>*\<^sup>* (the_db w) (the_db w')" .
  from blocked_for_request [OF assms(1) keys] obtain p where p: "ownerOperation r = Some p"
      "created_list r = [p]" "op_id p = or_id rq" "0 \<le> op_value p" "op_value p \<le> or_rawValue rq"
      "Option.bind (ownerWalletAccount p) (wallet_of (the_db w)) = Some u"
      "OperationRepository_getById (or_id rq) (the_db w) = None" .
  have "operations_view (the_db w') (or_id rq) = Some (PENDING, Some u, op_value p)"
    using created_view [OF CreateOperationUseCase_effect [OF assms(1) wa] b p(2)] p(3,6) by simp
  moreover from p(7) have "operations_view (the_db w) (or_id rq) = None"
    by (simp add: operations_view_def)
  ultimately show ?thesis using books_step [OF b assms(2)] p by (simp add: owner_answer_def)
qed

lemma accept_contract:
  assumes "AcceptOperationUseCase_execute i d = Inr (r, d')" and "books_sound d"
  shows "books_sound d' \<and> orders_evolve (operations_view d) (operations_view d')
    \<and> (\<exists>x. operations_view d i = Some (PENDING, x) \<and> operations_view d' i = Some (ACCEPTED, x))"
proof -
  from assms(1) have b: "books d d'" by (rule books_accept)
  from accept_ledger [OF assms(1)] have
    "\<exists>x. operations_view d i = Some (PENDING, x) \<and> operations_view d' i = Some (ACCEPTED, x)"
    by (auto simp: operations_view_def settle_def books_wallets [OF b] simp del: ledger_of_sel)
  with books_step [OF books_one [OF b] assms(2)] show ?thesis by simp
qed

lemma revert_contract:
  assumes "RevertOperationUseCase_execute now i d = Inr (r, d')" and "books_sound d"
  shows "books_sound d' \<and> orders_evolve (operations_view d) (operations_view d')
    \<and> (\<exists>x. operations_view d' i = Some (REVERTED, x))"
proof -
  from assms(1) have b: "books d d'" by (rule books_revert)
  from revert_ledger [OF assms(1)] have "\<exists>x. operations_view d' i = Some (REVERTED, x)"
    by (auto simp: operations_view_def release_def books_wallets [OF b] simp del: ledger_of_sel)
  with books_step [OF books_one [OF b] assms(2)] show ?thesis by simp
qed

lemma created_then_accepted:
  assumes "CreateAndAcceptOperationController_execute m cfg ids tag oi bi w = (Inr r, w')"
  obtains c w1 where "CreateOperationUseCase_execute m cfg ids tag oi bi w = (Inr c, w1)"
    and "\<And>p. created_list c = [p] \<Longrightarrow> \<exists>x. accept_step p w1 = (Inr x, w')"
proof -
  from assms obtain c w1 where
      c: "CreateOperationUseCase_execute m cfg ids tag oi bi w = (Inr c, w1)"
    and rest: "(case (ownerOperation c, beneficiaryOperation c) of
       (Some p, Some q) \<Rightarrow>
         if op_id p = op_id q
         then bindS (accept_step p) (\<lambda>x. returnS (Some x, Some x))
         else bindS (accept_step p) (\<lambda>x. bindS (accept_step q) (\<lambda>y. returnS (Some x, Some y)))
     | (Some p, None) \<Rightarrow> bindS (accept_step p) (\<lambda>x. returnS (Some x, None))
     | (None, Some q) \<Rightarrow> bindS (accept_step q) (\<lambda>y. returnS (None, Some y))
     | (None, None) \<Rightarrow> returnS (None, None)) w1 = (Inr r, w')"
    by (auto simp: CreateAndAcceptOperationController_execute_def result_simps)
  have "\<exists>x. accept_step p w1 = (Inr x, w')" if "created_list c = [p]" for p
    using rest that
    by (auto simp: created_list_def result_simps split: option.splits if_splits)
  with c show ?thesis by (rule that)
qed

lemma create_accept_contract:
  assumes "CreateAndAcceptOperationController_execute m cfg ids tag (map_option (participant_of rq) u)
      (map_option (participant_of rq) v) w = (Inr r, w')" and "books_sound (the_db w)"
  shows "books_sound (the_db w') \<and> orders_evolve (operations_view (the_db w)) (operations_view (the_db w'))
    \<and> operations_view (the_db w) (or_id rq) = None
    \<and> operations_view (the_db w') (or_id rq) = Some (ACCEPTED, u, or_rawValue rq)"
  using assms(1)
proof (rule created_then_accepted)
  fix c w1
  assume c: "CreateOperationUseCase_execute m cfg ids tag (map_option (participant_of rq) u)
      (map_option (participant_of rq) v) w = (Inr c, w1)"
    and a: "\<And>p. created_list c = [p] \<Longrightarrow> \<exists>x. accept_step p w1 = (Inr x, w')"
  from assms(2) have "keys_ok (the_db w)" by (simp add: books_sound_def)
  from created_for_request [OF c this] obtain p where p: "created_list c = [p]" "op_id p = or_id rq" .
  from a [OF p(1)] p(2) obtain x where
      "AcceptOperationUseCase_execute (or_id rq) (the_db w1) = Inr (x, the_db w')"
    by (auto simp: accept_step_def result_simps)
  from accept_contract [OF this] create_contract [OF c assms(2)] show ?thesis
    by (auto intro: orders_evolve_trans)
qed

interpretation platform: payment_ledger "operationService e" ledger_sound ledger_view other_requests for e
proof
  fix l l' :: ledger_service and r tag u v and rq :: operation_request
  assume "ledger_sound l" "os_createOperation (operationService e) tag rq u v l = (r, l')"
  then show "ledger_sound l' \<and> orders_evolve (ledger_view l) (ledger_view l') \<and> (isInr r \<longrightarrow>
      ledger_view l (or_id rq) = None \<and> ledger_view l' (or_id rq) = Some (PENDING, u, or_rawValue rq))"
    by (intro atLedger_contract [where Q = "\<lambda>_ v v'. v (or_id rq) = None \<and> v' (or_id rq) = Some (PENDING, u, or_rawValue rq)"])
      (auto simp: operationService_def dest!: create_contract)
next
  fix l l' :: ledger_service and r tag u v and rq :: operation_request
  assume "ledger_sound l" "os_createAndAcceptOperation (operationService e) tag rq u v l = (r, l')"
  then show "ledger_sound l' \<and> orders_evolve (ledger_view l) (ledger_view l') \<and> (isInr r \<longrightarrow>
      ledger_view l (or_id rq) = None \<and> ledger_view l' (or_id rq) = Some (ACCEPTED, u, or_rawValue rq))"
    by (intro atLedger_contract [where Q = "\<lambda>_ v v'. v (or_id rq) = None \<and> v' (or_id rq) = Some (ACCEPTED, u, or_rawValue rq)"])
      (auto simp: operationService_def dest!: create_accept_contract)
next
  fix l l' :: ledger_service and b tag owner and rq :: operation_request
  assume "ledger_sound l" "os_blockOperation (operationService e) tag rq owner l = (b, l')"
  then show "ledger_sound l' \<and> orders_evolve (ledger_view l) (ledger_view l') \<and> (isInr b \<longrightarrow>
      (\<exists>v. b = Inr (Some (or_id rq, v)) \<and> 0 \<le> v \<and> v \<le> or_rawValue rq \<and> ledger_view l (or_id rq) = None
        \<and> ledger_view l' (or_id rq) = Some (PENDING, Some owner, v)))"
    by (intro atLedger_contract [where Q = "\<lambda>b v v'. \<exists>x. b = Inr (Some (or_id rq, x)) \<and> 0 \<le> x
        \<and> x \<le> or_rawValue rq \<and> v (or_id rq) = None \<and> v' (or_id rq) = Some (PENDING, Some owner, x)"])
      (auto simp: operationService_def dest!: block_contract)
next
  fix l l' :: ledger_service and r i
  assume "ledger_sound l" "os_acceptOperation (operationService e) i l = (r, l')"
  then show "ledger_sound l' \<and> orders_evolve (ledger_view l) (ledger_view l') \<and> (isInr r \<longrightarrow>
      (\<exists>x. ledger_view l i = Some (PENDING, x) \<and> ledger_view l' i = Some (ACCEPTED, x)))"
    by (intro atLedger_contract [where Q = "\<lambda>_ v v'. \<exists>x. v i = Some (PENDING, x) \<and> v' i = Some (ACCEPTED, x)"])
      (auto simp: operationService_def result_simps dest!: accept_contract)
next
  fix l l' :: ledger_service and r i
  assume "ledger_sound l" "os_revertOperation (operationService e) i l = (r, l')"
  then show "ledger_sound l' \<and> orders_evolve (ledger_view l) (ledger_view l') \<and> (isInr r \<longrightarrow>
      (\<exists>x. ledger_view l' i = Some (REVERTED, x)))"
    by (intro atLedger_contract [where Q = "\<lambda>_ v v'. \<exists>x. v' i = Some (REVERTED, x)"])
      (auto simp: operationService_def result_simps dest!: revert_contract)
next
  fix l l' :: ledger_service and r i j
  assume l: "ledger_sound l" "os_setOperationReference (operationService e) i j l = (r, l')"
  then have "atLedger (\<lambda>_. ()) (\<lambda>_. dbS (SetOperationReferenceByIdUseCase_execute i j)) l = (r, l')"
    by (simp add: operationService_def)
  from atLedger_contract [OF this l(1), of "\<lambda>_ v v'. True"]
  show "ledger_sound l' \<and> orders_evolve (ledger_view l) (ledger_view l')"
    by (metis (no_types, lifting) dbS_Inr reference_books world.select_convs(1) world.update_convs(1) world.surjective)
next
  fix l :: ledger_service and i x
  assume "os_getOperationById (operationService e) i l = Inr x"
  then show "x = map_option (\<lambda>(s, y). (s, snd y)) (ledger_view l i)"
    by (auto simp: operationService_def askLedger_def GetOperationByIdUseCase_execute_def ledger_view_def
        operations_view_def option.map_comp comp_def split: if_splits)
next
  fix l l' :: ledger_service
  assume "ledger_sound l" "other_requests l l'"
  then show "ledger_sound l' \<and> orders_evolve (ledger_view l) (ledger_view l')"
    by (intro books_contract requests_books) (auto simp: other_requests_def ledger_sound_def books_sound_def)
qed

end
