(* ===== verification/Sample_Payments.thy ===== *)
theory Sample_Payments
  imports Operations_Service
begin

text \<open>
  A concrete platform: the sample ledger with Ann and Bob, a banking service that knows the own
  bank, and an account of Bob that Ann has decoded. Ann pays Bob 30.00.
\<close>

definition sample_ledger_env :: ledger_env where
  "sample_ledger_env = \<lparr> le_config = sample_config, le_moment = (\<lambda>_. sample_moment),
     le_ids = (\<lambda>_. sample_ids), le_accountNumber = (\<lambda>i. if i = 10 then ''1010'' else ''2020''),
     le_branchNumber = (\<lambda>_. ''0001'') \<rparr>"

definition sample_pay_config :: pay_config where
  "sample_pay_config = \<lparr> pc_currencyTag = ''REAL'', pc_description = ''Pix'', pc_zroBankIspb = ''26264220'',
     pc_newPixReceivedTag = ''NEWPIXREC'', pc_changeTag = ''P2PBT'', pc_sendAccountTag = ''P2PBT'',
     pc_sendKeyTag = ''P2PBT'', pc_sendQrsTag = ''P2PBT'', pc_sendQrdTag = ''P2PBT'',
     pc_duedateQrdTag = ''P2PBT'', pc_withdrawalQrsTag = ''P2PBT'', pc_withdrawalQrdTag = ''P2PBT'',
     pc_changeQrdTag = ''P2PBT'', pc_agentModWithdrawal = AGPSS, pc_receivedPixDepositTag = ''PIXREC'',
     pc_sendDevolutionTag = ''WITHDRAW'', pc_devolutionReceivedTag = ''PIXREC'',
     pc_devolutionMaxNumber = 3, pc_devolutionIntervalDays = 89, pc_minAmount = 1,
     pc_cefIspb = ''00360305'', pc_santanderIspb = ''90400888'', pc_santanderCnpj = ''10573521000191'',
     pc_receitaFederalCnpj = ''00394460005887'', pc_maxOccupationIncome = 5,
     pc_minAmountToWarningIncome = 100000, pc_messageUserRequest = ''requested'',
     pc_thresholdInSeconds = 60, pc_refundTag = ''WITHDRAW'', pc_sendRefundDevolutionTag = ''PIXREC'',
     pc_refundDevolutionMaxNumber = 3, pc_refundDevolutionIntervalDays = 89, pc_infractionDueDays = 7 \<rparr>"

definition own_bank :: bank where
  "own_bank = \<lparr> bk_ispb = ''26264220'', bk_name = Some ''ZRO BANK'' \<rparr>"

text \<open>The banking service may be out of order.\<close>

definition sample_pay_env :: "bool \<Rightarrow> ledger_service pay_env" where
  "sample_pay_env banking = \<lparr> pe_cfg = sample_pay_config, pe_moment = sample_moment,
     pe_operations = operationService sample_ledger_env,
     pe_getUser = (\<lambda>_. Inr (Some \<lparr> ui_type = NATURAL_PERSON, ui_document = ''11111111111'',
       ui_fullName = ''Ann'', ui_active = True \<rparr>)),
     pe_getUserByDocument = (\<lambda>_. Inr None), pe_getOnboarding = (\<lambda>_. Inr (Some None)),
     pe_getBank = (\<lambda>_. if banking then Inr (Some own_bank) else Inl (PayServiceError ''banking'')),
     pe_getDecodedPixKey = (\<lambda>_. Inr None), pe_getWarningTransaction = (\<lambda>_. Inr None),
     pe_call = (\<lambda>_. Inr \<lparr> an_endToEndId = Some ''E1'', an_externalId = Some ''X1'', an_infractionId = Some ''F1'',
       an_debitedParticipant = None, an_creditedParticipant = None, an_issueId = Some 7 \<rparr>),
     pe_status = (\<lambda>_. Inr None), pe_getInfractions = Inr [], pe_getRefundRequests = (\<lambda>_. Inr []),
     pe_translate = (\<lambda>_. None), pe_warningReason = (\<lambda>s. s),
     pe_sha1 = (\<lambda>_. ''hash''),
     pe_validators = \<lparr> v_isEmail = (\<lambda>_. True), v_isCpf = (\<lambda>s. length s = 11),
       v_isCnpj = (\<lambda>s. length s = 14), v_isUUID = (\<lambda>_. True) \<rparr> \<rparr>"

definition decoded_bob :: decoded_pix_account where
  "decoded_bob = \<lparr> da_id = ''d1'', da_user = ''ann'', da_name = ''Bob'', da_state = DA_PENDING,
     da_personType = NATURAL_PERSON, da_bank = own_bank, da_branch = ''0001'',
     da_accountNumber = ''2020'', da_accountType = ''CACC'', da_document = ''22222222222'' \<rparr>"

definition fresh_ledger :: ledger_service where
  "fresh_ledger = \<lparr> ls_world = sample_world, ls_count = 0 \<rparr>"

definition fresh_pay_world :: "ledger_service pay_world" where
  "fresh_pay_world = \<lparr> pw_db = \<lparr> payments = [], deposits = [], devolutions = [], devolutionsReceived = [],
       warningDeposits = [], warningDevolutions = [], infractions = [], refunds = [],
       refundDevolutions = [], refundOperations = [], decodedQrCodes = [],
       decodedAccounts = [decoded_bob], skipList = [], blockedCpfs = [], blockedBanks = [],
       payOutbox = [] \<rparr>,
     pw_redis = \<lparr> depositCache = [], depositHashes = [], skipCache = [] \<rparr>, pw_calls = [],
     pw_ledger = fresh_ledger \<rparr>"

definition sample_request :: payment_request where
  "sample_request = \<lparr> pr_id = ''p1'', pr_value = Some 3000, pr_paymentDate = None,
     pr_description = Some ''lunch'', pr_decoded = ''d1'' \<rparr>"

definition ordered_world :: "ledger_service pay_world" where
  "ordered_world = served (run (CreateByAccountPaymentUseCase_execute (sample_pay_env True) ''op1''
     ''ann'' ''wa'' sample_request)) fresh_pay_world"

definition paid_world :: "bool \<Rightarrow> ledger_service pay_world" where
  "paid_world banking = observed (run (HandlePendingPaymentEventUseCase_execute (sample_pay_env banking)
     ''dep1'' ''ref1'' ''p1'')) ordered_world"

lemma ordered_payment:
  "map (\<lambda>p. (py_id p, py_state p, py_operation p, py_value p)) (payments (pw_db ordered_world))
     = [(''p1'', PAY_PENDING, Some ''op1'', 3000)]"
  by code_simp

lemma paid_payment:
  "map (\<lambda>p. (py_id p, py_state p, py_operation p, py_value p)) (payments (pw_db (paid_world True)))
     = [(''p1'', PAY_CONFIRMED, Some ''op1'', 3000)]"
  by code_simp

lemma stuck_payment:
  "map (\<lambda>p. (py_id p, py_state p, py_operation p, py_value p)) (payments (pw_db (paid_world False)))
     = [(''p1'', PAY_PENDING, Some ''op1'', 3000)]"
  by code_simp

end
