(* ===== verification/Sample_Disputes.thy ===== *)
theory Sample_Disputes
  imports Sample_Payments
begin

text \<open>
  A disputed deposit on the sample platform: Bob receives 10.00, from another bank or from Ann's
  wallet here, the transfer is reported as a fraud and the money is asked back, the compliance team
  agrees, and what is blocked of Bob's money is sent back. Every world is the one before it after one
  or a few more requests.
\<close>

definition foreign_bank :: bank where
  "foreign_bank = \<lparr> bk_ispb = ''60701190'', bk_name = Some ''OTHER BANK'' \<rparr>"

definition dispute_env :: "ledger_service pay_env" where
  "dispute_env = (sample_pay_env True)\<lparr>pe_getBank := \<lambda>i.
     Inr (Some (if i = bk_ispb own_bank then own_bank else foreign_bank))\<rparr>"

definition dispute_start :: "ledger_service pay_world" where
  "dispute_start = fresh_pay_world\<lparr>pw_db := (pw_db fresh_pay_world)\<lparr>skipList := [''2020'']\<rparr>\<rparr>"

definition sample_deposit :: "bool \<Rightarrow> deposit_request" where
  "sample_deposit foreign = \<lparr> rq_id = ''dp1'', rq_amount = 1000, rq_txId = None, rq_endToEndId = Some ''E77'',
     rq_clientBank = Some own_bank, rq_clientBranch = ''0001'', rq_clientAccountNumber = ''2020'',
     rq_clientDocument = ''22222222222'', rq_clientName = Some ''Bob'', rq_clientKey = None,
     rq_thirdPartBank = Some (if foreign then foreign_bank else own_bank),
     rq_thirdPartBranch = Some ''0001'', rq_thirdPartAccountType = Some ''CACC'',
     rq_thirdPartAccountNumber = (if foreign then ''777'' else ''1010''),
     rq_thirdPartDocument = Some ''33333333333'', rq_thirdPartName = Some ''Eve'',
     rq_thirdPartKey = None, rq_description = None \<rparr>"

definition sample_infraction :: infraction_request where
  "sample_infraction = \<lparr> ir_id = ''in1'', ir_creationDate = Some 1, ir_reportDetails = None,
     ir_endToEndId = ''E77'', ir_infractionPspId = ''F9'', ir_infractionType = Some IT_REFUND_REQUEST,
     ir_isReporter = None, ir_ispb = None, ir_ispbCreditedParticipant = None,
     ir_ispbDebitedParticipant = None, ir_lastChangeDate = Some 1, ir_reportBy = None,
     ir_status = IS_ACKNOWLEDGED, ir_operationTransactionId = [] \<rparr>"

definition sample_refund :: "string \<Rightarrow> int \<Rightarrow> refund_request" where
  "sample_refund infraction a = \<lparr> fr_id = ''rf1'', fr_infractionPspId = infraction, fr_contested = None,
     fr_amount = a, fr_description = None, fr_reason = Some RR_FRAUD,
     fr_requesterBank = Some ''60701190'', fr_responderBank = Some ''26264220'',
     fr_status = Some RS_OPEN, fr_endToEndId = ''E77'', fr_solicitationPspId = ''S1'' \<rparr>"

definition credited_world :: "bool \<Rightarrow> ledger_service pay_world" where
  "credited_world foreign =
     observed (run (HandleWaitingPixDepositEventUseCase_execute dispute_env ''wd1'' ''ref1'' ''dp1''))
       (served (run (ReceivePixDepositUseCase_execute dispute_env ''opD'' (sample_deposit foreign))) dispute_start)"

definition reported_world :: "bool \<Rightarrow> ledger_service pay_world" where
  "reported_world foreign =
     served (run (HandleReceivePixInfractionEventUseCase_execute dispute_env (''blk1'', ''row1'')
       sample_infraction)) (credited_world foreign)"

text \<open>The PSP withdraws the report.\<close>

definition withdrawn_world :: "bool \<Rightarrow> ledger_service pay_world" where
  "withdrawn_world foreign =
     served (run (HandleCancelPixInfractionReceivedEventUseCase_execute dispute_env ''F9''
       (Some DISAGREED) None)) (reported_world foreign)"

text \<open>The team agrees with the report.\<close>

definition agreed_world :: "bool \<Rightarrow> ledger_service pay_world" where
  "agreed_world foreign =
     observed (run (HandleClosePendingPixInfractionEventUseCase_execute dispute_env ''in1''))
       (served (run (ClosePixInfractionUseCase_execute dispute_env 7 (Some AGREED) None))
         (observed (run (HandleReceivePendingPixInfractionEventUseCase_execute dispute_env ''in1''))
           (reported_world foreign)))"

definition refund_world :: "bool \<Rightarrow> ledger_service pay_world" where
  "refund_world foreign =
     observed (run (HandleReceivePendingPixRefundUseCase_execute dispute_env ''rf1''))
       (served (run (HandleReceivePixRefundEventUseCase_execute dispute_env (''blk2'', ''row2'')
         (sample_refund ''F9'' 1000))) (agreed_world foreign))"

definition closing_world :: "bool \<Rightarrow> ledger_service pay_world" where
  "closing_world foreign =
     observed (run (HandleClosePendingPixRefundEventUseCase_execute dispute_env ''rd1'' ''rf1''))
       (served (run (ClosePixRefundUseCase_execute dispute_env 7 ''agreed'')) (refund_world foreign))"

definition devolution_world :: "bool \<Rightarrow> ledger_service pay_world" where
  "devolution_world foreign =
     observed (run (HandleCreatePixRefundDevolutionEventUseCase_execute dispute_env ''rd1'' ''rf1''))
       (closing_world foreign)"

definition returning_world :: "bool \<Rightarrow> ledger_service pay_world" where
  "returning_world foreign =
     observed (run (HandlePendingPixRefundDevolutionEventUseCase_execute dispute_env ''rd1''))
       (devolution_world foreign)"

definition returned_world :: "bool \<Rightarrow> ledger_service pay_world" where
  "returned_world foreign =
     observed (run (HandleCompletePixRefundDevolutionEventUseCase_execute dispute_env ''rd1''
       (Some ''E78''))) (returning_world foreign)"

text \<open>
  A refund of 4.00 of the 10.00 without a report, whose issue is closed, sent back, and closed a second
  time while the PSP is still working.
\<close>

definition partial_world :: "ledger_service pay_world" where
  "partial_world =
     observed (run (HandleReceivePendingPixRefundUseCase_execute dispute_env ''rf1''))
       (served (run (HandleReceivePixRefundEventUseCase_execute dispute_env (''blk2'', ''row2'')
         (sample_refund [] 400))) (credited_world True))"

definition send_refund :: "string \<Rightarrow> ledger_service pay_world \<Rightarrow> ledger_service pay_world" where
  "send_refund i w =
     observed (run (HandlePendingPixRefundDevolutionEventUseCase_execute dispute_env i))
       (observed (run (HandleCreatePixRefundDevolutionEventUseCase_execute dispute_env i ''rf1''))
         (observed (run (HandleClosePendingPixRefundEventUseCase_execute dispute_env i ''rf1''))
           (served (run (ClosePixRefundUseCase_execute dispute_env 7 ''agreed'')) w)))"

definition twice_sent_world :: "ledger_service pay_world" where
  "twice_sent_world = send_refund ''rd2'' (send_refund ''rd1'' partial_world)"

end
