(* ===== verification/Payment_Safety.thy ===== *)
theory Payment_Safety
  imports Sample_Payments
begin

text \<open>
  The payments service on the operations service: what holds of payments and money over every
  sequence of requests to the two.
\<close>

section \<open>The platform\<close>

definition platform_start :: "ledger_service pay_world \<Rightarrow> bool" where
  "platform_start w \<longleftrightarrow> ledger_sound (pw_ledger w) \<and> payments (pw_db w) = []"

abbreviation platform_requests ::
    "ledger_env \<Rightarrow> ledger_service pay_world \<Rightarrow> ledger_service pay_world \<Rightarrow> bool" where
  "platform_requests e \<equiv> pay_requests (operationService e) other_requests"

definition ledger_db :: "ledger_service pay_world \<Rightarrow> db" where
  "ledger_db w = the_db (ls_world (pw_ledger w))"

lemma platform_sound:
  assumes "platform_requests e w w'" and "platform_start w"
  shows "ledger_sound (pw_ledger w')"
    and "pay_inv (ledger_view (pw_ledger w')) (payments (pw_db w'))"
  using platform.requests_inv(1,3) [OF assms(1)] assms(2) by (simp_all add: platform_start_def)

lemma viewed_operation:
  assumes "ledger_view (pw_ledger w) i = Some (s, Some u, x)"
  obtains o' k where "OperationRepository_getById i (ledger_db w) = Some o'" and "op_state o' = s"
    and "ownerWalletAccount o' = Some k" and "wallet_of (ledger_db w) k = Some u" and "op_value o' = x"
  using assms by (auto simp: ledger_view_def operations_view_def ledger_db_def bind_eq_Some_conv)

lemma viewed_state:
  assumes "ledger_view (pw_ledger w) i = Some (s, x)"
  obtains o' where "OperationRepository_getById i (ledger_db w) = Some o'" and "op_state o' = s"
  using assms by (auto simp: ledger_view_def operations_view_def ledger_db_def)

lemma sound_entries:
  "ledger_sound (pw_ledger w) \<Longrightarrow> entries_of_operation i (ledger_db w)
     = expected_entries (OperationRepository_getById i (ledger_db w))"
  by (simp add: ledger_sound_def ledger_db_def books_sound_def entries_match_def)

section \<open>Money and payments agree\<close>


lemma fresh_start: "platform_start fresh_pay_world"
proof -
  have "entries_match sample_db"
    by (simp add: entries_match_def entries_of_operation_def expected_entries_def
        OperationRepository_getById_def sample_db_def)
  with sample_keys_ok sample_pending show ?thesis
    by (simp add: platform_start_def fresh_pay_world_def fresh_ledger_def ledger_sound_def
        books_sound_def sample_world_def)
qed

lemma sample_env_operations [simp]: "pe_operations (sample_pay_env b) = operationService sample_ledger_env"
  by (simp add: sample_pay_env_def)

lemma run_ordered: "platform_requests sample_ledger_env fresh_pay_world ordered_world"
  unfolding ordered_world_def
  by (intro r_into_rtranclp pay_request.served served_usecase.by_account) simp

lemma run_paid: "platform_requests sample_ledger_env ordered_world (paid_world b)"
  unfolding paid_world_def
  by (intro r_into_rtranclp pay_request.observed observed_usecase.pending_payment) simp

lemmas run_both = rtranclp_trans [OF run_ordered run_paid]

lemma paid_row:
  obtains p where "p \<in> set (payments (pw_db (paid_world True)))" and "py_state p = PAY_CONFIRMED"
    and "py_operation p = Some ''op1''" and "py_value p = 3000"
  using paid_payment by (auto simp: Cons_eq_map_conv map_eq_Cons_conv)


text \<open>
  C2: whatever requests follow, a payment keeps its value, its payer and its beneficiary, moves
  only forward through its states (scheduled, pending, waiting, then confirmed or failed; canceled
  only from scheduled), loses an operation only by failing, and once confirmed, failed or canceled
  its row never changes again.
\<close>

theorem payments_follow_their_life_cycle:
  assumes "platform_requests e w w1" and "platform_start w" and "platform_requests e w1 w2"
    and "p \<in> set (payments (pw_db w1))"
  shows "\<exists>q \<in> set (payments (pw_db w2)). py_id q = py_id p \<and> py_value q = py_value p
    \<and> py_wallet q = py_wallet p \<and> beneficiary.truncate q = beneficiary.truncate p
    \<and> py_state q \<in> later_states (py_state p)
    \<and> (py_operation q \<noteq> py_operation p \<longrightarrow> py_operation q = None \<and> py_state q = PAY_FAILED)
    \<and> (py_state p = PAY_CONFIRMED \<or> py_state p = PAY_FAILED \<or> py_state p = PAY_CANCELED \<longrightarrow> q = p)"
proof -
  note sound = platform_sound [OF assms(1,2)]
  from platform.requests_inv(2) [OF assms(3) sound] assms(4) obtain q where
      "q \<in> set (payments (pw_db w2))" "follows p q" "over (ledger_view (pw_ledger w1)) p \<longrightarrow> q = p"
    unfolding rows_follow_def by blast
  then show ?thesis
    by (intro bexI [of _ q]) (auto simp: follows_def kept_or_dropped_def over_def)
qed

theorem payments_follow_their_life_cycle_witness:
  "\<exists>q \<in> set (payments (pw_db (paid_world True))). py_id q = ''p1'' \<and> py_state q \<in> later_states PAY_PENDING"
proof -
  from ordered_payment obtain p where "p \<in> set (payments (pw_db ordered_world))"
    "py_id p = ''p1''" "py_state p = PAY_PENDING" by (auto simp: map_eq_Cons_conv)
  with payments_follow_their_life_cycle [OF run_ordered fresh_start run_paid this(1)]
  show ?thesis by auto
qed

text \<open>
  C3: no operation pays for two payments, and behind every payment that was handed over or
  confirmed stands an operation of its value on an account of its wallet.
\<close>

theorem payments_share_no_operation:
  assumes "platform_requests e w w'" and "platform_start w"
    and "p \<in> set (payments (pw_db w'))" and "py_state p = PAY_WAITING \<or> py_state p = PAY_CONFIRMED"
    and "q \<in> set (payments (pw_db w'))" and "py_state q = PAY_WAITING \<or> py_state q = PAY_CONFIRMED"
  shows "(p \<noteq> q \<longrightarrow> operations_of p \<inter> operations_of q = {})
    \<and> operations_of p \<noteq> {}
    \<and> (\<forall>i \<in> operations_of p. \<exists>o' k. OperationRepository_getById i (ledger_db w') = Some o'
        \<and> ownerWalletAccount o' = Some k \<and> wallet_of (ledger_db w') k = Some (py_wallet p)
        \<and> op_value o' = py_value p)"
proof -
  note inv = platform_sound(2) [OF assms(1,2)]
  from assms(4,6) have c: "committed p" "committed q" by (auto simp: committed_def)
  have "operations_of p \<inter> operations_of q = {}" if "p \<noteq> q"
    using inv_apart [OF inv assms(3,5) c] that by blast
  moreover from inv_row [OF inv assms(3)] c(1) have "operations_of p \<noteq> {}"
    by (auto simp: row_ok_def operations_of_def)
  moreover have "\<exists>o' k. OperationRepository_getById i (ledger_db w') = Some o'
      \<and> ownerWalletAccount o' = Some k \<and> wallet_of (ledger_db w') k = Some (py_wallet p)
      \<and> op_value o' = py_value p" if i: "i \<in> operations_of p" for i
  proof -
    from committed_known [OF inv_row [OF inv assms(3)] c(1) i] obtain s where
      "ledger_view (pw_ledger w') i = Some (s, Some (py_wallet p), py_value p)"
      by (auto simp: py_terms_def)
    then show ?thesis by (rule viewed_operation) auto
  qed
  ultimately show ?thesis by blast
qed

theorem payments_share_no_operation_witness:
  "\<exists>o'. OperationRepository_getById ''op1'' (ledger_db (paid_world True)) = Some o' \<and> op_value o' = 3000"
proof (rule paid_row)
  fix p assume p: "p \<in> set (payments (pw_db (paid_world True)))" "py_state p = PAY_CONFIRMED"
    "py_operation p = Some ''op1''" "py_value p = 3000"
  then have "''op1'' \<in> operations_of p" "py_state p = PAY_WAITING \<or> py_state p = PAY_CONFIRMED"
    by (simp_all add: operations_of_def)
  with payments_share_no_operation [OF run_both fresh_start p(1) _ p(1)] p(4) show ?thesis by auto
qed

text \<open>
  C4: a payment that is still pending although its operation was accepted is lost: the payer is
  debited, and no request ever changes the payment again, so it is neither confirmed nor failed.
  This happens when crediting a wallet of the platform fails after the operation.
\<close>

theorem half_settled_payment_is_stuck:
  assumes "platform_requests e w w1" and "platform_start w" and "platform_requests e w1 w2"
    and "p \<in> set (payments (pw_db w1))" and "py_state p = PAY_PENDING" and "py_operation p = Some i"
    and "OperationRepository_getById i (ledger_db w1) = Some o'" and "isAccepted o'"
  shows "p \<in> set (payments (pw_db w2))"
proof -
  from assms(7,8) obtain x where "ledger_view (pw_ledger w1) i = Some (ACCEPTED, x)"
    by (auto simp: ledger_view_def operations_view_def ledger_db_def isAccepted_def)
  with assms(5,6) have "over (ledger_view (pw_ledger w1)) p" by (auto simp: over_def)
  with platform.requests_inv(2) [OF assms(3) platform_sound [OF assms(1,2)]] assms(4)
  show ?thesis unfolding rows_follow_def by blast
qed

definition reverted_world :: "ledger_service pay_world" where
  "reverted_world = observed (run (HandleRevertPaymentEventUseCase_execute (sample_pay_env True)
     ''p1'' None None)) (paid_world False)"

lemma run_reverted: "platform_requests sample_ledger_env (paid_world False) reverted_world"
  unfolding reverted_world_def
  by (intro r_into_rtranclp pay_request.observed observed_usecase.revert_payment) simp

lemma stuck_operation:
  "map_option op_state (OperationRepository_getById ''op1'' (ledger_db (paid_world False))) = Some ACCEPTED"
  by code_simp

theorem half_settled_payment_is_stuck_witness:
  "\<exists>p \<in> set (payments (pw_db reverted_world)). py_id p = ''p1'' \<and> py_state p = PAY_PENDING"
proof -
  from stuck_payment obtain p where p: "p \<in> set (payments (pw_db (paid_world False)))"
    "py_id p = ''p1''" "py_state p = PAY_PENDING" "py_operation p = Some ''op1''"
    by (auto simp: map_eq_Cons_conv)
  from stuck_operation obtain o' where
    "OperationRepository_getById ''op1'' (ledger_db (paid_world False)) = Some o'" "isAccepted o'"
    by (auto simp: isAccepted_def)
  from half_settled_payment_is_stuck [OF run_both fresh_start run_reverted p(1,3,4) this] p
  show ?thesis by auto
qed

end
