(* ===== verification/Dispute_Safety.thy ===== *)
theory Dispute_Safety
  imports Pix_Refund_Links Sample_Disputes Payment_Safety
begin

text \<open>
  Infractions and refunds on the operations service: what holds of the blocked amounts over every
  sequence of requests to the two services, and where the handling of a refund goes wrong.
\<close>

section \<open>The run of a disputed deposit\<close>

lemma dispute_env_operations [simp]: "pe_operations dispute_env = operationService sample_ledger_env"
  by (simp add: dispute_env_def)

abbreviation sample_requests :: "ledger_service pay_world \<Rightarrow> ledger_service pay_world \<Rightarrow> bool" where
  "sample_requests \<equiv> platform_requests sample_ledger_env"

lemma then_served:
  "sample_requests w w1 \<Longrightarrow> served_usecase (operationService sample_ledger_env) f
     \<Longrightarrow> sample_requests w (served f w1)"
  by (rule rtranclp.rtrancl_into_rtrancl, assumption) (rule pay_request.served)

lemma then_observed:
  "sample_requests w w1 \<Longrightarrow> observed_usecase (operationService sample_ledger_env) f
     \<Longrightarrow> sample_requests w (observed f w1)"
  by (rule rtranclp.rtrancl_into_rtrancl, assumption) (rule pay_request.observed)

lemma run_reported: "sample_requests dispute_start (reported_world b)"
  unfolding reported_world_def credited_world_def
  by (rule then_served then_observed rtranclp.rtrancl_refl served_usecase.receive_deposit
      served_usecase.receive_infraction observed_usecase.waiting_deposit dispute_env_operations)+

lemma run_withdrawn: "sample_requests (reported_world b) (withdrawn_world b)"
  unfolding withdrawn_world_def
  by (rule then_served rtranclp.rtrancl_refl served_usecase.infraction_cancelled dispute_env_operations)+

lemma run_closing: "sample_requests (reported_world b) (closing_world b)"
  unfolding closing_world_def refund_world_def agreed_world_def
  by (rule then_served then_observed rtranclp.rtrancl_refl served_usecase.close_infraction
      observed_usecase.receive_pending_infraction observed_usecase.close_pending_infraction
      served_usecase.receive_refund observed_usecase.receive_pending_refund
      served_usecase.close_refund observed_usecase.close_pending_refund dispute_env_operations)+

lemma run_devolution: "sample_requests (closing_world b) (devolution_world b)"
  unfolding devolution_world_def
  by (rule then_observed rtranclp.rtrancl_refl observed_usecase.create_refund_devolution dispute_env_operations)+

lemma run_returned: "sample_requests (devolution_world b) (returned_world b)"
  unfolding returned_world_def returning_world_def
  by (rule then_observed rtranclp.rtrancl_refl observed_usecase.pending_refund_devolution
      observed_usecase.complete_refund_devolution dispute_env_operations)+

lemma dispute_platform: "platform_start dispute_start"
  using fresh_start by (simp add: dispute_start_def platform_start_def fresh_pay_world_def)

section \<open>Blocked amounts\<close>

definition without_blocks :: "ledger_service pay_world \<Rightarrow> bool" where
  "without_blocks w \<longleftrightarrow> platform_start w \<and> refundOperations (pw_db w) = []"

lemma dispute_without_blocks: "without_blocks dispute_start"
  using dispute_platform by (simp add: without_blocks_def dispute_start_def fresh_pay_world_def)

lemma platform_blocks:
  assumes "platform_requests e w w'" and "without_blocks w"
  shows "blocks_inv (ledger_view (pw_ledger w')) (refundOperations (pw_db w'))"
  using platform.requests_blocks(1) [OF assms(1)] assms(2)
  by (simp add: without_blocks_def platform_start_def)


lemma withdrawn_row:
  "map (\<lambda>x. (ro_refundOperation x, ro_state x, ro_refundValue x)) (refundOperations (pw_db (withdrawn_world True)))
     = [(''blk1'', RO_CLOSED, 1000)]"
  by code_simp


text \<open>
  Whatever requests follow, the row of a blocked amount keeps its customer, its infraction, the
  operation it was blocked for and what was blocked, and is never opened again once it is closed.
\<close>

theorem blocked_amounts_are_kept:
  assumes "platform_requests e w w1" and "without_blocks w" and "platform_requests e w1 w2"
    and "x \<in> set (refundOperations (pw_db w1))"
  shows "\<exists>y \<in> set (refundOperations (pw_db w2)). ro_id y = ro_id x \<and> ro_user y = ro_user x
    \<and> ro_pixInfraction y = ro_pixInfraction x \<and> ro_originalOperation y = ro_originalOperation x
    \<and> ro_originalValue y = ro_originalValue x \<and> ro_refundOperation y = ro_refundOperation x
    \<and> ro_refundValue y = ro_refundValue x \<and> (ro_state x = RO_CLOSED \<longrightarrow> ro_state y = RO_CLOSED)"
proof -
  from assms(2) have "platform_start w" by (simp add: without_blocks_def)
  from platform.requests_blocks_follow [OF assms(3) platform_sound(1) [OF assms(1) this]
      platform_blocks [OF assms(1,2)]] assms(4)
  obtain y where "y \<in> set (refundOperations (pw_db w2))" "block_follows x y"
    unfolding blocks_follow_def by blast
  with block_follows_fields [of x y] show ?thesis
    by (intro bexI [of _ y]) (auto simp: block_follows_def)
qed

lemma reported_row:
  "map (\<lambda>x. (ro_id x, ro_refundValue x)) (refundOperations (pw_db (reported_world True))) = [(''row1'', 1000)]"
  by code_simp

theorem blocked_amounts_are_kept_witness:
  "\<exists>y \<in> set (refundOperations (pw_db (returned_world True))). ro_id y = ''row1'' \<and> ro_refundValue y = 1000"
proof -
  from reported_row obtain x where x: "x \<in> set (refundOperations (pw_db (reported_world True)))"
    "ro_id x = ''row1''" "ro_refundValue x = 1000" by (auto simp: map_eq_Cons_conv)
  from blocked_amounts_are_kept [OF run_reported dispute_without_blocks
      rtranclp_trans [OF rtranclp_trans [OF run_closing run_devolution] run_returned] x(1)] x(2,3)
  show ?thesis by auto
qed

section \<open>Refunds\<close>

lemma emitPay_Inr:
  assumes "emitPay E event w = (Inr u, w')"
  shows "payOutbox (pw_db w') = payOutbox (pw_db w) @ [event]"
  using assms by (auto simp: emitPay_def Let_def throwS_def dbM_def modifyS_def split: if_splits)

lemma loadRefund_Inr:
  "loadRefund i w = (Inr x, w') \<Longrightarrow> w' = w \<and> PixRefundRepository_getById i (pw_db w) = Some x"
  by (auto simp: loadRefund_def needData_def throwWhen_def findS_def dbR_def readS_def orThrow_def
      result_simps returnS_def throwS_def split: if_splits option.splits)

lemma closed_again:
  assumes run: "HandleClosePendingPixRefundEventUseCase_execute E j i w = (Inr y, w')"
    and x: "PixRefundRepository_getById i (pw_db w) = Some x"
      "rf_state x = RF_CLOSED_PENDING \<or> rf_state x = RF_ERROR"
  shows "y = x\<lparr>rf_refundDevolution := Some j, rf_state := RF_CLOSED_WAITING\<rparr>
    \<and> RefundDevolutionEvent XE_CREATE (create_refund_devolution_event j y) \<in> set (payOutbox (pw_db w'))"
proof -
  let ?y = "x\<lparr>rf_refundDevolution := Some j, rf_state := RF_CLOSED_WAITING\<rparr>"
  let ?event = "RefundDevolutionEvent XE_CREATE (create_refund_devolution_event j ?y)"
  from run obtain x' w0 where "loadRefund i w = (Inr x', w0)"
    by (auto simp: HandleClosePendingPixRefundEventUseCase_execute_def bindS_Inr)
  with loadRefund_Inr [OF this] x(1) have "loadRefund i w = (Inr x, w)" by simp
  with run x(2) have run': "bindS (storeRefund E FE_CLOSED_WAITING ?y) (\<lambda>y.
      bindS (emitPay E (RefundDevolutionEvent XE_CREATE (create_refund_devolution_event j y))) (\<lambda>_. returnS y)) w
      = (Inr y, w')"
    by (auto simp: HandleClosePendingPixRefundEventUseCase_execute_def whenRefund_def bindS_def)
  then obtain y1 w1 where 1: "storeRefund E FE_CLOSED_WAITING ?y w = (Inr y1, w1)"
    and 2: "bindS (emitPay E (RefundDevolutionEvent XE_CREATE (create_refund_devolution_event j y1))) (\<lambda>_. returnS y1) w1
      = (Inr y, w')"
    by (auto simp: bindS_Inr)
  from 1 have "y1 = ?y" by (auto simp: storeRefund_def bindS_def returnS_def split: prod.splits sum.splits)
  with 2 show ?thesis by (auto simp: bindS_def returnS_def dest!: emitPay_Inr split: prod.splits sum.splits)
qed

text \<open>
  C12: a refund that is decided again, from an error or because its issue is closed twice, announces a
  second devolution but keeps naming the first: the event of the new devolution goes out, yet in every
  later state the refund still names the old one.
\<close>

theorem repeated_refund_keeps_first_devolution:
  assumes x: "PixRefundRepository_getById i (pw_db w) = Some x" "rf_refundDevolution x = Some first"
      "rf_state x = RF_CLOSED_PENDING \<or> rf_state x = RF_ERROR"
    and run: "HandleClosePendingPixRefundEventUseCase_execute E second i w = (Inr y, w1)"
    and later: "platform_requests e (observed (run (HandleClosePendingPixRefundEventUseCase_execute E second i)) w) w2"
  shows "rf_refundDevolution y = Some second \<and> rf_state y = RF_CLOSED_WAITING
    \<and> RefundDevolutionEvent XE_CREATE (create_refund_devolution_event second y) \<in> set (payOutbox (pw_db w1))
    \<and> (\<exists>z \<in> set (refunds (pw_db w2)). rf_id z = i \<and> rf_refundDevolution z = Some first)"
proof -
  have "rf_id x = i" and "x \<in> set (refunds (pw_db w))"
    using tbl_find_SomeD [of rf_id i "refunds (pw_db w)" x] x(1) by (simp_all add: PixRefundRepository_getById_def)
  moreover have "links_kept w (snd (HandleClosePendingPixRefundEventUseCase_execute E second i w))"
    using refund_links.refunds_inside(6) [of E "pe_operations E" second i] by (simp add: inside_def)
  with run have "links_kept w (observed (run (HandleClosePendingPixRefundEventUseCase_execute E second i)) w)"
    by (simp add: observed_def bindS_def returnS_def)
  with refund_links.requests_inside [OF later] have "links_kept w w2" by (blast intro: links_kept_trans)
  ultimately have "\<exists>z \<in> set (refunds (pw_db w2)). rf_id z = i \<and> rf_refundDevolution z = Some first"
    using x(2) unfolding links_kept_def by fastforce
  with closed_again [OF run x(1,3)] show ?thesis by auto
qed

definition reclosed_world :: "ledger_service pay_world" where
  "reclosed_world = served (run (ClosePixRefundUseCase_execute dispute_env 7 ''again'')) (closing_world True)"

definition twice_closed_world :: "ledger_service pay_world" where
  "twice_closed_world =
     observed (run (HandleClosePendingPixRefundEventUseCase_execute dispute_env ''rd2'' ''rf1'')) reclosed_world"

lemma reclosed_refund:
  "map_option (\<lambda>x. (rf_refundDevolution x, rf_state x)) (PixRefundRepository_getById ''rf1'' (pw_db reclosed_world))
     = Some (Some ''rd1'', RF_CLOSED_PENDING)"
  by code_simp

lemma reclosed_run:
  "isInr (fst (HandleClosePendingPixRefundEventUseCase_execute dispute_env ''rd2'' ''rf1'' reclosed_world))"
  by code_simp

theorem repeated_refund_keeps_first_devolution_witness:
  "\<exists>z \<in> set (refunds (pw_db twice_closed_world)). rf_id z = ''rf1'' \<and> rf_refundDevolution z = Some ''rd1''"
proof -
  from reclosed_refund obtain x where x: "PixRefundRepository_getById ''rf1'' (pw_db reclosed_world) = Some x"
    "rf_refundDevolution x = Some ''rd1''" "rf_state x = RF_CLOSED_PENDING" by auto
  obtain r w1 where run: "HandleClosePendingPixRefundEventUseCase_execute dispute_env ''rd2'' ''rf1'' reclosed_world
      = (r, w1)" by fastforce
  with reclosed_run obtain y where "r = Inr y" by (cases r) auto
  from repeated_refund_keeps_first_devolution [OF x(1,2) _ run [unfolded this] rtranclp.rtrancl_refl] x(3)
  show ?thesis unfolding twice_closed_world_def by blast
qed

definition blocks_untouched :: "'l pay_world \<Rightarrow> 'l pay_world \<Rightarrow> bool" where
  "blocks_untouched w w' \<longleftrightarrow> refunds (pw_db w') = refunds (pw_db w)
     \<and> refundOperations (pw_db w') = refundOperations (pw_db w) \<and> pw_ledger w' = pw_ledger w"

interpretation untouched: pay_relation blocks_untouched
  by unfold_locales (simp_all add: blocks_untouched_def)

lemma untouched_dbM:
  "(\<And>d. refunds (f d) = refunds d \<and> refundOperations (f d) = refundOperations d) \<Longrightarrow> inside blocks_untouched (dbM f)"
  by (rule untouched.inside_dbM) (simp add: blocks_untouched_def)

lemma untouched_steps:
  "inside blocks_untouched (giveBackReturned E v)" "inside blocks_untouched (storeRefundDevolution E event v)"
  by (auto simp: giveBackReturned_def storeRefundDevolution_def PixDepositRepository_update_def
      PixRefundDevolutionRepository_update_def intro!: frame untouched_dbM)

lemma loadRefundDevolution_Inr:
  "PixRefundDevolutionRepository_getById i (pw_db w) = Some v \<Longrightarrow> i \<noteq> [] \<Longrightarrow> loadRefundDevolution i w = (Inr v, w)"
  by (simp add: loadRefundDevolution_def needData_def needs_def missing_def throwWhen_def findS_def dbR_def
      readS_def bindS_def orThrow_def returnS_def)

lemma unnamed_throws:
  assumes "\<forall>x \<in> set (refunds (pw_db w)). rf_refundDevolution x \<noteq> Some (rd_id v)"
  shows "refundOfDevolution v w = (Inl (PixRefundNotFound None), w)"
  using assms by (simp add: refundOfDevolution_def findS_def dbR_def readS_def orThrow_def
      PixRefundRepository_getByRefundDevolution_def find_None_iff [THEN iffD2])

lemma unnamed_revert_throws:
  assumes "\<forall>x \<in> set (refunds (pw_db w)). rf_refundDevolution x \<noteq> Some (rd_id v)"
    and "os_getOperationById (pe_operations E) (rd_operation v) (pw_ledger w) = Inr (Some known)"
  shows "revertRefundBlocks E v w = (Inl (PixRefundNotFound None), w)"
  using assms by (simp add: revertRefundBlocks_def bindS_def ledgerR_def readS_def whenS_def unnamed_throws)

text \<open>
  C13: a devolution that no refund names, such as the second one of a repeated refund, can never be
  finished. When the PSP reports that the money has been returned, completing it fails and nothing is
  recorded; when the PSP reports a failure, the devolution is marked as failed, but the observer throws
  before what is blocked is released.
\<close>

theorem unnamed_devolution_never_finishes:
  assumes v: "PixRefundDevolutionRepository_getById i (pw_db w) = Some v" "rd_state v = DEV_WAITING" "i \<noteq> []"
    and unnamed: "\<forall>x \<in> set (refunds (pw_db w)). rf_refundDevolution x \<noteq> Some i"
    and known: "os_getOperationById (pe_operations E) (rd_operation v) (pw_ledger w) = Inr (Some known)"
  shows "HandleCompletePixRefundDevolutionEventUseCase_execute E i e2e w = (Inl (PixRefundNotFound None), w)
    \<and> (\<exists>ex w'. HandleRevertPixRefundDevolutionEventUseCase_execute E i reason failure w = (Inl ex, w')
        \<and> refundOperations (pw_db w') = refundOperations (pw_db w) \<and> pw_ledger w' = pw_ledger w)"
proof
  have id: "rd_id v = i" using v(1) tbl_find_SomeD [of rd_id i "refundDevolutions (pw_db w)" v]
    by (simp add: PixRefundDevolutionRepository_getById_def)
  note load = loadRefundDevolution_Inr [OF v(1,3)]
  from load unnamed_throws [of w v] unnamed id v(2)
  show "HandleCompletePixRefundDevolutionEventUseCase_execute E i e2e w = (Inl (PixRefundNotFound None), w)"
    by (simp add: HandleCompletePixRefundDevolutionEventUseCase_execute_def bindS_def)
  let ?q = "v\<lparr>rd_state := DEV_FAILED, rd_chargebackReason := reason, rd_failed := failure\<rparr>"
  let ?f = "bindS (giveBackReturned E v) (\<lambda>_. storeRefundDevolution E XE_FAILED ?q)"
  have revert: "HandleRevertPixRefundDevolutionEventUseCase_execute E i reason failure w
      = bindS ?f (\<lambda>x. bindS (revertRefundBlocks E x) (\<lambda>_. returnS x)) w"
    using load v(2)
    by (simp add: HandleRevertPixRefundDevolutionEventUseCase_execute_def bindS_assoc) (simp add: bindS_def)
  obtain r w1 where f: "?f w = (r, w1)" by fastforce
  have "inside blocks_untouched ?f" by (intro frame untouched_steps)
  with f have w1: "blocks_untouched w w1" by (rule inside_use [rotated])
  have "r = Inr x \<Longrightarrow> x = ?q" for x
    using f by (auto simp: storeRefundDevolution_def result_simps)
  with f w1 revert unnamed id known unnamed_revert_throws [of w1 ?q E known]
  show "\<exists>ex w'. HandleRevertPixRefundDevolutionEventUseCase_execute E i reason failure w = (Inl ex, w')
      \<and> refundOperations (pw_db w') = refundOperations (pw_db w) \<and> pw_ledger w' = pw_ledger w"
    by (cases r) (auto simp: bindS_def blocks_untouched_def)
qed

lemma twice_sent:
  "map_option (\<lambda>v. (rd_state v, rd_operation v)) (PixRefundDevolutionRepository_getById ''rd2'' (pw_db twice_sent_world))
     = Some (DEV_WAITING, ''blk2'')"
  "map rf_refundDevolution (refunds (pw_db twice_sent_world)) = [Some ''rd1'']"
  "os_getOperationById (operationService sample_ledger_env) ''blk2'' (pw_ledger twice_sent_world)
     = Inr (Some (PENDING, 400))"
  by code_simp+

theorem unnamed_devolution_never_finishes_witness:
  "HandleCompletePixRefundDevolutionEventUseCase_execute dispute_env ''rd2'' (Some ''E79'') twice_sent_world
     = (Inl (PixRefundNotFound None), twice_sent_world)"
proof -
  from twice_sent(1) obtain v where v: "PixRefundDevolutionRepository_getById ''rd2'' (pw_db twice_sent_world) = Some v"
    "rd_state v = DEV_WAITING" "rd_operation v = ''blk2''" by auto
  from twice_sent(2) have "\<forall>x \<in> set (refunds (pw_db twice_sent_world)). rf_refundDevolution x \<noteq> Some ''rd2''"
    by (auto simp: map_eq_Cons_conv)
  from unnamed_devolution_never_finishes [OF v(1,2) _ this] v(3) twice_sent(3) show ?thesis by simp
qed


lemma between_wallets:
  "map_option (\<lambda>v. (rd_state v, rd_operation v, rd_transaction v))
     (PixRefundDevolutionRepository_getById ''rd1'' (pw_db (devolution_world False))) = Some (DEV_PENDING, ''blk1'', Some ''dp1'')"
  "map ro_refundOperation (refundOperations (pw_db (devolution_world False))) = [''blk1'']"
  "map_option (\<lambda>t. bk_ispb (rt_thirdPartBank t)) (received
       (PixDepositRepository_getById ''dp1'' (pw_db (devolution_world False)))
       (PixDevolutionReceivedRepository_getById ''dp1'' (pw_db (devolution_world False))))
     = Some (pc_zroBankIspb (pe_cfg dispute_env))"
  by code_simp+


end
