(* ===== verification/Banking_Sync.thy ===== *)
theory Banking_Sync
  imports Banking_Lists
begin

text \<open>
  What bringing a list of banks up to date amounts to: the table that the loops of writes leave is a
  reference function of the table before and the download.
\<close>

section \<open>The reference\<close>

definition mirror_row :: "int \<Rightarrow> (listed_bank \<Rightarrow> bool) \<Rightarrow> listed_bank list \<Rightarrow> listed_bank \<Rightarrow> listed_bank" where
  "mirror_row now own downloaded b = (case find (\<lambda>x. lb_ispb x = lb_ispb b) downloaded of
     Some info \<Rightarrow> if upToDate b info then b else refreshed b info
   | None \<Rightarrow> if own b \<or> lb_deletedAt b \<noteq> None then b else b\<lparr>lb_deletedAt := Some now\<rparr>)"

definition mirrored :: "int \<Rightarrow> (listed_bank \<Rightarrow> bool) \<Rightarrow> listed_bank list \<Rightarrow> listed_bank list \<Rightarrow> listed_bank list" where
  "mirrored now own downloaded t = map (mirror_row now own downloaded) t @ newBanks t downloaded"

lemma refreshed_sel [simp]:
  "lb_id (refreshed b i) = lb_id b" "lb_ispb (refreshed b i) = lb_ispb b" "lb_code (refreshed b i) = lb_code b"
  "lb_name (refreshed b i) = lb_name i" "lb_fullName (refreshed b i) = lb_fullName i"
  "lb_deletedAt (refreshed b i) = None" "lb_active (refreshed b i) = lb_active b" "upToDate (refreshed b i) i"
  by (simp_all add: refreshed_def upToDate_def)

lemma mirror_row_sel [simp]:
  "lb_id (mirror_row n own ds b) = lb_id b" "lb_ispb (mirror_row n own ds b) = lb_ispb b"
  by (simp_all add: mirror_row_def split: option.split)

lemma find_ispb:
  "find (\<lambda>x. lb_ispb x = i) ds = None \<longleftrightarrow> i \<notin> lb_ispb ` set ds"
  unfolding find_None_iff by (auto simp: image_iff)

section \<open>Rows overwritten one by one\<close>

lemma fold_overwrite:
  assumes "distinct (map key xs)" and "\<And>b x. key b = key x \<Longrightarrow> key (h b x) = key x"
  shows "fold (\<lambda>b. map (\<lambda>x. if key x = key b then h b x else x)) xs t
    = map (\<lambda>x. case find (\<lambda>b. key b = key x) xs of None \<Rightarrow> x | Some b \<Rightarrow> h b x) t"
  using assms(1)
proof (induction xs arbitrary: t)
  case (Cons y ys)
  from Cons.prems have "find (\<lambda>b. key b = key y) ys = None"
    by (simp add: find_None_iff) (metis image_eqI)
  with Cons show ?case by (auto simp: assms(2) split: option.split)
qed simp

lemma find_filter_key:
  assumes "distinct (map key xs)" and "x \<in> set xs"
  shows "find (\<lambda>b. key b = key x) (filter P xs) = (if P x then Some x else None)"
  using assms
proof (induction xs)
  case (Cons y ys)
  show ?case
  proof (cases "x = y")
    case True
    from Cons.prems(1) have "find (\<lambda>b. key b = key y) (filter P ys) = None"
      by (simp add: find_None_iff) (metis image_eqI)
    with True show ?thesis by simp
  next
    case False
    with Cons show ?thesis by auto
  qed
qed simp

section \<open>A table of banks\<close>

locale bank_list =
  fixes get :: bank_table and upd :: bank_table_update
  assumes get_upd [simp]: "get (upd f d) = f (get d)"
    and get_outbox [simp]: "get (d\<lparr>tedOutbox := es\<rparr>) = get d"
begin

lemma promisedThen_done:
  assumes "promisedThen E f e w = (Inr rs, w')" and "\<forall>r \<in> set rs. isInr r"
  shows "\<exists>d. f (tw_db w) = Inr d \<and> get (tw_db w') = get d"
  using assms
  by (auto simp: promisedThen_def promised_def emitTed_def tedR_def tedM_def Let_def result_simps
      split: sum.splits if_splits)

lemma creates_done:
  assumes "issueAll (\<lambda>b. promisedThen E (bank_create c get upd b) (ev b)) xs w = (Inr rs, w')"
    and "\<forall>r \<in> set rs. isInr r"
  shows "get (tw_db w') = get (tw_db w) @ xs \<and> lb_id ` set xs \<inter> lb_id ` set (get (tw_db w)) = {}"
  using assms
proof (induction xs arbitrary: w rs)
  case (Cons b bs)
  then obtain r1 w1 r2 where 1: "promisedThen E (bank_create c get upd b) (ev b) w = (Inr r1, w1)"
      and 2: "issueAll (\<lambda>b. promisedThen E (bank_create c get upd b) (ev b)) bs w1 = (Inr r2, w')"
      and rs: "rs = r1 @ r2" by (auto simp: result_simps)
  from promisedThen_done [OF 1] Cons.prems(2) rs obtain d where
      "bank_create c get upd b (tw_db w) = Inr d" "get (tw_db w1) = get d" by auto
  then have "get (tw_db w1) = get (tw_db w) @ [b]" "lb_id b \<notin> lb_id ` set (get (tw_db w))"
    by (auto simp: bank_create_def taken_def tbl_insert_def list_ex_iff split: if_splits)
  with Cons.IH [OF 2] Cons.prems(2) rs show ?case by auto
qed (simp add: result_simps)

lemma writes_done:
  assumes "issueAll (\<lambda>b. if skip b then returnS []
      else promisedThen E (\<lambda>d. Inr (upd (map (\<lambda>x. if lb_id x = lb_id b then h b x else x)) d)) (ev b)) xs w
      = (Inr rs, w')"
    and "\<forall>r \<in> set rs. isInr r"
  shows "get (tw_db w')
    = fold (\<lambda>b. map (\<lambda>x. if lb_id x = lb_id b then (if skip b then x else h b x) else x)) xs (get (tw_db w))"
  using assms
proof (induction xs arbitrary: w rs)
  case (Cons b bs)
  then obtain r1 w1 r2 where 1: "(if skip b then returnS []
        else promisedThen E (\<lambda>d. Inr (upd (map (\<lambda>x. if lb_id x = lb_id b then h b x else x)) d)) (ev b)) w
        = (Inr r1, w1)"
      and 2: "issueAll (\<lambda>b. if skip b then returnS []
        else promisedThen E (\<lambda>d. Inr (upd (map (\<lambda>x. if lb_id x = lb_id b then h b x else x)) d)) (ev b)) bs w1
        = (Inr r2, w')"
      and rs: "rs = r1 @ r2" by (auto simp: result_simps)
  have "get (tw_db w1) = map (\<lambda>x. if lb_id x = lb_id b then (if skip b then x else h b x) else x) (get (tw_db w))"
  proof (cases "skip b")
    case True
    with 1 show ?thesis by (simp add: result_simps map_idI)
  next
    case False
    with 1 promisedThen_done [of E _ "ev b" w r1 w1] Cons.prems(2) rs show ?thesis by fastforce
  qed
  with Cons.IH [OF 2] Cons.prems(2) rs show ?case by simp
qed (simp add: result_simps)

lemma awaitAll_done: "awaitAll rs w = (Inr u, w') \<longleftrightarrow> (\<forall>r \<in> set rs. isInr r) \<and> w' = w"
proof (cases "find (\<lambda>r. \<not> isInr r) rs")
  case None
  then show ?thesis
    by (simp add: awaitAll_def result_simps) (use None in \<open>auto simp: find_None_iff\<close>)
next
  case (Some r)
  then have r: "r \<in> set rs" "\<not> isInr r" by (auto simp: find_Some_iff)
  from r(2) obtain e where "r = Inl e" by (cases r rule: sum.exhaust) auto
  with r Some show ?thesis by (auto simp: awaitAll_def result_simps intro!: bexI [of _ "Inl e"])
qed

lemma issueAll_cong: "(\<And>x. x \<in> set xs \<Longrightarrow> f x = g x) \<Longrightarrow> issueAll f xs = issueAll g xs"
  by (induction xs) simp_all

lemma updated_listed:
  "b \<in> set (updateBanks t ds) \<Longrightarrow> \<exists>info. find (\<lambda>x. lb_ispb x = lb_ispb b) ds = Some info"
  by (rule ccontr) (auto simp: updateBanks_def find_None_iff)

text \<open>The three loops, one after the other.\<close>

lemma syncBanks_done:
  assumes sync: "syncBanks E c get upd event own ds w = (Inr u, w')" and ds: "ds \<noteq> []"
    and ids: "distinct (map lb_id (get (tw_db w)))"
  shows "get (tw_db w') = mirrored (ted_now E) own ds (get (tw_db w))"
proof -
  let ?t = "get (tw_db w)" and ?n = "newBanks (get (tw_db w)) ds"
  let ?skip = "\<lambda>b. own b \<or> lb_deletedAt b \<noteq> None" and ?del = "\<lambda>x. x\<lparr>lb_deletedAt := Some (ted_now E)\<rparr>"
  let ?info = "\<lambda>b. the (find (\<lambda>x. lb_ispb x = lb_ispb b) ds)"
  let ?create = "issueAll (\<lambda>b. promisedThen E (bank_create c get upd b) (event LIST_CREATED b)) ?n"
  let ?delete = "issueAll (\<lambda>b. if ?skip b then returnS []
    else promisedThen E (\<lambda>d. Inr (bank_delete upd (ted_now E) b d)) (event LIST_DELETED b)) (deleteBanks ?t ds)"
  let ?update = "issueAll (\<lambda>b. if upToDate b (?info b) then returnS []
    else promisedThen E (\<lambda>d. Inr (bank_update upd (refreshed b (?info b)) d))
      (event LIST_UPDATED (refreshed b (?info b)))) (updateBanks ?t ds)"
  have "issueAll (\<lambda>b. case find (\<lambda>x. lb_ispb x = lb_ispb b) ds of None \<Rightarrow> throwS TedTypeError
      | Some info \<Rightarrow> if upToDate b info then returnS []
          else promisedThen E (\<lambda>d. Inr (bank_update upd (refreshed b info) d)) (event LIST_UPDATED (refreshed b info)))
      (updateBanks ?t ds) = ?update"
    by (rule issueAll_cong) (auto dest: updated_listed)
  with sync ds obtain r1 w1 r2 w2 r3 where 1: "?create w = (Inr r1, w1)" and 2: "?delete w1 = (Inr r2, w2)"
      and 3: "?update w2 = (Inr r3, w')" and r: "\<forall>r \<in> set (r1 @ r2 @ r3). isInr r"
    by (auto simp: syncBanks_def result_simps tedR_def awaitAll_done)
  from creates_done [OF 1] r have c: "get (tw_db w1) = ?t @ ?n" "lb_id ` set ?n \<inter> lb_id ` set ?t = {}" by auto
  have "get (tw_db w2) = fold (\<lambda>b. map (\<lambda>x. if lb_id x = lb_id b then (if ?skip b then x else ?del x) else x))
      (deleteBanks ?t ds) (?t @ ?n)"
    using writes_done [OF 2 [unfolded bank_delete_def]] r c(1) by simp
  also have "\<dots> = map (\<lambda>x. case find (\<lambda>b. lb_id b = lb_id x) (deleteBanks ?t ds) of None \<Rightarrow> x
      | Some b \<Rightarrow> if ?skip b then x else ?del x) (?t @ ?n)"
    by (rule fold_overwrite) (simp_all add: deleteBanks_def distinct_map_filter ids)
  finally have d: "get (tw_db w2) = \<dots>" .
  have "get (tw_db w') = fold (\<lambda>b. map (\<lambda>x. if lb_id x = lb_id b
      then (if upToDate b (?info b) then x else refreshed b (?info b)) else x)) (updateBanks ?t ds) (get (tw_db w2))"
    using writes_done [OF 3 [unfolded bank_update_def tbl_update_def refreshed_sel]] r by simp
  also have "\<dots> = map (\<lambda>x. case find (\<lambda>b. lb_id b = lb_id x) (updateBanks ?t ds) of None \<Rightarrow> x
      | Some b \<Rightarrow> if upToDate b (?info b) then x else refreshed b (?info b)) (get (tw_db w2))"
    by (rule fold_overwrite) (simp_all add: updateBanks_def distinct_map_filter ids)
  finally have e: "get (tw_db w') = \<dots>" .
  have old: "find (\<lambda>b. lb_id b = lb_id x) (deleteBanks ?t ds)
        = (if find (\<lambda>y. lb_ispb y = lb_ispb x) ds = None then Some x else None)"
      "find (\<lambda>b. lb_id b = lb_id x) (updateBanks ?t ds)
        = (if find (\<lambda>y. lb_ispb y = lb_ispb x) ds = None then None else Some x)" if "x \<in> set ?t" for x
    unfolding deleteBanks_def updateBanks_def find_filter_key [OF ids that]
    by (auto simp: find_ispb)
  have new: "find (\<lambda>b. lb_id b = lb_id x) (deleteBanks ?t ds) = None"
      "find (\<lambda>b. lb_id b = lb_id x) (updateBanks ?t ds) = None" if "x \<in> set ?n" for x
    using that c(2) by (auto simp: find_None_iff deleteBanks_def updateBanks_def)
  show ?thesis
    unfolding e d mirrored_def map_append map_map
    by (intro arg_cong2 [of _ _ _ _ append] map_cong refl)
      (auto simp: old mirror_row_def split: option.split if_splits, simp_all add: new map_idI)
qed

text \<open>A table that mirrors the download is left alone, and no event is emitted.\<close>

lemma issueAll_skip: "(\<And>x. x \<in> set xs \<Longrightarrow> f x = returnS []) \<Longrightarrow> issueAll f xs w = (Inr [], w)"
  by (induction xs) (simp_all add: result_simps bindS_def returnS_def)

lemma syncBanks_settled:
  assumes ds: "ds \<noteq> []" and all: "newBanks (get (tw_db w)) ds = []"
    and rows: "\<And>b. b \<in> set (get (tw_db w)) \<Longrightarrow> mirror_row now own ds b = b"
  shows "syncBanks E c get upd event own ds w = (Inr (), w)"
proof -
  have del: "own b \<or> lb_deletedAt b \<noteq> None" if "b \<in> set (deleteBanks (get (tw_db w)) ds)" for b
  proof (rule ccontr)
    assume n: "\<not> (own b \<or> lb_deletedAt b \<noteq> None)"
    from that have b: "b \<in> set (get (tw_db w))" "find (\<lambda>x. lb_ispb x = lb_ispb b) ds = None"
      by (simp_all add: deleteBanks_def find_ispb)
    from rows [OF b(1)] n b(2) have "b\<lparr>lb_deletedAt := Some now\<rparr> = b" by (simp add: mirror_row_def)
    then have "lb_deletedAt (b\<lparr>lb_deletedAt := Some now\<rparr>) = lb_deletedAt b" by simp
    with n show False by simp
  qed
  have upto: "upToDate b info" if "b \<in> set (updateBanks (get (tw_db w)) ds)"
      "find (\<lambda>x. lb_ispb x = lb_ispb b) ds = Some info" for b info
  proof -
    from that(1) rows have "mirror_row now own ds b = b" by (simp add: updateBanks_def)
    with that(2) have "upToDate b info \<or> refreshed b info = b"
      by (simp add: mirror_row_def split: if_splits)
    then show ?thesis by (metis refreshed_sel(8))
  qed
  have "issueAll (\<lambda>b. if own b \<or> lb_deletedAt b \<noteq> None then returnS []
      else promisedThen E (\<lambda>d. Inr (bank_delete upd (ted_now E) b d)) (event LIST_DELETED b))
      (deleteBanks (get (tw_db w)) ds) w = (Inr [], w)"
    using del by (intro issueAll_skip) auto
  moreover have "issueAll (\<lambda>b. case find (\<lambda>x. lb_ispb x = lb_ispb b) ds of None \<Rightarrow> throwS TedTypeError
      | Some info \<Rightarrow> if upToDate b info then returnS []
          else promisedThen E (\<lambda>d. Inr (bank_update upd (refreshed b info) d)) (event LIST_UPDATED (refreshed b info)))
      (updateBanks (get (tw_db w)) ds) w = (Inr [], w)"
    using upto by (intro issueAll_skip) (frule updated_listed, auto)
  ultimately show ?thesis
    using ds all by (simp add: syncBanks_def bindS_def tedR_def readS_def returnS_def awaitAll_def)
qed

end

interpretation bank_rows: bank_list listedBanks listedBanks_update
  by unfold_locales simp_all

interpretation ted_rows: bank_list bankTeds bankTeds_update
  by unfold_locales simp_all

section \<open>What the reference does\<close>

definition in_force :: "listed_bank list \<Rightarrow> string set" where
  "in_force t = lb_ispb ` {b \<in> set t. lb_deletedAt b = None}"

lemma mirror_row_active:
  "lb_deletedAt (mirror_row now own ds b) = None
     \<longleftrightarrow> lb_ispb b \<in> lb_ispb ` set ds \<or> own b \<and> lb_deletedAt b = None"
proof (cases "find (\<lambda>x. lb_ispb x = lb_ispb b) ds")
  case None
  then have "lb_ispb b \<notin> lb_ispb ` set ds" by (simp add: find_ispb)
  with None show ?thesis by (auto simp: mirror_row_def)
next
  case (Some info)
  then have "lb_ispb b \<in> lb_ispb ` set ds" using find_ispb [of "lb_ispb b" ds] by auto
  with Some show ?thesis by (auto simp: mirror_row_def upToDate_def)
qed

lemma mirrored_in_force:
  assumes "\<forall>b \<in> set ds. lb_deletedAt b = None"
  shows "in_force (mirrored now own ds t) = lb_ispb ` set ds \<union> in_force (filter own t)"
  using assms unfolding in_force_def mirrored_def newBanks_def
  by (auto simp: mirror_row_active image_iff) (metis mirror_row_active mirror_row_sel(2) image_eqI)+

lemma mirrored_settled:
  assumes "\<forall>b \<in> set ds. lb_deletedAt b = None" and "distinct (map lb_ispb ds)"
    and own: "\<And>b. own (mirror_row now own ds b) = own b"
    and "b \<in> set (mirrored now own ds t)"
  shows "mirror_row now' own ds b = b"
proof -
  consider x where "x \<in> set t" "b = mirror_row now own ds x" | "b \<in> set ds"
    using assms(4) by (auto simp: mirrored_def newBanks_def)
  then show ?thesis
  proof cases
    case 1
    then show ?thesis using own [of x]
      by (auto simp: mirror_row_def [of now'] split: option.split) (auto simp: mirror_row_def split: if_splits option.splits)
  next
    case 2
    with assms(2) have "find (\<lambda>x. lb_ispb x = lb_ispb b) ds = Some b"
      using find_filter_key [of lb_ispb ds b "\<lambda>_. True"] by simp
    with 2 assms(1) show ?thesis by (simp add: mirror_row_def upToDate_def)
  qed
qed

lemma mirrored_complete: "newBanks (mirrored now own ds t) ds = []"
  by (auto simp: newBanks_def mirrored_def filter_empty_conv image_iff)

end
