(* ===== verification/Banking_Platform.thy ===== *)
theory Banking_Platform
  imports Sample_Payments
begin

text \<open>
  The banking service beside the operations service: how the default wallet of a user is looked up,
  and transfers on the sample platform. Ann sends 30.00 to another bank, more than she has to another
  bank, and 30.00 to Bob, whose transfer is then rejected.
\<close>

section \<open>The default wallet of a user\<close>

definition WalletRepository_getByUserAndDefaultIsTrue :: "string \<Rightarrow> db \<Rightarrow> wallet option" where
  "WalletRepository_getByUserAndDefaultIsTrue u d =
     find (\<lambda>x. user_uuid (w_user x) = u \<and> w_default x) (wallets d)"

definition GetWalletByUserAndDefaultIsTrueUseCase_execute :: "string \<Rightarrow> db \<Rightarrow> wallet option uc" where
  "GetWalletByUserAndDefaultIsTrueUseCase_execute u d =
     (if u = [] then Inl (MissingDataException [''User''])
      else Inr (WalletRepository_getByUserAndDefaultIsTrue u d))"

definition getWalletByUserAndDefaultIsTrue :: "string \<Rightarrow> ledger_service \<Rightarrow> pay_exn + default_wallet option" where
  "getWalletByUserAndDefaultIsTrue u l = map_sum id
     (map_option (\<lambda>x. \<lparr> dw_uuid = w_uuid x, dw_user = user_uuid (w_user x), dw_active = wallet_isActive x \<rparr>))
     (askLedger (GetWalletByUserAndDefaultIsTrueUseCase_execute u) l)"

section \<open>Sample transfers\<close>

definition sample_ted_config :: ted_config where
  "sample_ted_config = \<lparr> tc_currencyTag = ''REAL'', tc_intervalHour = (''06:00'', ''23:59''),
     tc_tedP2PTag = ''P2PBT'', tc_tedTag = ''WITHDRAW'', tc_tedP2PDescription = ''Ted'',
     tc_tedDescription = ''Ted'', tc_failureTag = ''PIXREC'', tc_failureDescription = ''Ted returned'',
     tc_zroBankCode = ''264'', tc_zroBankIspb = ''26264220'' \<rparr>"

definition sample_ted_env :: "ledger_service ted_env" where
  "sample_ted_env = \<lparr> te_cfg = sample_ted_config, te_moment = sample_moment, te_weekday = 5,
     te_uuid = ''tx1'', te_operations = operationService sample_ledger_env,
     te_getDefaultWallet = getWalletByUserAndDefaultIsTrue,
     te_getUser = (\<lambda>u. Inr (Some \<lparr> tu_id = 1, tu_document = ''11111111111'', tu_fullName = ''Ann'' \<rparr>)),
     te_getOnboarding = (\<lambda>_. Inr (Some ())),
     te_getOnboardingByAccount = (\<lambda>n. Inr (if n = ''2020'' then Some ''bob'' else None)),
     te_getHoliday = (\<lambda>_. Inr None), te_psp = (\<lambda>_. Inr ()),
     te_validators = \<lparr> v_isEmail = (\<lambda>_. True), v_isCpf = (\<lambda>s. length s = 11),
       v_isCnpj = (\<lambda>s. length s = 14), v_isUUID = (\<lambda>_. True) \<rparr> \<rparr>"

definition bank_row :: "string \<Rightarrow> string \<Rightarrow> string \<Rightarrow> listed_bank" where
  "bank_row i ispb c = \<lparr> lb_id = i, lb_ispb = ispb, lb_code = c, lb_name = ''bank'', lb_fullName = ''bank'',
     lb_active = True, lb_deletedAt = None \<rparr>"

definition ted_start_world :: "ledger_service ted_world" where
  "ted_start_world = \<lparr> tw_db = \<lparr> teds = [], tedFailures = [], tedsReceived = [], contacts = [],
       accountContacts = [], listedBanks = [bank_row ''b1'' ''26264220'' [], bank_row ''b2'' ''60701190'' []],
       bankTeds = [bank_row ''t1'' ''26264220'' ''264'', bank_row ''t2'' ''60701190'' ''341''],
       cities = [], adminTeds = [], adminAccounts = [], tedOutbox = [] \<rparr>,
     tw_calls = [], tw_ledger = fresh_ledger \<rparr>"

definition sample_ted_request :: "string \<Rightarrow> int \<Rightarrow> ted_request" where
  "sample_ted_request bank a = \<lparr> rp_bankCode = bank, rp_bankName = Some ''bank'', rp_name = ''Bob'',
     rp_type = ''NATURAL'', rp_document = ''22222222222'', rp_agency = ''1'', rp_account = ''202'',
     rp_accountDigit = ''0'', rp_accountType = ''CACC'', to_user = ''ann'', to_wallet = ''wa'',
     to_operation = ''opT'', to_amount = a \<rparr>"

definition ted_ordered :: "string \<Rightarrow> int \<Rightarrow> ledger_service ted_world" where
  "ted_ordered bank a =
     tedServed (CreateBankingTedController_execute sample_ted_env (sample_ted_request bank a)) ted_start_world"

definition ted_handled :: "string \<Rightarrow> int \<Rightarrow> ledger_service ted_world" where
  "ted_handled bank a =
     tedObserved (HandlePendingBankingTedEventUseCase_execute sample_ted_env 1 ''wa'') (ted_ordered bank a)"

definition ted_rejected :: "ledger_service ted_world" where
  "ted_rejected = tedServed (RejectBankingTedUseCase_execute sample_ted_env 1 None None) (ted_handled ''264'' 3000)"

lemma handled_ted:
  "map (\<lambda>t. (bt_state t, bt_operation t, bt_transactionId t, bt_amount t)) (teds (tw_db (ted_handled ''341'' 3000)))
     = [(TED_WAITING, ''opT'', Some ''tx1'', 3000)]"
  by code_simp

lemma rejected_ted:
  "map (\<lambda>f. (fl_ted f, fl_operation f)) (tedFailures (tw_db ted_rejected)) = [(1, ''tx1'')]"
  by code_simp

lemma unfunded_ted:
  "map (\<lambda>t. (bt_id t, bt_state t, bt_amount t)) (teds (tw_db (ted_ordered ''341'' 10000000)))
     = [(1, TED_PENDING, 10000000)]"
  by code_simp

text \<open>
  A transfer to another wallet that was carried out can still be rejected: the payer gets the money
  back and the recipient keeps it, so the platform holds more money than before.
\<close>

definition money_held :: "ledger_service ted_world \<Rightarrow> int" where
  "money_held w = sum_list (map balance (walletAccounts (the_db (ls_world (tw_ledger w)))))"

lemma rejected_p2p_transfer_creates_money:
  "money_held ted_rejected = money_held ted_start_world + 3000"
  by code_simp

end
