(* ===== verification/Banking_Safety.thy ===== *)
theory Banking_Safety
  imports Banking_Sync Banking_Platform Payment_Safety
begin

text \<open>
  Properties of the transfers, with the operations service of apps/operations behind its client, and
  of the lists of banks.
\<close>

section \<open>Transfers and the ledger\<close>

abbreviation ted_requests ::
    "ledger_env \<Rightarrow> ledger_service ted_world \<Rightarrow> ledger_service ted_world \<Rightarrow> bool" where
  "ted_requests e \<equiv> (banking_request (operationService e) other_requests)\<^sup>*\<^sup>*"

definition no_transfers :: "ledger_service ted_world \<Rightarrow> bool" where
  "no_transfers w \<longleftrightarrow> ledger_sound (tw_ledger w) \<and> teds (tw_db w) = [] \<and> tedFailures (tw_db w) = []"

abbreviation ted_ledger :: "ledger_service ted_world \<Rightarrow> db" where
  "ted_ledger w \<equiv> the_db (ls_world (tw_ledger w))"

lemma teds_sound:
  assumes "ted_requests e w w'" and "no_transfers w"
  shows "ledger_sound (tw_ledger w')"
    and "ted_inv (ledger_view (tw_ledger w')) (teds (tw_db w')) (tedFailures (tw_db w'))"
  using platform.ted_requests_move [OF assms(1)] assms(2)
  by (simp_all add: ted_moves_def ted_sound_def no_transfers_def ted_inv_def tbl_wf_def)

lemma entries_viewed:
  assumes "ledger_sound (tw_ledger w)" and "ledger_view (tw_ledger w) i = Some (ACCEPTED, u, x)"
  obtains p :: operation where "entries_of_operation i (ted_ledger w)
      = (case ownerWalletAccount p of None \<Rightarrow> [] | Some k \<Rightarrow> [(k, DEBIT, x)])
        @ (case beneficiaryWalletAccount p of None \<Rightarrow> [] | Some k \<Rightarrow> [(k, CREDIT, x)])"
    and "Option.bind (ownerWalletAccount p) (wallet_of (ted_ledger w)) = u"
proof -
  from assms(2) obtain p where p: "OperationRepository_getById i (ted_ledger w) = Some p" "op_state p = ACCEPTED"
      "u = Option.bind (ownerWalletAccount p) (wallet_of (ted_ledger w))" "x = op_value p"
    by (auto simp: ledger_view_def operations_view_def)
  from assms(1) p(1,2) have "entries_of_operation i (ted_ledger w) = expected_entries (Some p)"
    by (simp add: ledger_sound_def books_sound_def entries_match_def)
  with p show ?thesis by (intro that [of p]) (auto simp: expected_entries_def isAccepted_def split: option.split)
qed

lemma paid_entries:
  assumes "ledger_sound (tw_ledger w)" and "paid (ledger_view (tw_ledger w)) t"
  shows "\<exists>k credit. wallet_of (ted_ledger w) k \<noteq> None
    \<and> entries_of_operation (bt_operation t) (ted_ledger w) = (k, DEBIT, bt_amount t) # credit
    \<and> (\<forall>(_, ty, x) \<in> set credit. ty = CREDIT \<and> x = bt_amount t)"
proof -
  from assms(2) obtain u where "ledger_view (tw_ledger w) (bt_operation t) = Some (ACCEPTED, Some u, bt_amount t)"
    by (auto simp: paid_def)
  from entries_viewed [OF assms(1) this] obtain p :: operation where
      e: "entries_of_operation (bt_operation t) (ted_ledger w)
        = (case ownerWalletAccount p of None \<Rightarrow> [] | Some k \<Rightarrow> [(k, DEBIT, bt_amount t)])
          @ (case beneficiaryWalletAccount p of None \<Rightarrow> [] | Some k \<Rightarrow> [(k, CREDIT, bt_amount t)])"
      and o: "Option.bind (ownerWalletAccount p) (wallet_of (ted_ledger w)) = Some u" by blast
  from o obtain k where "ownerWalletAccount p = Some k" "wallet_of (ted_ledger w) k = Some u"
    by (auto simp: bind_eq_Some_conv)
  with e show ?thesis by (auto split: option.splits)
qed

lemma ted_start: "no_transfers ted_start_world"
  using fresh_start
  by (simp add: no_transfers_def ted_start_world_def platform_start_def fresh_pay_world_def)

lemma sample_ted_operations [simp]: "te_operations sample_ted_env = operationService sample_ledger_env"
  by (simp add: sample_ted_env_def)

lemma run_ted_ordered: "ted_requests sample_ledger_env ted_start_world (ted_ordered bank a)"
  unfolding ted_ordered_def by (intro r_into_rtranclp banking_request.ted_create) simp

lemma run_ted_handled: "ted_requests sample_ledger_env (ted_ordered bank a) (ted_handled bank a)"
  unfolding ted_handled_def by (intro r_into_rtranclp banking_request.ted_pending) simp

lemmas run_ted_both = rtranclp_trans [OF run_ted_ordered run_ted_handled]

lemma run_ted_rejected: "ted_requests sample_ledger_env ted_start_world ted_rejected"
  unfolding ted_rejected_def
  by (rule rtranclp.rtrancl_into_rtrancl [OF run_ted_both], rule banking_request.ted_reject) simp

text \<open>
  C5: over every sequence of requests to the banking service and the operations service, a transfer
  that was sent, to the PSP or to another wallet, is paid: an account of a wallet has exactly one
  debit of its amount, a positive one, for an operation that no other transfer names.
\<close>

theorem sent_transfers_are_paid_once:
  assumes "ted_requests e w w'" and "no_transfers w" and "t \<in> set (teds (tw_db w'))" and "sent t"
  shows "0 < bt_amount t
    \<and> (\<exists>k credit. wallet_of (ted_ledger w') k \<noteq> None
        \<and> entries_of_operation (bt_operation t) (ted_ledger w') = (k, DEBIT, bt_amount t) # credit
        \<and> (\<forall>(_, ty, x) \<in> set credit. ty = CREDIT \<and> x = bt_amount t))
    \<and> (\<forall>t2 \<in> set (teds (tw_db w')). bt_operation t2 = bt_operation t \<longrightarrow> t2 = t)"
proof -
  note sound = teds_sound [OF assms(1,2)]
  from sound(2) assms(3,4) have "paid (ledger_view (tw_ledger w')) t" "0 < bt_amount t"
      "inj_on bt_operation (set (teds (tw_db w')))"
    by (auto simp: ted_inv_def distinct_map)
  with paid_entries [OF sound(1)] assms(3) show ?thesis by (auto dest: inj_onD)
qed

theorem sent_transfers_are_paid_once_witness:
  "\<exists>k credit. entries_of_operation ''opT'' (ted_ledger (ted_handled ''341'' 3000)) = (k, DEBIT, 3000) # credit"
proof -
  from handled_ted obtain t where t: "t \<in> set (teds (tw_db (ted_handled ''341'' 3000)))" "bt_state t = TED_WAITING"
      "bt_operation t = ''opT''" "bt_amount t = 3000"
    by (auto simp: Cons_eq_map_conv map_eq_Cons_conv)
  then have "sent t" by (simp add: sent_def)
  from sent_transfers_are_paid_once [OF run_ted_both ted_start t(1) this] t(3,4) show ?thesis by auto
qed



text \<open>
  C7: whatever requests follow, a transfer keeps its user, its amount, its recipient and its
  operation and moves only forward through its states, a failed one never changes again, and no
  record of a failure disappears.
\<close>

theorem transfers_follow_their_life_cycle:
  assumes "ted_requests e w w1" and "no_transfers w" and "ted_requests e w1 w2"
    and "t \<in> set (teds (tw_db w1))"
  shows "(\<exists>t' \<in> set (teds (tw_db w2)). bt_id t' = bt_id t \<and> bt_user t' = bt_user t
      \<and> bt_amount t' = bt_amount t \<and> bt_operation t' = bt_operation t
      \<and> recipient.truncate t' = recipient.truncate t
      \<and> bt_state t' \<in> later_ted_states (bt_state t) \<and> (bt_state t = TED_FAILED \<longrightarrow> t' = t))
    \<and> set (tedFailures (tw_db w1)) \<subseteq> set (tedFailures (tw_db w2))"
proof -
  from teds_sound [OF assms(1,2)] have "ted_sound ledger_sound ledger_view w1" by (simp add: ted_sound_def)
  with platform.ted_requests_move [OF assms(3)] have "teds_follow (tw_db w1) (tw_db w2)"
    by (simp add: ted_moves_def)
  with assms(4) show ?thesis by (auto simp: teds_follow_def ted_follows_def)
qed

theorem transfers_follow_their_life_cycle_witness:
  "\<exists>t \<in> set (teds (tw_db (ted_handled ''341'' 10000000))). bt_id t = 1 \<and> bt_amount t = 10000000"
proof -
  from unfunded_ted obtain t where "t \<in> set (teds (tw_db (ted_ordered ''341'' 10000000)))"
      "bt_id t = 1" "bt_amount t = 10000000"
    by (auto simp: Cons_eq_map_conv map_eq_Cons_conv)
  with transfers_follow_their_life_cycle [OF run_ted_ordered ted_start run_ted_handled this(1)]
  show ?thesis by auto
qed

section \<open>Transfers without funds\<close>


lemma unfunded_order:
  "map_option (\<lambda>t. (bt_state t, bt_user t, bt_operation t, rp_bankCode t, bt_amount t))
     (BankingTedRepository_getById 1 (tw_db (ted_ordered ''341'' 10000000)))
       = Some (TED_PENDING, ''ann'', ''opT'', ''341'', 10000000)"
  by code_simp

abbreviation unfunded_world :: "ledger_service ted_world" where
  "unfunded_world \<equiv> ted_ordered ''341'' 10000000"

lemma no_calls_yet: "tw_calls unfunded_world = []"
  by code_simp

definition payer_account :: account_info where
  "payer_account = (case os_getWalletAccountByWallet (operationService sample_ledger_env) ''wa'' ''REAL'' (tw_ledger unfunded_world) of
     Inr (Some a) \<Rightarrow> a | _ \<Rightarrow> \<lparr>ai_id = 0, ai_wallet = [], ai_user = [], ai_active = False, ai_accountNumber = [], ai_branchNumber = []\<rparr>)"

definition unfunded_answer :: "(pay_exn + unit) \<times> ledger_service" where
  "unfunded_answer = os_createAndAcceptOperation (operationService sample_ledger_env) ''WITHDRAW''
     \<lparr>or_id = ''opT'', or_rawValue = 10000000, or_currencyTag = ''REAL'', or_description = ''Ted''\<rparr>
     (Some (ai_wallet payer_account)) None (tw_ledger unfunded_world)"

lemma payer_account_found:
  "os_getWalletAccountByWallet (operationService sample_ledger_env) ''wa'' ''REAL'' (tw_ledger unfunded_world) = Inr (Some payer_account)
    \<and> ai_active payer_account \<and> ai_accountNumber payer_account \<noteq> [] \<and> ai_branchNumber payer_account \<noteq> []"
  by code_simp

lemma unfunded_refused:
  "\<not> isInr (fst unfunded_answer)
    \<and> os_getOperationById (operationService sample_ledger_env) ''opT'' (snd unfunded_answer) = Inr None"
  by code_simp

lemma sample_ted_fields [simp]:
  "te_cfg sample_ted_env = sample_ted_config" "te_psp sample_ted_env = (\<lambda>_. Inr ())"
  "te_getUser sample_ted_env = (\<lambda>_. Inr (Some \<lparr>tu_id = 1, tu_document = ''11111111111'', tu_fullName = ''Ann''\<rparr>))"
  "tc_currencyTag sample_ted_config = ''REAL''" "tc_zroBankCode sample_ted_config = ''264''"
  "tc_tedTag sample_ted_config = ''WITHDRAW''" "tc_tedDescription sample_ted_config = ''Ted''"
  by (simp_all add: sample_ted_env_def sample_ted_config_def)


section \<open>Banks\<close>

definition listed_once :: "listed_bank list \<Rightarrow> bool" where
  "listed_once ds \<longleftrightarrow> ds \<noteq> [] \<and> distinct (map lb_ispb ds) \<and> (\<forall>b \<in> set ds. lb_deletedAt b = None)"

abbreviation own_bank_row :: "'l ted_env \<Rightarrow> listed_bank \<Rightarrow> bool" where
  "own_bank_row E \<equiv> \<lambda>b. lb_ispb b = tc_zroBankIspb (te_cfg E)"

text \<open>
  C9: After the list of banks was brought up to date without an error, the table is the reference
  function of the table before and the download: names taken over, new banks added, banks that are
  listed no more marked as deleted; the banks in force are exactly those downloaded, and the bank of
  the platform if it was in force before.
\<close>
theorem synced_banks_are_those_downloaded:
  assumes "SyncBankUseCase_execute E ds w = (Inr u, w')" and "listed_once ds"
    and "distinct (map lb_id (listedBanks (tw_db w)))"
  shows "listedBanks (tw_db w') = mirrored (ted_now E) (own_bank_row E) ds (listedBanks (tw_db w))
    \<and> in_force (listedBanks (tw_db w'))
      = lb_ispb ` set ds \<union> in_force (filter (own_bank_row E) (listedBanks (tw_db w)))"
proof -
  have "listedBanks (tw_db w') = mirrored (ted_now E) (own_bank_row E) ds (listedBanks (tw_db w))"
    using assms bank_rows.syncBanks_done unfolding SyncBankUseCase_execute_def listed_once_def by blast
  with assms(2) show ?thesis by (simp add: mirrored_in_force listed_once_def)
qed

definition sample_banks :: "listed_bank list" where
  "sample_banks = [bank_row ''b3'' ''00000000'' []]"

definition synced_world :: "ledger_service ted_world" where
  "synced_world = snd (SyncBankUseCase_execute sample_ted_env sample_banks ted_start_world)"

lemma sample_sync: "SyncBankUseCase_execute sample_ted_env sample_banks ted_start_world = (Inr (), synced_world)"
proof -
  have "fst (SyncBankUseCase_execute sample_ted_env sample_banks ted_start_world) = Inr ()"
    by code_simp
  then show ?thesis by (simp add: synced_world_def prod_eq_iff)
qed

lemma sample_banks_listed: "listed_once sample_banks"
  and sample_bank_keys: "distinct (map lb_id (listedBanks (tw_db ted_start_world)))"
  by (simp_all add: listed_once_def sample_banks_def bank_row_def ted_start_world_def)

lemma own_bank_listed:
  "filter (own_bank_row sample_ted_env) (listedBanks (tw_db ted_start_world)) = [bank_row ''b1'' ''26264220'' []]"
  by (simp add: bank_row_def ted_start_world_def sample_ted_env_def sample_ted_config_def)

theorem synced_banks_are_those_downloaded_witness:
  "in_force (listedBanks (tw_db synced_world)) = {''00000000'', ''26264220''}"
proof -
  have "in_force [bank_row i b c] = {b}" for i b c
    by (auto simp: in_force_def bank_row_def image_def)
  moreover have "lb_ispb ` set sample_banks = {''00000000''}"
    by (simp add: bank_row_def sample_banks_def)
  moreover note synced_banks_are_those_downloaded [OF sample_sync sample_banks_listed sample_bank_keys, THEN conjunct2]
  ultimately show ?thesis unfolding own_bank_listed by auto
qed

text \<open>
  C10: Bringing the list up to date again with the same download, at whatever time, changes nothing
  at all: no row is written and no event is emitted.
\<close>
theorem second_sync_is_silent:
  assumes "SyncBankUseCase_execute E ds w = (Inr u, w')" and "listed_once ds"
    and "distinct (map lb_id (listedBanks (tw_db w)))" and "te_cfg E' = te_cfg E"
  shows "SyncBankUseCase_execute E' ds w' = (Inr (), w')"
proof -
  have t: "listedBanks (tw_db w') = mirrored (ted_now E) (own_bank_row E) ds (listedBanks (tw_db w))"
    using assms bank_rows.syncBanks_done unfolding SyncBankUseCase_execute_def listed_once_def by blast
  show ?thesis
    unfolding SyncBankUseCase_execute_def using assms(2,4)
    by (intro bank_rows.syncBanks_settled)
      (auto simp: t mirrored_complete listed_once_def intro: mirrored_settled)
qed

theorem second_sync_is_silent_witness:
  "SyncBankUseCase_execute (sample_ted_env\<lparr>te_weekday := 6\<rparr>) sample_banks synced_world = (Inr (), synced_world)"
  by (rule second_sync_is_silent [OF sample_sync sample_banks_listed sample_bank_keys]) simp

end
