(* ===== verification/Spec2Isabelle.thy ===== *)
theory Spec2Isabelle
  imports Operation_Safety Limit_Ageing User_Limit_Invariants Pix_Key_Attempts Pix_Key_Runs
    Pix_Key_Buckets Dispute_Safety Banking_Safety
begin

text \<open>
  A verification development for the services of a Brazilian payments platform (a monorepo of NestJS
  microservices under apps/, sharing libraries under libs/). The services talk over Kafka, keep
  their state in a relational database through Sequelize and use Redis for caches. Their core logic
  lies in the use cases, apps/<service>/src/application/usecases, over the entities in
  src/domain/entities and the repositories in src/infrastructure/sequelize/repositories.

  \<^bold>\<open>Operations service\<close> (apps/operations): the ledger of the platform. A wallet account has a
  \<open>balance\<close> that can be spent and a \<open>pendingAmount\<close> that is blocked. An operation moves a value
  from the account of an owner to that of a beneficiary, either may be missing. Creating it
  (create.usecase.ts) checks the participants, the funds with an optional line of credit and the
  limits of the user, blocks the value and stores the operation as pending; accepting it
  (accept.usecase.ts) settles the value and writes an entry per account; reverting it
  (revert.usecase.ts) releases the value. Limits are kept per user and limit type, with a tracker of
  the amounts used, which a revert gives back (user_limit_tracker/).

  \<^item> \<open>Prelude\<close>: results and steps (exceptions as values), tables of rows, the repository locale.
  \<^item> \<open>Operations_Domain\<close>: entities as records, enumerations as datatypes, exceptions, events, the
    database and Redis as records, every repository query that the modelled use cases make.
  \<^item> \<open>Nighttime\<close>: the night interval of a limit, with the moment library as a parameter.
  \<^item> \<open>Limit_Check\<close>: \<open>checkUserLimits\<close> of create.usecase.ts with its trackers.
  \<^item> \<open>Create_Operation\<close>, \<open>Accept_Revert\<close>: the use cases, branch by branch, and the transaction
    interceptor that rolls the database back on an exception.
  \<^item> \<open>Books\<close>: what a successful creation does to the database, as one change per operation.
  \<^item> \<open>Ledger\<close>: an abstract ledger (hold, settle, release) that the use cases refine.
  \<^item> \<open>Invariants\<close>, \<open>Statements\<close>, \<open>Announcements\<close>, \<open>Operation_Safety\<close>: invariants over all sequences
    of requests and the properties that rest on them.
  \<^item> \<open>Limit_Tracker\<close>, \<open>Limit_Ageing\<close>: the handler of reverted operations and the cron that ages
    interval limits, page by page.
  \<^item> \<open>User_Limit_Update\<close>, \<open>User_Limit_Invariants\<close>: how users and administrators change limits.
  \<^item> \<open>Sample_Data\<close>, \<open>Sample_Requests\<close>: concrete rows and an evaluated run for the witnesses.

  \<^bold>\<open>Pix keys service\<close> (apps/pix-keys): the aliases (phone, e-mail, document, random key) that users
  register at the central directory of the Pix scheme through a PSP, and the claims by which a key
  moves between users (ownership) or institutions (portability). A key has one of twenty-odd states;
  a use case checks the state, talks to the PSP, stores the next one and emits an event that names
  it. Decoding a foreign key costs tokens of a bucket per user that refills with time.

  \<^item> \<open>Pix_Key_Domain\<close>: keys, claims, verifications, users and the queries on them.
  \<^item> \<open>Pix_Key_Registration\<close>, \<open>Pix_Key_Claims\<close>, \<open>Pix_Key_Dispatch\<close>: the use cases, in the order of
    the life of a key, and the controllers that choose between them.
  \<^item> \<open>Pix_Key_State\<close>, \<open>Pix_Key_Moves\<close>: the abstract life cycle of a key as a table of next states,
    and that each use case moves the keys along it.
  \<^item> \<open>Pix_Key_Requests\<close>, \<open>Pix_Key_Properties\<close>, \<open>Pix_Key_Attempts\<close>: requests, their sequences, and
    what holds over them. A request is any use case with any arguments and any answer of the PSP,
    committed or rolled back, which covers the controllers.
  \<^item> \<open>Pix_Key_Runs\<close>: the loop that fetches claims, which may never end and hence returns an option,
    and runs of several use cases.
  \<^item> \<open>Pix_Key_Decoding\<close>, \<open>Pix_Key_Buckets\<close>: decoding and the token bucket.

  The PSP, the users service and the validators of documents are parameters of the use cases. The
  table of past states of a key and the listings of keys are not modelled.

  \<^bold>\<open>Pix payments service\<close> (apps/pix-payments): payments that users send, deposits that arrive for
  them, devolutions of both, and disputes about them. A payment is created as pending or scheduled; its pending event makes
  the service block the value at the operations service and hand the payment to the PSP, or credit the
  other wallet of the platform directly; the answer of the PSP, asked by crons, completes it (the
  operation is accepted) or reverts it. A deposit passes seven checks that vote through Redis before it
  is credited; a suspect one is held until compliance approves or blocks it.

  \<^item> \<open>Pix_Payment_Domain\<close>, \<open>Pix_Payment_Services\<close>, \<open>Pix_Payment_World\<close>: entities, events with the
    validation of their fields, the environment, and database, Redis, outbox, calls to the PSP and the
    operations service as one state. The operations service is a record of functions on its state.
  \<^item> \<open>Pix_Payment_Creation\<close>, \<open>Pix_Payment_Processing\<close>, \<open>Pix_Deposits\<close>, \<open>Pix_Devolutions\<close>: the use
    cases of payments, deposits and devolutions.
  \<^item> \<open>Pix_Infraction_Domain\<close>, \<open>Pix_Infractions\<close>, \<open>Pix_Refunds\<close>: reports of fraud that are opened or
    received, requests of another bank for its money, the amounts blocked in the wallet of the
    customer until they are decided, and the devolution that answers a request.
  \<^item> \<open>Pix_Payment_Requests\<close>: any use case as a request to the service, by a controller (rolled back
    on an exception), an observer (committed) or a cron.
  \<^item> \<open>Pix_Payment_Frames\<close>, \<open>Pix_Dispute_Frames\<close>: rules that prove a use case inside a relation
    between states, once per relation (locales \<open>step_relation\<close>, \<open>pay_relation\<close>; \<open>undisputed\<close> and
    \<open>disputed\<close> for the relations on infractions, refunds and blocked amounts).
  \<^item> \<open>Pix_Payment_Ledger\<close>, \<open>Pix_Payment_Life\<close>: what payments rely on of the operations service
    (locale \<open>payment_ledger\<close>), and that every request keeps a payment and its operations in step.
  \<^item> \<open>Pix_Block_Ledger\<close>, \<open>Pix_Refund_Links\<close>: the same for blocked amounts (a sublocale of
    \<open>payment_ledger\<close>), and that a refund keeps its first devolution; both are instances of \<open>disputed\<close>.
  \<^item> \<open>Operations_Service\<close>: the client of the operations service over the use cases of that service, and
    the interpretation of \<open>payment_ledger\<close> on it; \<open>Sample_Payments\<close>, \<open>Sample_Disputes\<close>: evaluated
    runs; \<open>Payment_Safety\<close>, \<open>Dispute_Safety\<close>: what holds of the two services together.

  \<^bold>\<open>Banking service\<close> (apps/banking): transfers to other banks (TED) of users and of the back office,
  and the lists of banks and cities that others publish. Ordering a transfer checks the recipient, the
  working hours and holidays and stores it as pending; its event makes the service send it, through a
  PSP or to another wallet of the platform, with an operation at the operations service; the PSP
  confirms, forwards or rejects it, and a rejection creates an operation that gives the money back. The
  accounts that were used are kept as contacts of the user. Crons compare the lists with a download.

  \<^item> \<open>Banking_Domain\<close>: entities, events with the validation of their fields, database, repositories,
    and the answers of other services as an environment.
  \<^item> \<open>Banking_Teds\<close>, \<open>Banking_Admin\<close>, \<open>Banking_Lists\<close>: the use cases of transfers and contacts, of
    the back office, and of the lists of banks and cities.
  \<^item> \<open>Banking_Ledger\<close>: transfers and their operations in step, on the same locale \<open>payment_ledger\<close>.
  \<^item> \<open>Banking_Sync\<close>: a reference function for the lists (locale \<open>bank_list\<close>, on both tables of banks).
  \<^item> \<open>Banking_Platform\<close>, \<open>Banking_Safety\<close>: the service on the operations service, evaluated runs, and
    what holds of transfers, money and banks.

  Of the banking service the receipts, the listings, the tables of billets and cards, which no use
  case writes, and the download of the lists are not modelled.

  \<^bold>\<open>How the model corresponds to the code.\<close> Definitions carry the names of the functions they
  model, prefixed with the class where a name is used twice. A use case is a function from the
  database to a result, or a step on database and Redis where it has effects that survive an
  exception. A request runs in one database transaction, which the interceptor rolls back when the
  use case throws; writes to Redis and to fields of the instance stay, and so do those of an observer
  that swallows its exceptions and of a cron without transaction, which are steps on the database for
  that reason. Events wait in \<open>outbox\<close> until the commit. A repository hands out domain entities, so
  an association is kept by its identifier and the representation of columns is not modelled.
  Identifiers drawn by \<open>uuidV4()\<close> and the instant of a request are arguments. Amounts are integers
  in the smallest unit, which JavaScript computes exactly in the range the columns hold; prices are
  rationals, their rounding as floating-point numbers is not modelled. Absent values are \<open>None\<close>,
  with JavaScript's truthiness and coercions written out (\<open>truthy\<close>, \<open>toNum\<close>).

  \<^bold>\<open>What the lemmas show.\<close> Over every sequence of requests the blocked amount of an account is the
  sum of its pending operations, its entries form a statement that ends in its balance, accepted
  operations have exactly one entry per side, and operations that left the pending state never
  change; creating without credit never overdraws; what a creation stores can be accepted. Limits
  hold after every check and stay in order under every update. Loops are recursive functions that
  terminate; the page loop of the cron by the number of operations minus the page number. Theorems
  about behaviour that looks unintended are stated as the code behaves. The locale \<open>repository\<close>
  states what a table keyed by identifiers promises, \<open>lifecycle\<close> that rows follow a table of states
  over every run; both are interpreted on the tables and requests of the services.

  \<^bold>\<open>Not modelled.\<close> Transport, dependency injection and logging; HTTP gateways, which validate and
  forward; clients of external providers; listings, receipts, search indexes and reports; database
  migrations; concurrent interleaving of transactions (accounts are read with row locks). Of the
  services with use cases of their own the conversion of currencies (otc), users, compliance,
  quotations and the payments gateway are not modelled: they mostly store rows, call exchanges and
  relay messages, and their prices are floating-point numbers.
\<close>

end
